(* ===== verification/Drd_Prelude.thy ===== *)
theory Drd_Prelude
  imports Main "HOL-Library.Word"
begin

text \<open>
  Shared vocabulary of the development: the C integer types as words, the GLib error values
  that the daemon's functions report, the rule collections, and generic lemmas on lists and
  words that several components use.

  Conventions. A C function that returns \<open>gboolean\<close> and fills a \<open>GError **\<close> is a function
  into \<open>'a res\<close>: \<open>Inr\<close> for TRUE, \<open>Inl e\<close> for FALSE with the error \<open>e\<close>
  (\<open>Unset\<close> when the code returns FALSE without filling the error). Error messages and log
  output are dropped; the error's domain and code are kept. The \<open>g_return_if_fail\<close> type
  checks on \<open>self\<close> are discharged by the types of the model.
\<close>

type_synonym u8 = "8 word"
type_synonym u16 = "16 word"
type_synonym u32 = "32 word"
type_synonym u64 = "64 word"

datatype io_code =
    IoFailed | IoInvalidArgument | IoTimedOut | IoPending | IoNotSupported | IoNotFound
  | IoPermissionDenied | IoCancelled | IoErrno int

datatype gerror = GIo io_code | GOptionBadValue | Unset

type_synonym 'a res = "gerror + 'a"

abbreviation ok :: "unit res" where
  "ok \<equiv> Inr ()"

abbreviation fail_io :: "io_code \<Rightarrow> 'a res" where
  "fail_io c \<equiv> Inl (GIo c)"

definition is_ok :: "'a res \<Rightarrow> bool" where
  "is_ok r = (case r of Inl _ \<Rightarrow> False | Inr _ \<Rightarrow> True)"

lemma is_ok_simps [simp]: "is_ok (Inr x)" "\<not> is_ok (Inl e)"
  by (simp_all add: is_ok_def)

lemma is_ok_iff: "is_ok r \<longleftrightarrow> (\<exists>x. r = Inr x)"
  by (cases r) auto

text \<open>A function that can crash (\<open>None\<close>: an access outside a buffer or a failed assertion) returns,
  and its result satisfies \<open>P\<close>.\<close>

definition returns :: "'a option \<Rightarrow> ('a \<Rightarrow> bool) \<Rightarrow> bool" where
  "returns m P = (case m of None \<Rightarrow> False | Some x \<Rightarrow> P x)"

lemma returns_simps [simp]: "returns (Some x) P = P x" "\<not> returns None P"
  by (simp_all add: returns_def)

lemma returns_iff: "returns m P \<longleftrightarrow> (\<exists>x. m = Some x \<and> P x)"
  by (cases m) auto

lemma returns_mono: "returns m P \<Longrightarrow> (\<And>x. P x \<Longrightarrow> Q x) \<Longrightarrow> returns m Q"
  by (cases m) auto

text \<open>Rule collections: unfolding rules of a component's operations, and invariant rules.\<close>

named_theorems drd_ops
named_theorems drd_inv

text \<open>Cyclic index arithmetic of ring buffers.\<close>

lemma mod_add_inj_le:
  assumes "(h + i) mod n = (h + j) mod (n::nat)" "i \<le> j" "j < n"
  shows "i = j"
proof -
  have "n dvd (h + j) - (h + i)"
    using assms(1,2) by (metis add_le_cancel_left mod_eq_dvd_iff_nat)
  then have "n dvd j - i" by simp
  with assms(2,3) show ?thesis
    by (metis diff_is_0_eq diff_le_self le_antisym nat_dvd_not_less le_less_trans
        not_gr_zero zero_less_diff)
qed

lemma mod_add_inj:
  assumes "(h + i) mod n = (h + j) mod (n::nat)" "i < n" "j < n"
  shows "i = j"
  using mod_add_inj_le [of h i n j] mod_add_inj_le [of h j n i] assms
  by (cases "i \<le> j") auto

lemma nth_list_update_if:
  "j < length xs \<Longrightarrow> xs[i := v] ! j = (if i = j then v else xs ! j)"
  by (auto simp: nth_list_update)

text \<open>Writing one cell per element of a list, at distinct indices.\<close>

definition write_all :: "('t \<Rightarrow> nat) \<Rightarrow> ('t \<Rightarrow> 'a) \<Rightarrow> 't list \<Rightarrow> 'a list \<Rightarrow> 'a list" where
  "write_all ix f ts xs = fold (\<lambda>t ys. ys[ix t := f t]) ts xs"

lemma write_all_Nil [simp]: "write_all ix f [] xs = xs"
  by (simp add: write_all_def)

lemma write_all_Cons [simp]: "write_all ix f (t # ts) xs = write_all ix f ts (xs[ix t := f t])"
  by (simp add: write_all_def)

lemma length_write_all [simp]: "length (write_all ix f ts xs) = length xs"
  by (induction ts arbitrary: xs) auto

lemma write_all_other: "i \<notin> ix ` set ts \<Longrightarrow> write_all ix f ts xs ! i = xs ! i"
  by (induction ts arbitrary: xs) auto

lemma nth_write_all:
  "distinct (map ix ts) \<Longrightarrow> t \<in> set ts \<Longrightarrow> ix t < length xs \<Longrightarrow> write_all ix f ts xs ! ix t = f t"
proof (induction ts arbitrary: xs)
  case (Cons u ts)
  then show ?case
    by (cases "t = u") (auto simp: write_all_other)
qed simp

end
