(* ===== verification/Doubles.thy ===== *)
theory Doubles
  imports Complex_Main Drd_Prelude "HOL-Library.Log_Nat"
begin

text \<open>
  The C \<open>double\<close> (\<open>gdouble\<close>) arithmetic the daemon uses: a double is the rational it denotes,
  and an operation is the exact rational operation followed by rounding to 53 significant
  bits, ties to even. Subnormals, infinities and NaN do not occur in it: the operands are counters
  and pixel coordinates well inside the normal range. A value that is read from a key file and
  only compared may be any double (\<open>ext_double\<close>).
\<close>

type_synonym gdouble = rat

datatype ext_double = Finite gdouble | Pos_infinity | Neg_infinity | Not_a_number

text \<open>The comparisons \<open>t < 0.0\<close> and \<open>x >= t\<close>: with NaN every comparison is false.\<close>

definition dbl_negative :: "ext_double \<Rightarrow> bool" where
  "dbl_negative t = (case t of Finite y \<Rightarrow> y < 0 | Neg_infinity \<Rightarrow> True | _ \<Rightarrow> False)"

definition dbl_reaches :: "gdouble \<Rightarrow> ext_double \<Rightarrow> bool" where
  "dbl_reaches x t = (case t of Finite y \<Rightarrow> x \<ge> y | Neg_infinity \<Rightarrow> True | _ \<Rightarrow> False)"

definition round_half_even :: "rat \<Rightarrow> int" where
  "round_half_even x =
     (let f = \<lfloor>x\<rfloor>; d = x - of_int f
      in if d < 1/2 then f else if 1/2 < d then f + 1 else if even f then f else f + 1)"

text \<open>The exponent \<open>e\<close> with \<open>2 ^ e \<le> p / q < 2 ^ (e + 1)\<close>, for positive \<open>p\<close> and \<open>q\<close>.\<close>

definition binade :: "int \<Rightarrow> int \<Rightarrow> int" where
  "binade p q =
     (let d = bitlen p - bitlen q
      in if (if 0 \<le> d then q * 2 ^ nat d \<le> p else q \<le> p * 2 ^ nat (- d)) then d else d - 1)"

definition pow2 :: "int \<Rightarrow> rat" where
  "pow2 e = (if 0 \<le> e then 2 ^ nat e else 1 / 2 ^ nat (- e))"

definition dbl_round :: "rat \<Rightarrow> gdouble" where
  "dbl_round x =
     (if x = 0 then 0
      else case quotient_of \<bar>x\<bar> of (p, q) \<Rightarrow>
        let e = binade p q - 52; m = round_half_even (\<bar>x\<bar> / pow2 e)
        in sgn x * of_int m * pow2 e)"

definition dbl_div :: "gdouble \<Rightarrow> gdouble \<Rightarrow> gdouble" where
  "dbl_div a b = dbl_round (a / b)"

definition dbl_mul :: "gdouble \<Rightarrow> gdouble \<Rightarrow> gdouble" where
  "dbl_mul a b = dbl_round (a * b)"

definition dbl_add :: "gdouble \<Rightarrow> gdouble \<Rightarrow> gdouble" where
  "dbl_add a b = dbl_round (a + b)"

lemma dbl_round_0 [simp]: "dbl_round 0 = 0"
  by (simp add: dbl_round_def)

lemma pow2_pos [simp]: "0 < pow2 e"
  by (simp add: pow2_def)

lemma round_half_even_nonneg: "0 \<le> x \<Longrightarrow> 0 \<le> round_half_even x"
  by (auto simp: round_half_even_def Let_def)

lemma dbl_round_nonneg: "0 \<le> x \<Longrightarrow> 0 \<le> dbl_round x"
  by (auto simp: dbl_round_def Let_def split: prod.splits
      intro!: mult_nonneg_nonneg round_half_even_nonneg less_imp_le [OF pow2_pos]
        divide_nonneg_nonneg)

subsection \<open>The rounding error\<close>

lemma round_half_even_error: "\<bar>of_int (round_half_even y) - y\<bar> \<le> 1 / 2"
proof -
  have "of_int \<lfloor>y\<rfloor> \<le> y" "y < of_int \<lfloor>y\<rfloor> + 1" by linarith+
  then show ?thesis
    by (auto simp: round_half_even_def Let_def abs_le_iff)
qed

lemma pow2_add_1: "pow2 (e + 1) = 2 * pow2 e"
proof (cases "0 \<le> e")
  case True
  then show ?thesis by (simp add: pow2_def nat_add_distrib)
next
  case False
  then obtain n where "e = - int n - 1"
    by (metis add.commute add_diff_cancel_left' diff_minus_eq_add minus_diff_eq not_le zle_iff_zadd
        int_one_le_iff_zero_less neg_0_less_iff_less uminus_add_conv_diff zero_le_imp_eq_int)
  then show ?thesis by (simp add: pow2_def nat_add_distrib)
qed

lemma pow2_diff: "pow2 (e - int n) = pow2 e / 2 ^ n"
proof (induction n)
  case 0
  then show ?case by simp
next
  case (Suc n)
  have "pow2 (e - int n) = 2 * pow2 (e - int (Suc n))"
    using pow2_add_1 [of "e - int (Suc n)"] by simp
  with Suc show ?case by simp
qed

lemma of_int_pow_le:
  "(a::int) * 2 ^ n \<le> b \<Longrightarrow> (of_int a :: rat) * 2 ^ n \<le> of_int b"
  "(b::int) \<le> a * 2 ^ n \<Longrightarrow> (of_int b :: rat) \<le> of_int a * 2 ^ n"
  using of_int_le_iff [of "a * 2 ^ n" b, where 'a = rat]
    of_int_le_iff [of b "a * 2 ^ n", where 'a = rat] by simp_all

lemma binade_lower:
  assumes "0 < p" "0 < q"
  shows "pow2 (binade p q) \<le> of_int p / of_int q"
proof -
  let ?d = "bitlen p - bitlen q"
  have bp: "2 ^ nat (bitlen p - 1) \<le> p" "p < 2 ^ nat (bitlen p)"
    and bq: "2 ^ nat (bitlen q - 1) \<le> q" "q < 2 ^ nat (bitlen q)"
    using assms bitlen_bounds by blast+
  have pos: "0 < bitlen p" "0 < bitlen q" using assms by (simp_all add: less_le bitlen_nonneg bitlen_eq_zero_iff eq_commute [of 0])
  show ?thesis
  proof (cases "(if 0 \<le> ?d then q * 2 ^ nat ?d \<le> p else q \<le> p * 2 ^ nat (- ?d))")
    case True
    then have b: "binade p q = ?d" by (simp add: binade_def Let_def)
    show ?thesis
    proof (cases "0 \<le> ?d")
      case d: True
      then have "(of_int q :: rat) * 2 ^ nat ?d \<le> of_int p"
        using True by (intro of_int_pow_le) simp
      then show ?thesis unfolding b using d assms by (simp add: pow2_def field_simps)
    next
      case d: False
      then have "(of_int q :: rat) \<le> of_int p * 2 ^ nat (- ?d)"
        using True by (intro of_int_pow_le) simp
      then show ?thesis unfolding b using d assms by (simp add: pow2_def field_simps)
    qed
  next
    case False
    then have b: "binade p q = ?d - 1" by (simp add: binade_def Let_def)
    show ?thesis
    proof (cases "0 \<le> ?d - 1")
      case d: True
      have "nat (bitlen q) + nat (?d - 1) = nat (bitlen p - 1)" using d pos by simp
      then have "(2::int) ^ nat (bitlen q) * 2 ^ nat (?d - 1) = 2 ^ nat (bitlen p - 1)"
        by (metis power_add)
      then have "q * 2 ^ nat (?d - 1) \<le> p"
        using bp(1) bq(2) mult_right_mono [of q "2 ^ nat (bitlen q)" "2 ^ nat (?d - 1)"] by simp
      then have "(of_int q :: rat) * 2 ^ nat (?d - 1) \<le> of_int p"
        by (rule of_int_pow_le)
      then show ?thesis unfolding b using d assms by (simp add: pow2_def field_simps)
    next
      case d: False
      have "nat (bitlen p - 1) + nat (- (?d - 1)) = nat (bitlen q)" using d pos by simp
      then have "(2::int) ^ nat (bitlen p - 1) * 2 ^ nat (- (?d - 1)) = 2 ^ nat (bitlen q)"
        by (metis power_add)
      then have "q \<le> p * 2 ^ nat (- (?d - 1))"
        using bp(1) bq(2) mult_right_mono [of "2 ^ nat (bitlen p - 1)" p "2 ^ nat (- (?d - 1))"] by simp
      then have "(of_int q :: rat) \<le> of_int p * 2 ^ nat (- (?d - 1))"
        by (rule of_int_pow_le)
      then show ?thesis unfolding b using d assms by (simp add: pow2_def field_simps)
    qed
  qed
qed

text \<open>The relative error of rounding is at most \<open>2 ^ -53\<close>.\<close>

lemma dbl_round_error: "\<bar>dbl_round x - x\<bar> \<le> \<bar>x\<bar> / 2 ^ 53"
proof (cases "x = 0")
  case False
  obtain p q where pq: "quotient_of \<bar>x\<bar> = (p, q)" by (metis surj_pair)
  have x: "\<bar>x\<bar> = of_int p / of_int q" by (rule quotient_of_div [OF pq])
  have q: "0 < q" by (rule quotient_of_denom_pos [OF pq])
  have p: "0 < p"
    using x q False by (metis abs_eq_0 divide_nonpos_pos not_le of_int_0_less_iff of_int_le_0_iff
        zero_less_abs_iff)
  define e where "e = binade p q - 52"
  define m where "m = round_half_even (\<bar>x\<bar> / pow2 e)"
  have r: "dbl_round x = sgn x * of_int m * pow2 e"
    using False pq by (simp add: dbl_round_def Let_def e_def m_def)
  have "\<bar>x\<bar> = \<bar>x\<bar> / pow2 e * pow2 e"
    using pow2_pos [of e] by (simp add: less_le)
  moreover have "x = sgn x * \<bar>x\<bar>" by (simp add: sgn_mult_abs)
  ultimately have "dbl_round x - x = sgn x * (of_int m - \<bar>x\<bar> / pow2 e) * pow2 e"
    unfolding r by (metis (no_types, opaque_lifting) left_diff_distrib mult.assoc right_diff_distrib)
  then have "\<bar>dbl_round x - x\<bar> = \<bar>of_int m - \<bar>x\<bar> / pow2 e\<bar> * pow2 e"
    using False abs_of_pos [OF pow2_pos [of e]] by (simp add: abs_mult)
  also have "\<dots> \<le> 1 / 2 * pow2 e"
    using round_half_even_error [of "\<bar>x\<bar> / pow2 e"]
    by (intro mult_right_mono less_imp_le [OF pow2_pos]) (simp add: m_def)
  also have "pow2 e = pow2 (binade p q) / 2 ^ 52"
    using pow2_diff [of "binade p q" 52] by (simp add: e_def)
  also have "1 / 2 * (pow2 (binade p q) / 2 ^ 52) = pow2 (binade p q) / 2 ^ 53" by simp
  also have "\<dots> \<le> \<bar>x\<bar> / 2 ^ 53"
    using binade_lower [OF p q] x by (intro divide_right_mono) auto
  finally show ?thesis .
qed simp

end
