(* ===== verification/Encoding_Options.thy ===== *)
theory Encoding_Options
  imports Doubles
begin

text \<open>
  The encoding options of \<^verbatim>\<open>src/core/drd_encoding_options.h\<close>: the mode, its printed name, the
  defaults and the option record that the configuration fills and the runtime passes to the
  encoder. \<open>guint\<close> fields are natural numbers; arithmetic that can leave 32 bits is wrapped
  explicitly with \<open>wrap32\<close> where the code computes it.
\<close>

definition wrap32 :: "nat \<Rightarrow> nat" where
  "wrap32 n = n mod 2 ^ 32"

definition wrap64 :: "nat \<Rightarrow> nat" where
  "wrap64 n = n mod 2 ^ 64"

lemma wrap32_id [simp]: "n < 2 ^ 32 \<Longrightarrow> wrap32 n = n"
  by (simp add: wrap32_def)

lemma wrap64_id [simp]: "n < 2 ^ 64 \<Longrightarrow> wrap64 n = n"
  by (simp add: wrap64_def)

lemma wrap32_less [simp]: "wrap32 n < 2 ^ 32"
  by (simp add: wrap32_def)

datatype encoding_mode = MODE_RAW | MODE_RFX | MODE_H264 | MODE_AUTO

definition drd_encoding_mode_to_string :: "encoding_mode \<Rightarrow> string" where
  "drd_encoding_mode_to_string mode =
     (case mode of MODE_RAW \<Rightarrow> ''raw'' | MODE_RFX \<Rightarrow> ''rfx'' | MODE_H264 \<Rightarrow> ''h264''
      | MODE_AUTO \<Rightarrow> ''auto'')"

definition DRD_H264_DEFAULT_BITRATE :: nat where "DRD_H264_DEFAULT_BITRATE = 5000000"
definition DRD_H264_DEFAULT_FRAMERATE :: nat where "DRD_H264_DEFAULT_FRAMERATE = 60"
definition DRD_H264_DEFAULT_QP :: nat where "DRD_H264_DEFAULT_QP = 15"
definition DRD_H264_DEFAULT_HW_ACCEL :: bool where "DRD_H264_DEFAULT_HW_ACCEL = False"
definition DRD_H264_DEFAULT_VM_SUPPORT :: bool where "DRD_H264_DEFAULT_VM_SUPPORT = False"
definition DRD_GFX_DEFAULT_LARGE_CHANGE_THRESHOLD :: ext_double where
  "DRD_GFX_DEFAULT_LARGE_CHANGE_THRESHOLD = Finite (dbl_round (5 / 100))"
definition DRD_GFX_DEFAULT_PROGRESSIVE_REFRESH_INTERVAL :: nat where
  "DRD_GFX_DEFAULT_PROGRESSIVE_REFRESH_INTERVAL = 6"
definition DRD_GFX_DEFAULT_PROGRESSIVE_REFRESH_TIMEOUT_MS :: nat where
  "DRD_GFX_DEFAULT_PROGRESSIVE_REFRESH_TIMEOUT_MS = 100"

record encoding_options =
  o_width :: nat
  o_height :: nat
  o_mode :: encoding_mode
  o_enable_frame_diff :: bool
  o_h264_bitrate :: nat
  o_h264_framerate :: nat
  o_h264_qp :: nat
  o_h264_hw_accel :: bool
  o_h264_vm_support :: bool
  o_large_change_threshold :: ext_double
  o_refresh_interval :: nat
  o_refresh_timeout_ms :: nat

lemma mode_to_string_inj: "inj drd_encoding_mode_to_string"
  by (rule injI) (simp add: drd_encoding_mode_to_string_def split: encoding_mode.splits)

end
