(* ===== verification/Config.thy ===== *)
theory Config
  imports Encoding_Options
begin

text \<open>
  The configuration of \<^verbatim>\<open>src/core/drd_config.c\<close>: its defaults, the loading of a key file
  section by section, the merge of the command line and the checks at its end.

  The key file (\<open>GKeyFile\<close>) and the path functions of GLib are parameters: \<open>key_file\<close> holds
  the answers of the accessors the code calls (a string accessor may answer NULL, an integer
  accessor answers a \<open>gint\<close>), \<open>path_api\<close> the path functions. A loading step maps the
  configuration to the configuration it leaves and its result, so that the changes made before
  a failure are kept, as in the code.
\<close>

subsection \<open>The state and its defaults\<close>

datatype runtime_mode = RUNTIME_MODE_USER | RUNTIME_MODE_SYSTEM | RUNTIME_MODE_HANDOVER

definition DRD_PAM_SERVICE_DEFAULT :: string where
  "DRD_PAM_SERVICE_DEFAULT = ''deepin-remote-desktop''"

definition DRD_PAM_SERVICE_SYSTEM :: string where
  "DRD_PAM_SERVICE_SYSTEM = ''deepin-remote-desktop-system''"

record config =
  cf_bind_address :: "string option"
  cf_port :: nat
  cf_certificate_path :: "string option"
  cf_private_key_path :: "string option"
  cf_nla_username :: "string option"
  cf_nla_password :: "string option"
  cf_base_dir :: "string option"
  cf_nla_enabled :: bool
  cf_runtime_mode :: runtime_mode
  cf_pam_service :: "string option"
  cf_pam_service_overridden :: bool
  cf_encoding :: encoding_options
  cf_capture_target_fps :: nat
  cf_capture_stats_interval_sec :: nat

record path_api =
  path_is_absolute :: "string \<Rightarrow> bool"
  path_build :: "string \<Rightarrow> string \<Rightarrow> string"
  path_canonicalize :: "string \<Rightarrow> string"
  path_dirname :: "string \<Rightarrow> string option"
  path_current_dir :: string

record key_file =
  kf_has_key :: "string \<Rightarrow> string \<Rightarrow> bool"
  kf_get_string :: "string \<Rightarrow> string \<Rightarrow> string option"
  kf_get_integer :: "string \<Rightarrow> string \<Rightarrow> 32 word"
  kf_get_double :: "string \<Rightarrow> string \<Rightarrow> ext_double"

definition drd_config_refresh_pam_service :: "config \<Rightarrow> config" where
  "drd_config_refresh_pam_service self =
     (if cf_pam_service_overridden self then self
      else if cf_runtime_mode self = RUNTIME_MODE_SYSTEM
           then self\<lparr>cf_pam_service := Some DRD_PAM_SERVICE_SYSTEM\<rparr>
           else self\<lparr>cf_pam_service := Some DRD_PAM_SERVICE_DEFAULT\<rparr>)"

definition drd_config_init :: "path_api \<Rightarrow> config" where
  "drd_config_init fs = drd_config_refresh_pam_service
     \<lparr>cf_bind_address = Some ''0.0.0.0'', cf_port = 3390,
      cf_certificate_path = None, cf_private_key_path = None,
      cf_nla_username = None, cf_nla_password = None,
      cf_base_dir = Some (path_current_dir fs),
      cf_nla_enabled = True, cf_runtime_mode = RUNTIME_MODE_USER,
      cf_pam_service = None, cf_pam_service_overridden = False,
      cf_encoding = \<lparr>o_width = 1024, o_height = 768, o_mode = MODE_RFX,
        o_enable_frame_diff = True,
        o_h264_bitrate = DRD_H264_DEFAULT_BITRATE,
        o_h264_framerate = DRD_H264_DEFAULT_FRAMERATE,
        o_h264_qp = DRD_H264_DEFAULT_QP,
        o_h264_hw_accel = DRD_H264_DEFAULT_HW_ACCEL,
        o_h264_vm_support = DRD_H264_DEFAULT_VM_SUPPORT,
        o_large_change_threshold = DRD_GFX_DEFAULT_LARGE_CHANGE_THRESHOLD,
        o_refresh_interval = DRD_GFX_DEFAULT_PROGRESSIVE_REFRESH_INTERVAL,
        o_refresh_timeout_ms = DRD_GFX_DEFAULT_PROGRESSIVE_REFRESH_TIMEOUT_MS\<rparr>,
      cf_capture_target_fps = 60, cf_capture_stats_interval_sec = 5\<rparr>"

definition drd_config_new :: "path_api \<Rightarrow> config" where
  "drd_config_new fs = drd_config_init fs"

subsection \<open>Parsing of values\<close>

text \<open>\<open>g_ascii_tolower\<close> and \<open>g_ascii_strcasecmp\<close> (which the code only compares with 0).\<close>

definition ascii_tolower :: "char \<Rightarrow> char" where
  "ascii_tolower c =
     (let n = (of_char c :: nat)
      in if 65 \<le> n \<and> n \<le> 90 then char_of (n + 32) else c)"

definition strcaseeq :: "string \<Rightarrow> string \<Rightarrow> bool" where
  "strcaseeq a b \<longleftrightarrow> map ascii_tolower a = map ascii_tolower b"

definition drd_config_parse_bool :: "string option \<Rightarrow> bool res" where
  "drd_config_parse_bool value =
     (case value of None \<Rightarrow> Inl Unset
      | Some v \<Rightarrow>
          if strcaseeq v ''true'' \<or> strcaseeq v ''yes'' \<or> strcaseeq v ''1'' then Inr True
          else if strcaseeq v ''false'' \<or> strcaseeq v ''no'' \<or> strcaseeq v ''0'' then Inr False
          else fail_io IoInvalidArgument)"

definition drd_config_parse_runtime_mode :: "string option \<Rightarrow> runtime_mode res" where
  "drd_config_parse_runtime_mode value =
     (case value of None \<Rightarrow> Inl Unset
      | Some v \<Rightarrow>
          if strcaseeq v ''user'' then Inr RUNTIME_MODE_USER
          else if strcaseeq v ''system'' then Inr RUNTIME_MODE_SYSTEM
          else if strcaseeq v ''handover'' then Inr RUNTIME_MODE_HANDOVER
          else fail_io IoInvalidArgument)"

definition drd_config_set_runtime_mode_internal :: "config \<Rightarrow> runtime_mode \<Rightarrow> config" where
  "drd_config_set_runtime_mode_internal self mode =
     (if cf_runtime_mode self = mode then self
      else drd_config_refresh_pam_service (self\<lparr>cf_runtime_mode := mode\<rparr>))"

abbreviation upd_encoding :: "(encoding_options \<Rightarrow> encoding_options) \<Rightarrow> config \<Rightarrow> config" where
  "upd_encoding f self \<equiv> self\<lparr>cf_encoding := f (cf_encoding self)\<rparr>"

definition drd_config_set_mode_from_string ::
    "config \<Rightarrow> string option \<Rightarrow> config \<times> unit res" where
  "drd_config_set_mode_from_string self value =
     (case value of None \<Rightarrow> (self, Inl Unset)
      | Some v \<Rightarrow>
          if strcaseeq v ''h264'' then (upd_encoding (o_mode_update (\<lambda>_. MODE_H264)) self, ok)
          else if strcaseeq v ''rfx'' then (upd_encoding (o_mode_update (\<lambda>_. MODE_RFX)) self, ok)
          else if strcaseeq v ''auto'' then (upd_encoding (o_mode_update (\<lambda>_. MODE_AUTO)) self, ok)
          else (self, fail_io IoInvalidArgument))"

definition drd_config_override_pam_service :: "config \<Rightarrow> string option \<Rightarrow> config" where
  "drd_config_override_pam_service self value =
     (case value of None \<Rightarrow> self
      | Some v \<Rightarrow> if v = [] then self
          else self\<lparr>cf_pam_service := Some v, cf_pam_service_overridden := True\<rparr>)"

definition drd_config_resolve_path :: "path_api \<Rightarrow> config \<Rightarrow> string option \<Rightarrow> string option" where
  "drd_config_resolve_path fs self value =
     (case value of None \<Rightarrow> None
      | Some v \<Rightarrow>
          if path_is_absolute fs v then Some v
          else let base = (case cf_base_dir self of Some b \<Rightarrow> b | None \<Rightarrow> path_current_dir fs)
               in Some (path_canonicalize fs (path_build fs base v)))"

subsection \<open>Loading a key file\<close>

text \<open>\<open>thn\<close> runs the next step unless a step before it has failed. The four forms of a key the
  file repeats: a string key with a parser, an integer key that is ignored when it is not
  positive, one that is an error below a bound, and a boolean key.\<close>

type_synonym load_step = "config \<Rightarrow> config \<times> unit res"

definition thn :: "config \<times> unit res \<Rightarrow> load_step \<Rightarrow> config \<times> unit res" where
  "thn r f = (case r of (s, Inl e) \<Rightarrow> (s, Inl e) | (s, Inr _) \<Rightarrow> f s)"

definition parsed :: "'a res \<Rightarrow> ('a \<Rightarrow> config \<Rightarrow> config) \<Rightarrow> load_step" where
  "parsed r set_it self = (case r of Inl e \<Rightarrow> (self, Inl e) | Inr v \<Rightarrow> (set_it v self, ok))"

definition when_key :: "key_file \<Rightarrow> string \<Rightarrow> string \<Rightarrow> load_step \<Rightarrow> load_step" where
  "when_key kf grp key f self = (if kf_has_key kf grp key then f self else (self, ok))"

definition int_if_positive ::
    "key_file \<Rightarrow> string \<Rightarrow> string \<Rightarrow> (nat \<Rightarrow> config \<Rightarrow> config) \<Rightarrow> load_step" where
  "int_if_positive kf grp key set_it = when_key kf grp key
     (\<lambda>self. let v = sint (kf_get_integer kf grp key)
             in if v > 0 then (set_it (nat v) self, ok) else (self, ok))"

definition int_at_least ::
    "key_file \<Rightarrow> string \<Rightarrow> string \<Rightarrow> int \<Rightarrow> (nat \<Rightarrow> config \<Rightarrow> config) \<Rightarrow> load_step" where
  "int_at_least kf grp key low set_it = when_key kf grp key
     (\<lambda>self. let v = sint (kf_get_integer kf grp key)
             in if v < low then (self, fail_io IoInvalidArgument) else (set_it (nat v) self, ok))"

definition bool_key ::
    "key_file \<Rightarrow> string \<Rightarrow> string \<Rightarrow> (bool \<Rightarrow> config \<Rightarrow> config) \<Rightarrow> load_step" where
  "bool_key kf grp key set_it = when_key kf grp key
     (parsed (drd_config_parse_bool (kf_get_string kf grp key)) set_it)"

definition load_server :: "key_file \<Rightarrow> load_step" where
  "load_server kf self =
     thn (when_key kf ''server'' ''bind_address''
       (\<lambda>s. (s\<lparr>cf_bind_address := kf_get_string kf ''server'' ''bind_address''\<rparr>, ok)) self)
     (when_key kf ''server'' ''port''
       (\<lambda>s. let v = sint (kf_get_integer kf ''server'' ''port'')
            in if v \<le> 0 \<or> v > 65535 then (s, fail_io IoInvalidArgument)
               else (s\<lparr>cf_port := nat v\<rparr>, ok)))"

definition load_tls :: "path_api \<Rightarrow> key_file \<Rightarrow> load_step" where
  "load_tls fs kf self =
     thn (when_key kf ''tls'' ''certificate''
       (\<lambda>s. (s\<lparr>cf_certificate_path :=
                 drd_config_resolve_path fs s (kf_get_string kf ''tls'' ''certificate'')\<rparr>, ok))
       (self\<lparr>cf_certificate_path := None, cf_private_key_path := None\<rparr>))
     (when_key kf ''tls'' ''private_key''
       (\<lambda>s. (s\<lparr>cf_private_key_path :=
                 drd_config_resolve_path fs s (kf_get_string kf ''tls'' ''private_key'')\<rparr>, ok)))"

definition load_capture :: "key_file \<Rightarrow> load_step" where
  "load_capture kf self =
     thn (thn (thn
       (int_if_positive kf ''capture'' ''width''
          (\<lambda>v. upd_encoding (o_width_update (\<lambda>_. v))) self)
       (int_if_positive kf ''capture'' ''height'' (\<lambda>v. upd_encoding (o_height_update (\<lambda>_. v)))))
       (int_if_positive kf ''capture'' ''target_fps'' (\<lambda>v s. s\<lparr>cf_capture_target_fps := v\<rparr>)))
       (int_if_positive kf ''capture'' ''stats_interval_sec''
          (\<lambda>v s. s\<lparr>cf_capture_stats_interval_sec := v\<rparr>))"

definition load_encoding_h264 :: "key_file \<Rightarrow> load_step" where
  "load_encoding_h264 kf self =
     thn (thn (thn (thn (thn (thn
       (when_key kf ''encoding'' ''mode''
          (\<lambda>s. drd_config_set_mode_from_string s (kf_get_string kf ''encoding'' ''mode'')) self)
       (bool_key kf ''encoding'' ''enable_diff''
          (\<lambda>v. upd_encoding (o_enable_frame_diff_update (\<lambda>_. v)))))
       (int_at_least kf ''encoding'' ''h264_bitrate'' 1
          (\<lambda>v. upd_encoding (o_h264_bitrate_update (\<lambda>_. v)))))
       (int_at_least kf ''encoding'' ''h264_framerate'' 1
          (\<lambda>v. upd_encoding (o_h264_framerate_update (\<lambda>_. v)))))
       (int_at_least kf ''encoding'' ''h264_qp'' 1
          (\<lambda>v. upd_encoding (o_h264_qp_update (\<lambda>_. v)))))
       (bool_key kf ''encoding'' ''h264_hw_accel''
          (\<lambda>v. upd_encoding (o_h264_hw_accel_update (\<lambda>_. v)))))
       (bool_key kf ''encoding'' ''h264_vm_support''
          (\<lambda>v. upd_encoding (o_h264_vm_support_update (\<lambda>_. v))))"

definition load_encoding_gfx :: "key_file \<Rightarrow> load_step" where
  "load_encoding_gfx kf self =
     thn (thn
       (when_key kf ''encoding'' ''gfx_large_change_threshold''
          (\<lambda>s. let threshold = kf_get_double kf ''encoding'' ''gfx_large_change_threshold''
               in if dbl_negative threshold then (s, fail_io IoInvalidArgument)
                  else (upd_encoding (o_large_change_threshold_update (\<lambda>_. threshold)) s, ok)) self)
       (int_at_least kf ''encoding'' ''gfx_progressive_refresh_interval'' 0
          (\<lambda>v. upd_encoding (o_refresh_interval_update (\<lambda>_. v)))))
       (int_at_least kf ''encoding'' ''gfx_progressive_refresh_timeout_ms'' 0
          (\<lambda>v. upd_encoding (o_refresh_timeout_ms_update (\<lambda>_. v))))"

text \<open>The section \<open>auth\<close>; \<open>nla_auth_override\<close> tells whether it has decided on NLA.\<close>

definition nla_auth_override :: "key_file \<Rightarrow> bool" where
  "nla_auth_override kf \<longleftrightarrow> kf_has_key kf ''auth'' ''enable_nla'' \<or> kf_has_key kf ''auth'' ''nla''"

definition load_auth :: "key_file \<Rightarrow> load_step" where
  "load_auth kf self =
     thn (thn (thn (thn
       (when_key kf ''auth'' ''username''
          (\<lambda>s. (s\<lparr>cf_nla_username := kf_get_string kf ''auth'' ''username''\<rparr>, ok)) self)
       (when_key kf ''auth'' ''password''
          (\<lambda>s. (s\<lparr>cf_nla_password := kf_get_string kf ''auth'' ''password''\<rparr>, ok))))
       (when_key kf ''auth'' ''mode''
          (\<lambda>s. case kf_get_string kf ''auth'' ''mode'' of
                 Some m \<Rightarrow> if strcaseeq m ''static'' then (s\<lparr>cf_nla_enabled := True\<rparr>, ok)
                           else (s, fail_io IoInvalidArgument)
               | None \<Rightarrow> (s, fail_io IoInvalidArgument))))
       (if kf_has_key kf ''auth'' ''enable_nla''
        then bool_key kf ''auth'' ''enable_nla'' (\<lambda>v s. s\<lparr>cf_nla_enabled := v\<rparr>)
        else bool_key kf ''auth'' ''nla'' (\<lambda>v s. s\<lparr>cf_nla_enabled := v\<rparr>)))
       (when_key kf ''auth'' ''pam_service''
          (\<lambda>s. (drd_config_override_pam_service s (kf_get_string kf ''auth'' ''pam_service''), ok)))"

definition load_service :: "key_file \<Rightarrow> load_step" where
  "load_service kf self =
     thn
       (if kf_has_key kf ''service'' ''runtime_mode''
        then parsed (drd_config_parse_runtime_mode (kf_get_string kf ''service'' ''runtime_mode''))
               (\<lambda>m s. drd_config_set_runtime_mode_internal s m) self
        else bool_key kf ''service'' ''system''
               (\<lambda>v s. drd_config_set_runtime_mode_internal s
                        (if v then RUNTIME_MODE_SYSTEM else RUNTIME_MODE_USER)) self)
       (\<lambda>s. if nla_auth_override kf then (s, ok)
            else bool_key kf ''service'' ''rdp_sso'' (\<lambda>v s. s\<lparr>cf_nla_enabled := \<not> v\<rparr>) s)"

definition drd_config_load_from_key_file :: "path_api \<Rightarrow> key_file \<Rightarrow> load_step" where
  "drd_config_load_from_key_file fs kf self =
     thn (thn (thn (thn (thn (thn (load_server kf self)
       (load_tls fs kf)) (load_capture kf)) (load_encoding_h264 kf)) (load_encoding_gfx kf))
       (load_auth kf)) (load_service kf)"

definition drd_config_new_from_file ::
    "path_api \<Rightarrow> (string \<Rightarrow> key_file res) \<Rightarrow> string \<Rightarrow> config res" where
  "drd_config_new_from_file fs load_file path =
     (case load_file path of Inl e \<Rightarrow> Inl e
      | Inr kf \<Rightarrow>
          let base = (case path_dirname fs path of Some d \<Rightarrow> d | None \<Rightarrow> path_current_dir fs);
              c = (drd_config_new fs)\<lparr>cf_base_dir := Some base\<rparr>
          in case drd_config_load_from_key_file fs kf c of
               (c', Inl e) \<Rightarrow> Inl e
             | (c', Inr _) \<Rightarrow> Inr c')"

subsection \<open>Merging the command line\<close>

text \<open>The command line's arguments: NULL strings, and numbers not above 0, are absent.\<close>

record cli =
  cli_bind_address :: "string option"
  cli_port :: "32 word"
  cli_cert_path :: "string option"
  cli_key_path :: "string option"
  cli_nla_username :: "string option"
  cli_nla_password :: "string option"
  cli_enable_nla :: bool
  cli_disable_nla :: bool
  cli_runtime_mode_name :: "string option"
  cli_width :: "32 word"
  cli_height :: "32 word"
  cli_encoder_mode :: "string option"
  cli_diff_override :: "32 word"
  cli_capture_target_fps :: "32 word"
  cli_capture_stats_interval_sec :: "32 word"

text \<open>\<open>drd_config_set_string\<close> and \<open>drd_config_set_path\<close>: the new value of the target.\<close>

definition drd_config_set_string :: "string option \<Rightarrow> string option \<Rightarrow> string option" where
  "drd_config_set_string target value = (case value of None \<Rightarrow> target | Some v \<Rightarrow> Some v)"

definition drd_config_set_path ::
    "path_api \<Rightarrow> config \<Rightarrow> string option \<Rightarrow> string option \<Rightarrow> string option" where
  "drd_config_set_path fs self target value =
     (case value of None \<Rightarrow> target
      | Some v \<Rightarrow> (case drd_config_resolve_path fs self (Some v) of None \<Rightarrow> target | Some r \<Rightarrow> Some r))"

definition positive_or :: "32 word \<Rightarrow> nat \<Rightarrow> nat" where
  "positive_or v d = (if sint v > 0 then nat (sint v) else d)"

definition merge_connection :: "path_api \<Rightarrow> cli \<Rightarrow> load_step" where
  "merge_connection fs a self =
     (let s = self\<lparr>cf_bind_address := drd_config_set_string (cf_bind_address self) (cli_bind_address a)\<rparr>
      in if sint (cli_port a) > 65535 then (s, Inl GOptionBadValue)
         else (s\<lparr>cf_port := positive_or (cli_port a) (cf_port s),
                 cf_certificate_path :=
                   drd_config_set_path fs s (cf_certificate_path s) (cli_cert_path a),
                 cf_private_key_path :=
                   drd_config_set_path fs s (cf_private_key_path s) (cli_key_path a),
                 cf_nla_username := drd_config_set_string (cf_nla_username s) (cli_nla_username a),
                 cf_nla_password := drd_config_set_string (cf_nla_password s) (cli_nla_password a)\<rparr>,
               ok))"

definition merge_nla :: "cli \<Rightarrow> load_step" where
  "merge_nla a self =
     (if cli_enable_nla a \<and> cli_disable_nla a then (self, Inl GOptionBadValue)
      else if cli_enable_nla a then (self\<lparr>cf_nla_enabled := True\<rparr>, ok)
      else if cli_disable_nla a then (self\<lparr>cf_nla_enabled := False\<rparr>, ok)
      else (self, ok))"

definition merge_mode :: "cli \<Rightarrow> load_step" where
  "merge_mode a self =
     (if cli_runtime_mode_name a = None then (self, ok)
      else parsed (drd_config_parse_runtime_mode (cli_runtime_mode_name a))
             (\<lambda>m s. drd_config_set_runtime_mode_internal s m) self)"

definition merge_capture :: "cli \<Rightarrow> load_step" where
  "merge_capture a self =
     (let s = upd_encoding (\<lambda>e. e\<lparr>o_width := positive_or (cli_width a) (o_width e),
                                   o_height := positive_or (cli_height a) (o_height e)\<rparr>) self;
          r = (if cli_encoder_mode a = None then (s, ok)
               else drd_config_set_mode_from_string s (cli_encoder_mode a))
      in thn r (\<lambda>s. (s\<lparr>cf_encoding := (cf_encoding s)\<lparr>o_enable_frame_diff :=
               (if cli_diff_override a \<noteq> 0 then sint (cli_diff_override a) > 0
                else o_enable_frame_diff (cf_encoding s))\<rparr>,
             cf_capture_target_fps :=
               positive_or (cli_capture_target_fps a) (cf_capture_target_fps s),
             cf_capture_stats_interval_sec :=
               positive_or (cli_capture_stats_interval_sec a) (cf_capture_stats_interval_sec s)\<rparr>,
           ok)))"

definition empty_string :: "string option \<Rightarrow> bool" where
  "empty_string v = (case v of None \<Rightarrow> True | Some s \<Rightarrow> s = [])"

definition merge_checks :: load_step where
  "merge_checks self =
     (if cf_runtime_mode self \<noteq> RUNTIME_MODE_HANDOVER \<and>
         (cf_certificate_path self = None \<or> cf_private_key_path self = None)
      then (self, Inl GOptionBadValue)
      else if \<not> cf_nla_enabled self \<and> cf_runtime_mode self \<noteq> RUNTIME_MODE_SYSTEM
      then (self, Inl GOptionBadValue)
      else if cf_nla_enabled self \<and> cf_runtime_mode self \<noteq> RUNTIME_MODE_HANDOVER \<and>
         (empty_string (cf_nla_username self) \<or> empty_string (cf_nla_password self))
      then (self, Inl GOptionBadValue)
      else if empty_string (cf_pam_service self) then (self, Inl GOptionBadValue)
      else (self, ok))"

definition drd_config_merge_cli :: "path_api \<Rightarrow> config \<Rightarrow> cli \<Rightarrow> config \<times> unit res" where
  "drd_config_merge_cli fs self a =
     thn (thn (thn (thn (merge_connection fs a self) (merge_nla a)) (merge_mode a))
       (merge_capture a)) merge_checks"

subsection \<open>The getters\<close>

definition drd_config_get_bind_address :: "config \<Rightarrow> string option" where
  "drd_config_get_bind_address self = cf_bind_address self"
definition drd_config_get_port :: "config \<Rightarrow> nat" where
  "drd_config_get_port self = cf_port self"
definition drd_config_get_certificate_path :: "config \<Rightarrow> string option" where
  "drd_config_get_certificate_path self = cf_certificate_path self"
definition drd_config_get_private_key_path :: "config \<Rightarrow> string option" where
  "drd_config_get_private_key_path self = cf_private_key_path self"
definition drd_config_get_nla_username :: "config \<Rightarrow> string option" where
  "drd_config_get_nla_username self = cf_nla_username self"
definition drd_config_get_nla_password :: "config \<Rightarrow> string option" where
  "drd_config_get_nla_password self = cf_nla_password self"
definition drd_config_is_nla_enabled :: "config \<Rightarrow> bool" where
  "drd_config_is_nla_enabled self = cf_nla_enabled self"
definition drd_config_get_runtime_mode :: "config \<Rightarrow> runtime_mode" where
  "drd_config_get_runtime_mode self = cf_runtime_mode self"
definition drd_config_get_pam_service :: "config \<Rightarrow> string option" where
  "drd_config_get_pam_service self = cf_pam_service self"
definition drd_config_get_capture_width :: "config \<Rightarrow> nat" where
  "drd_config_get_capture_width self = o_width (cf_encoding self)"
definition drd_config_get_capture_height :: "config \<Rightarrow> nat" where
  "drd_config_get_capture_height self = o_height (cf_encoding self)"
definition drd_config_get_capture_target_fps :: "config \<Rightarrow> nat" where
  "drd_config_get_capture_target_fps self = cf_capture_target_fps self"
definition drd_config_get_capture_stats_interval_sec :: "config \<Rightarrow> nat" where
  "drd_config_get_capture_stats_interval_sec self = cf_capture_stats_interval_sec self"
definition drd_config_get_encoding_options :: "config \<Rightarrow> encoding_options" where
  "drd_config_get_encoding_options self = cf_encoding self"

end
