(* ===== verification/Encoding_Manager.thy ===== *)
theory Encoding_Manager
  imports Encoding_Options
begin

text \<open>
  The state of the encoding manager (\<^verbatim>\<open>src/encoding/drd_encoding_manager.c\<close>) and its operations
  that do not touch pixels: construction, \<open>prepare\<close>, \<open>reset\<close>, the key-frame request, and the
  book-keeping of the switch from an AVC codec to a tile codec, which decides when a full
  refresh is due. The FreeRDP codec contexts and the FFmpeg objects are booleans (allocated or
  NULL); a 64-bit time stamp is an integer.
\<close>

datatype codec_class = CODEC_UNKNOWN | CODEC_AVC | CODEC_NON_AVC

record encoder =
  frame_width :: nat
  frame_height :: nat
  ready :: bool
  enable_diff :: bool
  h264_bitrate :: nat
  h264_framerate :: nat
  h264_qp :: nat
  h264_hw_accel :: bool
  vaapi_encoder :: bool
  vaapi_device :: bool
  vaapi_frames :: bool
  vaapi_sw_frame :: bool
  vaapi_sws :: bool
  vaapi_width :: nat
  vaapi_height :: nat
  codecs :: u32
  h264 :: bool
  rfx :: bool
  progressive :: bool
  previous_frame :: "u8 list"
  tile_hashes :: "u64 list"
  tiles_x :: nat
  tiles_y :: nat
  diff_width :: nat
  diff_height :: nat
  diff_stride :: nat
  force_keyframe :: bool
  progressive_rfx_frames :: nat
  large_change_threshold :: ext_double
  progressive_refresh_interval :: nat
  progressive_refresh_timeout_ms :: nat
  last_codec :: codec_class
  avc_to_non_avc_transition :: bool
  non_avc_switch_timestamp_us :: int

definition drd_vaapi_encoder_release :: "encoder \<Rightarrow> encoder" where
  "drd_vaapi_encoder_release self =
     self\<lparr>vaapi_sws := False, vaapi_sw_frame := False, vaapi_frames := False,
          vaapi_device := False, vaapi_encoder := False, vaapi_width := 0, vaapi_height := 0\<rparr>"

definition drd_encoding_manager_init :: encoder where
  "drd_encoding_manager_init =
     \<lparr>frame_width = 0, frame_height = 0, ready = False, enable_diff = True,
      h264_bitrate = DRD_H264_DEFAULT_BITRATE, h264_framerate = DRD_H264_DEFAULT_FRAMERATE,
      h264_qp = DRD_H264_DEFAULT_QP, h264_hw_accel = DRD_H264_DEFAULT_HW_ACCEL,
      vaapi_encoder = False, vaapi_device = False, vaapi_frames = False,
      vaapi_sw_frame = False, vaapi_sws = False, vaapi_width = 0, vaapi_height = 0,
      codecs = 0, h264 = False, rfx = False, progressive = False,
      previous_frame = [], tile_hashes = [], tiles_x = 0, tiles_y = 0,
      diff_width = 0, diff_height = 0, diff_stride = 0, force_keyframe = True,
      progressive_rfx_frames = 0,
      large_change_threshold = DRD_GFX_DEFAULT_LARGE_CHANGE_THRESHOLD,
      progressive_refresh_interval = DRD_GFX_DEFAULT_PROGRESSIVE_REFRESH_INTERVAL,
      progressive_refresh_timeout_ms = DRD_GFX_DEFAULT_PROGRESSIVE_REFRESH_TIMEOUT_MS,
      last_codec = CODEC_UNKNOWN, avc_to_non_avc_transition = False,
      non_avc_switch_timestamp_us = 0\<rparr>"

definition drd_encoding_manager_reset :: "encoder \<Rightarrow> encoder" where
  "drd_encoding_manager_reset self =
     (if \<not> ready self then self
      else self\<lparr>codecs := 0, frame_width := 0, frame_height := 0, enable_diff := True,
        ready := False, h264 := False, rfx := False, progressive := False,
        previous_frame := [], tile_hashes := [], tiles_x := 0, tiles_y := 0,
        diff_width := 0, diff_height := 0, diff_stride := 0, force_keyframe := True,
        progressive_rfx_frames := 0,
        large_change_threshold := DRD_GFX_DEFAULT_LARGE_CHANGE_THRESHOLD,
        progressive_refresh_interval := DRD_GFX_DEFAULT_PROGRESSIVE_REFRESH_INTERVAL,
        progressive_refresh_timeout_ms := DRD_GFX_DEFAULT_PROGRESSIVE_REFRESH_TIMEOUT_MS,
        last_codec := CODEC_UNKNOWN, avc_to_non_avc_transition := False,
        non_avc_switch_timestamp_us := 0\<rparr>)"

definition drd_encoding_manager_dispose :: "encoder \<Rightarrow> encoder" where
  "drd_encoding_manager_dispose self =
     (drd_encoding_manager_reset self)\<lparr>h264 := False, rfx := False, progressive := False,
       previous_frame := [], tile_hashes := []\<rparr>"

definition drd_encoding_manager_prepare ::
    "encoder \<Rightarrow> encoding_options \<Rightarrow> encoder \<times> unit res" where
  "drd_encoding_manager_prepare self options =
     (if o_width options = 0 \<or> o_height options = 0 then (self, fail_io IoInvalidArgument)
      else let gfx_enabled = (o_mode options = MODE_RFX \<or> o_mode options = MODE_AUTO \<or>
                 o_mode options = MODE_H264)
      in if \<not> gfx_enabled then (drd_encoding_manager_reset self, fail_io IoInvalidArgument)
      else let s = (if ready self \<and> (frame_width self \<noteq> o_width options \<or>
                 frame_height self \<noteq> o_height options)
                    then drd_encoding_manager_reset self else self)
      in (s\<lparr>enable_diff := o_enable_frame_diff options,
            h264_bitrate := o_h264_bitrate options,
            h264_framerate := o_h264_framerate options,
            h264_qp := o_h264_qp options,
            h264_hw_accel := o_h264_hw_accel options,
            force_keyframe := True, progressive_rfx_frames := 0,
            large_change_threshold := o_large_change_threshold options,
            progressive_refresh_interval := o_refresh_interval options,
            progressive_refresh_timeout_ms := o_refresh_timeout_ms options,
            last_codec := CODEC_UNKNOWN, avc_to_non_avc_transition := False,
            frame_width := o_width options, frame_height := o_height options,
            ready := True\<rparr>, ok))"

definition drd_encoding_manager_has_avc_to_non_avc_transition :: "encoder \<Rightarrow> bool" where
  "drd_encoding_manager_has_avc_to_non_avc_transition self = avc_to_non_avc_transition self"

definition drd_encoding_manager_get_refresh_timeout_ms :: "encoder \<Rightarrow> nat" where
  "drd_encoding_manager_get_refresh_timeout_ms self = progressive_refresh_timeout_ms self"

definition drd_encoding_manager_force_keyframe :: "encoder \<Rightarrow> encoder" where
  "drd_encoding_manager_force_keyframe self = self\<lparr>force_keyframe := True\<rparr>"

definition G_TIME_SPAN_MILLISECOND :: int where
  "G_TIME_SPAN_MILLISECOND = 1000"

definition drd_encoding_manager_refresh_interval_reached :: "encoder \<Rightarrow> int \<Rightarrow> bool" where
  "drd_encoding_manager_refresh_interval_reached self now_us =
     (if \<not> avc_to_non_avc_transition self then False
      else if non_avc_switch_timestamp_us self \<le> 0 then False
      else let frame_budget_reached = progressive_refresh_interval self > 0 \<and>
                 wrap32 (progressive_rfx_frames self + 1) \<ge> progressive_refresh_interval self;
               elapsed_us = now_us - non_avc_switch_timestamp_us self;
               timeout_reached = progressive_refresh_timeout_ms self > 0 \<and>
                 elapsed_us \<ge> int (progressive_refresh_timeout_ms self) * G_TIME_SPAN_MILLISECOND
           in frame_budget_reached \<or> timeout_reached)"

definition drd_encoding_manager_register_codec_result ::
    "encoder \<Rightarrow> int \<Rightarrow> codec_class \<Rightarrow> bool \<Rightarrow> encoder" where
  "drd_encoding_manager_register_codec_result self now_us cc keyframe_encode =
     (case cc of
        CODEC_AVC \<Rightarrow> self\<lparr>last_codec := CODEC_AVC, avc_to_non_avc_transition := False,
          progressive_rfx_frames := 0, non_avc_switch_timestamp_us := 0\<rparr>
      | CODEC_UNKNOWN \<Rightarrow> self\<lparr>last_codec := CODEC_UNKNOWN, progressive_rfx_frames := 0,
          avc_to_non_avc_transition := False, non_avc_switch_timestamp_us := 0\<rparr>
      | CODEC_NON_AVC \<Rightarrow>
          let s1 = (if last_codec self = CODEC_AVC
                then self\<lparr>avc_to_non_avc_transition := True,
                          non_avc_switch_timestamp_us := now_us, progressive_rfx_frames := 0\<rparr>
                else self);
              refresh_tracking = avc_to_non_avc_transition s1;
              s2 = (if \<not> refresh_tracking then s1\<lparr>progressive_rfx_frames := 0\<rparr>
                else if keyframe_encode \<or> progressive_refresh_interval s1 = 0
                  then s1\<lparr>progressive_rfx_frames := 0\<rparr>
                else s1\<lparr>progressive_rfx_frames := wrap32 (progressive_rfx_frames s1 + 1)\<rparr>);
              s3 = (if keyframe_encode
                then s2\<lparr>non_avc_switch_timestamp_us := (if refresh_tracking then now_us else 0),
                        avc_to_non_avc_transition :=
                          (if refresh_tracking then False else avc_to_non_avc_transition s2)\<rparr>
                else s2)
          in s3\<lparr>last_codec := CODEC_NON_AVC\<rparr>)"


subsection \<open>The refresh book-keeping\<close>

text \<open>Frames are counted only while a switch from AVC is tracked, and the switch is tracked
  only while the last codec is a tile codec.\<close>

definition refresh_inv :: "encoder \<Rightarrow> bool" where
  "refresh_inv self \<longleftrightarrow>
     (avc_to_non_avc_transition self \<longrightarrow> last_codec self = CODEC_NON_AVC) \<and>
     (\<not> avc_to_non_avc_transition self \<longrightarrow> progressive_rfx_frames self = 0)"

lemma register_refresh_inv [drd_inv]:
  "refresh_inv self \<Longrightarrow> refresh_inv (drd_encoding_manager_register_codec_result self t c k)"
  by (auto simp: refresh_inv_def drd_encoding_manager_register_codec_result_def Let_def
      split: codec_class.splits)

lemma reset_refresh_inv [drd_inv]: "refresh_inv self \<Longrightarrow> refresh_inv (drd_encoding_manager_reset self)"
  by (auto simp: refresh_inv_def drd_encoding_manager_reset_def)

lemma prepare_refresh_inv [drd_inv]:
  "refresh_inv self \<Longrightarrow> refresh_inv (fst (drd_encoding_manager_prepare self opts))"
  by (auto simp: refresh_inv_def drd_encoding_manager_prepare_def Let_def
      drd_encoding_manager_reset_def)

lemma keyframe_refresh_inv [drd_inv]:
  "refresh_inv self \<Longrightarrow> refresh_inv (drd_encoding_manager_force_keyframe self)"
  by (simp add: refresh_inv_def drd_encoding_manager_force_keyframe_def)

text \<open>A run of tile frames encoded at the given times, none of them a key frame.\<close>

definition tile_frames :: "encoder \<Rightarrow> int list \<Rightarrow> encoder" where
  "tile_frames self ts =
     fold (\<lambda>t s. drd_encoding_manager_register_codec_result s t CODEC_NON_AVC False) ts self"

lemma tile_frame_tracked:
  assumes "avc_to_non_avc_transition s" "last_codec s = CODEC_NON_AVC"
    "0 < progressive_refresh_interval s"
  shows "drd_encoding_manager_register_codec_result s t CODEC_NON_AVC False =
    s\<lparr>progressive_rfx_frames := wrap32 (progressive_rfx_frames s + 1)\<rparr>"
  using assms by (simp add: drd_encoding_manager_register_codec_result_def Let_def)

lemma tile_frames_tracked:
  assumes "avc_to_non_avc_transition s" "last_codec s = CODEC_NON_AVC"
    "0 < progressive_refresh_interval s"
    "progressive_rfx_frames s + length ts < 2 ^ 32"
  shows "tile_frames s ts = s\<lparr>progressive_rfx_frames := progressive_rfx_frames s + length ts\<rparr>"
  using assms
proof (induction ts arbitrary: s)
  case Nil
  then show ?case by (simp add: tile_frames_def)
next
  case (Cons t ts)
  let ?s = "s\<lparr>progressive_rfx_frames := progressive_rfx_frames s + 1\<rparr>"
  have "tile_frames s (t # ts) = tile_frames ?s ts"
    using Cons.prems by (simp add: tile_frames_def tile_frame_tracked)
  also have "\<dots> = ?s\<lparr>progressive_rfx_frames := progressive_rfx_frames ?s + length ts\<rparr>"
    by (rule Cons.IH) (use Cons.prems in simp_all)
  finally show ?case by simp
qed

lemma tile_frames_after_avc:
  assumes "last_codec s = CODEC_AVC" "0 < progressive_refresh_interval s"
    "Suc (length ts) < 2 ^ 32"
  shows "tile_frames s (t # ts) =
    s\<lparr>avc_to_non_avc_transition := True, non_avc_switch_timestamp_us := t,
      progressive_rfx_frames := Suc (length ts), last_codec := CODEC_NON_AVC\<rparr>"
proof -
  let ?s = "s\<lparr>avc_to_non_avc_transition := True, non_avc_switch_timestamp_us := t,
      progressive_rfx_frames := 1, last_codec := CODEC_NON_AVC\<rparr>"
  have "tile_frames s (t # ts) = tile_frames ?s ts"
    using assms by (simp add: tile_frames_def drd_encoding_manager_register_codec_result_def Let_def)
  with assms tile_frames_tracked [of ?s ts] show ?thesis by simp
qed

text \<open>
  the full refresh after a switch from AVC to a tile codec is due exactly when the frame
  budget or the timeout is used up: after an AVC frame and \<open>n\<close> tile frames (the first at the
  positive time \<open>t\<close>, none a key frame) a refresh is due at time \<open>now\<close> if and only if
  \<open>n + 1\<close> reaches the configured interval or the time since \<open>t\<close> reaches the configured,
  non-zero timeout.
\<close>

theorem refresh_due_iff:
  assumes "last_codec s = CODEC_AVC" and "0 < progressive_refresh_interval s"
    and "length ts + 2 < 2 ^ 32" and "0 < t"
  shows "drd_encoding_manager_refresh_interval_reached (tile_frames s (t # ts)) now \<longleftrightarrow>
    length (t # ts) + 1 \<ge> progressive_refresh_interval s \<or>
    (0 < progressive_refresh_timeout_ms s \<and>
      now - t \<ge> int (progressive_refresh_timeout_ms s) * 1000)"
  using assms
  by (simp add: tile_frames_after_avc drd_encoding_manager_refresh_interval_reached_def
      G_TIME_SPAN_MILLISECOND_def)

theorem refresh_due_iff_witness:
  "let s = drd_encoding_manager_init\<lparr>last_codec := CODEC_AVC\<rparr>
   in drd_encoding_manager_refresh_interval_reached (tile_frames s [10, 20, 30, 40, 50]) 60"
proof -
  let ?s = "drd_encoding_manager_init\<lparr>last_codec := CODEC_AVC\<rparr>"
  have i: "progressive_refresh_interval ?s = 6"
    by (simp add: drd_encoding_manager_init_def DRD_GFX_DEFAULT_PROGRESSIVE_REFRESH_INTERVAL_def)
  show ?thesis
    using refresh_due_iff [of ?s "[20, 30, 40, 50]" 10 60] by (simp add: i Let_def)
qed

end
