(* ===== verification/Capture_Metrics.thy ===== *)
theory Capture_Metrics
  imports Drd_Prelude
begin

text \<open>
  The capture rate settings of \<^verbatim>\<open>src/utils/drd_capture_metrics.c\<close>: the three cached statics are
  a record, \<open>apply_config\<close> overwrites them with clamped values, and the getters read them.
  Times are microseconds.
\<close>

definition G_USEC_PER_SEC :: nat where "G_USEC_PER_SEC = 1000000"

record capture_metrics =
  cached_target_fps :: nat
  cached_target_interval_us :: int
  cached_stats_interval_us :: int

definition metrics_defaults :: capture_metrics where
  "metrics_defaults = \<lparr>cached_target_fps = 60, cached_target_interval_us = int (G_USEC_PER_SEC div 60),
     cached_stats_interval_us = 5 * int G_USEC_PER_SEC\<rparr>"

definition drd_capture_metrics_apply_config ::
    "nat \<Rightarrow> nat \<Rightarrow> capture_metrics \<Rightarrow> capture_metrics" where
  "drd_capture_metrics_apply_config target_fps stats_interval_sec m =
     (let fps0 = (if target_fps = 0 then 60 else target_fps);
          stats0 = (if stats_interval_sec = 0 then 5 else stats_interval_sec);
          fps = (if fps0 < 1 then 1 else if fps0 > 240 then 240 else fps0);
          stats = (if stats0 < 1 then 1 else if stats0 > 60 then 60 else stats0)
      in m\<lparr>cached_target_fps := fps,
           cached_target_interval_us := int (G_USEC_PER_SEC div fps),
           cached_stats_interval_us := int stats * int G_USEC_PER_SEC\<rparr>)"

definition drd_capture_metrics_get_target_fps :: "capture_metrics \<Rightarrow> nat" where
  "drd_capture_metrics_get_target_fps m = cached_target_fps m"

definition drd_capture_metrics_get_target_interval_us :: "capture_metrics \<Rightarrow> int" where
  "drd_capture_metrics_get_target_interval_us m = cached_target_interval_us m"

definition drd_capture_metrics_get_stats_interval_us :: "capture_metrics \<Rightarrow> int" where
  "drd_capture_metrics_get_stats_interval_us m = cached_stats_interval_us m"

text \<open>The invariant of the cached values: between 1 and 240 frames per second, the interval
  that belongs to the rate (at least 4166 microseconds), statistics every 1 to 60 seconds.\<close>

definition metrics_ok :: "capture_metrics \<Rightarrow> bool" where
  "metrics_ok m \<longleftrightarrow> 1 \<le> cached_target_fps m \<and> cached_target_fps m \<le> 240 \<and>
     cached_target_interval_us m = int (G_USEC_PER_SEC div cached_target_fps m) \<and>
     int G_USEC_PER_SEC \<le> cached_stats_interval_us m \<and>
     cached_stats_interval_us m \<le> 60 * int G_USEC_PER_SEC"

lemma metrics_defaults_ok [drd_inv]: "metrics_ok metrics_defaults"
  by (simp add: metrics_ok_def metrics_defaults_def G_USEC_PER_SEC_def)

lemma apply_config_ok [drd_inv]: "metrics_ok (drd_capture_metrics_apply_config fps stats m)"
  by (simp add: metrics_ok_def drd_capture_metrics_apply_config_def Let_def G_USEC_PER_SEC_def)

lemma metrics_interval_bounds:
  assumes "metrics_ok m"
  shows "4166 \<le> cached_target_interval_us m \<and> cached_target_interval_us m \<le> 1000000"
proof -
  have f: "0 < cached_target_fps m" "cached_target_fps m \<le> 240"
    using assms by (auto simp: metrics_ok_def)
  have "1000000 div 240 \<le> 1000000 div cached_target_fps m"
    using f by (intro div_le_mono2)
  moreover have "1000000 div cached_target_fps m \<le> 1000000"
    by (rule div_le_dividend)
  ultimately show ?thesis
    using assms by (simp add: metrics_ok_def G_USEC_PER_SEC_def flip: of_nat_div)
qed

end
