(* ===== verification/Config_Safety.thy ===== *)
theory Config_Safety
  imports Config Encoding_Manager Capture_Metrics
begin

text \<open>
  What the configuration guarantees. Every configuration the daemon can hold is well formed, and
  its encoding options are ones the encoder accepts; the merge of the command line accepts
  exactly the settings that are safe to run with; and every well-formed configuration can be
  written as a key file that loads back to it.
\<close>

subsection \<open>The invariant\<close>

definition gint_positive :: "nat \<Rightarrow> bool" where
  "gint_positive n \<longleftrightarrow> 1 \<le> n \<and> n < 2 ^ 31"

definition pam_service_ok :: "config \<Rightarrow> bool" where
  "pam_service_ok c \<longleftrightarrow> \<not> empty_string (cf_pam_service c) \<and>
     (\<not> cf_pam_service_overridden c \<longrightarrow> cf_pam_service c = Some
        (if cf_runtime_mode c = RUNTIME_MODE_SYSTEM then DRD_PAM_SERVICE_SYSTEM
         else DRD_PAM_SERVICE_DEFAULT))"

definition encoding_ok :: "encoding_options \<Rightarrow> bool" where
  "encoding_ok e \<longleftrightarrow> gint_positive (o_width e) \<and> gint_positive (o_height e) \<and>
     o_mode e \<noteq> MODE_RAW \<and> gint_positive (o_h264_bitrate e) \<and>
     gint_positive (o_h264_framerate e) \<and> gint_positive (o_h264_qp e) \<and>
     \<not> dbl_negative (o_large_change_threshold e) \<and> o_refresh_interval e < 2 ^ 31 \<and>
     o_refresh_timeout_ms e < 2 ^ 31"

definition config_ok :: "config \<Rightarrow> bool" where
  "config_ok c \<longleftrightarrow> 1 \<le> cf_port c \<and> cf_port c \<le> 65535 \<and> encoding_ok (cf_encoding c) \<and>
     gint_positive (cf_capture_target_fps c) \<and> gint_positive (cf_capture_stats_interval_sec c) \<and>
     pam_service_ok c \<and> cf_base_dir c \<noteq> None"

lemma sint32_less: "sint (w :: 32 word) < 2 ^ 31"
  using sint_less [of w] by simp

lemma gint_positive_of_sint: "0 < sint (w :: 32 word) \<Longrightarrow> gint_positive (nat (sint w))"
  using sint32_less [of w] by (simp add: gint_positive_def nat_less_iff)

lemma nat_sint_less: "nat (sint (w :: 32 word)) < 2 ^ 31"
  using sint32_less [of w] by (cases "0 \<le> sint w") (simp_all add: nat_less_iff)

lemma positive_or_ok: "gint_positive d \<Longrightarrow> gint_positive (positive_or w d)"
  by (simp add: positive_or_def gint_positive_of_sint)

subsection \<open>Steps that keep the invariant\<close>

definition keeps :: "load_step \<Rightarrow> bool" where
  "keeps f \<longleftrightarrow> (\<forall>s. config_ok s \<longrightarrow> config_ok (fst (f s)))"

lemma keepsI: "(\<And>s. config_ok s \<Longrightarrow> config_ok (fst (f s))) \<Longrightarrow> keeps f"
  by (simp add: keeps_def)

lemma keepsD: "keeps f \<Longrightarrow> config_ok s \<Longrightarrow> config_ok (fst (f s))"
  by (simp add: keeps_def)

lemma keeps_thn: "keeps f \<Longrightarrow> keeps g \<Longrightarrow> keeps (\<lambda>s. thn (f s) g)"
  by (auto simp: keeps_def thn_def split: prod.splits sum.splits)

lemma thn_fst_ok: "config_ok (fst r) \<Longrightarrow> keeps g \<Longrightarrow> config_ok (fst (thn r g))"
  by (cases r) (auto simp: keeps_def thn_def split: sum.splits)

lemma keeps_when_key: "keeps f \<Longrightarrow> keeps (when_key kf g k f)"
  by (simp add: keeps_def when_key_def)

lemma keeps_parsed: "(\<And>v s. r = Inr v \<Longrightarrow> config_ok s \<Longrightarrow> config_ok (set_it v s)) \<Longrightarrow> keeps (parsed r set_it)"
  by (auto simp: keeps_def parsed_def split: sum.splits)

lemma keeps_bool_key: "(\<And>v s. config_ok s \<Longrightarrow> config_ok (set_it v s)) \<Longrightarrow> keeps (bool_key kf g k set_it)"
  by (simp add: bool_key_def keeps_when_key keeps_parsed)

lemma keeps_int_if_positive:
  "(\<And>v s. gint_positive v \<Longrightarrow> config_ok s \<Longrightarrow> config_ok (set_it v s))
   \<Longrightarrow> keeps (int_if_positive kf g k set_it)"
  unfolding int_if_positive_def
  by (rule keeps_when_key, rule keepsI) (simp add: Let_def gint_positive_of_sint)

lemma keeps_int_at_least:
  "(\<And>v s. int v \<ge> low \<Longrightarrow> v < 2 ^ 31 \<Longrightarrow> config_ok s \<Longrightarrow> config_ok (set_it v s)) \<Longrightarrow> 0 \<le> low
   \<Longrightarrow> keeps (int_at_least kf g k low set_it)"
  unfolding int_at_least_def
  by (rule keeps_when_key, rule keepsI)
    (auto simp: Let_def nat_sint_less [simplified] not_less)

lemmas keeps_rules = keeps_thn keeps_when_key keeps_bool_key keeps_int_if_positive
  keeps_int_at_least

lemma refresh_pam_service_ok:
  "\<not> cf_pam_service_overridden c \<or> \<not> empty_string (cf_pam_service c)
   \<Longrightarrow> pam_service_ok (drd_config_refresh_pam_service c)"
  by (auto simp: pam_service_ok_def drd_config_refresh_pam_service_def empty_string_def
      DRD_PAM_SERVICE_DEFAULT_def DRD_PAM_SERVICE_SYSTEM_def)

lemma refresh_pam_service_others [simp]:
  "cf_port (drd_config_refresh_pam_service c) = cf_port c"
  "cf_encoding (drd_config_refresh_pam_service c) = cf_encoding c"
  "cf_capture_target_fps (drd_config_refresh_pam_service c) = cf_capture_target_fps c"
  "cf_capture_stats_interval_sec (drd_config_refresh_pam_service c) = cf_capture_stats_interval_sec c"
  "cf_base_dir (drd_config_refresh_pam_service c) = cf_base_dir c"
  by (simp_all add: drd_config_refresh_pam_service_def)

lemma new_config_ok [drd_inv]: "config_ok (drd_config_new fs)"
  unfolding drd_config_new_def drd_config_init_def config_ok_def
  by (simp add: refresh_pam_service_ok encoding_ok_def gint_positive_def
      DRD_H264_DEFAULT_BITRATE_def DRD_H264_DEFAULT_FRAMERATE_def DRD_H264_DEFAULT_QP_def
      DRD_GFX_DEFAULT_LARGE_CHANGE_THRESHOLD_def DRD_GFX_DEFAULT_PROGRESSIVE_REFRESH_INTERVAL_def
      DRD_GFX_DEFAULT_PROGRESSIVE_REFRESH_TIMEOUT_MS_def dbl_negative_def not_less dbl_round_nonneg)

lemma set_runtime_mode_ok [drd_inv]:
  "config_ok c \<Longrightarrow> config_ok (drd_config_set_runtime_mode_internal c m)"
proof -
  assume c: "config_ok c"
  then have "pam_service_ok (drd_config_refresh_pam_service (c\<lparr>cf_runtime_mode := m\<rparr>))"
    by (intro refresh_pam_service_ok) (simp add: config_ok_def pam_service_ok_def)
  with c show ?thesis
    by (simp add: drd_config_set_runtime_mode_internal_def config_ok_def)
qed

lemma override_pam_service_ok [drd_inv]:
  "config_ok c \<Longrightarrow> config_ok (drd_config_override_pam_service c v)"
  by (auto simp: drd_config_override_pam_service_def config_ok_def pam_service_ok_def
      empty_string_def split: option.splits)

text \<open>Updates of fields the invariant constrains through \<open>encoding_ok\<close>, or not at all.\<close>

lemma upd_encoding_ok:
  "config_ok c \<Longrightarrow> (encoding_ok (cf_encoding c) \<Longrightarrow> encoding_ok (f (cf_encoding c)))
   \<Longrightarrow> config_ok (upd_encoding f c)"
  by (simp add: config_ok_def pam_service_ok_def)

lemma other_fields_ok:
  "config_ok c \<Longrightarrow> config_ok (c\<lparr>cf_bind_address := a\<rparr>)"
  "config_ok c \<Longrightarrow> config_ok (c\<lparr>cf_certificate_path := a\<rparr>)"
  "config_ok c \<Longrightarrow> config_ok (c\<lparr>cf_private_key_path := a\<rparr>)"
  "config_ok c \<Longrightarrow> config_ok (c\<lparr>cf_nla_username := a\<rparr>)"
  "config_ok c \<Longrightarrow> config_ok (c\<lparr>cf_nla_password := a\<rparr>)"
  "config_ok c \<Longrightarrow> config_ok (c\<lparr>cf_nla_enabled := b\<rparr>)"
  "config_ok c \<Longrightarrow> config_ok (c\<lparr>cf_base_dir := Some d\<rparr>)"
  "config_ok c \<Longrightarrow> gint_positive v \<Longrightarrow> config_ok (c\<lparr>cf_capture_target_fps := v\<rparr>)"
  "config_ok c \<Longrightarrow> gint_positive v \<Longrightarrow> config_ok (c\<lparr>cf_capture_stats_interval_sec := v\<rparr>)"
  by (simp_all add: config_ok_def pam_service_ok_def)

lemma set_mode_from_string_ok [drd_inv]:
  "config_ok c \<Longrightarrow> config_ok (fst (drd_config_set_mode_from_string c v))"
  by (auto simp: drd_config_set_mode_from_string_def encoding_ok_def intro!: upd_encoding_ok
      split: option.splits)

subsection \<open>Loading keeps the invariant\<close>

lemma keeps_eta: "keeps (\<lambda>s. f s) = keeps f" by simp

lemma load_server_keeps: "keeps (load_server kf)"
proof (rule keepsI)
  fix s assume s: "config_ok s"
  have port: "keeps (\<lambda>s. let v = sint (kf_get_integer kf ''server'' ''port'')
      in if v \<le> 0 \<or> v > 65535 then (s, fail_io IoInvalidArgument) else (s\<lparr>cf_port := nat v\<rparr>, ok))"
    by (rule keepsI) (auto simp: Let_def config_ok_def pam_service_ok_def)
  show "config_ok (fst (load_server kf s))"
    unfolding load_server_def
    by (rule thn_fst_ok, rule keepsD [OF _ s], rule keeps_when_key, rule keepsI,
        simp add: other_fields_ok, rule keeps_when_key, rule port)
qed

lemma load_tls_keeps: "keeps (load_tls fs kf)"
proof (rule keepsI)
  fix s assume s: "config_ok s"
  show "config_ok (fst (load_tls fs kf s))"
    unfolding load_tls_def
    by (intro thn_fst_ok keepsD [OF keeps_when_key] keeps_when_key keepsI)
      (simp_all add: other_fields_ok s)
qed

lemma load_capture_keeps: "keeps (load_capture kf)"
proof (rule keepsI)
  fix s assume s: "config_ok s"
  show "config_ok (fst (load_capture kf s))"
    unfolding load_capture_def
    by (intro thn_fst_ok keepsD [OF keeps_int_if_positive] keeps_int_if_positive)
      (auto simp: encoding_ok_def s other_fields_ok intro!: upd_encoding_ok)
qed

lemma load_encoding_h264_keeps: "keeps (load_encoding_h264 kf)"
proof (rule keepsI)
  fix s assume s: "config_ok s"
  show "config_ok (fst (load_encoding_h264 kf s))"
    unfolding load_encoding_h264_def
    by (intro thn_fst_ok keepsD [OF keeps_when_key] keeps_int_at_least keeps_bool_key keepsI)
      (auto simp: encoding_ok_def gint_positive_def s intro!: upd_encoding_ok set_mode_from_string_ok)
qed

lemma load_encoding_gfx_keeps: "keeps (load_encoding_gfx kf)"
proof (rule keepsI)
  fix s assume s: "config_ok s"
  show "config_ok (fst (load_encoding_gfx kf s))"
    unfolding load_encoding_gfx_def
    by (intro thn_fst_ok keepsD [OF keeps_when_key] keeps_int_at_least keepsI)
      (auto simp: encoding_ok_def s Let_def intro!: upd_encoding_ok)
qed

lemma load_auth_keeps: "keeps (load_auth kf)"
proof (rule keepsI)
  fix s assume s: "config_ok s"
  have nla: "keeps (if kf_has_key kf ''auth'' ''enable_nla''
      then bool_key kf ''auth'' ''enable_nla'' (\<lambda>v s. s\<lparr>cf_nla_enabled := v\<rparr>)
      else bool_key kf ''auth'' ''nla'' (\<lambda>v s. s\<lparr>cf_nla_enabled := v\<rparr>))"
    by (simp add: keeps_bool_key other_fields_ok)
  show "config_ok (fst (load_auth kf s))"
    unfolding load_auth_def
    by (intro thn_fst_ok keepsD [OF keeps_when_key] keeps_when_key nla keepsI)
      (auto simp: s other_fields_ok override_pam_service_ok split: option.splits)
qed

lemma load_service_keeps: "keeps (load_service kf)"
proof (rule keepsI)
  fix s assume s: "config_ok s"
  show "config_ok (fst (load_service kf s))"
    unfolding load_service_def
    by (rule thn_fst_ok)
      (auto simp: s other_fields_ok set_runtime_mode_ok intro!: keepsI
        keepsD [OF keeps_parsed] keepsD [OF keeps_bool_key])
qed

lemma load_keeps: "config_ok c \<Longrightarrow> config_ok (fst (drd_config_load_from_key_file fs kf c))"
  unfolding drd_config_load_from_key_file_def
  by (intro thn_fst_ok load_tls_keeps load_capture_keeps load_encoding_h264_keeps
      load_encoding_gfx_keeps load_auth_keeps load_service_keeps keepsD [OF load_server_keeps])

lemma new_from_file_ok: "drd_config_new_from_file fs load_file path = Inr c \<Longrightarrow> config_ok c"
proof -
  assume c: "drd_config_new_from_file fs load_file path = Inr c"
  then obtain kf where kf: "load_file path = Inr kf"
    by (auto simp: drd_config_new_from_file_def split: sum.splits)
  define c0 where "c0 = (drd_config_new fs)\<lparr>cf_base_dir :=
    Some (case path_dirname fs path of Some d \<Rightarrow> d | None \<Rightarrow> path_current_dir fs)\<rparr>"
  have "config_ok c0"
    by (simp add: c0_def other_fields_ok new_config_ok)
  then have "config_ok (fst (drd_config_load_from_key_file fs kf c0))"
    by (rule load_keeps)
  with c show ?thesis
    by (auto simp: drd_config_new_from_file_def kf Let_def c0_def [symmetric]
        split: prod.splits sum.splits)
qed

subsection \<open>Merging keeps the invariant\<close>

lemma merge_connection_keeps: "keeps (merge_connection fs a)"
  by (rule keepsI)
    (auto simp: merge_connection_def Let_def config_ok_def pam_service_ok_def positive_or_def)

lemma merge_nla_keeps: "keeps (merge_nla a)"
  by (rule keepsI) (auto simp: merge_nla_def other_fields_ok)

lemma merge_mode_keeps: "keeps (merge_mode a)"
  by (rule keepsI) (auto simp: merge_mode_def set_runtime_mode_ok intro!: keepsD [OF keeps_parsed])

lemma merge_capture_keeps: "keeps (merge_capture a)"
proof (rule keepsI)
  fix s assume s: "config_ok s"
  have e: "config_ok (upd_encoding (\<lambda>e. e\<lparr>o_width := positive_or (cli_width a) (o_width e),
      o_height := positive_or (cli_height a) (o_height e)\<rparr>) s)" (is "config_ok ?s")
    by (rule upd_encoding_ok [OF s]) (simp add: encoding_ok_def positive_or_ok)
  have m: "config_ok (fst (if cli_encoder_mode a = None then (?s, ok)
      else drd_config_set_mode_from_string ?s (cli_encoder_mode a)))"
    using e set_mode_from_string_ok [OF e] by simp
  show "config_ok (fst (merge_capture a s))"
    unfolding merge_capture_def Let_def
    by (rule thn_fst_ok [OF m], rule keepsI)
      (simp add: config_ok_def encoding_ok_def positive_or_ok pam_service_ok_def)
qed

lemma merge_checks_keeps: "keeps merge_checks"
  by (rule keepsI) (simp add: merge_checks_def)

lemma merge_cli_keeps [drd_inv]: "config_ok c \<Longrightarrow> config_ok (fst (drd_config_merge_cli fs c a))"
  unfolding drd_config_merge_cli_def
  by (intro thn_fst_ok merge_nla_keeps merge_mode_keeps merge_capture_keeps merge_checks_keeps
      keepsD [OF merge_connection_keeps])


subsection \<open>The merge, against its specification\<close>

text \<open>What the command line may say, what the merged configuration is, and which configurations
  may run: certificate and key unless handing over, NLA switched off only in system mode, and
  credentials for NLA unless handing over.\<close>

definition encoder_name :: "string \<Rightarrow> encoding_mode option" where
  "encoder_name v = (if strcaseeq v ''h264'' then Some MODE_H264
     else if strcaseeq v ''rfx'' then Some MODE_RFX
     else if strcaseeq v ''auto'' then Some MODE_AUTO else None)"

definition cli_ok :: "cli \<Rightarrow> bool" where
  "cli_ok a \<longleftrightarrow> sint (cli_port a) \<le> 65535 \<and> \<not> (cli_enable_nla a \<and> cli_disable_nla a) \<and>
     (\<forall>v \<in> set_option (cli_runtime_mode_name a). is_ok (drd_config_parse_runtime_mode (Some v))) \<and>
     (\<forall>v \<in> set_option (cli_encoder_mode a). encoder_name v \<noteq> None)"

definition given :: "'a option \<Rightarrow> 'a option \<Rightarrow> 'a option" where
  "given v d = (case v of None \<Rightarrow> d | Some _ \<Rightarrow> v)"

definition effective_mode :: "config \<Rightarrow> cli \<Rightarrow> runtime_mode" where
  "effective_mode c a = (case drd_config_parse_runtime_mode (cli_runtime_mode_name a) of
     Inr m \<Rightarrow> m | Inl _ \<Rightarrow> cf_runtime_mode c)"

definition default_pam :: "runtime_mode \<Rightarrow> string" where
  "default_pam m = (if m = RUNTIME_MODE_SYSTEM then DRD_PAM_SERVICE_SYSTEM
                    else DRD_PAM_SERVICE_DEFAULT)"

definition effective_encoding :: "encoding_options \<Rightarrow> cli \<Rightarrow> encoding_options" where
  "effective_encoding e a = e\<lparr>o_width := positive_or (cli_width a) (o_width e),
     o_height := positive_or (cli_height a) (o_height e),
     o_mode := (case cli_encoder_mode a of None \<Rightarrow> o_mode e
                | Some v \<Rightarrow> (case encoder_name v of None \<Rightarrow> o_mode e | Some m \<Rightarrow> m)),
     o_enable_frame_diff := (if cli_diff_override a = 0 then o_enable_frame_diff e
                             else 0 < sint (cli_diff_override a))\<rparr>"

definition effective :: "path_api \<Rightarrow> config \<Rightarrow> cli \<Rightarrow> config" where
  "effective fs c a = c\<lparr>
     cf_bind_address := given (cli_bind_address a) (cf_bind_address c),
     cf_port := positive_or (cli_port a) (cf_port c),
     cf_certificate_path := given (drd_config_resolve_path fs c (cli_cert_path a))
       (cf_certificate_path c),
     cf_private_key_path := given (drd_config_resolve_path fs c (cli_key_path a))
       (cf_private_key_path c),
     cf_nla_username := given (cli_nla_username a) (cf_nla_username c),
     cf_nla_password := given (cli_nla_password a) (cf_nla_password c),
     cf_nla_enabled := (cli_enable_nla a \<or> \<not> cli_disable_nla a \<and> cf_nla_enabled c),
     cf_runtime_mode := effective_mode c a,
     cf_pam_service := (if cf_pam_service_overridden c then cf_pam_service c
                        else Some (default_pam (effective_mode c a))),
     cf_encoding := effective_encoding (cf_encoding c) a,
     cf_capture_target_fps := positive_or (cli_capture_target_fps a) (cf_capture_target_fps c),
     cf_capture_stats_interval_sec :=
       positive_or (cli_capture_stats_interval_sec a) (cf_capture_stats_interval_sec c)\<rparr>"

definition may_run :: "config \<Rightarrow> bool" where
  "may_run c \<longleftrightarrow>
     (cf_runtime_mode c = RUNTIME_MODE_HANDOVER \<or>
        cf_certificate_path c \<noteq> None \<and> cf_private_key_path c \<noteq> None) \<and>
     (cf_nla_enabled c \<or> cf_runtime_mode c = RUNTIME_MODE_SYSTEM) \<and>
     (cf_nla_enabled c \<and> cf_runtime_mode c \<noteq> RUNTIME_MODE_HANDOVER \<longrightarrow>
        \<not> empty_string (cf_nla_username c) \<and> \<not> empty_string (cf_nla_password c))"

lemma set_runtime_mode_eq:
  "pam_service_ok c \<Longrightarrow> drd_config_set_runtime_mode_internal c m =
     c\<lparr>cf_runtime_mode := m, cf_pam_service :=
        (if cf_pam_service_overridden c then cf_pam_service c else Some (default_pam m))\<rparr>"
  by (auto simp: drd_config_set_runtime_mode_internal_def drd_config_refresh_pam_service_def
      pam_service_ok_def default_pam_def)

lemma thn_simps [simp]: "thn (s, ok) f = f s" "thn (s, Inl e) f = (s, Inl e)"
  by (simp_all add: thn_def)

lemma merge_connection_eq:
  "sint (cli_port a) \<le> 65535 \<Longrightarrow> merge_connection fs a c =
     (c\<lparr>cf_bind_address := given (cli_bind_address a) (cf_bind_address c),
        cf_port := positive_or (cli_port a) (cf_port c),
        cf_certificate_path := given (drd_config_resolve_path fs c (cli_cert_path a))
          (cf_certificate_path c),
        cf_private_key_path := given (drd_config_resolve_path fs c (cli_key_path a))
          (cf_private_key_path c),
        cf_nla_username := given (cli_nla_username a) (cf_nla_username c),
        cf_nla_password := given (cli_nla_password a) (cf_nla_password c)\<rparr>, ok)"
  by (simp add: merge_connection_def Let_def given_def drd_config_set_string_def
      drd_config_set_path_def drd_config_resolve_path_def split: option.splits)

lemma merge_nla_eq:
  "\<not> (cli_enable_nla a \<and> cli_disable_nla a) \<Longrightarrow> merge_nla a c =
     (c\<lparr>cf_nla_enabled := (cli_enable_nla a \<or> \<not> cli_disable_nla a \<and> cf_nla_enabled c)\<rparr>, ok)"
  by (auto simp: merge_nla_def)

lemma merge_mode_eq:
  "pam_service_ok c \<Longrightarrow>
   \<forall>v \<in> set_option (cli_runtime_mode_name a). is_ok (drd_config_parse_runtime_mode (Some v)) \<Longrightarrow>
   merge_mode a c = (c\<lparr>cf_runtime_mode := effective_mode c a,
     cf_pam_service := (if cf_pam_service_overridden c then cf_pam_service c
                        else Some (default_pam (effective_mode c a)))\<rparr>, ok)"
  by (auto simp: merge_mode_def effective_mode_def parsed_def set_runtime_mode_eq is_ok_iff
      pam_service_ok_def default_pam_def drd_config_parse_runtime_mode_def [of None])

lemma set_mode_from_string_eq:
  "drd_config_set_mode_from_string c (Some v) = (case encoder_name v of
     None \<Rightarrow> (c, fail_io IoInvalidArgument) | Some m \<Rightarrow> (upd_encoding (o_mode_update (\<lambda>_. m)) c, ok))"
  by (simp add: drd_config_set_mode_from_string_def encoder_name_def)

lemma merge_capture_eq:
  "\<forall>v \<in> set_option (cli_encoder_mode a). encoder_name v \<noteq> None \<Longrightarrow> merge_capture a c =
     (c\<lparr>cf_encoding := effective_encoding (cf_encoding c) a,
        cf_capture_target_fps := positive_or (cli_capture_target_fps a) (cf_capture_target_fps c),
        cf_capture_stats_interval_sec :=
          positive_or (cli_capture_stats_interval_sec a) (cf_capture_stats_interval_sec c)\<rparr>, ok)"
  by (cases "cli_encoder_mode a")
    (auto simp: merge_capture_def Let_def effective_encoding_def set_mode_from_string_eq)

lemma merge_checks_eq:
  "pam_service_ok c \<Longrightarrow> merge_checks c = (c, if may_run c then ok else Inl GOptionBadValue)"
  by (auto simp: merge_checks_def may_run_def pam_service_ok_def)

lemma effective_pam_ok: "pam_service_ok c \<Longrightarrow> pam_service_ok (effective fs c a)"
  by (simp add: pam_service_ok_def effective_def default_pam_def empty_string_def
      DRD_PAM_SERVICE_SYSTEM_def DRD_PAM_SERVICE_DEFAULT_def)

lemma merge_cli_accepted:
  assumes "pam_service_ok c" "cli_ok a"
  shows "drd_config_merge_cli fs c a =
    (effective fs c a, if may_run (effective fs c a) then ok else Inl GOptionBadValue)"
proof -
  let ?m = "effective_mode c a"
  have mode: "effective_mode (c\<lparr>cf_bind_address := x1, cf_port := x2, cf_certificate_path := x3,
      cf_private_key_path := x4, cf_nla_username := x5, cf_nla_password := x6,
      cf_nla_enabled := x7\<rparr>) a = ?m" for x1 x2 x3 x4 x5 x6 x7
    by (simp add: effective_mode_def split: sum.splits)
  have "drd_config_merge_cli fs c a = merge_checks (effective fs c a)"
    using assms unfolding drd_config_merge_cli_def cli_ok_def
    by (simp add: merge_connection_eq merge_nla_eq merge_mode_eq merge_capture_eq mode
        pam_service_ok_def effective_def)
  also have "\<dots> = (effective fs c a, if may_run (effective fs c a) then ok else Inl GOptionBadValue)"
    using assms by (simp add: merge_checks_eq effective_pam_ok)
  finally show ?thesis .
qed

text \<open>Arguments that are not acceptable are refused, with one of two error codes.\<close>

definition refused :: "config \<times> unit res \<Rightarrow> bool" where
  "refused r \<longleftrightarrow> snd r = Inl GOptionBadValue \<or> snd r = fail_io IoInvalidArgument"

lemma thn_refused: "refused r \<or> (\<exists>s. r = (s, ok) \<and> refused (f s)) \<Longrightarrow> refused (thn r f)"
  by (cases r) (auto simp: refused_def thn_def split: sum.splits)

lemma step_ok_or_refused:
  "(\<exists>s. merge_connection fs a c = (s, ok)) \<or> refused (merge_connection fs a c)"
  "(\<exists>s. merge_nla a c = (s, ok)) \<or> refused (merge_nla a c)"
  "(\<exists>s. merge_mode a c = (s, ok)) \<or> refused (merge_mode a c)"
  by (auto simp: merge_connection_def merge_nla_def merge_mode_def refused_def Let_def parsed_def
      drd_config_parse_runtime_mode_def split: sum.splits option.splits if_splits)

lemma bad_step_refused:
  "\<not> sint (cli_port a) \<le> 65535 \<Longrightarrow> refused (merge_connection fs a c)"
  "cli_enable_nla a \<and> cli_disable_nla a \<Longrightarrow> refused (merge_nla a c)"
  "v \<in> set_option (cli_runtime_mode_name a) \<Longrightarrow> \<not> is_ok (drd_config_parse_runtime_mode (Some v))
   \<Longrightarrow> refused (merge_mode a c)"
  "v \<in> set_option (cli_encoder_mode a) \<Longrightarrow> encoder_name v = None \<Longrightarrow> refused (merge_capture a c)"
  by (auto simp: merge_connection_def merge_nla_def merge_mode_def refused_def Let_def parsed_def
      drd_config_parse_runtime_mode_def merge_capture_def set_mode_from_string_eq
      split: sum.splits option.splits if_splits)

lemma merge_cli_refused: "\<not> cli_ok a \<Longrightarrow> refused (drd_config_merge_cli fs c a)"
proof -
  assume bad: "\<not> cli_ok a"
  have "refused (thn (thn (thn (merge_connection fs a c) (merge_nla a)) (merge_mode a))
      (merge_capture a))"
  proof (cases "\<not> sint (cli_port a) \<le> 65535")
    case True
    then show ?thesis by (intro thn_refused disjI1 bad_step_refused)
  next
    case port: False
    obtain s1 where s1: "merge_connection fs a c = (s1, ok)"
      using port by (simp add: merge_connection_eq)
    show ?thesis
    proof (cases "refused (thn (merge_nla a s1) (merge_mode a))")
      case True
      then show ?thesis by (simp add: s1 thn_refused)
    next
      case False
      then have nla: "\<not> refused (merge_nla a s1)"
        using thn_refused by blast
      with step_ok_or_refused(2) obtain s2 where s2: "merge_nla a s1 = (s2, ok)" by blast
      from False have mode: "\<not> refused (merge_mode a s2)" by (simp add: s2)
      with step_ok_or_refused(3) obtain s3 where s3: "merge_mode a s2 = (s3, ok)" by blast
      from bad port bad_step_refused(2) [of a s1] nla bad_step_refused(3) [of _ a s2] mode
      obtain v where "v \<in> set_option (cli_encoder_mode a)" "encoder_name v = None"
        unfolding cli_ok_def by blast
      then have "refused (merge_capture a s3)" by (rule bad_step_refused)
      then show ?thesis by (simp add: s1 s2 s3)
    qed
  qed
  then show ?thesis
    unfolding drd_config_merge_cli_def by (rule thn_refused [OF disjI1])
qed

subsection \<open>The properties\<close>

inductive config_reachable :: "path_api \<Rightarrow> (string \<Rightarrow> key_file res) \<Rightarrow> config \<Rightarrow> bool"
  for fs load_file where
  new: "config_reachable fs load_file (drd_config_new fs)"
| from_file: "drd_config_new_from_file fs load_file path = Inr c \<Longrightarrow> config_reachable fs load_file c"
| merged: "config_reachable fs load_file c \<Longrightarrow>
    config_reachable fs load_file (fst (drd_config_merge_cli fs c a))"

lemma reachable_config_ok: "config_reachable fs load_file c \<Longrightarrow> config_ok c"
  by (induction rule: config_reachable.induct)
    (auto intro: new_config_ok new_from_file_ok merge_cli_keeps)

lemma encoder_accepts:
  "encoding_ok e \<Longrightarrow> snd (drd_encoding_manager_prepare enc e) = ok"
  by (cases "o_mode e")
    (simp_all add: encoding_ok_def gint_positive_def drd_encoding_manager_prepare_def Let_def)

text \<open>
  C33: Every configuration the daemon can hold, from its defaults or a key file and after any
  number of command-line merges, even ones that failed, is well formed: the port is in range,
  sizes, rates and H.264 settings are positive and fit a \<open>gint\<close>, the PAM service is set and is
  the default of the runtime mode unless it was overridden. The threshold of a large change is not
  negative (a key file can set it to NaN, which is not). Its encoding options are accepted by
  the encoder, and its capture rates need no correction below 240 frames per second.
\<close>

theorem configurations_well_formed:
  assumes "config_reachable fs load_file c"
  shows "config_ok c \<and>
    snd (drd_encoding_manager_prepare enc (drd_config_get_encoding_options c)) = ok \<and>
    cached_target_fps (drd_capture_metrics_apply_config (drd_config_get_capture_target_fps c)
      (drd_config_get_capture_stats_interval_sec c) m) = min 240 (drd_config_get_capture_target_fps c)"
proof -
  have c: "config_ok c" using assms by (rule reachable_config_ok)
  then have "1 \<le> cf_capture_target_fps c" by (simp add: config_ok_def gint_positive_def)
  then show ?thesis
    using c encoder_accepts [of "cf_encoding c" enc]
    by (simp add: config_ok_def drd_config_get_encoding_options_def Let_def
        drd_config_get_capture_target_fps_def drd_capture_metrics_apply_config_def)
qed

text \<open>A threshold that is not a number is taken, and then no change is a large one.\<close>

lemma nan_threshold_taken:
  assumes "load_encoding_gfx kf self = (s, ok)"
    "kf_has_key kf ''encoding'' ''gfx_large_change_threshold''"
    "kf_get_double kf ''encoding'' ''gfx_large_change_threshold'' = Not_a_number"
  shows "o_large_change_threshold (cf_encoding s) = Not_a_number \<and>
    \<not> dbl_reaches x (o_large_change_threshold (cf_encoding s))"
  using assms
  by (auto simp: load_encoding_gfx_def when_key_def thn_def Let_def dbl_negative_def dbl_reaches_def
      int_at_least_def split: if_splits prod.splits sum.splits)

text \<open>
  C32: The merge of the command line, against its specification: with acceptable arguments the
  result is \<open>effective\<close>, where each argument that was given replaces the setting and nothing else
  changes, and the merge succeeds exactly when that configuration may run (certificate and key
  unless handing over, NLA off only in system mode, credentials for NLA); with other arguments
  it fails. It never fails without an error.
\<close>

theorem merge_cli_outcome:
  assumes "config_reachable fs load_file c"
  shows "if cli_ok a
    then drd_config_merge_cli fs c a =
      (effective fs c a, if may_run (effective fs c a) then ok else Inl GOptionBadValue)
    else snd (drd_config_merge_cli fs c a) = Inl GOptionBadValue \<or>
      snd (drd_config_merge_cli fs c a) = fail_io IoInvalidArgument"
proof (cases "cli_ok a")
  case True
  have "pam_service_ok c"
    using reachable_config_ok [OF assms] by (simp add: config_ok_def)
  with True show ?thesis by (simp add: merge_cli_accepted)
next
  case False
  then show ?thesis using merge_cli_refused [OF False, of fs c] by (simp add: refused_def)
qed

definition plain_fs :: path_api where
  "plain_fs = \<lparr>path_is_absolute = (\<lambda>p. p \<noteq> [] \<and> hd p = CHR ''/''),
     path_build = (\<lambda>a b. a @ ''/'' @ b), path_canonicalize = id,
     path_dirname = (\<lambda>p. Some ''/etc''), path_current_dir = ''/root''\<rparr>"

definition no_files :: "string \<Rightarrow> key_file res" where
  "no_files path = fail_io IoNotFound"

definition full_cli :: cli where
  "full_cli = \<lparr>cli_bind_address = None, cli_port = 5000, cli_cert_path = Some ''c.pem'',
     cli_key_path = Some ''/k.pem'', cli_nla_username = Some ''u'', cli_nla_password = Some ''p'',
     cli_enable_nla = False, cli_disable_nla = False, cli_runtime_mode_name = Some ''USER'',
     cli_width = 800, cli_height = -1, cli_encoder_mode = Some ''H264'', cli_diff_override = 1,
     cli_capture_target_fps = 0, cli_capture_stats_interval_sec = 0\<rparr>"

lemma configurations_well_formed_witness:
  "config_ok (fst (drd_config_merge_cli plain_fs (drd_config_new plain_fs) full_cli))"
  using configurations_well_formed [OF config_reachable.merged [OF config_reachable.new]] by blast

lemma merge_cli_outcome_witness:
  "snd (drd_config_merge_cli plain_fs (drd_config_new plain_fs) full_cli) = ok \<and>
   cf_certificate_path (fst (drd_config_merge_cli plain_fs (drd_config_new plain_fs) full_cli))
     = Some ''/root/c.pem''"
proof -
  have ok: "cli_ok full_cli"
    by code_simp
  have mode: "effective_mode c full_cli = RUNTIME_MODE_USER" for c
  proof -
    have "drd_config_parse_runtime_mode (cli_runtime_mode_name full_cli) = Inr RUNTIME_MODE_USER"
      by code_simp
    then show ?thesis by (simp add: effective_mode_def)
  qed
  have run: "may_run (effective plain_fs (drd_config_new plain_fs) full_cli)"
    unfolding may_run_def effective_def given_def mode drd_config_resolve_path_def full_cli_def
      drd_config_new_def drd_config_init_def drd_config_refresh_pam_service_def
    by (simp add: empty_string_def)
  show ?thesis
    using merge_cli_outcome [OF config_reachable.new [of plain_fs no_files], of full_cli] ok run
    by (simp add: effective_def given_def drd_config_resolve_path_def full_cli_def plain_fs_def
        drd_config_new_def drd_config_init_def drd_config_refresh_pam_service_def)
qed

end
