(* ===== verification/Config_File.thy ===== *)
theory Config_File
  imports Config_Safety
begin

text \<open>
  Key files and configurations are inverse to each other: \<open>saved c\<close> is the key file with one
  entry for each setting of \<open>c\<close>, and loading it with \<open>drd_config_new_from_file\<close> gives \<open>c\<close> back.
  So every setting can be configured, every key the code reads sets its own field and no other,
  and no later section undoes an earlier one.
\<close>

datatype entry = KStr string | KInt nat | KDouble ext_double

definition KBool :: "bool \<Rightarrow> entry" where
  "KBool b = KStr (if b then ''true'' else ''false'')"

definition runtime_mode_name :: "runtime_mode \<Rightarrow> string" where
  "runtime_mode_name m = (case m of RUNTIME_MODE_USER \<Rightarrow> ''user''
     | RUNTIME_MODE_SYSTEM \<Rightarrow> ''system'' | RUNTIME_MODE_HANDOVER \<Rightarrow> ''handover'')"

definition server_entry :: "config \<Rightarrow> string \<Rightarrow> entry option" where
  "server_entry c k = (if k = ''bind_address'' then map_option KStr (cf_bind_address c)
     else if k = ''port'' then Some (KInt (cf_port c)) else None)"

definition tls_entry :: "config \<Rightarrow> string \<Rightarrow> entry option" where
  "tls_entry c k = (if k = ''certificate'' then map_option KStr (cf_certificate_path c)
     else if k = ''private_key'' then map_option KStr (cf_private_key_path c) else None)"

definition capture_entry :: "config \<Rightarrow> string \<Rightarrow> entry option" where
  "capture_entry c k = (if k = ''width'' then Some (KInt (o_width (cf_encoding c)))
     else if k = ''height'' then Some (KInt (o_height (cf_encoding c)))
     else if k = ''target_fps'' then Some (KInt (cf_capture_target_fps c))
     else if k = ''stats_interval_sec'' then Some (KInt (cf_capture_stats_interval_sec c))
     else None)"

definition encoding_entry :: "encoding_options \<Rightarrow> string \<Rightarrow> entry option" where
  "encoding_entry e k =
     (if k = ''mode'' then Some (KStr (drd_encoding_mode_to_string (o_mode e)))
      else if k = ''enable_diff'' then Some (KBool (o_enable_frame_diff e))
      else if k = ''h264_bitrate'' then Some (KInt (o_h264_bitrate e))
      else if k = ''h264_framerate'' then Some (KInt (o_h264_framerate e))
      else if k = ''h264_qp'' then Some (KInt (o_h264_qp e))
      else if k = ''h264_hw_accel'' then Some (KBool (o_h264_hw_accel e))
      else if k = ''h264_vm_support'' then Some (KBool (o_h264_vm_support e))
      else if k = ''gfx_large_change_threshold'' then Some (KDouble (o_large_change_threshold e))
      else if k = ''gfx_progressive_refresh_interval'' then Some (KInt (o_refresh_interval e))
      else if k = ''gfx_progressive_refresh_timeout_ms'' then Some (KInt (o_refresh_timeout_ms e))
      else None)"

definition auth_entry :: "config \<Rightarrow> string \<Rightarrow> entry option" where
  "auth_entry c k = (if k = ''username'' then map_option KStr (cf_nla_username c)
     else if k = ''password'' then map_option KStr (cf_nla_password c)
     else if k = ''enable_nla'' then Some (KBool (cf_nla_enabled c))
     else if k = ''pam_service'' then
       (if cf_pam_service_overridden c then map_option KStr (cf_pam_service c) else None)
     else None)"

definition service_entry :: "config \<Rightarrow> string \<Rightarrow> entry option" where
  "service_entry c k = (if k = ''runtime_mode'' then
     Some (KStr (runtime_mode_name (cf_runtime_mode c))) else None)"

definition saved_entry :: "config \<Rightarrow> string \<Rightarrow> string \<Rightarrow> entry option" where
  "saved_entry c g k = (if g = ''server'' then server_entry c k
     else if g = ''tls'' then tls_entry c k
     else if g = ''capture'' then capture_entry c k
     else if g = ''encoding'' then encoding_entry (cf_encoding c) k
     else if g = ''auth'' then auth_entry c k
     else if g = ''service'' then service_entry c k else None)"

definition saved :: "config \<Rightarrow> key_file" where
  "saved c = \<lparr>kf_has_key = (\<lambda>g k. saved_entry c g k \<noteq> None),
     kf_get_string = (\<lambda>g k. case saved_entry c g k of Some (KStr s) \<Rightarrow> Some s | _ \<Rightarrow> None),
     kf_get_integer = (\<lambda>g k. case saved_entry c g k of Some (KInt n) \<Rightarrow> of_nat n | _ \<Rightarrow> 0),
     kf_get_double = (\<lambda>g k. case saved_entry c g k of Some (KDouble d) \<Rightarrow> d | _ \<Rightarrow> Finite 0)\<rparr>"

lemma saved_groups [simp]:
  "saved_entry c ''server'' = server_entry c"
  "saved_entry c ''tls'' = tls_entry c"
  "saved_entry c ''capture'' = capture_entry c"
  "saved_entry c ''encoding'' = encoding_entry (cf_encoding c)"
  "saved_entry c ''auth'' = auth_entry c"
  "saved_entry c ''service'' = service_entry c"
  by (simp_all add: saved_entry_def fun_eq_iff)

lemma saved_simps [simp]:
  "kf_has_key (saved c) g k \<longleftrightarrow> saved_entry c g k \<noteq> None"
  "kf_get_string (saved c) g k = (case saved_entry c g k of Some (KStr s) \<Rightarrow> Some s | _ \<Rightarrow> None)"
  "kf_get_integer (saved c) g k = (case saved_entry c g k of Some (KInt n) \<Rightarrow> of_nat n | _ \<Rightarrow> 0)"
  "kf_get_double (saved c) g k = (case saved_entry c g k of Some (KDouble d) \<Rightarrow> d | _ \<Rightarrow> Finite 0)"
  by (simp_all add: saved_def)

lemma sint_of_nat32: "n < 2 ^ 31 \<Longrightarrow> sint (of_nat n :: 32 word) = int n"
  by (simp add: signed_of_nat signed_take_bit_int_eq_self)

lemma gint_sint: "gint_positive n \<Longrightarrow> sint (of_nat n :: 32 word) = int n \<and> 0 < n"
  by (simp add: gint_positive_def sint_of_nat32)

subsection \<open>The forms of a key\<close>

lemma parse_bool_KBool [simp]:
  "drd_config_parse_bool (case KBool b of KStr s \<Rightarrow> Some s | _ \<Rightarrow> None) = Inr b"
proof -
  have "drd_config_parse_bool (Some ''true'') = Inr True"
    "drd_config_parse_bool (Some ''false'') = Inr False" by code_simp+
  then show ?thesis by (simp add: KBool_def)
qed

lemma when_key_saved:
  "when_key (saved c) g k f s = (if saved_entry c g k = None then (s, ok) else f s)"
  by (simp add: when_key_def)

lemma bool_key_saved:
  "saved_entry c g k = Some (KBool b) \<Longrightarrow> bool_key (saved c) g k set_it s = (set_it b s, ok)"
  by (simp add: bool_key_def when_key_saved parsed_def)

lemma bool_key_absent:
  "saved_entry c g k = None \<Longrightarrow> bool_key (saved c) g k set_it s = (s, ok)"
  by (simp add: bool_key_def when_key_saved)

lemma int_if_positive_saved:
  "saved_entry c g k = Some (KInt n) \<Longrightarrow> gint_positive n
   \<Longrightarrow> int_if_positive (saved c) g k set_it s = (set_it n s, ok)"
  using gint_sint [of n] by (simp add: int_if_positive_def when_key_saved Let_def)

lemma int_at_least_saved:
  "saved_entry c g k = Some (KInt n) \<Longrightarrow> n < 2 ^ 31 \<Longrightarrow> low \<le> int n
   \<Longrightarrow> int_at_least (saved c) g k low set_it s = (set_it n s, ok)"
  using sint_of_nat32 [of n] by (simp add: int_at_least_def when_key_saved Let_def)

subsection \<open>The sections\<close>

lemma load_server_saved:
  "config_ok c \<Longrightarrow> cf_bind_address c \<noteq> None \<Longrightarrow> load_server (saved c) s =
     (s\<lparr>cf_bind_address := cf_bind_address c, cf_port := cf_port c\<rparr>, ok)"
  by (auto simp: load_server_def when_key_saved server_entry_def Let_def config_ok_def
      sint_of_nat32)

definition absolute_or_absent :: "path_api \<Rightarrow> string option \<Rightarrow> bool" where
  "absolute_or_absent fs v = (case v of None \<Rightarrow> True | Some p \<Rightarrow> path_is_absolute fs p)"

lemma load_tls_saved:
  "absolute_or_absent fs (cf_certificate_path c) \<Longrightarrow> absolute_or_absent fs (cf_private_key_path c)
   \<Longrightarrow> load_tls fs (saved c) s = (s\<lparr>cf_certificate_path := cf_certificate_path c,
        cf_private_key_path := cf_private_key_path c\<rparr>, ok)"
  by (cases "cf_certificate_path c"; cases "cf_private_key_path c")
    (simp_all add: load_tls_def when_key_saved tls_entry_def drd_config_resolve_path_def
      absolute_or_absent_def)

lemma load_capture_saved:
  "config_ok c \<Longrightarrow> load_capture (saved c) s =
     (s\<lparr>cf_encoding := (cf_encoding s)\<lparr>o_width := o_width (cf_encoding c),
          o_height := o_height (cf_encoding c)\<rparr>,
        cf_capture_target_fps := cf_capture_target_fps c,
        cf_capture_stats_interval_sec := cf_capture_stats_interval_sec c\<rparr>, ok)"
  by (simp add: load_capture_def int_if_positive_saved capture_entry_def config_ok_def
      encoding_ok_def)

lemma set_mode_from_string_saved:
  "m \<noteq> MODE_RAW \<Longrightarrow> drd_config_set_mode_from_string s (Some (drd_encoding_mode_to_string m))
     = (upd_encoding (o_mode_update (\<lambda>_. m)) s, ok)"
proof -
  assume "m \<noteq> MODE_RAW"
  moreover have "encoder_name ''rfx'' = Some MODE_RFX" "encoder_name ''h264'' = Some MODE_H264"
    "encoder_name ''auto'' = Some MODE_AUTO" by code_simp+
  ultimately show ?thesis
    by (cases m) (simp_all add: set_mode_from_string_eq drd_encoding_mode_to_string_def)
qed

lemma load_encoding_h264_saved:
  "config_ok c \<Longrightarrow> load_encoding_h264 (saved c) s = (upd_encoding (\<lambda>e. e\<lparr>o_mode := o_mode (cf_encoding c),
     o_enable_frame_diff := o_enable_frame_diff (cf_encoding c),
     o_h264_bitrate := o_h264_bitrate (cf_encoding c),
     o_h264_framerate := o_h264_framerate (cf_encoding c),
     o_h264_qp := o_h264_qp (cf_encoding c),
     o_h264_hw_accel := o_h264_hw_accel (cf_encoding c),
     o_h264_vm_support := o_h264_vm_support (cf_encoding c)\<rparr>) s, ok)"
  by (simp add: load_encoding_h264_def when_key_saved encoding_entry_def config_ok_def
      set_mode_from_string_saved encoding_ok_def gint_positive_def bool_key_saved int_at_least_saved)

lemma load_encoding_gfx_saved:
  "config_ok c \<Longrightarrow> load_encoding_gfx (saved c) s = (upd_encoding (\<lambda>e. e\<lparr>
     o_large_change_threshold := o_large_change_threshold (cf_encoding c),
     o_refresh_interval := o_refresh_interval (cf_encoding c),
     o_refresh_timeout_ms := o_refresh_timeout_ms (cf_encoding c)\<rparr>) s, ok)"
  by (simp add: load_encoding_gfx_def when_key_saved encoding_entry_def config_ok_def
      encoding_ok_def int_at_least_saved Let_def)

lemma load_auth_saved:
  "config_ok c \<Longrightarrow> load_auth (saved c) s =
     (s\<lparr>cf_nla_username := given (cf_nla_username c) (cf_nla_username s),
        cf_nla_password := given (cf_nla_password c) (cf_nla_password s),
        cf_nla_enabled := cf_nla_enabled c,
        cf_pam_service := (if cf_pam_service_overridden c then cf_pam_service c else cf_pam_service s),
        cf_pam_service_overridden := cf_pam_service_overridden c \<or> cf_pam_service_overridden s\<rparr>, ok)"
  by (cases "cf_nla_username c"; cases "cf_nla_password c"; cases "cf_pam_service c")
    (simp_all add: load_auth_def when_key_saved auth_entry_def given_def bool_key_saved
      config_ok_def pam_service_ok_def empty_string_def drd_config_override_pam_service_def)

lemma parse_runtime_mode_saved:
  "drd_config_parse_runtime_mode (Some (runtime_mode_name m)) = Inr m"
proof (cases m)
  case RUNTIME_MODE_USER
  then show ?thesis by (simp only: runtime_mode_name_def) code_simp
next
  case RUNTIME_MODE_SYSTEM
  then show ?thesis by (simp only: runtime_mode_name_def) code_simp
next
  case RUNTIME_MODE_HANDOVER
  then show ?thesis by (simp only: runtime_mode_name_def) code_simp
qed

lemma load_service_saved:
  "load_service (saved c) s = (drd_config_set_runtime_mode_internal s (cf_runtime_mode c), ok)"
  by (simp add: load_service_def parsed_def service_entry_def auth_entry_def
      parse_runtime_mode_saved nla_auth_override_def)

text \<open>
  C34: Saving and loading are inverse: for every well-formed configuration whose paths are
  absolute, the key file with its settings loads to exactly that configuration (with the
  directory of the file as its base directory).
\<close>

theorem config_file_roundtrip:
  assumes "config_ok c" "cf_bind_address c \<noteq> None"
    "absolute_or_absent fs (cf_certificate_path c)"
    "absolute_or_absent fs (cf_private_key_path c)"
    "path_dirname fs path = cf_base_dir c"
  shows "drd_config_new_from_file fs (\<lambda>_. Inr (saved c)) path = Inr c"
proof -
  obtain d where d: "cf_base_dir c = Some d"
    using assms(1) by (auto simp: config_ok_def)
  define c0 where "c0 = (drd_config_new fs)\<lparr>cf_base_dir := Some d\<rparr>"
  have new: "cf_nla_username c0 = None" "cf_nla_password c0 = None"
    "\<not> cf_pam_service_overridden c0" "cf_base_dir c0 = Some d"
    "cf_pam_service c0 = Some (default_pam (cf_runtime_mode c0))"
    by (simp_all add: c0_def drd_config_new_def drd_config_init_def default_pam_def
        drd_config_refresh_pam_service_def)
  have default: "\<not> empty_string (Some (default_pam m))" for m
    by (simp add: default_pam_def empty_string_def DRD_PAM_SERVICE_DEFAULT_def
        DRD_PAM_SERVICE_SYSTEM_def)
  have given: "given x None = x" for x :: "string option"
    by (cases x) (simp_all add: given_def)
  have pam: "cf_pam_service c = Some (default_pam (cf_runtime_mode c))"
    if "\<not> cf_pam_service_overridden c"
    using assms(1) that by (simp add: config_ok_def pam_service_ok_def default_pam_def)
  have pam_some: "\<not> empty_string (cf_pam_service c)"
    using assms(1) by (simp add: config_ok_def pam_service_ok_def)
  have "drd_config_load_from_key_file fs (saved c) c0 = (c, ok)"
    using assms d new pam pam_some default unfolding drd_config_load_from_key_file_def
    by (cases "cf_pam_service_overridden c")
      (simp_all add: load_server_saved load_tls_saved load_capture_saved load_encoding_h264_saved
        load_encoding_gfx_saved load_auth_saved load_service_saved given set_runtime_mode_eq
        pam_service_ok_def default_pam_def [symmetric])
  then show ?thesis
    using assms(5) d by (simp add: drd_config_new_from_file_def c0_def)
qed

lemma config_file_roundtrip_witness:
  "drd_config_new_from_file plain_fs (\<lambda>_. Inr (saved ((drd_config_new plain_fs)\<lparr>cf_base_dir := Some ''/etc''\<rparr>)))
     ''/etc/drd.ini'' = Inr ((drd_config_new plain_fs)\<lparr>cf_base_dir := Some ''/etc''\<rparr>)"
proof -
  have new: "cf_bind_address (drd_config_new fs) = Some ''0.0.0.0''"
    "cf_certificate_path (drd_config_new fs) = None"
    "cf_private_key_path (drd_config_new fs) = None" for fs
    by (simp_all add: drd_config_new_def drd_config_init_def drd_config_refresh_pam_service_def)
  show ?thesis
    by (rule config_file_roundtrip)
      (simp_all add: new other_fields_ok new_config_ok absolute_or_absent_def plain_fs_def)
qed

end
