(* ===== verification/Drd_Log.thy ===== *)
theory Drd_Log
  imports Drd_Prelude
begin

text \<open>
  The log (\<^verbatim>\<open>src/utils/drd_log.c\<close>, \<^verbatim>\<open>src/utils/drd_log.h\<close>): the writer that turns the fields of a
  structured message into a line, and its installation. What GLib's
  \<open>g_log_structured_standard\<close> makes of a call is a parameter.
\<close>

unbundle bit_operations_syntax

subsection \<open>Levels\<close>

definition G_LOG_LEVEL_MASK :: "32 word" where
  "G_LOG_LEVEL_MASK = NOT 3"  \<comment> \<open>without \<open>G_LOG_FLAG_RECURSION\<close> and \<open>G_LOG_FLAG_FATAL\<close>\<close>

definition drd_log_level_to_string :: "32 word \<Rightarrow> string" where
  "drd_log_level_to_string level =
     (let l = level AND G_LOG_LEVEL_MASK in
      if l = 4 then ''Error'' else if l = 8 then ''Critical'' else if l = 16 then ''Warning''
      else if l = 32 then ''Message'' else if l = 64 then ''Info'' else if l = 128 then ''Debug''
      else ''Log'')"

text \<open>The levels of the macros: \<open>DRD_LOG_ERROR\<close> logs a critical message, which does not abort.\<close>

datatype log_macro = DRD_LOG_DEBUG | DRD_LOG_MESSAGE | DRD_LOG_WARNING | DRD_LOG_ERROR

definition macro_level :: "log_macro \<Rightarrow> 32 word" where
  "macro_level m = (case m of DRD_LOG_DEBUG \<Rightarrow> 128 | DRD_LOG_MESSAGE \<Rightarrow> 32
     | DRD_LOG_WARNING \<Rightarrow> 16 | DRD_LOG_ERROR \<Rightarrow> 8)"

subsection \<open>The writer\<close>

record log_field =
  lf_key :: "string option"
  lf_value :: "string option"

fun drd_log_lookup_field :: "log_field list \<Rightarrow> string \<Rightarrow> string option" where
  "drd_log_lookup_field [] name = None"
| "drd_log_lookup_field (f # fs) name =
     (if lf_key f = Some name \<and> lf_value f \<noteq> None then lf_value f
      else drd_log_lookup_field fs name)"

definition field_or :: "log_field list \<Rightarrow> string \<Rightarrow> string \<Rightarrow> string" where
  "field_or fs name d =
     (case drd_log_lookup_field fs name of None \<Rightarrow> d | Some v \<Rightarrow> v)"

definition drd_log_writer :: "32 word \<Rightarrow> log_field list \<Rightarrow> string" where
  "drd_log_writer log_level fs =
     field_or fs ''GLIB_DOMAIN'' ''drd'' @ ''-'' @ drd_log_level_to_string log_level @ '' ['' @
     field_or fs ''CODE_FILE'' ''unknown'' @ '':'' @ field_or fs ''CODE_LINE'' ''0'' @ '' '' @
     field_or fs ''CODE_FUNC'' ''unknown'' @ '']: '' @ field_or fs ''MESSAGE'' ''(null)'' @
     [CHR 0x0A]"

subsection \<open>The installation\<close>

text \<open>GLib allows one call of \<open>g_log_set_writer_func\<close> in a process; \<open>ls_installs\<close> counts them.\<close>

record log_state =
  ls_initialized :: bool
  ls_installs :: nat

definition drd_log_init :: "log_state \<Rightarrow> log_state" where
  "drd_log_init s = (if ls_initialized s then s
     else s\<lparr>ls_installs := Suc (ls_installs s), ls_initialized := True\<rparr>)"

subsection \<open>What is written\<close>

lemma lookup_field_iff:
  "distinct (map lf_key fs) \<Longrightarrow> drd_log_lookup_field fs name = Some v \<longleftrightarrow>
     (\<exists>f \<in> set fs. lf_key f = Some name \<and> lf_value f = Some v)"
proof (induction fs)
  case (Cons f fs)
  have "lf_key f = Some name \<Longrightarrow> \<forall>g \<in> set fs. lf_key g \<noteq> Some name"
    using Cons.prems by (auto simp: image_iff)
  with Cons show ?case by (cases "lf_key f = Some name") auto
qed simp

text \<open>The order of the fields does not matter, and neither do the flags of the level.\<close>

theorem writer_ignores_order:
  assumes "distinct (map lf_key fs)" "distinct (map lf_key gs)" "set fs = set gs"
  shows "drd_log_writer level fs = drd_log_writer level gs"
proof -
  have "drd_log_lookup_field fs name = drd_log_lookup_field gs name" for name
    by (rule option.expand)
      (metis lookup_field_iff [OF assms(1)] lookup_field_iff [OF assms(2)] assms(3)
        option.collapse option.distinct(1) option.sel)+
  then show ?thesis by (simp add: drd_log_writer_def field_or_def)
qed

theorem level_ignores_flags:
  "drd_log_level_to_string (level OR 3) = drd_log_level_to_string level"
proof -
  have "(level OR 3) AND G_LOG_LEVEL_MASK = level AND G_LOG_LEVEL_MASK"
    unfolding G_LOG_LEVEL_MASK_def by (rule bit_eqI) (auto simp: bit_simps)
  then show ?thesis by (simp add: drd_log_level_to_string_def)
qed

text \<open>The line of a macro, from what GLib's documentation says of its fields.\<close>

theorem macro_line:
  assumes "distinct (map lf_key fs)"
    "{\<lparr>lf_key = Some ''CODE_FILE'', lf_value = Some file\<rparr>,
      \<lparr>lf_key = Some ''CODE_LINE'', lf_value = Some line\<rparr>,
      \<lparr>lf_key = Some ''CODE_FUNC'', lf_value = Some func\<rparr>,
      \<lparr>lf_key = Some ''MESSAGE'', lf_value = Some msg\<rparr>,
      \<lparr>lf_key = Some ''GLIB_DOMAIN'', lf_value = Some ''drd''\<rparr>} \<subseteq> set fs"
  shows "drd_log_writer (macro_level m) fs = ''drd-'' @
    (case m of DRD_LOG_DEBUG \<Rightarrow> ''Debug'' | DRD_LOG_MESSAGE \<Rightarrow> ''Message''
       | DRD_LOG_WARNING \<Rightarrow> ''Warning'' | DRD_LOG_ERROR \<Rightarrow> ''Critical'') @
    '' ['' @ file @ '':'' @ line @ '' '' @ func @ '']: '' @ msg @ [CHR 0x0A]"
proof -
  have field: "field_or fs name d = v"
    if "\<lparr>lf_key = Some name, lf_value = Some v\<rparr> \<in> set fs" for name d v
  proof -
    have "drd_log_lookup_field fs name = Some v"
      using that by (auto simp: lookup_field_iff [OF assms(1)] intro!: bexI)
    then show ?thesis by (simp add: field_or_def)
  qed
  have level: "drd_log_level_to_string (macro_level m) = (case m of DRD_LOG_DEBUG \<Rightarrow> ''Debug''
     | DRD_LOG_MESSAGE \<Rightarrow> ''Message'' | DRD_LOG_WARNING \<Rightarrow> ''Warning'' | DRD_LOG_ERROR \<Rightarrow> ''Critical'')"
    by (cases m) (simp_all add: macro_level_def drd_log_level_to_string_def G_LOG_LEVEL_MASK_def)
  have "field_or fs ''CODE_FILE'' ''unknown'' = file" "field_or fs ''CODE_LINE'' ''0'' = line"
    "field_or fs ''CODE_FUNC'' ''unknown'' = func" "field_or fs ''MESSAGE'' ''(null)'' = msg"
    "field_or fs ''GLIB_DOMAIN'' ''drd'' = ''drd''"
    using assms(2) by (simp_all add: field)
  then show ?thesis by (simp add: drd_log_writer_def level)
qed

text \<open>However often the log is initialized, the writer is installed once.\<close>

theorem log_init_once:
  "ls_installs ((drd_log_init ^^ n) \<lparr>ls_initialized = False, ls_installs = 0\<rparr>) = (if n = 0 then 0 else 1)"
proof -
  have "(drd_log_init ^^ Suc k) \<lparr>ls_initialized = False, ls_installs = 0\<rparr>
      = \<lparr>ls_initialized = True, ls_installs = 1\<rparr>" for k
    by (induction k) (simp_all add: drd_log_init_def)
  then show ?thesis by (cases n) (simp_all del: funpow.simps)
qed

end
