(* ===== verification/Encoding_Tiles.thy ===== *)
theory Encoding_Tiles
  imports Encoding_Manager "HOL-Library.Monad_Syntax"
begin

unbundle bit_operations_syntax

text \<open>
  The change detection of the encoding manager (\<^verbatim>\<open>src/encoding/drd_encoding_manager.c\<close>): the
  64-bit tile hash, the comparison of a new frame with the previous one over 64 by 64 tiles,
  and the collection of the dirty rectangles. \<open>None\<close> is a read outside a buffer or a failed
  \<open>WINPR_ASSERT\<close>, so the safety of every access is a theorem and not an assumption.
  \<open>memcpy\<close> into a 64-bit integer is little endian, as on the supported targets. Loop
  variables stay below the frame size, which is far below 2 ^ 32; the products that may exceed
  32 bits are wrapped where the code computes them in \<open>guint\<close>.
\<close>

subsection \<open>The tile hash\<close>

definition drd_gfx_rotl64 :: "u64 \<Rightarrow> nat \<Rightarrow> u64" where
  "drd_gfx_rotl64 value shift = push_bit shift value OR drop_bit (64 - shift) value"

definition drd_gfx_mix_chunk :: "u64 \<Rightarrow> u64 \<Rightarrow> u64" where
  "drd_gfx_mix_chunk hash chunk =
     (let c1 = chunk XOR drop_bit 30 chunk;
          c2 = c1 * 0xbf58476d1ce4e5b9;
          c3 = c2 XOR drop_bit 27 c2;
          c4 = c3 * 0x94d049bb133111eb;
          c5 = c4 XOR drop_bit 31 c4;
          h1 = hash XOR c5;
          h2 = drd_gfx_rotl64 h1 29
      in h2 * 0x9e3779b185ebca87)"

definition load64 :: "u8 list \<Rightarrow> u64" where
  "load64 bs = foldr (\<lambda>b acc. push_bit 8 acc OR ucast b) bs 0"

function hash_row_tail :: "u64 \<Rightarrow> u8 list \<Rightarrow> u64" where
  "hash_row_tail hash bs =
     (if 8 \<le> length bs
      then hash_row_tail (drd_gfx_mix_chunk hash (load64 (take 8 bs))) (drop 8 bs)
      else if 0 < length bs
      then drd_gfx_mix_chunk hash (load64 bs XOR push_bit 56 (word_of_nat (length bs)))
      else hash)"
  by pat_completeness auto
termination by (relation "measure (\<lambda>(h, bs). length bs)") auto

function hash_row :: "u64 \<Rightarrow> u8 list \<Rightarrow> u64" where
  "hash_row hash bs =
     (if 16 \<le> length bs
      then hash_row (drd_gfx_mix_chunk (drd_gfx_mix_chunk hash (load64 (take 8 bs)))
             (load64 (take 8 (drop 8 bs)))) (drop 16 bs)
      else hash_row_tail hash bs)"
  by pat_completeness auto
termination by (relation "measure (\<lambda>(h, bs). length bs)") auto

declare hash_row_tail.simps [simp del] hash_row.simps [simp del]

text \<open>The \<open>n\<close> bytes at offset \<open>off\<close>, \<open>None\<close> when they are not all inside the buffer.\<close>

definition read_bytes :: "u8 list \<Rightarrow> nat \<Rightarrow> nat \<Rightarrow> u8 list option" where
  "read_bytes data off n = (if off + n \<le> length data then Some (take n (drop off data)) else None)"

fun hash_rows :: "u8 list \<Rightarrow> nat \<Rightarrow> nat \<Rightarrow> nat \<Rightarrow> nat \<Rightarrow> nat list \<Rightarrow> u64 \<Rightarrow> u64 option" where
  "hash_rows data stride x y bytes_per_row [] hash = Some hash"
| "hash_rows data stride x y bytes_per_row (row # rows) hash = do {
     bs \<leftarrow> read_bytes data (wrap64 (wrap32 (y + row) * stride + x * 4)) bytes_per_row;
     hash_rows data stride x y bytes_per_row rows (hash_row hash bs) }"

definition drd_gfx_hash_tile ::
    "u8 list \<Rightarrow> nat \<Rightarrow> nat \<Rightarrow> nat \<Rightarrow> nat \<Rightarrow> nat \<Rightarrow> u64 option" where
  "drd_gfx_hash_tile data stride x y width height =
     hash_rows data stride x y (wrap32 (width * 4)) [0..<height] 0xcbf29ce484222325"

subsection \<open>Tiles\<close>

text \<open>The values of \<open>for (v = 0; v < n; v += 64)\<close>.\<close>

function steps64 :: "nat \<Rightarrow> nat \<Rightarrow> nat list" where
  "steps64 v n = (if v < n then v # steps64 (v + 64) n else [])"
  by pat_completeness auto
termination by (relation "measure (\<lambda>(v, n). n - v)") auto

declare steps64.simps [simp del]

type_synonym tile = "nat \<times> nat \<times> nat \<times> nat \<times> nat"  \<comment> \<open>x, y, width, height, index\<close>

definition tiles_of :: "nat \<Rightarrow> nat \<Rightarrow> nat \<Rightarrow> tile list" where
  "tiles_of ntx width height =
     concat (map (\<lambda>y. map (\<lambda>x. (x, y, min 64 (width - x), min 64 (height - y),
         wrap32 (y div 64 * ntx + x div 64))) (steps64 0 width)) (steps64 0 height))"

abbreviation enc_tiles :: "encoder \<Rightarrow> tile list" where
  "enc_tiles self \<equiv> tiles_of (tiles_x self) (diff_width self) (diff_height self)"

definition drd_encoding_manager_prepare_gfx_diff_state ::
    "encoder \<Rightarrow> nat \<Rightarrow> nat \<Rightarrow> nat \<Rightarrow> encoder" where
  "drd_encoding_manager_prepare_gfx_diff_state self width height stride =
     (let size_changed = diff_width self \<noteq> width \<or> diff_height self \<noteq> height \<or>
            diff_stride self \<noteq> stride;
          tx = wrap32 (width + 63) div 64;
          ty = wrap32 (height + 63) div 64;
          tiles_changed = tiles_x self \<noteq> tx \<or> tiles_y self \<noteq> ty
      in if \<not> size_changed \<and> \<not> tiles_changed \<and>
            length (previous_frame self) = wrap64 (stride * height) then self
         else self\<lparr>diff_width := width, diff_height := height, diff_stride := stride,
                tiles_x := tx, tiles_y := ty,
                previous_frame := replicate (wrap64 (stride * height)) 0,
                tile_hashes := replicate (wrap32 (tx * ty)) 0,
                force_keyframe := True, progressive_rfx_frames := 0\<rparr>)"

definition drd_encoding_manager_store_previous_frame ::
    "encoder \<Rightarrow> u8 list \<Rightarrow> nat \<Rightarrow> nat \<Rightarrow> encoder option" where
  "drd_encoding_manager_store_previous_frame self data stride height = do {
     bs \<leftarrow> read_bytes data 0 (wrap64 (stride * height));
     Some (self\<lparr>previous_frame := bs\<rparr>) }"

fun update_hashes :: "u8 list \<Rightarrow> nat \<Rightarrow> tile list \<Rightarrow> u64 list \<Rightarrow> u64 list option" where
  "update_hashes data stride [] hs = Some hs"
| "update_hashes data stride ((x, y, w, h, i) # ts) hs = do {
     hash \<leftarrow> drd_gfx_hash_tile data stride x y w h;
     if i < length hs then update_hashes data stride ts (hs[i := hash]) else None }"

definition drd_encoding_manager_update_tile_hashes ::
    "encoder \<Rightarrow> u8 list \<Rightarrow> nat \<Rightarrow> encoder option" where
  "drd_encoding_manager_update_tile_hashes self data stride =
     (if tiles_x self = 0 \<or> tiles_y self = 0 then Some self
      else map_option (\<lambda>hs. self\<lparr>tile_hashes := hs\<rparr>)
             (update_hashes data stride (enc_tiles self) (tile_hashes self)))"

text \<open>The \<open>memcmp\<close> loop of \<open>analyze_tiles\<close>, with its offset computed in 32 bits.\<close>

fun rows_differ :: "u8 list \<Rightarrow> u8 list \<Rightarrow> nat \<Rightarrow> nat \<Rightarrow> nat \<Rightarrow> nat \<Rightarrow> nat list \<Rightarrow> bool option" where
  "rows_differ previous data stride x y n [] = Some False"
| "rows_differ previous data stride x y n (row # rows) = do {
     a \<leftarrow> read_bytes previous (wrap32 ((y + row) * stride + x * 4)) n;
     b \<leftarrow> read_bytes data (wrap32 ((y + row) * stride + x * 4)) n;
     if a \<noteq> b then Some True else rows_differ previous data stride x y n rows }"

definition tile_different ::
    "u64 list \<Rightarrow> u8 list \<Rightarrow> u8 list option \<Rightarrow> nat \<Rightarrow> tile \<Rightarrow> bool option" where
  "tile_different hs data previous stride t = (case t of (x, y, w, h, i) \<Rightarrow> do {
     hash \<leftarrow> drd_gfx_hash_tile data stride x y w h;
     stored \<leftarrow> (if i < length hs then Some (hs ! i) else None);
     (case previous of
        None \<Rightarrow> Some True
      | Some p \<Rightarrow> if stored = hash then Some False
                  else rows_differ p data stride x y (wrap32 (w * 4)) [0..<h]) })"

fun analyze_loop ::
    "u64 list \<Rightarrow> u8 list \<Rightarrow> u8 list option \<Rightarrow> nat \<Rightarrow> tile list \<Rightarrow> bool list \<Rightarrow> nat \<Rightarrow>
     (bool list \<times> nat) option" where
  "analyze_loop hs data previous stride [] flags n = Some (flags, n)"
| "analyze_loop hs data previous stride (t # ts) flags n = do {
     d \<leftarrow> tile_different hs data previous stride t;
     (case t of (x, y, w, h, i) \<Rightarrow>
        if i < length flags
        then analyze_loop hs data previous stride ts (flags[i := d])
               (if d then wrap32 (n + 1) else n)
        else None) }"

text \<open>The result: the \<open>gboolean\<close>, the flags array and \<open>*changed_tiles\<close>.\<close>

definition drd_encoding_manager_analyze_tiles ::
    "encoder \<Rightarrow> u8 list \<Rightarrow> u8 list option \<Rightarrow> nat \<Rightarrow> ext_double \<Rightarrow> (bool \<times> bool list \<times> nat) option" where
  "drd_encoding_manager_analyze_tiles self data previous stride threshold =
     (if tiles_x self = 0 \<or> tiles_y self = 0 \<or> diff_width self = 0 \<or> diff_height self = 0
      then Some (True, [], 0)
      else let total_tiles = wrap32 (tiles_x self * tiles_y self)
      in if total_tiles = 0 then Some (True, [], 0)
      else do {
        (flags, n) \<leftarrow> analyze_loop (tile_hashes self) data previous stride (enc_tiles self)
           (replicate total_tiles False) 0;
        Some (dbl_reaches (dbl_div (of_nat n) (of_nat total_tiles)) threshold, flags, n) })"

subsection \<open>Dirty rectangles\<close>

text \<open>Rectangles with 16-bit fields: \<open>RFX_RECT\<close> (x, y, width, height) and
  \<open>RECTANGLE_16\<close> (left, top, right, bottom).\<close>

definition UINT16_MAX :: nat where "UINT16_MAX = 65535"

type_synonym rect16 = "nat \<times> nat \<times> nat \<times> nat"

definition u16_of :: "nat \<Rightarrow> nat" where "u16_of n = n mod 2 ^ 16"

datatype collector = Rects | Region

fun collect_loop :: "collector \<Rightarrow> bool list \<Rightarrow> tile list \<Rightarrow> rect16 list \<Rightarrow> rect16 list option" where
  "collect_loop c flags [] acc = Some acc"
| "collect_loop c flags ((x, y, w, h, i) # ts) acc =
     (if i < length flags
      then (if flags ! i
            then (case c of
                Rects \<Rightarrow> collect_loop c flags ts (acc @ [(u16_of x, u16_of y, u16_of w, u16_of h)])
              | Region \<Rightarrow> (if x + w \<le> UINT16_MAX \<and> y + h \<le> UINT16_MAX
                  then collect_loop c flags ts
                         (acc @ [(u16_of x, u16_of y, u16_of (x + w), u16_of (y + h))])
                  else None))
            else collect_loop c flags ts acc)
      else None)"

text \<open>\<open>has_dirty\<close> and the rectangles appended to the array, or united into the region.\<close>

definition drd_encoding_manager_collect_dirty_tiles ::
    "encoder \<Rightarrow> collector \<Rightarrow> bool list \<Rightarrow> (bool \<times> rect16 list) option" where
  "drd_encoding_manager_collect_dirty_tiles self c flags =
     (if tiles_x self = 0 \<or> tiles_y self = 0 then Some (False, [])
      else if length flags \<noteq> wrap32 (tiles_x self * tiles_y self) then None
      else map_option (\<lambda>rs. (rs \<noteq> [], rs)) (collect_loop c flags (enc_tiles self) []))"

definition drd_encoding_manager_collect_dirty_rects ::
    "encoder \<Rightarrow> bool list \<Rightarrow> (bool \<times> rect16 list) option" where
  "drd_encoding_manager_collect_dirty_rects self flags =
     drd_encoding_manager_collect_dirty_tiles self Rects flags"

definition drd_encoding_manager_collect_dirty_region ::
    "encoder \<Rightarrow> bool list \<Rightarrow> (bool \<times> rect16 list) option" where
  "drd_encoding_manager_collect_dirty_region self flags =
     drd_encoding_manager_collect_dirty_tiles self Region flags"

end
