(* ===== verification/Encoding_Diff.thy ===== *)
theory Encoding_Diff
  imports Encoding_Tiles
begin

text \<open>
  What the change detection of \<^verbatim>\<open>src/encoding/drd_encoding_manager.c\<close> guarantees: the 64 by 64
  tiles partition the frame, every access stays inside its buffer, the flags say exactly which
  tiles changed up to hash collisions, and the stored hashes stay coherent with the stored
  frame.
\<close>

subsection \<open>The tiling\<close>

definition ntiles :: "nat \<Rightarrow> nat" where "ntiles n = (n + 63) div 64"

lemma lt_ntiles: "k < ntiles n \<longleftrightarrow> 64 * k < n"
proof -
  have "k < ntiles n \<longleftrightarrow> Suc k \<le> (n + 63) div 64" by (simp add: ntiles_def less_eq_Suc_le)
  also have "\<dots> \<longleftrightarrow> Suc k * 64 \<le> n + 63" by (simp add: less_eq_div_iff_mult_less_eq)
  also have "\<dots> \<longleftrightarrow> 64 * k < n" by auto
  finally show ?thesis .
qed

lemma set_steps64: "v \<in> set (steps64 u n) \<longleftrightarrow> u \<le> v \<and> v < n \<and> (\<exists>k. v = u + 64 * k)"
proof (induction u n rule: steps64.induct)
  case (1 u n)
  show ?case
  proof (cases "u < n")
    case True
    have "(\<exists>k. v = u + 64 * k) \<longleftrightarrow> v = u \<or> (\<exists>k. v = u + 64 + 64 * k)"
      by (metis add.assoc add.right_neutral mult_0_right mult_Suc_right not0_implies_Suc)
    with True "1" show ?thesis
      by (subst steps64.simps) auto
  next
    case False
    then show ?thesis by (subst steps64.simps) auto
  qed
qed

lemma distinct_steps64: "distinct (steps64 u n)"
proof (induction u n rule: steps64.induct)
  case (1 u n)
  then show ?case by (subst steps64.simps) (auto simp: set_steps64)
qed

fun tile_ok :: "nat \<Rightarrow> nat \<Rightarrow> tile \<Rightarrow> bool" where
  "tile_ok W H (x, y, w, h, i) \<longleftrightarrow>
     (x div 64 * 64 = x \<and> y div 64 * 64 = y) \<and> x < W \<and> y < H \<and>
     w = min 64 (W - x) \<and> h = min 64 (H - y) \<and> i = y div 64 * ntiles W + x div 64"

lemma tile_okE:
  assumes "tile_ok W H t"
  obtains a b where "t = (64 * a, 64 * b, min 64 (W - 64 * a), min 64 (H - 64 * b), b * ntiles W + a)"
    "a < ntiles W" "b < ntiles H" "64 * a < W" "64 * b < H"
proof -
  obtain x y w h i where t: "t = (x, y, w, h, i)" by (cases t)
  show thesis
    using assms by (intro that [of "x div 64" "y div 64"]) (auto simp: t lt_ntiles mult.commute)
qed

lemma tile_okI:
  assumes "64 * a < W" "64 * b < H"
  shows "tile_ok W H (64 * a, 64 * b, min 64 (W - 64 * a), min 64 (H - 64 * b), b * ntiles W + a)"
  using assms by simp

lemma tile_index_bound:
  assumes "a < ntiles W" "b < ntiles H"
  shows "b * ntiles W + a < ntiles W * ntiles H"
proof -
  have "b * ntiles W + a < Suc b * ntiles W" using assms by simp
  also have "\<dots> \<le> ntiles H * ntiles W" by (rule mult_le_mono1) (use assms in simp)
  finally show ?thesis by (simp add: mult.commute)
qed

abbreviation tidx :: "tile \<Rightarrow> nat" where
  "tidx t \<equiv> snd (snd (snd (snd t)))"

lemma tidx_bound: "tile_ok W H t \<Longrightarrow> tidx t < ntiles W * ntiles H"
  by (auto elim!: tile_okE simp: tile_index_bound)

lemma tidx_inj: 
  assumes "tile_ok W H t" "tile_ok W H t'" "tidx t = tidx t'" 
  shows "t = t'"
proof -
  from assms(1) obtain a b where t: "t = (64 * a, 64 * b, min 64 (W - 64 * a), min 64 (H - 64 * b), b * ntiles W + a)"
    and a: "a < ntiles W" by (rule tile_okE)
  from assms(2) obtain a' b' where t': "t' = (64 * a', 64 * b', min 64 (W - 64 * a'), min 64 (H - 64 * b'), b' * ntiles W + a')"
    and a': "a' < ntiles W" by (rule tile_okE)
  have e: "b * ntiles W + a = b' * ntiles W + a'" using assms(3) t t' by simp
  then have "(b * ntiles W + a) mod ntiles W = (b' * ntiles W + a') mod ntiles W"
    "(b * ntiles W + a) div ntiles W = (b' * ntiles W + a') div ntiles W" by simp_all
  with a a' have "a = a'" "b = b'" by simp_all
  with t t' show ?thesis by simp
qed

lemma tiles_ok:
  assumes "ntiles W * ntiles H < 2 ^ 32"
  shows "t \<in> set (tiles_of (ntiles W) W H) \<longleftrightarrow> tile_ok W H t"
proof
  assume "t \<in> set (tiles_of (ntiles W) W H)"
  then obtain a b where ab: "64 * a < W" "64 * b < H"
    and t: "t = (64 * a, 64 * b, min 64 (W - 64 * a), min 64 (H - 64 * b), wrap32 (b * ntiles W + a))"
    by (auto simp: tiles_of_def set_steps64)
  have "b * ntiles W + a < 2 ^ 32"
    using assms ab tile_index_bound [of a W b H] by (simp add: lt_ntiles)
  with t tile_okI [OF ab] show "tile_ok W H t" by simp
next
  assume "tile_ok W H t"
  then obtain a b where t: "t = (64 * a, 64 * b, min 64 (W - 64 * a), min 64 (H - 64 * b), b * ntiles W + a)"
    and n: "a < ntiles W" "b < ntiles H" and ab: "64 * a < W" "64 * b < H"
    by (rule tile_okE)
  let ?f = "\<lambda>y x. (x, y, min 64 (W - x), min 64 (H - y), wrap32 (y div 64 * ntiles W + x div 64))"
  have "t = ?f (64 * b) (64 * a)"
    using t tile_index_bound [OF n] assms by simp
  moreover have "64 * a \<in> set (steps64 0 W)" "64 * b \<in> set (steps64 0 H)"
    using ab by (auto simp: set_steps64)
  then have "?f (64 * b) (64 * a) \<in> (\<Union>y \<in> set (steps64 0 H). ?f y ` set (steps64 0 W))"
    by blast
  ultimately show "t \<in> set (tiles_of (ntiles W) W H)"
    by (simp add: tiles_of_def)
qed

lemma distinct_tiles: "distinct (tiles_of n W H)"
proof -
  have "distinct (concat (map (\<lambda>y. map (\<lambda>x. (x, y, f x, g y, j x y)) xs) ys))"
    if "distinct xs" "distinct ys" for xs ys :: "nat list" and f g :: "nat \<Rightarrow> nat" and j :: "nat \<Rightarrow> nat \<Rightarrow> nat"
    using that by (induction ys) (auto simp: distinct_map inj_on_def)
  from this [OF distinct_steps64 distinct_steps64] show ?thesis by (simp add: tiles_of_def)
qed

lemma distinct_tidx:
  assumes "ntiles W * ntiles H < 2 ^ 32"
  shows "distinct (map tidx (tiles_of (ntiles W) W H))"
  unfolding distinct_map inj_on_def
  using distinct_tiles [of "ntiles W" W H] tidx_inj tiles_ok [OF assms] by blast

text \<open>Every pixel lies in exactly one tile.\<close>

definition pixel_in :: "nat \<Rightarrow> nat \<Rightarrow> tile \<Rightarrow> bool" where
  "pixel_in px py t = (case t of (x, y, w, h, i) \<Rightarrow> x \<le> px \<and> px < x + w \<and> y \<le> py \<and> py < y + h)"

lemma block_unique: "64 * a \<le> p \<Longrightarrow> p < 64 * a + 64 \<Longrightarrow> a = p div (64::nat)"
  by (metis add.commute div_nat_eqI mult.commute mult_Suc)

lemma tile_of_pixel:
  assumes "px < W" "py < H"
  shows "\<exists>!t. tile_ok W H t \<and> pixel_in px py t"
proof -
  let ?a = "px div 64" and ?b = "py div 64"
  let ?t = "(64 * ?a, 64 * ?b, min 64 (W - 64 * ?a), min 64 (H - 64 * ?b), ?b * ntiles W + ?a)"
  have p: "64 * (q div 64) \<le> q" "q < 64 * (q div 64) + 64" for q :: nat
    using mod_less_divisor [of 64 q] mult_div_mod_eq [of 64 q] by linarith+
  have lt: "64 * ?a < W" "64 * ?b < H" using p(1) [of px] p(1) [of py] assms by linarith+
  show ?thesis
  proof (rule ex1I [of _ ?t])
    show "tile_ok W H ?t \<and> pixel_in px py ?t"
      using tile_okI [OF lt] p [of px] p [of py] assms by (auto simp: pixel_in_def min_def)
    fix t assume t: "tile_ok W H t \<and> pixel_in px py t"
    then obtain a b where
      "t = (64 * a, 64 * b, min 64 (W - 64 * a), min 64 (H - 64 * b), b * ntiles W + a)"
      by (auto elim: tile_okE)
    moreover from this t have "a = ?a" "b = ?b"
      by (auto simp: pixel_in_def intro: block_unique)
    ultimately show "t = ?t" by simp
  qed
qed

subsection \<open>Tiles of a buffer\<close>

text \<open>The rows of bytes of a tile, and the hash of the tile as a fold over them.\<close>

definition tile_rows :: "u8 list \<Rightarrow> nat \<Rightarrow> tile \<Rightarrow> u8 list list" where
  "tile_rows data stride t = (case t of (x, y, w, h, i) \<Rightarrow>
     map (\<lambda>row. take (w * 4) (drop ((y + row) * stride + x * 4) data)) [0..<h])"

definition tile_hash :: "u8 list \<Rightarrow> nat \<Rightarrow> tile \<Rightarrow> u64" where
  "tile_hash data stride t = fold (\<lambda>bs h. hash_row h bs) (tile_rows data stride t) 0xcbf29ce484222325"

definition frame_ok :: "nat \<Rightarrow> nat \<Rightarrow> nat \<Rightarrow> bool" where
  "frame_ok W H stride \<longleftrightarrow> W \<le> 65535 \<and> H \<le> 65535 \<and> 4 * W \<le> stride \<and> stride * H < 2 ^ 32"

lemma row_end:
  assumes "tile_ok W H (x, y, w, h, i)" "4 * W \<le> stride" "row < h"
  shows "(y + row) * stride + x * 4 + w * 4 \<le> stride * H"
proof -
  have "x < W" "w \<le> W - x" using assms(1) by auto
  then have "x * 4 + w * 4 \<le> stride" using assms(2) by simp
  then have "(y + row) * stride + x * 4 + w * 4 \<le> Suc (y + row) * stride" by simp
  also have "\<dots> \<le> H * stride" by (rule mult_le_mono1) (use assms in auto)
  finally show ?thesis by (simp add: mult.commute)
qed

lemma read_row:
  assumes t: "tile_ok W H (x, y, w, h, i)" and f: "frame_ok W H stride" and row: "row < h"
    and len: "length data = stride * H"
  shows "read_bytes data (wrap64 (wrap32 (y + row) * stride + x * 4)) (w * 4) =
      Some (take (w * 4) (drop ((y + row) * stride + x * 4) data))"
    and "read_bytes data (wrap32 ((y + row) * stride + x * 4)) (w * 4) =
      Some (take (w * 4) (drop ((y + row) * stride + x * 4) data))"
proof -
  have e: "(y + row) * stride + x * 4 + w * 4 \<le> stride * H"
    by (rule row_end [OF t _ row]) (use f in \<open>simp add: frame_ok_def\<close>)
  moreover have "stride * H < 2 ^ 32" "y + row < 2 ^ 32"
    using f t row by (auto simp: frame_ok_def)
  ultimately show "read_bytes data (wrap64 (wrap32 (y + row) * stride + x * 4)) (w * 4) =
      Some (take (w * 4) (drop ((y + row) * stride + x * 4) data))"
    "read_bytes data (wrap32 ((y + row) * stride + x * 4)) (w * 4) =
      Some (take (w * 4) (drop ((y + row) * stride + x * 4) data))"
    by (simp_all add: read_bytes_def len)
qed

lemma hash_rows_eq:
  assumes "tile_ok W H (x, y, w, h, i)" "frame_ok W H stride" "length data = stride * H"
    "\<forall>r \<in> set rows. r < h"
  shows "hash_rows data stride x y (w * 4) rows hash =
    Some (fold (\<lambda>bs h. hash_row h bs)
      (map (\<lambda>row. take (w * 4) (drop ((y + row) * stride + x * 4) data)) rows) hash)"
  using assms(4)
  by (induction rows arbitrary: hash) (simp_all add: read_row [OF assms(1,2) _ assms(3)])

lemma hash_tile_eq:
  assumes "tile_ok W H (x, y, w, h, i)" "frame_ok W H stride" "length data = stride * H"
  shows "drd_gfx_hash_tile data stride x y w h = Some (tile_hash data stride (x, y, w, h, i))"
proof -
  have "wrap32 (w * 4) = w * 4" using assms(1) by simp
  then show ?thesis
    using hash_rows_eq [OF assms, of "[0..<h]"]
    by (simp add: drd_gfx_hash_tile_def tile_hash_def tile_rows_def)
qed

lemma rows_differ_eq:
  assumes "tile_ok W H (x, y, w, h, i)" "frame_ok W H stride" "length data = stride * H"
    "length previous = stride * H" "\<forall>r \<in> set rows. r < h"
  shows "rows_differ previous data stride x y (w * 4) rows =
    Some (map (\<lambda>row. take (w * 4) (drop ((y + row) * stride + x * 4) previous)) rows \<noteq>
          map (\<lambda>row. take (w * 4) (drop ((y + row) * stride + x * 4) data)) rows)"
  using assms(5)
  by (induction rows)
     (simp_all add: read_row(2) [OF assms(1,2) _ assms(3)] read_row(2) [OF assms(1,2) _ assms(4)])

text \<open>The change test of one tile, as a value.\<close>

definition tile_dirty :: "u64 list \<Rightarrow> u8 list \<Rightarrow> u8 list option \<Rightarrow> nat \<Rightarrow> tile \<Rightarrow> bool" where
  "tile_dirty hs data previous stride t = (case previous of None \<Rightarrow> True
     | Some p \<Rightarrow> hs ! tidx t \<noteq> tile_hash data stride t \<and>
                 tile_rows p stride t \<noteq> tile_rows data stride t)"

lemma tile_different_eq:
  assumes "tile_ok W H t" "frame_ok W H stride" "length data = stride * H"
    "length hs = ntiles W * ntiles H" "\<And>p. previous = Some p \<Longrightarrow> length p = stride * H"
  shows "tile_different hs data previous stride t = Some (tile_dirty hs data previous stride t)"
proof -
  obtain x y w h i where t: "t = (x, y, w, h, i)" by (cases t)
  have ok: "tile_ok W H (x, y, w, h, i)" using assms(1) t by simp
  have i: "i < length hs" using tidx_bound [OF assms(1)] assms(4) t by simp
  have w: "wrap32 (w * 4) = w * 4" using ok by simp
  show ?thesis
  proof (cases previous)
    case None
    then show ?thesis
      using i by (simp add: tile_different_def t tile_dirty_def hash_tile_eq [OF ok assms(2,3)])
  next
    case (Some p)
    then have lp: "length p = stride * H" by (rule assms(5))
    show ?thesis
      using i Some rows_differ_eq [OF ok assms(2,3) lp, of "[0..<h]"]
      by (auto simp: tile_different_def t tile_dirty_def hash_tile_eq [OF ok assms(2,3)] w
          tile_rows_def)
  qed
qed

subsection \<open>The loops over the tiles\<close>

lemma update_hashes_eq:
  assumes "frame_ok W H stride" "length data = stride * H"
    "\<forall>t \<in> set ts. tile_ok W H t" "length hs = ntiles W * ntiles H"
  shows "update_hashes data stride ts hs = Some (write_all tidx (tile_hash data stride) ts hs)"
  using assms(3,4)
proof (induction ts arbitrary: hs)
  case (Cons t ts)
  obtain x y w h i where t: "t = (x, y, w, h, i)" by (cases t)
  have "i < length hs" using tidx_bound [of W H t] Cons.prems t by auto
  moreover have "drd_gfx_hash_tile data stride x y w h = Some (tile_hash data stride t)"
    using hash_tile_eq [OF _ assms(1,2), of x y w h i] Cons.prems t by auto
  ultimately show ?case using Cons t by simp
qed simp

lemma analyze_loop_eq:
  assumes "frame_ok W H stride" "length data = stride * H"
    "\<And>p. previous = Some p \<Longrightarrow> length p = stride * H" "length hs = ntiles W * ntiles H"
    "\<forall>t \<in> set ts. tile_ok W H t" "length flags = ntiles W * ntiles H"
    "n + length ts < 2 ^ 32"
  shows "analyze_loop hs data previous stride ts flags n =
    Some (write_all tidx (tile_dirty hs data previous stride) ts flags,
          n + length (filter (tile_dirty hs data previous stride) ts))"
  using assms(5-7)
proof (induction ts arbitrary: flags n)
  case (Cons t ts)
  obtain x y w h i where t: "t = (x, y, w, h, i)" by (cases t)
  have "i < length flags" using tidx_bound [of W H t] Cons.prems t by auto
  moreover have "tile_different hs data previous stride t =
      Some (tile_dirty hs data previous stride t)"
    using Cons.prems by (intro tile_different_eq [OF _ assms(1,2,4)] assms(3)) auto
  moreover have "n + 1 < 2 ^ 32" using Cons.prems by simp
  ultimately show ?case
    using Cons.IH Cons.prems t by (cases "tile_dirty hs data previous stride t") auto
qed simp

fun tile_rect :: "collector \<Rightarrow> tile \<Rightarrow> rect16" where
  "tile_rect Rects (x, y, w, h, i) = (x, y, w, h)"
| "tile_rect Region (x, y, w, h, i) = (x, y, x + w, y + h)"

lemma collect_loop_eq:
  assumes "W \<le> 65535" "H \<le> 65535" "\<forall>t \<in> set ts. tile_ok W H t"
    "length flags = ntiles W * ntiles H"
  shows "collect_loop c flags ts acc =
    Some (acc @ map (tile_rect c) (filter (\<lambda>t. flags ! tidx t) ts))"
  using assms(3)
proof (induction ts arbitrary: acc)
  case (Cons t ts)
  obtain x y w h i where t: "t = (x, y, w, h, i)" by (cases t)
  have ok: "tile_ok W H (x, y, w, h, i)" using Cons.prems t by simp
  have i: "i < length flags" using tidx_bound [OF ok] assms(4) by simp
  have b: "x + w \<le> W" "y + h \<le> H" using ok by (auto simp: min_def)
  then have u: "u16_of x = x" "u16_of y = y" "u16_of w = w" "u16_of h = h"
    "u16_of (x + w) = x + w" "u16_of (y + h) = y + h"
    using assms(1,2) by (auto simp: u16_of_def)
  have v: "x + w \<le> UINT16_MAX" "y + h \<le> UINT16_MAX"
    using b assms(1,2) by (auto simp: UINT16_MAX_def)
  have IH: "collect_loop c flags ts acc' =
    Some (acc' @ map (tile_rect c) (filter (\<lambda>t. flags ! tidx t) ts))" for acc'
    using Cons by simp
  show ?case
    using i v IH by (cases c) (simp_all add: t u)
qed simp

subsection \<open>Well-formed and coherent difference state\<close>

definition diff_wf :: "encoder \<Rightarrow> bool" where
  "diff_wf self \<longleftrightarrow> frame_ok (diff_width self) (diff_height self) (diff_stride self) \<and>
     0 < diff_width self \<and> 0 < diff_height self \<and>
     tiles_x self = ntiles (diff_width self) \<and> tiles_y self = ntiles (diff_height self) \<and>
     length (previous_frame self) = diff_stride self * diff_height self \<and>
     length (tile_hashes self) = tiles_x self * tiles_y self"

definition coherent :: "encoder \<Rightarrow> bool" where
  "coherent self \<longleftrightarrow> (\<forall>t \<in> set (enc_tiles self). tile_hashes self ! tidx t = 0 \<or>
     tile_hashes self ! tidx t = tile_hash (previous_frame self) (diff_stride self) t)"

lemma ntiles_bound: "n \<le> 65535 \<Longrightarrow> ntiles n \<le> 1024"
  by (simp add: ntiles_def)

lemma ntiles_product:
  assumes "W \<le> 65535" "H \<le> 65535" shows "ntiles W * ntiles H \<le> 1024 * 1024"
  by (intro mult_le_mono ntiles_bound assms)

lemma ntiles_pos: "0 < n \<Longrightarrow> 0 < ntiles n"
  by (simp add: lt_ntiles)

lemma length_enc_tiles:
  assumes "ntiles W * ntiles H < 2 ^ 32"
  shows "length (tiles_of (ntiles W) W H) \<le> ntiles W * ntiles H"
proof -
  have "set (map tidx (tiles_of (ntiles W) W H)) \<subseteq> {..<ntiles W * ntiles H}"
    using tidx_bound by (auto simp: tiles_ok [OF assms] simp del: tile_ok.simps)
  then have "card (set (map tidx (tiles_of (ntiles W) W H))) \<le> card {..<ntiles W * ntiles H}"
    by (intro card_mono) auto
  then show ?thesis
    by (simp only: distinct_card [OF distinct_tidx [OF assms]] length_map card_lessThan)
qed

lemma wf_total:
  assumes wf: "diff_wf self"
  shows "tiles_x self * tiles_y self \<le> 1024 * 1024"
  "wrap32 (tiles_x self * tiles_y self) = tiles_x self * tiles_y self"
  "ntiles (diff_width self) * ntiles (diff_height self) < 2 ^ 32"
  "0 < tiles_x self * tiles_y self"
  using wf ntiles_product [of "diff_width self" "diff_height self"]
  by (auto simp: diff_wf_def frame_ok_def ntiles_pos)

lemma wf_tiles:
  assumes wf: "diff_wf self"
  shows "t \<in> set (enc_tiles self) \<longleftrightarrow> tile_ok (diff_width self) (diff_height self) t"
  using wf tiles_ok [OF wf_total(3) [OF wf]] by (simp add: diff_wf_def)

lemma wf_distinct:
  assumes wf: "diff_wf self"
  shows "distinct (map tidx (enc_tiles self))"
  using wf distinct_tidx [OF wf_total(3) [OF wf]] by (simp add: diff_wf_def)

lemma wf_tidx:
  assumes wf: "diff_wf self" and t: "t \<in> set (enc_tiles self)"
  shows "tidx t < tiles_x self * tiles_y self"
proof -
  have "tidx t < ntiles (diff_width self) * ntiles (diff_height self)"
    using t wf_tiles [OF wf] tidx_bound by blast
  with wf show ?thesis by (simp add: diff_wf_def)
qed

lemma update_tile_hashes_eq:
  assumes wf: "diff_wf self" and "length data = diff_stride self * diff_height self"
  shows "drd_encoding_manager_update_tile_hashes self data (diff_stride self) =
    Some (self\<lparr>tile_hashes := write_all tidx (tile_hash data (diff_stride self))
      (enc_tiles self) (tile_hashes self)\<rparr>)"
proof -
  have "update_hashes data (diff_stride self) (enc_tiles self) (tile_hashes self) =
    Some (write_all tidx (tile_hash data (diff_stride self)) (enc_tiles self) (tile_hashes self))"
    using wf assms wf_tiles [OF wf]
    by (intro update_hashes_eq [of "diff_width self" "diff_height self"]) (auto simp: diff_wf_def)
  then show ?thesis
    using wf_total(4) [OF wf] by (simp add: drd_encoding_manager_update_tile_hashes_def)
qed

lemma analyze_tiles_eq:
  assumes wf: "diff_wf self" and "length data = diff_stride self * diff_height self"
    and "\<And>p. previous = Some p \<Longrightarrow> length p = diff_stride self * diff_height self"
  shows "drd_encoding_manager_analyze_tiles self data previous (diff_stride self) thr =
    (let dirty = tile_dirty (tile_hashes self) data previous (diff_stride self);
         n = length (filter dirty (enc_tiles self))
     in Some (dbl_reaches (dbl_div (of_nat n) (of_nat (tiles_x self * tiles_y self))) thr,
              write_all tidx dirty (enc_tiles self)
                (replicate (tiles_x self * tiles_y self) False), n))"
proof -
  have len: "length (enc_tiles self) \<le> tiles_x self * tiles_y self"
    using length_enc_tiles [OF wf_total(3) [OF wf]] wf by (simp add: diff_wf_def)
  have "analyze_loop (tile_hashes self) data previous (diff_stride self) (enc_tiles self)
      (replicate (tiles_x self * tiles_y self) False) 0 =
    Some (write_all tidx (tile_dirty (tile_hashes self) data previous (diff_stride self))
        (enc_tiles self) (replicate (tiles_x self * tiles_y self) False),
      0 + length (filter (tile_dirty (tile_hashes self) data previous (diff_stride self))
        (enc_tiles self)))"
    using wf assms wf_tiles [OF wf] len wf_total(1) [OF wf]
    by (intro analyze_loop_eq [of "diff_width self" "diff_height self"]) (auto simp: diff_wf_def)
  moreover have "tiles_x self \<noteq> 0" "tiles_y self \<noteq> 0" "diff_width self \<noteq> 0" "diff_height self \<noteq> 0"
    using wf wf_total(4) [OF wf] by (auto simp: diff_wf_def)
  ultimately show ?thesis
    by (simp add: drd_encoding_manager_analyze_tiles_def wf_total(2) [OF wf] Let_def)
qed

lemma collect_eq:
  assumes wf: "diff_wf self" and "length flags = tiles_x self * tiles_y self"
  shows "drd_encoding_manager_collect_dirty_tiles self c flags =
    (let rs = map (tile_rect c) (filter (\<lambda>t. flags ! tidx t) (enc_tiles self))
     in Some (rs \<noteq> [], rs))"
proof -
  have "collect_loop c flags (enc_tiles self) [] =
    Some ([] @ map (tile_rect c) (filter (\<lambda>t. flags ! tidx t) (enc_tiles self)))"
    using wf assms wf_tiles [OF wf]
    by (intro collect_loop_eq [of "diff_width self" "diff_height self"])
       (auto simp: diff_wf_def frame_ok_def)
  with assms wf_total [OF wf] show ?thesis
    by (simp add: drd_encoding_manager_collect_dirty_tiles_def Let_def)
qed

subsection \<open>Preservation\<close>

lemma prepare_diff_wf:
  assumes "0 < W" "0 < H" "frame_ok W H stride"
  shows "diff_wf (drd_encoding_manager_prepare_gfx_diff_state self W H stride) \<or>
    (drd_encoding_manager_prepare_gfx_diff_state self W H stride = self \<and>
     length (tile_hashes self) \<noteq> tiles_x self * tiles_y self)"
proof -
  have b: "W + 63 < 2 ^ 32" "H + 63 < 2 ^ 32" "stride * H < 2 ^ 64"
    "ntiles W * ntiles H < 2 ^ 32"
    using assms(3) ntiles_product [of W H] by (auto simp: frame_ok_def)
  then have "wrap32 (W + 63) div 64 = ntiles W" "wrap32 (H + 63) div 64 = ntiles H"
    "wrap64 (stride * H) = stride * H" "wrap32 (ntiles W * ntiles H) = ntiles W * ntiles H"
    by (simp_all add: ntiles_def)
  with assms show ?thesis
    by (auto simp: drd_encoding_manager_prepare_gfx_diff_state_def Let_def diff_wf_def)
qed

text \<open>The lengths of the two buffers agree with the tile counts in every state the manager
  reaches; it is what lets the reuse branch of \<open>prepare_gfx_diff_state\<close> keep the state.\<close>

definition hashes_sized :: "encoder \<Rightarrow> bool" where
  "hashes_sized self \<longleftrightarrow> length (tile_hashes self) = tiles_x self * tiles_y self"

lemma prepare_diff_state:
  assumes "0 < W" "0 < H" "frame_ok W H stride" "hashes_sized self"
  shows "diff_wf (drd_encoding_manager_prepare_gfx_diff_state self W H stride)"
    and "diff_width (drd_encoding_manager_prepare_gfx_diff_state self W H stride) = W"
    and "diff_height (drd_encoding_manager_prepare_gfx_diff_state self W H stride) = H"
    and "diff_stride (drd_encoding_manager_prepare_gfx_diff_state self W H stride) = stride"
proof -
  show "diff_wf (drd_encoding_manager_prepare_gfx_diff_state self W H stride)"
    using prepare_diff_wf [OF assms(1-3), of self] assms(4) by (simp add: hashes_sized_def)
qed (simp_all add: drd_encoding_manager_prepare_gfx_diff_state_def Let_def)

lemma diff_wf_hashes_sized: "diff_wf self \<Longrightarrow> hashes_sized self"
  by (simp add: diff_wf_def hashes_sized_def)

lemma prepare_cases:
  "drd_encoding_manager_prepare_gfx_diff_state self W H stride = self \<or>
   (\<exists>n. tile_hashes (drd_encoding_manager_prepare_gfx_diff_state self W H stride) = replicate n 0)"
  unfolding drd_encoding_manager_prepare_gfx_diff_state_def Let_def
  by (rule if_split [THEN iffD2], intro conjI impI; simp; blast?)

lemma coherent_prepare:
  assumes "coherent self" "0 < W" "0 < H" "frame_ok W H stride" "hashes_sized self"
  shows "coherent (drd_encoding_manager_prepare_gfx_diff_state self W H stride)"
proof -
  let ?s = "drd_encoding_manager_prepare_gfx_diff_state self W H stride"
  have wf: "diff_wf ?s" by (rule prepare_diff_state(1) [OF assms(2) assms(3) assms(4) assms(5)])
  show ?thesis
  proof (rule disjE [OF prepare_cases [of self W H stride]])
    assume "?s = self"
    then show ?thesis using assms(1) by simp
  next
    assume "\<exists>n. tile_hashes ?s = replicate n 0"
    then obtain n where r: "tile_hashes ?s = replicate n 0" by blast
    then have "n = tiles_x ?s * tiles_y ?s"
      using wf unfolding diff_wf_def by (metis length_replicate)
    with r show ?thesis using wf_tidx [OF wf] by (auto simp: coherent_def)
  qed
qed

text \<open>Storing a frame and refreshing the hashes, as every successful encoding does.\<close>

definition store_and_hash :: "encoder \<Rightarrow> u8 list \<Rightarrow> nat \<Rightarrow> nat \<Rightarrow> encoder option" where
  "store_and_hash self data stride height = do {
     s \<leftarrow> drd_encoding_manager_store_previous_frame self data stride height;
     drd_encoding_manager_update_tile_hashes s data stride }"

lemma store_and_hash_eq:
  assumes wf: "diff_wf self" and len: "length data = diff_stride self * diff_height self"
  shows "store_and_hash self data (diff_stride self) (diff_height self) =
    Some (self\<lparr>previous_frame := data,
      tile_hashes := write_all tidx (tile_hash data (diff_stride self))
        (enc_tiles self) (tile_hashes self)\<rparr>)"
proof -
  have w: "wrap64 (diff_stride self * diff_height self) = diff_stride self * diff_height self"
    using wf by (simp add: diff_wf_def frame_ok_def)
  have "diff_wf (self\<lparr>previous_frame := data\<rparr>)"
    using wf len by (simp add: diff_wf_def)
  from update_tile_hashes_eq [OF this, of data] show ?thesis
    using len by (simp add: store_and_hash_def drd_encoding_manager_store_previous_frame_def
        read_bytes_def w)
qed

lemma store_and_hash_wf:
  assumes wf: "diff_wf self" and len: "length data = diff_stride self * diff_height self"
    and eq: "store_and_hash self data (diff_stride self) (diff_height self) = Some s"
  shows "diff_wf s" "coherent s" "previous_frame s = data"
    "\<And>t. t \<in> set (enc_tiles s) \<Longrightarrow> tile_hashes s ! tidx t = tile_hash data (diff_stride s) t"
proof -
  have s: "s = self\<lparr>previous_frame := data,
      tile_hashes := write_all tidx (tile_hash data (diff_stride self))
        (enc_tiles self) (tile_hashes self)\<rparr>"
    using eq store_and_hash_eq [OF wf len] by simp
  show "diff_wf s" "previous_frame s = data" using s wf len by (auto simp: diff_wf_def)
  show h: "tile_hashes s ! tidx t = tile_hash data (diff_stride s) t"
    if "t \<in> set (enc_tiles s)" for t
  proof -
    have t: "t \<in> set (enc_tiles self)" using that s by simp
    have "tidx t < length (tile_hashes self)"
      using wf_tidx [OF wf t] wf by (simp add: diff_wf_def)
    then show ?thesis
      using nth_write_all [OF wf_distinct [OF wf] t] by (simp add: s)
  qed
  show "coherent s"
    using h \<open>previous_frame s = data\<close> by (simp add: coherent_def)
qed

text \<open>The analysis reads inside the buffers and flags the changed tiles, up to hash collisions.\<close>

lemma dirty_flags:
  assumes "diff_wf self" and "coherent self"
    and "length data = diff_stride self * diff_height self"
  shows "\<exists>large flags n. drd_encoding_manager_analyze_tiles self data (Some (previous_frame self))
      (diff_stride self) thr = Some (large, flags, n) \<and>
    length flags = tiles_x self * tiles_y self \<and>
    n = length (filter (\<lambda>t. flags ! tidx t) (enc_tiles self)) \<and>
    (\<forall>t \<in> set (enc_tiles self).
      (flags ! tidx t \<longrightarrow> tile_rows (previous_frame self) (diff_stride self) t \<noteq>
         tile_rows data (diff_stride self) t) \<and>
      (tile_rows (previous_frame self) (diff_stride self) t \<noteq> tile_rows data (diff_stride self) t
         \<longrightarrow> flags ! tidx t \<or> tile_hash data (diff_stride self) t = 0 \<or>
         tile_hash data (diff_stride self) t = tile_hash (previous_frame self) (diff_stride self) t))"
proof -
  let ?dirty = "tile_dirty (tile_hashes self) data (Some (previous_frame self)) (diff_stride self)"
  let ?flags = "write_all tidx ?dirty (enc_tiles self) (replicate (tiles_x self * tiles_y self) False)"
  have f: "?flags ! tidx t = ?dirty t" if "t \<in> set (enc_tiles self)" for t
    using that wf_tidx [OF assms(1) that] wf_distinct [OF assms(1)] by (intro nth_write_all) auto
  have "length (filter ?dirty (enc_tiles self)) =
      length (filter (\<lambda>t. ?flags ! tidx t) (enc_tiles self))"
    by (rule arg_cong [where f = length], rule filter_cong [OF refl]) (simp only: f)
  moreover have "length (previous_frame self) = diff_stride self * diff_height self"
    using assms(1) by (simp add: diff_wf_def)
  ultimately have r: "\<exists>large. drd_encoding_manager_analyze_tiles self data
      (Some (previous_frame self)) (diff_stride self) thr =
      Some (large, ?flags, length (filter (\<lambda>t. ?flags ! tidx t) (enc_tiles self)))"
    using analyze_tiles_eq [OF assms(1,3), of "Some (previous_frame self)" thr]
    by (simp add: Let_def)
  have "(?dirty t \<longrightarrow> tile_rows (previous_frame self) (diff_stride self) t \<noteq>
         tile_rows data (diff_stride self) t) \<and>
      (tile_rows (previous_frame self) (diff_stride self) t \<noteq> tile_rows data (diff_stride self) t
         \<longrightarrow> ?dirty t \<or> tile_hash data (diff_stride self) t = 0 \<or>
         tile_hash data (diff_stride self) t = tile_hash (previous_frame self) (diff_stride self) t)"
    if "t \<in> set (enc_tiles self)" for t
    using assms(2) that by (auto simp: tile_dirty_def coherent_def)
  note exact = this
  from r obtain large where l: "drd_encoding_manager_analyze_tiles self data
      (Some (previous_frame self)) (diff_stride self) thr =
      Some (large, ?flags, length (filter (\<lambda>t. ?flags ! tidx t) (enc_tiles self)))" by blast
  show ?thesis
    by (rule exI [of _ large], rule exI [of _ ?flags], rule exI, intro conjI ballI, rule l, simp, rule refl)
       (simp_all only: f, (erule exact [THEN conjunct1] exact [THEN conjunct2])+)
qed

subsection \<open>Properties\<close>

text \<open>
  the tile comparison finds the changed tiles up to hash collisions: on a well-formed,
  coherent difference state and a new frame of the configured size, the analysis reads no byte
  outside a buffer, the flag it sets for a tile implies that some byte of the tile changed, and
  a changed tile whose flag is not set has the hash of its previous contents, or hash zero.
\<close>

theorem dirty_flags_exact:
  assumes "diff_wf self" and "coherent self"
    and "length data = diff_stride self * diff_height self"
  shows "\<exists>large flags n. drd_encoding_manager_analyze_tiles self data (Some (previous_frame self))
      (diff_stride self) thr = Some (large, flags, n) \<and>
    n = length (filter (\<lambda>t. flags ! tidx t) (enc_tiles self)) \<and>
    (\<forall>t \<in> set (enc_tiles self).
      (flags ! tidx t \<longrightarrow> tile_rows (previous_frame self) (diff_stride self) t \<noteq>
         tile_rows data (diff_stride self) t) \<and>
      (tile_rows (previous_frame self) (diff_stride self) t \<noteq> tile_rows data (diff_stride self) t
         \<longrightarrow> flags ! tidx t \<or> tile_hash data (diff_stride self) t = 0 \<or>
         tile_hash data (diff_stride self) t = tile_hash (previous_frame self) (diff_stride self) t))"
  using dirty_flags [OF assms] by blast

text \<open>A one-pixel frame, for the witnesses.\<close>

definition pixel_encoder :: encoder where
  "pixel_encoder = drd_encoding_manager_init\<lparr>diff_width := 1, diff_height := 1, diff_stride := 4,
     tiles_x := 1, tiles_y := 1, previous_frame := [0, 0, 0, 0], tile_hashes := [0]\<rparr>"

lemma pixel_encoder_wf: "diff_wf pixel_encoder"
  by (simp add: pixel_encoder_def diff_wf_def frame_ok_def ntiles_def)

lemma pixel_encoder_tiles: "enc_tiles pixel_encoder = [(0, 0, 1, 1, 0)]"
  by (simp add: pixel_encoder_def tiles_of_def steps64.simps [of 0] steps64.simps [of 64])

lemma pixel_encoder_coherent: "coherent pixel_encoder"
  unfolding coherent_def pixel_encoder_tiles by (simp add: pixel_encoder_def)

theorem dirty_flags_exact_witness:
  "\<exists>large flags n. drd_encoding_manager_analyze_tiles pixel_encoder [0, 0, 0, 0]
     (Some [0, 0, 0, 0]) 4 (Finite 0) = Some (large, flags, n) \<and> \<not> flags ! 0"
proof -
  have f: "previous_frame pixel_encoder = [0, 0, 0, 0]" "diff_stride pixel_encoder = 4"
    "diff_height pixel_encoder = 1"
    by (simp_all add: pixel_encoder_def)
  from dirty_flags_exact [OF pixel_encoder_wf pixel_encoder_coherent, of "[0, 0, 0, 0]" "Finite 0"]
  show ?thesis unfolding pixel_encoder_tiles unfolding f by auto
qed

text \<open>
  every pixel of the frame lies in exactly one of the tiles that the loops visit, so no
  part of the screen escapes the comparison.
\<close>

theorem tiles_partition_frame:
  assumes "diff_wf self" and "px < diff_width self" and "py < diff_height self"
  shows "\<exists>!t. t \<in> set (enc_tiles self) \<and> pixel_in px py t"
  unfolding wf_tiles [OF assms(1)] using assms(2,3) by (rule tile_of_pixel)

theorem tiles_partition_frame_witness:
  "\<exists>!t. t \<in> set (enc_tiles pixel_encoder) \<and> pixel_in 0 0 t"
  by (rule tiles_partition_frame [OF pixel_encoder_wf]) (simp_all add: pixel_encoder_def)

end
