(* ===== verification/Frame.thy ===== *)
theory Frame
  imports Drd_Prelude
begin

text \<open>
  The captured frame of \<^verbatim>\<open>src/utils/drd_frame.c\<close>: a pixel buffer (the \<open>GByteArray\<close>, a list of
  bytes), the geometry and the time stamp. The buffer keeps its contents up to the smaller
  of the two lengths when it is resized, and the fresh bytes of a larger buffer are
  unspecified memory: the operation takes them as an argument.
\<close>

record drd_frame =
  pixels :: "u8 list"
  fr_width :: u32
  fr_height :: u32
  fr_stride :: u32
  fr_timestamp :: u64

definition drd_frame_new :: drd_frame where
  "drd_frame_new = \<lparr>pixels = [], fr_width = 0, fr_height = 0, fr_stride = 0, fr_timestamp = 0\<rparr>"

definition drd_frame_configure ::
    "drd_frame \<Rightarrow> u32 \<Rightarrow> u32 \<Rightarrow> u32 \<Rightarrow> u64 \<Rightarrow> drd_frame" where
  "drd_frame_configure self width height stride timestamp =
     self\<lparr>fr_width := width, fr_height := height, fr_stride := stride, fr_timestamp := timestamp\<rparr>"

definition drd_frame_get_width :: "drd_frame \<Rightarrow> u32" where
  "drd_frame_get_width self = fr_width self"

definition drd_frame_get_height :: "drd_frame \<Rightarrow> u32" where
  "drd_frame_get_height self = fr_height self"

definition drd_frame_get_stride :: "drd_frame \<Rightarrow> u32" where
  "drd_frame_get_stride self = fr_stride self"

definition drd_frame_get_timestamp :: "drd_frame \<Rightarrow> u64" where
  "drd_frame_get_timestamp self = fr_timestamp self"

text \<open>
  \<open>fresh i\<close> is the byte that the allocator leaves at index \<open>i\<close> of a grown buffer.
\<close>

definition byte_array_set_size :: "(nat \<Rightarrow> u8) \<Rightarrow> nat \<Rightarrow> u8 list \<Rightarrow> u8 list" where
  "byte_array_set_size fresh n xs = take n xs @ map fresh [length xs..<n]"

definition drd_frame_ensure_capacity ::
    "(nat \<Rightarrow> u8) \<Rightarrow> drd_frame \<Rightarrow> nat \<Rightarrow> drd_frame" where
  "drd_frame_ensure_capacity fresh self n =
     (if length (pixels self) \<noteq> n then self\<lparr>pixels := byte_array_set_size fresh n (pixels self)\<rparr>
      else self)"

text \<open>\<open>memcpy\<close> into the first \<open>length src\<close> bytes of the pointer that
  \<open>ensure_capacity\<close> returned; \<open>None\<close> when it would write past the buffer.\<close>

definition frame_write :: "drd_frame \<Rightarrow> u8 list \<Rightarrow> drd_frame option" where
  "frame_write self src =
     (if length src \<le> length (pixels self)
      then Some (self\<lparr>pixels := src @ drop (length src) (pixels self)\<rparr>) else None)"

definition drd_frame_get_data :: "drd_frame \<Rightarrow> u8 list \<times> nat" where
  "drd_frame_get_data self = (pixels self, length (pixels self))"

definition drd_frame_dispose :: "drd_frame \<Rightarrow> drd_frame" where
  "drd_frame_dispose self = self\<lparr>pixels := []\<rparr>"

lemma length_byte_array_set_size [simp]: "length (byte_array_set_size fresh n xs) = n"
  by (auto simp: byte_array_set_size_def)

lemma take_byte_array_set_size:
  "k \<le> n \<Longrightarrow> k \<le> length xs \<Longrightarrow> take k (byte_array_set_size fresh n xs) = take k xs"
  by (auto simp: byte_array_set_size_def min_def)

lemma ensure_capacity_length [simp]:
  "length (pixels (drd_frame_ensure_capacity fresh f n)) = n"
  by (simp add: drd_frame_ensure_capacity_def)

lemma ensure_capacity_geometry [simp]:
  "fr_width (drd_frame_ensure_capacity fresh f n) = fr_width f"
  "fr_height (drd_frame_ensure_capacity fresh f n) = fr_height f"
  "fr_stride (drd_frame_ensure_capacity fresh f n) = fr_stride f"
  "fr_timestamp (drd_frame_ensure_capacity fresh f n) = fr_timestamp f"
  by (simp_all add: drd_frame_ensure_capacity_def)

lemma write_after_ensure_capacity:
  "frame_write (drd_frame_ensure_capacity fresh f (length src)) src
     = Some (f\<lparr>pixels := src\<rparr>)"
proof -
  let ?g = "drd_frame_ensure_capacity fresh f (length src)"
  have "length (pixels ?g) = length src" by simp
  then have "frame_write ?g src = Some (?g\<lparr>pixels := src\<rparr>)"
    by (simp add: frame_write_def)
  then show ?thesis
    by (simp add: drd_frame_ensure_capacity_def)
qed

end
