(* ===== verification/Encoding_Codecs.thy ===== *)
theory Encoding_Codecs
  imports Encoding_Tiles Frame
begin

text \<open>
  The codec contexts of the encoding manager (\<^verbatim>\<open>src/encoding/drd_encoding_manager.c\<close>): the
  lazy initialisation of the FreeRDP encoders and the FFmpeg VAAPI encoder. FreeRDP and FFmpeg
  are parameters: \<open>codec_api\<close> holds the flag constants and what each FreeRDP call answers,
  \<open>vaapi_api\<close> what each FFmpeg call answers during one use of the encoder. A call on a context
  that is NULL, or on a picture shorter than \<open>stride * height\<close> bytes, is \<open>None\<close>.
\<close>

subsection \<open>What the libraries answer\<close>

record vaapi_api =
  va_find_encoder :: bool
  va_device_create :: bool
  va_frames_alloc :: bool
  va_frames_init :: bool
  va_context_alloc :: bool
  va_frames_ref :: bool
  va_open :: bool
  va_sws_context :: bool
  va_frame_alloc :: bool
  va_frame_buffer :: bool
  va_make_writable :: bool
  va_sws_scale :: int
  va_hw_frame_alloc :: bool
  va_hw_get_buffer :: bool
  va_hw_transfer :: bool
  va_send_frame :: bool
  va_packet_alloc :: bool
  va_packets :: "u8 list list"
  va_drained :: bool  \<comment> \<open>the last \<open>receive_packet\<close> is EAGAIN or EOF\<close>

datatype h264_option = RateControl | Bitrate nat | Framerate nat | Qp nat

datatype surface_codec =
    CODECID_AVC444v2 | CODECID_AVC444 | CODECID_AVC420 | CODECID_CAPROGRESSIVE | CODECID_CAVIDEO

record surface_command =
  cmd_codec :: surface_codec
  cmd_surface :: u16
  cmd_frame_id :: u32
  cmd_width :: nat
  cmd_height :: nat
  cmd_rects :: "rect16 list"  \<comment> \<open>the region or rectangles handed to the codec\<close>

record codec_api =
  flag_remotefx :: u32
  flag_avc420 :: u32
  flag_avc444 :: u32
  flag_progressive :: u32
  h264_context_new :: bool
  h264_context_reset :: "nat \<Rightarrow> nat \<Rightarrow> bool"
  h264_context_set_option :: "h264_option \<Rightarrow> bool"
  rfx_context_new :: bool
  rfx_context_reset :: "nat \<Rightarrow> nat \<Rightarrow> bool"
  progressive_context_new :: bool
  progressive_context_reset :: bool
  avc444_compress :: "u8 list \<Rightarrow> rect16 \<Rightarrow> int"
  avc420_compress :: "u8 list \<Rightarrow> rect16 \<Rightarrow> int"
  progressive_compress :: "u8 list \<Rightarrow> rect16 list \<Rightarrow> int"
  rfx_compose_message :: "u8 list \<Rightarrow> rect16 list \<Rightarrow> bool"
  surface_frame_command :: "surface_command \<Rightarrow> nat"

subsection \<open>The VAAPI encoder\<close>

definition drd_vaapi_encoder_prepare :: "vaapi_api \<Rightarrow> encoder \<Rightarrow> encoder \<times> unit res" where
  "drd_vaapi_encoder_prepare va self =
     (if vaapi_encoder self \<and> vaapi_width self = frame_width self \<and>
         vaapi_height self = frame_height self then (self, ok)
      else let s0 = drd_vaapi_encoder_release self in
      if \<not> va_find_encoder va then (s0, fail_io IoFailed)
      else if \<not> va_device_create va then (drd_vaapi_encoder_release s0, fail_io IoFailed)
      else let s1 = s0\<lparr>vaapi_device := True, vaapi_frames := va_frames_alloc va\<rparr> in
      if \<not> va_frames_alloc va then (drd_vaapi_encoder_release s1, fail_io IoFailed)
      else if \<not> va_frames_init va then (drd_vaapi_encoder_release s1, fail_io IoFailed)
      else let s2 = s1\<lparr>vaapi_encoder := va_context_alloc va\<rparr> in
      if \<not> va_context_alloc va then (drd_vaapi_encoder_release s2, fail_io IoFailed)
      else if \<not> va_frames_ref va then (drd_vaapi_encoder_release s2, fail_io IoFailed)
      else if \<not> va_open va then (drd_vaapi_encoder_release s2, fail_io IoFailed)
      else let s3 = s2\<lparr>vaapi_sws := va_sws_context va\<rparr> in
      if \<not> va_sws_context va then (drd_vaapi_encoder_release s3, fail_io IoFailed)
      else let s4 = s3\<lparr>vaapi_sw_frame := va_frame_alloc va\<rparr> in
      if \<not> va_frame_alloc va then (drd_vaapi_encoder_release s4, fail_io IoFailed)
      else if \<not> va_frame_buffer va then (drd_vaapi_encoder_release s4, fail_io IoFailed)
      else (s4\<lparr>vaapi_width := frame_width s4, vaapi_height := frame_height s4\<rparr>, ok))"

text \<open>\<open>g_malloc0\<close> aborts instead of returning NULL, so the block is always built: one
  region and one zero quality value.\<close>

definition drd_h264_build_fullframe_metablock :: "rect16 \<Rightarrow> rect16 list \<times> nat list" where
  "drd_h264_build_fullframe_metablock regionRect = ([regionRect], [0])"

text \<open>The encoded stream: region rectangles, quality values and the bytes of all packets.\<close>

type_synonym avc420_stream = "(rect16 list \<times> nat list) \<times> u8 list"

definition picture_ok :: "u8 list \<Rightarrow> nat \<Rightarrow> nat \<Rightarrow> bool" where
  "picture_ok data stride height \<longleftrightarrow> stride * height \<le> length data"

definition drd_vaapi_encode_avc420 ::
    "vaapi_api \<Rightarrow> encoder \<Rightarrow> u8 list \<Rightarrow> nat \<Rightarrow> rect16 \<Rightarrow> (encoder \<times> avc420_stream res) option" where
  "drd_vaapi_encode_avc420 va self data stride regionRect =
     (case drd_vaapi_encoder_prepare va self of
        (s, Inl e) \<Rightarrow> Some (s, Inl e)
      | (s, Inr _) \<Rightarrow>
          if \<not> vaapi_sw_frame s then None
          else if \<not> va_make_writable va then Some (s, fail_io IoFailed)
          else if \<not> vaapi_sws s \<or> \<not> picture_ok data stride (frame_height s) then None
          else if va_sws_scale va \<le> 0 then Some (s, fail_io IoFailed)
          else if \<not> va_hw_frame_alloc va then Some (s, fail_io IoFailed)
          else if \<not> vaapi_frames s then None
          else if \<not> va_hw_get_buffer va then Some (s, fail_io IoFailed)
          else if \<not> va_hw_transfer va then Some (s, fail_io IoFailed)
          else if \<not> vaapi_encoder s then None
          else if \<not> va_send_frame va then Some (s, fail_io IoFailed)
          else if \<not> va_packet_alloc va then Some (s, fail_io IoFailed)
          else if \<not> va_drained va then Some (s, fail_io IoFailed)
          else if concat (va_packets va) = [] then Some (s, fail_io IoPending)
          else Some (s, Inr (drd_h264_build_fullframe_metablock regionRect,
                             concat (va_packets va))))"

text \<open>The VAAPI objects exist all together or not at all, and the cached size is the size of
  the encoder they belong to.\<close>

definition vaapi_inv :: "encoder \<Rightarrow> bool" where
  "vaapi_inv self \<longleftrightarrow>
     vaapi_device self = vaapi_encoder self \<and> vaapi_frames self = vaapi_encoder self \<and>
     vaapi_sw_frame self = vaapi_encoder self \<and> vaapi_sws self = vaapi_encoder self \<and>
     (\<not> vaapi_encoder self \<longrightarrow> vaapi_width self = 0 \<and> vaapi_height self = 0)"

lemma vaapi_release_inv [simp]: "vaapi_inv (drd_vaapi_encoder_release self)"
  by (simp add: vaapi_inv_def drd_vaapi_encoder_release_def)

lemma vaapi_release_none [simp]: "\<not> vaapi_encoder (drd_vaapi_encoder_release self)"
  by (simp add: drd_vaapi_encoder_release_def)

lemma vaapi_prepare_inv [drd_inv]:
  "vaapi_inv self \<Longrightarrow> vaapi_inv (fst (drd_vaapi_encoder_prepare va self))"
  by (simp add: drd_vaapi_encoder_prepare_def Let_def)
     (simp add: vaapi_inv_def drd_vaapi_encoder_release_def)

lemma vaapi_prepare_ok:
  assumes "drd_vaapi_encoder_prepare va self = (s, Inr u)"
  shows "vaapi_encoder s \<and> vaapi_width s = frame_width s \<and> vaapi_height s = frame_height s"
  using assms
  by (auto simp: drd_vaapi_encoder_prepare_def Let_def drd_vaapi_encoder_release_def
      split: if_splits)

lemma vaapi_prepare_failed:
  assumes "drd_vaapi_encoder_prepare va self = (s, Inl e)"
  shows "\<not> vaapi_encoder s \<and> e = GIo IoFailed"
  using assms
  by (auto simp: drd_vaapi_encoder_prepare_def Let_def split: if_splits)

text \<open>Nothing but the VAAPI fields changes: the state without them.\<close>

definition forget_vaapi :: "encoder \<Rightarrow> encoder" where
  "forget_vaapi self = drd_vaapi_encoder_release self"

lemma forget_vaapi_update [simp]:
  "forget_vaapi (s\<lparr>vaapi_device := a\<rparr>) = forget_vaapi s"
  "forget_vaapi (s\<lparr>vaapi_frames := a\<rparr>) = forget_vaapi s"
  "forget_vaapi (s\<lparr>vaapi_encoder := a\<rparr>) = forget_vaapi s"
  "forget_vaapi (s\<lparr>vaapi_sws := a\<rparr>) = forget_vaapi s"
  "forget_vaapi (s\<lparr>vaapi_sw_frame := a\<rparr>) = forget_vaapi s"
  "forget_vaapi (s\<lparr>vaapi_width := n\<rparr>) = forget_vaapi s"
  "forget_vaapi (s\<lparr>vaapi_height := n\<rparr>) = forget_vaapi s"
  "forget_vaapi (drd_vaapi_encoder_release s) = forget_vaapi s"
  by (simp_all add: forget_vaapi_def drd_vaapi_encoder_release_def)

lemma vaapi_prepare_frame: "forget_vaapi (fst (drd_vaapi_encoder_prepare va self)) = forget_vaapi self"
  by (simp add: drd_vaapi_encoder_prepare_def Let_def)

lemma vaapi_encode_frame:
  assumes "drd_vaapi_encode_avc420 va self data stride r = Some (s, x)"
  shows "s = fst (drd_vaapi_encoder_prepare va self)"
  using assms
  by (cases "drd_vaapi_encoder_prepare va self")
     (auto simp: drd_vaapi_encode_avc420_def split: sum.splits if_splits)

lemma vaapi_frame_size:
  "frame_height (fst (drd_vaapi_encoder_prepare va self)) = frame_height self"
  using arg_cong [OF vaapi_prepare_frame, of frame_height va self]
  by (simp add: forget_vaapi_def drd_vaapi_encoder_release_def)

lemma vaapi_encode_safe:
  assumes inv: "vaapi_inv self" and len: "stride * frame_height self \<le> length data"
  shows "\<exists>s x. drd_vaapi_encode_avc420 va self data stride r = Some (s, x)"
proof (cases "drd_vaapi_encoder_prepare va self")
  case (Pair s x)
  have i: "vaapi_inv s" using vaapi_prepare_inv [OF inv, of va] Pair by simp
  have h: "frame_height s = frame_height self" using vaapi_frame_size [of va self] Pair by simp
  show ?thesis
  proof (cases x)
    case (Inr u)
    then show ?thesis
      using vaapi_prepare_ok [of va self s u] Pair i h len
      by (simp add: drd_vaapi_encode_avc420_def vaapi_inv_def picture_ok_def)
  qed (simp add: drd_vaapi_encode_avc420_def Pair)
qed

subsection \<open>The FreeRDP encoders\<close>

abbreviation avc_flags :: "codec_api \<Rightarrow> u32" where
  "avc_flags fr \<equiv> flag_avc420 fr OR flag_avc444 fr"

definition has_flag :: "u32 \<Rightarrow> u32 \<Rightarrow> bool" where
  "has_flag cs flag \<longleftrightarrow> cs AND flag \<noteq> 0"

definition drd_encoder_init_h264 :: "codec_api \<Rightarrow> encoder \<Rightarrow> encoder \<times> bool" where
  "drd_encoder_init_h264 fr self =
     (let s = (if \<not> h264 self then self\<lparr>h264 := h264_context_new fr\<rparr> else self);
          failed = (s\<lparr>h264 := False\<rparr>, False)
      in if \<not> h264 s then failed
      else if \<not> h264_context_reset fr (frame_width s) (frame_height s) then failed
      else if \<not> h264_context_set_option fr RateControl then failed
      else if \<not> h264_context_set_option fr (Bitrate (h264_bitrate s)) then failed
      else if \<not> h264_context_set_option fr (Framerate (h264_framerate s)) then failed
      else if \<not> h264_context_set_option fr (Qp (h264_qp s)) then failed
      else (s\<lparr>codecs := codecs s OR avc_flags fr\<rparr>, True))"

definition drd_encoder_init_rfx :: "codec_api \<Rightarrow> encoder \<Rightarrow> encoder \<times> bool" where
  "drd_encoder_init_rfx fr self =
     (let s = (if \<not> rfx self then self\<lparr>rfx := rfx_context_new fr\<rparr> else self);
          failed = (s\<lparr>rfx := False\<rparr>, False)
      in if \<not> rfx s then failed
      else if \<not> rfx_context_reset fr (frame_width s) (frame_height s) then failed
      else (s\<lparr>codecs := codecs s OR flag_remotefx fr\<rparr>, True))"

definition drd_encoder_init_progressive :: "codec_api \<Rightarrow> encoder \<Rightarrow> encoder \<times> bool" where
  "drd_encoder_init_progressive fr self =
     (let s = (if \<not> progressive self then self\<lparr>progressive := progressive_context_new fr\<rparr>
               else self);
          failed = (s\<lparr>progressive := False\<rparr>, False)
      in if \<not> progressive s then failed
      else if \<not> progressive_context_reset fr then failed
      else (s\<lparr>codecs := codecs s OR flag_progressive fr\<rparr>, True))"

text \<open>The three blocks of \<open>drd_encoder_prepare\<close> have one shape: initialise on the first use,
  and stop at the first failure.\<close>

definition init_codec ::
    "u32 \<Rightarrow> u32 \<Rightarrow> (encoder \<Rightarrow> encoder \<times> bool) \<Rightarrow> encoder \<times> bool \<Rightarrow> encoder \<times> bool" where
  "init_codec wanted flags initialise r =
     (case r of (s, good) \<Rightarrow>
        if good \<and> has_flag wanted flags \<and> \<not> has_flag (codecs s) flags then initialise s
        else (s, good))"

definition drd_encoder_prepare :: "codec_api \<Rightarrow> u32 \<Rightarrow> encoder \<Rightarrow> encoder \<times> bool" where
  "drd_encoder_prepare fr wanted self =
     init_codec wanted (flag_progressive fr) (drd_encoder_init_progressive fr)
       (init_codec wanted (avc_flags fr) (drd_encoder_init_h264 fr)
          (init_codec wanted (flag_remotefx fr) (drd_encoder_init_rfx fr) (self, True)))"

text \<open>The flag constants of FreeRDP are distinct bits.\<close>

definition flags_ok :: "codec_api \<Rightarrow> bool" where
  "flags_ok fr \<longleftrightarrow>
     flag_remotefx fr \<noteq> 0 \<and> flag_avc420 fr \<noteq> 0 \<and> flag_avc444 fr \<noteq> 0 \<and> flag_progressive fr \<noteq> 0 \<and>
     flag_remotefx fr AND flag_avc420 fr = 0 \<and> flag_remotefx fr AND flag_avc444 fr = 0 \<and>
     flag_remotefx fr AND flag_progressive fr = 0 \<and> flag_avc420 fr AND flag_avc444 fr = 0 \<and>
     flag_avc420 fr AND flag_progressive fr = 0 \<and> flag_avc444 fr AND flag_progressive fr = 0"

text \<open>A codec flag is set only while its context exists.\<close>

definition codecs_inv :: "codec_api \<Rightarrow> encoder \<Rightarrow> bool" where
  "codecs_inv fr self \<longleftrightarrow>
     (has_flag (codecs self) (avc_flags fr) \<longrightarrow> h264 self) \<and>
     (has_flag (codecs self) (flag_remotefx fr) \<longrightarrow> rfx self) \<and>
     (has_flag (codecs self) (flag_progressive fr) \<longrightarrow> progressive self)"

lemma has_flag_or: "has_flag (c OR d) f \<longleftrightarrow> has_flag c f \<or> has_flag d f"
  by (auto simp: has_flag_def bit_eq_iff bit_simps)

lemma has_flag_or2: "has_flag c (f OR g) \<longleftrightarrow> has_flag c f \<or> has_flag c g"
  by (auto simp: has_flag_def bit_eq_iff bit_simps)

lemma has_flag_sym: "has_flag c d = has_flag d c"
  by (simp add: has_flag_def and.commute)

lemma has_flag_self [simp]: "has_flag f f \<longleftrightarrow> f \<noteq> 0"
  by (simp add: has_flag_def)

lemma flags_ok_has:
  assumes "flags_ok fr"
  shows "\<not> has_flag (flag_remotefx fr) (flag_avc420 fr)" "\<not> has_flag (flag_remotefx fr) (flag_avc444 fr)"
    "\<not> has_flag (flag_remotefx fr) (flag_progressive fr)"
    "\<not> has_flag (flag_avc420 fr) (flag_progressive fr)" "\<not> has_flag (flag_avc444 fr) (flag_progressive fr)"
    "\<not> has_flag (flag_avc420 fr) (flag_remotefx fr)" "\<not> has_flag (flag_avc444 fr) (flag_remotefx fr)"
    "\<not> has_flag (flag_progressive fr) (flag_remotefx fr)"
    "\<not> has_flag (flag_progressive fr) (flag_avc420 fr)" "\<not> has_flag (flag_progressive fr) (flag_avc444 fr)"
  using assms by (simp_all add: flags_ok_def has_flag_def and.commute)

text \<open>Initialising a codec changes its context and the flags only.\<close>

definition forget_codecs :: "encoder \<Rightarrow> encoder" where
  "forget_codecs s = s\<lparr>codecs := 0, h264 := False, rfx := False, progressive := False\<rparr>"

lemma forget_codecs_update [simp]:
  "forget_codecs (s\<lparr>h264 := a\<rparr>) = forget_codecs s"
  "forget_codecs (s\<lparr>rfx := a\<rparr>) = forget_codecs s"
  "forget_codecs (s\<lparr>progressive := a\<rparr>) = forget_codecs s"
  "forget_codecs (s\<lparr>codecs := c\<rparr>) = forget_codecs s"
  by (simp_all add: forget_codecs_def)

lemma init_h264_forget: "forget_codecs (fst (drd_encoder_init_h264 fr s)) = forget_codecs s"
  by (simp add: drd_encoder_init_h264_def Let_def)

lemma init_rfx_forget: "forget_codecs (fst (drd_encoder_init_rfx fr s)) = forget_codecs s"
  by (simp add: drd_encoder_init_rfx_def Let_def)

lemma init_progressive_forget:
  "forget_codecs (fst (drd_encoder_init_progressive fr s)) = forget_codecs s"
  by (simp add: drd_encoder_init_progressive_def Let_def)

lemma init_codec_lift:
  assumes "\<And>s. P s \<Longrightarrow> \<not> has_flag (codecs s) f \<Longrightarrow> P (fst (i s))" and "P (fst r)"
  shows "P (fst (init_codec w f i r))"
  using assms by (cases r) (simp add: init_codec_def)

lemma encoder_prepare_lift:
  assumes "\<And>s. P s \<Longrightarrow> \<not> has_flag (codecs s) (flag_remotefx fr) \<Longrightarrow> P (fst (drd_encoder_init_rfx fr s))"
    and "\<And>s. P s \<Longrightarrow> \<not> has_flag (codecs s) (avc_flags fr) \<Longrightarrow> P (fst (drd_encoder_init_h264 fr s))"
    and "\<And>s. P s \<Longrightarrow> \<not> has_flag (codecs s) (flag_progressive fr) \<Longrightarrow>
      P (fst (drd_encoder_init_progressive fr s))"
    and "P self"
  shows "P (fst (drd_encoder_prepare fr w self))"
  unfolding drd_encoder_prepare_def
proof (rule init_codec_lift [where P = P, OF assms(3)])
  show "P (fst (init_codec w (avc_flags fr) (drd_encoder_init_h264 fr)
      (init_codec w (flag_remotefx fr) (drd_encoder_init_rfx fr) (self, True))))"
    by (rule init_codec_lift [where P = P, OF assms(2)], assumption+,
        rule init_codec_lift [where P = P, OF assms(1)]) (use assms(4) in simp_all)
qed

lemma encoder_prepare_forget: "forget_codecs (fst (drd_encoder_prepare fr w self)) = forget_codecs self"
  by (rule encoder_prepare_lift [where P = "\<lambda>s. forget_codecs s = forget_codecs self"])
     (simp_all add: init_h264_forget init_rfx_forget init_progressive_forget)

lemma init_h264_inv:
  assumes "flags_ok fr" "codecs_inv fr s" "\<not> has_flag (codecs s) (avc_flags fr)"
  shows "codecs_inv fr (fst (drd_encoder_init_h264 fr s))"
  using assms
  by (simp add: codecs_inv_def drd_encoder_init_h264_def Let_def has_flag_or has_flag_or2
      flags_ok_has)

lemma init_rfx_inv:
  assumes "flags_ok fr" "codecs_inv fr s" "\<not> has_flag (codecs s) (flag_remotefx fr)"
  shows "codecs_inv fr (fst (drd_encoder_init_rfx fr s))"
  using assms
  by (simp add: codecs_inv_def drd_encoder_init_rfx_def Let_def has_flag_or has_flag_or2
      flags_ok_has)

lemma init_progressive_inv:
  assumes "flags_ok fr" "codecs_inv fr s" "\<not> has_flag (codecs s) (flag_progressive fr)"
  shows "codecs_inv fr (fst (drd_encoder_init_progressive fr s))"
  using assms
  by (simp add: codecs_inv_def drd_encoder_init_progressive_def Let_def has_flag_or has_flag_or2
      flags_ok_has)

lemma encoder_prepare_inv [drd_inv]:
  assumes "flags_ok fr" "codecs_inv fr self"
  shows "codecs_inv fr (fst (drd_encoder_prepare fr w self))"
  by (rule encoder_prepare_lift [where P = "codecs_inv fr"])
     (simp_all add: assms init_h264_inv init_rfx_inv init_progressive_inv)

lemma init_flags:
  "snd (drd_encoder_init_h264 fr s) \<Longrightarrow> codecs (fst (drd_encoder_init_h264 fr s)) = codecs s OR avc_flags fr"
  "snd (drd_encoder_init_rfx fr s) \<Longrightarrow> codecs (fst (drd_encoder_init_rfx fr s)) = codecs s OR flag_remotefx fr"
  "snd (drd_encoder_init_progressive fr s) \<Longrightarrow>
     codecs (fst (drd_encoder_init_progressive fr s)) = codecs s OR flag_progressive fr"
  by (simp_all add: drd_encoder_init_h264_def drd_encoder_init_rfx_def
      drd_encoder_init_progressive_def Let_def split: if_splits)

text \<open>After a successful \<open>prepare\<close> the flag of each wanted codec is set.\<close>

lemma init_codec_ok:
  assumes "snd (init_codec w f i r)" and "f \<noteq> 0"
    and "\<And>s. snd (i s) \<Longrightarrow> codecs (fst (i s)) = codecs s OR f"
  shows "snd r" "has_flag w f \<Longrightarrow> has_flag (codecs (fst (init_codec w f i r))) f"
    "has_flag (codecs (fst r)) g \<Longrightarrow> has_flag (codecs (fst (init_codec w f i r))) g"
proof -
  obtain s good where r: "r = (s, good)" by (cases r)
  show "snd r" using assms(1) by (simp add: r init_codec_def split: if_splits)
  then have e: "init_codec w f i r = (if has_flag w f \<and> \<not> has_flag (codecs s) f then i s else (s, True))"
    by (simp add: r init_codec_def)
  have c: "codecs (fst (init_codec w f i r)) =
      (if has_flag w f \<and> \<not> has_flag (codecs s) f then codecs s OR f else codecs s)"
    using assms(1) assms(3) [of s] unfolding e by (auto split: if_splits)
  show "has_flag w f \<Longrightarrow> has_flag (codecs (fst (init_codec w f i r))) f"
    unfolding c using assms(2) by (simp add: has_flag_or)
  show "has_flag (codecs (fst r)) g \<Longrightarrow> has_flag (codecs (fst (init_codec w f i r))) g"
    unfolding c by (simp add: r has_flag_or)
qed

lemma encoder_prepare_ok:
  assumes ok: "flags_ok fr" and r: "drd_encoder_prepare fr w self = (s, True)"
  shows "has_flag w (flag_remotefx fr) \<Longrightarrow> has_flag (codecs s) (flag_remotefx fr)"
    "has_flag w (avc_flags fr) \<Longrightarrow> has_flag (codecs s) (avc_flags fr)"
    "has_flag w (flag_progressive fr) \<Longrightarrow> has_flag (codecs s) (flag_progressive fr)"
proof -
  have nz: "flag_progressive fr \<noteq> 0" "avc_flags fr \<noteq> 0" "flag_remotefx fr \<noteq> 0"
    using ok by (auto simp: flags_ok_def bit_eq_iff bit_simps)
  let ?r1 = "init_codec w (flag_remotefx fr) (drd_encoder_init_rfx fr) (self, True)"
  let ?r2 = "init_codec w (avc_flags fr) (drd_encoder_init_h264 fr) ?r1"
  let ?r3 = "init_codec w (flag_progressive fr) (drd_encoder_init_progressive fr) ?r2"
  have r3: "snd ?r3" "s = fst ?r3" using r by (simp_all add: drd_encoder_prepare_def)
  note c3 = init_codec_ok [OF r3(1) nz(1) init_flags(3)]
  note c2 = init_codec_ok [OF c3(1) nz(2) init_flags(1)]
  note c1 = init_codec_ok [OF c2(1) nz(3) init_flags(2)]
  show "has_flag w (flag_remotefx fr) \<Longrightarrow> has_flag (codecs s) (flag_remotefx fr)"
    unfolding r3 by (intro c3(3) c2(3) c1(2))
  show "has_flag w (avc_flags fr) \<Longrightarrow> has_flag (codecs s) (avc_flags fr)"
    unfolding r3 by (intro c3(3) c2(2))
  show "has_flag w (flag_progressive fr) \<Longrightarrow> has_flag (codecs s) (flag_progressive fr)"
    unfolding r3 by (rule c3(2))
qed

end
