(* ===== verification/Encode_Surface.thy ===== *)
theory Encode_Surface
  imports Encoding_Diff Encoding_Codecs
begin

text \<open>
  \<open>drd_encoding_manager_encode_surface_gfx\<close> of \<^verbatim>\<open>src/encoding/drd_encoding_manager.c\<close>: one
  frame is compared with the previous one, a codec is chosen from the client's capabilities,
  the frame is compressed and handed to the channel, and the reference frame, the tile hashes
  and the refresh book-keeping follow. Each codec arm is a definition; the result is the new
  state, the \<open>*h264\<close> flag, the commands handed to \<open>SurfaceFrameCommand\<close> and TRUE or an error.
  \<open>None\<close> is a failed \<open>WINPR_ASSERT\<close> or an access outside a buffer.
\<close>

record gfx_settings =
  set_avc420 :: bool
  set_avc444 :: bool
  set_avc444v2 :: bool
  set_remotefx :: bool
  set_progressive :: bool
  set_rfx_codec_id :: nat

type_synonym encode_result = "encoder \<times> bool \<times> surface_command list \<times> unit res"

datatype codec_use = Use_avc444 | Use_avc420 | Use_progressive | Use_remotefx | Use_nothing

text \<open>The four flags of the code become the arm that its \<open>if\<close> chain takes.\<close>

definition first_use :: "bool \<Rightarrow> bool \<Rightarrow> bool \<Rightarrow> bool \<Rightarrow> codec_use" where
  "first_use avc444 avc420 progressive_rfx remotefx =
     (if avc444 then Use_avc444 else if avc420 then Use_avc420
      else if progressive_rfx then Use_progressive else if remotefx then Use_remotefx
      else Use_nothing)"

definition choose_codec :: "gfx_settings \<Rightarrow> bool \<Rightarrow> bool \<Rightarrow> bool \<Rightarrow> codec_use" where
  "choose_codec st force_avc420 auto_switch large_change =
     (let avc444 = set_avc444v2 st \<or> set_avc444 st;
          remotefx = set_remotefx st \<and> set_rfx_codec_id st \<noteq> 0
      in if force_avc420 then first_use False True False False
      else if auto_switch then
        (if large_change then
           (if avc444 then first_use True False False False
            else if set_avc420 st then first_use False True False False
            else if set_progressive st then first_use False False True False
            else if remotefx then first_use False False False True
            else first_use False False False False)
         else
           (if set_progressive st then first_use False False True False
            else if remotefx then first_use False False False True
            else if avc444 then first_use True False False False
            else if set_avc420 st then first_use False True False False
            else first_use False False False False))
      else if avc444 \<or> set_avc420 st then
        (let use_avc444 = avc444; use_avc420 = (\<not> use_avc444 \<and> set_avc420 st)
         in if \<not> use_avc444 \<and> \<not> use_avc420
            then first_use use_avc444 use_avc420 (set_progressive st) remotefx
            else first_use use_avc444 use_avc420 False False)
      else first_use False False (set_progressive st) remotefx)"

text \<open>The fields of \<open>cmd\<close>: \<open>left\<close> and \<open>top\<close> are 0, \<open>right\<close> and \<open>bottom\<close> the frame size.\<close>

definition make_command ::
    "surface_codec \<Rightarrow> u16 \<Rightarrow> u32 \<Rightarrow> encoder \<Rightarrow> rect16 list \<Rightarrow> surface_command" where
  "make_command codec surface_id frame_id s rects =
     \<lparr>cmd_codec = codec, cmd_surface = surface_id, cmd_frame_id = frame_id,
      cmd_width = frame_width s, cmd_height = frame_height s, cmd_rects = rects\<rparr>"

definition full_rect :: "encoder \<Rightarrow> rect16" where
  "full_rect s = (0, 0, u16_of (frame_width s), u16_of (frame_height s))"

definition fits_u16 :: "encoder \<Rightarrow> bool" where
  "fits_u16 s \<longleftrightarrow> frame_width s \<le> UINT16_MAX \<and> frame_height s \<le> UINT16_MAX"

text \<open>After a frame went out: store it, refresh the hashes, register the codec.\<close>

definition commit_frame ::
    "encoder \<Rightarrow> u8 list \<Rightarrow> nat \<Rightarrow> int \<Rightarrow> codec_class \<Rightarrow> bool \<Rightarrow> encoder option" where
  "commit_frame s data stride now_us cc keyframe_encode = do {
     s1 \<leftarrow> store_and_hash s data stride (frame_height s);
     Some (drd_encoding_manager_register_codec_result s1 now_us cc keyframe_encode) }"

definition encode_avc444 ::
    "codec_api \<Rightarrow> bool \<Rightarrow> u16 \<Rightarrow> u32 \<Rightarrow> u8 list \<Rightarrow> nat \<Rightarrow> int \<Rightarrow> encoder \<Rightarrow> encode_result option" where
  "encode_avc444 fr v2 surface_id frame_id data stride now_us self =
     (if \<not> fits_u16 self then None
      else case drd_encoder_prepare fr (flag_avc444 fr) self of
        (s, False) \<Rightarrow> Some (s, True, [], fail_io IoFailed)
      | (s, True) \<Rightarrow>
          if \<not> h264 s \<or> \<not> picture_ok data stride (frame_height s) then None
          else let rc = avc444_compress fr data (full_rect s) in
          if rc < 0 then Some (s, True, [], fail_io IoFailed)
          else if rc = 0 then Some (s, True, [], fail_io IoPending)
          else let cmd = make_command (if v2 then CODECID_AVC444v2 else CODECID_AVC444)
                 surface_id frame_id s [full_rect s] in
          if surface_frame_command fr cmd \<noteq> 0 then Some (s, True, [cmd], fail_io IoFailed)
          else do {
            s1 \<leftarrow> commit_frame s data stride now_us CODEC_AVC True;
            Some (s1, True, [cmd], ok) })"

text \<open>The part of the AVC420 arm after the compressor has answered \<open>rc > 0\<close>.\<close>

definition send_avc420 ::
    "codec_api \<Rightarrow> u16 \<Rightarrow> u32 \<Rightarrow> u8 list \<Rightarrow> nat \<Rightarrow> int \<Rightarrow> encoder \<Rightarrow> encode_result option" where
  "send_avc420 fr surface_id frame_id data stride now_us s =
     (let cmd = make_command CODECID_AVC420 surface_id frame_id s [full_rect s] in
      if surface_frame_command fr cmd \<noteq> 0 then Some (s, True, [cmd], fail_io IoFailed)
      else do {
        s1 \<leftarrow> commit_frame s data stride now_us CODEC_AVC True;
        Some (s1, True, [cmd], ok) })"

definition software_avc420 ::
    "codec_api \<Rightarrow> u16 \<Rightarrow> u32 \<Rightarrow> u8 list \<Rightarrow> nat \<Rightarrow> int \<Rightarrow> encoder \<Rightarrow> encode_result option" where
  "software_avc420 fr surface_id frame_id data stride now_us s =
     (if \<not> h264 s \<or> \<not> picture_ok data stride (frame_height s) then None
      else let rc = avc420_compress fr data (full_rect s) in
      if rc < 0 then Some (s, True, [], fail_io IoFailed)
      else if rc = 0 then Some (s, True, [], fail_io IoPending)
      else send_avc420 fr surface_id frame_id data stride now_us s)"

definition encode_avc420 ::
    "codec_api \<Rightarrow> vaapi_api \<Rightarrow> u16 \<Rightarrow> u32 \<Rightarrow> u8 list \<Rightarrow> nat \<Rightarrow> int \<Rightarrow> encoder \<Rightarrow>
     encode_result option" where
  "encode_avc420 fr va surface_id frame_id data stride now_us self =
     (case drd_encoder_prepare fr (flag_avc420 fr) self of
        (s, False) \<Rightarrow> Some (s, True, [], fail_io IoFailed)
      | (s, True) \<Rightarrow>
          if h264_hw_accel s then
            (case drd_vaapi_encode_avc420 va s data stride (full_rect s) of
               None \<Rightarrow> None
             | Some (s1, Inr stream) \<Rightarrow>
                 send_avc420 fr surface_id frame_id data stride now_us s1
             | Some (s1, Inl e) \<Rightarrow>
                 if e = GIo IoPending then Some (s1, True, [], Inl e)
                 else software_avc420 fr surface_id frame_id data stride now_us s1)
          else software_avc420 fr surface_id frame_id data stride now_us s)"

text \<open>The decision of the tile codecs between a full frame and the dirty tiles.\<close>

definition keyframe_due :: "encoder \<Rightarrow> int \<Rightarrow> bool" where
  "keyframe_due self now_us \<longleftrightarrow> force_keyframe self \<or> \<not> enable_diff self \<or>
     drd_encoding_manager_refresh_interval_reached self now_us"

definition zero_hashes :: "encoder \<Rightarrow> encoder" where
  "zero_hashes self = self\<lparr>tile_hashes := replicate (length (tile_hashes self)) 0\<rparr>"

definition encode_progressive ::
    "codec_api \<Rightarrow> u16 \<Rightarrow> u32 \<Rightarrow> u8 list \<Rightarrow> nat \<Rightarrow> bool list \<Rightarrow> int \<Rightarrow> int \<Rightarrow> encoder \<Rightarrow>
     encode_result option" where
  "encode_progressive fr surface_id frame_id data stride dirty_flags now_us now2_us self =
     (case drd_encoder_prepare fr (flag_progressive fr) self of
        (s, False) \<Rightarrow> Some (s, False, [], fail_io IoFailed)
      | (s, True) \<Rightarrow>
          if \<not> fits_u16 s then None
          else let keyframe_encode = keyframe_due s now_us in do {
            (s1, dirty, region) \<leftarrow>
              (if keyframe_encode then Some (zero_hashes s, True, [full_rect s])
               else map_option (\<lambda>(d, r). (s, d, r))
                      (drd_encoding_manager_collect_dirty_region s dirty_flags));
            if \<not> dirty then Some (s1, False, [], fail_io IoPending)
            else if \<not> progressive s1 \<or> \<not> picture_ok data stride (frame_height s1) then None
            else let rc = progressive_compress fr
                   (take (wrap32 (stride * frame_height s1)) data) region in
            if rc < 0 then Some (s1, False, [], fail_io IoFailed)
            else if rc = 0 then Some (s1, False, [], ok)
            else let cmd = make_command CODECID_CAPROGRESSIVE surface_id frame_id s1 region in
            if surface_frame_command fr cmd \<noteq> 0
            then Some (s1\<lparr>force_keyframe := True\<rparr>, False, [cmd], fail_io IoFailed)
            else do {
              s2 \<leftarrow> commit_frame s1 data stride now2_us CODEC_NON_AVC keyframe_encode;
              Some (s2\<lparr>force_keyframe := False\<rparr>, False, [cmd], ok) } })"

text \<open>The small stream that the message is composed into is taken to be allocated, as all memory is: the
  code asserts it.\<close>

definition encode_remotefx ::
    "codec_api \<Rightarrow> u16 \<Rightarrow> u32 \<Rightarrow> u8 list \<Rightarrow> nat \<Rightarrow> bool list \<Rightarrow> int \<Rightarrow> int \<Rightarrow> encoder \<Rightarrow>
     encode_result option" where
  "encode_remotefx fr surface_id frame_id data stride dirty_flags now_us now2_us self =
     (case drd_encoder_prepare fr (flag_remotefx fr) self of
        (s, False) \<Rightarrow> Some (s, False, [], fail_io IoFailed)
      | (s, True) \<Rightarrow>
          if \<not> fits_u16 s then None
          else let keyframe_encode = keyframe_due s now_us in do {
            (s1, dirty, rects) \<leftarrow>
              (if keyframe_encode then Some (zero_hashes s, True, [full_rect s])
               else map_option (\<lambda>(d, r). (s, d, r))
                      (drd_encoding_manager_collect_dirty_rects s dirty_flags));
            if \<not> dirty then Some (s1, False, [], fail_io IoPending)
            else if UINT16_MAX < length rects then None
            else if \<not> rfx s1 \<or> \<not> picture_ok data stride (frame_height s1) then None
            else if \<not> rfx_compose_message fr data rects
            then Some (s1, False, [], fail_io IoFailed)
            else let cmd = make_command CODECID_CAVIDEO surface_id frame_id s1 rects in
            if surface_frame_command fr cmd \<noteq> 0
            then Some (s1\<lparr>force_keyframe := True\<rparr>, False, [cmd], fail_io IoFailed)
            else do {
              s2 \<leftarrow> commit_frame s1 data stride now2_us CODEC_NON_AVC keyframe_encode;
              Some (s2\<lparr>force_keyframe := False\<rparr>, False, [cmd], ok) } })"

definition drd_encoding_manager_encode_surface_gfx ::
    "codec_api \<Rightarrow> vaapi_api \<Rightarrow> vaapi_api \<Rightarrow> gfx_settings \<Rightarrow> int \<Rightarrow> int \<Rightarrow> encoder \<Rightarrow> u16 \<Rightarrow>
     drd_frame \<Rightarrow> u32 \<Rightarrow> bool \<Rightarrow> bool \<Rightarrow> encode_result option" where
  "drd_encoding_manager_encode_surface_gfx fr va va2 st now_us now2_us self surface_id input
       frame_id h264_in auto_switch =
     (if \<not> ready self then Some (self, h264_in, [], fail_io IoFailed)
      else let s0 = self\<lparr>frame_width := unat (drd_frame_get_width input),
                         frame_height := unat (drd_frame_get_height input)\<rparr>;
               stride = unat (drd_frame_get_stride input);
               data = fst (drd_frame_get_data input);
               s1 = drd_encoding_manager_prepare_gfx_diff_state s0 (frame_width s0)
                      (frame_height s0) stride;
               previous = (if length (previous_frame s1) = stride * frame_height s1
                           then Some (previous_frame s1) else None)
      in do {
        (large_change, dirty_flags, n) \<leftarrow> drd_encoding_manager_analyze_tiles s1 data previous
           stride (large_change_threshold s1);
        let vaapi_wanted = (auto_switch \<and> h264_hw_accel s1 \<and> set_avc420 st);
        let (s2, force_avc420) = (if vaapi_wanted
           then (case drd_vaapi_encoder_prepare va s1 of (s, r) \<Rightarrow> (s, is_ok r))
           else (s1, False));
        case choose_codec st force_avc420 auto_switch large_change of
          Use_avc444 \<Rightarrow> encode_avc444 fr (set_avc444v2 st) surface_id frame_id data stride now_us s2
        | Use_avc420 \<Rightarrow> encode_avc420 fr va2 surface_id frame_id data stride now_us s2
        | Use_progressive \<Rightarrow>
            encode_progressive fr surface_id frame_id data stride dirty_flags now_us now2_us s2
        | Use_remotefx \<Rightarrow>
            encode_remotefx fr surface_id frame_id data stride dirty_flags now_us now2_us s2
        | Use_nothing \<Rightarrow> Some (s2, False, [], ok) })"

definition drd_encoding_manager_encode_cached_frame_gfx ::
    "codec_api \<Rightarrow> vaapi_api \<Rightarrow> vaapi_api \<Rightarrow> gfx_settings \<Rightarrow> int \<Rightarrow> int \<Rightarrow> (nat \<Rightarrow> u8) \<Rightarrow> u64 \<Rightarrow>
     encoder \<Rightarrow> u16 \<Rightarrow> u32 \<Rightarrow> bool \<Rightarrow> bool \<Rightarrow> encode_result option" where
  "drd_encoding_manager_encode_cached_frame_gfx fr va va2 st now_us now2_us fresh timestamp
       self surface_id frame_id h264_in auto_switch =
     (if \<not> ready self then Some (self, h264_in, [], fail_io IoFailed)
      else if length (previous_frame self) = 0 \<or> diff_width self = 0 \<or> diff_height self = 0 \<or>
        diff_stride self = 0 then Some (self, h264_in, [], fail_io IoFailed)
      else do {
        cached_frame \<leftarrow> frame_write
          (drd_frame_ensure_capacity fresh
             (drd_frame_configure drd_frame_new (word_of_nat (diff_width self))
                (word_of_nat (diff_height self)) (word_of_nat (diff_stride self)) timestamp)
             (length (previous_frame self)))
          (previous_frame self);
        drd_encoding_manager_encode_surface_gfx fr va va2 st now_us now2_us
          (self\<lparr>force_keyframe := True\<rparr>) surface_id cached_frame frame_id h264_in auto_switch })"

definition drd_encoding_manager_encode_surface_bit :: "unit res" where
  "drd_encoding_manager_encode_surface_bit = fail_io IoNotSupported"

text \<open>The packed wall-clock time of \<open>RDPGFX_START_FRAME_PDU\<close>, from hour, minute, second and
  microsecond; 0 when the clock cannot be read.\<close>

definition drd_rdp_graphics_pipeline_build_timestamp ::
    "(nat \<times> nat \<times> nat \<times> nat) option \<Rightarrow> u32" where
  "drd_rdp_graphics_pipeline_build_timestamp t =
     (case t of None \<Rightarrow> 0
      | Some (h, m, s, us) \<Rightarrow>
          push_bit 22 (word_of_nat h) OR push_bit 16 (word_of_nat m) OR
          push_bit 10 (word_of_nat s) OR word_of_nat (us div 1000))"

end
