(* ===== verification/Graphics_Pipeline.thy ===== *)
theory Graphics_Pipeline
  imports Encode_Surface
begin

text \<open>
  The RDPGFX pipeline of one session (\<^verbatim>\<open>src/session/drd_rdp_graphics_pipeline.c\<close>): channel and
  surface set-up, back-pressure on unacknowledged frames, and the capability negotiation. A
  function under the mutex is one definition; what it sends to the channel and the wake-ups of
  the condition variable are the events it returns. The answers of the channel callbacks are
  parameters.
\<close>

subsection \<open>State\<close>

record pipeline =
  gp_width :: nat
  gp_height :: nat
  gp_context :: bool  \<comment> \<open>\<open>rdpgfx_context\<close> is not NULL\<close>
  channel_opened :: bool
  caps_confirmed :: bool
  surface_ready :: bool
  surface_id :: nat
  codec_context_id :: nat
  next_frame_id :: nat
  outstanding_frames :: int
  max_outstanding_frames :: nat
  channel_id :: nat
  frame_acks_suspended :: bool
  last_frame_h264 :: bool

datatype gfx_event =
    Reset_graphics nat nat
  | Create_surface nat nat nat
  | Map_surface nat
  | Delete_surface nat
  | Close_channel
  | Use_gfx_transport
  | Wake  \<comment> \<open>\<open>g_cond_broadcast\<close> of \<open>capacity_cond\<close>\<close>

text \<open>What the channel answers: \<open>False\<close> is a missing callback or an error code.\<close>

record channel_answers =
  ans_reset :: bool
  ans_create :: bool
  ans_map :: bool
  ans_open :: bool

definition drd_rdp_graphics_pipeline_init :: pipeline where
  "drd_rdp_graphics_pipeline_init =
     \<lparr>gp_width = 0, gp_height = 0, gp_context = False, channel_opened = False,
      caps_confirmed = False, surface_ready = False, surface_id = 1, codec_context_id = 1,
      next_frame_id = 1, outstanding_frames = 0, max_outstanding_frames = 3, channel_id = 0,
      frame_acks_suspended = False, last_frame_h264 = False\<rparr>"

text \<open>\<open>None\<close> when the channel context cannot be allocated; the surface sizes are 16 bits.\<close>

definition drd_rdp_graphics_pipeline_new :: "bool \<Rightarrow> nat \<Rightarrow> nat \<Rightarrow> pipeline option" where
  "drd_rdp_graphics_pipeline_new context_allocated surface_width surface_height =
     (if \<not> context_allocated then None
      else Some (drd_rdp_graphics_pipeline_init\<lparr>gp_width := u16_of surface_width,
                   gp_height := u16_of surface_height, gp_context := True\<rparr>))"

definition drd_rdp_graphics_pipeline_reset_locked ::
    "channel_answers \<Rightarrow> pipeline \<Rightarrow> pipeline \<times> gfx_event list \<times> bool" where
  "drd_rdp_graphics_pipeline_reset_locked ans self =
     (if surface_ready self then (self, [], True)
      else let e1 = Reset_graphics (gp_width self) (gp_height self);
               e2 = Create_surface (surface_id self) (gp_width self) (gp_height self);
               e3 = Map_surface (surface_id self)
      in if \<not> ans_reset ans then (self, [e1], False)
      else if \<not> ans_create ans then (self, [e1, e2], False)
      else if \<not> ans_map ans then (self, [e1, e2, e3], False)
      else (self\<lparr>next_frame_id := 1, outstanding_frames := 0, surface_ready := True,
                 last_frame_h264 := False, frame_acks_suspended := False\<rparr>,
            [e1, e2, e3, Wake], True))"

definition drd_rdp_graphics_pipeline_dispose :: "pipeline \<Rightarrow> pipeline \<times> gfx_event list" where
  "drd_rdp_graphics_pipeline_dispose self =
     (if \<not> gp_context self then (self, [])
      else let (s1, e1) = (if surface_ready self
                then (self\<lparr>surface_ready := False\<rparr>, [Delete_surface (surface_id self), Wake])
                else (self, []));
               (s2, e2) = (if channel_opened s1
                then (s1\<lparr>channel_opened := False\<rparr>, [Close_channel])
                else (s1, []))
      in (s2, e1 @ e2))"

text \<open>\<open>maybe_init\<close> drops the mutex while the channel opens; \<open>others\<close> is what the other threads
  do to the state in that time. The transport switch of the runtime is an event.\<close>

definition drd_rdp_graphics_pipeline_maybe_init ::
    "channel_answers \<Rightarrow> (pipeline \<Rightarrow> pipeline) \<Rightarrow> pipeline \<Rightarrow> pipeline \<times> gfx_event list \<times> bool" where
  "drd_rdp_graphics_pipeline_maybe_init ans others self =
     (if \<not> gp_context self then (self, [], False)
      else if \<not> channel_opened self \<and> \<not> ans_open ans then (others self, [], False)
      else let s0 = (if channel_opened self then self else others self)
      in if \<not> gp_context s0 then (s0, [], False)
      else let s1 = s0\<lparr>channel_opened := True\<rparr>
      in if \<not> caps_confirmed s1 then (s1, [], False)
      else case drd_rdp_graphics_pipeline_reset_locked ans s1 of
             (s2, ev, good) \<Rightarrow> (s2, ev @ [Use_gfx_transport], good))"

definition drd_rdp_graphics_pipeline_is_ready :: "pipeline \<Rightarrow> bool" where
  "drd_rdp_graphics_pipeline_is_ready self = surface_ready self"

definition drd_rdp_graphics_pipeline_can_submit :: "pipeline \<Rightarrow> bool" where
  "drd_rdp_graphics_pipeline_can_submit self \<longleftrightarrow> surface_ready self \<and>
     (frame_acks_suspended self \<or> outstanding_frames self < int (max_outstanding_frames self) \<or>
      last_frame_h264 self)"

definition drd_rdp_graphics_pipeline_get_surface_id :: "pipeline \<Rightarrow> nat" where
  "drd_rdp_graphics_pipeline_get_surface_id self = surface_id self"

definition drd_rdp_graphics_pipeline_out_frame_change ::
    "pipeline \<Rightarrow> bool \<Rightarrow> pipeline \<times> gfx_event list" where
  "drd_rdp_graphics_pipeline_out_frame_change self add =
     (if add then
        (if \<not> frame_acks_suspended self
         then (self\<lparr>outstanding_frames := outstanding_frames self + 1\<rparr>, []) else (self, []))
      else ((if \<not> frame_acks_suspended self \<and> outstanding_frames self > 0
             then self\<lparr>outstanding_frames := outstanding_frames self - 1\<rparr> else self), [Wake]))"

text \<open>\<open>SUSPEND_FRAME_ACKNOWLEDGEMENT\<close> is the queue depth of a client that stops acknowledging.\<close>

definition SUSPEND_FRAME_ACKNOWLEDGEMENT :: nat where
  "SUSPEND_FRAME_ACKNOWLEDGEMENT = 0xFFFFFFFF"

definition drd_rdpgfx_frame_ack :: "pipeline \<Rightarrow> nat \<Rightarrow> pipeline \<times> gfx_event list" where
  "drd_rdpgfx_frame_ack self queue_depth =
     (if queue_depth = SUSPEND_FRAME_ACKNOWLEDGEMENT
      then (self\<lparr>frame_acks_suspended := True, outstanding_frames := 0\<rparr>, [Wake])
      else let s = self\<lparr>frame_acks_suspended := False\<rparr>
      in ((if outstanding_frames s > 0
           then (if last_frame_h264 s then s\<lparr>outstanding_frames := 0\<rparr>
                 else s\<lparr>outstanding_frames := outstanding_frames s - 1\<rparr>)
           else s), [Wake]))"

definition drd_rdp_graphics_pipeline_set_last_frame_mode :: "pipeline \<Rightarrow> bool \<Rightarrow> pipeline" where
  "drd_rdp_graphics_pipeline_set_last_frame_mode self h264_mode =
     self\<lparr>last_frame_h264 := h264_mode\<rparr>"

text \<open>The callback for an assigned channel id; the result is the C value of the \<open>BOOL\<close>, where
  \<open>CHANNEL_RC_OK\<close> is 0 and the callback without a pipeline returns it.\<close>

definition drd_rdpgfx_channel_assigned :: "pipeline option \<Rightarrow> nat \<Rightarrow> pipeline option \<times> bool" where
  "drd_rdpgfx_channel_assigned custom cid =
     (case custom of None \<Rightarrow> (None, False)
      | Some self \<Rightarrow> (Some (self\<lparr>channel_id := cid\<rparr>), True))"

subsection \<open>Capability negotiation\<close>

datatype cap_version =
    CAPVERSION_8 | CAPVERSION_81 | CAPVERSION_10 | CAPVERSION_101 | CAPVERSION_102
  | CAPVERSION_103 | CAPVERSION_104 | CAPVERSION_105 | CAPVERSION_106 | CAPVERSION_106_ERR
  | CAPVERSION_107 | CAPVERSION_other nat

text \<open>The flag bits of a capability set that the code reads or writes, and the remaining bits.\<close>

record capset =
  cap_ver :: cap_version
  cap_thin_client :: bool
  cap_small_cache :: bool
  cap_avc420_enabled :: bool
  cap_avc_disabled :: bool
  cap_other_bits :: nat

record rdp_settings = gfx_settings +
  set_small_cache :: bool
  set_thin_client :: bool
  set_progressive_v2 :: bool
  set_planar :: bool
  set_caps_filter :: nat

datatype setting_key =
    GfxSmallCache | GfxThinClient | GfxAVC444v2 | GfxAVC444 | GfxH264 | GfxProgressive
  | GfxProgressiveV2 | RemoteFxCodec | GfxPlanar

fun put_setting :: "setting_key \<Rightarrow> bool \<Rightarrow> rdp_settings \<Rightarrow> rdp_settings" where
  "put_setting GfxSmallCache v st = st\<lparr>set_small_cache := v\<rparr>"
| "put_setting GfxThinClient v st = st\<lparr>set_thin_client := v\<rparr>"
| "put_setting GfxAVC444v2 v st = st\<lparr>set_avc444v2 := v\<rparr>"
| "put_setting GfxAVC444 v st = st\<lparr>set_avc444 := v\<rparr>"
| "put_setting GfxH264 v st = st\<lparr>set_avc420 := v\<rparr>"
| "put_setting GfxProgressive v st = st\<lparr>set_progressive := v\<rparr>"
| "put_setting GfxProgressiveV2 v st = st\<lparr>set_progressive_v2 := v\<rparr>"
| "put_setting RemoteFxCodec v st = st\<lparr>set_remotefx := v\<rparr>"
| "put_setting GfxPlanar v st = st\<lparr>set_planar := v\<rparr>"

text \<open>A run of \<open>freerdp_settings_set_bool\<close> calls, each followed by an early return on failure.\<close>

fun set_bools ::
    "(setting_key \<Rightarrow> bool) \<Rightarrow> (setting_key \<times> bool) list \<Rightarrow> rdp_settings \<Rightarrow> rdp_settings \<times> bool" where
  "set_bools can_set [] st = (st, True)"
| "set_bools can_set ((k, v) # kvs) st =
     (if can_set k then set_bools can_set kvs (put_setting k v st) else (st, False))"

definition capList :: "cap_version list" where
  "capList = [CAPVERSION_8, CAPVERSION_81, CAPVERSION_10, CAPVERSION_101, CAPVERSION_102,
     CAPVERSION_103, CAPVERSION_104, CAPVERSION_105, CAPVERSION_106, CAPVERSION_106_ERR,
     CAPVERSION_107]"

fun filtered_from :: "nat \<Rightarrow> cap_version \<Rightarrow> nat \<Rightarrow> cap_version list \<Rightarrow> bool" where
  "filtered_from flt caps x [] = True"
| "filtered_from flt caps x (c # cs) =
     (if caps = c then bit flt x else filtered_from flt caps (Suc x) cs)"

definition shadow_are_caps_filtered :: "rdp_settings \<Rightarrow> cap_version \<Rightarrow> bool" where
  "shadow_are_caps_filtered st caps = filtered_from (set_caps_filter st) caps 0 capList"

datatype channel_rc = RC_OK | RC_INTERNAL_ERROR | RC_UNSUPPORTED_VERSION | RC_other nat

text \<open>The negotiation works on the pipeline, the settings and the confirmations sent so far.
  The server's and the client's settings are one object: both are \<open>peer->context->settings\<close>.\<close>

type_synonym caps_state = "pipeline \<times> rdp_settings \<times> capset list"

record caps_env =
  env_can_set :: "setting_key \<Rightarrow> bool"
  env_confirm :: "capset \<Rightarrow> channel_rc"

definition shadow_client_send_caps_confirm ::
    "caps_env \<Rightarrow> capset \<Rightarrow> caps_state \<Rightarrow> caps_state \<times> channel_rc" where
  "shadow_client_send_caps_confirm env pdu cs =
     (case cs of (self, st, sent) \<Rightarrow>
        ((self\<lparr>caps_confirmed := True\<rparr>, st, sent @ [pdu]), env_confirm env pdu))"

definition find_caps :: "capset list \<Rightarrow> cap_version \<Rightarrow> capset option" where
  "find_caps sets v = List.find (\<lambda>c. cap_ver c = v) sets"

definition shadow_client_caps_test_version ::
    "caps_env \<Rightarrow> bool \<Rightarrow> capset list \<Rightarrow> cap_version \<Rightarrow> caps_state \<Rightarrow> caps_state \<times> channel_rc option" where
  "shadow_client_caps_test_version env h264_ok sets ver cs =
     (case cs of (self, st, sent) \<Rightarrow>
        if shadow_are_caps_filtered st ver then (cs, None)
        else (case find_caps sets ver of
          None \<Rightarrow> (cs, None)
        | Some caps \<Rightarrow>
            let client_avc = \<not> cap_avc_disabled caps;
                avc444v2 = (client_avc \<and> set_avc444v2 st \<and> h264_ok);
                avc444 = (client_avc \<and> set_avc444 st \<and> h264_ok);
                avc420 = (client_avc \<and> set_avc420 st \<and> h264_ok)
            in (case set_bools (env_can_set env)
                  [(GfxSmallCache, cap_small_cache caps), (GfxAVC444v2, avc444v2),
                   (GfxAVC444, avc444), (GfxH264, avc420),
                   (GfxProgressive, set_progressive st), (GfxProgressiveV2, set_progressive_v2 st),
                   (RemoteFxCodec, set_remotefx st), (GfxPlanar, False)] st of
                  (st1, False) \<Rightarrow> ((self, st1, sent), None)
                | (st1, True) \<Rightarrow>
                    let pdu = (if \<not> avc444v2 \<and> \<not> avc444 \<and> \<not> avc420
                               then caps\<lparr>cap_avc_disabled := True\<rparr> else caps)
                    in (case shadow_client_send_caps_confirm env pdu (self, st1, sent) of
                          (cs', rc) \<Rightarrow> (cs', Some rc)))))"

text \<open>The two legacy blocks, for versions 8.1 and 8.\<close>

definition caps_try_81 ::
    "caps_env \<Rightarrow> bool \<Rightarrow> capset list \<Rightarrow> caps_state \<Rightarrow> caps_state \<times> channel_rc option" where
  "caps_try_81 env h264_ok sets cs =
     (case cs of (self, st, sent) \<Rightarrow>
        if shadow_are_caps_filtered st CAPVERSION_81 then (cs, None)
        else (case find_caps sets CAPVERSION_81 of
          None \<Rightarrow> (cs, None)
        | Some caps \<Rightarrow>
            (case set_bools (env_can_set env)
               [(GfxAVC444v2, False), (GfxAVC444, False), (GfxThinClient, cap_thin_client caps),
                (GfxSmallCache, cap_small_cache caps),
                (GfxH264, h264_ok \<and> cap_avc420_enabled caps)] st of
               (st1, False) \<Rightarrow> ((self, st1, sent), Some RC_INTERNAL_ERROR)
             | (st1, True) \<Rightarrow>
                 (case shadow_client_send_caps_confirm env caps (self, st1, sent) of
                    (cs', rc) \<Rightarrow> (cs', Some rc)))))"

definition caps_try_8 ::
    "caps_env \<Rightarrow> capset list \<Rightarrow> caps_state \<Rightarrow> caps_state \<times> channel_rc option" where
  "caps_try_8 env sets cs =
     (case cs of (self, st, sent) \<Rightarrow>
        if shadow_are_caps_filtered st CAPVERSION_8 then (cs, None)
        else (case find_caps sets CAPVERSION_8 of
          None \<Rightarrow> (cs, None)
        | Some caps \<Rightarrow>
            (case set_bools (env_can_set env)
               [(GfxAVC444v2, False), (GfxAVC444, False), (GfxH264, False),
                (GfxThinClient, cap_thin_client caps), (GfxSmallCache, cap_small_cache caps)] st of
               (st1, False) \<Rightarrow> ((self, st1, sent), Some RC_INTERNAL_ERROR)
             | (st1, True) \<Rightarrow>
                 (case shadow_client_send_caps_confirm env caps (self, st1, sent) of
                    (cs', rc) \<Rightarrow> (cs', Some rc)))))"

fun caps_try_versions ::
    "caps_env \<Rightarrow> bool \<Rightarrow> capset list \<Rightarrow> cap_version list \<Rightarrow> caps_state \<Rightarrow> caps_state \<times> channel_rc option" where
  "caps_try_versions env h264_ok sets [] cs = (cs, None)"
| "caps_try_versions env h264_ok sets (v # vs) cs =
     (case shadow_client_caps_test_version env h264_ok sets v cs of
        (cs', Some rc) \<Rightarrow> (cs', Some rc)
      | (cs', None) \<Rightarrow> caps_try_versions env h264_ok sets vs cs')"

definition caps_preference :: "cap_version list" where
  "caps_preference = [CAPVERSION_107, CAPVERSION_106, CAPVERSION_106_ERR, CAPVERSION_105,
     CAPVERSION_104, CAPVERSION_103, CAPVERSION_102, CAPVERSION_101, CAPVERSION_10]"

text \<open>The handler of CAPS_ADVERTISE. \<open>h264_ok\<close> is the answer of \<open>drd_runtime_encoder_prepare\<close>,
  which the handler asks for together with a key frame once the guards have passed; the last
  component says that it did.\<close>

definition shadow_client_rdpgfx_caps_advertise ::
    "caps_env \<Rightarrow> bool \<Rightarrow> bool \<Rightarrow> capset list \<Rightarrow> caps_state \<Rightarrow> caps_state \<times> channel_rc \<times> bool" where
  "shadow_client_rdpgfx_caps_advertise env have_settings h264_ok sets cs =
     (if sets = [] \<or> \<not> have_settings then (cs, RC_OK, False)
      else case caps_try_versions env h264_ok sets caps_preference cs of
        (cs1, Some rc) \<Rightarrow> (cs1, rc, True)
      | (cs1, None) \<Rightarrow>
          (case caps_try_81 env h264_ok sets cs1 of
             (cs2, Some rc) \<Rightarrow> (cs2, rc, True)
           | (cs2, None) \<Rightarrow>
               (case caps_try_8 env sets cs2 of
                  (cs3, Some rc) \<Rightarrow> (cs3, rc, True)
                | (cs3, None) \<Rightarrow> (cs3, RC_UNSUPPORTED_VERSION, True))))"

end
