(* ===== verification/Graphics_Caps.thy ===== *)
theory Graphics_Caps
  imports Graphics_Pipeline
begin

text \<open>
  What the capability negotiation of the pipeline guarantees: the confirmed version is the first
  acceptable one in the server's order of preference, and the codec settings it leaves never
  announce AVC without a working encoder.
\<close>

definition settings_work :: "caps_env \<Rightarrow> bool" where
  "settings_work env \<longleftrightarrow> (\<forall>k. env_can_set env k)"

definition acceptable :: "rdp_settings \<Rightarrow> capset list \<Rightarrow> cap_version \<Rightarrow> bool" where
  "acceptable st sets v \<longleftrightarrow> \<not> shadow_are_caps_filtered st v \<and> find_caps sets v \<noteq> None"

definition caps_order :: "cap_version list" where
  "caps_order = caps_preference @ [CAPVERSION_81, CAPVERSION_8]"

text \<open>The settings that a confirmed version leaves, and the set it confirms.\<close>

definition modern_settings :: "bool \<Rightarrow> capset \<Rightarrow> rdp_settings \<Rightarrow> rdp_settings" where
  "modern_settings h264_ok caps st = st\<lparr>set_small_cache := cap_small_cache caps,
     set_avc444v2 := (\<not> cap_avc_disabled caps \<and> set_avc444v2 st \<and> h264_ok),
     set_avc444 := (\<not> cap_avc_disabled caps \<and> set_avc444 st \<and> h264_ok),
     set_avc420 := (\<not> cap_avc_disabled caps \<and> set_avc420 st \<and> h264_ok),
     set_planar := False\<rparr>"

definition any_avc :: "rdp_settings \<Rightarrow> bool" where
  "any_avc st \<longleftrightarrow> set_avc444v2 st \<or> set_avc444 st \<or> set_avc420 st"

definition negotiated :: "bool \<Rightarrow> cap_version \<Rightarrow> capset \<Rightarrow> rdp_settings \<Rightarrow> rdp_settings \<times> capset" where
  "negotiated h264_ok v caps st =
     (if v = CAPVERSION_81 then
        (st\<lparr>set_avc444v2 := False, set_avc444 := False, set_thin_client := cap_thin_client caps,
            set_small_cache := cap_small_cache caps,
            set_avc420 := (h264_ok \<and> cap_avc420_enabled caps)\<rparr>, caps)
      else if v = CAPVERSION_8 then
        (st\<lparr>set_avc444v2 := False, set_avc444 := False, set_avc420 := False,
            set_thin_client := cap_thin_client caps, set_small_cache := cap_small_cache caps\<rparr>, caps)
      else (modern_settings h264_ok caps st,
            if any_avc (modern_settings h264_ok caps st) then caps
            else caps\<lparr>cap_avc_disabled := True\<rparr>))"

text \<open>The outcome of a handler whose first acceptable version is \<open>v\<close>.\<close>

definition confirm_result ::
    "caps_env \<Rightarrow> bool \<Rightarrow> cap_version \<Rightarrow> capset \<Rightarrow> caps_state \<Rightarrow> caps_state \<times> channel_rc option" where
  "confirm_result env h264_ok v caps cs =
     (case cs of (self, st, sent) \<Rightarrow> case negotiated h264_ok v caps st of (st1, pdu) \<Rightarrow>
        ((self\<lparr>caps_confirmed := True\<rparr>, st1, sent @ [pdu]), Some (env_confirm env pdu)))"

lemma worksD: "settings_work env \<Longrightarrow> env_can_set env k"
  by (simp add: settings_work_def)

lemma test_version_eq:
  assumes "settings_work env" and "v \<noteq> CAPVERSION_81" "v \<noteq> CAPVERSION_8"
  shows "shadow_client_caps_test_version env h264_ok sets v (self, st, sent) =
    (if acceptable st sets v then confirm_result env h264_ok v (the (find_caps sets v)) (self, st, sent)
     else ((self, st, sent), None))"
proof (cases "acceptable st sets v")
  case True
  then obtain caps where c: "find_caps sets v = Some caps" "\<not> shadow_are_caps_filtered st v"
    by (auto simp: acceptable_def)
  show ?thesis
    using assms(2,3) True c
    by (simp add: shadow_client_caps_test_version_def worksD [OF assms(1)] Let_def
        confirm_result_def negotiated_def modern_settings_def any_avc_def
        shadow_client_send_caps_confirm_def)
next
  case False
  then show ?thesis
    by (auto simp: shadow_client_caps_test_version_def acceptable_def split: option.splits)
qed

lemma try_81_eq:
  assumes "settings_work env"
  shows "caps_try_81 env h264_ok sets (self, st, sent) =
    (if acceptable st sets CAPVERSION_81
     then confirm_result env h264_ok CAPVERSION_81 (the (find_caps sets CAPVERSION_81)) (self, st, sent)
     else ((self, st, sent), None))"
  by (auto simp: caps_try_81_def acceptable_def worksD [OF assms] confirm_result_def
      negotiated_def shadow_client_send_caps_confirm_def split: option.splits)

lemma try_8_eq:
  assumes "settings_work env"
  shows "caps_try_8 env sets (self, st, sent) =
    (if acceptable st sets CAPVERSION_8
     then confirm_result env h264_ok CAPVERSION_8 (the (find_caps sets CAPVERSION_8)) (self, st, sent)
     else ((self, st, sent), None))"
  by (auto simp: caps_try_8_def acceptable_def worksD [OF assms] confirm_result_def
      negotiated_def shadow_client_send_caps_confirm_def split: option.splits)

lemma confirm_result_Some:
  "\<exists>cs' rc. confirm_result env h v caps cs = (cs', Some rc)"
  by (cases cs) (auto simp: confirm_result_def split: prod.splits)

lemma try_versions_eq:
  assumes w: "settings_work env" and "CAPVERSION_81 \<notin> set vs" "CAPVERSION_8 \<notin> set vs"
  shows "caps_try_versions env h264_ok sets vs (self, st, sent) =
    (case List.find (acceptable st sets) vs of
       None \<Rightarrow> ((self, st, sent), None)
     | Some v \<Rightarrow> confirm_result env h264_ok v (the (find_caps sets v)) (self, st, sent))"
  using assms(2,3)
proof (induction vs)
  case (Cons v vs)
  then have v: "v \<noteq> CAPVERSION_81" "v \<noteq> CAPVERSION_8" by auto
  show ?case
    using Cons test_version_eq [OF w v, of h264_ok sets self st sent]
      confirm_result_Some [of env h264_ok v "the (find_caps sets v)" "(self, st, sent)"]
    by auto
qed simp

lemma find_append: "List.find P (xs @ ys) = (case List.find P xs of None \<Rightarrow> List.find P ys | Some x \<Rightarrow> Some x)"
  by (induction xs) auto

lemma advertise_eq:
  assumes "settings_work env" and "sets \<noteq> []"
  shows "shadow_client_rdpgfx_caps_advertise env True h264_ok sets (self, st, sent) =
    (case List.find (acceptable st sets) caps_order of
       None \<Rightarrow> ((self, st, sent), RC_UNSUPPORTED_VERSION, True)
     | Some v \<Rightarrow> (case negotiated h264_ok v (the (find_caps sets v)) st of (st1, pdu) \<Rightarrow>
         ((self\<lparr>caps_confirmed := True\<rparr>, st1, sent @ [pdu]), env_confirm env pdu, True)))"
proof -
  have "CAPVERSION_81 \<notin> set caps_preference" "CAPVERSION_8 \<notin> set caps_preference"
    by (simp_all add: caps_preference_def)
  note t = try_versions_eq [OF assms(1) this, of h264_ok sets self st sent]
    try_81_eq [OF assms(1), of h264_ok sets self st sent]
    try_8_eq [OF assms(1), of sets self st sent h264_ok]
  show ?thesis
    using assms(2)
    by (auto simp: shadow_client_rdpgfx_caps_advertise_def t caps_order_def find_append
        confirm_result_def split: option.splits prod.splits)
qed

lemma find_caps_ver: "find_caps sets v = Some c \<Longrightarrow> cap_ver c = v \<and> c \<in> set sets"
  by (auto simp: find_caps_def find_Some_iff)

lemma find_acceptable:
  "List.find (acceptable st sets) vs = Some v \<Longrightarrow> v \<in> set vs \<and> (\<exists>c. find_caps sets v = Some c)"
  by (auto simp: find_Some_iff acceptable_def)

text \<open>The confirmed set carries its version, and the settings it leaves.\<close>

lemma negotiated_facts:
  assumes "negotiated h v caps st = (st1, pdu)" and "cap_ver caps = v"
  shows "cap_ver pdu = v" "\<not> h \<Longrightarrow> \<not> any_avc st1"
    "v \<noteq> CAPVERSION_81 \<Longrightarrow> v \<noteq> CAPVERSION_8 \<Longrightarrow> \<not> any_avc st1 \<Longrightarrow> cap_avc_disabled pdu"
    "v \<noteq> CAPVERSION_81 \<Longrightarrow> (set_avc420 st1 \<longrightarrow> set_avc420 st) \<and>
       (set_avc444 st1 \<longrightarrow> set_avc444 st) \<and> (set_avc444v2 st1 \<longrightarrow> set_avc444v2 st)"
    "set_progressive st1 = set_progressive st" "set_remotefx st1 = set_remotefx st"
  using assms
  by (auto simp: negotiated_def modern_settings_def any_avc_def split: if_splits)

text \<open>A confirmed set answers a version that the client advertised and the filter allows.\<close>

definition pdu_allowed :: "rdp_settings \<Rightarrow> capset list \<Rightarrow> capset \<Rightarrow> bool" where
  "pdu_allowed st sets pdu \<longleftrightarrow> acceptable st sets (cap_ver pdu)"

subsection \<open>Properties\<close>

text \<open>
  C17: the server confirms the best capability version: among the versions that the client
  advertised and the filter allows, the handler confirms exactly one set, the first in the
  order 10.7, 10.6, 10.6-err, 10.5, ..., 10, 8.1, 8, with the settings and flags of the table
  \<open>negotiated\<close>; when none is acceptable it confirms nothing, leaves the pipeline and the
  settings alone and answers UNSUPPORTED_VERSION.
\<close>

theorem caps_best_version:
  assumes "settings_work env" and "sets \<noteq> []"
  shows "shadow_client_rdpgfx_caps_advertise env True h264_ok sets (self, st, sent) =
    (case List.find (acceptable st sets) caps_order of
       None \<Rightarrow> ((self, st, sent), RC_UNSUPPORTED_VERSION, True)
     | Some v \<Rightarrow> (case negotiated h264_ok v (the (find_caps sets v)) st of (st1, pdu) \<Rightarrow>
         ((self\<lparr>caps_confirmed := True\<rparr>, st1, sent @ [pdu]), env_confirm env pdu, True)))"
  by (rule advertise_eq [OF assms])

definition sample_env :: caps_env where
  "sample_env = \<lparr>env_can_set = (\<lambda>k. True), env_confirm = (\<lambda>c. RC_OK)\<rparr>"

definition sample_capset :: "cap_version \<Rightarrow> capset" where
  "sample_capset v = \<lparr>cap_ver = v, cap_thin_client = False, cap_small_cache = False,
     cap_avc420_enabled = True, cap_avc_disabled = False, cap_other_bits = 0\<rparr>"

definition rfx_only_settings :: rdp_settings where
  "rfx_only_settings = \<lparr>set_avc420 = False, set_avc444 = False, set_avc444v2 = False,
     set_remotefx = True, set_progressive = True, set_rfx_codec_id = 3, set_small_cache = False,
     set_thin_client = True, set_progressive_v2 = True, set_planar = False, set_caps_filter = 0\<rparr>"

lemma sample_env_works: "settings_work sample_env"
  by (simp add: settings_work_def sample_env_def)

abbreviation sample_advertise :: "bool \<Rightarrow> cap_version list \<Rightarrow> caps_state \<times> channel_rc \<times> bool" where
  "sample_advertise h264_ok vs \<equiv> shadow_client_rdpgfx_caps_advertise sample_env True h264_ok
     (map sample_capset vs) (drd_rdp_graphics_pipeline_init, rfx_only_settings, [])"

lemma sample_acceptable:
  "acceptable rfx_only_settings (map sample_capset vs) v \<longleftrightarrow> v \<in> set vs \<and> v \<in> set capList"
proof -
  have "find_caps (map sample_capset vs) v = (if v \<in> set vs then Some (sample_capset v) else None)"
    by (induction vs) (auto simp: find_caps_def sample_capset_def)
  moreover have "shadow_are_caps_filtered rfx_only_settings v \<longleftrightarrow> v \<notin> set capList"
    by (simp add: shadow_are_caps_filtered_def capList_def rfx_only_settings_def)
  ultimately show ?thesis by (simp add: acceptable_def)
qed

theorem caps_best_version_witness:
  "\<exists>self st. sample_advertise True [CAPVERSION_8, CAPVERSION_105, CAPVERSION_10, CAPVERSION_104] =
     ((self, st, [(sample_capset CAPVERSION_105)\<lparr>cap_avc_disabled := True\<rparr>]), RC_OK, True)"
proof -
  define sets where "sets = map sample_capset [CAPVERSION_8, CAPVERSION_105, CAPVERSION_10, CAPVERSION_104]"
  have ne: "sets \<noteq> []" by (simp add: sets_def)
  have acc: "acceptable rfx_only_settings sets v \<longleftrightarrow>
      v \<in> {CAPVERSION_8, CAPVERSION_105, CAPVERSION_10, CAPVERSION_104}" for v
    unfolding sets_def sample_acceptable by (auto simp: capList_def)
  have f: "List.find (acceptable rfx_only_settings sets) caps_order = Some CAPVERSION_105"
    by (simp add: caps_order_def caps_preference_def acc)
  have g: "find_caps sets CAPVERSION_105 = Some (sample_capset CAPVERSION_105)"
    by (simp add: find_caps_def sets_def sample_capset_def)
  show ?thesis
    unfolding sets_def [symmetric] caps_best_version [OF sample_env_works ne] f
    by (simp add: g negotiated_def modern_settings_def any_avc_def rfx_only_settings_def sample_env_def)
qed

text \<open>
  no AVC without an encoder: whatever version is confirmed, when the H.264 encoder could
  not be prepared no AVC codec is left announced; the settings of an AVC codec are only ever
  narrowed, except by version 8.1; and from version 10 on a confirmation without an AVC codec
  tells the client that AVC is disabled.
\<close>

theorem caps_avc_sound:
  assumes "settings_work env" and "sets \<noteq> []"
    and "shadow_client_rdpgfx_caps_advertise env True h264_ok sets (self, st, sent) =
      ((self', st', sent @ [pdu]), rc, b)"
  shows "caps_confirmed self' \<and> pdu_allowed st sets pdu \<and> (\<not> h264_ok \<longrightarrow> \<not> any_avc st') \<and>
    (cap_ver pdu \<noteq> CAPVERSION_81 \<longrightarrow> (set_avc420 st' \<longrightarrow> set_avc420 st) \<and>
       (set_avc444 st' \<longrightarrow> set_avc444 st) \<and> (set_avc444v2 st' \<longrightarrow> set_avc444v2 st)) \<and>
    (cap_ver pdu \<in> set caps_preference \<and> \<not> any_avc st' \<longrightarrow> cap_avc_disabled pdu)"
proof -
  note e = assms(3) [unfolded advertise_eq [OF assms(1,2)]]
  obtain v where v: "List.find (acceptable st sets) caps_order = Some v"
    using e by (cases "List.find (acceptable st sets) caps_order") auto
  obtain c where c: "find_caps sets v = Some c" using find_acceptable [OF v] by blast
  obtain st1 p where n: "negotiated h264_ok v c st = (st1, p)" by fastforce
  have r: "self' = self\<lparr>caps_confirmed := True\<rparr>" "st' = st1" "pdu = p"
    using e by (simp_all add: v c n)
  note ver = find_caps_ver [OF c, THEN conjunct1]
  note f = negotiated_facts [OF n ver]
  have "acceptable st sets v" using v by (auto simp: find_Some_iff)
  then have "pdu_allowed st sets pdu" using f(1) r(3) by (simp add: pdu_allowed_def)
  moreover have "cap_ver pdu \<in> set caps_preference \<Longrightarrow> v \<noteq> CAPVERSION_81 \<and> v \<noteq> CAPVERSION_8"
    using f(1) r(3) by (auto simp: caps_preference_def)
  ultimately show ?thesis using f r by auto
qed

theorem caps_avc_sound_witness:
  "\<exists>self' st' pdu. sample_advertise False [CAPVERSION_81] = ((self', st', [] @ [pdu]), RC_OK, True) \<and>
     \<not> any_avc st'"
proof -
  have f: "List.find (acceptable rfx_only_settings (map sample_capset [CAPVERSION_81])) caps_order =
      Some CAPVERSION_81"
    unfolding caps_order_def caps_preference_def by (simp del: list.map add: sample_acceptable capList_def)
  have g: "find_caps (map sample_capset [CAPVERSION_81]) CAPVERSION_81 = Some (sample_capset CAPVERSION_81)"
    by (simp add: find_caps_def sample_capset_def)
  have ne: "map sample_capset [CAPVERSION_81] \<noteq> []" by simp
  obtain self' st' pdu where e:
    "sample_advertise False [CAPVERSION_81] = ((self', st', [] @ [pdu]), RC_OK, True)"
    unfolding advertise_eq [OF sample_env_works ne] f
    by (simp del: list.map add: g negotiated_def sample_env_def)
  from caps_avc_sound [OF sample_env_works ne e] e show ?thesis by blast
qed

text \<open>The exception of version 8.1: the handler takes the client's AVC420 flag without looking at
  the server's own setting, so a server configured without H.264 ends up announcing it.\<close>

lemma caps_81_ignores_server_setting:
  assumes "settings_work env" and "find_caps sets CAPVERSION_81 = Some c" and "cap_avc420_enabled c"
    and "List.find (acceptable st sets) caps_order = Some CAPVERSION_81" and "sets \<noteq> []"
    and "\<not> set_avc420 st"
  shows "\<exists>self' st' sent' rc b. shadow_client_rdpgfx_caps_advertise env True True sets (self, st, sent) =
    ((self', st', sent'), rc, b) \<and> set_avc420 st'"
  using assms(2-4,6) by (simp add: advertise_eq [OF assms(1,5)] negotiated_def) blast

end
