(* ===== verification/Tls_Credentials.thy ===== *)
theory Tls_Credentials
  imports Drd_Prelude
begin

text \<open>
  The TLS credentials of \<^verbatim>\<open>src/security/drd_tls_credentials.c\<close>: PEM texts, the FreeRDP objects
  parsed from them, and their hand-over to the settings of a connection. The FreeRDP objects
  live in an explicit store, so that a double free is a crash (\<open>None\<close>) and a leak an object
  nobody refers to; \<open>tls_api\<close> holds the answers of FreeRDP's parsers and of the file system.
\<close>

subsection \<open>State\<close>

record tls_store =
  ts_certs :: "nat \<Rightarrow> string option"  \<comment> \<open>live \<open>rdpCertificate\<close>s with the text they were parsed from\<close>
  ts_keys :: "nat \<Rightarrow> string option"
  ts_next :: nat

record tls_credentials =
  tc_certificate_path :: "string option"
  tc_private_key_path :: "string option"
  tc_certificate_pem :: "string option"
  tc_private_key_pem :: "string option"
  tc_certificate :: "nat option"
  tc_private_key :: "nat option"

record tls_api =
  ta_parse_certificate :: "string \<Rightarrow> bool"
  ta_parse_key :: "string \<Rightarrow> bool"
  ta_file :: "string \<Rightarrow> string res"
  ta_set_certificate :: bool
  ta_set_key :: bool

text \<open>The pointers of an \<open>rdpSettings\<close> the code assigns; the settings own what is assigned.\<close>

record tls_settings =
  st_certificate :: "nat option"
  st_key :: "nat option"

definition freerdp_certificate_new_from_pem ::
    "tls_api \<Rightarrow> string \<Rightarrow> tls_store \<Rightarrow> tls_store \<times> nat option" where
  "freerdp_certificate_new_from_pem api pem m =
     (if ta_parse_certificate api pem
      then (m\<lparr>ts_certs := (ts_certs m)(ts_next m \<mapsto> pem), ts_next := Suc (ts_next m)\<rparr>, Some (ts_next m))
      else (m, None))"

definition freerdp_key_new_from_pem ::
    "tls_api \<Rightarrow> string \<Rightarrow> tls_store \<Rightarrow> tls_store \<times> nat option" where
  "freerdp_key_new_from_pem api pem m =
     (if ta_parse_key api pem
      then (m\<lparr>ts_keys := (ts_keys m)(ts_next m \<mapsto> pem), ts_next := Suc (ts_next m)\<rparr>, Some (ts_next m))
      else (m, None))"

definition freerdp_certificate_free :: "nat \<Rightarrow> tls_store \<Rightarrow> tls_store option" where
  "freerdp_certificate_free p m =
     (if ts_certs m p = None then None else Some (m\<lparr>ts_certs := (ts_certs m)(p := None)\<rparr>))"

definition freerdp_key_free :: "nat \<Rightarrow> tls_store \<Rightarrow> tls_store option" where
  "freerdp_key_free p m =
     (if ts_keys m p = None then None else Some (m\<lparr>ts_keys := (ts_keys m)(p := None)\<rparr>))"

definition free_opt :: "(nat \<Rightarrow> tls_store \<Rightarrow> tls_store option) \<Rightarrow> nat option \<Rightarrow> tls_store \<Rightarrow> tls_store option" where
  "free_opt free p m = (case p of None \<Rightarrow> Some m | Some a \<Rightarrow> free a m)"

subsection \<open>Operations\<close>

definition drd_tls_credentials_init :: tls_credentials where
  "drd_tls_credentials_init =
     \<lparr>tc_certificate_path = None, tc_private_key_path = None, tc_certificate_pem = None,
      tc_private_key_pem = None, tc_certificate = None, tc_private_key = None\<rparr>"

definition drd_tls_credentials_dispose ::
    "tls_credentials \<Rightarrow> tls_store \<Rightarrow> (tls_credentials \<times> tls_store) option" where
  "drd_tls_credentials_dispose self m =
     Option.bind (free_opt freerdp_certificate_free (tc_certificate self) m) (\<lambda>m1.
     Option.bind (free_opt freerdp_key_free (tc_private_key self) m1) (\<lambda>m2.
       Some (drd_tls_credentials_init, m2)))"

definition drd_tls_credentials_apply_pem ::
    "tls_api \<Rightarrow> string \<Rightarrow> string \<Rightarrow> tls_credentials \<Rightarrow> tls_store \<Rightarrow>
     (tls_credentials \<times> tls_store \<times> unit res) option" where
  "drd_tls_credentials_apply_pem api cert_pem key_pem self m =
     (case freerdp_certificate_new_from_pem api cert_pem m of
        (m1, None) \<Rightarrow> Some (self, m1, fail_io IoFailed)
      | (m1, Some certificate) \<Rightarrow>
      (case freerdp_key_new_from_pem api key_pem m1 of
        (m2, None) \<Rightarrow> Option.bind (freerdp_certificate_free certificate m2) (\<lambda>m3.
            Some (self, m3, fail_io IoFailed))
      | (m2, Some key) \<Rightarrow>
          Option.bind (free_opt freerdp_certificate_free (tc_certificate self) m2) (\<lambda>m3.
          Option.bind (free_opt freerdp_key_free (tc_private_key self) m3) (\<lambda>m4.
          Some (self\<lparr>tc_certificate := Some certificate, tc_private_key := Some key,
                     tc_certificate_pem := Some cert_pem, tc_private_key_pem := Some key_pem\<rparr>,
                m4, ok)))))"

definition drd_tls_credentials_load ::
    "tls_api \<Rightarrow> string \<Rightarrow> string \<Rightarrow> tls_credentials \<Rightarrow> tls_store \<Rightarrow>
     (tls_credentials \<times> tls_store \<times> unit res) option" where
  "drd_tls_credentials_load api cert_path key_path self m =
     (case ta_file api cert_path of Inl e \<Rightarrow> Some (self, m, Inl e)
      | Inr cert_data \<Rightarrow>
      (case ta_file api key_path of Inl e \<Rightarrow> Some (self, m, Inl e)
      | Inr key_data \<Rightarrow> drd_tls_credentials_apply_pem api cert_data key_data self m))"

definition drd_tls_credentials_new ::
    "tls_api \<Rightarrow> string \<Rightarrow> string \<Rightarrow> tls_store \<Rightarrow> (tls_credentials res \<times> tls_store) option" where
  "drd_tls_credentials_new api cert_path key_path m =
     (let self = drd_tls_credentials_init\<lparr>tc_certificate_path := Some cert_path,
                   tc_private_key_path := Some key_path\<rparr>
      in Option.bind (drd_tls_credentials_load api cert_path key_path self m) (\<lambda>(s, m1, r).
         case r of Inr _ \<Rightarrow> Some (Inr s, m1)
         | Inl e \<Rightarrow> Option.bind (drd_tls_credentials_dispose s m1) (\<lambda>(_, m2). Some (Inl e, m2))))"

definition drd_tls_credentials_new_empty :: tls_credentials where
  "drd_tls_credentials_new_empty = drd_tls_credentials_init"

definition drd_tls_credentials_get_certificate_path :: "tls_credentials \<Rightarrow> string option" where
  "drd_tls_credentials_get_certificate_path self = tc_certificate_path self"

definition drd_tls_credentials_get_private_key_path :: "tls_credentials \<Rightarrow> string option" where
  "drd_tls_credentials_get_private_key_path self = tc_private_key_path self"

definition drd_tls_credentials_get_certificate :: "tls_credentials \<Rightarrow> nat option" where
  "drd_tls_credentials_get_certificate self = tc_certificate self"

definition drd_tls_credentials_get_private_key :: "tls_credentials \<Rightarrow> nat option" where
  "drd_tls_credentials_get_private_key self = tc_private_key self"

text \<open>The two out parameters are optional; \<open>None\<close> in the result is an untouched or cleared one.\<close>

definition drd_tls_credentials_read_material ::
    "bool \<Rightarrow> bool \<Rightarrow> tls_credentials \<Rightarrow> (string option \<times> string option) res" where
  "drd_tls_credentials_read_material want_certificate want_key self =
     (if want_certificate \<and> tc_certificate_pem self = None then fail_io IoFailed
      else if want_key \<and> tc_private_key_pem self = None then fail_io IoFailed
      else Inr (if want_certificate then tc_certificate_pem self else None,
                if want_key then tc_private_key_pem self else None))"

definition drd_tls_credentials_reload_from_pem ::
    "tls_api \<Rightarrow> string \<Rightarrow> string \<Rightarrow> tls_credentials \<Rightarrow> tls_store \<Rightarrow>
     (tls_credentials \<times> tls_store \<times> unit res) option" where
  "drd_tls_credentials_reload_from_pem api cert_pem key_pem self m =
     drd_tls_credentials_apply_pem api cert_pem key_pem self m"

definition drd_tls_credentials_apply ::
    "tls_api \<Rightarrow> tls_credentials \<Rightarrow> tls_settings \<Rightarrow> tls_store \<Rightarrow>
     (tls_settings \<times> tls_store \<times> unit res) option" where
  "drd_tls_credentials_apply api self settings m =
     (case (tc_certificate_pem self, tc_private_key_pem self) of
        (Some cert_pem, Some key_pem) \<Rightarrow>
          (case freerdp_certificate_new_from_pem api cert_pem m of
             (m1, None) \<Rightarrow> Some (settings, m1, fail_io IoFailed)
           | (m1, Some certificate) \<Rightarrow>
           (case freerdp_key_new_from_pem api key_pem m1 of
             (m2, None) \<Rightarrow> Option.bind (freerdp_certificate_free certificate m2) (\<lambda>m3.
                 Some (settings, m3, fail_io IoFailed))
           | (m2, Some key) \<Rightarrow>
             if \<not> ta_set_certificate api
             then Option.bind (freerdp_certificate_free certificate m2) (\<lambda>m3.
                  Option.bind (freerdp_key_free key m3) (\<lambda>m4.
                  Some (settings, m4, fail_io IoFailed)))
             else let st = settings\<lparr>st_certificate := Some certificate\<rparr> in
             if \<not> ta_set_key api
             then Option.bind (freerdp_key_free key m2) (\<lambda>m3. Some (st, m3, fail_io IoFailed))
             else Some (st\<lparr>st_key := Some key\<rparr>, m2, ok)))
      | _ \<Rightarrow> Some (settings, m, fail_io IoFailed))"

subsection \<open>The invariant\<close>

text \<open>The credentials own exactly what they refer to (\<open>others\<close> is owned elsewhere), and the
  parsed objects are those of the texts.\<close>

definition opt_set :: "nat option \<Rightarrow> nat set" where
  "opt_set p = (case p of None \<Rightarrow> {} | Some a \<Rightarrow> {a})"

definition owned_by :: "(nat \<Rightarrow> string option) \<Rightarrow> nat set \<Rightarrow> nat option \<Rightarrow> string option \<Rightarrow> bool" where
  "owned_by h others p pem \<longleftrightarrow> dom h = others \<union> opt_set p \<and> opt_set p \<inter> others = {} \<and>
     (case p of None \<Rightarrow> pem = None | Some a \<Rightarrow> pem \<noteq> None \<and> h a = pem)"

definition tls_inv :: "tls_credentials \<Rightarrow> nat set \<Rightarrow> nat set \<Rightarrow> tls_store \<Rightarrow> bool" where
  "tls_inv self cs ks m \<longleftrightarrow>
     owned_by (ts_certs m) cs (tc_certificate self) (tc_certificate_pem self) \<and>
     owned_by (ts_keys m) ks (tc_private_key self) (tc_private_key_pem self) \<and>
     (tc_certificate self = None \<longleftrightarrow> tc_private_key self = None) \<and>
     (\<forall>p \<ge> ts_next m. ts_certs m p = None \<and> ts_keys m p = None)"

lemma owned_by_replace:
  "owned_by h others p pem \<Longrightarrow> h n = None \<Longrightarrow>
   owned_by (case p of None \<Rightarrow> h(n \<mapsto> x) | Some a \<Rightarrow> (h(n \<mapsto> x))(a := None)) others (Some n) (Some x)"
  by (auto simp: owned_by_def opt_set_def split: option.splits)

lemma owned_by_None: "owned_by h others None None \<longleftrightarrow> dom h = others"
  by (simp add: owned_by_def opt_set_def)

lemma init_tls_inv: "dom (ts_certs m) = cs \<Longrightarrow> dom (ts_keys m) = ks
    \<Longrightarrow> \<forall>p \<ge> ts_next m. ts_certs m p = None \<and> ts_keys m p = None
    \<Longrightarrow> tls_inv (drd_tls_credentials_init\<lparr>tc_certificate_path := x, tc_private_key_path := y\<rparr>) cs ks m"
  by (simp add: tls_inv_def drd_tls_credentials_init_def owned_by_None)

lemma apply_pem_outcome:
  assumes "tls_inv self cs ks m"
  shows "returns (drd_tls_credentials_apply_pem api c k self m) (\<lambda>(s, m', r).
    tls_inv s cs ks m' \<and>
    (if ta_parse_certificate api c \<and> ta_parse_key api k
     then r = ok \<and> tc_certificate_pem s = Some c \<and> tc_private_key_pem s = Some k
     else s = self \<and> r = fail_io IoFailed))"
proof (cases "ta_parse_certificate api c \<and> ta_parse_key api k")
  case False
  have "ts_certs m (ts_next m) = None" using assms by (simp add: tls_inv_def)
  with False assms show ?thesis
    by (auto simp: drd_tls_credentials_apply_pem_def freerdp_certificate_new_from_pem_def
        freerdp_key_new_from_pem_def freerdp_certificate_free_def tls_inv_def fun_upd_idem)
next
  case True
  have f: "ts_certs m (ts_next m) = None" "ts_keys m (Suc (ts_next m)) = None"
    "ts_keys m (ts_next m) = None"
    using assms by (simp_all add: tls_inv_def)
  have oc: "owned_by (ts_certs m) cs (tc_certificate self) (tc_certificate_pem self)"
    and ok: "owned_by (ts_keys m) ks (tc_private_key self) (tc_private_key_pem self)"
    and both: "tc_certificate self = None \<longleftrightarrow> tc_private_key self = None"
    and fresh: "\<forall>p \<ge> ts_next m. ts_certs m p = None \<and> ts_keys m p = None"
    using assms by (simp_all add: tls_inv_def)
  show ?thesis
  proof (cases "tc_certificate self")
    case None
    with both have "tc_private_key self = None" by simp
    with True None fresh owned_by_replace [OF oc f(1), of c] owned_by_replace [OF ok f(2), of k]
    show ?thesis
      by (simp add: drd_tls_credentials_apply_pem_def freerdp_certificate_new_from_pem_def
          freerdp_key_new_from_pem_def free_opt_def tls_inv_def)
  next
    case (Some a)
    with both obtain b where b: "tc_private_key self = Some b" by auto
    have live: "ts_certs m a \<noteq> None" "ts_keys m b \<noteq> None"
      using oc ok Some b by (auto simp: owned_by_def)
    then have "a < ts_next m" "b < ts_next m"
      using fresh by (metis not_less)+
    with True Some b fresh live owned_by_replace [OF oc f(1), of c] owned_by_replace [OF ok f(2), of k]
    show ?thesis
      by (simp add: drd_tls_credentials_apply_pem_def freerdp_certificate_new_from_pem_def
          freerdp_key_new_from_pem_def free_opt_def tls_inv_def freerdp_certificate_free_def
          freerdp_key_free_def)
  qed
qed

lemma dispose_outcome:
  assumes "tls_inv self cs ks m"
  shows "returns (drd_tls_credentials_dispose self m) (\<lambda>(s, m').
    s = drd_tls_credentials_init \<and> dom (ts_certs m') = cs \<and> dom (ts_keys m') = ks)"
  using assms
  by (cases "tc_certificate self"; cases "tc_private_key self")
    (auto simp: drd_tls_credentials_dispose_def free_opt_def tls_inv_def owned_by_def opt_set_def
      freerdp_certificate_free_def freerdp_key_free_def)

subsection \<open>A run of the credentials\<close>

text \<open>What the program does with credentials: reload them, and apply them to the settings of
  connections. \<open>cs\<close> and \<open>ks\<close> collect what the settings own.\<close>

datatype tls_op = Reload tls_api string string | Apply tls_api

definition no_settings :: tls_settings where
  "no_settings = \<lparr>st_certificate = None, st_key = None\<rparr>"

fun tls_run :: "tls_op list \<Rightarrow> tls_credentials \<Rightarrow> nat set \<Rightarrow> nat set \<Rightarrow> tls_store \<Rightarrow>
    (tls_credentials \<times> nat set \<times> nat set \<times> tls_store) option" where
  "tls_run [] self cs ks m = Some (self, cs, ks, m)"
| "tls_run (Reload api c k # ops) self cs ks m =
     Option.bind (drd_tls_credentials_reload_from_pem api c k self m) (\<lambda>(s, m', r).
       tls_run ops s cs ks m')"
| "tls_run (Apply api # ops) self cs ks m =
     Option.bind (drd_tls_credentials_apply api self no_settings m) (\<lambda>(st, m', r).
       tls_run ops self (cs \<union> opt_set (st_certificate st)) (ks \<union> opt_set (st_key st)) m')"

lemma owned_by_give:
  "owned_by h others p pem \<Longrightarrow> h n = None \<Longrightarrow> owned_by (h(n \<mapsto> x)) (insert n others) p pem"
  by (auto simp: owned_by_def opt_set_def split: option.splits)

lemma apply_outcome:
  assumes "tls_inv self cs ks m"
  shows "returns (drd_tls_credentials_apply api self no_settings m) (\<lambda>(st, m', r).
    tls_inv self (cs \<union> opt_set (st_certificate st)) (ks \<union> opt_set (st_key st)) m' \<and>
    (r = ok \<longrightarrow> st_certificate st \<noteq> None \<and> st_key st \<noteq> None \<and>
       ts_certs m' (the (st_certificate st)) = tc_certificate_pem self \<and>
       ts_keys m' (the (st_key st)) = tc_private_key_pem self))"
proof (cases "tc_certificate_pem self = None \<or> tc_private_key_pem self = None")
  case True
  with assms show ?thesis
    by (auto simp: drd_tls_credentials_apply_def no_settings_def opt_set_def split: option.splits)
next
  case False
  then obtain c k where pem: "tc_certificate_pem self = Some c" "tc_private_key_pem self = Some k"
    by auto
  let ?n = "ts_next m"
  have f: "ts_certs m ?n = None" "ts_keys m (Suc ?n) = None" "ts_certs m (Suc ?n) = None"
    "ts_keys m ?n = None"
    using assms by (simp_all add: tls_inv_def)
  have oc: "owned_by (ts_certs m) cs (tc_certificate self) (Some c)"
    and okk: "owned_by (ts_keys m) ks (tc_private_key self) (Some k)"
    and both: "tc_certificate self = None \<longleftrightarrow> tc_private_key self = None"
    and fresh: "\<forall>p \<ge> ts_next m. ts_certs m p = None \<and> ts_keys m p = None"
    using assms pem by (simp_all add: tls_inv_def)
  note give = owned_by_give [OF oc f(1), of c] owned_by_give [OF okk f(2), of k]
  show ?thesis
    using give oc okk both fresh f pem
    by (cases "ta_parse_certificate api c"; cases "ta_parse_key api k";
        cases "ta_set_certificate api"; cases "ta_set_key api")
      (simp_all add: drd_tls_credentials_apply_def no_settings_def tls_inv_def opt_set_def
        freerdp_certificate_new_from_pem_def freerdp_key_new_from_pem_def
        freerdp_certificate_free_def freerdp_key_free_def fun_upd_idem)
qed

lemma tls_run_outcome:
  "tls_inv self cs ks m \<Longrightarrow> returns (tls_run ops self cs ks m) (\<lambda>(s, cs', ks', m').
     tls_inv s cs' ks' m' \<and> cs \<subseteq> cs' \<and> ks \<subseteq> ks')"
proof (induction ops arbitrary: self cs ks m)
  case (Cons op ops)
  show ?case
  proof (cases op)
    case (Reload api c k)
    obtain s m' r where step: "drd_tls_credentials_reload_from_pem api c k self m = Some (s, m', r)"
      and inv: "tls_inv s cs ks m'"
      using apply_pem_outcome [OF Cons.prems, of api c k]
      by (auto simp: returns_iff drd_tls_credentials_reload_from_pem_def)
    show ?thesis using Cons.IH [OF inv] by (simp add: Reload step)
  next
    case (Apply api)
    obtain st m' r where step: "drd_tls_credentials_apply api self no_settings m = Some (st, m', r)"
      and inv: "tls_inv self (cs \<union> opt_set (st_certificate st)) (ks \<union> opt_set (st_key st)) m'"
      using apply_outcome [OF Cons.prems, of api] by (auto simp: returns_iff)
    from Cons.IH [OF inv] show ?thesis
      by (auto simp: Apply step returns_iff)
  qed
qed simp

lemma load_outcome:
  "tls_inv self cs ks m \<Longrightarrow> returns (drd_tls_credentials_load api cp kp self m)
     (\<lambda>(s, m', r). tls_inv s cs ks m')"
proof -
  assume inv: "tls_inv self cs ks m"
  show ?thesis
  proof (cases "ta_file api cp")
    case (Inr c)
    then show ?thesis
    proof (cases "ta_file api kp")
      case (Inr k)
      with \<open>ta_file api cp = Inr c\<close> show ?thesis
        by (auto simp: drd_tls_credentials_load_def intro: returns_mono [OF apply_pem_outcome [OF inv]])
    qed (use inv in \<open>simp add: drd_tls_credentials_load_def\<close>)
  qed (use inv in \<open>simp add: drd_tls_credentials_load_def\<close>)
qed

text \<open>
  C35: Credentials loaded from files, then reloaded and applied to the settings of connections in
  any order, with the parsers and the settings failing at any point, are memory safe: no
  certificate or key is freed twice, and after the final release exactly the objects handed to
  settings are live (nothing leaks). A failed load leaves nothing behind.
\<close>

theorem tls_credentials_memory_safe:
  assumes "dom (ts_certs m) = cs" "dom (ts_keys m) = ks"
    "\<forall>p \<ge> ts_next m. ts_certs m p = None \<and> ts_keys m p = None"
  shows "returns (drd_tls_credentials_new api cert_path key_path m) (\<lambda>(r, m1).
    case r of Inl e \<Rightarrow> dom (ts_certs m1) = cs \<and> dom (ts_keys m1) = ks
    | Inr self \<Rightarrow> returns (tls_run ops self cs ks m1) (\<lambda>(s, cs', ks', m2).
        returns (drd_tls_credentials_dispose s m2) (\<lambda>(_, m3).
          dom (ts_certs m3) = cs' \<and> dom (ts_keys m3) = ks' \<and> cs \<subseteq> cs' \<and> ks \<subseteq> ks')))"
proof -
  define self where "self = drd_tls_credentials_init\<lparr>tc_certificate_path := Some cert_path,
    tc_private_key_path := Some key_path\<rparr>"
  have inv0: "tls_inv self cs ks m"
    unfolding self_def by (rule init_tls_inv [OF assms])
  have load: "returns (drd_tls_credentials_load api cert_path key_path self m)
      (\<lambda>(s, m', r). tls_inv s cs ks m')"
    by (rule load_outcome [OF inv0])
  then obtain s m' r where l: "drd_tls_credentials_load api cert_path key_path self m = Some (s, m', r)"
    and inv: "tls_inv s cs ks m'" by (auto simp: returns_iff)
  show ?thesis
  proof (cases r)
    case (Inl e)
    with l dispose_outcome [OF inv] show ?thesis
      by (auto simp: drd_tls_credentials_new_def self_def [symmetric] returns_iff)
  next
    case (Inr u)
    from tls_run_outcome [OF inv, of ops] dispose_outcome
    have "returns (tls_run ops s cs ks m') (\<lambda>(s, cs', ks', m2).
        returns (drd_tls_credentials_dispose s m2) (\<lambda>(_, m3).
          dom (ts_certs m3) = cs' \<and> dom (ts_keys m3) = ks' \<and> cs \<subseteq> cs' \<and> ks \<subseteq> ks'))"
      by (fastforce simp: returns_iff)
    with l Inr show ?thesis
      by (simp add: drd_tls_credentials_new_def self_def [symmetric])
  qed
qed

definition good_api :: tls_api where
  "good_api = \<lparr>ta_parse_certificate = (\<lambda>s. s \<noteq> ''bad''), ta_parse_key = (\<lambda>s. s \<noteq> ''bad''),
     ta_file = (\<lambda>p. if p = ''c.pem'' then Inr ''cert'' else Inr ''key''),
     ta_set_certificate = True, ta_set_key = True\<rparr>"

lemma tls_credentials_memory_safe_witness:
  "returns (drd_tls_credentials_new good_api ''c.pem'' ''k.pem'' \<lparr>ts_certs = Map.empty,
      ts_keys = Map.empty, ts_next = 0\<rparr>) (\<lambda>(r, m1).
    case r of Inl e \<Rightarrow> dom (ts_certs m1) = {} \<and> dom (ts_keys m1) = {}
    | Inr self \<Rightarrow> returns (tls_run [Apply good_api, Reload good_api ''x'' ''bad'', Apply good_api]
          self {} {} m1) (\<lambda>(s, cs', ks', m2).
        returns (drd_tls_credentials_dispose s m2) (\<lambda>(_, m3).
          dom (ts_certs m3) = cs' \<and> dom (ts_keys m3) = ks' \<and> {} \<subseteq> cs' \<and> {} \<subseteq> ks')))"
  by (rule tls_credentials_memory_safe) simp_all

text \<open>
  A reload is all or nothing: with parsable texts the credentials hold exactly the new pair,
  and a connection they are applied to gets a certificate and a key parsed from it; with a text
  that does not parse they are unchanged and the reload reports the failure.
\<close>

theorem tls_reload_all_or_nothing:
  assumes "tls_inv self cs ks m"
  shows "returns (drd_tls_credentials_reload_from_pem api c k self m) (\<lambda>(s, m', r).
    if ta_parse_certificate api c \<and> ta_parse_key api k
    then r = ok \<and> drd_tls_credentials_read_material True True s = Inr (Some c, Some k) \<and>
      returns (drd_tls_credentials_apply api s no_settings m') (\<lambda>(st, m2, r2).
        r2 = ok \<longrightarrow> ts_certs m2 (the (st_certificate st)) = Some c \<and>
          ts_keys m2 (the (st_key st)) = Some k)
    else s = self \<and> r = fail_io IoFailed)"
proof -
  obtain s m' r where step: "drd_tls_credentials_reload_from_pem api c k self m = Some (s, m', r)"
    and inv: "tls_inv s cs ks m'"
    and res: "if ta_parse_certificate api c \<and> ta_parse_key api k
     then r = ok \<and> tc_certificate_pem s = Some c \<and> tc_private_key_pem s = Some k
     else s = self \<and> r = fail_io IoFailed"
    using apply_pem_outcome [OF assms, of api c k]
    by (auto simp: returns_iff drd_tls_credentials_reload_from_pem_def)
  have "returns (drd_tls_credentials_apply api s no_settings m') (\<lambda>(st, m2, r2).
      r2 = ok \<longrightarrow> ts_certs m2 (the (st_certificate st)) = tc_certificate_pem s \<and>
        ts_keys m2 (the (st_key st)) = tc_private_key_pem s)"
    by (rule returns_mono [OF apply_outcome [OF inv, of api]]) auto
  with step res show ?thesis
    by (cases "ta_parse_certificate api c \<and> ta_parse_key api k")
      (simp_all add: drd_tls_credentials_read_material_def)
qed

lemma tls_reload_all_or_nothing_witness:
  "returns (drd_tls_credentials_reload_from_pem good_api ''c'' ''k'' drd_tls_credentials_init
      \<lparr>ts_certs = Map.empty, ts_keys = Map.empty, ts_next = 0\<rparr>) (\<lambda>(s, m', r).
    r = ok \<and> drd_tls_credentials_read_material True True s = Inr (Some ''c'', Some ''k''))"
proof -
  have "tls_inv drd_tls_credentials_init {} {} \<lparr>ts_certs = Map.empty, ts_keys = Map.empty, ts_next = 0\<rparr>"
    by (simp add: tls_inv_def drd_tls_credentials_init_def owned_by_None)
  note reload = tls_reload_all_or_nothing [OF this, of good_api "''c''" "''k''"]
  have "ta_parse_certificate good_api ''c'' \<and> ta_parse_key good_api ''k''"
    by (simp add: good_api_def)
  then show ?thesis by (intro returns_mono [OF reload]) auto
qed

end
