(* ===== verification/Encode_Surface_Safety.thy ===== *)
theory Encode_Surface_Safety
  imports Encode_Surface
begin

text \<open>
  What one call of \<open>drd_encoding_manager_encode_surface_gfx\<close> guarantees: no access outside a
  buffer and no failed assertion on a well-formed frame, the encoder invariants on every branch,
  the reference frame in step with what was sent, and the exact set of tiles that is sent.
\<close>

subsection \<open>The invariant of the encoder\<close>

definition enc_inv :: "codec_api \<Rightarrow> encoder \<Rightarrow> bool" where
  "enc_inv fr self \<longleftrightarrow> hashes_sized self \<and> coherent self \<and> codecs_inv fr self \<and>
     vaapi_inv self \<and> refresh_inv self"

text \<open>Two states that differ only in codec contexts agree on the following fields.\<close>

definition same_diff :: "encoder \<Rightarrow> encoder \<Rightarrow> bool" where
  "same_diff s s' \<longleftrightarrow>
     (frame_width s' = frame_width s \<and> frame_height s' = frame_height s \<and>
      diff_width s' = diff_width s \<and> diff_height s' = diff_height s \<and>
      diff_stride s' = diff_stride s \<and> tiles_x s' = tiles_x s \<and> tiles_y s' = tiles_y s \<and>
      previous_frame s' = previous_frame s \<and> tile_hashes s' = tile_hashes s) \<and>
     (force_keyframe s' = force_keyframe s \<and> enable_diff s' = enable_diff s \<and>
      progressive_rfx_frames s' = progressive_rfx_frames s \<and>
      progressive_refresh_interval s' = progressive_refresh_interval s \<and>
      progressive_refresh_timeout_ms s' = progressive_refresh_timeout_ms s \<and>
      last_codec s' = last_codec s \<and> ready s' = ready s \<and>
      avc_to_non_avc_transition s' = avc_to_non_avc_transition s \<and>
      non_avc_switch_timestamp_us s' = non_avc_switch_timestamp_us s)"

lemma same_diff_refl [simp]: "same_diff s s"
  by (simp add: same_diff_def)

lemma same_diff_trans: "same_diff a b \<Longrightarrow> same_diff b c \<Longrightarrow> same_diff a c"
  by (simp add: same_diff_def)

lemma forget_vaapi_same: "same_diff s (forget_vaapi s)" "same_diff (forget_vaapi s) s"
  by (simp_all add: same_diff_def forget_vaapi_def drd_vaapi_encoder_release_def)

lemma forget_codecs_same: "same_diff s (forget_codecs s)" "same_diff (forget_codecs s) s"
  by (simp_all add: same_diff_def forget_codecs_def)

lemma vaapi_prepare_same: "same_diff self (fst (drd_vaapi_encoder_prepare va self))"
  by (rule same_diff_trans [OF forget_vaapi_same(1)])
     (subst vaapi_prepare_frame [symmetric, of self va], rule forget_vaapi_same(2))

lemma encoder_prepare_same: "same_diff self (fst (drd_encoder_prepare fr w self))"
  by (rule same_diff_trans [OF forget_codecs_same(1)])
     (subst encoder_prepare_forget [symmetric, of self fr w], rule forget_codecs_same(2))

lemma same_diff_tiles: "same_diff s s' \<Longrightarrow> enc_tiles s' = enc_tiles s"
  by (simp add: same_diff_def)

lemma same_diff_facts:
  assumes "same_diff s s'"
  shows "diff_wf s' = diff_wf s" "coherent s' = coherent s" "hashes_sized s' = hashes_sized s"
    "refresh_inv s' = refresh_inv s" "keyframe_due s' now = keyframe_due s now"
    "full_rect s' = full_rect s" "fits_u16 s' = fits_u16 s"
proof -
  show "diff_wf s' = diff_wf s" "hashes_sized s' = hashes_sized s"
    "refresh_inv s' = refresh_inv s" "full_rect s' = full_rect s" "fits_u16 s' = fits_u16 s"
    using assms by (simp_all add: same_diff_def diff_wf_def hashes_sized_def refresh_inv_def
        full_rect_def fits_u16_def)
  show "coherent s' = coherent s"
    using assms by (simp add: same_diff_def coherent_def)
  show "keyframe_due s' now = keyframe_due s now"
    using assms by (simp add: same_diff_def keyframe_due_def
        drd_encoding_manager_refresh_interval_reached_def)
qed

text \<open>The two kinds of context do not touch each other.\<close>

lemma vaapi_inv_forget_codecs: "vaapi_inv (forget_codecs s) = vaapi_inv s"
  by (simp add: vaapi_inv_def forget_codecs_def)

lemma codecs_inv_forget_vaapi: "codecs_inv fr (forget_vaapi s) = codecs_inv fr s"
  by (simp add: codecs_inv_def forget_vaapi_def drd_vaapi_encoder_release_def)

lemma encoder_prepare_vaapi: "vaapi_inv (fst (drd_encoder_prepare fr w self)) = vaapi_inv self"
  by (metis encoder_prepare_forget vaapi_inv_forget_codecs)

lemma vaapi_prepare_codecs:
  "codecs_inv fr (fst (drd_vaapi_encoder_prepare va self)) = codecs_inv fr self"
  by (metis vaapi_prepare_frame codecs_inv_forget_vaapi)

lemma vaapi_prepare_h264: "h264 (fst (drd_vaapi_encoder_prepare va self)) = h264 self"
  using arg_cong [OF vaapi_prepare_frame, of h264 va self]
  by (simp add: forget_vaapi_def drd_vaapi_encoder_release_def)

subsection \<open>A frame that is ready to be encoded\<close>

definition encodable :: "codec_api \<Rightarrow> u8 list \<Rightarrow> nat \<Rightarrow> encoder \<Rightarrow> bool" where
  "encodable fr data stride self \<longleftrightarrow>
     enc_inv fr self \<and> diff_wf self \<and>
     frame_width self = diff_width self \<and> frame_height self = diff_height self \<and>
     stride = diff_stride self \<and> length data = stride * diff_height self"

lemma encodableD:
  assumes "encodable fr data stride self"
  shows "enc_inv fr self" "diff_wf self" "coherent self" "codecs_inv fr self" "vaapi_inv self"
    "refresh_inv self" "hashes_sized self" "length data = diff_stride self * diff_height self"
    "frame_height self = diff_height self" "frame_width self = diff_width self"
    "stride = diff_stride self"
  using assms by (simp_all add: encodable_def enc_inv_def)

lemma encodable_fits: "encodable fr data stride self \<Longrightarrow> fits_u16 self"
  by (simp add: encodable_def fits_u16_def diff_wf_def frame_ok_def UINT16_MAX_def)

lemma encodable_picture:
  "encodable fr data stride self \<Longrightarrow> picture_ok data stride (frame_height self)"
  by (simp add: encodable_def picture_ok_def)

lemma encodable_same:
  assumes "encodable fr data stride self" "same_diff self s" "codecs_inv fr s" "vaapi_inv s"
  shows "encodable fr data stride s"
proof -
  have "frame_width s = frame_width self" "frame_height s = frame_height self"
    "diff_width s = diff_width self" "diff_height s = diff_height self" "diff_stride s = diff_stride self"
    using assms(2) by (simp_all add: same_diff_def)
  then show ?thesis
    using assms(1,3,4) same_diff_facts [OF assms(2)] by (simp add: encodable_def enc_inv_def)
qed

lemma encodable_prepare:
  assumes "flags_ok fr" "encodable fr data stride self"
  shows "encodable fr data stride (fst (drd_encoder_prepare fr w self))"
  by (rule encodable_same [OF assms(2) encoder_prepare_same])
     (simp_all add: encoder_prepare_inv [OF assms(1)] encoder_prepare_vaapi encodableD [OF assms(2)])

lemma encodable_vaapi:
  assumes "encodable fr data stride self"
  shows "encodable fr data stride (fst (drd_vaapi_encoder_prepare va self))"
  by (rule encodable_same [OF assms vaapi_prepare_same])
     (simp_all add: vaapi_prepare_codecs vaapi_prepare_inv encodableD [OF assms])

subsection \<open>Committing a frame\<close>

definition same_size :: "encoder \<Rightarrow> encoder \<Rightarrow> bool" where
  "same_size s s' \<longleftrightarrow> frame_width s' = frame_width s \<and> frame_height s' = frame_height s \<and>
     diff_width s' = diff_width s \<and> diff_height s' = diff_height s \<and> diff_stride s' = diff_stride s \<and>
     tiles_x s' = tiles_x s \<and> tiles_y s' = tiles_y s \<and> ready s' = ready s"

lemma same_diff_size: "same_diff s s' \<Longrightarrow> same_size s s'"
  by (simp add: same_diff_def same_size_def)

lemma same_size_trans: "same_size a b \<Longrightarrow> same_size b c \<Longrightarrow> same_size a c"
  by (simp add: same_size_def)

lemma same_size_tiles: "same_size s s' \<Longrightarrow> enc_tiles s' = enc_tiles s"
  by (simp add: same_size_def)

text \<open>Registering a codec touches the refresh book-keeping only.\<close>

definition forget_refresh :: "encoder \<Rightarrow> encoder" where
  "forget_refresh s = s\<lparr>progressive_rfx_frames := 0, last_codec := CODEC_UNKNOWN,
     avc_to_non_avc_transition := False, non_avc_switch_timestamp_us := 0\<rparr>"

lemma forget_refresh_update [simp]:
  "forget_refresh (s\<lparr>progressive_rfx_frames := n\<rparr>) = forget_refresh s"
  "forget_refresh (s\<lparr>last_codec := c\<rparr>) = forget_refresh s"
  "forget_refresh (s\<lparr>avc_to_non_avc_transition := b\<rparr>) = forget_refresh s"
  "forget_refresh (s\<lparr>non_avc_switch_timestamp_us := t\<rparr>) = forget_refresh s"
  by (simp_all add: forget_refresh_def)

lemma register_forget:
  "forget_refresh (drd_encoding_manager_register_codec_result s t c k) = forget_refresh s"
  by (simp add: drd_encoding_manager_register_codec_result_def Let_def split: codec_class.splits)

lemma forget_refresh_facts:
  "diff_wf (forget_refresh s) = diff_wf s" "coherent (forget_refresh s) = coherent s"
  "codecs_inv fr (forget_refresh s) = codecs_inv fr s" "vaapi_inv (forget_refresh s) = vaapi_inv s"
  "same_size a (forget_refresh s) = same_size a s"
  "previous_frame (forget_refresh s) = previous_frame s"
  "tile_hashes (forget_refresh s) = tile_hashes s"
  "diff_stride (forget_refresh s) = diff_stride s"
  by (simp_all add: forget_refresh_def diff_wf_def coherent_def codecs_inv_def vaapi_inv_def
      same_size_def)

lemma register_facts:
  "diff_wf (drd_encoding_manager_register_codec_result s t c k) = diff_wf s"
  "coherent (drd_encoding_manager_register_codec_result s t c k) = coherent s"
  "codecs_inv fr (drd_encoding_manager_register_codec_result s t c k) = codecs_inv fr s"
  "vaapi_inv (drd_encoding_manager_register_codec_result s t c k) = vaapi_inv s"
  "same_size a (drd_encoding_manager_register_codec_result s t c k) = same_size a s"
  "previous_frame (drd_encoding_manager_register_codec_result s t c k) = previous_frame s"
  "tile_hashes (drd_encoding_manager_register_codec_result s t c k) = tile_hashes s"
  "diff_stride (drd_encoding_manager_register_codec_result s t c k) = diff_stride s"
  by (metis register_forget forget_refresh_facts)+

text \<open>The state whose reference frame is \<open>data\<close>, with the hash of every tile of \<open>data\<close>.\<close>

definition in_step :: "u8 list \<Rightarrow> encoder \<Rightarrow> bool" where
  "in_step data s \<longleftrightarrow> previous_frame s = data \<and>
     (\<forall>t \<in> set (enc_tiles s). tile_hashes s ! tidx t = tile_hash data (diff_stride s) t)"

lemma commit_frame_ok:
  assumes e: "encodable fr data stride s"
  shows "\<exists>s'. commit_frame s data stride now c k = Some s' \<and> enc_inv fr s' \<and> diff_wf s' \<and>
    same_size s s' \<and> in_step data s'"
proof -
  note d = encodableD [OF e]
  let ?r = "\<lambda>x. drd_encoding_manager_register_codec_result x now c k"
  let ?s = "s\<lparr>previous_frame := data,
      tile_hashes := write_all tidx (tile_hash data (diff_stride s))
        (enc_tiles s) (tile_hashes s)\<rparr>"
  have st: "store_and_hash s data (diff_stride s) (diff_height s) = Some ?s"
    by (rule store_and_hash_eq [OF d(2) d(8)])
  note w = store_and_hash_wf [OF d(2) d(8) st]
  have inv: "codecs_inv fr ?s" "vaapi_inv ?s" "refresh_inv ?s"
    using d by (simp_all add: codecs_inv_def vaapi_inv_def refresh_inv_def)
  have "same_size s ?s" by (simp add: same_size_def)
  then have sz: "same_size s (?r ?s)" by (simp only: register_facts)
  have "in_step data ?s" unfolding in_step_def using w(3,4) by blast
  then have "in_step data (?r ?s)"
    using register_facts(5) [of ?s ?s now c k]
    by (simp add: in_step_def register_facts same_size_def)
  moreover have wf: "diff_wf (?r ?s)" "coherent (?r ?s)" using w by (simp_all only: register_facts)
  moreover have "enc_inv fr (?r ?s)"
    using diff_wf_hashes_sized [OF wf(1)] wf inv register_refresh_inv [OF inv(3)]
    by (simp add: enc_inv_def register_facts)
  ultimately show ?thesis
    using sz st d(9) d(11) by (simp add: commit_frame_def)
qed

subsection \<open>What an arm guarantees\<close>

text \<open>The rectangles of a command: the whole frame, or, for a tile codec without a key frame
  due, the tiles flagged dirty.\<close>

definition rects_ok :: "bool list \<Rightarrow> bool \<Rightarrow> encoder \<Rightarrow> surface_command \<Rightarrow> bool" where
  "rects_ok flags key self cmd \<longleftrightarrow> cmd_rects cmd = [full_rect self] \<or>
     (\<not> key \<and> (\<exists>col. cmd_rects cmd =
        map (tile_rect col) (filter (\<lambda>t. flags ! tidx t) (enc_tiles self))))"

text \<open>A codec is used only when the client announced it.\<close>

fun codec_announced :: "gfx_settings \<Rightarrow> surface_codec \<Rightarrow> bool" where
  "codec_announced st CODECID_AVC444v2 = set_avc444v2 st"
| "codec_announced st CODECID_AVC444 = set_avc444 st"
| "codec_announced st CODECID_AVC420 = set_avc420 st"
| "codec_announced st CODECID_CAPROGRESSIVE = set_progressive st"
| "codec_announced st CODECID_CAVIDEO = (set_remotefx st \<and> set_rfx_codec_id st \<noteq> 0)"

text \<open>The outcome of an arm: the frame went out and the state is in step with it, or it did not
  and the reference frame is the old one. At most one command is handed over, and a pending
  frame hands over none.\<close>

text \<open>A call that has not sent the frame may drop hashes, never store new ones.\<close>

definition hashes_kept :: "encoder \<Rightarrow> encoder \<Rightarrow> bool" where
  "hashes_kept s s' \<longleftrightarrow> tile_hashes s' = tile_hashes s \<or>
     tile_hashes s' = replicate (length (tile_hashes s)) 0"

definition outcome_ok ::
    "codec_api \<Rightarrow> u8 list \<Rightarrow> bool list \<Rightarrow> bool \<Rightarrow> encoder \<Rightarrow> surface_codec set \<Rightarrow> encode_result \<Rightarrow> bool" where
  "outcome_ok fr data flags key self ids res = (case res of (s, h, cmds, r) \<Rightarrow>
     (enc_inv fr s \<and> diff_wf s \<and> same_size self s) \<and>
     (if cmds \<noteq> [] \<and> is_ok r then in_step data s else previous_frame s = previous_frame self \<and> hashes_kept self s) \<and>
     length cmds \<le> 1 \<and> (r = fail_io IoPending \<longrightarrow> cmds = []) \<and>
     (\<forall>cmd \<in> set cmds. cmd_codec cmd \<in> ids \<and> cmd_width cmd = frame_width self \<and>
        cmd_height cmd = frame_height self \<and> rects_ok flags key self cmd))"

definition same_base :: "encoder \<Rightarrow> encoder \<Rightarrow> bool" where
  "same_base s s' \<longleftrightarrow> same_size s s' \<and> previous_frame s' = previous_frame s \<and>
     hashes_kept s s'"

lemma same_diff_base: "same_diff s s' \<Longrightarrow> same_base s s'"
  by (simp add: same_base_def same_diff_size same_diff_def hashes_kept_def)

lemma same_base_trans: "same_base a b \<Longrightarrow> same_base b c \<Longrightarrow> same_base a c"
  by (auto simp: same_base_def same_size_def hashes_kept_def)

lemma outcome_nothing:
  assumes "encodable fr data stride s" "same_base self s"
  shows "outcome_ok fr data flags key self ids (s, h, [], r)"
  using assms encodableD [OF assms(1)] by (simp add: outcome_ok_def same_base_def)

lemma outcome_refused:
  assumes "encodable fr data stride s" "same_base self s" "codec \<in> ids"
    and "rects_ok flags key self (make_command codec sid fid s rects)"
  shows "outcome_ok fr data flags key self ids
    (s, h, [make_command codec sid fid s rects], fail_io IoFailed)"
  using assms encodableD [OF assms(1)]
  by (simp add: outcome_ok_def same_base_def same_size_def make_command_def)

lemma outcome_sent:
  assumes "encodable fr data stride s" "same_size self s" "codec \<in> ids"
    and "rects_ok flags key self (make_command codec sid fid s rects)"
    and "enc_inv fr s' \<and> diff_wf s' \<and> same_size s s' \<and> in_step data s'"
  shows "outcome_ok fr data flags key self ids (s', h, [make_command codec sid fid s rects], ok)"
  using assms same_size_trans [of self s s']
  by (simp add: outcome_ok_def make_command_def same_size_def)

lemma send_avc420_outcome:
  assumes e: "encodable fr data stride s" and sd: "same_diff self s"
  shows "returns (send_avc420 fr sid fid data stride now s)
    (outcome_ok fr data flags key self {CODECID_AVC420})"
proof -
  have r: "rects_ok flags key self (make_command CODECID_AVC420 sid fid s [full_rect s])"
    by (simp add: rects_ok_def make_command_def same_diff_facts [OF sd])
  obtain s' where c: "commit_frame s data stride now CODEC_AVC True = Some s'"
    and p: "enc_inv fr s' \<and> diff_wf s' \<and> same_size s s' \<and> in_step data s'"
    using commit_frame_ok [OF e] by blast
  show ?thesis
    using outcome_refused [OF e same_diff_base [OF sd] _ r] outcome_sent [OF e same_diff_size [OF sd] _ r p]
    by (simp add: send_avc420_def c Let_def)
qed

lemma software_avc420_outcome:
  assumes e: "encodable fr data stride s" and sd: "same_diff self s" and h: "h264 s"
  shows "returns (software_avc420 fr sid fid data stride now s)
    (outcome_ok fr data flags key self {CODECID_AVC420})"
  using send_avc420_outcome [OF e sd] outcome_nothing [OF e same_diff_base [OF sd]] h encodable_picture [OF e]
  by (simp add: software_avc420_def Let_def)

text \<open>The state after initialising the codec of an arm.\<close>

lemma arm_prepare:
  assumes ok: "flags_ok fr" and e: "encodable fr data stride self"
    and p: "drd_encoder_prepare fr w self = (s, good)"
  shows "encodable fr data stride s" "same_diff self s"
    "good \<Longrightarrow> has_flag w (avc_flags fr) \<Longrightarrow> h264 s"
    "good \<Longrightarrow> has_flag w (flag_remotefx fr) \<Longrightarrow> rfx s"
    "good \<Longrightarrow> has_flag w (flag_progressive fr) \<Longrightarrow> progressive s"
proof -
  show e': "encodable fr data stride s" using encodable_prepare [OF ok e, of w] p by simp
  show "same_diff self s" using encoder_prepare_same [of self fr w] p by simp
  note c = encodableD(4) [OF e'] encoder_prepare_ok [OF ok, of w self s]
  show "good \<Longrightarrow> has_flag w (avc_flags fr) \<Longrightarrow> h264 s"
    "good \<Longrightarrow> has_flag w (flag_remotefx fr) \<Longrightarrow> rfx s"
    "good \<Longrightarrow> has_flag w (flag_progressive fr) \<Longrightarrow> progressive s"
    using c p by (auto simp: codecs_inv_def)
qed

lemma flag_wanted:
  assumes "flags_ok fr"
  shows "has_flag (flag_avc444 fr) (avc_flags fr)" "has_flag (flag_avc420 fr) (avc_flags fr)"
    "has_flag (flag_remotefx fr) (flag_remotefx fr)"
    "has_flag (flag_progressive fr) (flag_progressive fr)"
  using assms by (simp_all add: has_flag_or2 flags_ok_def)

subsection \<open>The AVC arms\<close>

lemma encode_avc444_outcome:
  assumes ok: "flags_ok fr" and e: "encodable fr data stride self"
  shows "returns (encode_avc444 fr v2 sid fid data stride now self)
    (outcome_ok fr data flags key self {if v2 then CODECID_AVC444v2 else CODECID_AVC444})"
proof -
  let ?id = "if v2 then CODECID_AVC444v2 else CODECID_AVC444"
  obtain s good where p: "drd_encoder_prepare fr (flag_avc444 fr) self = (s, good)" by fastforce
  note a = arm_prepare [OF ok e p]
  have r: "rects_ok flags key self (make_command ?id sid fid s [full_rect s])"
    by (simp add: rects_ok_def make_command_def same_diff_facts [OF a(2)])
  obtain s' where c: "commit_frame s data stride now CODEC_AVC True = Some s'"
    and q: "enc_inv fr s' \<and> diff_wf s' \<and> same_size s s' \<and> in_step data s'"
    using commit_frame_ok [OF a(1)] by blast
  have h: "good \<Longrightarrow> h264 s" by (rule a(3)) (simp_all add: flag_wanted [OF ok])
  note no = outcome_nothing [OF a(1) same_diff_base [OF a(2)]]
  have ref: "outcome_ok fr data flags key self {?id}
      (s, True, [make_command ?id sid fid s [full_rect s]], fail_io IoFailed)"
    by (rule outcome_refused [OF a(1) same_diff_base [OF a(2)] _ r]) simp
  have sent: "outcome_ok fr data flags key self {?id}
      (s', True, [make_command ?id sid fid s [full_rect s]], ok)"
    by (rule outcome_sent [OF a(1) same_diff_size [OF a(2)] _ r q]) simp
  show ?thesis
    unfolding encode_avc444_def p Let_def
    using encodable_fits [OF e] encodable_picture [OF a(1)] h no ref sent
    by (cases good) (simp_all add: c)
qed

lemma encode_avc420_outcome:
  assumes ok: "flags_ok fr" and e: "encodable fr data stride self"
  shows "returns (encode_avc420 fr va sid fid data stride now self)
    (outcome_ok fr data flags key self {CODECID_AVC420})"
proof -
  obtain s good where p: "drd_encoder_prepare fr (flag_avc420 fr) self = (s, good)" by fastforce
  note a = arm_prepare [OF ok e p]
  have h: "good \<Longrightarrow> h264 s" by (rule a(3)) (simp_all add: flag_wanted [OF ok])
  note no = outcome_nothing [OF a(1) same_diff_base [OF a(2)]]
  have sw: "good \<Longrightarrow> returns (software_avc420 fr sid fid data stride now s)
      (outcome_ok fr data flags key self {CODECID_AVC420})"
    by (rule software_avc420_outcome [OF a(1,2) h])
  have "stride * frame_height s \<le> length data"
    using encodable_picture [OF a(1)] by (simp add: picture_ok_def)
  then obtain s1 x where v: "drd_vaapi_encode_avc420 va s data stride (full_rect s) = Some (s1, x)"
    using vaapi_encode_safe [OF encodableD(5) [OF a(1)]] by blast
  have s1: "s1 = fst (drd_vaapi_encoder_prepare va s)" by (rule vaapi_encode_frame [OF v])
  have e1: "encodable fr data stride s1" unfolding s1 by (rule encodable_vaapi [OF a(1)])
  have d1: "same_diff self s1" unfolding s1 by (rule same_diff_trans [OF a(2) vaapi_prepare_same])
  have h1: "good \<Longrightarrow> h264 s1" unfolding s1 by (simp add: vaapi_prepare_h264 h)
  note no1 = outcome_nothing [OF e1 same_diff_base [OF d1]]
  have sw1: "good \<Longrightarrow> returns (software_avc420 fr sid fid data stride now s1)
      (outcome_ok fr data flags key self {CODECID_AVC420})"
    by (rule software_avc420_outcome [OF e1 d1 h1])
  show ?thesis
    unfolding encode_avc420_def p
    using sw sw1 no no1 send_avc420_outcome [OF e1 d1]
    by (cases good; cases x) (simp_all add: v)
qed

subsection \<open>The tile-codec arms\<close>

lemma zero_hashes_base: "same_base s (zero_hashes s)"
  by (simp add: zero_hashes_def same_base_def same_size_def hashes_kept_def)

lemma encodable_zero_hashes:
  assumes e: "encodable fr data stride s" shows "encodable fr data stride (zero_hashes s)"
proof -
  note d = encodableD [OF e]
  have "diff_wf (zero_hashes s)" using d(2) by (simp add: diff_wf_def zero_hashes_def)
  moreover have "coherent (zero_hashes s)"
    unfolding coherent_def
  proof (intro ballI disjI1)
    fix t assume "t \<in> set (enc_tiles (zero_hashes s))"
    then have "t \<in> set (enc_tiles s)" by (simp add: zero_hashes_def)
    then have "tidx t < length (tile_hashes s)" using wf_tidx [OF d(2)] d(2) by (simp add: diff_wf_def)
    then show "tile_hashes (zero_hashes s) ! tidx t = 0" by (simp add: zero_hashes_def)
  qed
  moreover have "codecs_inv fr (zero_hashes s)" "vaapi_inv (zero_hashes s)" "refresh_inv (zero_hashes s)"
    using d by (simp_all add: zero_hashes_def codecs_inv_def vaapi_inv_def refresh_inv_def)
  moreover have "frame_width (zero_hashes s) = diff_width (zero_hashes s)"
    "frame_height (zero_hashes s) = diff_height (zero_hashes s)" "stride = diff_stride (zero_hashes s)"
    "length data = stride * diff_height (zero_hashes s)"
    using d by (simp_all add: zero_hashes_def)
  ultimately show ?thesis
    using diff_wf_hashes_sized unfolding encodable_def enc_inv_def by blast
qed

lemma keyframe_field_facts:
  "enc_inv fr (s\<lparr>force_keyframe := b\<rparr>) = enc_inv fr s"
  "diff_wf (s\<lparr>force_keyframe := b\<rparr>) = diff_wf s"
  "same_size a (s\<lparr>force_keyframe := b\<rparr>) = same_size a s"
  "in_step data (s\<lparr>force_keyframe := b\<rparr>) = in_step data s"
  "same_base a (s\<lparr>force_keyframe := b\<rparr>) = same_base a s"
  "encodable fr data stride (s\<lparr>force_keyframe := b\<rparr>) = encodable fr data stride s"
  by (simp_all add: enc_inv_def hashes_sized_def coherent_def codecs_inv_def vaapi_inv_def
      refresh_inv_def diff_wf_def same_size_def in_step_def same_base_def encodable_def hashes_kept_def)

lemma make_command_keyframe:
  "make_command codec sid fid (s\<lparr>force_keyframe := b\<rparr>) rects = make_command codec sid fid s rects"
  by (simp add: make_command_def)

lemma make_command_zero: "make_command codec sid fid (zero_hashes s) rects = make_command codec sid fid s rects"
  by (simp add: make_command_def zero_hashes_def)

text \<open>The region that a tile codec is given: state, non-emptiness and rectangles.\<close>

definition tile_region :: "collector \<Rightarrow> bool list \<Rightarrow> bool \<Rightarrow> encoder \<Rightarrow> (encoder \<times> bool \<times> rect16 list) option" where
  "tile_region col flags key s =
     (if key then Some (zero_hashes s, True, [full_rect s])
      else map_option (\<lambda>(d, r). (s, d, r)) (drd_encoding_manager_collect_dirty_tiles s col flags))"

lemma tile_region_ok:
  assumes e: "encodable fr data stride s" and len: "length flags = tiles_x s * tiles_y s"
  shows "\<exists>s1 dirty rects. tile_region col flags key s = Some (s1, dirty, rects) \<and>
    encodable fr data stride s1 \<and> same_base s s1 \<and> rfx s1 = rfx s \<and> progressive s1 = progressive s \<and>
    length rects \<le> max 1 (length (enc_tiles s)) \<and>
    rects_ok flags key s (make_command codec sid fid s1 rects)"
proof (cases key)
  case True
  have "rfx (zero_hashes s) = rfx s" "progressive (zero_hashes s) = progressive s"
    by (simp_all add: zero_hashes_def)
  then show ?thesis
    using encodable_zero_hashes [OF e] zero_hashes_base [of s] True
    by (simp add: tile_region_def rects_ok_def make_command_def) blast
next
  case False
  let ?rs = "map (tile_rect col) (filter (\<lambda>t. flags ! tidx t) (enc_tiles s))"
  have "tile_region col flags key s = Some (s, ?rs \<noteq> [], ?rs)"
    using collect_eq [OF encodableD(2) [OF e] len, of col] False
    by (simp add: tile_region_def Let_def)
  moreover have "length ?rs \<le> max 1 (length (enc_tiles s))"
    by (simp add: le_max_iff_disj)
  moreover have "rects_ok flags key s (make_command codec sid fid s ?rs)"
    using False by (auto simp: rects_ok_def make_command_def)
  moreover have "same_base s s" by (simp add: same_base_def same_size_def hashes_kept_def)
  ultimately show ?thesis using e by blast
qed

lemma tile_regions:
  "(if key then Some (zero_hashes s, True, [full_rect s])
    else map_option (\<lambda>(d, r). (s, d, r)) (drd_encoding_manager_collect_dirty_region s flags))
   = tile_region Region flags key s"
  "(if key then Some (zero_hashes s, True, [full_rect s])
    else map_option (\<lambda>(d, r). (s, d, r)) (drd_encoding_manager_collect_dirty_rects s flags))
   = tile_region Rects flags key s"
  by (simp_all add: tile_region_def drd_encoding_manager_collect_dirty_region_def
      drd_encoding_manager_collect_dirty_rects_def)

text \<open>The three endings of a tile-codec arm once the region is known.\<close>

lemma tile_endings:
  assumes e1: "encodable fr data stride s1" and b1: "same_base self s1" and id: "codec \<in> ids"
    and r: "rects_ok flags key self (make_command codec sid fid s1 rects)"
  shows "outcome_ok fr data flags key self ids (s1, h, [], x)"
    and "outcome_ok fr data flags key self ids
      (s1\<lparr>force_keyframe := True\<rparr>, h, [make_command codec sid fid s1 rects], fail_io IoFailed)"
    and "returns (commit_frame s1 data stride now c k) (\<lambda>s2. outcome_ok fr data flags key self ids
      (s2\<lparr>force_keyframe := False\<rparr>, h, [make_command codec sid fid s1 rects], ok))"
proof -
  show "outcome_ok fr data flags key self ids (s1, h, [], x)" by (rule outcome_nothing [OF e1 b1])
  let ?t = "s1\<lparr>force_keyframe := True\<rparr>"
  have "encodable fr data stride ?t" "same_base self ?t"
    using e1 b1 by (simp_all only: keyframe_field_facts)
  from outcome_refused [OF this id, of flags key sid fid rects] r
  show "outcome_ok fr data flags key self ids
      (s1\<lparr>force_keyframe := True\<rparr>, h, [make_command codec sid fid s1 rects], fail_io IoFailed)"
    by (simp add: make_command_keyframe)
  obtain s2 where c: "commit_frame s1 data stride now c k = Some s2"
    and p: "enc_inv fr s2 \<and> diff_wf s2 \<and> same_size s1 s2 \<and> in_step data s2"
    using commit_frame_ok [OF e1] by blast
  have sz: "same_size self s1" using b1 by (simp add: same_base_def)
  have "outcome_ok fr data flags key self ids
      (s2\<lparr>force_keyframe := False\<rparr>, h, [make_command codec sid fid s1 rects], ok)"
    by (rule outcome_sent [OF e1 sz id r]) (use p in \<open>simp only: keyframe_field_facts simp_thms\<close>)
  then show "returns (commit_frame s1 data stride now c k) (\<lambda>s2. outcome_ok fr data flags key self ids
      (s2\<lparr>force_keyframe := False\<rparr>, h, [make_command codec sid fid s1 rects], ok))"
    by (simp add: c)
qed

lemma rects_ok_base:
  "same_base self s \<Longrightarrow> rects_ok flags key s cmd = rects_ok flags key self cmd"
  by (simp add: rects_ok_def same_base_def same_size_def full_rect_def)

lemma returns_bind_Some: "returns (bind m (\<lambda>x. Some (f x))) P = returns m (\<lambda>x. P (f x))"
  by (cases m) auto

lemma encode_progressive_outcome:
  assumes ok: "flags_ok fr" and e: "encodable fr data stride self"
    and len: "length flags = tiles_x self * tiles_y self"
  shows "returns (encode_progressive fr sid fid data stride flags now now2 self)
    (outcome_ok fr data flags (keyframe_due self now) self {CODECID_CAPROGRESSIVE})"
proof -
  obtain s good where p: "drd_encoder_prepare fr (flag_progressive fr) self = (s, good)" by fastforce
  note a = arm_prepare [OF ok e p]
  note b = same_diff_base [OF a(2)]
  have h: "good \<Longrightarrow> progressive s" by (rule a(5) [OF _ flag_wanted(4) [OF ok]])
  have kd: "keyframe_due s now = keyframe_due self now" using same_diff_facts [OF a(2)] by simp
  have "length flags = tiles_x s * tiles_y s" using len a(2) by (simp add: same_diff_def)
  then obtain s1 dirty rects
    where t: "tile_region Region flags (keyframe_due s now) s = Some (s1, dirty, rects)"
    and e1: "encodable fr data stride s1" and b1: "same_base s s1" and pr: "progressive s1 = progressive s"
    and r: "rects_ok flags (keyframe_due s now) s (make_command CODECID_CAPROGRESSIVE sid fid s1 rects)"
    using tile_region_ok [OF a(1)] by blast
  have r': "rects_ok flags (keyframe_due s now) self (make_command CODECID_CAPROGRESSIVE sid fid s1 rects)"
    using r rects_ok_base [OF b] by simp
  note no = outcome_nothing [OF a(1) b]
  note fin = tile_endings [OF e1 same_base_trans [OF b b1] singletonI r']
  have fits: "fits_u16 s" by (rule encodable_fits [OF a(1)])
  show ?thesis
    unfolding encode_progressive_def p Let_def
    using fits encodable_picture [OF e1] h no fin
    by (cases good) (simp_all add: tile_regions t [unfolded kd] pr returns_bind_Some kd)
qed

lemma encode_remotefx_outcome:
  assumes ok: "flags_ok fr" and e: "encodable fr data stride self"
    and len: "length flags = tiles_x self * tiles_y self"
    and few: "tiles_x self * tiles_y self \<le> UINT16_MAX"
  shows "returns (encode_remotefx fr sid fid data stride flags now now2 self)
    (outcome_ok fr data flags (keyframe_due self now) self {CODECID_CAVIDEO})"
proof -
  obtain s good where p: "drd_encoder_prepare fr (flag_remotefx fr) self = (s, good)" by fastforce
  note a = arm_prepare [OF ok e p]
  note b = same_diff_base [OF a(2)]
  have h: "good \<Longrightarrow> rfx s" by (rule a(4) [OF _ flag_wanted(3) [OF ok]])
  have kd: "keyframe_due s now = keyframe_due self now" using same_diff_facts [OF a(2)] by simp
  have n: "tiles_x s * tiles_y s = tiles_x self * tiles_y self" using a(2) by (simp add: same_diff_def)
  then have "length flags = tiles_x s * tiles_y s" using len by simp
  then obtain s1 dirty rects
    where t: "tile_region Rects flags (keyframe_due s now) s = Some (s1, dirty, rects)"
    and e1: "encodable fr data stride s1" and b1: "same_base s s1" and pr: "rfx s1 = rfx s"
    and lr: "length rects \<le> max 1 (length (enc_tiles s))"
    and r: "rects_ok flags (keyframe_due s now) s (make_command CODECID_CAVIDEO sid fid s1 rects)"
    using tile_region_ok [OF a(1)] by blast
  note wf = encodableD(2) [OF a(1)]
  have "length (enc_tiles s) \<le> tiles_x s * tiles_y s"
    using length_enc_tiles [OF wf_total(3) [OF wf]] wf by (simp add: diff_wf_def)
  with lr few n have lr': "\<not> UINT16_MAX < length rects" by (simp add: UINT16_MAX_def)
  have r': "rects_ok flags (keyframe_due s now) self (make_command CODECID_CAVIDEO sid fid s1 rects)"
    using r rects_ok_base [OF b] by simp
  note no = outcome_nothing [OF a(1) b]
  note fin = tile_endings [OF e1 same_base_trans [OF b b1] singletonI r']
  have fits: "fits_u16 s" by (rule encodable_fits [OF a(1)])
  show ?thesis
    unfolding encode_remotefx_def p Let_def
    using fits encodable_picture [OF e1] h no fin lr'
    by (cases good) (simp_all add: tile_regions t [unfolded kd] pr returns_bind_Some kd)
qed

subsection \<open>The whole call\<close>

fun use_announced :: "gfx_settings \<Rightarrow> codec_use \<Rightarrow> bool" where
  "use_announced st Use_avc444 = (set_avc444v2 st \<or> set_avc444 st)"
| "use_announced st Use_avc420 = set_avc420 st"
| "use_announced st Use_progressive = set_progressive st"
| "use_announced st Use_remotefx = (set_remotefx st \<and> set_rfx_codec_id st \<noteq> 0)"
| "use_announced st Use_nothing = True"

lemma choose_announced:
  assumes "force \<Longrightarrow> set_avc420 st"
  shows "use_announced st (choose_codec st force auto_switch large)"
  using assms by (simp add: choose_codec_def first_use_def Let_def)

definition frame_valid :: "drd_frame \<Rightarrow> bool" where
  "frame_valid f \<longleftrightarrow> 0 < unat (fr_width f) \<and> 0 < unat (fr_height f) \<and>
     frame_ok (unat (fr_width f)) (unat (fr_height f)) (unat (fr_stride f)) \<and>
     length (pixels f) = unat (fr_stride f) * unat (fr_height f) \<and>
     ntiles (unat (fr_width f)) * ntiles (unat (fr_height f)) \<le> UINT16_MAX"

text \<open>The state in which the new frame is compared with the previous one.\<close>

definition prepared :: "encoder \<Rightarrow> drd_frame \<Rightarrow> encoder" where
  "prepared self f = drd_encoding_manager_prepare_gfx_diff_state
     (self\<lparr>frame_width := unat (fr_width f), frame_height := unat (fr_height f)\<rparr>)
     (unat (fr_width f)) (unat (fr_height f)) (unat (fr_stride f))"

lemma prepare_other:
  "codecs_inv fr (drd_encoding_manager_prepare_gfx_diff_state s W H stride) = codecs_inv fr s"
  "vaapi_inv (drd_encoding_manager_prepare_gfx_diff_state s W H stride) = vaapi_inv s"
  "refresh_inv s \<Longrightarrow> refresh_inv (drd_encoding_manager_prepare_gfx_diff_state s W H stride)"
  "frame_width (drd_encoding_manager_prepare_gfx_diff_state s W H stride) = frame_width s"
  "frame_height (drd_encoding_manager_prepare_gfx_diff_state s W H stride) = frame_height s"
  by (simp_all add: drd_encoding_manager_prepare_gfx_diff_state_def Let_def codecs_inv_def
      vaapi_inv_def refresh_inv_def)

lemma prepared_encodable:
  assumes inv: "enc_inv fr self" and v: "frame_valid f"
  shows "encodable fr (pixels f) (unat (fr_stride f)) (prepared self f)"
    and "diff_width (prepared self f) = unat (fr_width f)"
    and "diff_height (prepared self f) = unat (fr_height f)"
    and "diff_stride (prepared self f) = unat (fr_stride f)"
proof -
  let ?W = "unat (fr_width f)" and ?H = "unat (fr_height f)" and ?S = "unat (fr_stride f)"
  let ?s = "self\<lparr>frame_width := ?W, frame_height := ?H\<rparr>"
  have i: "hashes_sized ?s" "coherent ?s" "codecs_inv fr ?s" "vaapi_inv ?s" "refresh_inv ?s"
    using inv by (simp_all add: enc_inv_def hashes_sized_def coherent_def codecs_inv_def
        vaapi_inv_def refresh_inv_def)
  have v': "0 < ?W" "0 < ?H" "frame_ok ?W ?H ?S" using v by (simp_all add: frame_valid_def)
  note p = prepare_diff_state [OF v' i(1)]
  show d: "diff_width (prepared self f) = ?W" "diff_height (prepared self f) = ?H"
    "diff_stride (prepared self f) = ?S"
    using p by (simp_all add: prepared_def)
  have "enc_inv fr (prepared self f)"
    using diff_wf_hashes_sized [OF p(1)] coherent_prepare [OF i(2) v' i(1)] i
    by (simp add: enc_inv_def prepared_def prepare_other)
  moreover have "frame_width (prepared self f) = ?W" "frame_height (prepared self f) = ?H"
    by (simp_all add: prepared_def prepare_other)
  moreover have "diff_wf (prepared self f)" using p(1) by (simp add: prepared_def)
  ultimately show "encodable fr (pixels f) ?S (prepared self f)"
    using d v by (simp add: encodable_def frame_valid_def)
qed

lemma outcome_mono:
  assumes "outcome_ok fr data flags key self ids x" "ids \<subseteq> ids'"
  shows "outcome_ok fr data flags key self ids' x"
  using assms by (cases x) (auto simp: outcome_ok_def)

lemma outcome_base:
  assumes "outcome_ok fr data flags key s ids x" "same_base self s"
  shows "outcome_ok fr data flags key self ids x"
proof -
  have e: "full_rect s = full_rect self" "enc_tiles s = enc_tiles self"
    "frame_width s = frame_width self" "frame_height s = frame_height self"
    "previous_frame s = previous_frame self"
    using assms(2) by (simp_all add: same_base_def same_size_def full_rect_def)
  have "rects_ok flags key self = rects_ok flags key s"
    by (rule ext) (simp only: rects_ok_def e)
  moreover have "same_size s y \<Longrightarrow> same_size self y" for y
    using assms(2) same_size_trans by (auto simp: same_base_def)
  moreover have "hashes_kept s y \<Longrightarrow> hashes_kept self y" for y
    using assms(2) by (auto simp: same_base_def hashes_kept_def)
  ultimately show ?thesis
    using assms(1) e by (cases x) (simp add: outcome_ok_def split: if_splits)
qed

text \<open>A tile whose bytes changed is flagged, unless its hash is zero or collides.\<close>

definition tile_missed :: "encoder \<Rightarrow> u8 list \<Rightarrow> tile \<Rightarrow> bool" where
  "tile_missed s data t \<longleftrightarrow>
     tile_rows (previous_frame s) (diff_stride s) t \<noteq> tile_rows data (diff_stride s) t \<and>
     (tile_hash data (diff_stride s) t = 0 \<or>
      tile_hash data (diff_stride s) t = tile_hash (previous_frame s) (diff_stride s) t)"

definition flags_exact :: "encoder \<Rightarrow> u8 list \<Rightarrow> bool list \<Rightarrow> bool" where
  "flags_exact s data flags \<longleftrightarrow> (\<forall>t \<in> set (enc_tiles s).
     (flags ! tidx t \<longrightarrow> tile_rows (previous_frame s) (diff_stride s) t \<noteq>
        tile_rows data (diff_stride s) t) \<and>
     (tile_rows (previous_frame s) (diff_stride s) t \<noteq> tile_rows data (diff_stride s) t \<longrightarrow>
        flags ! tidx t \<or> tile_missed s data t))"

lemma analyze_encodable:
  assumes e: "encodable fr data stride s"
  shows "\<exists>large flags n. drd_encoding_manager_analyze_tiles s data (Some (previous_frame s)) stride thr =
    Some (large, flags, n) \<and> length flags = tiles_x s * tiles_y s \<and> flags_exact s data flags"
  using dirty_flags [OF encodableD(2) [OF e] encodableD(3) [OF e] encodableD(8) [OF e], of thr] encodableD(11) [OF e]
  unfolding flags_exact_def tile_missed_def by metis

lemma arms_outcome:
  assumes ok: "flags_ok fr" and e: "encodable fr data stride s" and b: "same_base s1 s"
    and kd: "keyframe_due s now = keyframe_due s1 now"
    and len: "length flags = tiles_x s * tiles_y s"
    and few: "tiles_x s * tiles_y s \<le> UINT16_MAX" and an: "use_announced st u"
  shows "returns (case u of
          Use_avc444 \<Rightarrow> encode_avc444 fr (set_avc444v2 st) sid fid data stride now s
        | Use_avc420 \<Rightarrow> encode_avc420 fr va sid fid data stride now s
        | Use_progressive \<Rightarrow> encode_progressive fr sid fid data stride flags now now2 s
        | Use_remotefx \<Rightarrow> encode_remotefx fr sid fid data stride flags now now2 s
        | Use_nothing \<Rightarrow> Some (s, False, [], ok))
      (outcome_ok fr data flags (keyframe_due s1 now) s1 {c. codec_announced st c})"
proof -
  have lift: "returns m (outcome_ok fr data flags (keyframe_due s now) s ids) \<Longrightarrow>
      ids \<subseteq> {c. codec_announced st c} \<Longrightarrow>
      returns m (outcome_ok fr data flags (keyframe_due s1 now) s1 {c. codec_announced st c})" for m ids
    unfolding kd by (erule returns_mono) (blast intro: outcome_base [OF _ b] outcome_mono)
  show ?thesis
  proof (cases u)
    case Use_avc444
    then show ?thesis using an
      by (simp del: returns_simps) (rule lift [OF encode_avc444_outcome [OF ok e]], auto)
  next
    case Use_avc420
    then show ?thesis using an
      by (simp del: returns_simps) (rule lift [OF encode_avc420_outcome [OF ok e]], auto)
  next
    case Use_progressive
    then show ?thesis using an
      by (simp del: returns_simps) (rule lift [OF encode_progressive_outcome [OF ok e len]], auto)
  next
    case Use_remotefx
    then show ?thesis using an
      by (simp del: returns_simps) (rule lift [OF encode_remotefx_outcome [OF ok e len few]], auto)
  next
    case Use_nothing
    then show ?thesis using outcome_nothing [OF e b] by simp
  qed
qed

lemma encode_not_ready:
  "\<not> ready self \<Longrightarrow>
   drd_encoding_manager_encode_surface_gfx fr va va2 st now now2 self sid f fid h0 auto =
     Some (self, h0, [], fail_io IoFailed)"
  unfolding drd_encoding_manager_encode_surface_gfx_def by (rule if_P)

lemma encode_unfold:
  assumes "ready self"
  shows "drd_encoding_manager_encode_surface_gfx fr va va2 st now now2 self sid f fid h0 auto =
    do {
      (large, flags, n) \<leftarrow> drd_encoding_manager_analyze_tiles (prepared self f) (pixels f)
        (if length (previous_frame (prepared self f)) = unat (fr_stride f) * frame_height (prepared self f)
         then Some (previous_frame (prepared self f)) else None)
        (unat (fr_stride f)) (large_change_threshold (prepared self f));
      let (s2, force) = (if auto \<and> h264_hw_accel (prepared self f) \<and> set_avc420 st
         then (case drd_vaapi_encoder_prepare va (prepared self f) of (s, r) \<Rightarrow> (s, is_ok r))
         else (prepared self f, False));
      case choose_codec st force auto large of
          Use_avc444 \<Rightarrow> encode_avc444 fr (set_avc444v2 st) sid fid (pixels f) (unat (fr_stride f)) now s2
        | Use_avc420 \<Rightarrow> encode_avc420 fr va2 sid fid (pixels f) (unat (fr_stride f)) now s2
        | Use_progressive \<Rightarrow>
            encode_progressive fr sid fid (pixels f) (unat (fr_stride f)) flags now now2 s2
        | Use_remotefx \<Rightarrow>
            encode_remotefx fr sid fid (pixels f) (unat (fr_stride f)) flags now now2 s2
        | Use_nothing \<Rightarrow> Some (s2, False, [], ok) }"
  using assms
  by (simp add: drd_encoding_manager_encode_surface_gfx_def Let_def prepared_def
      drd_frame_get_width_def drd_frame_get_height_def drd_frame_get_stride_def
      drd_frame_get_data_def)

lemma encode_ready:
  assumes ok: "flags_ok fr" and inv: "enc_inv fr self" and v: "frame_valid f" and rd: "ready self"
  shows "\<exists>flags. flags_exact (prepared self f) (pixels f) flags \<and>
    returns (drd_encoding_manager_encode_surface_gfx fr va va2 st now now2 self sid f fid h0 auto)
      (outcome_ok fr (pixels f) flags (keyframe_due (prepared self f) now) (prepared self f)
         {c. codec_announced st c})"
proof -
  let ?s = "prepared self f" and ?data = "pixels f" and ?S = "unat (fr_stride f)"
  note pe = prepared_encodable [OF inv v]
  note e = pe(1)
  obtain large flags n where an: "drd_encoding_manager_analyze_tiles ?s ?data
      (Some (previous_frame ?s)) ?S (large_change_threshold ?s) = Some (large, flags, n)"
    and len: "length flags = tiles_x ?s * tiles_y ?s" and fe: "flags_exact ?s ?data flags"
    using analyze_encodable [OF e] by blast
  define wanted where "wanted = (auto \<and> h264_hw_accel ?s \<and> set_avc420 st)"
  define s2 where "s2 = (if wanted then fst (drd_vaapi_encoder_prepare va ?s) else ?s)"
  define force where "force = (wanted \<and> is_ok (snd (drd_vaapi_encoder_prepare va ?s)))"
  have sd: "same_diff ?s s2" by (simp add: s2_def vaapi_prepare_same)
  have e2: "encodable fr ?data ?S s2" by (simp add: s2_def e encodable_vaapi)
  have prev: "length (previous_frame ?s) = ?S * frame_height ?s"
    using encodableD [OF e] by (simp add: diff_wf_def)
  have t: "tiles_x s2 * tiles_y s2 = tiles_x ?s * tiles_y ?s" using sd by (simp add: same_diff_def)
  have "tiles_x ?s * tiles_y ?s \<le> UINT16_MAX"
    using encodableD(2) [OF e] pe(2,3) v by (simp add: diff_wf_def frame_valid_def)
  then have few: "tiles_x s2 * tiles_y s2 \<le> UINT16_MAX" by (simp only: t)
  have len2: "length flags = tiles_x s2 * tiles_y s2" using len by (simp only: t)
  have use: "use_announced st (choose_codec st force auto large)"
    by (rule choose_announced) (simp add: force_def wanted_def)
  have kd: "keyframe_due s2 now = keyframe_due ?s now" by (rule same_diff_facts(5) [OF sd])
  have step: "(if wanted then case drd_vaapi_encoder_prepare va ?s of (s, r) \<Rightarrow> (s, is_ok r)
      else (?s, False)) = (s2, force)"
    by (cases "drd_vaapi_encoder_prepare va ?s") (simp add: s2_def force_def)
  note arms = arms_outcome [OF ok e2 same_diff_base [OF sd] kd len2 few use]
  have "returns (drd_encoding_manager_encode_surface_gfx fr va va2 st now now2 self sid f fid h0 auto)
      (outcome_ok fr ?data flags (keyframe_due ?s now) ?s {c. codec_announced st c})"
    unfolding encode_unfold [OF rd] using prev an step [unfolded wanted_def] arms by simp
  with fe show ?thesis by blast
qed

text \<open>Without a forced key frame the difference state was reused as it is.\<close>

definition reuse_diff :: "encoder \<Rightarrow> nat \<Rightarrow> nat \<Rightarrow> nat \<Rightarrow> bool" where
  "reuse_diff s W H stride \<longleftrightarrow>
     \<not> (diff_width s \<noteq> W \<or> diff_height s \<noteq> H \<or> diff_stride s \<noteq> stride) \<and>
     \<not> (tiles_x s \<noteq> wrap32 (W + 63) div 64 \<or> tiles_y s \<noteq> wrap32 (H + 63) div 64) \<and>
     length (previous_frame s) = wrap64 (stride * H)"

lemma prepare_reuse:
  "reuse_diff s W H stride \<Longrightarrow> drd_encoding_manager_prepare_gfx_diff_state s W H stride = s"
  unfolding drd_encoding_manager_prepare_gfx_diff_state_def Let_def reuse_diff_def by (rule if_P)

lemma prepare_fresh:
  "\<not> reuse_diff s W H stride \<Longrightarrow>
     force_keyframe (drd_encoding_manager_prepare_gfx_diff_state s W H stride) \<and>
     previous_frame (drd_encoding_manager_prepare_gfx_diff_state s W H stride) =
       replicate (wrap64 (stride * H)) 0 \<and>
     set (tile_hashes (drd_encoding_manager_prepare_gfx_diff_state s W H stride)) \<subseteq> {0}"
  unfolding drd_encoding_manager_prepare_gfx_diff_state_def Let_def reuse_diff_def
  by (simp only: if_False) (simp add: set_replicate_conv_if)

lemma prepare_reused:
  assumes "\<not> force_keyframe (drd_encoding_manager_prepare_gfx_diff_state s W H stride)"
  shows "drd_encoding_manager_prepare_gfx_diff_state s W H stride = s \<and> diff_width s = W \<and>
    diff_height s = H \<and> diff_stride s = stride"
  using assms prepare_fresh [of s W H stride] prepare_reuse [of s W H stride]
  by (cases "reuse_diff s W H stride") (simp_all add: reuse_diff_def)

lemma prepare_previous:
  "previous_frame (drd_encoding_manager_prepare_gfx_diff_state s W H stride) = previous_frame s \<and>
     tile_hashes (drd_encoding_manager_prepare_gfx_diff_state s W H stride) = tile_hashes s \<or>
   previous_frame (drd_encoding_manager_prepare_gfx_diff_state s W H stride) =
     replicate (wrap64 (stride * H)) 0 \<and>
     set (tile_hashes (drd_encoding_manager_prepare_gfx_diff_state s W H stride)) \<subseteq> {0}"
  using prepare_fresh [of s W H stride] prepare_reuse [of s W H stride]
  by (cases "reuse_diff s W H stride") simp_all

lemma encode_cases:
  assumes "flags_ok fr" "enc_inv fr self" "frame_valid f"
    and "drd_encoding_manager_encode_surface_gfx fr va va2 st now now2 self sid f fid h0 auto =
      Some (s, h, cmds, r)"
  obtains "\<not> ready self" "s = self" "cmds = []" "r = fail_io IoFailed"
  | flags where "ready self" "flags_exact (prepared self f) (pixels f) flags"
      "outcome_ok fr (pixels f) flags (keyframe_due (prepared self f) now) (prepared self f)
         {c. codec_announced st c} (s, h, cmds, r)"
proof (cases "ready self")
  case False
  then show ?thesis
    using assms(4) encode_not_ready [OF False, of fr va va2 st now now2 sid f fid h0 auto]
    by (intro that(1)) simp_all
next
  case True
  from encode_ready [OF assms(1) assms(2) assms(3) True, of va va2 st now now2 sid fid h0 auto]
  obtain flags where f: "flags_exact (prepared self f) (pixels f) flags"
      "outcome_ok fr (pixels f) flags (keyframe_due (prepared self f) now) (prepared self f)
         {c. codec_announced st c} (s, h, cmds, r)"
    unfolding assms(4) returns_simps by blast
  show ?thesis by (rule that(2) [OF True f])
qed

text \<open>When the client announced no codec the call reports success although nothing is sent, so a
  caller that counts frames in flight waits for an acknowledgement that never comes.\<close>

lemma encode_nothing_reports_success:
  assumes inv: "enc_inv fr self" and v: "frame_valid f" and rd: "ready self"
    and no: "\<not> set_avc420 st" "\<not> set_avc444 st" "\<not> set_avc444v2 st" "\<not> set_progressive st"
      "\<not> set_remotefx st"
  shows "\<exists>s. drd_encoding_manager_encode_surface_gfx fr va va2 st now now2 self sid f fid h0 auto =
    Some (s, False, [], ok)"
proof -
  let ?s = "prepared self f"
  note pe = prepared_encodable [OF inv v]
  obtain large flags n where an: "drd_encoding_manager_analyze_tiles ?s (pixels f)
      (Some (previous_frame ?s)) (unat (fr_stride f)) (large_change_threshold ?s) = Some (large, flags, n)"
    using analyze_encodable [OF pe(1)] by blast
  have prev: "length (previous_frame ?s) = unat (fr_stride f) * frame_height ?s"
    using encodableD [OF pe(1)] by (simp add: diff_wf_def)
  show ?thesis
    unfolding encode_unfold [OF rd] if_P [OF prev] an
    using no by (simp add: choose_codec_def first_use_def)
qed

subsection \<open>Properties\<close>

text \<open>A one-pixel session for the witnesses: a library that answers TRUE everywhere and a channel
  that accepts commands, or refuses them.\<close>

definition sample_api :: "nat \<Rightarrow> codec_api" where
  "sample_api rc = \<lparr>flag_remotefx = 1, flag_avc420 = 2, flag_avc444 = 4, flag_progressive = 8,
     h264_context_new = True, h264_context_reset = (\<lambda>w h. True),
     h264_context_set_option = (\<lambda>opt. True), rfx_context_new = True,
     rfx_context_reset = (\<lambda>w h. True), progressive_context_new = True,
     progressive_context_reset = True, avc444_compress = (\<lambda>d r. 1), avc420_compress = (\<lambda>d r. 1),
     progressive_compress = (\<lambda>d r. 1), rfx_compose_message = (\<lambda>d r. True),
     surface_frame_command = (\<lambda>c. rc)\<rparr>"

definition sample_vaapi :: vaapi_api where
  "sample_vaapi = \<lparr>va_find_encoder = False, va_device_create = False, va_frames_alloc = False,
     va_frames_init = False, va_context_alloc = False, va_frames_ref = False, va_open = False,
     va_sws_context = False, va_frame_alloc = False, va_frame_buffer = False,
     va_make_writable = False, va_sws_scale = 0, va_hw_frame_alloc = False,
     va_hw_get_buffer = False, va_hw_transfer = False, va_send_frame = False,
     va_packet_alloc = False, va_packets = [], va_drained = True\<rparr>"

definition sample_settings :: gfx_settings where
  "sample_settings = \<lparr>set_avc420 = False, set_avc444 = False, set_avc444v2 = False,
     set_remotefx = True, set_progressive = True, set_rfx_codec_id = 3\<rparr>"

definition sample_frame :: drd_frame where
  "sample_frame = \<lparr>pixels = [1, 2, 3, 4], fr_width = 1, fr_height = 1, fr_stride = 4, fr_timestamp = 0\<rparr>"

definition sample_encoder :: encoder where
  "sample_encoder = pixel_encoder\<lparr>ready := True\<rparr>"

lemma sample_flags: "flags_ok (sample_api rc)"
  by (simp add: flags_ok_def sample_api_def)

lemma sample_inv: "enc_inv fr sample_encoder"
proof -
  have "coherent sample_encoder"
    using pixel_encoder_coherent by (simp add: sample_encoder_def coherent_def)
  then show ?thesis
    by (simp add: enc_inv_def hashes_sized_def codecs_inv_def vaapi_inv_def
        refresh_inv_def sample_encoder_def pixel_encoder_def drd_encoding_manager_init_def has_flag_def)
qed

lemma sample_valid: "frame_valid sample_frame"
  by (simp add: frame_valid_def frame_ok_def sample_frame_def ntiles_def UINT16_MAX_def)

abbreviation sample_encode :: "nat \<Rightarrow> encode_result option" where
  "sample_encode rc \<equiv> drd_encoding_manager_encode_surface_gfx (sample_api rc) sample_vaapi
     sample_vaapi sample_settings 0 0 sample_encoder 1 sample_frame 7 False False"

lemma sample_prepared:
  "prepared sample_encoder sample_frame = sample_encoder\<lparr>frame_width := 1, frame_height := 1\<rparr>"
proof -
  have "reuse_diff (sample_encoder\<lparr>frame_width := 1, frame_height := 1\<rparr>) 1 1 4"
    by (simp add: reuse_diff_def sample_encoder_def pixel_encoder_def wrap32_def wrap64_def)
  from prepare_reuse [OF this] show ?thesis by (simp add: prepared_def sample_frame_def)
qed

lemma sample_fields:
  "ready sample_encoder" "codecs sample_encoder = 0" "progressive sample_encoder = False"
  "force_keyframe sample_encoder"
  by (simp_all add: sample_encoder_def pixel_encoder_def drd_encoding_manager_init_def)

lemma sample_progressive:
  "drd_encoder_prepare (sample_api rc) (flag_progressive (sample_api rc))
     (sample_encoder\<lparr>frame_width := Suc 0, frame_height := Suc 0\<rparr>) =
   (sample_encoder\<lparr>frame_width := Suc 0, frame_height := Suc 0, progressive := True, codecs := 8\<rparr>, True)"
  by (simp add: drd_encoder_prepare_def init_codec_def has_flag_def drd_encoder_init_progressive_def
      Let_def sample_api_def sample_fields)

lemma sample_refused:
  "\<exists>s r. sample_encode 5 = Some (s, False,
     [\<lparr>cmd_codec = CODECID_CAPROGRESSIVE, cmd_surface = 1, cmd_frame_id = 7,
       cmd_width = 1, cmd_height = 1, cmd_rects = [(0, 0, 1, 1)]\<rparr>], r)"
proof -
  let ?s = "prepared sample_encoder sample_frame"
  note pe = prepared_encodable [OF sample_inv [of "sample_api 5"] sample_valid]
  obtain large flags n where an: "drd_encoding_manager_analyze_tiles ?s (pixels sample_frame)
      (Some (previous_frame ?s)) (unat (fr_stride sample_frame)) (large_change_threshold ?s) =
      Some (large, flags, n)"
    using analyze_encodable [OF pe(1)] by blast
  have prev: "length (previous_frame ?s) = unat (fr_stride sample_frame) * frame_height ?s"
    using encodableD [OF pe(1)] by (simp add: diff_wf_def)
  have pic: "picture_ok (pixels sample_frame) (unat (fr_stride sample_frame)) 1"
    by (simp add: picture_ok_def sample_frame_def)
  show ?thesis
    unfolding encode_unfold [OF sample_fields(1)] if_P [OF prev] an
    unfolding sample_prepared
    using pic
    by (simp add: choose_codec_def sample_settings_def first_use_def encode_progressive_def
        sample_progressive Let_def fits_u16_def UINT16_MAX_def keyframe_due_def sample_fields
        zero_hashes_def full_rect_def u16_of_def make_command_def)
       (simp add: sample_api_def)
qed

text \<open>
  C1: encoding a frame never reads outside a buffer, never uses a missing codec context and
  never fails an assertion, whatever FreeRDP and FFmpeg answer: from a state that satisfies the
  encoder invariant and a well-formed frame of at most 65535 tiles, the call returns, keeps the
  invariant, hands over at most one command (none when it reports PENDING), and that command
  has the frame's size and a codec that the client announced.
\<close>

theorem encode_surface_safe:
  assumes "flags_ok fr" and "enc_inv fr self" and "frame_valid f"
  shows "returns (drd_encoding_manager_encode_surface_gfx fr va va2 st now now2 self sid f fid h0 auto)
    (\<lambda>(s, h, cmds, r). enc_inv fr s \<and> length cmds \<le> 1 \<and> (r = fail_io IoPending \<longrightarrow> cmds = []) \<and>
       (\<forall>cmd \<in> set cmds. codec_announced st (cmd_codec cmd) \<and>
          cmd_width cmd = unat (fr_width f) \<and> cmd_height cmd = unat (fr_height f)))"
proof (cases "ready self")
  case False
  show ?thesis unfolding encode_not_ready [OF False] using assms(2) by simp
next
  case True
  have "frame_width (prepared self f) = unat (fr_width f)"
    "frame_height (prepared self f) = unat (fr_height f)"
    by (simp_all add: prepared_def prepare_other)
  with encode_ready [OF assms True, of va va2 st now now2 sid fid h0 auto] show ?thesis
    by (auto simp: outcome_ok_def elim!: returns_mono)
qed

theorem encode_surface_safe_witness:
  "returns (sample_encode 0) (\<lambda>(s, h, cmds, r). enc_inv (sample_api 0) s \<and> length cmds \<le> 1)"
  by (rule returns_mono [OF encode_surface_safe [OF sample_flags sample_inv sample_valid]]) auto

text \<open>
  C3: the reference frame is the frame the client has: after a call that handed a command over
  and returned TRUE the stored frame is the encoded one and every stored hash is the hash of its
  tile; any other call leaves the stored frame, and leaves the hashes or sets all of them to zero
  (so that no tile counts as unchanged by its hash), or it zeroes frame and hashes for a new
  geometry. It never stores a hash of the frame that was not sent.
\<close>

theorem encode_surface_in_step:
  assumes "flags_ok fr" and "enc_inv fr self" and "frame_valid f"
    and "drd_encoding_manager_encode_surface_gfx fr va va2 st now now2 self sid f fid h0 auto =
      Some (s, h, cmds, r)"
  shows "if cmds \<noteq> [] \<and> is_ok r then in_step (pixels f) s
    else (previous_frame s = previous_frame self \<and> hashes_kept self s) \<or>
      (previous_frame s = replicate (unat (fr_stride f) * unat (fr_height f)) 0 \<and>
       set (tile_hashes s) \<subseteq> {0})"
  using assms
proof (rule encode_cases)
  assume "s = self" "cmds = []"
  then show ?thesis by (simp add: hashes_kept_def)
next
  fix flags assume o: "outcome_ok fr (pixels f) flags (keyframe_due (prepared self f) now)
    (prepared self f) {c. codec_announced st c} (s, h, cmds, r)"
  have "unat (fr_stride f) * unat (fr_height f) < 2 ^ 64"
    using assms(3) by (simp add: frame_valid_def frame_ok_def)
  then have w: "wrap64 (unat (fr_stride f) * unat (fr_height f)) =
      unat (fr_stride f) * unat (fr_height f)" by (rule wrap64_id)
  let ?s = "self\<lparr>frame_width := unat (fr_width f), frame_height := unat (fr_height f)\<rparr>"
  have "previous_frame (prepared self f) = previous_frame self \<and>
        tile_hashes (prepared self f) = tile_hashes self \<or>
      previous_frame (prepared self f) = replicate (unat (fr_stride f) * unat (fr_height f)) 0 \<and>
        set (tile_hashes (prepared self f)) \<subseteq> {0}"
    using prepare_previous [of ?s "unat (fr_width f)" "unat (fr_height f)" "unat (fr_stride f)"]
    unfolding prepared_def w by simp
  with o show ?thesis by (auto simp: outcome_ok_def hashes_kept_def split: if_splits)
qed

theorem encode_surface_in_step_witness:
  "returns (sample_encode 0) (\<lambda>(s, h, cmds, r).
     if cmds \<noteq> [] \<and> is_ok r then in_step [1, 2, 3, 4] s
     else previous_frame s = [0, 0, 0, 0])"
proof -
  from encode_ready [OF sample_flags [of 0] sample_inv sample_valid sample_fields(1),
      of sample_vaapi sample_vaapi sample_settings 0 0 1 7 False False]
  obtain s h cmds r where e: "sample_encode 0 = Some (s, h, cmds, r)"
    by (auto simp: returns_iff)
  from encode_surface_in_step [OF sample_flags [of 0] sample_inv sample_valid e]
  moreover have "unat (fr_stride sample_frame) * unat (fr_height sample_frame) = Suc (Suc (Suc (Suc 0)))"
    "pixels sample_frame = [1, 2, 3, 4]" "previous_frame sample_encoder = [0, 0, 0, 0]"
    by (simp_all add: sample_frame_def sample_encoder_def pixel_encoder_def)
  ultimately show ?thesis unfolding e by (auto split: if_splits)
qed

text \<open>
  C2: what is sent is what changed: a command covers the whole frame, or no key frame was
  requested, the geometry is unchanged, the command's rectangles are tiles of the frame that all
  differ from the reference frame, and every tile left out is identical to the reference frame
  unless its hash is zero or collides with the hash of the old contents.
\<close>

theorem encode_surface_sends_changes:
  assumes "flags_ok fr" and "enc_inv fr self" and "frame_valid f"
    and "drd_encoding_manager_encode_surface_gfx fr va va2 st now now2 self sid f fid h0 auto =
      Some (s, h, cmds, r)"
    and "cmd \<in> set cmds"
  shows "cmd_rects cmd = [(0, 0, unat (fr_width f), unat (fr_height f))] \<or>
    (\<not> force_keyframe self \<and> enable_diff self \<and> diff_width self = unat (fr_width f) \<and>
     diff_height self = unat (fr_height f) \<and> diff_stride self = unat (fr_stride f) \<and>
     (\<exists>col sent. cmd_rects cmd = map (tile_rect col) sent \<and> set sent \<subseteq> set (enc_tiles self) \<and>
       (\<forall>t \<in> set (enc_tiles self).
          if t \<in> set sent
          then tile_rows (previous_frame self) (diff_stride self) t \<noteq> tile_rows (pixels f) (diff_stride self) t
          else tile_rows (previous_frame self) (diff_stride self) t = tile_rows (pixels f) (diff_stride self) t \<or>
               tile_missed self (pixels f) t)))"
  using assms(1-4)
proof (rule encode_cases)
  assume "cmds = []"
  with assms(5) show ?thesis by simp
next
  fix flags assume fe: "flags_exact (prepared self f) (pixels f) flags"
    and "outcome_ok fr (pixels f) flags (keyframe_due (prepared self f) now)
      (prepared self f) {c. codec_announced st c} (s, h, cmds, r)"
  then have ro: "rects_ok flags (keyframe_due (prepared self f) now) (prepared self f) cmd"
    using assms(5) by (simp add: outcome_ok_def)
  have "full_rect (prepared self f) = (0, 0, unat (fr_width f), unat (fr_height f))"
    using assms(3) by (simp add: full_rect_def prepared_def prepare_other u16_of_def frame_valid_def
        frame_ok_def)
  with ro consider "cmd_rects cmd = [(0, 0, unat (fr_width f), unat (fr_height f))]"
    | col where "\<not> keyframe_due (prepared self f) now" "cmd_rects cmd =
        map (tile_rect col) (filter (\<lambda>t. flags ! tidx t) (enc_tiles (prepared self f)))"
    unfolding rects_ok_def by metis
  then show ?thesis
  proof cases
    case 2
    let ?s = "self\<lparr>frame_width := unat (fr_width f), frame_height := unat (fr_height f)\<rparr>"
    have k: "\<not> force_keyframe (prepared self f)" "enable_diff (prepared self f)"
      using 2(1) by (simp_all add: keyframe_due_def)
    have p: "prepared self f = ?s" "diff_width ?s = unat (fr_width f)"
      "diff_height ?s = unat (fr_height f)" "diff_stride ?s = unat (fr_stride f)"
      using prepare_reused k(1) unfolding prepared_def by blast+
    have fe': "flags_exact self (pixels f) flags"
      using fe unfolding p(1) by (simp add: flags_exact_def tile_missed_def)
    have c: "cmd_rects cmd = map (tile_rect col) (filter (\<lambda>t. flags ! tidx t) (enc_tiles self))"
      using 2(2) unfolding p(1) by simp
    have "\<forall>t \<in> set (enc_tiles self). if t \<in> set (filter (\<lambda>t. flags ! tidx t) (enc_tiles self))
        then tile_rows (previous_frame self) (diff_stride self) t \<noteq> tile_rows (pixels f) (diff_stride self) t
        else tile_rows (previous_frame self) (diff_stride self) t = tile_rows (pixels f) (diff_stride self) t \<or>
             tile_missed self (pixels f) t"
      using fe' unfolding flags_exact_def by auto
    then show ?thesis
      using c k p by (intro disjI2 conjI exI [of _ col] exI) auto
  qed blast
qed

theorem encode_surface_sends_changes_witness:
  "\<exists>cmd. (\<exists>s h cmds r. sample_encode 5 = Some (s, h, cmds, r) \<and> cmd \<in> set cmds) \<and>
     cmd_rects cmd = [(0, 0, 1, 1)]"
proof -
  let ?c = "\<lparr>cmd_codec = CODECID_CAPROGRESSIVE, cmd_surface = 1, cmd_frame_id = 7,
       cmd_width = 1, cmd_height = 1, cmd_rects = [(0, 0, 1, 1)]\<rparr>"
  obtain s r where e: "sample_encode 5 = Some (s, False, [?c], r)" using sample_refused by blast
  have "cmd_rects ?c = [(0, 0, 1, 1)]"
    using encode_surface_sends_changes [OF sample_flags [of 5] sample_inv sample_valid e, of ?c]
    by (simp add: sample_frame_def sample_fields)
  with e show ?thesis by (intro exI [of _ ?c]) auto
qed

end
