(* ===== verification/Frame_Queue.thy ===== *)
theory Frame_Queue
  imports Frame "HOL-Library.Sublist"
begin

text \<open>
  The three-slot frame queue of \<^verbatim>\<open>src/utils/drd_frame_queue.c\<close>, shared by the capture thread
  (producer) and the render thread (consumer): the ring buffer as the code keeps it, an
  abstract bounded queue that drops its oldest element, and the blocking
  \<open>drd_frame_queue_wait\<close> split at the points where it releases the mutex, so that the
  interleavings of pushes, stops, resets and several waiters are explicit steps.

  Frames are references: the element type is a parameter. Slots are \<open>Some f\<close> or \<open>None\<close>
  for NULL. The indices stay below 3, so they are natural numbers; \<open>dropped_frames\<close> is
  the code's 64-bit counter.
\<close>

definition DRD_FRAME_QUEUE_MAX_FRAMES :: nat where
  "DRD_FRAME_QUEUE_MAX_FRAMES = 3"

record 'f frame_queue =
  q_frames :: "'f option list"
  q_head :: nat
  q_tail :: nat
  q_size :: nat
  q_running :: bool
  q_dropped_frames :: u64

definition drd_frame_queue_init :: "'f frame_queue" where
  "drd_frame_queue_init =
     \<lparr>q_frames = replicate DRD_FRAME_QUEUE_MAX_FRAMES None, q_head = 0, q_tail = 0, q_size = 0,
      q_running = True, q_dropped_frames = 0\<rparr>"

definition drd_frame_queue_dispose :: "'f frame_queue \<Rightarrow> 'f frame_queue" where
  "drd_frame_queue_dispose self =
     self\<lparr>q_frames := map (\<lambda>_. None) (q_frames self), q_size := 0\<rparr>"

definition drd_frame_queue_reset :: "'f frame_queue \<Rightarrow> 'f frame_queue" where
  "drd_frame_queue_reset self =
     self\<lparr>q_running := True, q_frames := map (\<lambda>_. None) (q_frames self), q_head := 0, q_tail := 0,
          q_size := 0, q_dropped_frames := 0\<rparr>"

text \<open>Clearing the head slot and advancing, as both \<open>push\<close> (on a full queue) and
  \<open>wait\<close> do.\<close>

definition advance_head :: "'f frame_queue \<Rightarrow> 'f frame_queue" where
  "advance_head self =
     self\<lparr>q_frames := (q_frames self)[q_head self := None],
          q_head := (q_head self + 1) mod DRD_FRAME_QUEUE_MAX_FRAMES,
          q_size := q_size self - 1\<rparr>"

definition drop_oldest :: "'f frame_queue \<Rightarrow> 'f frame_queue" where
  "drop_oldest self =
     (if q_size self = DRD_FRAME_QUEUE_MAX_FRAMES
      then (advance_head self)\<lparr>q_dropped_frames := q_dropped_frames self + 1\<rparr>
      else self)"

definition drd_frame_queue_push :: "'f frame_queue \<Rightarrow> 'f \<Rightarrow> 'f frame_queue" where
  "drd_frame_queue_push self frame =
     (if \<not> q_running self then self
      else let s = drop_oldest self
           in s\<lparr>q_frames := (q_frames s)[q_tail s := Some frame],
                q_tail := (q_tail s + 1) mod DRD_FRAME_QUEUE_MAX_FRAMES,
                q_size := q_size s + 1\<rparr>)"

definition drd_frame_queue_stop :: "'f frame_queue \<Rightarrow> 'f frame_queue" where
  "drd_frame_queue_stop self = self\<lparr>q_running := False\<rparr>"

definition drd_frame_queue_get_dropped_frames :: "'f frame_queue \<Rightarrow> u64" where
  "drd_frame_queue_get_dropped_frames self = q_dropped_frames self"

text \<open>The last block of \<open>drd_frame_queue_wait\<close>: take the head frame when there is one.
  The first component is the new state, the second the returned boolean with the frame.\<close>

definition wait_finish :: "'f frame_queue \<Rightarrow> 'f frame_queue \<times> (bool \<times> 'f option)" where
  "wait_finish self =
     (if q_running self \<and> q_size self > 0
      then (advance_head self, (True, q_frames self ! q_head self))
      else (self, (False, None)))"

text \<open>A call of \<open>drd_frame_queue_wait\<close> either returns or sleeps on the condition variable
  with the timeout and the deadline computed at entry.\<close>

datatype 'f wait_outcome = Returned bool "'f option" | Sleeping int int

definition wait_loop_head ::
    "'f frame_queue \<Rightarrow> int \<Rightarrow> int \<Rightarrow> 'f frame_queue \<times> 'f wait_outcome" where
  "wait_loop_head self timeout_us deadline =
     (if q_running self \<and> q_size self = 0
      then (if timeout_us = 0 then (self, Returned False None)
            else (self, Sleeping timeout_us deadline))
      else (case wait_finish self of (s, (r, f)) \<Rightarrow> (s, Returned r f)))"

definition wait_enter ::
    "'f frame_queue \<Rightarrow> int \<Rightarrow> int \<Rightarrow> 'f frame_queue \<times> 'f wait_outcome" where
  "wait_enter self now timeout_us =
     (if \<not> q_running self then (self, Returned False None)
      else wait_loop_head self timeout_us (if timeout_us > 0 then now + timeout_us else 0))"

text \<open>The wait re-acquires the mutex: \<open>timed_out\<close> says that \<open>g_cond_wait_until\<close> returned
  FALSE, which leaves the loop.\<close>

definition wait_resume ::
    "'f frame_queue \<Rightarrow> int \<Rightarrow> int \<Rightarrow> bool \<Rightarrow> 'f frame_queue \<times> 'f wait_outcome" where
  "wait_resume self timeout_us deadline timed_out =
     (if timeout_us > 0 \<and> timed_out
      then (case wait_finish self of (s, (r, f)) \<Rightarrow> (s, Returned r f))
      else wait_loop_head self timeout_us deadline)"

subsection \<open>Invariant and abstraction\<close>

definition slot :: "'f frame_queue \<Rightarrow> nat \<Rightarrow> nat" where
  "slot q k = (q_head q + k) mod DRD_FRAME_QUEUE_MAX_FRAMES"

definition fq_wf :: "'f frame_queue \<Rightarrow> bool" where
  "fq_wf q \<longleftrightarrow> length (q_frames q) = DRD_FRAME_QUEUE_MAX_FRAMES \<and>
     q_head q < DRD_FRAME_QUEUE_MAX_FRAMES \<and> q_size q \<le> DRD_FRAME_QUEUE_MAX_FRAMES \<and>
     q_tail q = slot q (q_size q) \<and>
     (\<forall>k<DRD_FRAME_QUEUE_MAX_FRAMES. (q_frames q ! slot q k \<noteq> None) = (k < q_size q))"

definition fq_abs :: "'f frame_queue \<Rightarrow> 'f list" where
  "fq_abs q = map (\<lambda>k. the (q_frames q ! slot q k)) [0..<q_size q]"

lemma max_pos [simp]: "0 < DRD_FRAME_QUEUE_MAX_FRAMES"
  by (simp add: DRD_FRAME_QUEUE_MAX_FRAMES_def)

lemma length_fq_abs [simp]: "length (fq_abs q) = q_size q"
  by (simp add: fq_abs_def)

lemma fq_abs_Nil: "fq_abs q = [] \<longleftrightarrow> q_size q = 0"
  by (simp add: fq_abs_def)

lemma slot_less [simp]: "slot q k < DRD_FRAME_QUEUE_MAX_FRAMES"
  by (simp add: slot_def)

lemma slot_eq_iff:
  assumes "j < DRD_FRAME_QUEUE_MAX_FRAMES" "k < DRD_FRAME_QUEUE_MAX_FRAMES"
  shows "slot q j = slot q k \<longleftrightarrow> j = k"
  using assms by (auto simp: slot_def dest: mod_add_inj)

lemma slot_0: "q_head q < DRD_FRAME_QUEUE_MAX_FRAMES \<Longrightarrow> slot q 0 = q_head q"
  by (simp add: slot_def)

lemma slot_shift: "(q_head q + 1) mod DRD_FRAME_QUEUE_MAX_FRAMES = h \<Longrightarrow>
    (h + k) mod DRD_FRAME_QUEUE_MAX_FRAMES = slot q (Suc k)"
  by (auto simp: slot_def mod_simps)

lemma slot_wrap: "slot q DRD_FRAME_QUEUE_MAX_FRAMES = slot q 0"
  by (simp add: slot_def)

lemma init_wf [drd_inv]: "fq_wf drd_frame_queue_init"
  by (simp add: fq_wf_def drd_frame_queue_init_def slot_def)

lemma init_running [simp]: "q_running drd_frame_queue_init"
  by (simp add: drd_frame_queue_init_def)

lemma init_abs [simp]: "fq_abs drd_frame_queue_init = []"
  by (simp add: fq_abs_def drd_frame_queue_init_def)

lemma reset_wf [drd_inv]: "fq_wf q \<Longrightarrow> fq_wf (drd_frame_queue_reset q)"
  by (simp add: fq_wf_def drd_frame_queue_reset_def slot_def)

lemma reset_abs [simp]: "fq_abs (drd_frame_queue_reset q) = []"
  by (simp add: fq_abs_def drd_frame_queue_reset_def)

lemma stop_wf [simp]: "fq_wf (drd_frame_queue_stop q) = fq_wf q"
  by (simp add: fq_wf_def drd_frame_queue_stop_def slot_def)

lemma stop_abs [simp]: "fq_abs (drd_frame_queue_stop q) = fq_abs q"
  by (simp add: fq_abs_def drd_frame_queue_stop_def slot_def)

lemma advance_head_slot:
  "slot (advance_head q) k = slot q (Suc k)"
  by (simp add: advance_head_def slot_def mod_simps)

lemma advance_head_wf [drd_inv]:
  assumes "fq_wf q" "q_size q > 0"
  shows "fq_wf (advance_head q)"
proof -
  let ?N = DRD_FRAME_QUEUE_MAX_FRAMES
  have occ: "(q_frames (advance_head q) ! slot q (Suc k) \<noteq> None) = (k < q_size q - 1)"
    if "k < ?N" for k
  proof (cases "Suc k = ?N")
    case True
    then show ?thesis
      using assms by (auto simp: advance_head_def fq_wf_def slot_wrap slot_0)
  next
    case False
    with that have "Suc k < ?N" by simp
    with assms have "slot q (Suc k) \<noteq> q_head q"
      using slot_eq_iff [of "Suc k" 0 q] by (auto simp: fq_wf_def slot_0)
    with assms \<open>Suc k < ?N\<close> show ?thesis
      by (auto simp: advance_head_def fq_wf_def nth_list_update_if)
  qed
  have t: "q_tail (advance_head q) = slot (advance_head q) (q_size (advance_head q))"
    using assms by (simp add: advance_head_slot) (simp add: advance_head_def fq_wf_def)
  have b: "length (q_frames (advance_head q)) = ?N" "q_head (advance_head q) < ?N"
    "q_size (advance_head q) \<le> ?N" "q_size (advance_head q) = q_size q - 1"
    using assms by (auto simp: advance_head_def fq_wf_def)
  then show ?thesis
    using occ t unfolding fq_wf_def advance_head_slot by simp
qed

lemma advance_head_abs:
  assumes "fq_wf q" "q_size q > 0"
  shows "fq_abs (advance_head q) = tl (fq_abs q)"
proof (rule nth_equalityI)
  show "length (fq_abs (advance_head q)) = length (tl (fq_abs q))"
    by (simp add: advance_head_def)
  fix k assume "k < length (fq_abs (advance_head q))"
  then have k: "k < q_size q - 1" by (simp add: advance_head_def)
  have lt: "Suc k < DRD_FRAME_QUEUE_MAX_FRAMES"
    using k assms by (auto simp: fq_wf_def)
  with assms have "slot q (Suc k) \<noteq> q_head q"
    using slot_eq_iff [of "Suc k" 0 q]
    by (auto simp: fq_wf_def simp flip: slot_0 [of q])
  with lt show "fq_abs (advance_head q) ! k = tl (fq_abs q) ! k"
    using k assms
    by (simp add: fq_abs_def nth_tl advance_head_slot)
       (simp add: advance_head_def fq_wf_def nth_list_update_if)
qed

lemma head_frame:
  assumes "fq_wf q" "q_size q > 0"
  shows "q_frames q ! q_head q = Some (hd (fq_abs q))"
proof -
  have "q_frames q ! slot q 0 \<noteq> None"
    using assms by (auto simp: fq_wf_def)
  then show ?thesis
    using assms by (auto simp: fq_abs_def hd_map fq_wf_def slot_0)
qed

definition append_tail :: "'f frame_queue \<Rightarrow> 'f \<Rightarrow> 'f frame_queue" where
  "append_tail s frame = s\<lparr>q_frames := (q_frames s)[q_tail s := Some frame],
     q_tail := (q_tail s + 1) mod DRD_FRAME_QUEUE_MAX_FRAMES, q_size := q_size s + 1\<rparr>"

lemma append_tail_wf:
  assumes "fq_wf q" "q_size q < DRD_FRAME_QUEUE_MAX_FRAMES"
  shows "fq_wf (append_tail q f)"
proof -
  have "(q_frames (append_tail q f) ! slot q k \<noteq> None) = (k < q_size q + 1)"
    if "k < DRD_FRAME_QUEUE_MAX_FRAMES" for k
    using assms that slot_eq_iff [of k "q_size q" q]
    by (auto simp: append_tail_def fq_wf_def nth_list_update_if)
  moreover have "slot (append_tail q f) k = slot q k" for k
    by (simp add: slot_def append_tail_def)
  moreover have "(slot q (q_size q) + 1) mod DRD_FRAME_QUEUE_MAX_FRAMES = slot q (q_size q + 1)"
    by (simp add: slot_def mod_simps)
  ultimately show ?thesis
    using assms by (simp add: fq_wf_def) (simp add: append_tail_def)
qed

lemma append_tail_abs:
  assumes "fq_wf q" "q_size q < DRD_FRAME_QUEUE_MAX_FRAMES"
  shows "fq_abs (append_tail q f) = fq_abs q @ [f]"
proof -
  have "slot (append_tail q f) k = slot q k" for k
    by (simp add: slot_def append_tail_def)
  then show ?thesis
    using assms
    by (auto simp: fq_abs_def fq_wf_def slot_eq_iff nth_list_update_if)
       (auto simp: append_tail_def nth_list_update_if slot_eq_iff)
qed

lemma push_eq: "drd_frame_queue_push q f =
    (if q_running q then append_tail (drop_oldest q) f else q)"
  by (simp add: drd_frame_queue_push_def append_tail_def Let_def)

lemma drop_oldest_facts:
  assumes "fq_wf q"
  shows "fq_wf (drop_oldest q)" "q_size (drop_oldest q) < DRD_FRAME_QUEUE_MAX_FRAMES"
    "fq_abs (drop_oldest q) =
      (if q_size q = DRD_FRAME_QUEUE_MAX_FRAMES then tl (fq_abs q) else fq_abs q)"
proof -
  have d: "fq_wf (q\<lparr>q_dropped_frames := n\<rparr>) = fq_wf q"
    "fq_abs (q\<lparr>q_dropped_frames := n\<rparr>) = fq_abs q" for n and q :: "'a frame_queue"
    by (simp_all add: fq_wf_def fq_abs_def slot_def)
  show "fq_wf (drop_oldest q)" "fq_abs (drop_oldest q) =
      (if q_size q = DRD_FRAME_QUEUE_MAX_FRAMES then tl (fq_abs q) else fq_abs q)"
    using assms by (auto simp: drop_oldest_def d advance_head_abs intro: advance_head_wf)
  show "q_size (drop_oldest q) < DRD_FRAME_QUEUE_MAX_FRAMES"
    using assms by (auto simp: drop_oldest_def advance_head_def fq_wf_def)
qed

lemma push_wf [drd_inv]: "fq_wf q \<Longrightarrow> fq_wf (drd_frame_queue_push q f)"
  by (simp add: push_eq append_tail_wf drop_oldest_facts)

lemma push_abs:
  "fq_wf q \<Longrightarrow> fq_abs (drd_frame_queue_push q f) =
    (if q_running q then (if q_size q = DRD_FRAME_QUEUE_MAX_FRAMES then tl (fq_abs q)
       else fq_abs q) @ [f] else fq_abs q)"
  by (simp add: push_eq append_tail_abs drop_oldest_facts)

lemma finish_wf [drd_inv]: "fq_wf q \<Longrightarrow> fq_wf (fst (wait_finish q))"
  by (simp add: wait_finish_def advance_head_wf)

lemma finish_abs:
  assumes "fq_wf q"
  shows "fq_abs (fst (wait_finish q)) = (if q_running q then tl (fq_abs q) else fq_abs q)"
    and "snd (wait_finish q) =
      (if q_running q \<and> fq_abs q \<noteq> [] then (True, Some (hd (fq_abs q))) else (False, None))"
proof -
  show "fq_abs (fst (wait_finish q)) = (if q_running q then tl (fq_abs q) else fq_abs q)"
  proof (cases "q_size q = 0")
    case True
    then have "fq_abs q = []" by (simp add: fq_abs_Nil)
    with True show ?thesis by (simp add: wait_finish_def)
  qed (use assms in \<open>simp add: wait_finish_def advance_head_abs\<close>)
  show "snd (wait_finish q) =
      (if q_running q \<and> fq_abs q \<noteq> [] then (True, Some (hd (fq_abs q))) else (False, None))"
    using assms by (auto simp: wait_finish_def head_frame fq_abs_Nil)
qed


subsection \<open>The queue interface\<close>

text \<open>
  What the capture manager relies on: a queue that keeps its invariant, drops its oldest
  element when it is full, refuses pushes once stopped, and hands elements out in order.
  \<open>lossy_run\<close> is the abstract bounded queue; the client lemma says that every sequence of
  operations on the concrete queue computes the same abstract contents.
\<close>

datatype 'f q_op = QPush 'f | QPop | QStop | QReset

fun lossy_step :: "nat \<Rightarrow> (bool \<times> 'f list) \<Rightarrow> 'f q_op \<Rightarrow> bool \<times> 'f list" where
  "lossy_step cap (run, xs) (QPush x) =
     (run, if run then (if length xs = cap then tl xs else xs) @ [x] else xs)"
| "lossy_step cap (run, xs) QPop = (run, if run then tl xs else xs)"
| "lossy_step cap (run, xs) QStop = (False, xs)"
| "lossy_step cap (run, xs) QReset = (True, [])"

text \<open>One operation on a concrete queue, given by its four operations.\<close>

fun queue_step :: "('q \<Rightarrow> 'f \<Rightarrow> 'q) \<Rightarrow> ('q \<Rightarrow> 'q \<times> (bool \<times> 'f option)) \<Rightarrow> ('q \<Rightarrow> 'q) \<Rightarrow>
    ('q \<Rightarrow> 'q) \<Rightarrow> 'f q_op \<Rightarrow> 'q \<Rightarrow> 'q" where
  "queue_step push pop stop reset (QPush x) q = push q x"
| "queue_step push pop stop reset QPop q = fst (pop q)"
| "queue_step push pop stop reset QStop q = stop q"
| "queue_step push pop stop reset QReset q = reset q"

locale lossy_queue =
  fixes inv :: "'q \<Rightarrow> bool"
    and is_running :: "'q \<Rightarrow> bool"
    and contents :: "'q \<Rightarrow> 'f list"
    and cap :: nat
    and push :: "'q \<Rightarrow> 'f \<Rightarrow> 'q"
    and pop :: "'q \<Rightarrow> 'q \<times> (bool \<times> 'f option)"
    and stop :: "'q \<Rightarrow> 'q"
    and reset :: "'q \<Rightarrow> 'q"
  assumes cap_pos: "0 < cap"
    and bounded: "inv q \<Longrightarrow> length (contents q) \<le> cap"
    and push_inv: "inv q \<Longrightarrow> inv (push q x)"
    and push_step: "inv q \<Longrightarrow> (is_running (push q x), contents (push q x)) =
          lossy_step cap (is_running q, contents q) (QPush x)"
    and pop_inv: "inv q \<Longrightarrow> inv (fst (pop q))"
    and pop_step: "inv q \<Longrightarrow> (is_running (fst (pop q)), contents (fst (pop q))) =
          lossy_step cap (is_running q, contents q) QPop"
    and pop_result: "inv q \<Longrightarrow> snd (pop q) =
          (if is_running q \<and> contents q \<noteq> [] then (True, Some (hd (contents q)))
           else (False, None))"
    and stop_inv: "inv q \<Longrightarrow> inv (stop q)"
    and stop_step: "inv q \<Longrightarrow> (is_running (stop q), contents (stop q)) =
          lossy_step cap (is_running q, contents q) QStop"
    and reset_inv: "inv q \<Longrightarrow> inv (reset q)"
    and reset_step: "inv q \<Longrightarrow> (is_running (reset q), contents (reset q)) =
          lossy_step cap (is_running q, contents q) QReset"
begin

abbreviation step :: "'f q_op \<Rightarrow> 'q \<Rightarrow> 'q" where
  "step \<equiv> queue_step push pop stop reset"

lemma step_inv: "inv q \<Longrightarrow> inv (step e q)"
  by (cases e) (auto intro: push_inv pop_inv stop_inv reset_inv)

lemma step_sim: "inv q \<Longrightarrow> (is_running (step e q), contents (step e q)) =
    lossy_step cap (is_running q, contents q) e"
  by (cases e) (simp_all only: queue_step.simps push_step pop_step stop_step reset_step)

lemma run_inv: "inv q \<Longrightarrow> inv (fold step es q)"
  by (induction es arbitrary: q) (auto intro: step_inv)

lemma run_refines:
  "inv q \<Longrightarrow> (is_running (fold step es q), contents (fold step es q)) =
   fold (\<lambda>e s. lossy_step cap s e) es (is_running q, contents q)"
  by (induction es arbitrary: q) (simp_all add: step_inv flip: step_sim)

lemma run_bounded: "inv q \<Longrightarrow> length (contents (fold step es q)) \<le> cap"
  by (rule bounded [OF run_inv])

text \<open>A frame pushed on a running queue is the last one to come out, and pushing on a full
  queue keeps the newest \<open>cap\<close> frames.\<close>

lemma push_keeps_newest:
  assumes "inv q" "is_running q" "length (contents q) = cap"
  shows "contents (push q x) = tl (contents q) @ [x]"
  using assms push_step [of q x] by simp

end

abbreviation fq_step :: "'f q_op \<Rightarrow> 'f frame_queue \<Rightarrow> 'f frame_queue" where
  "fq_step \<equiv> queue_step drd_frame_queue_push wait_finish drd_frame_queue_stop
     drd_frame_queue_reset"

lemma q_running_ops [simp]:
  "q_running (drd_frame_queue_push q f) = q_running q"
  "q_running (fst (wait_finish q)) = q_running q"
  "q_running (drd_frame_queue_stop q) = False"
  "q_running (drd_frame_queue_reset q) = True"
  by (simp_all add: drd_frame_queue_push_def drop_oldest_def advance_head_def wait_finish_def
      drd_frame_queue_stop_def drd_frame_queue_reset_def Let_def)

interpretation fq: lossy_queue fq_wf q_running fq_abs DRD_FRAME_QUEUE_MAX_FRAMES
  drd_frame_queue_push wait_finish drd_frame_queue_stop drd_frame_queue_reset
  by unfold_locales
    (auto simp: push_abs finish_abs intro: drd_inv dest: fq_wf_def [THEN iffD1])

text \<open>
  C6: the ring buffer refines the bounded drop-oldest queue: after any sequence of pushes,
  non-blocking takes, stops and resets from a fresh queue, the frames in the ring, in order
  from the head, and the running flag are those of the abstract queue of capacity 3.
\<close>

theorem frame_queue_refines_lossy_queue:
  "(q_running (fold fq_step es drd_frame_queue_init),
    fq_abs (fold fq_step es drd_frame_queue_init)) =
   fold (\<lambda>e s. lossy_step DRD_FRAME_QUEUE_MAX_FRAMES s e) es (True, [])"
  using fq.run_refines [OF init_wf, of es] by simp

end
