(* ===== verification/X11_Capture.thy ===== *)
theory X11_Capture
  imports Capture_Metrics Frame_Queue
begin

text \<open>
  The X11 screen capture of \<^verbatim>\<open>src/capture/drd_x11_capture.c\<close>: the resources that
  \<open>prepare_display\<close> acquires and \<open>cleanup_locked\<close> releases, the wake-up pipe, starting and
  stopping, and one iteration of the capture thread. The answers of Xlib and of the kernel
  are a record; what the code asks of them is the list of events it returns. A pointer of the
  code is a boolean that says whether it is not NULL, except where its value matters.
\<close>

subsection \<open>State\<close>

datatype shm_addr = Addr_null | Addr_failed | Addr_mapped
  \<comment> \<open>\<open>Addr_failed\<close> is the \<open>(char *) -1\<close> of a failed \<open>shmat\<close>\<close>

record ximage =
  bytes_per_line :: nat
  im_height :: nat
  im_data :: bool

record x11_capture =
  cx_running :: bool
  cx_thread :: bool
  cx_display_name :: "string option"
  cx_display :: bool
  cx_image :: "ximage option"
  cx_shmid :: int
  cx_shmaddr :: shm_addr
  cx_attached :: bool
  cx_damage :: nat  \<comment> \<open>the XID, 0 for none\<close>
  cx_damage_event_base :: int
  cx_width :: nat
  cx_height :: nat
  cx_pipe_read :: int
  cx_pipe_write :: int

datatype x11_event =
    Open_display | Close_display
  | Create_image | Destroy_image bool  \<comment> \<open>with the data pointer still set\<close>
  | Shm_get int | Shm_remove int
  | Shm_map | Shm_unmap shm_addr
  | X_attach | X_detach
  | Damage_create | Damage_destroy
  | Pipe_open int int | Fd_close int
  | X_sync | Thread_new | Write_wake_byte int | Thread_join

text \<open>What Xlib and the kernel answer.\<close>

record x11_answers =
  a_display :: bool
  a_shm_extension :: bool
  a_damage_extension :: "int option"
  a_display_width :: nat
  a_display_height :: nat
  a_image :: "(nat \<times> nat) option"  \<comment> \<open>bytes per line and height\<close>
  a_shmget :: int
  a_errno :: int
  a_shmat :: bool
  a_attach :: bool
  a_damage :: nat
  a_pipe :: "(int \<times> int) option"

definition drd_x11_capture_init :: x11_capture where
  "drd_x11_capture_init =
     \<lparr>cx_running = False, cx_thread = False, cx_display_name = None, cx_display = False,
      cx_image = None, cx_shmid = -1, cx_shmaddr = Addr_null, cx_attached = False, cx_damage = 0,
      cx_damage_event_base = 0, cx_width = 0, cx_height = 0, cx_pipe_read = -1, cx_pipe_write = -1\<rparr>"

definition drd_x11_capture_get_display_size :: "x11_answers \<Rightarrow> (nat \<times> nat) res \<times> x11_event list" where
  "drd_x11_capture_get_display_size ans =
     (if \<not> a_display ans then (fail_io IoFailed, [Open_display])
      else (if a_display_width ans = 0 \<or> a_display_height ans = 0 then fail_io IoFailed
            else Inr (a_display_width ans, a_display_height ans),
            [Open_display, Close_display]))"

subsection \<open>The wake-up pipe\<close>

definition drd_x11_capture_setup_wakeup_pipe ::
    "x11_answers \<Rightarrow> x11_capture \<Rightarrow> x11_capture \<times> x11_event list \<times> unit res" where
  "drd_x11_capture_setup_wakeup_pipe ans self =
     (if 0 \<le> cx_pipe_read self \<and> 0 \<le> cx_pipe_write self then (self, [], ok)
      else (case a_pipe ans of
          None \<Rightarrow> (self, [], Inl (GIo (IoErrno (a_errno ans))))
        | Some (r, w) \<Rightarrow>
            (self\<lparr>cx_pipe_read := r, cx_pipe_write := w\<rparr>, [Pipe_open r w], ok)))"

definition drd_x11_capture_close_wakeup_pipe :: "x11_capture \<Rightarrow> x11_capture \<times> x11_event list" where
  "drd_x11_capture_close_wakeup_pipe self =
     (let (s1, e1) = (if 0 \<le> cx_pipe_read self
           then (self\<lparr>cx_pipe_read := -1\<rparr>, [Fd_close (cx_pipe_read self)]) else (self, []));
          (s2, e2) = (if 0 \<le> cx_pipe_write s1
           then (s1\<lparr>cx_pipe_write := -1\<rparr>, [Fd_close (cx_pipe_write s1)]) else (s1, []))
      in (s2, e1 @ e2))"

text \<open>
  \<open>read\<close> on the pipe, which is opened in blocking mode: it returns the available bytes, at
  most 64; on an empty pipe it blocks (\<open>None\<close>) while a write end is open and returns 0
  otherwise. \<open>n\<close> is the number of bytes in the pipe.
\<close>

fun drain_loop :: "bool \<Rightarrow> nat \<Rightarrow> unit option" where
  "drain_loop write_open 0 = (if write_open then None else Some ())"
| "drain_loop write_open (Suc n) = drain_loop write_open (Suc n - min 64 (Suc n))"

definition drd_x11_capture_drain_wakeup_pipe :: "int \<Rightarrow> bool \<Rightarrow> nat \<Rightarrow> unit option" where
  "drd_x11_capture_drain_wakeup_pipe fd write_open n =
     (if fd < 0 then Some () else drain_loop write_open n)"

lemma drain_loop_blocks: "drain_loop True n = None"
proof (induction n rule: less_induct)
  case (less n)
  then show ?case by (cases n) auto
qed

subsection \<open>Acquiring and releasing the display resources\<close>

definition drd_x11_capture_prepare_display ::
    "x11_answers \<Rightarrow> nat \<Rightarrow> nat \<Rightarrow> x11_capture \<Rightarrow> x11_capture \<times> x11_event list \<times> unit res" where
  "drd_x11_capture_prepare_display ans requested_width requested_height self =
     (if \<not> a_display ans then (self\<lparr>cx_display := False\<rparr>, [], fail_io IoFailed)
      else let s1 = self\<lparr>cx_display := True\<rparr>; e1 = [Open_display] in
      if \<not> a_shm_extension ans then (s1, e1, fail_io IoNotSupported)
      else case a_damage_extension ans of
        None \<Rightarrow> (s1, e1, fail_io IoNotSupported)
      | Some event_base \<Rightarrow>
      let s2 = s1\<lparr>cx_damage_event_base := event_base,
             cx_width := (if requested_width > 0 then requested_width else a_display_width ans),
             cx_height := (if requested_height > 0 then requested_height else a_display_height ans)\<rparr>
      in case a_image ans of
        None \<Rightarrow> (s2\<lparr>cx_image := None\<rparr>, e1, fail_io IoFailed)
      | Some (bpl, h) \<Rightarrow>
      let img = \<lparr>bytes_per_line = bpl, im_height = h, im_data = False\<rparr>;
          s3 = s2\<lparr>cx_image := Some img, cx_shmid := a_shmget ans\<rparr>;
          e3 = e1 @ [Create_image]
      in if a_shmget ans < 0 then (s3, e3, Inl (GIo (IoErrno (a_errno ans))))
      else let e4 = e3 @ [Shm_get (a_shmget ans)] in
      if \<not> a_shmat ans
      then (s3\<lparr>cx_shmaddr := Addr_failed\<rparr>, e4, Inl (GIo (IoErrno (a_errno ans))))
      else let s5 = s3\<lparr>cx_shmaddr := Addr_mapped, cx_image := Some (img\<lparr>im_data := True\<rparr>)\<rparr>;
               e5 = e4 @ [Shm_map]
      in if \<not> a_attach ans then (s5, e5, fail_io IoFailed)
      else let s6 = s5\<lparr>cx_attached := True, cx_damage := a_damage ans\<rparr>; e6 = e5 @ [X_attach] in
      if a_damage ans = 0 then (s6, e6, fail_io IoFailed)
      else (s6, e6 @ [Damage_create, X_sync], ok))"

definition cleanup_damage :: "x11_capture \<Rightarrow> x11_capture \<times> x11_event list" where
  "cleanup_damage self =
     (if cx_damage self \<noteq> 0 \<and> cx_display self then (self\<lparr>cx_damage := 0\<rparr>, [Damage_destroy])
      else (self, []))"

definition cleanup_attached :: "x11_capture \<Rightarrow> x11_capture \<times> x11_event list" where
  "cleanup_attached self =
     (if cx_attached self \<and> cx_display self then (self\<lparr>cx_attached := False\<rparr>, [X_detach])
      else (self, []))"

definition cleanup_image :: "x11_capture \<Rightarrow> x11_capture \<times> x11_event list" where
  "cleanup_image self =
     (case cx_image self of None \<Rightarrow> (self, [])
      | Some img \<Rightarrow> let img' = img\<lparr>im_data := False\<rparr>
                    in (self\<lparr>cx_image := None\<rparr>, [Destroy_image (im_data img')]))"

definition cleanup_shm :: "x11_capture \<Rightarrow> x11_capture \<times> x11_event list" where
  "cleanup_shm self =
     (let (s1, e1) = (if cx_shmaddr self \<noteq> Addr_null
           then (self\<lparr>cx_shmaddr := Addr_null\<rparr>, [Shm_unmap (cx_shmaddr self)]) else (self, []));
          (s2, e2) = (if 0 \<le> cx_shmid s1
           then (s1\<lparr>cx_shmid := -1\<rparr>, [Shm_remove (cx_shmid s1)]) else (s1, []))
      in (s2, e1 @ e2))"

definition cleanup_display :: "x11_capture \<Rightarrow> x11_capture \<times> x11_event list" where
  "cleanup_display self =
     (if cx_display self then (self\<lparr>cx_display := False\<rparr>, [Close_display]) else (self, []))"

definition drd_x11_capture_cleanup_locked :: "x11_capture \<Rightarrow> x11_capture \<times> x11_event list" where
  "drd_x11_capture_cleanup_locked self =
     (let (s1, e1) = cleanup_damage self;
          (s2, e2) = cleanup_attached s1;
          (s3, e3) = cleanup_image s2;
          (s4, e4) = cleanup_shm s3;
          (s5, e5) = cleanup_display s4
      in (s5, e1 @ e2 @ e3 @ e4 @ e5))"

definition drd_x11_capture_start ::
    "x11_answers \<Rightarrow> string option \<Rightarrow> nat \<Rightarrow> nat \<Rightarrow> x11_capture \<Rightarrow>
     x11_capture \<times> x11_event list \<times> unit res" where
  "drd_x11_capture_start ans display_name requested_width requested_height self =
     (if cx_running self then (self, [], ok)
      else case drd_x11_capture_setup_wakeup_pipe ans (self\<lparr>cx_display_name := display_name\<rparr>) of
        (s1, e1, Inl e) \<Rightarrow> (s1, e1, Inl e)
      | (s1, e1, Inr _) \<Rightarrow>
      (case drd_x11_capture_prepare_display ans requested_width requested_height s1 of
        (s2, e2, Inl e) \<Rightarrow>
          let (s3, e3) = drd_x11_capture_cleanup_locked s2;
              (s4, e4) = drd_x11_capture_close_wakeup_pipe s3
          in (s4, e1 @ e2 @ e3 @ e4, Inl e)
      | (s2, e2, Inr _) \<Rightarrow>
          (s2\<lparr>cx_running := True, cx_thread := True\<rparr>, e1 @ e2 @ [Thread_new], ok)))"

text \<open>\<open>stop\<close> up to the join, and what it does once the thread has ended. Their composition is the
  state in which a stop returns; whether the thread ends, so that it returns at all, is the
  question of \<open>capture_stop_outcome\<close>.\<close>

definition stop_request :: "x11_capture \<Rightarrow> x11_capture \<times> x11_event list" where
  "stop_request self =
     (self\<lparr>cx_running := False\<rparr>,
      (if cx_display self then [X_sync] else []) @
      (if 0 \<le> cx_pipe_write self then [Write_wake_byte (cx_pipe_write self)] else []))"

definition stop_finish :: "x11_capture \<Rightarrow> x11_capture \<times> x11_event list" where
  "stop_finish self =
     (let (s1, e1) = (if cx_thread self then (self\<lparr>cx_thread := False\<rparr>, [Thread_join])
                      else (self, []));
          (s2, e2) = drd_x11_capture_cleanup_locked s1;
          (s3, e3) = drd_x11_capture_close_wakeup_pipe s2
      in (s3, e1 @ e2 @ e3))"

definition drd_x11_capture_stop :: "x11_capture \<Rightarrow> x11_capture \<times> x11_event list" where
  "drd_x11_capture_stop self =
     (if \<not> cx_running self then (self, [])
      else let (s1, e1) = stop_request self; (s2, e2) = stop_finish s1 in (s2, e1 @ e2))"

definition drd_x11_capture_dispose :: "x11_capture \<Rightarrow> x11_capture \<times> x11_event list" where
  "drd_x11_capture_dispose self =
     (let (s1, e1) = drd_x11_capture_stop self in (s1\<lparr>cx_display_name := None\<rparr>, e1))"

definition drd_x11_capture_is_running :: "x11_capture \<Rightarrow> bool" where
  "drd_x11_capture_is_running self = cx_running self"

subsection \<open>The capture thread\<close>

record capture_loop =
  stats_window_start :: int
  stats_frames :: nat
  next_capture_deadline :: int

datatype poll_answer = Poll_error | Poll_timeout | Poll_ready bool bool
  \<comment> \<open>the X connection and the wake-up pipe are readable\<close>

text \<open>What one iteration reads from outside: the clock readings in order, the answer of
  \<open>g_poll\<close>, the bytes in the wake-up pipe, the types of the pending X events, the bytes of
  the shared image after \<open>XShmGetImage\<close> (\<open>None\<close> when it fails), and fresh memory.\<close>

record loop_inputs =
  in_now_start :: int
  in_poll :: poll_answer
  in_pipe_bytes :: nat
  in_events :: "int list"
  in_now :: int
  in_image :: "u8 list option"
  in_now_frame :: int
  in_fresh :: "nat \<Rightarrow> u8"

datatype loop_outcome = Leave | Again | Blocked_in_read

definition XDamageNotify :: int where "XDamageNotify = 0"

definition wake_drained :: "x11_capture \<Rightarrow> poll_answer \<Rightarrow> bool" where
  "wake_drained self p =
     (case p of Poll_ready _ wake \<Rightarrow> 0 \<le> cx_pipe_read self \<and> wake | _ \<Rightarrow> False)"

definition update_stats :: "int \<Rightarrow> int \<Rightarrow> capture_loop \<Rightarrow> capture_loop" where
  "update_stats stats_interval now l =
     (if stats_window_start l = 0 then l\<lparr>stats_window_start := now\<rparr>
      else if now - stats_window_start l \<ge> stats_interval
      then l\<lparr>stats_frames := 0, stats_window_start := now\<rparr> else l)"

definition advance_deadline :: "int \<Rightarrow> int \<Rightarrow> capture_loop \<Rightarrow> capture_loop" where
  "advance_deadline target_interval now l =
     (let d = next_capture_deadline l + target_interval
      in l\<lparr>next_capture_deadline := (if d < now then now + target_interval else d)\<rparr>)"

text \<open>Building the frame: \<open>None\<close> when the copy would leave the image or the buffer. The
  buffer of a frame of no bytes is NULL, and such a frame is not pushed.\<close>

definition build_frame :: "x11_capture \<Rightarrow> ximage \<Rightarrow> loop_inputs \<Rightarrow> u8 list \<Rightarrow> drd_frame option" where
  "build_frame self img inp image_bytes =
     (let frame = drd_frame_configure drd_frame_new (word_of_nat (cx_width self))
            (word_of_nat (cx_height self)) (word_of_nat (bytes_per_line img))
            (word_of_int (in_now_frame inp));
          frame_size = bytes_per_line img * im_height img
      in if length image_bytes < frame_size then None
         else frame_write (drd_frame_ensure_capacity (in_fresh inp) frame frame_size)
                (take frame_size image_bytes))"

text \<open>The part after the poll: the frame, when the iteration captures one, and the new loop
  state.\<close>

definition capture_frame ::
    "capture_metrics \<Rightarrow> x11_capture \<Rightarrow> ximage \<Rightarrow> loop_inputs \<Rightarrow> capture_loop \<Rightarrow>
     (capture_loop \<times> drd_frame option) option" where
  "capture_frame m self img inp l =
     (let damage = (cx_damage_event_base self + XDamageNotify \<in> set (in_events inp));
          target_interval = drd_capture_metrics_get_target_interval_us m in
      if \<not> damage then Some (l, None)
      else if in_now inp < next_capture_deadline l then Some (l, None)
      else case in_image inp of
        None \<Rightarrow> Some (l\<lparr>next_capture_deadline := in_now inp + target_interval\<rparr>, None)
      | Some image_bytes \<Rightarrow>
          let l1 = l\<lparr>stats_frames := stats_frames l + 1\<rparr>;
              now = in_now_frame inp;
              l2 = advance_deadline target_interval now
                     (update_stats (drd_capture_metrics_get_stats_interval_us m) now l1)
          in map_option (\<lambda>f. (l2, if bytes_per_line img * im_height img = 0 then None else Some f))
               (build_frame self img inp image_bytes))"

definition drd_x11_capture_thread_iteration ::
    "capture_metrics \<Rightarrow> x11_capture \<Rightarrow> loop_inputs \<Rightarrow> capture_loop \<Rightarrow>
     (loop_outcome \<times> capture_loop \<times> drd_frame option) option" where
  "drd_x11_capture_thread_iteration m self inp l =
     (case cx_image self of
        None \<Rightarrow> Some (Leave, l, None)
      | Some img \<Rightarrow>
          if \<not> cx_running self \<or> \<not> cx_display self then Some (Leave, l, None)
          else let l1 = (if next_capture_deadline l = 0
                 then l\<lparr>next_capture_deadline := in_now_start inp\<rparr> else l) in
          if in_poll inp = Poll_error then Some (Again, l1, None)
          else if wake_drained self (in_poll inp) \<and>
            drd_x11_capture_drain_wakeup_pipe (cx_pipe_read self) (0 \<le> cx_pipe_write self)
              (in_pipe_bytes inp) = None
          then Some (Blocked_in_read, l1, None)
          else map_option (\<lambda>(l2, f). (Again, l2, f)) (capture_frame m self img inp l1))"

definition capture_loop_init :: capture_loop where
  "capture_loop_init = \<lparr>stats_window_start = 0, stats_frames = 0, next_capture_deadline = 0\<rparr>"

text \<open>The thread: iterations over successive inputs until it leaves or blocks, pushing what it
  captures. The result logs each pushed frame with its two clock readings.\<close>

fun drd_x11_capture_thread ::
    "capture_metrics \<Rightarrow> (x11_capture \<times> loop_inputs) list \<Rightarrow> capture_loop \<Rightarrow> drd_frame frame_queue \<Rightarrow>
     (loop_outcome \<times> capture_loop \<times> drd_frame frame_queue \<times> (int \<times> int \<times> drd_frame) list) option" where
  "drd_x11_capture_thread m [] l q = Some (Again, l, q, [])"
| "drd_x11_capture_thread m ((self, inp) # rest) l q =
     (case drd_x11_capture_thread_iteration m self inp l of
        None \<Rightarrow> None
      | Some (outcome, l1, None) \<Rightarrow>
          if outcome = Again then drd_x11_capture_thread m rest l1 q
          else Some (outcome, l1, q, [])
      | Some (outcome, l1, Some f) \<Rightarrow>
          map_option (\<lambda>(r, l2, q2, log). (r, l2, q2, (in_now inp, in_now_frame inp, f) # log))
            (drd_x11_capture_thread m rest l1 (drd_frame_queue_push q f)))"

end
