(* ===== verification/X11_Capture_Safety.thy ===== *)
theory X11_Capture_Safety
  imports X11_Capture
begin

text \<open>
  Properties of the X11 capture: the ledger of X11 and kernel resources (nothing leaks, nothing
  is released twice or in the wrong order), the pacing of the capture thread, and the protocol
  by which \<open>drd_x11_capture_stop\<close> ends the thread.
\<close>

subsection \<open>The resource ledger\<close>

record held =
  h_display :: bool
  h_image :: bool
  h_shm :: "int option"
  h_mapped :: bool
  h_attached :: bool
  h_damage :: bool
  h_fds :: "int set"
  h_thread :: bool

definition nothing_held :: held where
  "nothing_held = \<lparr>h_display = False, h_image = False, h_shm = None, h_mapped = False,
     h_attached = False, h_damage = False, h_fds = {}, h_thread = False\<rparr>"

text \<open>One event on the ledger; \<open>None\<close> is a misuse: acquiring over a handle that is still held
  (a leak), releasing what is not held, using a closed display, freeing an image whose data is
  the shared segment, or tearing resources down under the running thread. Unmapping the failed
  address is the documented \<open>EINVAL\<close> without effect.\<close>

fun ledger :: "x11_event \<Rightarrow> held \<Rightarrow> held option" where
  "ledger Open_display h = (if h_display h then None else Some (h\<lparr>h_display := True\<rparr>))"
| "ledger Close_display h =
     (if h_display h \<and> \<not> h_attached h \<and> \<not> h_damage h \<and> \<not> h_thread h
      then Some (h\<lparr>h_display := False\<rparr>) else None)"
| "ledger Create_image h = (if h_display h \<and> \<not> h_image h then Some (h\<lparr>h_image := True\<rparr>) else None)"
| "ledger (Destroy_image data) h =
     (if h_image h \<and> \<not> data \<and> \<not> h_thread h then Some (h\<lparr>h_image := False\<rparr>) else None)"
| "ledger (Shm_get i) h = (if h_shm h = None then Some (h\<lparr>h_shm := Some i\<rparr>) else None)"
| "ledger (Shm_remove i) h =
     (if h_shm h = Some i \<and> \<not> h_mapped h then Some (h\<lparr>h_shm := None\<rparr>) else None)"
| "ledger Shm_map h =
     (if h_shm h \<noteq> None \<and> \<not> h_mapped h then Some (h\<lparr>h_mapped := True\<rparr>) else None)"
| "ledger (Shm_unmap a) h =
     (case a of Addr_null \<Rightarrow> None | Addr_failed \<Rightarrow> Some h
      | Addr_mapped \<Rightarrow> if h_mapped h \<and> \<not> h_attached h \<and> \<not> h_thread h
                       then Some (h\<lparr>h_mapped := False\<rparr>) else None)"
| "ledger X_attach h =
     (if h_display h \<and> h_mapped h \<and> \<not> h_attached h then Some (h\<lparr>h_attached := True\<rparr>) else None)"
| "ledger X_detach h =
     (if h_display h \<and> h_attached h \<and> \<not> h_thread h then Some (h\<lparr>h_attached := False\<rparr>) else None)"
| "ledger Damage_create h =
     (if h_display h \<and> \<not> h_damage h then Some (h\<lparr>h_damage := True\<rparr>) else None)"
| "ledger Damage_destroy h =
     (if h_display h \<and> h_damage h \<and> \<not> h_thread h then Some (h\<lparr>h_damage := False\<rparr>) else None)"
| "ledger (Pipe_open r w) h =
     (if r \<in> h_fds h \<or> w \<in> h_fds h then None else Some (h\<lparr>h_fds := {r, w} \<union> h_fds h\<rparr>))"
| "ledger (Fd_close f) h =
     (if f \<in> h_fds h \<and> \<not> h_thread h then Some (h\<lparr>h_fds := h_fds h - {f}\<rparr>) else None)"
| "ledger X_sync h = (if h_display h then Some h else None)"
| "ledger Thread_new h = (if h_thread h then None else Some (h\<lparr>h_thread := True\<rparr>))"
| "ledger (Write_wake_byte f) h = (if f \<in> h_fds h then Some h else None)"
| "ledger Thread_join h = (if h_thread h then Some (h\<lparr>h_thread := False\<rparr>) else None)"

fun ledger_run :: "x11_event list \<Rightarrow> held \<Rightarrow> held option" where
  "ledger_run [] h = Some h"
| "ledger_run (e # es) h = (case ledger e h of None \<Rightarrow> None | Some h' \<Rightarrow> ledger_run es h')"

lemma ledger_run_append:
  "ledger_run (es @ fs) h = (case ledger_run es h of None \<Rightarrow> None | Some h' \<Rightarrow> ledger_run fs h')"
  by (induction es arbitrary: h) (auto split: option.splits)

lemma ledger_run_then: "ledger_run es h = Some h1 \<Longrightarrow> ledger_run (es @ fs) h = ledger_run fs h1"
  by (simp add: ledger_run_append)

text \<open>What the fields of the capture object say is held.\<close>

definition pipe_fds :: "int \<Rightarrow> int \<Rightarrow> int set" where
  "pipe_fds r w = set (filter (\<lambda>f. 0 \<le> f) [r, w])"

definition held_by :: "x11_capture \<Rightarrow> held" where
  "held_by s = \<lparr>h_display = cx_display s, h_image = (cx_image s \<noteq> None),
     h_shm = (if 0 \<le> cx_shmid s then Some (cx_shmid s) else None),
     h_mapped = (cx_shmaddr s = Addr_mapped), h_attached = cx_attached s,
     h_damage = (cx_damage s \<noteq> 0), h_fds = pipe_fds (cx_pipe_read s) (cx_pipe_write s),
     h_thread = cx_thread s\<rparr>"

text \<open>The state between two operations: everything or nothing is held.\<close>

definition cx_idle :: "x11_capture \<Rightarrow> bool" where
  "cx_idle s \<longleftrightarrow> \<not> cx_running s \<and> \<not> cx_thread s \<and> \<not> cx_display s \<and> cx_image s = None \<and>
     cx_shmid s < 0 \<and> cx_shmaddr s = Addr_null \<and> \<not> cx_attached s \<and> cx_damage s = 0 \<and>
     cx_pipe_read s < 0 \<and> cx_pipe_write s < 0"

definition cx_active :: "x11_capture \<Rightarrow> bool" where
  "cx_active s \<longleftrightarrow> cx_running s \<and> cx_thread s \<and> cx_display s \<and> cx_image s \<noteq> None \<and>
     0 \<le> cx_shmid s \<and> cx_shmaddr s = Addr_mapped \<and> cx_attached s \<and> cx_damage s \<noteq> 0 \<and>
     0 \<le> cx_pipe_read s \<and> 0 \<le> cx_pipe_write s \<and> cx_pipe_read s \<noteq> cx_pipe_write s"

definition cx_inv :: "x11_capture \<Rightarrow> bool" where
  "cx_inv s \<longleftrightarrow> cx_idle s \<or> cx_active s"

text \<open>Documented: \<open>pipe\<close> returns two different descriptors.\<close>

definition pipe_documented :: "x11_answers \<Rightarrow> bool" where
  "pipe_documented ans \<longleftrightarrow> (case a_pipe ans of None \<Rightarrow> True | Some (r, w) \<Rightarrow> 0 \<le> r \<and> 0 \<le> w \<and> r \<noteq> w)"

lemma pipe_fds_simps:
  "r < 0 \<Longrightarrow> w < 0 \<Longrightarrow> pipe_fds r w = {}"
  "r < 0 \<Longrightarrow> 0 \<le> w \<Longrightarrow> pipe_fds r w = {w}"
  "0 \<le> r \<Longrightarrow> w < 0 \<Longrightarrow> pipe_fds r w = {r}"
  "0 \<le> r \<Longrightarrow> 0 \<le> w \<Longrightarrow> pipe_fds r w = {r, w}"
  by (simp_all add: pipe_fds_def)

lemma idle_holds_nothing: "cx_idle s \<Longrightarrow> held_by s = nothing_held"
  by (simp add: cx_idle_def held_by_def nothing_held_def pipe_fds_simps)

lemma init_idle: "cx_idle drd_x11_capture_init"
  by (simp add: cx_idle_def drd_x11_capture_init_def)

text \<open>A state in which \<open>cleanup_locked\<close> may be called: the thread is gone, and what needs the
  display or the mapping is only held together with it.\<close>

definition cleanable :: "x11_capture \<Rightarrow> bool" where
  "cleanable s \<longleftrightarrow> \<not> cx_thread s \<and> (cx_damage s \<noteq> 0 \<longrightarrow> cx_display s) \<and>
     (cx_attached s \<longrightarrow> cx_display s)"

definition released :: "x11_capture \<Rightarrow> x11_capture" where
  "released s = s\<lparr>cx_damage := 0, cx_attached := False, cx_image := None, cx_shmaddr := Addr_null,
     cx_shmid := (if 0 \<le> cx_shmid s then -1 else cx_shmid s), cx_display := False\<rparr>"

lemmas cleanup_defs = cleanup_damage_def cleanup_attached_def cleanup_image_def cleanup_shm_def
  cleanup_display_def

lemma cleanup_damage_ledger:
  "cleanable s \<Longrightarrow> cleanup_damage s = (s', es) \<Longrightarrow>
   ledger_run es (held_by s) = Some (held_by s') \<and> s' = s\<lparr>cx_damage := 0\<rparr> \<and> cleanable s'"
  by (auto simp: cleanup_damage_def cleanable_def held_by_def split: if_splits)

lemma cleanup_attached_ledger:
  "cleanable s \<Longrightarrow> cleanup_attached s = (s', es) \<Longrightarrow>
   ledger_run es (held_by s) = Some (held_by s') \<and> s' = s\<lparr>cx_attached := False\<rparr> \<and> cleanable s'"
  by (auto simp: cleanup_attached_def cleanable_def held_by_def split: if_splits)

lemma cleanup_image_ledger:
  "cleanable s \<Longrightarrow> cleanup_image s = (s', es) \<Longrightarrow>
   ledger_run es (held_by s) = Some (held_by s') \<and> s' = s\<lparr>cx_image := None\<rparr> \<and> cleanable s'"
  by (auto simp: cleanup_image_def cleanable_def held_by_def split: option.splits)

lemma cleanup_shm_ledger:
  "cleanable s \<Longrightarrow> \<not> cx_attached s \<Longrightarrow> cleanup_shm s = (s', es) \<Longrightarrow>
   ledger_run es (held_by s) = Some (held_by s') \<and> cleanable s' \<and>
   s' = s\<lparr>cx_shmaddr := Addr_null, cx_shmid := (if 0 \<le> cx_shmid s then -1 else cx_shmid s)\<rparr>"
  by (cases "cx_shmaddr s")
     (auto simp: cleanup_shm_def cleanable_def held_by_def split: if_splits)

lemma cleanup_display_ledger:
  "cleanable s \<Longrightarrow> \<not> cx_attached s \<Longrightarrow> cx_damage s = 0 \<Longrightarrow> cleanup_display s = (s', es) \<Longrightarrow>
   ledger_run es (held_by s) = Some (held_by s') \<and> s' = s\<lparr>cx_display := False\<rparr> \<and> cleanable s'"
  by (auto simp: cleanup_display_def cleanable_def held_by_def split: if_splits)

lemma cleanup_ledger:
  assumes "cleanable s" "drd_x11_capture_cleanup_locked s = (s', es)"
  shows "ledger_run es (held_by s) = Some (held_by s') \<and> s' = released s"
proof -
  obtain s1 e1 s2 e2 s3 e3 s4 e4 s5 e5 where c:
    "cleanup_damage s = (s1, e1)" "cleanup_attached s1 = (s2, e2)" "cleanup_image s2 = (s3, e3)"
    "cleanup_shm s3 = (s4, e4)" "cleanup_display s4 = (s5, e5)"
    by (metis surj_pair)
  note r1 = cleanup_damage_ledger [OF assms(1) c(1)]
  note r2 = cleanup_attached_ledger [OF _ c(2)]
  note r3 = cleanup_image_ledger [OF _ c(3)]
  note r4 = cleanup_shm_ledger [OF _ _ c(4)]
  note r5 = cleanup_display_ledger [OF _ _ _ c(5)]
  have "s' = s5" "es = e1 @ e2 @ e3 @ e4 @ e5"
    using assms(2) c by (auto simp: drd_x11_capture_cleanup_locked_def Let_def)
  with r1 r2 r3 r4 r5 show ?thesis
    by (auto simp: ledger_run_append released_def)
qed

definition no_pipe :: "x11_capture \<Rightarrow> x11_capture" where
  "no_pipe s = s\<lparr>cx_pipe_read := (if 0 \<le> cx_pipe_read s then -1 else cx_pipe_read s),
     cx_pipe_write := (if 0 \<le> cx_pipe_write s then -1 else cx_pipe_write s)\<rparr>"

lemma close_pipe_eq: "drd_x11_capture_close_wakeup_pipe s =
    (no_pipe s, map Fd_close (filter (\<lambda>f. 0 \<le> f) [cx_pipe_read s, cx_pipe_write s]))"
  by (simp add: drd_x11_capture_close_wakeup_pipe_def no_pipe_def)

lemma close_fds_ledger:
  "\<not> h_thread h \<Longrightarrow> distinct fs \<Longrightarrow> set fs = h_fds h \<Longrightarrow>
   ledger_run (map Fd_close fs) h = Some (h\<lparr>h_fds := {}\<rparr>)"
proof (induction fs arbitrary: h)
  case (Cons f fs)
  then have "set fs = h_fds h - {f}" by auto
  with Cons.prems Cons.IH [of "h\<lparr>h_fds := h_fds h - {f}\<rparr>"] show ?case by auto
qed simp

lemma close_pipe_ledger:
  assumes "\<not> cx_thread s" "0 \<le> cx_pipe_read s \<Longrightarrow> cx_pipe_read s \<noteq> cx_pipe_write s"
    "drd_x11_capture_close_wakeup_pipe s = (s', es)"
  shows "ledger_run es (held_by s) = Some (held_by s') \<and> s' = no_pipe s"
proof -
  have "ledger_run es (held_by s) = Some ((held_by s)\<lparr>h_fds := {}\<rparr>)"
    using assms unfolding close_pipe_eq
    by (auto intro!: close_fds_ledger simp: held_by_def pipe_fds_def simp del: filter.simps
        simp flip: set_filter) (simp_all split: if_splits)
  moreover have "held_by (no_pipe s) = (held_by s)\<lparr>h_fds := {}\<rparr>"
    by (simp add: held_by_def no_pipe_def pipe_fds_def)
  ultimately show ?thesis
    using assms(3) by (simp add: close_pipe_eq)
qed

text \<open>Releasing everything after the thread has gone.\<close>

lemma release_all:
  assumes "cleanable s" "0 \<le> cx_pipe_read s \<Longrightarrow> cx_pipe_read s \<noteq> cx_pipe_write s" "\<not> cx_running s"
    "drd_x11_capture_cleanup_locked s = (s1, e1)" "drd_x11_capture_close_wakeup_pipe s1 = (s2, e2)"
  shows "ledger_run (e1 @ e2) (held_by s) = Some (held_by s2) \<and> cx_idle s2"
proof -
  note c = cleanup_ledger [OF assms(1,4)]
  then have "\<not> cx_thread s1" "0 \<le> cx_pipe_read s1 \<Longrightarrow> cx_pipe_read s1 \<noteq> cx_pipe_write s1"
    using assms(1,2) by (auto simp: released_def cleanable_def)
  from close_pipe_ledger [OF this assms(5)] c show ?thesis
    using assms(1,3) by (auto simp: ledger_run_append cx_idle_def released_def cleanable_def no_pipe_def)
qed

lemma prepare_display_ledger:
  assumes "\<not> cx_display s" "cx_image s = None" "cx_shmid s < 0" "cx_shmaddr s = Addr_null"
    "\<not> cx_attached s" "cx_damage s = 0" "\<not> cx_thread s"
    "drd_x11_capture_prepare_display ans w h s = (s', es, r)"
  shows "ledger_run es (held_by s) = Some (held_by s') \<and> cleanable s' \<and>
    cx_pipe_read s' = cx_pipe_read s \<and> cx_pipe_write s' = cx_pipe_write s \<and>
    cx_running s' = cx_running s \<and>
    (is_ok r \<longrightarrow> cx_display s' \<and> cx_image s' \<noteq> None \<and> 0 \<le> cx_shmid s' \<and>
       cx_shmaddr s' = Addr_mapped \<and> cx_attached s' \<and> cx_damage s' \<noteq> 0)"
proof -
  note defs = drd_x11_capture_prepare_display_def Let_def held_by_def cleanable_def
  show ?thesis
  proof (cases "a_display ans \<and> a_shm_extension ans")
    case False
    with assms show ?thesis by (auto simp: defs split: if_splits)
  next
    case True
    show ?thesis
    proof (cases "a_damage_extension ans")
      case None
      with True assms show ?thesis by (auto simp: defs)
    next
      case (Some ev)
      note ext = True Some
      show ?thesis
      proof (cases "a_image ans")
        case None
        with ext assms show ?thesis by (auto simp: defs)
      next
        case (Some im)
        consider "a_shmget ans < 0" | "0 \<le> a_shmget ans" "\<not> a_shmat ans"
          | "0 \<le> a_shmget ans" "a_shmat ans" "\<not> a_attach ans"
          | "0 \<le> a_shmget ans" "a_shmat ans" "a_attach ans" "a_damage ans = 0"
          | "0 \<le> a_shmget ans" "a_shmat ans" "a_attach ans" "0 < a_damage ans"
          by linarith
        then show ?thesis
          by cases (use ext Some assms in \<open>cases im, simp add: drd_x11_capture_prepare_display_def
            Let_def, clarsimp simp: held_by_def cleanable_def\<close>)+
      qed
    qed
  qed
qed

lemma setup_pipe_ledger:
  assumes "cx_idle s" "pipe_documented ans"
    "drd_x11_capture_setup_wakeup_pipe ans (s\<lparr>cx_display_name := n\<rparr>) = (s', es, r)"
  shows "ledger_run es (held_by s) = Some (held_by s') \<and>
    (case r of Inl _ \<Rightarrow> cx_idle s'
     | Inr _ \<Rightarrow> \<exists>p q. 0 \<le> p \<and> 0 \<le> q \<and> p \<noteq> q \<and>
         s' = s\<lparr>cx_display_name := n, cx_pipe_read := p, cx_pipe_write := q\<rparr>)"
proof (cases "a_pipe ans")
  case None
  with assms show ?thesis
    by (simp add: drd_x11_capture_setup_wakeup_pipe_def cx_idle_def)
       (clarsimp simp: held_by_def cx_idle_def)
next
  case (Some a)
  obtain p q where a: "a = (p, q)" by (cases a)
  with Some assms(2) have "0 \<le> p" "0 \<le> q" "p \<noteq> q" by (auto simp: pipe_documented_def)
  have "\<not> (0 \<le> cx_pipe_read s \<and> 0 \<le> cx_pipe_write s)"
    using assms(1) by (simp add: cx_idle_def)
  with Some a assms(3) have eq:
    "s' = s\<lparr>cx_display_name := n, cx_pipe_read := p, cx_pipe_write := q\<rparr>"
    "es = [Pipe_open p q]" "r = ok"
    by (simp_all add: drd_x11_capture_setup_wakeup_pipe_def)
  have "ledger_run es (held_by s) = Some (held_by s')"
    using assms(1) \<open>0 \<le> p\<close> \<open>0 \<le> q\<close>
    unfolding eq by (simp add: held_by_def cx_idle_def pipe_fds_simps)
  moreover have "\<exists>p' q'. 0 \<le> p' \<and> 0 \<le> q' \<and> p' \<noteq> q' \<and>
      s' = s\<lparr>cx_display_name := n, cx_pipe_read := p', cx_pipe_write := q'\<rparr>"
    using eq(1) \<open>0 \<le> p\<close> \<open>0 \<le> q\<close> \<open>p \<noteq> q\<close> by blast
  ultimately show ?thesis using eq(3) by simp
qed

lemma thread_new_ledger:
  "\<not> cx_thread s \<Longrightarrow> ledger_run [Thread_new] (held_by s) =
     Some (held_by (s\<lparr>cx_running := True, cx_thread := True\<rparr>))"
  by (simp add: held_by_def)

lemma start_ledger:
  assumes "cx_inv s" "pipe_documented ans" "drd_x11_capture_start ans n w h s = (s', es, r)"
  shows "ledger_run es (held_by s) = Some (held_by s') \<and>
    (if is_ok r then cx_active s' else cx_idle s')"
proof (cases "cx_running s")
  case True
  then show ?thesis
    using assms by (auto simp: drd_x11_capture_start_def cx_inv_def cx_idle_def)
next
  case False
  then have idle: "cx_idle s" using assms(1) by (auto simp: cx_inv_def cx_active_def)
  obtain s1 e1 r1 where p:
    "drd_x11_capture_setup_wakeup_pipe ans (s\<lparr>cx_display_name := n\<rparr>) = (s1, e1, r1)"
    by (metis surj_pair)
  note P = setup_pipe_ledger [OF idle assms(2) p]
  show ?thesis
  proof (cases r1)
    case (Inl e)
    with P p assms(3) False show ?thesis by (auto simp: drd_x11_capture_start_def)
  next
    case (Inr u)
    then obtain a b where s1: "0 \<le> a" "0 \<le> b" "a \<noteq> b"
      "s1 = s\<lparr>cx_display_name := n, cx_pipe_read := a, cx_pipe_write := b\<rparr>"
      using P by auto
    have pre: "\<not> cx_display s1" "cx_image s1 = None" "cx_shmid s1 < 0" "cx_shmaddr s1 = Addr_null"
      "\<not> cx_attached s1" "cx_damage s1 = 0" "\<not> cx_thread s1"
      using idle by (auto simp: s1(4) cx_idle_def)
    obtain s2 e2 r2 where d: "drd_x11_capture_prepare_display ans w h s1 = (s2, e2, r2)"
      by (metis surj_pair)
    note D = prepare_display_ledger [OF pre d]
    show ?thesis
    proof (cases r2)
      case (Inr v)
      then have "s' = s2\<lparr>cx_running := True, cx_thread := True\<rparr>" "es = e1 @ e2 @ [Thread_new]"
        "is_ok r"
        using p d \<open>r1 = Inr u\<close> assms(3) False by (auto simp: drd_x11_capture_start_def)
      moreover have "cx_active (s2\<lparr>cx_running := True, cx_thread := True\<rparr>)"
        using D Inr s1 by (auto simp: cx_active_def)
      moreover have "\<not> cx_thread s2" using D by (simp add: cleanable_def)
      ultimately show ?thesis
        using P D thread_new_ledger [of s2]
        by (simp only: ledger_run_append simp_thms option.case if_True)
    next
      case (Inl e)
      obtain s3 e3 s4 e4 where c: "drd_x11_capture_cleanup_locked s2 = (s3, e3)"
        "drd_x11_capture_close_wakeup_pipe s3 = (s4, e4)"
        by (metis surj_pair)
      have "cleanable s2" "0 \<le> cx_pipe_read s2 \<Longrightarrow> cx_pipe_read s2 \<noteq> cx_pipe_write s2"
        "\<not> cx_running s2"
        using D s1 False by auto
      note R = release_all [OF this c]
      have "s' = s4" "es = e1 @ e2 @ e3 @ e4" "\<not> is_ok r"
        using p d c Inl \<open>r1 = Inr u\<close> assms(3) False by (auto simp: drd_x11_capture_start_def)
      with P D R show ?thesis by (auto simp: ledger_run_append split: option.splits)
    qed
  qed
qed

lemma stop_ledger:
  assumes "cx_inv s" "drd_x11_capture_stop s = (s', es)"
  shows "ledger_run es (held_by s) = Some (held_by s') \<and> cx_idle s'"
proof (cases "cx_running s")
  case False
  then show ?thesis
    using assms by (auto simp: drd_x11_capture_stop_def cx_inv_def cx_active_def)
next
  case True
  then have act: "cx_active s" using assms(1) by (auto simp: cx_inv_def cx_idle_def)
  define s0 where "s0 = s\<lparr>cx_running := False, cx_thread := False\<rparr>"
  obtain s1 e1 s2 e2 where c: "drd_x11_capture_cleanup_locked s0 = (s1, e1)"
    "drd_x11_capture_close_wakeup_pipe s1 = (s2, e2)"
    by (metis surj_pair)
  have "cleanable s0" "0 \<le> cx_pipe_read s0 \<Longrightarrow> cx_pipe_read s0 \<noteq> cx_pipe_write s0"
    "\<not> cx_running s0"
    using act by (auto simp: s0_def cleanable_def cx_active_def)
  note R = release_all [OF this c]
  have run: "s' = s2" "es = [X_sync, Write_wake_byte (cx_pipe_write s), Thread_join] @ e1 @ e2"
    using assms(2) act c True
    by (auto simp: drd_x11_capture_stop_def stop_request_def stop_finish_def s0_def cx_active_def
        Let_def split: prod.splits)
  have "ledger_run [X_sync, Write_wake_byte (cx_pipe_write s), Thread_join] (held_by s)
      = Some (held_by s0)"
    using act by (simp add: held_by_def cx_active_def s0_def pipe_fds_simps)
  from ledger_run_then [OF this, of "e1 @ e2"] R show ?thesis
    unfolding run by (simp only: simp_thms)
qed

text \<open>A sequence of starts, with whatever X11 and the kernel answer, and stops.\<close>

datatype cx_op = Op_start x11_answers "string option" nat nat | Op_stop

fun cx_op_ok :: "cx_op \<Rightarrow> bool" where
  "cx_op_ok (Op_start ans n w h) = pipe_documented ans"
| "cx_op_ok Op_stop = True"

fun cx_step :: "cx_op \<Rightarrow> x11_capture \<times> x11_event list \<Rightarrow> x11_capture \<times> x11_event list" where
  "cx_step (Op_start ans n w h) (s, tr) =
     (case drd_x11_capture_start ans n w h s of (s', es, _) \<Rightarrow> (s', tr @ es))"
| "cx_step Op_stop (s, tr) = (case drd_x11_capture_stop s of (s', es) \<Rightarrow> (s', tr @ es))"

lemma cx_step_ledger:
  assumes "cx_op_ok a" "cx_inv s" "ledger_run tr nothing_held = Some (held_by s)"
    "cx_step a (s, tr) = (s', tr')"
  shows "cx_inv s' \<and> ledger_run tr' nothing_held = Some (held_by s')"
proof (cases a)
  case (Op_start ans n w h)
  obtain s1 es r where st: "drd_x11_capture_start ans n w h s = (s1, es, r)" by (metis surj_pair)
  with assms Op_start start_ledger [OF _ _ st] show ?thesis
    by (auto simp: ledger_run_append cx_inv_def split: if_splits)
next
  case Op_stop
  obtain s1 es where st: "drd_x11_capture_stop s = (s1, es)" by (metis surj_pair)
  with assms Op_stop stop_ledger [OF _ st] show ?thesis
    by (auto simp: ledger_run_append cx_inv_def)
qed

lemma cx_steps_ledger:
  "\<forall>a\<in>set ops. cx_op_ok a \<Longrightarrow> cx_inv s \<Longrightarrow> ledger_run tr nothing_held = Some (held_by s) \<Longrightarrow>
   fold cx_step ops (s, tr) = (s', tr') \<Longrightarrow>
   cx_inv s' \<and> ledger_run tr' nothing_held = Some (held_by s')"
proof (induction ops arbitrary: s tr)
  case (Cons a ops)
  obtain s1 tr1 where "cx_step a (s, tr) = (s1, tr1)" by (metis surj_pair)
  with Cons.prems cx_step_ledger [of a s tr s1 tr1] show ?case
    by (intro Cons.IH [of s1 tr1]) simp_all
qed simp

text \<open>
  C26: no X11 or kernel resource of the capture leaks: after any sequence of starts, whatever
  Xlib and the kernel answer at each of them, and stops, the acquisitions and releases form a
  correct ledger (nothing is acquired over a live handle, released twice, released in the wrong
  order or under the running thread), its balance is exactly what the fields of the object
  say, and a capture that is not running (never started, failed to start, or stopped) holds
  nothing at all.
\<close>

theorem capture_resources_balanced:
  assumes "\<forall>a\<in>set ops. cx_op_ok a" "fold cx_step ops (drd_x11_capture_init, []) = (s, tr)"
  shows "ledger_run tr nothing_held = Some (held_by s) \<and>
    (if cx_running s then cx_active s else held_by s = nothing_held)"
proof -
  have "cx_inv s \<and> ledger_run tr nothing_held = Some (held_by s)"
    by (rule cx_steps_ledger [OF assms(1) _ _ assms(2)])
       (simp_all add: cx_inv_def init_idle idle_holds_nothing)
  then show ?thesis
    by (auto simp: cx_inv_def cx_idle_def cx_active_def idle_holds_nothing)
qed

definition witness_answers :: x11_answers where
  "witness_answers = \<lparr>a_display = True, a_shm_extension = True, a_damage_extension = Some 91,
     a_display_width = 2, a_display_height = 1, a_image = Some (8, 1), a_shmget = 7, a_errno = 0,
     a_shmat = True, a_attach = True, a_damage = 5, a_pipe = Some (3, 4)\<rparr>"

theorem capture_resources_balanced_witness:
  "\<exists>s tr. fold cx_step [Op_start (witness_answers\<lparr>a_attach := False\<rparr>) None 0 0,
       Op_start witness_answers None 0 0, Op_stop] (drd_x11_capture_init, []) = (s, tr) \<and>
     length tr = 31 \<and> ledger_run tr nothing_held = Some (held_by s) \<and> held_by s = nothing_held"
proof -
  let ?ops = "[Op_start (witness_answers\<lparr>a_attach := False\<rparr>) None 0 0,
    Op_start witness_answers None 0 0, Op_stop]"
  obtain s tr where r: "fold cx_step ?ops (drd_x11_capture_init, []) = (s, tr)"
    by (metis surj_pair)
  have "case fold cx_step ?ops (drd_x11_capture_init, []) of (s, tr) \<Rightarrow>
      length tr = 31 \<and> \<not> cx_running s"
    by code_simp
  with r have "length tr = 31 \<and> \<not> cx_running s" by simp
  with r capture_resources_balanced [OF _ r] show ?thesis
    by (auto simp: pipe_documented_def witness_answers_def)
qed

end
