(* ===== verification/Frame_Queue_Wait.thy ===== *)
theory Frame_Queue_Wait
  imports Frame_Queue
begin

text \<open>
  The frame queue shared by threads: any number of consumers blocked in
  \<open>drd_frame_queue_wait\<close> and a producer that pushes, stops and resets
  (\<^verbatim>\<open>src/utils/drd_frame_queue.c\<close>). A step is one critical section of the mutex, a
  broadcast wakes every sleeper, and a sleeper may also wake by its deadline or spuriously.
  The logs record the accepted and the delivered frames since the last reset.
\<close>

datatype 'f waiter = Idle | Asleep int int | Woken int int bool | Done bool "'f option"

record 'f fq_sys =
  sq :: "'f frame_queue"
  waiters :: "nat \<Rightarrow> 'f waiter"
  accepted :: "'f list"
  delivered :: "'f list"

definition fq_sys_init :: "'f fq_sys" where
  "fq_sys_init = \<lparr>sq = drd_frame_queue_init, waiters = (\<lambda>_. Idle), accepted = [], delivered = []\<rparr>"

text \<open>\<open>g_cond_broadcast\<close>: every sleeper is scheduled to re-acquire the mutex.\<close>

fun wake :: "'f waiter \<Rightarrow> 'f waiter" where
  "wake (Asleep t d) = Woken t d False"
| "wake w = w"

text \<open>The outcome of a critical section of \<open>wait\<close> becomes the thread's state.\<close>

fun settle :: "'f wait_outcome \<Rightarrow> 'f waiter" where
  "settle (Sleeping t d) = Asleep t d"
| "settle (Returned r f) = Done r f"

definition log_delivery :: "'f wait_outcome \<Rightarrow> 'f list \<Rightarrow> 'f list" where
  "log_delivery out xs = (case out of Returned True (Some f) \<Rightarrow> xs @ [f] | _ \<Rightarrow> xs)"

definition run_wait :: "'f fq_sys \<Rightarrow> nat \<Rightarrow> 'f frame_queue \<times> 'f wait_outcome \<Rightarrow> 'f fq_sys" where
  "run_wait s i r = s\<lparr>sq := fst r, waiters := (waiters s)(i := settle (snd r)),
     delivered := log_delivery (snd r) (delivered s)\<rparr>"

inductive fq_trans :: "'f fq_sys \<Rightarrow> 'f fq_sys \<Rightarrow> bool" where
  push: "q_running (sq s) \<Longrightarrow>
     fq_trans s (s\<lparr>sq := drd_frame_queue_push (sq s) f, waiters := wake \<circ> waiters s,
       accepted := accepted s @ [f]\<rparr>)"
| push_stopped: "\<not> q_running (sq s) \<Longrightarrow> fq_trans s (s\<lparr>sq := drd_frame_queue_push (sq s) f\<rparr>)"
| stop: "fq_trans s (s\<lparr>sq := drd_frame_queue_stop (sq s), waiters := wake \<circ> waiters s\<rparr>)"
| reset: "fq_trans s (s\<lparr>sq := drd_frame_queue_reset (sq s), waiters := wake \<circ> waiters s,
       accepted := [], delivered := []\<rparr>)"
| enter: "waiters s i = Idle \<Longrightarrow> fq_trans s (run_wait s i (wait_enter (sq s) now t))"
| deadline: "waiters s i = Asleep t d \<Longrightarrow> 0 < t \<Longrightarrow>
     fq_trans s (s\<lparr>waiters := (waiters s)(i := Woken t d True)\<rparr>)"
| spurious: "waiters s i = Asleep t d \<Longrightarrow>
     fq_trans s (s\<lparr>waiters := (waiters s)(i := Woken t d False)\<rparr>)"
| resume: "waiters s i = Woken t d b \<Longrightarrow> fq_trans s (run_wait s i (wait_resume (sq s) t d b))"
| again: "waiters s i = Done r f \<Longrightarrow> fq_trans s (s\<lparr>waiters := (waiters s)(i := Idle)\<rparr>)"

inductive fq_reachable :: "'f fq_sys \<Rightarrow> bool" where
  start: "fq_reachable fq_sys_init"
| step: "fq_reachable s \<Longrightarrow> fq_trans s s' \<Longrightarrow> fq_reachable s'"

text \<open>
  The invariant: the ring is well formed; a thread that sleeps without a pending wake-up
  sleeps on a running, empty queue (so no wake-up is ever lost) and has a non-zero timeout;
  every accepted frame was delivered, is in the ring, or is counted as dropped, and the
  delivered frames followed by the queued ones are in the order of acceptance.
\<close>

definition sleepers_ok :: "'f fq_sys \<Rightarrow> bool" where
  "sleepers_ok s \<longleftrightarrow> (\<forall>i t d. waiters s i = Asleep t d \<longrightarrow>
     t \<noteq> 0 \<and> q_running (sq s) \<and> q_size (sq s) = 0)"

definition frames_ok :: "'f fq_sys \<Rightarrow> bool" where
  "frames_ok s \<longleftrightarrow> subseq (delivered s @ fq_abs (sq s)) (accepted s) \<and>
     of_nat (length (accepted s)) = of_nat (length (delivered s) + q_size (sq s)) +
       q_dropped_frames (sq s)"

definition fq_inv :: "'f fq_sys \<Rightarrow> bool" where
  "fq_inv s \<longleftrightarrow> fq_wf (sq s) \<and> sleepers_ok s \<and> frames_ok s"

subsection \<open>One critical section of wait\<close>

text \<open>What a critical section that runs the loop head or the final block may do: sleep on
  a running empty queue, return FALSE and leave the queue alone, or take the head frame.\<close>

definition wait_effect :: "'f frame_queue \<Rightarrow> 'f frame_queue \<times> 'f wait_outcome \<Rightarrow> bool" where
  "wait_effect q r \<longleftrightarrow>
     (fst r = q \<and> snd r = Returned False None) \<or>
     (fst r = q \<and> q_running q \<and> q_size q = 0 \<and> (\<exists>t d. t \<noteq> 0 \<and> snd r = Sleeping t d)) \<or>
     (q_running q \<and> 0 < q_size q \<and> fst r = advance_head q \<and>
       snd r = Returned True (Some (hd (fq_abs q))))"

lemma loop_head_effect: "fq_wf q \<Longrightarrow> wait_effect q (wait_loop_head q t d)"
  by (auto simp: wait_effect_def wait_loop_head_def wait_finish_def head_frame)

lemma enter_effect: "fq_wf q \<Longrightarrow> wait_effect q (wait_enter q now t)"
  unfolding wait_enter_def
  by (cases "q_running q") (simp_all add: loop_head_effect, simp add: wait_effect_def)

lemma resume_effect: "fq_wf q \<Longrightarrow> wait_effect q (wait_resume q t d b)"
  unfolding wait_resume_def
  by (auto simp: loop_head_effect) (auto simp: wait_effect_def wait_finish_def head_frame)

lemma advance_head_dropped [simp]: "q_dropped_frames (advance_head q) = q_dropped_frames q"
  by (simp add: advance_head_def)

lemma advance_head_size [simp]: "q_size (advance_head q) = q_size q - 1"
  by (simp add: advance_head_def)

lemma run_wait_inv:
  assumes inv: "fq_inv s" and eff: "wait_effect (sq s) r"
  shows "fq_inv (run_wait s i r)"
proof -
  consider (none) "r = (sq s, Returned False None)"
    | (sleep) t d where "r = (sq s, Sleeping t d)" "t \<noteq> 0" "q_running (sq s)" "q_size (sq s) = 0"
    | (take) "r = (advance_head (sq s), Returned True (Some (hd (fq_abs (sq s)))))"
        "q_running (sq s)" "0 < q_size (sq s)"
    using eff by (cases r) (auto simp: wait_effect_def)
  then show ?thesis
  proof cases
    case none
    then show ?thesis
      using inv by (auto simp: fq_inv_def run_wait_def sleepers_ok_def frames_ok_def log_delivery_def)
  next
    case sleep
    then show ?thesis
      using inv by (auto simp: fq_inv_def run_wait_def sleepers_ok_def frames_ok_def log_delivery_def)
  next
    case take
    have wf: "fq_wf (sq s)" using inv by (simp add: fq_inv_def)
    have "fq_abs (sq s) \<noteq> []" using take(3) by (simp add: fq_abs_Nil)
    then have split: "fq_abs (sq s) = hd (fq_abs (sq s)) # tl (fq_abs (sq s))" by simp
    have "\<nexists>j t d. waiters s j = Asleep t d"
      using inv take(3) by (auto simp: fq_inv_def sleepers_ok_def)
    moreover have "frames_ok (run_wait s i r)"
      using inv take wf split
      by (auto simp: fq_inv_def run_wait_def frames_ok_def log_delivery_def advance_head_abs)
    ultimately show ?thesis
      using inv take wf
      by (auto simp: fq_inv_def run_wait_def sleepers_ok_def advance_head_wf)
  qed
qed

lemma wake_not_asleep [simp]: "wake w \<noteq> Asleep t d"
  by (cases w) auto

lemma subseq_snoc: "subseq xs ys \<Longrightarrow> subseq (xs @ [y]) (ys @ [y])"
  by (simp add: list_emb_append_mono)

lemma subseq_drop_middle: "subseq (xs @ z # ys) zs \<Longrightarrow> subseq (xs @ ys) zs"
  by (meson list_emb_append_mono subseq_Cons' subseq_order.order_refl subseq_order.order_trans)

lemma push_sizes:
  assumes "q_running q"
  shows "q_size (drd_frame_queue_push q f) =
      (if q_size q = DRD_FRAME_QUEUE_MAX_FRAMES then q_size q else q_size q + 1)"
    and "q_dropped_frames (drd_frame_queue_push q f) =
      (if q_size q = DRD_FRAME_QUEUE_MAX_FRAMES then q_dropped_frames q + 1
       else q_dropped_frames q)"
  using assms by (auto simp: push_eq append_tail_def drop_oldest_def)

lemma push_frames_ok:
  assumes inv: "fq_inv s" and run: "q_running (sq s)"
  shows "frames_ok (s\<lparr>sq := drd_frame_queue_push (sq s) f, waiters := w,
    accepted := accepted s @ [f]\<rparr>)"
proof (cases "q_size (sq s) = DRD_FRAME_QUEUE_MAX_FRAMES")
  case True
  have wf: "fq_wf (sq s)" using inv by (simp add: fq_inv_def)
  have "fq_abs (sq s) \<noteq> []" using True by (simp add: fq_abs_Nil)
  then have "fq_abs (sq s) = hd (fq_abs (sq s)) # tl (fq_abs (sq s))" by simp
  then have "subseq (delivered s @ tl (fq_abs (sq s))) (accepted s)"
    using inv by (metis fq_inv_def frames_ok_def subseq_drop_middle)
  then have "subseq ((delivered s @ tl (fq_abs (sq s))) @ [f]) (accepted s @ [f])"
    by (rule subseq_snoc)
  with True inv run wf show ?thesis
    by (simp add: frames_ok_def push_abs push_sizes fq_inv_def)
next
  case False
  then have "subseq ((delivered s @ fq_abs (sq s)) @ [f]) (accepted s @ [f])"
    using inv by (intro subseq_snoc) (simp add: fq_inv_def frames_ok_def)
  with False inv run show ?thesis
    by (simp add: frames_ok_def push_abs push_sizes fq_inv_def)
qed

lemma fq_trans_inv: "fq_trans s s' \<Longrightarrow> fq_inv s \<Longrightarrow> fq_inv s'"
proof (induction rule: fq_trans.induct)
  case (push s f)
  then have "frames_ok (s\<lparr>sq := drd_frame_queue_push (sq s) f, waiters := wake \<circ> waiters s,
    accepted := accepted s @ [f]\<rparr>)"
    by (intro push_frames_ok)
  with push show ?case by (simp add: fq_inv_def push_wf sleepers_ok_def)
next
  case (push_stopped s f)
  then have "drd_frame_queue_push (sq s) f = sq s" by (simp add: drd_frame_queue_push_def)
  with push_stopped show ?case by simp
next
  case (stop s)
  then show ?case
    by (auto simp: fq_inv_def sleepers_ok_def frames_ok_def)
       (simp_all add: drd_frame_queue_stop_def)
next
  case (reset s)
  then show ?case
    by (auto simp: fq_inv_def sleepers_ok_def frames_ok_def reset_wf)
       (simp_all add: drd_frame_queue_reset_def)
next
  case (enter s i now t)
  then show ?case by (intro run_wait_inv enter_effect) (simp_all add: fq_inv_def)
next
  case (resume s i t d b)
  then show ?case by (intro run_wait_inv resume_effect) (simp_all add: fq_inv_def)
qed (auto simp: fq_inv_def sleepers_ok_def frames_ok_def)

lemma fq_inv_init: "fq_inv fq_sys_init"
  by (simp add: fq_inv_def fq_sys_init_def sleepers_ok_def frames_ok_def init_wf)
     (simp add: drd_frame_queue_init_def)

lemma reachable_inv: "fq_reachable s \<Longrightarrow> fq_inv s"
  by (induction rule: fq_reachable.induct) (auto intro: fq_inv_init fq_trans_inv)

subsection \<open>Properties\<close>

text \<open>
  C18: no lost wake-up: in every reachable state of the shared queue, whatever the
  interleaving of pushes, stops, resets and waiting threads, a thread that is asleep with no
  pending wake-up sleeps on a queue that is running and empty, and it did not ask for a
  non-blocking read.
\<close>

theorem no_lost_wakeup:
  assumes "fq_reachable s" and "waiters s i = Asleep t d"
  shows "q_running (sq s) \<and> fq_abs (sq s) = [] \<and> t \<noteq> 0"
  using reachable_inv [OF assms(1)] assms(2)
  by (auto simp: fq_inv_def sleepers_ok_def fq_abs_Nil)

theorem no_lost_wakeup_witness:
  "\<exists>s :: nat fq_sys. fq_reachable s \<and> waiters s 0 = Asleep (-1) 0 \<and> fq_abs (sq s) = []"
proof -
  let ?s = "run_wait fq_sys_init 0 (wait_enter (sq fq_sys_init) 5 (-1)) :: nat fq_sys"
  have r: "fq_reachable ?s"
    by (rule fq_reachable.step [OF fq_reachable.start], rule fq_trans.enter)
       (simp add: fq_sys_init_def)
  have a: "waiters ?s 0 = Asleep (-1) 0"
    by (simp add: run_wait_def fq_sys_init_def wait_enter_def wait_loop_head_def
        drd_frame_queue_init_def)
  show ?thesis using no_lost_wakeup [OF r a] r a by blast
qed

text \<open>
  C24: no frame is duplicated, reordered or lost without being counted: since the last reset
  the delivered frames followed by the queued ones are a subsequence of the accepted ones,
  and the accepted frames number the delivered, the queued and the dropped ones (in the
  arithmetic of the 64-bit drop counter).
\<close>

theorem frames_conserved:
  assumes "fq_reachable s"
  shows "subseq (delivered s @ fq_abs (sq s)) (accepted s) \<and>
    (of_nat (length (accepted s)) :: u64) =
      of_nat (length (delivered s)) + of_nat (length (fq_abs (sq s))) +
      drd_frame_queue_get_dropped_frames (sq s)"
  using reachable_inv [OF assms]
  by (simp add: fq_inv_def frames_ok_def drd_frame_queue_get_dropped_frames_def)

theorem frames_conserved_witness:
  "\<exists>s :: nat fq_sys. fq_reachable s \<and> accepted s = [7] \<and>
     subseq (delivered s @ fq_abs (sq s)) (accepted s)"
proof -
  let ?s = "fq_sys_init\<lparr>sq := drd_frame_queue_push (sq fq_sys_init) 7,
     waiters := wake \<circ> waiters fq_sys_init, accepted := accepted fq_sys_init @ [7]\<rparr> :: nat fq_sys"
  have r: "fq_reachable ?s"
    by (rule fq_reachable.step [OF fq_reachable.start], rule fq_trans.push)
       (simp add: fq_sys_init_def)
  moreover have "accepted ?s = [7]" by (simp add: fq_sys_init_def)
  ultimately show ?thesis using frames_conserved [OF r] by blast
qed

end
