(* ===== verification/Service.thy ===== *)
theory Service
  imports Drd_Prelude
begin

text \<open>
  The contract of the components that a stream is made of: they are started and stopped, and in
  between they are up or down. A component that keeps the contract can be started in a chain
  with roll-back, the way \<^verbatim>\<open>src/core/drd_server_runtime.c\<close> does, and the chain is all or nothing.
\<close>

text \<open>What can be started from scratch and stopped. \<open>valid\<close> says which requests (with the
  answers of the libraries) the contract covers.\<close>

locale starter =
  fixes valid :: "'a \<Rightarrow> bool"
    and start :: "'a \<Rightarrow> 's \<Rightarrow> 's \<times> unit res"
    and stop :: "'s \<Rightarrow> 's"
    and up :: "'s \<Rightarrow> bool"
    and down :: "'s \<Rightarrow> bool"
  assumes start_down: "valid a \<Longrightarrow> down s \<Longrightarrow> start a s = (s', r) \<Longrightarrow>
      if is_ok r then up s' else down s'"
    and stop_up: "up s \<Longrightarrow> down (stop s)"
begin

lemma started_up: "valid a \<Longrightarrow> down s \<Longrightarrow> start a s = (s', Inr u) \<Longrightarrow> up s'"
  using start_down [of a s s' "Inr u"] by simp

lemma refused_down: "valid a \<Longrightarrow> down s \<Longrightarrow> start a s = (s', Inl e) \<Longrightarrow> down s'"
  using start_down [of a s s' "Inl e"] by simp

end

text \<open>A service may also be started again and stopped twice; then every sequence of requests
  leaves it up or down.\<close>

datatype 'a request = Start 'a | Stop

fun serve :: "('a \<Rightarrow> 's \<Rightarrow> 's \<times> unit res) \<Rightarrow> ('s \<Rightarrow> 's) \<Rightarrow> 'a request \<Rightarrow> 's \<Rightarrow> 's" where
  "serve start stop (Start a) s = fst (start a s)"
| "serve start stop Stop s = stop s"

fun covered :: "('a \<Rightarrow> bool) \<Rightarrow> 'a request \<Rightarrow> bool" where
  "covered valid (Start a) = valid a"
| "covered valid Stop = True"

locale service = starter +
  assumes start_up: "valid a \<Longrightarrow> up s \<Longrightarrow> start a s = (s', r) \<Longrightarrow> up s' \<and> is_ok r"
    and stop_down: "down s \<Longrightarrow> down (stop s)"
begin

lemma serve_settled: "covered valid q \<Longrightarrow> up s \<or> down s \<Longrightarrow>
    up (serve start stop q s) \<or> down (serve start stop q s)"
proof (cases q)
  case (Start a)
  assume "covered valid q" "up s \<or> down s"
  then show ?thesis
    using Start start_down [of a s "fst (start a s)" "snd (start a s)"]
      start_up [of a s "fst (start a s)" "snd (start a s)"]
    by (auto split: if_splits)
qed (auto intro: stop_up stop_down)

lemma requests_settled:
  "\<forall>q\<in>set qs. covered valid q \<Longrightarrow> up s \<or> down s \<Longrightarrow>
   up (fold (serve start stop) qs s) \<or> down (fold (serve start stop) qs s)"
  by (induction qs arbitrary: s) (auto dest: serve_settled)

lemma stopped_is_down:
  "\<forall>q\<in>set qs. covered valid q \<Longrightarrow> up s \<or> down s \<Longrightarrow> down (stop (fold (serve start stop) qs s))"
  using requests_settled stop_up stop_down by blast

end

text \<open>Three components started in order; when one refuses, those before it are stopped again,
  the last one first.\<close>

definition chain_start ::
    "('a \<Rightarrow> 's \<Rightarrow> 's \<times> unit res) \<Rightarrow> ('s \<Rightarrow> 's) \<Rightarrow> ('b \<Rightarrow> 't \<Rightarrow> 't \<times> unit res) \<Rightarrow> ('t \<Rightarrow> 't) \<Rightarrow>
     ('c \<Rightarrow> 'u \<Rightarrow> 'u \<times> unit res) \<Rightarrow> 'a \<Rightarrow> 'b \<Rightarrow> 'c \<Rightarrow> 's \<times> 't \<times> 'u \<Rightarrow> ('s \<times> 't \<times> 'u) \<times> unit res" where
  "chain_start start1 stop1 start2 stop2 start3 a b c st = (case st of (s, t, u) \<Rightarrow>
     (case start1 a s of
        (s1, Inl e) \<Rightarrow> ((s1, t, u), Inl e)
      | (s1, Inr _) \<Rightarrow>
     (case start2 b t of
        (t1, Inl e) \<Rightarrow> ((stop1 s1, t1, u), Inl e)
      | (t1, Inr _) \<Rightarrow>
     (case start3 c u of
        (u1, Inl e) \<Rightarrow> ((stop1 s1, stop2 t1, u1), Inl e)
      | (u1, Inr _) \<Rightarrow> ((s1, t1, u1), ok)))))"

locale service_chain =
  A: starter valid1 start1 stop1 up1 down1 +
  B: starter valid2 start2 stop2 up2 down2 +
  C: starter valid3 start3 stop3 up3 down3
  for valid1 :: "'a \<Rightarrow> bool" and start1 :: "'a \<Rightarrow> 's \<Rightarrow> 's \<times> unit res" and stop1 up1 down1
    and valid2 :: "'b \<Rightarrow> bool" and start2 :: "'b \<Rightarrow> 't \<Rightarrow> 't \<times> unit res" and stop2 up2 down2
    and valid3 :: "'c \<Rightarrow> bool" and start3 :: "'c \<Rightarrow> 'u \<Rightarrow> 'u \<times> unit res" and stop3 up3 down3
begin

lemma chain_all_or_nothing:
  assumes "valid1 a" "valid2 b" "valid3 c" "down1 s" "down2 t" "down3 u"
    "chain_start start1 stop1 start2 stop2 start3 a b c (s, t, u) = ((s', t', u'), r)"
  shows "if is_ok r then up1 s' \<and> up2 t' \<and> up3 u' else down1 s' \<and> down2 t' \<and> down3 u'"
proof -
  obtain s1 r1 t1 r2 u1 r3 where st: "start1 a s = (s1, r1)" "start2 b t = (t1, r2)"
    "start3 c u = (u1, r3)"
    by (metis surj_pair)
  note A = A.start_down [OF assms(1,4) st(1)] and B = B.start_down [OF assms(2,5) st(2)]
    and C = C.start_down [OF assms(3,6) st(3)]
  show ?thesis
    using assms(4-7) st A B C
    by (cases r1; cases r2; cases r3)
       (auto simp: chain_start_def intro: A.stop_up B.stop_up)
qed

end

end
