(* ===== verification/Capture_Manager.thy ===== *)
theory Capture_Manager
  imports X11_Capture_Safety Frame_Queue_Wait Service
begin

text \<open>
  The capture manager of \<^verbatim>\<open>src/capture/drd_capture_manager.c\<close>: it owns the frame queue and the
  X11 capture and starts and stops them together. Its wait for a frame is the whole
  \<open>drd_frame_queue_wait\<close>: what other threads do to the queue while the waiter sleeps, and
  whether the sleep timed out, is a list, and running out of it (\<open>None\<close>) means still asleep.
\<close>

fun queue_wait_run ::
    "(('f frame_queue \<Rightarrow> 'f frame_queue) \<times> bool) list \<Rightarrow> 'f frame_queue \<times> 'f wait_outcome \<Rightarrow>
     ('f frame_queue \<times> bool \<times> 'f option) option" where
  "queue_wait_run ws (q, Returned r f) = Some (q, r, f)"
| "queue_wait_run [] (q, Sleeping t d) = None"
| "queue_wait_run ((others, timed_out) # ws) (q, Sleeping t d) =
     queue_wait_run ws (wait_resume (others q) t d timed_out)"

definition drd_frame_queue_wait ::
    "(('f frame_queue \<Rightarrow> 'f frame_queue) \<times> bool) list \<Rightarrow> int \<Rightarrow> int \<Rightarrow> 'f frame_queue \<Rightarrow>
     ('f frame_queue \<times> bool \<times> 'f option) option" where
  "drd_frame_queue_wait ws now timeout_us q = queue_wait_run ws (wait_enter q now timeout_us)"

record capture_manager =
  cm_running :: bool
  cm_queue :: "drd_frame frame_queue"
  cm_x11 :: x11_capture

definition drd_capture_manager_init :: capture_manager where
  "drd_capture_manager_init =
     \<lparr>cm_running = False, cm_queue = drd_frame_queue_init, cm_x11 = drd_x11_capture_init\<rparr>"

definition drd_capture_manager_start ::
    "x11_answers \<Rightarrow> nat \<Rightarrow> nat \<Rightarrow> capture_manager \<Rightarrow> capture_manager \<times> x11_event list \<times> unit res" where
  "drd_capture_manager_start ans width height self =
     (if cm_running self then (self, [], ok)
      else let s1 = self\<lparr>cm_queue := drd_frame_queue_reset (cm_queue self)\<rparr> in
      case drd_x11_capture_start ans None width height (cm_x11 s1) of
        (x, es, Inl e) \<Rightarrow>
          (s1\<lparr>cm_x11 := x, cm_queue := drd_frame_queue_stop (cm_queue s1)\<rparr>, es, Inl e)
      | (x, es, Inr _) \<Rightarrow> (s1\<lparr>cm_x11 := x, cm_running := True\<rparr>, es, ok))"

definition drd_capture_manager_stop :: "capture_manager \<Rightarrow> capture_manager \<times> x11_event list" where
  "drd_capture_manager_stop self =
     (if \<not> cm_running self then (self, [])
      else case drd_x11_capture_stop (cm_x11 self) of
        (x, es) \<Rightarrow> (self\<lparr>cm_x11 := x, cm_queue := drd_frame_queue_stop (cm_queue self),
                        cm_running := False\<rparr>, es))"

definition drd_capture_manager_dispose :: "capture_manager \<Rightarrow> capture_manager \<times> x11_event list" where
  "drd_capture_manager_dispose self =
     (let (s1, e1) = (if cm_running self then drd_capture_manager_stop self else (self, []));
          (x, e2) = drd_x11_capture_dispose (cm_x11 s1)
      in (s1\<lparr>cm_queue := drd_frame_queue_dispose (cm_queue s1), cm_x11 := x\<rparr>, e1 @ e2))"

definition drd_capture_manager_is_running :: "capture_manager \<Rightarrow> bool" where
  "drd_capture_manager_is_running self = cm_running self"

definition drd_capture_manager_get_display_size ::
    "x11_answers \<Rightarrow> capture_manager \<Rightarrow> (nat \<times> nat) res \<times> x11_event list" where
  "drd_capture_manager_get_display_size ans self = drd_x11_capture_get_display_size ans"

definition drd_capture_manager_get_queue :: "capture_manager \<Rightarrow> drd_frame frame_queue" where
  "drd_capture_manager_get_queue self = cm_queue self"

text \<open>\<open>None\<close> while the caller sleeps; a TRUE of the queue comes with a frame.\<close>

definition drd_capture_manager_wait_frame ::
    "((drd_frame frame_queue \<Rightarrow> drd_frame frame_queue) \<times> bool) list \<Rightarrow> int \<Rightarrow> int \<Rightarrow>
     capture_manager \<Rightarrow> (capture_manager \<times> drd_frame option res) option" where
  "drd_capture_manager_wait_frame ws now timeout_us self =
     (if \<not> cm_running self then Some (self, fail_io IoFailed)
      else map_option (\<lambda>(q, r, f). (self\<lparr>cm_queue := q\<rparr>, if r then Inr f else fail_io IoTimedOut))
             (drd_frame_queue_wait ws now timeout_us (cm_queue self)))"

subsection \<open>The contract\<close>

definition cm_up :: "capture_manager \<Rightarrow> bool" where
  "cm_up s \<longleftrightarrow> cm_running s \<and> cx_active (cm_x11 s) \<and> q_running (cm_queue s) \<and> fq_wf (cm_queue s)"

definition cm_down :: "capture_manager \<Rightarrow> bool" where
  "cm_down s \<longleftrightarrow> \<not> cm_running s \<and> cx_idle (cm_x11 s) \<and> fq_wf (cm_queue s)"

lemma init_down: "cm_down drd_capture_manager_init"
  by (simp add: cm_down_def drd_capture_manager_init_def init_idle init_wf)

lemma cm_start_contract:
  assumes "pipe_documented ans" "cm_down s" "drd_capture_manager_start ans w h s = (s', es, r)"
  shows "if is_ok r then cm_up s' else cm_down s'"
proof -
  obtain x es' r' where st: "drd_x11_capture_start ans None w h (cm_x11 s) = (x, es', r')"
    by (metis surj_pair)
  have inv: "cx_inv (cm_x11 s)" using assms(2) by (simp add: cx_inv_def cm_down_def)
  from start_ledger [OF inv assms(1) st] st assms(2,3) show ?thesis
    by (cases r') (auto simp: drd_capture_manager_start_def cm_down_def cm_up_def reset_wf)
qed

lemma cm_start_again: "cm_up s \<Longrightarrow> drd_capture_manager_start ans w h s = (s, [], ok)"
  by (simp add: cm_up_def drd_capture_manager_start_def)

lemma cm_stop_up: "cm_up s \<Longrightarrow> cm_down (fst (drd_capture_manager_stop s))"
proof -
  assume "cm_up s"
  moreover obtain x es where st: "drd_x11_capture_stop (cm_x11 s) = (x, es)" by (metis surj_pair)
  ultimately show ?thesis
    using stop_ledger [OF _ st]
    by (simp add: cm_up_def cm_down_def drd_capture_manager_stop_def cx_inv_def)
qed

lemma cm_stop_down: "cm_down s \<Longrightarrow> fst (drd_capture_manager_stop s) = s"
  by (simp add: cm_down_def drd_capture_manager_stop_def)

interpretation capture_service: service "\<lambda>(ans, w, h). pipe_documented ans"
  "\<lambda>(ans, w, h) s. case drd_capture_manager_start ans w h s of (s', es, r) \<Rightarrow> (s', r)"
  "\<lambda>s. fst (drd_capture_manager_stop s)" cm_up cm_down
  by unfold_locales
     (auto simp: cm_stop_up cm_stop_down cm_start_again split: prod.splits dest: cm_start_contract)

subsection \<open>Waiting for a frame\<close>

lemma wait_finish_returns: "\<exists>q' r f. wait_finish q = (q', r, f)"
  by (metis surj_pair)

lemma resume_timed_out:
  "0 < t \<Longrightarrow> \<exists>q' r f. wait_resume q t d True = (q', Returned r f)"
  using wait_finish_returns [of q] by (auto simp: wait_resume_def)

lemma resume_keeps_timeout:
  "wait_resume q t d b = (q', Sleeping t' d') \<Longrightarrow> t' = t \<and> t \<noteq> 0"
  by (auto simp: wait_resume_def wait_loop_head_def split: if_splits prod.splits)

lemma wait_run_returns:
  "(\<exists>w\<in>set ws. snd w) \<Longrightarrow> (\<forall>t d. snd st = Sleeping t d \<longrightarrow> 0 < t) \<Longrightarrow> queue_wait_run ws st \<noteq> None"
proof (induction ws arbitrary: st)
  case (Cons w ws)
  obtain q out where st: "st = (q, out)" by (cases st)
  obtain others timed_out where w: "w = (others, timed_out)" by (cases w)
  show ?case
  proof (cases out)
    case (Returned r f)
    then show ?thesis by (simp add: st)
  next
    case (Sleeping t d)
    then have t: "0 < t" using Cons.prems(2) st by simp
    show ?thesis
    proof (cases timed_out)
      case True
      then obtain q' r f where "wait_resume (others q) t d True = (q', Returned r f)"
        using resume_timed_out [OF t] by blast
      with True show ?thesis by (cases ws) (simp_all add: st w Sleeping)
    next
      case False
      have "queue_wait_run ws (wait_resume (others q) t d False) \<noteq> None"
      proof (rule Cons.IH)
        show "\<exists>w\<in>set ws. snd w" using Cons.prems(1) False w by simp
        show "\<forall>t' d'. snd (wait_resume (others q) t d False) = Sleeping t' d' \<longrightarrow> 0 < t'"
          using resume_keeps_timeout t by (metis prod.collapse)
      qed
      with False show ?thesis by (simp add: st w Sleeping)
    qed
  qed
qed simp

lemma in_set_tl: "x \<in> set (tl xs) \<Longrightarrow> x \<in> set xs"
  by (cases xs) auto

text \<open>A frame that the wait hands out was in the queue or was pushed while the caller slept: any
  property of all queued frames that the other threads keep holds of it.\<close>

lemma wait_effect_frames:
  assumes "wait_effect q (q', out)" "fq_wf q" "\<forall>f\<in>set (fq_abs q). P f"
  shows "fq_wf q'" "\<forall>f\<in>set (fq_abs q'). P f" "out = Returned r x \<Longrightarrow> r \<Longrightarrow> \<exists>f. x = Some f \<and> P f"
    "q_running q' = q_running q"
proof -
  consider "q' = q" "\<forall>x. out \<noteq> Returned True x"
    | "q_running q" "0 < q_size q" "q' = advance_head q" "out = Returned True (Some (hd (fq_abs q)))"
    using assms(1) by (auto simp: wait_effect_def)
  then have "fq_wf q' \<and> (\<forall>f\<in>set (fq_abs q'). P f) \<and> (out = Returned r x \<longrightarrow> r \<longrightarrow> (\<exists>f. x = Some f \<and> P f))
    \<and> q_running q' = q_running q"
  proof cases
    case 1
    with assms(2,3) show ?thesis by (cases r) auto
  next
    case 2
    then have ne: "fq_abs q \<noteq> []" by (simp add: fq_abs_Nil)
    have "set (fq_abs q') \<subseteq> set (fq_abs q)"
      using 2 assms(2) by (auto simp: advance_head_abs dest: in_set_tl)
    moreover have "P (hd (fq_abs q))" using ne assms(3) by simp
    ultimately show ?thesis
      using 2 assms(2,3) by (auto simp: advance_head_wf) (simp_all add: advance_head_def)
  qed
  then show "fq_wf q'" "\<forall>f\<in>set (fq_abs q'). P f"
    "out = Returned r x \<Longrightarrow> r \<Longrightarrow> \<exists>f. x = Some f \<and> P f" "q_running q' = q_running q" by blast+
qed

definition keeps_queue :: "('f \<Rightarrow> bool) \<Rightarrow> ('f frame_queue \<Rightarrow> 'f frame_queue) \<Rightarrow> bool" where
  "keeps_queue P others \<longleftrightarrow> (\<forall>q. fq_wf q \<longrightarrow> (\<forall>f\<in>set (fq_abs q). P f) \<longrightarrow>
     fq_wf (others q) \<and> (\<forall>f\<in>set (fq_abs (others q)). P f) \<and> q_running (others q) = q_running q)"

lemma keeps_queue_id: "keeps_queue P (\<lambda>q. q)"
  by (simp add: keeps_queue_def)

lemma keeps_queue_push: "P f \<Longrightarrow> keeps_queue P (\<lambda>q. drd_frame_queue_push q f)"
  by (auto simp: keeps_queue_def push_abs push_wf dest: in_set_tl split: if_splits)

lemma wait_run_frames:
  "\<forall>w\<in>set ws. keeps_queue P (fst w) \<Longrightarrow> fq_wf q \<Longrightarrow> \<forall>f\<in>set (fq_abs q). P f \<Longrightarrow>
   (\<forall>r x. out = Returned r x \<longrightarrow> r \<longrightarrow> (\<exists>f. x = Some f \<and> P f)) \<Longrightarrow>
   queue_wait_run ws (q, out) = Some (q', r, x) \<Longrightarrow>
   fq_wf q' \<and> (\<forall>f\<in>set (fq_abs q'). P f) \<and> q_running q' = q_running q \<and>
   (r \<longrightarrow> (\<exists>f. x = Some f \<and> P f))"
proof (induction ws arbitrary: q out)
  case Nil
  then show ?case by (cases out) auto
next
  case (Cons w ws)
  obtain others timed_out where w: "w = (others, timed_out)" by (cases w)
  show ?case
  proof (cases out)
    case (Returned r' f)
    with Cons.prems show ?thesis by auto
  next
    case (Sleeping t d)
    let ?q = "others q"
    have k: "fq_wf ?q" "\<forall>f\<in>set (fq_abs ?q). P f" "q_running ?q = q_running q"
      using Cons.prems(1-3) w by (simp_all add: keeps_queue_def)
    obtain q1 out1 where res: "wait_resume ?q t d timed_out = (q1, out1)" by (metis surj_pair)
    have eff: "wait_effect ?q (q1, out1)" using resume_effect [OF k(1)] res by metis
    note E = wait_effect_frames [OF eff k(1,2)]
    have "queue_wait_run ws (q1, out1) = Some (q', r, x)"
      using Cons.prems(5) w Sleeping res by simp
    then have "fq_wf q' \<and> (\<forall>f\<in>set (fq_abs q'). P f) \<and> q_running q' = q_running q1 \<and>
        (r \<longrightarrow> (\<exists>f. x = Some f \<and> P f))"
      using Cons.IH [of q1 out1] Cons.prems(1) E by auto
    then show ?thesis using E(4) k(3) by simp
  qed
qed

text \<open>
  a wait with a timeout ends: once the deadline fires in one of its sleeps, whatever the
  other threads do to the queue before, \<open>wait_frame\<close> returns, with a frame or with an error;
  and a wait without timeout (0) never sleeps.
\<close>

theorem wait_frame_terminates:
  assumes "(0 < timeout_us \<and> (\<exists>w\<in>set ws. snd w)) \<or> timeout_us = 0"
  shows "drd_capture_manager_wait_frame ws now timeout_us self \<noteq> None"
proof -
  let ?st = "wait_enter (cm_queue self) now timeout_us"
  have enter: "\<forall>t d. snd ?st = Sleeping t d \<longrightarrow> t = timeout_us \<and> t \<noteq> 0"
    by (auto simp: wait_enter_def wait_loop_head_def split: if_splits prod.splits)
  have "queue_wait_run ws ?st \<noteq> None"
  proof (cases "timeout_us = 0")
    case True
    then obtain q r f where "?st = (q, Returned r f)"
      using enter by (cases "snd ?st"; cases ?st) auto
    then show ?thesis by (cases ws) simp_all
  next
    case False
    with assms enter show ?thesis by (intro wait_run_returns) auto
  qed
  then show ?thesis
    by (simp add: drd_capture_manager_wait_frame_def drd_frame_queue_wait_def)
qed

theorem wait_frame_terminates_witness:
  "drd_capture_manager_wait_frame [((\<lambda>q. q), False), ((\<lambda>q. q), True)] 0 16000
     (drd_capture_manager_init\<lparr>cm_running := True\<rparr>) \<noteq> None \<and>
   drd_capture_manager_wait_frame [((\<lambda>q. q), False)] 0 16000
     (drd_capture_manager_init\<lparr>cm_running := True\<rparr>) = None"
proof
  show "drd_capture_manager_wait_frame [((\<lambda>q. q), False), ((\<lambda>q. q), True)] 0 16000
     (drd_capture_manager_init\<lparr>cm_running := True\<rparr>) \<noteq> None"
    by (rule wait_frame_terminates) simp
  show "drd_capture_manager_wait_frame [((\<lambda>q. q), False)] 0 16000
     (drd_capture_manager_init\<lparr>cm_running := True\<rparr>) = None"
    by (simp add: drd_capture_manager_wait_frame_def drd_frame_queue_wait_def wait_enter_def
        wait_loop_head_def wait_resume_def drd_capture_manager_init_def drd_frame_queue_init_def)
qed

end
