(* ===== verification/X11_Input.thy ===== *)
theory X11_Input
  imports Doubles
begin

text \<open>
  The input injector of \<^verbatim>\<open>src/input/drd_x11_input.c\<close> and the dispatcher of
  \<^verbatim>\<open>src/input/drd_input_dispatcher.c\<close> in front of it: opening the display, the cache of
  translated key codes, and the injection of keyboard, Unicode and pointer events. What is
  sent to the X server is the list of XTest events an operation returns. The keyboard tables
  (\<open>XKeysymToKeycode\<close> and FreeRDP's scan code table) are parameters. Flag and key symbol values
  are those of the RDP protocol (MS-RDPBCGR) and of the X protocol.
\<close>

unbundle bit_operations_syntax

subsection \<open>Protocol constants\<close>

definition KBD_FLAGS_EXTENDED :: u16 where "KBD_FLAGS_EXTENDED = 0x0100"
definition KBD_FLAGS_EXTENDED1 :: u16 where "KBD_FLAGS_EXTENDED1 = 0x0200"
definition KBD_FLAGS_RELEASE :: u16 where "KBD_FLAGS_RELEASE = 0x8000"
definition PTR_FLAGS_HWHEEL :: u16 where "PTR_FLAGS_HWHEEL = 0x0400"
definition PTR_FLAGS_WHEEL :: u16 where "PTR_FLAGS_WHEEL = 0x0200"
definition PTR_FLAGS_WHEEL_NEGATIVE :: u16 where "PTR_FLAGS_WHEEL_NEGATIVE = 0x0100"
definition PTR_FLAGS_MOVE :: u16 where "PTR_FLAGS_MOVE = 0x0800"
definition PTR_FLAGS_DOWN :: u16 where "PTR_FLAGS_DOWN = 0x8000"
definition PTR_FLAGS_BUTTON1 :: u16 where "PTR_FLAGS_BUTTON1 = 0x1000"
definition PTR_FLAGS_BUTTON2 :: u16 where "PTR_FLAGS_BUTTON2 = 0x2000"
definition PTR_FLAGS_BUTTON3 :: u16 where "PTR_FLAGS_BUTTON3 = 0x4000"

definition SCAN_LMENU :: u8 where "SCAN_LMENU = 0x38"
definition SCAN_LCONTROL :: u8 where "SCAN_LCONTROL = 0x1D"
definition SCAN_LSHIFT :: u8 where "SCAN_LSHIFT = 0x2A"
definition SCAN_LWIN :: u8 where "SCAN_LWIN = 0x5B"

lemmas flag_defs = KBD_FLAGS_EXTENDED_def KBD_FLAGS_EXTENDED1_def KBD_FLAGS_RELEASE_def
  PTR_FLAGS_HWHEEL_def PTR_FLAGS_WHEEL_def PTR_FLAGS_WHEEL_NEGATIVE_def PTR_FLAGS_MOVE_def
  PTR_FLAGS_DOWN_def PTR_FLAGS_BUTTON1_def PTR_FLAGS_BUTTON2_def PTR_FLAGS_BUTTON3_def

lemmas scan_defs = SCAN_LMENU_def SCAN_LCONTROL_def SCAN_LSHIFT_def SCAN_LWIN_def

text \<open>Key symbols are 32-bit numbers.\<close>

definition NoSymbol :: u32 where "NoSymbol = 0"
definition XK_BackSpace :: u32 where "XK_BackSpace = 0xff08"
definition XK_Tab :: u32 where "XK_Tab = 0xff09"
definition XK_Linefeed :: u32 where "XK_Linefeed = 0xff0a"
definition XK_Return :: u32 where "XK_Return = 0xff0d"
definition XK_Shift_L :: u32 where "XK_Shift_L = 0xffe1"
definition XK_Shift_R :: u32 where "XK_Shift_R = 0xffe2"
definition XK_Control_L :: u32 where "XK_Control_L = 0xffe3"
definition XK_Control_R :: u32 where "XK_Control_R = 0xffe4"
definition XK_Alt_L :: u32 where "XK_Alt_L = 0xffe9"
definition XK_Alt_R :: u32 where "XK_Alt_R = 0xffea"
definition XK_Super_L :: u32 where "XK_Super_L = 0xffeb"
definition XK_Super_R :: u32 where "XK_Super_R = 0xffec"

definition KBD_US :: nat where "KBD_US = 0x409"

subsection \<open>State\<close>

definition DRD_X11_KEYCODE_CACHE_SIZE :: nat where "DRD_X11_KEYCODE_CACHE_SIZE = 512"
definition DRD_X11_KEYCODE_CACHE_INVALID :: u16 where "DRD_X11_KEYCODE_CACHE_INVALID = 0xFFFF"

record x11_input =
  xi_display :: bool
  xi_screen :: int
  xi_desktop_width :: nat
  xi_desktop_height :: nat
  xi_stream_width :: nat
  xi_stream_height :: nat
  xi_running :: bool
  xi_keyboard_layout :: nat
  xi_keycode_cache :: "u16 list"
  xi_scale_x :: gdouble
  xi_scale_y :: gdouble

text \<open>The keyboard tables of a session, and what the display answers when it is opened.\<close>

record key_tables =
  XKeysymToKeycode :: "u32 \<Rightarrow> u8"
  x11_keycode_from_rdp_scancode :: "u8 \<Rightarrow> bool \<Rightarrow> u32"

record input_answers =
  ia_display :: bool
  ia_xtest :: bool
  ia_screen :: int
  ia_width :: nat
  ia_height :: nat
  freerdp_keyboard_init :: "nat \<Rightarrow> nat"

datatype xtest_event = Fake_key u16 bool | Fake_motion int u16 u16 | Fake_button nat bool | X_flush

definition drd_x11_input_reset_keycode_cache :: "x11_input \<Rightarrow> x11_input" where
  "drd_x11_input_reset_keycode_cache self =
     self\<lparr>xi_keycode_cache := replicate DRD_X11_KEYCODE_CACHE_SIZE DRD_X11_KEYCODE_CACHE_INVALID\<rparr>"

definition drd_x11_input_init :: x11_input where
  "drd_x11_input_init =
     \<lparr>xi_display = False, xi_screen = 0, xi_desktop_width = 0, xi_desktop_height = 0,
      xi_stream_width = 0, xi_stream_height = 0, xi_running = False, xi_keyboard_layout = 0,
      xi_keycode_cache = replicate DRD_X11_KEYCODE_CACHE_SIZE DRD_X11_KEYCODE_CACHE_INVALID,
      xi_scale_x = 1, xi_scale_y = 1\<rparr>"

definition drd_x11_input_refresh_pointer_scale :: "x11_input \<Rightarrow> x11_input" where
  "drd_x11_input_refresh_pointer_scale self =
     (let stream_width = (if xi_stream_width self > 0 then xi_stream_width self else 1);
          stream_height = (if xi_stream_height self > 0 then xi_stream_height self else 1);
          desktop_width = (if xi_desktop_width self > 0 then xi_desktop_width self else 1);
          desktop_height = (if xi_desktop_height self > 0 then xi_desktop_height self else 1)
      in self\<lparr>xi_scale_x := (if stream_width = desktop_width then 1
                else dbl_div (of_nat desktop_width) (of_nat stream_width)),
              xi_scale_y := (if stream_height = desktop_height then 1
                else dbl_div (of_nat desktop_height) (of_nat stream_height))\<rparr>)"

definition drd_x11_input_open_display :: "input_answers \<Rightarrow> x11_input \<Rightarrow> x11_input \<times> unit res" where
  "drd_x11_input_open_display ans self =
     (if xi_display self then (self, ok)
      else if \<not> ia_display ans then (self, fail_io IoFailed)
      else if \<not> ia_xtest ans then (self, fail_io IoNotSupported)
      else let s1 = self\<lparr>xi_display := True, xi_screen := ia_screen ans,
                 xi_desktop_width := (if ia_width ans = 0 then 1920 else ia_width ans),
                 xi_desktop_height := (if ia_height ans = 0 then 1080 else ia_height ans)\<rparr>;
               s2 = s1\<lparr>xi_stream_width := (if xi_stream_width s1 = 0 then xi_desktop_width s1
                                           else xi_stream_width s1),
                       xi_stream_height := (if xi_stream_height s1 = 0 then xi_desktop_height s1
                                            else xi_stream_height s1)\<rparr>;
               layout = freerdp_keyboard_init ans 0;
               s3 = s2\<lparr>xi_keyboard_layout :=
                 (if layout = 0 then freerdp_keyboard_init ans KBD_US else layout)\<rparr>
      in (drd_x11_input_refresh_pointer_scale s3, ok))"

definition drd_x11_input_close_display :: "x11_input \<Rightarrow> x11_input" where
  "drd_x11_input_close_display self = self\<lparr>xi_display := False\<rparr>"

definition drd_x11_input_start :: "input_answers \<Rightarrow> x11_input \<Rightarrow> x11_input \<times> unit res" where
  "drd_x11_input_start ans self =
     (if xi_running self then (self, ok)
      else case drd_x11_input_open_display ans self of
        (s, r) \<Rightarrow> (if is_ok r then s\<lparr>xi_running := True\<rparr> else s, r))"

definition drd_x11_input_stop :: "x11_input \<Rightarrow> x11_input" where
  "drd_x11_input_stop self =
     (if \<not> xi_running self then self
      else (drd_x11_input_reset_keycode_cache
             ((drd_x11_input_close_display self)\<lparr>xi_running := False\<rparr>))
             \<lparr>xi_scale_x := 1, xi_scale_y := 1\<rparr>)"

definition drd_x11_input_update_desktop_size :: "nat \<Rightarrow> nat \<Rightarrow> x11_input \<Rightarrow> x11_input" where
  "drd_x11_input_update_desktop_size width height self =
     drd_x11_input_refresh_pointer_scale
       (self\<lparr>xi_stream_width := (if width > 0 then width else xi_stream_width self),
             xi_stream_height := (if height > 0 then height else xi_stream_height self)\<rparr>)"

definition drd_x11_input_check_running :: "x11_input \<Rightarrow> unit res" where
  "drd_x11_input_check_running self =
     (if \<not> xi_running self \<or> \<not> xi_display self then fail_io IoFailed else ok)"

subsection \<open>Keyboard\<close>

definition drd_x11_input_lookup_special_keycode ::
    "key_tables \<Rightarrow> x11_input \<Rightarrow> u8 \<Rightarrow> bool \<Rightarrow> u8" where
  "drd_x11_input_lookup_special_keycode kt self scancode extended =
     (if \<not> xi_display self then 0
      else let keysym =
             (if scancode = SCAN_LMENU then (if extended then XK_Alt_R else XK_Alt_L)
              else if scancode = SCAN_LCONTROL then (if extended then XK_Control_R else XK_Control_L)
              else if scancode = SCAN_LSHIFT then (if extended then XK_Shift_R else XK_Shift_L)
              else if scancode = SCAN_LWIN then (if extended then XK_Super_R else XK_Super_L)
              else NoSymbol)
      in if keysym = NoSymbol then 0 else XKeysymToKeycode kt keysym)"

text \<open>The uncached translation, the body of the cache miss.\<close>

definition translate_scancode :: "key_tables \<Rightarrow> x11_input \<Rightarrow> u8 \<Rightarrow> bool \<Rightarrow> u16" where
  "translate_scancode kt self base_scancode extended =
     (if base_scancode \<in> {SCAN_LMENU, SCAN_LCONTROL, SCAN_LSHIFT, SCAN_LWIN}
      then ucast (drd_x11_input_lookup_special_keycode kt self base_scancode extended)
      else let keycode = ucast (x11_keycode_from_rdp_scancode kt base_scancode extended)
      in if keycode = 0
         then ucast (drd_x11_input_lookup_special_keycode kt self base_scancode extended)
         else keycode)"

definition drd_x11_input_resolve_keycode ::
    "key_tables \<Rightarrow> x11_input \<Rightarrow> u8 \<Rightarrow> bool \<Rightarrow> x11_input \<times> u16 \<times> bool" where
  "drd_x11_input_resolve_keycode kt self base_scancode extended =
     (let index = unat base_scancode + (if extended then 256 else 0)
      in if \<not> index < DRD_X11_KEYCODE_CACHE_SIZE then (self, 0, False)
      else let cached = xi_keycode_cache self ! index
      in if cached = DRD_X11_KEYCODE_CACHE_INVALID
         then let keycode = translate_scancode kt self base_scancode extended
              in (self\<lparr>xi_keycode_cache := (xi_keycode_cache self)[index := keycode]\<rparr>, keycode, True)
         else (self, cached, False))"

definition drd_x11_input_inject_keyboard ::
    "key_tables \<Rightarrow> u16 \<Rightarrow> u8 \<Rightarrow> x11_input \<Rightarrow> x11_input \<times> xtest_event list \<times> unit res" where
  "drd_x11_input_inject_keyboard kt flags scancode self =
     (case drd_x11_input_check_running self of
        Inl e \<Rightarrow> (self, [], Inl e)
      | Inr _ \<Rightarrow>
          let release = (flags AND KBD_FLAGS_RELEASE \<noteq> 0);
              extended = (flags AND (KBD_FLAGS_EXTENDED OR KBD_FLAGS_EXTENDED1) \<noteq> 0);
              (s, keycode, _) = drd_x11_input_resolve_keycode kt self scancode extended
          in if keycode = 0 then (s, [], ok)
             else (s, [Fake_key keycode (\<not> release), X_flush], ok))"

definition drd_x11_input_keysym_from_codepoint :: "u32 \<Rightarrow> u32" where
  "drd_x11_input_keysym_from_codepoint codepoint =
     (if codepoint = 0x0D then XK_Return
      else if codepoint = 0x0A then XK_Linefeed
      else if codepoint = 0x09 then XK_Tab
      else if codepoint = 0x08 then XK_BackSpace
      else if codepoint \<le> 0xFF then codepoint
      else if codepoint > 0 \<and> codepoint \<le> 0x10FFFF then codepoint OR 0x01000000
      else NoSymbol)"

definition drd_x11_input_inject_unicode ::
    "key_tables \<Rightarrow> u16 \<Rightarrow> u16 \<Rightarrow> x11_input \<Rightarrow> x11_input \<times> xtest_event list \<times> unit res" where
  "drd_x11_input_inject_unicode kt flags codepoint self =
     (case drd_x11_input_check_running self of
        Inl e \<Rightarrow> (self, [], Inl e)
      | Inr _ \<Rightarrow>
          let release = (flags AND KBD_FLAGS_RELEASE \<noteq> 0);
              keysym = drd_x11_input_keysym_from_codepoint (ucast codepoint)
          in if keysym = NoSymbol then (self, [], ok)
             else let keycode = XKeysymToKeycode kt keysym
             in if keycode = 0 then (self, [], ok)
                else (self, [Fake_key (ucast keycode) (\<not> release), X_flush], ok))"

subsection \<open>Pointer\<close>

definition drd_x11_input_pointer_button :: "u16 \<Rightarrow> u16 \<Rightarrow> int \<Rightarrow> int" where
  "drd_x11_input_pointer_button flags msk button_id =
     (if flags AND msk = 0 then 0
      else if flags AND PTR_FLAGS_DOWN \<noteq> 0 then button_id else - button_id)"

definition button_map :: "(u16 \<times> int) list" where
  "button_map = [(PTR_FLAGS_BUTTON1, 1), (PTR_FLAGS_BUTTON3, 2), (PTR_FLAGS_BUTTON2, 3)]"

definition button_events :: "u16 \<Rightarrow> xtest_event list" where
  "button_events flags = concat (map (\<lambda>(msk, b).
     let button_event = drd_x11_input_pointer_button flags msk b
     in if button_event > 0 then [Fake_button (nat button_event) True]
        else if button_event < 0 then [Fake_button (nat (- button_event)) False]
        else []) button_map)"

definition wheel_events :: "u16 \<Rightarrow> u16 \<Rightarrow> nat \<Rightarrow> nat \<Rightarrow> xtest_event list" where
  "wheel_events flags wheel down up =
     (if flags AND wheel \<noteq> 0
      then let button = (if flags AND PTR_FLAGS_WHEEL_NEGATIVE \<noteq> 0 then down else up)
           in [Fake_button button True, Fake_button button False]
      else [])"

text \<open>One coordinate: clamped to the stream (the largest coordinate is cut to 16 bits), then
  scaled to the desktop when the sizes differ. The conversion of the rounded product to
  \<open>guint\<close> truncates.\<close>

definition map_coordinate :: "nat \<Rightarrow> nat \<Rightarrow> gdouble \<Rightarrow> u16 \<Rightarrow> u16" where
  "map_coordinate stream desktop scale x =
     (let stream_size = max stream 1; desktop_size = max desktop 1;
          max_stream = (word_of_nat (if stream_size > 0 then stream_size - 1 else 0) :: u16);
          clamped = (if x > max_stream then max_stream else x)
      in if stream_size \<noteq> desktop_size
         then let scaled = nat \<lfloor>dbl_add (dbl_mul (of_nat (unat clamped)) scale) (1 / 2)\<rfloor>;
                  scaled1 = (if scaled \<ge> desktop_size then desktop_size - 1 else scaled)
              in word_of_nat scaled1
         else clamped)"

definition drd_x11_input_inject_pointer ::
    "u16 \<Rightarrow> u16 \<Rightarrow> u16 \<Rightarrow> x11_input \<Rightarrow> xtest_event list \<times> unit res" where
  "drd_x11_input_inject_pointer flags x y self =
     (case drd_x11_input_check_running self of
        Inl e \<Rightarrow> ([], Inl e)
      | Inr _ \<Rightarrow>
          let target_x = map_coordinate (xi_stream_width self) (xi_desktop_width self)
                           (xi_scale_x self) x;
              target_y = map_coordinate (xi_stream_height self) (xi_desktop_height self)
                           (xi_scale_y self) y
          in ((if flags AND PTR_FLAGS_MOVE \<noteq> 0
               then [Fake_motion (xi_screen self) target_x target_y] else []) @
              button_events flags @
              wheel_events flags PTR_FLAGS_WHEEL 5 4 @
              wheel_events flags PTR_FLAGS_HWHEEL 7 6 @ [X_flush], ok))"

subsection \<open>The dispatcher\<close>

record input_dispatcher =
  id_backend :: x11_input
  id_active :: bool

definition drd_input_dispatcher_init :: input_dispatcher where
  "drd_input_dispatcher_init = \<lparr>id_backend = drd_x11_input_init, id_active = False\<rparr>"

definition drd_input_dispatcher_start ::
    "input_answers \<Rightarrow> nat \<Rightarrow> nat \<Rightarrow> input_dispatcher \<Rightarrow> input_dispatcher \<times> unit res" where
  "drd_input_dispatcher_start ans width height self =
     (case drd_x11_input_start ans (id_backend self) of
        (b, Inl e) \<Rightarrow> (self\<lparr>id_backend := b\<rparr>, Inl e)
      | (b, Inr _) \<Rightarrow>
          (self\<lparr>id_backend := drd_x11_input_update_desktop_size width height b, id_active := True\<rparr>, ok))"

definition drd_input_dispatcher_stop :: "input_dispatcher \<Rightarrow> input_dispatcher" where
  "drd_input_dispatcher_stop self =
     self\<lparr>id_backend := drd_x11_input_stop (id_backend self), id_active := False\<rparr>"

definition drd_input_dispatcher_update_desktop_size ::
    "nat \<Rightarrow> nat \<Rightarrow> input_dispatcher \<Rightarrow> input_dispatcher" where
  "drd_input_dispatcher_update_desktop_size width height self =
     self\<lparr>id_backend := drd_x11_input_update_desktop_size width height (id_backend self)\<rparr>"

definition drd_input_dispatcher_handle_keyboard ::
    "key_tables \<Rightarrow> u16 \<Rightarrow> u8 \<Rightarrow> input_dispatcher \<Rightarrow> input_dispatcher \<times> xtest_event list \<times> unit res" where
  "drd_input_dispatcher_handle_keyboard kt flags scancode self =
     (case drd_x11_input_inject_keyboard kt flags scancode (id_backend self) of
        (b, ev, r) \<Rightarrow> (self\<lparr>id_backend := b\<rparr>, ev, r))"

definition drd_input_dispatcher_handle_unicode ::
    "key_tables \<Rightarrow> u16 \<Rightarrow> u16 \<Rightarrow> input_dispatcher \<Rightarrow> input_dispatcher \<times> xtest_event list \<times> unit res" where
  "drd_input_dispatcher_handle_unicode kt flags codepoint self =
     (case drd_x11_input_inject_unicode kt flags codepoint (id_backend self) of
        (b, ev, r) \<Rightarrow> (self\<lparr>id_backend := b\<rparr>, ev, r))"

definition drd_input_dispatcher_handle_pointer ::
    "u16 \<Rightarrow> u16 \<Rightarrow> u16 \<Rightarrow> input_dispatcher \<Rightarrow> xtest_event list \<times> unit res" where
  "drd_input_dispatcher_handle_pointer flags x y self =
     drd_x11_input_inject_pointer flags x y (id_backend self)"

end
