(* ===== verification/Server_Runtime.thy ===== *)
theory Server_Runtime
  imports Encode_Surface_Safety Capture_Manager X11_Input
begin

text \<open>
  The server runtime of \<^verbatim>\<open>src/core/drd_server_runtime.c\<close>: it owns the capture, the encoder and
  the input dispatcher, prepares and stops a stream, pulls a frame from the capture into the
  encoder, and keeps the transport mode, which is switched by a compare-and-exchange loop.
\<close>

datatype frame_transport = FRAME_TRANSPORT_SURFACE_BITS | FRAME_TRANSPORT_GRAPHICS_PIPELINE

record server_runtime =
  sr_capture :: capture_manager
  sr_encoder :: encoder
  sr_input :: input_dispatcher
  sr_tls :: "nat option"  \<comment> \<open>the credentials object\<close>
  sr_encoding_options :: encoding_options
  sr_has_encoding_options :: bool
  sr_stream_running :: bool
  sr_transport_mode :: frame_transport

definition drd_server_runtime_init :: "encoding_options \<Rightarrow> server_runtime" where
  "drd_server_runtime_init zero_options =
     \<lparr>sr_capture = drd_capture_manager_init, sr_encoder = drd_encoding_manager_init,
      sr_input = drd_input_dispatcher_init, sr_tls = None, sr_encoding_options = zero_options,
      sr_has_encoding_options = False, sr_stream_running = False,
      sr_transport_mode = FRAME_TRANSPORT_GRAPHICS_PIPELINE\<rparr>"

subsection \<open>The stream\<close>

definition drd_server_runtime_prepare_stream ::
    "x11_answers \<Rightarrow> input_answers \<Rightarrow> encoding_options \<Rightarrow> server_runtime \<Rightarrow>
     server_runtime \<times> x11_event list \<times> unit res" where
  "drd_server_runtime_prepare_stream xa ia options self =
     (if sr_stream_running self then (self, [], ok)
      else let s0 = self\<lparr>sr_encoding_options := options, sr_has_encoding_options := True,
                 sr_transport_mode := FRAME_TRANSPORT_GRAPHICS_PIPELINE\<rparr> in
      case drd_encoding_manager_prepare (sr_encoder s0) options of
        (enc, Inl e) \<Rightarrow> (s0\<lparr>sr_encoder := enc\<rparr>, [], Inl e)
      | (enc, Inr _) \<Rightarrow>
      (case drd_input_dispatcher_start ia (o_width options) (o_height options) (sr_input s0) of
        (inp, Inl e) \<Rightarrow>
          (s0\<lparr>sr_encoder := drd_encoding_manager_reset enc, sr_input := inp\<rparr>, [], Inl e)
      | (inp, Inr _) \<Rightarrow>
      (case drd_capture_manager_start xa (o_width options) (o_height options) (sr_capture s0) of
        (cap, es, Inl e) \<Rightarrow>
          (s0\<lparr>sr_encoder := drd_encoding_manager_reset enc,
              sr_input := drd_input_dispatcher_stop inp, sr_capture := cap\<rparr>, es, Inl e)
      | (cap, es, Inr _) \<Rightarrow>
          (s0\<lparr>sr_encoder := enc, sr_input := inp, sr_capture := cap, sr_stream_running := True\<rparr>,
           es, ok))))"

text \<open>The state in which a stop returns: it joins the capture thread on the way.\<close>

definition drd_server_runtime_stop :: "server_runtime \<Rightarrow> server_runtime \<times> x11_event list" where
  "drd_server_runtime_stop self =
     (if \<not> sr_stream_running self then (self, [])
      else case drd_capture_manager_stop (sr_capture self) of
        (cap, es) \<Rightarrow>
          (self\<lparr>sr_stream_running := False, sr_capture := cap,
                sr_encoder := drd_encoding_manager_reset (sr_encoder self),
                sr_input := drd_input_dispatcher_stop (sr_input self)\<rparr>, es))"

definition drd_server_runtime_dispose :: "server_runtime \<Rightarrow> server_runtime \<times> x11_event list" where
  "drd_server_runtime_dispose self =
     (let (s1, es) = drd_server_runtime_stop self in (s1\<lparr>sr_tls := None\<rparr>, es))"

subsection \<open>Pulling frames\<close>

text \<open>The libraries that encoding asks, the clock readings and fresh memory it uses, and what the
  other threads do meanwhile: the encoder has no lock, and a thread that stops the runtime or
  prepares codecs while this thread is inside an encode frees the contexts that it is using.\<close>

record encode_context =
  ec_codecs :: codec_api
  ec_vaapi :: vaapi_api
  ec_vaapi_encode :: vaapi_api
  ec_settings :: gfx_settings
  ec_now :: int
  ec_now2 :: int
  ec_fresh :: "nat \<Rightarrow> u8"
  ec_timestamp :: u64
  ec_interrupted :: bool  \<comment> \<open>another thread resets the encoder or prepares its codecs during the encode\<close>

definition auto_switch :: "server_runtime \<Rightarrow> bool" where
  "auto_switch self \<longleftrightarrow> sr_has_encoding_options self \<and>
     o_mode (sr_encoding_options self) = MODE_AUTO"

text \<open>The new state, the \<open>*h264\<close> flag, the commands handed to the channel, and the result.\<close>

type_synonym pull_result = "server_runtime \<times> bool \<times> surface_command list \<times> unit res"

definition store_encoded :: "server_runtime \<Rightarrow> encode_result \<Rightarrow> pull_result" where
  "store_encoded self res = (case res of (enc, h264_out, cmds, r) \<Rightarrow>
     (self\<lparr>sr_encoder := enc\<rparr>, h264_out, cmds, r))"

text \<open>The encode itself: a crash when another thread takes the contexts away under it. An encoder
  that is not ready uses none of them.\<close>

definition encode_alone :: "encode_context \<Rightarrow> server_runtime \<Rightarrow> pull_result option \<Rightarrow> pull_result option" where
  "encode_alone ec self result =
     (if ec_interrupted ec \<and> ready (sr_encoder self) then None else result)"

definition encode_cached :: "encode_context \<Rightarrow> u16 \<Rightarrow> u32 \<Rightarrow> bool \<Rightarrow> server_runtime \<Rightarrow> pull_result option" where
  "encode_cached ec surf frame_id h264_in self = encode_alone ec self
     (map_option (store_encoded self)
       (drd_encoding_manager_encode_cached_frame_gfx (ec_codecs ec) (ec_vaapi ec)
          (ec_vaapi_encode ec) (ec_settings ec) (ec_now ec) (ec_now2 ec) (ec_fresh ec)
          (ec_timestamp ec) (sr_encoder self) surf frame_id h264_in (auto_switch self)))"

text \<open>\<open>refresh_now\<close> is the clock when the refresh interval is looked at. The outer \<open>None\<close> is a
  wait that has not ended, the inner \<open>None\<close> a crash of the encoder, or a race for it.\<close>

definition drd_server_runtime_pull_encoded_frame_surface_gfx ::
    "encode_context \<Rightarrow> ((drd_frame frame_queue \<Rightarrow> drd_frame frame_queue) \<times> bool) list \<Rightarrow> int \<Rightarrow> int \<Rightarrow>
     int \<Rightarrow> u16 \<Rightarrow> u32 \<Rightarrow> bool \<Rightarrow> server_runtime \<Rightarrow> pull_result option option" where
  "drd_server_runtime_pull_encoded_frame_surface_gfx ec ws now timeout_us refresh_now surf
       frame_id h264_in self =
     (case drd_capture_manager_wait_frame ws now timeout_us (sr_capture self) of
        None \<Rightarrow> None
      | Some (cap, Inl e) \<Rightarrow>
          let s = self\<lparr>sr_capture := cap\<rparr>;
              refresh_due = drd_encoding_manager_refresh_interval_reached (sr_encoder s) refresh_now
          in if e = GIo IoTimedOut \<and> refresh_due
             then Some (encode_cached ec surf frame_id h264_in s)
             else Some (Some (s, h264_in, [], Inl e))
      | Some (cap, Inr None) \<Rightarrow> Some None
      | Some (cap, Inr (Some frame)) \<Rightarrow>
          let s = self\<lparr>sr_capture := cap\<rparr>
          in Some (encode_alone ec s (map_option (store_encoded s)
               (drd_encoding_manager_encode_surface_gfx (ec_codecs ec) (ec_vaapi ec)
                  (ec_vaapi_encode ec) (ec_settings ec) (ec_now ec) (ec_now2 ec) (sr_encoder s)
                  surf frame frame_id h264_in (auto_switch s)))))"

definition drd_server_runtime_send_cached_frame_surface_gfx ::
    "encode_context \<Rightarrow> u16 \<Rightarrow> u32 \<Rightarrow> bool \<Rightarrow> server_runtime \<Rightarrow> pull_result option" where
  "drd_server_runtime_send_cached_frame_surface_gfx ec surf frame_id h264_in self =
     encode_cached ec surf frame_id h264_in self"

definition drd_server_runtime_pull_encoded_frame_surface_bit ::
    "((drd_frame frame_queue \<Rightarrow> drd_frame frame_queue) \<times> bool) list \<Rightarrow> int \<Rightarrow> int \<Rightarrow>
     server_runtime \<Rightarrow> (server_runtime \<times> unit res) option" where
  "drd_server_runtime_pull_encoded_frame_surface_bit ws now timeout_us self =
     map_option (\<lambda>(cap, r). (self\<lparr>sr_capture := cap\<rparr>,
         case r of Inl e \<Rightarrow> Inl e | Inr _ \<Rightarrow> drd_encoding_manager_encode_surface_bit))
       (drd_capture_manager_wait_frame ws now timeout_us (sr_capture self))"

subsection \<open>Transport, options and credentials\<close>

text \<open>The compare-and-exchange loop: \<open>others\<close> is what other threads do to the mode between the
  read and the exchange of each round; \<open>None\<close> means still looping.\<close>

fun drd_server_runtime_set_transport ::
    "(frame_transport \<Rightarrow> frame_transport) list \<Rightarrow> frame_transport \<Rightarrow> server_runtime \<Rightarrow>
     server_runtime option" where
  "drd_server_runtime_set_transport others desired self =
     (let current = sr_transport_mode self in
      if current = desired then Some self
      else case others of
        [] \<Rightarrow> None
      | f # fs \<Rightarrow>
          let s = self\<lparr>sr_transport_mode := f current\<rparr> in
          if sr_transport_mode s = current
          then Some (s\<lparr>sr_transport_mode := desired,
                       sr_encoder := drd_encoding_manager_force_keyframe (sr_encoder s)\<rparr>)
          else drd_server_runtime_set_transport fs desired s)"

declare drd_server_runtime_set_transport.simps [simp del]

definition drd_server_runtime_get_transport :: "server_runtime \<Rightarrow> frame_transport" where
  "drd_server_runtime_get_transport self = sr_transport_mode self"

definition drd_server_runtime_get_encoding_options :: "server_runtime \<Rightarrow> encoding_options option" where
  "drd_server_runtime_get_encoding_options self =
     (if \<not> sr_has_encoding_options self then None else Some (sr_encoding_options self))"

text \<open>The comparison with the old options only decides about a log message.\<close>

definition drd_server_runtime_set_encoding_options ::
    "encoding_options \<Rightarrow> server_runtime \<Rightarrow> server_runtime" where
  "drd_server_runtime_set_encoding_options options self =
     self\<lparr>sr_encoding_options := options, sr_has_encoding_options := True\<rparr>"

definition drd_server_runtime_is_stream_running :: "server_runtime \<Rightarrow> bool" where
  "drd_server_runtime_is_stream_running self = sr_stream_running self"

definition drd_server_runtime_set_tls_credentials :: "nat option \<Rightarrow> server_runtime \<Rightarrow> server_runtime" where
  "drd_server_runtime_set_tls_credentials credentials self = self\<lparr>sr_tls := credentials\<rparr>"

definition drd_server_runtime_get_tls_credentials :: "server_runtime \<Rightarrow> nat option" where
  "drd_server_runtime_get_tls_credentials self = sr_tls self"

definition drd_server_runtime_request_keyframe :: "server_runtime \<Rightarrow> server_runtime" where
  "drd_server_runtime_request_keyframe self =
     self\<lparr>sr_encoder := drd_encoding_manager_force_keyframe (sr_encoder self)\<rparr>"

definition drd_runtime_encoder_prepare :: "codec_api \<Rightarrow> u32 \<Rightarrow> server_runtime \<Rightarrow> server_runtime \<times> bool" where
  "drd_runtime_encoder_prepare fr wanted self =
     (case drd_encoder_prepare fr wanted (sr_encoder self) of
        (enc, r) \<Rightarrow> (self\<lparr>sr_encoder := enc\<rparr>, r))"

definition drd_server_runtime_get_capture :: "server_runtime \<Rightarrow> capture_manager" where
  "drd_server_runtime_get_capture self = sr_capture self"

definition drd_server_runtime_get_encoder :: "server_runtime \<Rightarrow> encoder" where
  "drd_server_runtime_get_encoder self = sr_encoder self"

definition drd_server_runtime_get_input :: "server_runtime \<Rightarrow> input_dispatcher" where
  "drd_server_runtime_get_input self = sr_input self"

end
