(* ===== verification/Application.thy ===== *)
theory Application
  imports Config_Safety Tls_Credentials Server_Runtime
begin

text \<open>
  The application of \<^verbatim>\<open>src/core/drd_application.c\<close>: the command line, the configuration it leads
  to, the preparation of the runtime, and the start in one of the three modes. Parameters are
  what GLib's option parser answers (\<open>cli_answer\<close>), the effective user, the key files, the TLS
  parsers and X11; the starts of the listener and of the two daemons, which bind sockets and
  connect to the bus, are the answers in \<open>start_answers\<close>.
\<close>

record cli_answer =
  ca_cli :: cli
  ca_config_path :: "string option"
  ca_enable_diff :: bool
  ca_disable_diff :: bool

datatype controller = SYSTEM_CONTROLLER | HANDOVER_CONTROLLER

record application =
  app_config :: "config option"
  app_loop :: bool
  app_listener :: bool
  app_signals :: bool  \<comment> \<open>\<open>sigint_id\<close> and \<open>sigterm_id\<close>\<close>
  app_runtime :: server_runtime
  app_tls :: "tls_credentials option"
  app_mode_controller :: "controller option"
  app_is_handover :: bool

definition drd_application_runtime_mode_to_string :: "runtime_mode \<Rightarrow> string" where
  "drd_application_runtime_mode_to_string mode =
     (case mode of RUNTIME_MODE_SYSTEM \<Rightarrow> ''system'' | RUNTIME_MODE_HANDOVER \<Rightarrow> ''handover''
      | RUNTIME_MODE_USER \<Rightarrow> ''user'')"

definition drd_application_init :: "path_api \<Rightarrow> encoding_options \<Rightarrow> application" where
  "drd_application_init fs zero_options =
     \<lparr>app_config = Some (drd_config_new fs), app_loop = False, app_listener = False,
      app_signals = False, app_runtime = drd_server_runtime_init zero_options, app_tls = None,
      app_mode_controller = None, app_is_handover = False\<rparr>"

subsection \<open>The command line\<close>

definition diff_override :: "cli_answer \<Rightarrow> 32 word" where
  "diff_override a = (if ca_enable_diff a then 1 else if ca_disable_diff a then -1 else 0)"

definition load_config ::
    "path_api \<Rightarrow> (string \<Rightarrow> key_file res) \<Rightarrow> cli_answer \<Rightarrow> config option \<Rightarrow> config res" where
  "load_config fs load_file a c =
     (case ca_config_path a of
        Some path \<Rightarrow> drd_config_new_from_file fs load_file path
      | None \<Rightarrow> Inr (case c of None \<Rightarrow> drd_config_new fs | Some c' \<Rightarrow> c'))"

definition drd_application_parse_options ::
    "path_api \<Rightarrow> (string \<Rightarrow> key_file res) \<Rightarrow> nat \<Rightarrow> cli_answer res \<Rightarrow> application \<times> capture_metrics \<Rightarrow>
     (application \<times> capture_metrics) \<times> unit res" where
  "drd_application_parse_options fs load_file euid answer st =
     (case st of (self, metrics) \<Rightarrow>
      case answer of Inl e \<Rightarrow> (st, Inl e)
      | Inr a \<Rightarrow>
        if ca_enable_diff a \<and> ca_disable_diff a then (st, Inl GOptionBadValue)
        else if cli_enable_nla (ca_cli a) \<and> cli_disable_nla (ca_cli a)
        then (st, Inl GOptionBadValue)
        else case load_config fs load_file a (app_config self) of
          Inl e \<Rightarrow> ((self\<lparr>app_config := None\<rparr>, metrics), Inl e)
        | Inr c \<Rightarrow>
            (case drd_config_merge_cli fs c ((ca_cli a)\<lparr>cli_diff_override := diff_override a\<rparr>) of
               (c', Inl e) \<Rightarrow> ((self\<lparr>app_config := Some c'\<rparr>, metrics), Inl e)
             | (c', Inr _) \<Rightarrow>
                 if drd_config_get_runtime_mode c' = RUNTIME_MODE_SYSTEM \<and> euid \<noteq> 0
                 then ((self\<lparr>app_config := Some c'\<rparr>, metrics), Inl GOptionBadValue)
                 else ((self\<lparr>app_config := Some c'\<rparr>,
                        drd_capture_metrics_apply_config (drd_config_get_capture_target_fps c')
                          (drd_config_get_capture_stats_interval_sec c') metrics), ok)))"

subsection \<open>Preparing the runtime\<close>

record runtime_snapshot =
  rs_encoding_opts :: encoding_options
  rs_nla_enabled :: bool
  rs_nla_username :: "string option"
  rs_nla_password :: "string option"
  rs_pam_service :: "string option"
  rs_runtime_mode :: runtime_mode

text \<open>The application owns one credentials object; the runtime's reference to it is handle 0.\<close>

definition prepare_tls ::
    "tls_api \<Rightarrow> config \<Rightarrow> application \<Rightarrow> tls_store \<Rightarrow> (application \<times> tls_store \<times> unit res) option" where
  "prepare_tls api c self m =
     (if app_tls self \<noteq> None then Some (self, m, ok)
      else let attach = (\<lambda>t. self\<lparr>app_tls := Some t,
                 app_runtime := drd_server_runtime_set_tls_credentials (Some 0) (app_runtime self)\<rparr>)
      in if drd_config_get_runtime_mode c = RUNTIME_MODE_HANDOVER
         then Some (attach drd_tls_credentials_new_empty, m, ok)
         else map_option (\<lambda>(r, m').
                (case r of Inl e \<Rightarrow> (self, m', Inl e) | Inr t \<Rightarrow> (attach t, m', ok)))
              (drd_tls_credentials_new api (the (drd_config_get_certificate_path c))
                 (the (drd_config_get_private_key_path c)) m))"

definition prepare_size ::
    "x11_answers \<Rightarrow> config \<Rightarrow> application \<Rightarrow> encoding_options res" where
  "prepare_size xa c self =
     (let opts = drd_config_get_encoding_options c in
      if drd_config_get_runtime_mode c = RUNTIME_MODE_SYSTEM then Inr opts
      else case fst (drd_capture_manager_get_display_size xa
                       (drd_server_runtime_get_capture (app_runtime self))) of
             Inl e \<Rightarrow> Inl e
           | Inr (w, h) \<Rightarrow> Inr (opts\<lparr>o_width := w, o_height := h\<rparr>))"

definition drd_application_prepare_runtime ::
    "path_api \<Rightarrow> tls_api \<Rightarrow> x11_answers \<Rightarrow> application \<Rightarrow> tls_store \<Rightarrow>
     (application \<times> tls_store \<times> runtime_snapshot res) option" where
  "drd_application_prepare_runtime fs api xa self0 m =
     (let c = (case app_config self0 of None \<Rightarrow> drd_config_new fs | Some c \<Rightarrow> c);
          self = self0\<lparr>app_config := Some c\<rparr>;
          mode = drd_config_get_runtime_mode c
      in if mode \<noteq> RUNTIME_MODE_HANDOVER \<and> (drd_config_get_certificate_path c = None \<or>
              drd_config_get_private_key_path c = None)
      then Some (self, m, fail_io IoInvalidArgument)
      else if drd_config_is_nla_enabled c \<and> mode \<noteq> RUNTIME_MODE_HANDOVER \<and>
              (drd_config_get_nla_username c = None \<or> drd_config_get_nla_password c = None)
      then Some (self, m, fail_io IoInvalidArgument)
      else if \<not> drd_config_is_nla_enabled c \<and> drd_config_get_pam_service c = None
      then Some (self, m, fail_io IoInvalidArgument)
      else Option.bind (prepare_tls api c self m) (\<lambda>(s1, m1, r).
        case r of Inl e \<Rightarrow> Some (s1, m1, Inl e)
        | Inr _ \<Rightarrow>
          (case prepare_size xa c s1 of
             Inl e \<Rightarrow> Some (s1, m1, Inl e)
           | Inr opts \<Rightarrow> Some
               (s1\<lparr>app_runtime := drd_server_runtime_set_encoding_options opts (app_runtime s1)\<rparr>, m1,
                Inr \<lparr>rs_encoding_opts = opts, rs_nla_enabled = drd_config_is_nla_enabled c,
                     rs_nla_username = drd_config_get_nla_username c,
                     rs_nla_password = drd_config_get_nla_password c,
                     rs_pam_service = drd_config_get_pam_service c, rs_runtime_mode = mode\<rparr>))))"

subsection \<open>Starting\<close>

record start_answers =
  sa_listener_new :: bool
  sa_listener_start :: "unit res"
  sa_controller_new :: bool
  sa_controller_loop :: bool
  sa_controller_start :: "unit res"
  sa_main_loop :: bool

type_synonym start_result = "(application \<times> tls_store \<times> unit res) option"

definition drd_application_start_listener ::
    "path_api \<Rightarrow> tls_api \<Rightarrow> x11_answers \<Rightarrow> start_answers \<Rightarrow> application \<Rightarrow> tls_store \<Rightarrow> start_result" where
  "drd_application_start_listener fs api xa sa self m =
     (if app_listener self then None
      else map_option (\<lambda>(s, m', r).
        case r of Inl e \<Rightarrow> (s, m', Inl e)
        | Inr snapshot \<Rightarrow>
            let stopped = s\<lparr>app_runtime := fst (drd_server_runtime_stop (app_runtime s))\<rparr> in
            if \<not> sa_listener_new sa then (stopped, m', fail_io IoFailed)
            else (case sa_listener_start sa of
                Inl e \<Rightarrow> (stopped, m', Inl e)
              | Inr _ \<Rightarrow> (s\<lparr>app_listener := True\<rparr>, m', ok)))
        (drd_application_prepare_runtime fs api xa self m))"

text \<open>The two daemons are started by the same steps.\<close>

definition start_controller ::
    "controller \<Rightarrow> path_api \<Rightarrow> tls_api \<Rightarrow> x11_answers \<Rightarrow> start_answers \<Rightarrow> application \<Rightarrow> tls_store \<Rightarrow>
     start_result" where
  "start_controller which fs api xa sa self m =
     map_option (\<lambda>(s0, m', r).
        case r of Inl e \<Rightarrow> (s0, m', Inl e)
        | Inr snapshot \<Rightarrow>
            let s = s0\<lparr>app_mode_controller := None\<rparr> in
            if \<not> sa_controller_new sa then (s, m', fail_io IoFailed)
            else if \<not> sa_controller_loop sa then (s, m', fail_io IoFailed)
            else (case sa_controller_start sa of
                Inl e \<Rightarrow> (s, m', Inl e)
              | Inr _ \<Rightarrow> (s\<lparr>app_mode_controller := Some which\<rparr>, m', ok)))
        (drd_application_prepare_runtime fs api xa self m)"

definition drd_application_start_system_daemon ::
    "path_api \<Rightarrow> tls_api \<Rightarrow> x11_answers \<Rightarrow> start_answers \<Rightarrow> application \<Rightarrow> tls_store \<Rightarrow> start_result" where
  "drd_application_start_system_daemon = start_controller SYSTEM_CONTROLLER"

definition drd_application_start_handover_daemon ::
    "path_api \<Rightarrow> tls_api \<Rightarrow> x11_answers \<Rightarrow> start_answers \<Rightarrow> application \<Rightarrow> tls_store \<Rightarrow> start_result" where
  "drd_application_start_handover_daemon = start_controller HANDOVER_CONTROLLER"

text \<open>The run up to the main loop: \<open>Inr ()\<close> when the loop is entered (and the process ends with
  success when it is left), \<open>Inl\<close> for \<open>EXIT_FAILURE\<close>.\<close>

definition drd_application_run ::
    "path_api \<Rightarrow> (string \<Rightarrow> key_file res) \<Rightarrow> nat \<Rightarrow> tls_api \<Rightarrow> x11_answers \<Rightarrow> start_answers \<Rightarrow>
     cli_answer res \<Rightarrow> application \<times> capture_metrics \<Rightarrow> tls_store \<Rightarrow>
     ((application \<times> capture_metrics) \<times> tls_store \<times> unit res) option" where
  "drd_application_run fs load_file euid api xa sa answer st m =
     (case drd_application_parse_options fs load_file euid answer st of
        (st1, Inl e) \<Rightarrow> Some (st1, m, Inl e)
      | ((self, metrics), Inr _) \<Rightarrow>
        if \<not> sa_main_loop sa then Some ((self, metrics), m, fail_io IoFailed)
        else let s = self\<lparr>app_loop := True, app_signals := True\<rparr>;
                 mode = (case app_config s of None \<Rightarrow> RUNTIME_MODE_USER
                         | Some c \<Rightarrow> drd_config_get_runtime_mode c)
        in map_option (\<lambda>(s', m', r). ((s', metrics), m', r))
          (case mode of
             RUNTIME_MODE_SYSTEM \<Rightarrow> drd_application_start_system_daemon fs api xa sa s m
           | RUNTIME_MODE_HANDOVER \<Rightarrow>
               drd_application_start_handover_daemon fs api xa sa (s\<lparr>app_is_handover := True\<rparr>) m
           | RUNTIME_MODE_USER \<Rightarrow> drd_application_start_listener fs api xa sa s m))"

subsection \<open>Signals and the end\<close>

text \<open>What a termination signal does to a running main loop: quit it at once, or in five seconds.\<close>

datatype signal_effect = NO_EFFECT | QUIT_NOW | QUIT_IN_5_S

definition drd_application_on_signal :: "nat \<Rightarrow> bool \<Rightarrow> application \<Rightarrow> signal_effect" where
  "drd_application_on_signal uid loop_running self =
     (if app_loop self \<and> loop_running
      then if \<not> app_is_handover self \<or> uid \<ge> 1000 then QUIT_NOW else QUIT_IN_5_S
      else NO_EFFECT)"

text \<open>The listener's stop and the controller's, whose dispose stops its own listener, stop the runtime
  that they share with the application (\<open>drd_rdp_listener_stop\<close>); the last reference to it goes with
  the controller. As for every stop of the runtime, this is the state in which it returns.\<close>

definition drd_application_dispose ::
    "application \<Rightarrow> tls_store \<Rightarrow> (application \<times> tls_store \<times> x11_event list) option" where
  "drd_application_dispose self m =
     (let (rt1, es1) = (if app_listener self then drd_server_runtime_stop (app_runtime self)
                        else (app_runtime self, []));
          (rt2, es2) = drd_server_runtime_stop rt1;
          (rt3, es3) = (case app_mode_controller self of None \<Rightarrow> (rt2, [])
                        | Some c \<Rightarrow> drd_server_runtime_stop rt2);
          (rt, es4) = drd_server_runtime_dispose rt3;
          es = es1 @ es2 @ es3 @ es4;
          s = self\<lparr>app_signals := False, app_listener := False, app_runtime := rt,
                app_mode_controller := None, app_tls := None, app_config := None,
                app_loop := False\<rparr>
      in case app_tls self of
           None \<Rightarrow> Some (s, m, es)
         | Some t \<Rightarrow> map_option (\<lambda>(_, m'). (s, m', es)) (drd_tls_credentials_dispose t m))"

subsection \<open>What a started application guarantees\<close>

lemma parse_options_ok:
  assumes "drd_application_parse_options fs load_file euid answer (self, metrics) = ((s, metrics'), ok)"
    "\<forall>c. app_config self = Some c \<longrightarrow> config_reachable fs load_file c"
  shows "\<exists>c. s = self\<lparr>app_config := Some c\<rparr> \<and> config_reachable fs load_file c \<and> may_run c \<and>
    (cf_runtime_mode c = RUNTIME_MODE_SYSTEM \<longrightarrow> euid = 0)"
proof -
  from assms(1) obtain a where a: "answer = Inr a"
    by (cases answer) (auto simp: drd_application_parse_options_def)
  from assms(1) a obtain c0 where c0: "load_config fs load_file a (app_config self) = Inr c0"
    by (auto simp: drd_application_parse_options_def split: sum.splits if_splits)
  let ?cli = "(ca_cli a)\<lparr>cli_diff_override := diff_override a\<rparr>"
  obtain c r where m: "drd_config_merge_cli fs c0 ?cli = (c, r)" by (metis surj_pair)
  from assms(1) a c0 m have r: "r = ok"
    by (cases r) (auto simp: drd_application_parse_options_def split: if_splits)
  from assms(1) a c0 m r have s: "s = self\<lparr>app_config := Some c\<rparr>"
    "cf_runtime_mode c = RUNTIME_MODE_SYSTEM \<longrightarrow> euid = 0"
    by (auto simp: drd_application_parse_options_def drd_config_get_runtime_mode_def split: if_splits)
  have c0r: "config_reachable fs load_file c0"
  proof (cases "ca_config_path a")
    case None
    with c0 assms(2) show ?thesis
      by (auto simp: load_config_def config_reachable.new split: option.splits)
  next
    case (Some path)
    with c0 show ?thesis by (auto simp: load_config_def intro: config_reachable.from_file)
  qed
  have "config_reachable fs load_file c"
    using config_reachable.merged [OF c0r, of ?cli] by (simp add: m)
  moreover have "may_run c"
  proof -
    have pam: "pam_service_ok c0"
      using reachable_config_ok [OF c0r] by (simp add: config_ok_def)
    have "cli_ok ?cli"
      using merge_cli_refused [of ?cli fs c0] m r by (auto simp: refused_def)
    from merge_cli_accepted [OF pam this, of fs] m r show ?thesis
      by (auto split: if_splits)
  qed
  ultimately show ?thesis using s by blast
qed

lemma prepare_tls_outcome:
  assumes "dom (ts_certs m) = cs" "dom (ts_keys m) = ks"
    "\<forall>p \<ge> ts_next m. ts_certs m p = None \<and> ts_keys m p = None"
  shows "returns (prepare_tls api c self m) (\<lambda>(s, m', r).
    \<exists>t rt. s = self\<lparr>app_tls := t, app_runtime := rt\<rparr>)"
proof -
  have new: "returns (drd_tls_credentials_new api cp kp m) (\<lambda>_. True)" for cp kp
  proof -
    define cr where "cr = drd_tls_credentials_init\<lparr>tc_certificate_path := Some cp,
      tc_private_key_path := Some kp\<rparr>"
    have inv: "tls_inv cr cs ks m" unfolding cr_def by (rule init_tls_inv [OF assms])
    have "returns (drd_tls_credentials_load api cp kp cr m) (\<lambda>(s, m', r). tls_inv s cs ks m')"
      using load_outcome [OF inv] .
    then show ?thesis
      using dispose_outcome
      by (fastforce simp: drd_tls_credentials_new_def cr_def [symmetric] returns_iff
          split: sum.splits)
  qed
  have self: "\<exists>t rt. self = self\<lparr>app_tls := t, app_runtime := rt\<rparr>"
    by (intro exI [of _ "app_tls self"] exI [of _ "app_runtime self"]) simp
  show ?thesis
  proof (cases "app_tls self \<noteq> None \<or> drd_config_get_runtime_mode c = RUNTIME_MODE_HANDOVER")
    case True
    then show ?thesis using self by (auto simp: prepare_tls_def Let_def)
  next
    case False
    obtain r m' where "drd_tls_credentials_new api (the (drd_config_get_certificate_path c))
        (the (drd_config_get_private_key_path c)) m = Some (r, m')"
      using new [of "the (drd_config_get_certificate_path c)"
          "the (drd_config_get_private_key_path c)"] by (auto simp: returns_iff)
    with False self show ?thesis
      by (cases r) (auto simp: prepare_tls_def Let_def)
  qed
qed

lemma prepare_size_ok:
  "config_ok c \<Longrightarrow> prepare_size xa c self = Inr opts \<Longrightarrow>
   snd (drd_encoding_manager_prepare enc opts) = ok"
proof -
  assume c: "config_ok c" and p: "prepare_size xa c self = Inr opts"
  have "0 < o_width opts" "0 < o_height opts" "o_mode opts \<noteq> MODE_RAW"
    using c p by (auto simp: prepare_size_def Let_def config_ok_def encoding_ok_def
        gint_positive_def drd_config_get_encoding_options_def drd_capture_manager_get_display_size_def
        drd_x11_capture_get_display_size_def split: if_splits sum.splits)
  then show ?thesis
    by (cases "o_mode opts") (simp_all add: drd_encoding_manager_prepare_def Let_def)
qed

lemma prepare_runtime_outcome:
  assumes m: "dom (ts_certs m) = cs" "dom (ts_keys m) = ks"
    "\<forall>p \<ge> ts_next m. ts_certs m p = None \<and> ts_keys m p = None"
    and c: "app_config self = Some c" "config_ok c" "may_run c"
  shows "returns (drd_application_prepare_runtime fs api xa self m) (\<lambda>(s, m', r).
    (\<exists>t rt. s = self\<lparr>app_tls := t, app_runtime := rt\<rparr>) \<and>
    (case r of Inl _ \<Rightarrow> True
     | Inr snap \<Rightarrow> drd_server_runtime_get_encoding_options (app_runtime s) = Some (rs_encoding_opts snap) \<and>
         snd (drd_encoding_manager_prepare enc (rs_encoding_opts snap)) = ok))"
proof -
  have run: "\<not> (cf_runtime_mode c \<noteq> RUNTIME_MODE_HANDOVER \<and>
      (cf_certificate_path c = None \<or> cf_private_key_path c = None))"
    "\<not> (cf_nla_enabled c \<and> cf_runtime_mode c \<noteq> RUNTIME_MODE_HANDOVER \<and>
      (cf_nla_username c = None \<or> cf_nla_password c = None))"
    "\<not> (\<not> cf_nla_enabled c \<and> cf_pam_service c = None)"
    using c(2,3) by (auto simp: may_run_def config_ok_def pam_service_ok_def empty_string_def
        split: option.splits)
  have self: "self\<lparr>app_config := Some c\<rparr> = self" using c(1) by simp
  have "drd_application_prepare_runtime fs api xa self m =
    Option.bind (prepare_tls api c self m) (\<lambda>(s1, m1, r).
        case r of Inl e \<Rightarrow> Some (s1, m1, Inl e)
        | Inr _ \<Rightarrow>
          (case prepare_size xa c s1 of
             Inl e \<Rightarrow> Some (s1, m1, Inl e)
           | Inr opts \<Rightarrow> Some
               (s1\<lparr>app_runtime := drd_server_runtime_set_encoding_options opts (app_runtime s1)\<rparr>, m1,
                Inr \<lparr>rs_encoding_opts = opts, rs_nla_enabled = drd_config_is_nla_enabled c,
                     rs_nla_username = drd_config_get_nla_username c,
                     rs_nla_password = drd_config_get_nla_password c,
                     rs_pam_service = drd_config_get_pam_service c,
                     rs_runtime_mode = drd_config_get_runtime_mode c\<rparr>)))"
    unfolding drd_application_prepare_runtime_def c(1) option.case Let_def self
      drd_config_get_runtime_mode_def drd_config_get_certificate_path_def
      drd_config_get_private_key_path_def drd_config_is_nla_enabled_def
      drd_config_get_nla_username_def drd_config_get_nla_password_def
      drd_config_get_pam_service_def if_not_P [OF run(1)] if_not_P [OF run(2)]
      if_not_P [OF run(3)]
    by (rule refl)
  moreover obtain s1 m1 r where t: "prepare_tls api c self m = Some (s1, m1, r)"
    and s1: "\<exists>t rt. s1 = self\<lparr>app_tls := t, app_runtime := rt\<rparr>"
    using prepare_tls_outcome [OF m, of api c self] unfolding returns_iff by force
  ultimately show ?thesis
  proof (cases r)
    case (Inr u)
    with s1 t prepare_size_ok [OF c(2), of xa s1 _ enc]
      \<open>drd_application_prepare_runtime fs api xa self m = _\<close> show ?thesis
      by (auto simp: drd_server_runtime_set_encoding_options_def
          drd_server_runtime_get_encoding_options_def split: sum.splits)
  qed (use s1 t in auto)
qed

lemma listener_started:
  assumes prep: "drd_application_prepare_runtime fs api xa self m = Some (s0, m1, r0)"
    and new: "\<not> app_listener self"
  shows "returns (drd_application_start_listener fs api xa sa self m) (\<lambda>(s, m', r).
    r = ok \<longrightarrow> (\<exists>snap. r0 = Inr snap) \<and> s = s0\<lparr>app_listener := True\<rparr>)"
proof (cases r0)
  case (Inl e)
  then show ?thesis using prep new by (simp add: drd_application_start_listener_def)
next
  case (Inr snap)
  then show ?thesis using prep new
    by (cases "sa_listener_start sa") (simp_all add: drd_application_start_listener_def Let_def)
qed

lemma controller_started:
  assumes prep: "drd_application_prepare_runtime fs api xa self m = Some (s0, m1, r0)"
  shows "returns (start_controller which fs api xa sa self m) (\<lambda>(s, m', r).
    r = ok \<longrightarrow> (\<exists>snap. r0 = Inr snap) \<and> s = s0\<lparr>app_mode_controller := Some which\<rparr>)"
proof (cases r0)
  case (Inl e)
  then show ?thesis using prep by (simp add: start_controller_def)
next
  case (Inr snap)
  then show ?thesis using prep
    by (cases "sa_controller_start sa") (simp_all add: start_controller_def Let_def)
qed

text \<open>What holds of an application whose start has succeeded.\<close>

definition started_safely :: "nat \<Rightarrow> encoder \<Rightarrow> application \<Rightarrow> bool" where
  "started_safely euid enc s \<longleftrightarrow> (\<exists>c opts. app_config s = Some c \<and> config_ok c \<and> may_run c \<and>
     (cf_runtime_mode c = RUNTIME_MODE_SYSTEM \<longrightarrow> euid = 0) \<and>
     (app_listener s \<longleftrightarrow> cf_runtime_mode c = RUNTIME_MODE_USER) \<and>
     app_mode_controller s = (case cf_runtime_mode c of RUNTIME_MODE_SYSTEM \<Rightarrow> Some SYSTEM_CONTROLLER
        | RUNTIME_MODE_HANDOVER \<Rightarrow> Some HANDOVER_CONTROLLER | RUNTIME_MODE_USER \<Rightarrow> None) \<and>
     drd_server_runtime_get_encoding_options (app_runtime s) = Some opts \<and>
     snd (drd_encoding_manager_prepare enc opts) = ok)"

lemma application_run_outcome:
  assumes "dom (ts_certs m) = cs" "dom (ts_keys m) = ks"
    "\<forall>p \<ge> ts_next m. ts_certs m p = None \<and> ts_keys m p = None"
  shows "returns (drd_application_run fs load_file euid api xa sa answer
      (drd_application_init fs zero_options, metrics) m) (\<lambda>((s, metrics'), m', r).
        r = ok \<longrightarrow> started_safely euid enc s)"
proof -
  let ?self = "drd_application_init fs zero_options"
  obtain s metrics' r where p: "drd_application_parse_options fs load_file euid answer (?self, metrics)
      = ((s, metrics'), r)" by (metis surj_pair)
  show ?thesis
  proof (cases "r = ok \<and> sa_main_loop sa")
    case False
    then show ?thesis
      by (cases r) (auto simp: drd_application_run_def p)
  next
    case True
    have init: "\<forall>c. app_config ?self = Some c \<longrightarrow> config_reachable fs load_file c"
      by (simp add: drd_application_init_def config_reachable.new)
    from parse_options_ok [OF _ init] p True obtain c where
      s: "s = ?self\<lparr>app_config := Some c\<rparr>" and c: "config_reachable fs load_file c" "may_run c"
      and root: "cf_runtime_mode c = RUNTIME_MODE_SYSTEM \<longrightarrow> euid = 0" by blast
    note c_ok = reachable_config_ok [OF c(1)]
    define prepared where "prepared = (\<lambda>(s' :: application, m' :: tls_store, r :: runtime_snapshot res).
      app_config s' = Some c \<and> \<not> app_listener s' \<and> app_mode_controller s' = None \<and>
      (case r of Inl _ \<Rightarrow> True
       | Inr snap \<Rightarrow> drd_server_runtime_get_encoding_options (app_runtime s')
             = Some (rs_encoding_opts snap) \<and>
           snd (drd_encoding_manager_prepare enc (rs_encoding_opts snap)) = ok))"
    have prep: "returns (drd_application_prepare_runtime fs api xa self1 m) prepared"
      if "app_config self1 = Some c" "\<not> app_listener self1" "app_mode_controller self1 = None" for self1
      by (rule returns_mono [OF prepare_runtime_outcome [OF assms that(1) c_ok c(2)]])
        (use that in \<open>auto simp: prepared_def\<close>)
    obtain s0 m1 r0 where p0: "drd_application_prepare_runtime fs api xa
        (s\<lparr>app_loop := True, app_signals := True\<rparr>) m = Some (s0, m1, r0)" and
      s0: "prepared (s0, m1, r0)"
      using prep [of "s\<lparr>app_loop := True, app_signals := True\<rparr>"]
      by (auto simp: s drd_application_init_def returns_iff)
    obtain s1 m2 r1 where p1: "drd_application_prepare_runtime fs api xa
        (s\<lparr>app_loop := True, app_signals := True, app_is_handover := True\<rparr>) m = Some (s1, m2, r1)" and
      s1: "prepared (s1, m2, r1)"
      using prep [of "s\<lparr>app_loop := True, app_signals := True, app_is_handover := True\<rparr>"]
      by (auto simp: s drd_application_init_def returns_iff)
    have nl: "\<not> app_listener (s\<lparr>app_loop := True, app_signals := True\<rparr>)"
      by (simp add: s drd_application_init_def)
    have cfg: "app_config s = Some c" by (simp add: s)
    note started = listener_started [OF p0 nl, of sa]
      controller_started [OF p0, of SYSTEM_CONTROLLER sa]
      controller_started [OF p1, of HANDOVER_CONTROLLER sa]
    show ?thesis
      using True p cfg started s0 s1 c_ok c(2) root unfolding prepared_def
      by (cases "cf_runtime_mode c")
        (fastforce simp: drd_application_run_def drd_config_get_runtime_mode_def returns_iff
          drd_application_start_system_daemon_def drd_application_start_handover_daemon_def
          started_safely_def)+
  qed
qed

text \<open>
  C31: Starting the application, from the command line to the main loop, never crashes, whatever
  the command line, the key file, the TLS files, the X server and the starts of the listener and
  of the two daemons answer; and when it reports
  success, the configuration in force is one that may run, system mode is run by root, exactly
  the listener or the controller of the configured mode is up, and the runtime has encoding
  options with which the encoder can be prepared.
\<close>

theorem application_starts_safely:
  assumes "dom (ts_certs m) = cs" "dom (ts_keys m) = ks"
    "\<forall>p \<ge> ts_next m. ts_certs m p = None \<and> ts_keys m p = None"
  shows "returns (drd_application_run fs load_file euid api xa sa answer
      (drd_application_init fs zero_options, metrics) m) (\<lambda>((s, metrics'), m', r).
        r = ok \<longrightarrow> started_safely euid enc s)"
  using application_run_outcome [OF assms] .

definition witness_start :: start_answers where
  "witness_start = \<lparr>sa_listener_new = True, sa_listener_start = ok, sa_controller_new = True,
     sa_controller_loop = True, sa_controller_start = ok, sa_main_loop = True\<rparr>"

lemma application_starts_safely_witness:
  "returns (drd_application_run plain_fs no_files 1000 good_api witness_answers witness_start
      (Inr \<lparr>ca_cli = full_cli, ca_config_path = None, ca_enable_diff = True, ca_disable_diff = False\<rparr>)
      (drd_application_init plain_fs (cf_encoding (drd_config_new plain_fs)), metrics_defaults)
      \<lparr>ts_certs = Map.empty, ts_keys = Map.empty, ts_next = 0\<rparr>) (\<lambda>((s, metrics'), m', r).
        r = ok \<longrightarrow> started_safely 1000 drd_encoding_manager_init s)"
  by (rule application_starts_safely [OF refl refl]) simp

end
