(* ===== verification/Program.thy ===== *)
theory Program
  imports Application
begin

text \<open>
  The program of \<^verbatim>\<open>src/main.cpp\<close> around the application: WinPR is initialized, the application
  created and run, and released when \<open>main\<close> returns. The answers of WinPR and of the creation are
  arguments; what sessions and daemons do with the credentials while the main loop runs is a list
  of operations on them (\<open>tls_op\<close>).
\<close>

subsection \<open>From start to exit\<close>

definition c_initialize_winpr :: "bool \<Rightarrow> bool \<Rightarrow> bool \<Rightarrow> bool" where
  "c_initialize_winpr ssl table registered =
     (if \<not> ssl then False else if \<not> table \<or> \<not> registered then False else True)"

text \<open>The main loop, as far as the credentials go; what else runs in it is modelled by the theories of
  the listener, the daemons and the sessions. \<open>cs\<close> and \<open>ks\<close> collect the certificates and keys handed to connections.\<close>

definition credential_use ::
    "tls_op list \<Rightarrow> nat set \<Rightarrow> nat set \<Rightarrow> application \<Rightarrow> tls_store \<Rightarrow>
     (application \<times> nat set \<times> nat set \<times> tls_store) option" where
  "credential_use ops cs ks self m =
     (case app_tls self of None \<Rightarrow> Some (self, cs, ks, m)
      | Some t \<Rightarrow> map_option (\<lambda>(t', cs', ks', m'). (self\<lparr>app_tls := Some t'\<rparr>, cs', ks', m'))
          (tls_run ops t cs ks m))"

text \<open>The process starts without FreeRDP objects.\<close>

definition no_objects :: tls_store where
  "no_objects = \<lparr>ts_certs = Map.empty, ts_keys = Map.empty, ts_next = 0\<rparr>"

record exit_state =
  ex_status :: nat
  ex_app :: "application option"  \<comment> \<open>the application as it is released\<close>
  ex_started :: bool
  ex_certs :: "nat set"
  ex_keys :: "nat set"
  ex_store :: tls_store

definition drd_main ::
    "bool \<Rightarrow> bool \<Rightarrow> bool \<Rightarrow> bool \<Rightarrow> path_api \<Rightarrow> (string \<Rightarrow> key_file res) \<Rightarrow> nat \<Rightarrow> tls_api \<Rightarrow> x11_answers \<Rightarrow>
     start_answers \<Rightarrow> cli_answer res \<Rightarrow> tls_op list \<Rightarrow> encoding_options \<Rightarrow>
     capture_metrics \<Rightarrow> exit_state option" where
  "drd_main ssl table registered created fs load_file euid api xa sa answer ops zero metrics =
     (let early = \<lparr>ex_status = 1, ex_app = None, ex_started = False, ex_certs = {}, ex_keys = {},
                   ex_store = no_objects\<rparr> in
      if \<not> c_initialize_winpr ssl table registered then Some early
      else if \<not> created then Some early
      else Option.bind (drd_application_run fs load_file euid api xa sa answer
                          (drd_application_init fs zero, metrics) no_objects) (\<lambda>((s, metrics'), m1, r).
        Option.bind (case r of Inl _ \<Rightarrow> Some (s, {}, {}, m1) | Inr _ \<Rightarrow> credential_use ops {} {} s m1)
          (\<lambda>(s1, cs, ks, m2).
        Option.bind (drd_application_dispose s1 m2) (\<lambda>(s2, m3, es).
          Some \<lparr>ex_status = (case r of Inl _ \<Rightarrow> 1 | Inr _ \<Rightarrow> 0), ex_app = Some s1,
                ex_started = (r = ok), ex_certs = cs, ex_keys = ks, ex_store = m3\<rparr>))))"

subsection \<open>Who owns the credentials\<close>

text \<open>The application owns the parsed credentials it refers to, and nothing else.\<close>

definition app_owns :: "nat set \<Rightarrow> nat set \<Rightarrow> application \<Rightarrow> tls_store \<Rightarrow> bool" where
  "app_owns cs ks self m = (case app_tls self of
     None \<Rightarrow> dom (ts_certs m) = cs \<and> dom (ts_keys m) = ks
   | Some t \<Rightarrow> tls_inv t cs ks m)"

lemma app_owns_cong: "app_tls s = app_tls s' \<Longrightarrow> app_owns cs ks s m = app_owns cs ks s' m"
  by (simp add: app_owns_def)

lemma tls_new_outcome:
  assumes "dom (ts_certs m) = cs" "dom (ts_keys m) = ks"
    "\<forall>p \<ge> ts_next m. ts_certs m p = None \<and> ts_keys m p = None"
  shows "returns (drd_tls_credentials_new api cp kp m) (\<lambda>(r, m').
    case r of Inl e \<Rightarrow> dom (ts_certs m') = cs \<and> dom (ts_keys m') = ks | Inr t \<Rightarrow> tls_inv t cs ks m')"
proof -
  define cr where "cr = drd_tls_credentials_init\<lparr>tc_certificate_path := Some cp,
    tc_private_key_path := Some kp\<rparr>"
  have "tls_inv cr cs ks m" unfolding cr_def by (rule init_tls_inv [OF assms])
  from load_outcome [OF this, of api cp kp] dispose_outcome show ?thesis
    by (fastforce simp: drd_tls_credentials_new_def cr_def [symmetric] returns_iff split: sum.splits)
qed

lemma prepare_tls_owns:
  assumes "dom (ts_certs m) = cs" "dom (ts_keys m) = ks"
    "\<forall>p \<ge> ts_next m. ts_certs m p = None \<and> ts_keys m p = None" "app_tls self = None"
  shows "returns (prepare_tls api c self m) (\<lambda>(s, m', r). app_owns cs ks s m')"
proof (cases "drd_config_get_runtime_mode c = RUNTIME_MODE_HANDOVER")
  case True
  have "tls_inv drd_tls_credentials_init cs ks m"
    using assms by (simp add: tls_inv_def drd_tls_credentials_init_def owned_by_None)
  with True assms(4) show ?thesis
    by (simp add: prepare_tls_def app_owns_def drd_tls_credentials_new_empty_def)
next
  case False
  obtain r m' where new: "drd_tls_credentials_new api (the (drd_config_get_certificate_path c))
      (the (drd_config_get_private_key_path c)) m = Some (r, m')"
    and own: "case r of Inl e \<Rightarrow> dom (ts_certs m') = cs \<and> dom (ts_keys m') = ks
      | Inr t \<Rightarrow> tls_inv t cs ks m'"
    using tls_new_outcome [OF assms(1-3), of api "the (drd_config_get_certificate_path c)"
      "the (drd_config_get_private_key_path c)"] by (auto simp: returns_iff)
  from own False assms(4) show ?thesis
    by (cases r) (simp_all add: prepare_tls_def new Let_def app_owns_def)
qed

lemma prepare_runtime_owns:
  assumes "dom (ts_certs m) = cs" "dom (ts_keys m) = ks"
    "\<forall>p \<ge> ts_next m. ts_certs m p = None \<and> ts_keys m p = None" "app_tls self = None"
  shows "returns (drd_application_prepare_runtime fs api xa self m) (\<lambda>(s, m', r). app_owns cs ks s m')"
proof -
  define c where "c = (case app_config self of None \<Rightarrow> drd_config_new fs | Some c \<Rightarrow> c)"
  define self1 where "self1 = self\<lparr>app_config := Some c\<rparr>"
  have none: "app_tls self1 = None" using assms(4) by (simp add: self1_def)
  then have stay: "app_owns cs ks self1 m" using assms(1,2) by (simp add: app_owns_def)
  obtain s1 m1 r where t: "prepare_tls api c self1 m = Some (s1, m1, r)" and own: "app_owns cs ks s1 m1"
    using prepare_tls_owns [OF assms(1-3) none, of api c] by (auto simp: returns_iff)
  have own': "app_owns cs ks (s1\<lparr>app_runtime := rt\<rparr>) m1" for rt
    using own by (simp add: app_owns_def)
  show ?thesis
    using stay own own' unfolding drd_application_prepare_runtime_def c_def [symmetric] Let_def
      self1_def [symmetric]
    by (auto simp: t split: sum.splits)
qed

lemma start_owns:
  assumes "drd_application_prepare_runtime fs api xa self m = Some (s0, m0, r0)" "app_owns cs ks s0 m0"
  shows "drd_application_start_listener fs api xa sa self m = Some (s, m', r) \<Longrightarrow> app_owns cs ks s m'"
    "start_controller which fs api xa sa self m = Some (s, m', r) \<Longrightarrow> app_owns cs ks s m'"
  using assms by (auto simp: drd_application_start_listener_def start_controller_def Let_def app_owns_def
      split: if_splits sum.splits)

lemma run_owns:
  assumes m: "dom (ts_certs m) = cs" "dom (ts_keys m) = ks"
    "\<forall>p \<ge> ts_next m. ts_certs m p = None \<and> ts_keys m p = None"
    and run: "drd_application_run fs load_file euid api xa sa answer
      (drd_application_init fs zero, metrics) m = Some ((s, metrics'), m', r)"
  shows "app_owns cs ks s m'"
proof -
  obtain s0 metrics0 r0 where p: "drd_application_parse_options fs load_file euid answer
      (drd_application_init fs zero, metrics) = ((s0, metrics0), r0)" by (metis surj_pair)
  have none: "app_tls s0 = None"
    using p by (auto simp: drd_application_parse_options_def drd_application_init_def Let_def
        split: sum.splits if_splits prod.splits)
  show ?thesis
  proof (cases "r0 = ok \<and> sa_main_loop sa")
    case False
    with run p none m(1,2) show ?thesis
      by (cases r0) (auto simp: drd_application_run_def app_owns_def)
  next
    case True
    have prep: "\<exists>s1 m1 r1. drd_application_prepare_runtime fs api xa self1 m = Some (s1, m1, r1) \<and>
        app_owns cs ks s1 m1" if "app_tls self1 = None" for self1
      using prepare_runtime_owns [OF m that] by (auto simp: returns_iff)
    obtain sA mA rA where a: "drd_application_prepare_runtime fs api xa
        (s0\<lparr>app_loop := True, app_signals := True\<rparr>) m = Some (sA, mA, rA)" "app_owns cs ks sA mA"
      using prep [of "s0\<lparr>app_loop := True, app_signals := True\<rparr>"] none by auto
    obtain sB mB rB where b: "drd_application_prepare_runtime fs api xa
        (s0\<lparr>app_loop := True, app_signals := True, app_is_handover := True\<rparr>) m = Some (sB, mB, rB)"
      "app_owns cs ks sB mB"
      using prep [of "s0\<lparr>app_loop := True, app_signals := True, app_is_handover := True\<rparr>"] none by auto
    show ?thesis
      using run p True start_owns [OF a]
        start_owns [OF b]
      by (auto simp: drd_application_run_def drd_application_start_system_daemon_def
          drd_application_start_handover_daemon_def Let_def split: runtime_mode.splits option.splits)
  qed
qed

subsection \<open>The credentials at the end\<close>

lemma credential_use_owns:
  assumes "app_owns cs ks self m"
  shows "returns (credential_use ops cs ks self m) (\<lambda>(s, cs', ks', m').
    app_owns cs' ks' s m' \<and> cs \<subseteq> cs' \<and> ks \<subseteq> ks' \<and> (\<exists>t. s = self\<lparr>app_tls := t\<rparr>))"
proof (cases "app_tls self")
  case None
  then have "\<exists>t. self = self\<lparr>app_tls := t\<rparr>" by (intro exI [of _ None]) simp
  with None assms show ?thesis by (simp add: credential_use_def)
next
  case (Some t)
  with assms have "tls_inv t cs ks m" by (simp add: app_owns_def)
  from tls_run_outcome [OF this, of ops] Some show ?thesis
    by (auto simp: credential_use_def returns_iff app_owns_def)
qed

lemma dispose_owns:
  assumes "app_owns cs ks self m"
  shows "returns (drd_application_dispose self m) (\<lambda>(s, m', es).
    dom (ts_certs m') = cs \<and> dom (ts_keys m') = ks \<and> \<not> app_signals s \<and> \<not> app_listener s \<and>
    app_mode_controller s = None \<and> app_tls s = None)"
proof (cases "app_tls self")
  case None
  with assms show ?thesis
    by (simp add: drd_application_dispose_def app_owns_def split: prod.splits)
next
  case (Some t)
  with assms have "tls_inv t cs ks m" by (simp add: app_owns_def)
  from dispose_outcome [OF this] Some show ?thesis
    by (auto simp: drd_application_dispose_def returns_iff split: prod.splits)
qed

lemma started_safely_tls: "started_safely euid enc (s\<lparr>app_tls := t\<rparr>) = started_safely euid enc s"
  by (simp add: started_safely_def)

text \<open>
  The credentials over a run of the program, from WinPR's initialization to the release of the
  application, whatever is done with them while the main loop runs (the loop's other work is not
  part of this): no step frees an object twice or uses a freed one. The exit status is 0 exactly
  when the main loop was reached, and then the application had started safely. In every case the
  certificates and keys that are alive at the end are exactly those handed to connections.
\<close>

theorem program_credentials_clean:
  "returns (drd_main ssl table registered created fs load_file euid api xa sa answer ops zero
      metrics) (\<lambda>x.
    ex_status x = (if ex_started x then 0 else 1) \<and>
    (ex_started x \<longrightarrow> ssl \<and> table \<and> registered \<and>
       (\<exists>s. ex_app x = Some s \<and> started_safely euid enc s)) \<and>
    dom (ts_certs (ex_store x)) = ex_certs x \<and> dom (ts_keys (ex_store x)) = ex_keys x \<and>
    (\<not> ex_started x \<longrightarrow> ex_certs x = {} \<and> ex_keys x = {}))"
proof (cases "c_initialize_winpr ssl table registered \<and> created")
  case False
  then show ?thesis by (auto simp: drd_main_def Let_def no_objects_def)
next
  case True
  then have winpr: "ssl" "table" "registered" by (auto simp: c_initialize_winpr_def split: if_splits)
  have none: "dom (ts_certs no_objects) = {}" "dom (ts_keys no_objects) = {}"
    "\<forall>p \<ge> ts_next no_objects. ts_certs no_objects p = None \<and> ts_keys no_objects p = None"
    by (simp_all add: no_objects_def)
  obtain s metrics' m1 r where run: "drd_application_run fs load_file euid api xa sa answer
      (drd_application_init fs zero, metrics) no_objects = Some ((s, metrics'), m1, r)"
    and safe: "r = ok \<longrightarrow> started_safely euid enc s"
    using application_run_outcome [OF none, of fs load_file euid api xa sa answer zero
        metrics enc] by (auto simp: returns_iff)
  have own: "app_owns {} {} s m1" by (rule run_owns [OF none run])
  show ?thesis
  proof (cases r)
    case (Inl e)
    obtain s2 m3 es where "drd_application_dispose s m1 = Some (s2, m3, es)"
      "dom (ts_certs m3) = {}" "dom (ts_keys m3) = {}"
      using dispose_owns [OF own] by (auto simp: returns_iff)
    with True run Inl show ?thesis by (simp add: drd_main_def)
  next
    case (Inr u)
    obtain s1 cs ks m2 t where loop: "credential_use ops {} {} s m1 = Some (s1, cs, ks, m2)"
      and own1: "app_owns cs ks s1 m2" "s1 = s\<lparr>app_tls := t\<rparr>"
      using credential_use_owns [OF own, of ops] unfolding returns_iff by fastforce
    then have started: "started_safely euid enc s1" using safe Inr by (auto simp: started_safely_tls)
    obtain s2 m3 es where "drd_application_dispose s1 m2 = Some (s2, m3, es)"
      "dom (ts_certs m3) = cs" "dom (ts_keys m3) = ks"
      using dispose_owns [OF own1(1)] by (auto simp: returns_iff)
    with winpr True run loop Inr started show ?thesis by (simp add: drd_main_def)
  qed
qed

text \<open>A run in user mode that serves two connections around a refused reload.\<close>

definition witness_answer :: cli_answer where
  "witness_answer = \<lparr>ca_cli = full_cli, ca_config_path = None, ca_enable_diff = True, ca_disable_diff = False\<rparr>"

definition witness_ops :: "tls_op list" where
  "witness_ops = [Apply good_api, Reload good_api ''x'' ''bad'', Apply good_api]"

definition witness_init_options :: encoding_options where
  "witness_init_options = cf_encoding (drd_config_new plain_fs)"

lemma witness_cli_merge:
  "\<exists>c. drd_config_merge_cli plain_fs (drd_config_new plain_fs) full_cli = (c, ok) \<and>
     cf_runtime_mode c = RUNTIME_MODE_USER \<and> cf_certificate_path c \<noteq> None \<and>
     cf_private_key_path c \<noteq> None \<and> cf_nla_enabled c \<and> cf_nla_username c \<noteq> None \<and>
     cf_nla_password c \<noteq> None"
proof -
  let ?c = "drd_config_new plain_fs"
  have "pam_service_ok ?c"
    using reachable_config_ok [OF config_reachable.new [of plain_fs no_files]] by (simp add: config_ok_def)
  moreover have "cli_ok full_cli" by code_simp
  moreover have "drd_config_parse_runtime_mode (cli_runtime_mode_name full_cli) = Inr RUNTIME_MODE_USER"
    by code_simp
  then have "effective_mode c full_cli = RUNTIME_MODE_USER" for c by (simp add: effective_mode_def)
  ultimately show ?thesis
    by (simp add: merge_cli_accepted may_run_def effective_def given_def drd_config_resolve_path_def
        full_cli_def drd_config_new_def drd_config_init_def drd_config_refresh_pam_service_def
        empty_string_def)
qed

lemma witness_run_started:
  "map_option snd (map_option (\<lambda>(s, m, r). (s, r)) (drd_application_run plain_fs no_files 1000 good_api
     witness_answers witness_start (Inr witness_answer)
     (drd_application_init plain_fs zero, metrics_defaults) no_objects)) = Some ok"
proof -
  obtain c where c: "drd_config_merge_cli plain_fs (drd_config_new plain_fs) full_cli = (c, ok)"
    "cf_runtime_mode c = RUNTIME_MODE_USER" "cf_certificate_path c \<noteq> None"
    "cf_private_key_path c \<noteq> None" "cf_nla_enabled c" "cf_nla_username c \<noteq> None"
    "cf_nla_password c \<noteq> None"
    using witness_cli_merge by blast
  have cli: "full_cli\<lparr>cli_diff_override := 1\<rparr> = full_cli" by (simp add: full_cli_def)
  have nla: "\<not> (cli_enable_nla full_cli \<and> cli_disable_nla full_cli)" by (simp add: full_cli_def)
  have tls: "\<exists>t m'. drd_tls_credentials_new good_api cp kp no_objects = Some (Inr t, m')" for cp kp
    by (simp add: drd_tls_credentials_new_def drd_tls_credentials_load_def good_api_def
        drd_tls_credentials_apply_pem_def freerdp_certificate_new_from_pem_def no_objects_def
        freerdp_key_new_from_pem_def free_opt_def drd_tls_credentials_init_def)
  have size: "fst (drd_capture_manager_get_display_size witness_answers cm) = Inr (2, 1)" for cm
    by (simp add: drd_capture_manager_get_display_size_def drd_x11_capture_get_display_size_def
        witness_answers_def)
  obtain t m' where t: "drd_tls_credentials_new good_api (the (cf_certificate_path c))
      (the (cf_private_key_path c)) no_objects = Some (Inr t, m')"
    using tls by blast
  show ?thesis
    using c t size cli nla
    by (simp add: drd_application_run_def drd_application_parse_options_def witness_answer_def
        drd_application_init_def load_config_def diff_override_def drd_config_get_runtime_mode_def
        witness_start_def drd_application_start_listener_def drd_application_prepare_runtime_def
        drd_config_get_certificate_path_def drd_config_get_private_key_path_def
        drd_config_is_nla_enabled_def drd_config_get_nla_username_def
        drd_config_get_nla_password_def prepare_tls_def prepare_size_def Let_def)
qed

lemma program_credentials_clean_witness:
  "returns (drd_main True True True True plain_fs no_files 1000 good_api witness_answers witness_start
      (Inr witness_answer) witness_ops witness_init_options metrics_defaults) (\<lambda>x.
    ex_started x \<and> ex_status x = 0 \<and>
    (\<exists>s. ex_app x = Some s \<and> started_safely 1000 drd_encoding_manager_init s) \<and>
    dom (ts_certs (ex_store x)) = ex_certs x \<and> dom (ts_keys (ex_store x)) = ex_keys x)"
proof -
  let ?run = "drd_main True True True True plain_fs no_files 1000 good_api witness_answers witness_start
    (Inr witness_answer) witness_ops witness_init_options metrics_defaults"
  have "returns ?run (\<lambda>x. True)" by (rule returns_mono [OF program_credentials_clean]) simp
  with witness_run_started [of witness_init_options] have "returns ?run ex_started"
    by (auto simp: drd_main_def c_initialize_winpr_def returns_iff split: bind_splits)
  with program_credentials_clean [of True True True True plain_fs no_files 1000 good_api witness_answers
      witness_start "Inr witness_answer" witness_ops witness_init_options metrics_defaults drd_encoding_manager_init]
  show ?thesis by (auto simp: returns_iff)
qed

end
