(* ===== verification/X11_Input_Safety.thy ===== *)
theory X11_Input_Safety
  imports X11_Input
begin

text \<open>
  Properties of the input path: the key code cache changes nothing that reaches the X server,
  and the pointer lands on the desktop pixel that corresponds to the client's coordinates.
\<close>

subsection \<open>Sequences of operations\<close>

text \<open>The operations of the dispatcher. Starting brings the keyboard tables of the display, which
  are fixed until the next start.\<close>

datatype input_op =
    I_start input_answers key_tables nat nat
  | I_stop
  | I_resize nat nat
  | I_key u16 u8
  | I_unicode u16 u16
  | I_pointer u16 u16 u16

type_synonym input_state = "input_dispatcher \<times> key_tables \<times> xtest_event list"

text \<open>One operation, over the function that handles a key.\<close>

definition input_step ::
    "(key_tables \<Rightarrow> u16 \<Rightarrow> u8 \<Rightarrow> input_dispatcher \<Rightarrow> input_dispatcher \<times> xtest_event list \<times> unit res) \<Rightarrow>
     input_op \<Rightarrow> input_state \<Rightarrow> input_state" where
  "input_step key a st = (case st of (d, kt, tr) \<Rightarrow> (case a of
       I_start ans kt' w h \<Rightarrow>
         (fst (drd_input_dispatcher_start ans w h d),
          if xi_running (id_backend d) then kt else kt', tr)
     | I_stop \<Rightarrow> (drd_input_dispatcher_stop d, kt, tr)
     | I_resize w h \<Rightarrow> (drd_input_dispatcher_update_desktop_size w h d, kt, tr)
     | I_key flags sc \<Rightarrow> (case key kt flags sc d of (d', ev, _) \<Rightarrow> (d', kt, tr @ ev))
     | I_unicode flags c \<Rightarrow>
         (case drd_input_dispatcher_handle_unicode kt flags c d of (d', ev, _) \<Rightarrow> (d', kt, tr @ ev))
     | I_pointer flags x y \<Rightarrow> (d, kt, tr @ fst (drd_input_dispatcher_handle_pointer flags x y d))))"

text \<open>The reference: the key is translated anew every time, and nothing is remembered.\<close>

definition translate_each_time ::
    "key_tables \<Rightarrow> u16 \<Rightarrow> u8 \<Rightarrow> input_dispatcher \<Rightarrow> input_dispatcher \<times> xtest_event list \<times> unit res" where
  "translate_each_time kt flags scancode d =
     (if \<not> is_ok (drd_x11_input_check_running (id_backend d)) then (d, [], fail_io IoFailed)
      else let keycode = translate_scancode kt (id_backend d) scancode
                 (flags AND (KBD_FLAGS_EXTENDED OR KBD_FLAGS_EXTENDED1) \<noteq> 0)
           in (d, if keycode = 0 then [] else
                 [Fake_key keycode (flags AND KBD_FLAGS_RELEASE = 0), X_flush], ok))"

text \<open>The invariant of the cache: every entry is empty or holds the translation of its key; a
  stopped injector has an empty cache.\<close>

definition cache_index :: "u8 \<Rightarrow> bool \<Rightarrow> nat" where
  "cache_index base ext = unat base + (if ext then 256 else 0)"

definition cache_ok :: "key_tables \<Rightarrow> x11_input \<Rightarrow> bool" where
  "cache_ok kt b \<longleftrightarrow> length (xi_keycode_cache b) = DRD_X11_KEYCODE_CACHE_SIZE \<and>
     xi_display b = xi_running b \<and>
     (\<forall>base ext. xi_keycode_cache b ! cache_index base ext = DRD_X11_KEYCODE_CACHE_INVALID \<or>
       (xi_running b \<and> xi_keycode_cache b ! cache_index base ext = translate_scancode kt b base ext))"

lemma unat_u8_less: "unat (w :: u8) < 256"
  using unsigned_less [of w, where 'a = nat] by simp

lemma ucast_u8_eq_0: "(ucast (w :: u8) :: u16) = 0 \<longleftrightarrow> w = 0"
proof -
  have "unat (ucast w :: u16) = unat w"
    using unat_u8_less [of w] by (simp add: unsigned_ucast_eq take_bit_nat_eq_self)
  then show ?thesis by (simp add: word_unat_eq_iff)
qed

lemma cache_index_less: "cache_index base ext < DRD_X11_KEYCODE_CACHE_SIZE"
  using unat_u8_less [of base] by (simp add: cache_index_def DRD_X11_KEYCODE_CACHE_SIZE_def)

lemma cache_index_inj: "cache_index b1 e1 = cache_index b2 e2 \<longleftrightarrow> b1 = b2 \<and> e1 = e2"
  using unat_u8_less [of b1] unat_u8_less [of b2] by (auto simp: cache_index_def word_unat_eq_iff split: if_splits)

lemma cache_empty: "\<not> xi_running b \<Longrightarrow> cache_ok kt b \<Longrightarrow>
    xi_keycode_cache b ! cache_index base ext = DRD_X11_KEYCODE_CACHE_INVALID"
  by (simp add: cache_ok_def)

lemma translate_cong:
  "xi_display b = xi_display b' \<Longrightarrow> translate_scancode kt b = translate_scancode kt b'"
  by (intro ext) (simp add: translate_scancode_def drd_x11_input_lookup_special_keycode_def Let_def)

lemma cache_ok_cong:
  assumes "xi_keycode_cache b = xi_keycode_cache b'" "xi_running b = xi_running b'"
    "xi_display b = xi_display b'"
  shows "cache_ok kt b = cache_ok kt b'"
  using assms translate_cong [OF assms(3), of kt] by (simp add: cache_ok_def)

lemma refresh_fields [simp]:
  "xi_keycode_cache (drd_x11_input_refresh_pointer_scale b) = xi_keycode_cache b"
  "xi_running (drd_x11_input_refresh_pointer_scale b) = xi_running b"
  "xi_display (drd_x11_input_refresh_pointer_scale b) = xi_display b"
  "xi_stream_width (drd_x11_input_refresh_pointer_scale b) = xi_stream_width b"
  "xi_stream_height (drd_x11_input_refresh_pointer_scale b) = xi_stream_height b"
  "xi_desktop_width (drd_x11_input_refresh_pointer_scale b) = xi_desktop_width b"
  "xi_desktop_height (drd_x11_input_refresh_pointer_scale b) = xi_desktop_height b"
  by (simp_all add: drd_x11_input_refresh_pointer_scale_def Let_def)

lemma resize_fields [simp]:
  "xi_keycode_cache (drd_x11_input_update_desktop_size w h b) = xi_keycode_cache b"
  "xi_running (drd_x11_input_update_desktop_size w h b) = xi_running b"
  "xi_display (drd_x11_input_update_desktop_size w h b) = xi_display b"
  by (simp_all add: drd_x11_input_update_desktop_size_def)

lemma open_fields:
  assumes "drd_x11_input_open_display ans b = (b', r)"
  shows "xi_keycode_cache b' = xi_keycode_cache b" "xi_running b' = xi_running b"
    "is_ok r \<Longrightarrow> xi_display b'" "\<not> is_ok r \<Longrightarrow> b' = b"
  using assms by (auto simp: drd_x11_input_open_display_def Let_def split: if_splits)

lemma start_cache_ok:
  assumes "cache_ok kt b" "drd_x11_input_start ans b = (b', r)"
  shows "cache_ok (if xi_running b then kt else kt') b'"
proof (cases "xi_running b")
  case True
  with assms show ?thesis by (simp add: drd_x11_input_start_def)
next
  case False
  obtain b1 r1 where o: "drd_x11_input_open_display ans b = (b1, r1)" by (metis surj_pair)
  note F = open_fields [OF o]
  show ?thesis
  proof (cases "is_ok r1")
    case True
    then have "b' = b1\<lparr>xi_running := True\<rparr>" using assms(2) o False by (simp add: drd_x11_input_start_def)
    with False F True assms(1) cache_empty [OF False assms(1)] show ?thesis
      by (simp add: cache_ok_def)
  next
    case no: False
    then have "b' = b" using assms(2) o False F by (simp add: drd_x11_input_start_def)
    with False assms(1) show ?thesis by (simp add: cache_ok_def)
  qed
qed

lemma stop_cache_ok:
  assumes "cache_ok kt b" shows "cache_ok kt (drd_x11_input_stop b)"
proof (cases "xi_running b")
  case True
  then show ?thesis
    using cache_index_less
    by (simp add: drd_x11_input_stop_def cache_ok_def drd_x11_input_reset_keycode_cache_def
        drd_x11_input_close_display_def)
qed (use assms in \<open>simp add: drd_x11_input_stop_def\<close>)

lemma resolve_translates:
  assumes "cache_ok kt b" "xi_running b" "drd_x11_input_resolve_keycode kt b base ext = (b', k, m)"
  shows "k = translate_scancode kt b base ext" "cache_ok kt b'"
    "\<exists>c. b' = b\<lparr>xi_keycode_cache := c\<rparr>"
proof -
  let ?c = "xi_keycode_cache b" and ?i = "cache_index base ext"
  have i: "?i < length ?c" "?i < DRD_X11_KEYCODE_CACHE_SIZE"
    using assms(1) cache_index_less [of base ext] by (simp_all add: cache_ok_def)
  have r: "(b', k, m) = (if ?c ! ?i = DRD_X11_KEYCODE_CACHE_INVALID
      then (b\<lparr>xi_keycode_cache := ?c[?i := translate_scancode kt b base ext]\<rparr>,
            translate_scancode kt b base ext, True)
      else (b, ?c ! ?i, False))"
    using assms(3) i(2)
    unfolding drd_x11_input_resolve_keycode_def Let_def cache_index_def [symmetric] by simp
  have entry: "?c ! cache_index s e \<noteq> DRD_X11_KEYCODE_CACHE_INVALID \<Longrightarrow>
      ?c ! cache_index s e = translate_scancode kt b s e" for s e
    using assms(1) by (auto simp: cache_ok_def)
  show "k = translate_scancode kt b base ext"
    using r entry [of base ext] by (simp split: if_splits)
  show "\<exists>c. b' = b\<lparr>xi_keycode_cache := c\<rparr>"
  proof (cases "?c ! ?i = DRD_X11_KEYCODE_CACHE_INVALID")
    case True
    with r show ?thesis by auto
  next
    case False
    with r have "b' = b\<lparr>xi_keycode_cache := ?c\<rparr>" by simp
    then show ?thesis by blast
  qed
  show "cache_ok kt b'"
  proof (cases "?c ! ?i = DRD_X11_KEYCODE_CACHE_INVALID")
    case True
    with r have b': "b' = b\<lparr>xi_keycode_cache := ?c[?i := translate_scancode kt b base ext]\<rparr>" by simp
    have same: "translate_scancode kt b' = translate_scancode kt b"
      by (rule translate_cong) (simp add: b')
    show ?thesis
      using assms(1,2) i(1) entry
      unfolding cache_ok_def same by (auto simp: b' nth_list_update cache_index_inj)
  next
    case False
    with r assms(1) show ?thesis by simp
  qed
qed

text \<open>Forgetting the cache.\<close>

definition uncached :: "input_dispatcher \<Rightarrow> input_dispatcher" where
  "uncached d = d\<lparr>id_backend := drd_x11_input_reset_keycode_cache (id_backend d)\<rparr>"

lemma reset_fields [simp]:
  "xi_running (drd_x11_input_reset_keycode_cache b) = xi_running b"
  "xi_display (drd_x11_input_reset_keycode_cache b) = xi_display b"
  "xi_screen (drd_x11_input_reset_keycode_cache b) = xi_screen b"
  "xi_stream_width (drd_x11_input_reset_keycode_cache b) = xi_stream_width b"
  "xi_stream_height (drd_x11_input_reset_keycode_cache b) = xi_stream_height b"
  "xi_desktop_width (drd_x11_input_reset_keycode_cache b) = xi_desktop_width b"
  "xi_desktop_height (drd_x11_input_reset_keycode_cache b) = xi_desktop_height b"
  "xi_scale_x (drd_x11_input_reset_keycode_cache b) = xi_scale_x b"
  "xi_scale_y (drd_x11_input_reset_keycode_cache b) = xi_scale_y b"
  by (simp_all add: drd_x11_input_reset_keycode_cache_def)

lemma uncached_backend [simp]:
  "id_backend (uncached d) = drd_x11_input_reset_keycode_cache (id_backend d)"
  by (simp add: uncached_def)

lemma reset_resize:
  "drd_x11_input_reset_keycode_cache (drd_x11_input_update_desktop_size w h b) =
   drd_x11_input_update_desktop_size w h (drd_x11_input_reset_keycode_cache b)"
  by (simp add: drd_x11_input_update_desktop_size_def drd_x11_input_refresh_pointer_scale_def
      drd_x11_input_reset_keycode_cache_def Let_def)

lemma reset_stop:
  "drd_x11_input_reset_keycode_cache (drd_x11_input_stop b) =
   drd_x11_input_stop (drd_x11_input_reset_keycode_cache b)"
  by (simp add: drd_x11_input_stop_def drd_x11_input_reset_keycode_cache_def
      drd_x11_input_close_display_def)

lemma reset_start:
  "drd_x11_input_start ans (drd_x11_input_reset_keycode_cache b) =
   (case drd_x11_input_start ans b of (b', r) \<Rightarrow> (drd_x11_input_reset_keycode_cache b', r))"
  by (simp add: drd_x11_input_start_def drd_x11_input_open_display_def
      drd_x11_input_refresh_pointer_scale_def drd_x11_input_reset_keycode_cache_def Let_def)

lemma uncached_key:
  assumes "cache_ok kt (id_backend d)"
    "drd_input_dispatcher_handle_keyboard kt flags sc d = (d', ev, r)"
  shows "translate_each_time kt flags sc (uncached d) = (uncached d', ev, r)"
    "cache_ok kt (id_backend d')"
proof -
  let ?b = "id_backend d"
  let ?ext = "flags AND (KBD_FLAGS_EXTENDED OR KBD_FLAGS_EXTENDED1) \<noteq> 0"
  have same: "translate_scancode kt (drd_x11_input_reset_keycode_cache ?b) = translate_scancode kt ?b"
    by (rule translate_cong) simp
  show "translate_each_time kt flags sc (uncached d) = (uncached d', ev, r)"
    "cache_ok kt (id_backend d')"
  proof (atomize (full), cases "xi_running ?b")
    case False
    with assms show "translate_each_time kt flags sc (uncached d) = (uncached d', ev, r) \<and>
        cache_ok kt (id_backend d')"
      by (auto simp: drd_input_dispatcher_handle_keyboard_def drd_x11_input_inject_keyboard_def
          drd_x11_input_check_running_def translate_each_time_def)
  next
    case True
    then have disp: "xi_display ?b" using assms(1) by (simp add: cache_ok_def)
    obtain b' k m where res: "drd_x11_input_resolve_keycode kt ?b sc ?ext = (b', k, m)"
      by (metis surj_pair)
    note R = resolve_translates [OF assms(1) True res]
    have "d' = d\<lparr>id_backend := b'\<rparr>" "r = ok"
      "ev = (if k = 0 then [] else [Fake_key k (flags AND KBD_FLAGS_RELEASE = 0), X_flush])"
      using assms(2) True disp res
      by (auto simp: drd_input_dispatcher_handle_keyboard_def drd_x11_input_inject_keyboard_def
          drd_x11_input_check_running_def Let_def split: if_splits)
    moreover have "uncached (d\<lparr>id_backend := b'\<rparr>) = uncached d"
      using R(3) by (auto simp: uncached_def drd_x11_input_reset_keycode_cache_def)
    ultimately show "translate_each_time kt flags sc (uncached d) = (uncached d', ev, r) \<and>
        cache_ok kt (id_backend d')"
      using True disp R by (simp add: translate_each_time_def drd_x11_input_check_running_def same)
  qed
qed

lemma uncached_step:
  assumes "cache_ok kt (id_backend d)"
    "input_step drd_input_dispatcher_handle_keyboard a (d, kt, tr) = (d', kt', tr')"
  shows "input_step translate_each_time a (uncached d, kt, tr) = (uncached d', kt', tr') \<and>
    cache_ok kt' (id_backend d')"
proof (cases a)
  case (I_start ans kn w h)
  obtain b r where st: "drd_x11_input_start ans (id_backend d) = (b, r)" by (metis surj_pair)
  from start_cache_ok [OF assms(1) st, of kn] st I_start assms(2) show ?thesis
    by (cases r)
       (auto simp: input_step_def drd_input_dispatcher_start_def uncached_def reset_start
         reset_resize cache_ok_cong [of "drd_x11_input_update_desktop_size w h b" b])
next
  case I_stop
  with assms stop_cache_ok [OF assms(1)] show ?thesis
    by (auto simp: input_step_def drd_input_dispatcher_stop_def uncached_def reset_stop)
next
  case (I_resize w h)
  with assms show ?thesis
    by (auto simp: input_step_def drd_input_dispatcher_update_desktop_size_def uncached_def
        reset_resize cache_ok_cong [of "drd_x11_input_update_desktop_size w h (id_backend d)"
          "id_backend d"])
next
  case (I_key flags sc)
  obtain d1 ev r where k: "drd_input_dispatcher_handle_keyboard kt flags sc d = (d1, ev, r)"
    by (metis surj_pair)
  with uncached_key [OF assms(1) k] I_key assms(2) show ?thesis by (auto simp: input_step_def)
next
  case (I_unicode flags c)
  with assms show ?thesis
    by (auto simp: input_step_def drd_input_dispatcher_handle_unicode_def uncached_def
        drd_x11_input_inject_unicode_def drd_x11_input_check_running_def Let_def
        split: if_splits sum.splits)
next
  case (I_pointer flags x y)
  with assms show ?thesis
    by (auto simp: input_step_def drd_input_dispatcher_handle_pointer_def
        drd_x11_input_inject_pointer_def drd_x11_input_check_running_def Let_def)
qed

lemma init_cache_ok: "cache_ok kt (id_backend drd_input_dispatcher_init)"
  using cache_index_less
  by (simp add: cache_ok_def drd_input_dispatcher_init_def drd_x11_input_init_def)

lemma uncached_init: "uncached drd_input_dispatcher_init = drd_input_dispatcher_init"
  by (simp add: uncached_def drd_input_dispatcher_init_def drd_x11_input_init_def
      drd_x11_input_reset_keycode_cache_def)

lemma uncached_run:
  "cache_ok kt (id_backend d) \<Longrightarrow>
   fold (input_step drd_input_dispatcher_handle_keyboard) ops (d, kt, tr) = (d', kt', tr') \<Longrightarrow>
   fold (input_step translate_each_time) ops (uncached d, kt, tr) = (uncached d', kt', tr') \<and>
   cache_ok kt' (id_backend d')"
proof (induction ops arbitrary: d kt tr)
  case (Cons a ops)
  obtain d1 kt1 tr1 where st: "input_step drd_input_dispatcher_handle_keyboard a (d, kt, tr)
      = (d1, kt1, tr1)" by (metis surj_pair)
  note S = uncached_step [OF Cons.prems(1) st]
  from Cons.prems(2) st have "fold (input_step drd_input_dispatcher_handle_keyboard) ops
      (d1, kt1, tr1) = (d', kt', tr')" by simp
  from Cons.IH [OF S [THEN conjunct2] this] S show ?case by simp
qed auto

text \<open>
  C27: the key code cache is transparent: whatever the sequence of starts (each with its own
  keyboard tables), stops, resizes and input events, the X server receives exactly the events
  that it would receive if every key were translated anew, because no entry outlives the
  session whose tables it came from and the two halves of the cache never collide.
\<close>

theorem keycode_cache_transparent:
  "snd (snd (fold (input_step drd_input_dispatcher_handle_keyboard) ops
       (drd_input_dispatcher_init, kt, []))) =
   snd (snd (fold (input_step translate_each_time) ops (drd_input_dispatcher_init, kt, [])))"
proof -
  obtain d' kt' tr' where r: "fold (input_step drd_input_dispatcher_handle_keyboard) ops
      (drd_input_dispatcher_init, kt, []) = (d', kt', tr')" by (metis surj_pair)
  from uncached_run [OF init_cache_ok r] r show ?thesis by (simp add: uncached_init)
qed

subsection \<open>The pointer\<close>

lemma two_roundings_and_half:
  assumes "0 \<le> x" "0 \<le> q" "x * q \<le> 65536"
  shows "\<bar>dbl_add (dbl_mul x (dbl_round q)) (1 / 2) - (x * q + 1 / 2)\<bar> \<le> 1 / 4"
proof -
  let ?u = "1 / 2 ^ 53 :: rat"
  define a where "a = x * dbl_round q"
  define m where "m = dbl_round a"
  define e where "e = x * q"
  have e: "0 \<le> e" "e \<le> 65536" using assms by (simp_all add: e_def)
  have "\<bar>a - e\<bar> = x * \<bar>dbl_round q - q\<bar>"
    using assms(1) by (simp add: a_def e_def abs_mult flip: right_diff_distrib)
  also have "\<dots> \<le> x * (\<bar>q\<bar> / 2 ^ 53)"
    by (intro mult_left_mono dbl_round_error assms(1))
  also have "\<dots> = e / 2 ^ 53" using assms(2) by (simp add: e_def)
  finally have ae: "\<bar>a - e\<bar> \<le> e / 2 ^ 53" .
  have a0: "0 \<le> a" using assms by (simp add: a_def dbl_round_nonneg)
  have ma: "\<bar>m - a\<bar> \<le> a / 2 ^ 53" using dbl_round_error [of a] a0 by (simp add: m_def)
  have m0: "0 \<le> m" using a0 by (simp add: m_def dbl_round_nonneg)
  have sm: "\<bar>dbl_round (m + 1 / 2) - (m + 1 / 2)\<bar> \<le> (m + 1 / 2) / 2 ^ 53"
    using dbl_round_error [of "m + 1 / 2"] m0 by simp
  note near = abs_le_D1 [of "_ - _"] abs_le_D2 [of "_ - _"]
  have b1: "a - e \<le> e / 2 ^ 53" "- (a - e) \<le> e / 2 ^ 53" using ae by (rule near)+
  have b2: "m - a \<le> a / 2 ^ 53" "- (m - a) \<le> a / 2 ^ 53" using ma by (rule near)+
  have b3: "dbl_round (m + 1 / 2) - (m + 1 / 2) \<le> (m + 1 / 2) / 2 ^ 53"
    "- (dbl_round (m + 1 / 2) - (m + 1 / 2)) \<le> (m + 1 / 2) / 2 ^ 53" using sm by (rule near)+
  have "a \<le> 65537" using b1 e by simp
  moreover from this have "m \<le> 65538" using b2 a0 by simp
  ultimately have "\<bar>dbl_round (m + 1 / 2) - (e + 1 / 2)\<bar> \<le> 1 / 4"
    using b1 b2 b3 e a0 m0 by (intro abs_leI) simp_all
  then show ?thesis by (simp add: dbl_add_def dbl_mul_def a_def m_def e_def)
qed

text \<open>The coordinate that is sent, for a refreshed scale.\<close>

definition axis_scale :: "nat \<Rightarrow> nat \<Rightarrow> gdouble" where
  "axis_scale stream desktop = (if max stream 1 = max desktop 1 then 1
     else dbl_div (of_nat (max desktop 1)) (of_nat (max stream 1)))"

lemma refresh_scales:
  "xi_scale_x (drd_x11_input_refresh_pointer_scale b) =
     axis_scale (xi_stream_width b) (xi_desktop_width b)"
  "xi_scale_y (drd_x11_input_refresh_pointer_scale b) =
     axis_scale (xi_stream_height b) (xi_desktop_height b)"
proof -
  have "max n 1 = (if 0 < n then n else 1)" for n :: nat by auto
  then show "xi_scale_x (drd_x11_input_refresh_pointer_scale b) =
      axis_scale (xi_stream_width b) (xi_desktop_width b)"
    "xi_scale_y (drd_x11_input_refresh_pointer_scale b) =
      axis_scale (xi_stream_height b) (xi_desktop_height b)"
    by (simp_all add: drd_x11_input_refresh_pointer_scale_def axis_scale_def Let_def)
qed

lemma clamped_coordinate:
  assumes "n < 65536"
  shows "unat (if x > (word_of_nat n :: u16) then word_of_nat n else x) = min (unat x) n"
proof -
  have "unat (word_of_nat n :: u16) = n"
    using assms by (simp add: unat_of_nat take_bit_nat_eq_self)
  then show ?thesis by (auto simp: word_less_nat_alt min_def)
qed

lemma map_coordinate_accurate:
  fixes x :: u16
  assumes "0 < stream" "stream \<le> 65536" "0 < desktop" "desktop \<le> 65536"
  defines "t \<equiv> unat (map_coordinate stream desktop (axis_scale stream desktop) x)"
  shows "t < desktop"
    "\<bar>of_nat t - of_nat (min (unat x) (stream - 1)) * (of_nat desktop / of_nat stream :: rat)\<bar> < 1"
proof -
  let ?c = "min (unat x) (stream - 1)"
  let ?q = "of_nat desktop / of_nat stream :: rat"
  let ?e = "of_nat ?c * ?q"
  obtain n where n: "stream = Suc n" "n < 65536"
    using assms(1,2) by (cases stream) auto
  define c where "c = (if x > (word_of_nat n :: u16) then word_of_nat n else x)"
  have c: "unat c = ?c" using clamped_coordinate [OF n(2), of x] n(1) by (simp add: c_def)
  have cs: "?c < stream" using assms(1) by linarith
  have sub: "stream - 1 = n" using n(1) by simp
  have m: "max stream 1 = stream" "max desktop 1 = desktop" using assms by auto
  have map: "map_coordinate stream desktop scale x = (if stream \<noteq> desktop
      then let scaled = nat \<lfloor>dbl_add (dbl_mul (of_nat (unat c)) scale) (1 / 2)\<rfloor>
           in word_of_nat (if scaled \<ge> desktop then desktop - 1 else scaled)
      else c)" for scale
    unfolding map_coordinate_def m Let_def if_P [OF assms(1)] sub c_def by (rule refl)
  have "t < desktop \<and> \<bar>of_nat t - ?e\<bar> < 1"
  proof (cases "stream = desktop")
    case True
    then have "t = ?c" using c unfolding t_def map by simp
    moreover have "?q = 1" using True assms(3) by simp
    ultimately show ?thesis using True assms(1,3) by (simp add: min_def) linarith
  next
    case False
    define y where "y = dbl_add (dbl_mul (of_nat ?c) (dbl_round ?q)) (1 / 2)"
    define k where "k = nat \<lfloor>y\<rfloor>"
    have lt: "?e < of_nat desktop"
    proof -
      have "(of_nat ?c :: rat) * of_nat desktop < of_nat stream * of_nat desktop"
        using cs assms(3) by (intro mult_strict_right_mono) (simp_all only: of_nat_less_iff of_nat_0_less_iff)
      then show ?thesis using assms(1) by (simp add: field_simps)
    qed
    have e0: "0 \<le> ?e" by simp
    have "?e \<le> 65536" using lt assms(4) by (simp add: less_le_trans less_imp_le)
    then have y: "\<bar>y - (?e + 1 / 2)\<bar> \<le> 1 / 4"
      unfolding y_def by (intro two_roundings_and_half) simp_all
    then have y1: "y - (?e + 1 / 2) \<le> 1 / 4" "- (y - (?e + 1 / 2)) \<le> 1 / 4"
      by (rule abs_le_D1, rule abs_le_D2)
    then have y0: "0 \<le> y" using e0 by linarith
    have k: "of_nat k \<le> y" "y < of_nat k + 1"
      using y0 by (simp_all add: k_def) (linarith | simp)+
    have t: "t = (if k \<ge> desktop then desktop - 1 else k)"
    proof -
      have "(if k \<ge> desktop then desktop - 1 else k) < 65536" using assms(3,4) by auto
      then have "unat (word_of_nat (if k \<ge> desktop then desktop - 1 else k) :: u16)
          = (if k \<ge> desktop then desktop - 1 else k)"
        by (simp add: unat_of_nat take_bit_nat_eq_self)
      moreover have "nat \<lfloor>dbl_add (dbl_mul (of_nat (unat c)) (axis_scale stream desktop)) (1 / 2)\<rfloor> = k"
        unfolding k_def y_def axis_scale_def m dbl_div_def c if_not_P [OF False] by (rule refl)
      ultimately show ?thesis
        unfolding t_def map Let_def if_P [OF False] by (simp only:)
    qed
    show ?thesis
    proof (cases "desktop \<le> k")
      case True
      then have t1: "of_nat t = (of_nat desktop :: rat) - 1" "t < desktop"
        using t assms(3) by (simp_all add: of_nat_diff)
      have "(of_nat desktop :: rat) \<le> of_nat k" using True by simp
      then have "\<bar>of_nat t - ?e\<bar> < 1" using t1(1) lt y1 k unfolding abs_less_iff by linarith
      with t1(2) show ?thesis by simp
    next
      case False
      then have "t = k" "t < desktop" using t by auto
      then have "\<bar>of_nat t - ?e\<bar> < 1" using y1 k unfolding abs_less_iff by linarith
      with \<open>t < desktop\<close> show ?thesis by simp
    qed
  qed
  then show "t < desktop" "\<bar>of_nat t - ?e\<bar> < 1" by auto
qed

text \<open>A running injector has a display, sizes that are not 0, and the scale of its sizes.\<close>

definition pointer_ready :: "x11_input \<Rightarrow> bool" where
  "pointer_ready b \<longleftrightarrow> xi_display b = xi_running b \<and> (xi_running b \<longrightarrow>
     0 < xi_stream_width b \<and> 0 < xi_stream_height b \<and>
     0 < xi_desktop_width b \<and> 0 < xi_desktop_height b \<and>
     xi_scale_x b = axis_scale (xi_stream_width b) (xi_desktop_width b) \<and>
     xi_scale_y b = axis_scale (xi_stream_height b) (xi_desktop_height b))"

lemma resize_ready: "pointer_ready b \<Longrightarrow> pointer_ready (drd_x11_input_update_desktop_size w h b)"
  by (simp add: pointer_ready_def drd_x11_input_update_desktop_size_def refresh_scales)

lemma start_ready:
  assumes "pointer_ready b" "drd_x11_input_start ans b = (b', r)"
  shows "pointer_ready b'"
proof (cases "xi_running b")
  case True
  with assms show ?thesis by (simp add: drd_x11_input_start_def)
next
  case False
  then have disp: "\<not> xi_display b" using assms(1) by (simp add: pointer_ready_def)
  show ?thesis
  proof (cases "ia_display ans \<and> ia_xtest ans")
    case False
    with disp \<open>\<not> xi_running b\<close> assms show ?thesis
      by (auto simp: drd_x11_input_start_def drd_x11_input_open_display_def split: if_splits)
  next
    case True
    obtain s where s: "drd_x11_input_open_display ans b = (drd_x11_input_refresh_pointer_scale s, ok)"
      "xi_display s" "0 < xi_stream_width s" "0 < xi_stream_height s" "0 < xi_desktop_width s"
      "0 < xi_desktop_height s"
      using True disp by (simp add: drd_x11_input_open_display_def Let_def)
    then have "b' = (drd_x11_input_refresh_pointer_scale s)\<lparr>xi_running := True\<rparr>"
      using assms(2) \<open>\<not> xi_running b\<close> by (simp add: drd_x11_input_start_def)
    with s show ?thesis by (simp add: pointer_ready_def refresh_scales)
  qed
qed

lemma stop_ready: "pointer_ready b \<Longrightarrow> pointer_ready (drd_x11_input_stop b)"
  by (simp add: pointer_ready_def drd_x11_input_stop_def drd_x11_input_close_display_def)

lemma key_ready:
  "pointer_ready b \<Longrightarrow> drd_x11_input_inject_keyboard kt flags sc b = (b', ev, r) \<Longrightarrow> pointer_ready b'"
  by (auto simp: drd_x11_input_inject_keyboard_def drd_x11_input_resolve_keycode_def Let_def
      pointer_ready_def split: sum.splits if_splits)

lemma step_ready:
  assumes "pointer_ready (id_backend d)"
    "input_step drd_input_dispatcher_handle_keyboard a (d, kt, tr) = (d', kt', tr')"
  shows "pointer_ready (id_backend d')"
proof (cases a)
  case (I_start ans kn w h)
  obtain b r where st: "drd_x11_input_start ans (id_backend d) = (b, r)" by (metis surj_pair)
  have "pointer_ready b" by (rule start_ready [OF assms(1) st])
  then show ?thesis
    using assms(2) I_start st
    by (auto simp: input_step_def drd_input_dispatcher_start_def resize_ready split: sum.splits)
qed (use assms in \<open>auto simp: input_step_def drd_input_dispatcher_stop_def resize_ready stop_ready
       drd_input_dispatcher_update_desktop_size_def drd_input_dispatcher_handle_keyboard_def
       drd_input_dispatcher_handle_unicode_def drd_x11_input_inject_unicode_def Let_def
       intro: key_ready split: prod.splits sum.splits if_splits\<close>)

lemma run_ready:
  "pointer_ready (id_backend d) \<Longrightarrow>
   fold (input_step drd_input_dispatcher_handle_keyboard) ops (d, kt, tr) = (d', kt', tr') \<Longrightarrow>
   pointer_ready (id_backend d')"
proof (induction ops arbitrary: d kt tr)
  case (Cons a ops)
  obtain d1 kt1 tr1 where st: "input_step drd_input_dispatcher_handle_keyboard a (d, kt, tr)
      = (d1, kt1, tr1)" by (metis surj_pair)
  from Cons.prems(2) st have "fold (input_step drd_input_dispatcher_handle_keyboard) ops
      (d1, kt1, tr1) = (d', kt', tr')" by simp
  then show ?case by (rule Cons.IH [OF step_ready [OF Cons.prems(1) st]])
qed simp

text \<open>
  C28: the pointer lands where the client points: after any sequence of operations, while the
  injector runs on a stream and a desktop of at most 65536 pixels, a move event is sent to a
  pixel inside the desktop that differs from the exactly scaled (clamped) coordinate by less
  than one pixel, rounding of the \<open>double\<close> arithmetic included.
\<close>

theorem pointer_target_accurate:
  assumes "fold (input_step drd_input_dispatcher_handle_keyboard) ops
      (drd_input_dispatcher_init, kt, []) = (d, kt', tr)"
    "xi_running (id_backend d)" "flags AND PTR_FLAGS_MOVE \<noteq> 0"
    "xi_stream_width (id_backend d) \<le> 65536" "xi_desktop_width (id_backend d) \<le> 65536"
    "xi_stream_height (id_backend d) \<le> 65536" "xi_desktop_height (id_backend d) \<le> 65536"
  shows "\<exists>tx ty. hd (fst (drd_input_dispatcher_handle_pointer flags x y d)) =
      Fake_motion (xi_screen (id_backend d)) tx ty \<and>
    unat tx < xi_desktop_width (id_backend d) \<and> unat ty < xi_desktop_height (id_backend d) \<and>
    \<bar>of_nat (unat tx) - of_nat (min (unat x) (xi_stream_width (id_backend d) - 1)) *
      (of_nat (xi_desktop_width (id_backend d)) / of_nat (xi_stream_width (id_backend d)) :: rat)\<bar> < 1 \<and>
    \<bar>of_nat (unat ty) - of_nat (min (unat y) (xi_stream_height (id_backend d) - 1)) *
      (of_nat (xi_desktop_height (id_backend d)) / of_nat (xi_stream_height (id_backend d)) :: rat)\<bar> < 1"
proof -
  let ?b = "id_backend d"
  have "pointer_ready (id_backend drd_input_dispatcher_init)"
    by (simp add: pointer_ready_def drd_input_dispatcher_init_def drd_x11_input_init_def)
  then have "pointer_ready ?b" by (rule run_ready [OF _ assms(1)])
  then have p: "xi_display ?b" "0 < xi_stream_width ?b" "0 < xi_stream_height ?b"
      "0 < xi_desktop_width ?b" "0 < xi_desktop_height ?b"
      "xi_scale_x ?b = axis_scale (xi_stream_width ?b) (xi_desktop_width ?b)"
      "xi_scale_y ?b = axis_scale (xi_stream_height ?b) (xi_desktop_height ?b)"
    using assms(2) by (simp_all add: pointer_ready_def)
  note X = map_coordinate_accurate [OF p(2) assms(4) p(4) assms(5), of x]
  note Y = map_coordinate_accurate [OF p(3) assms(6) p(5) assms(7), of y]
  have "hd (fst (drd_input_dispatcher_handle_pointer flags x y d)) =
      Fake_motion (xi_screen ?b)
        (map_coordinate (xi_stream_width ?b) (xi_desktop_width ?b)
           (axis_scale (xi_stream_width ?b) (xi_desktop_width ?b)) x)
        (map_coordinate (xi_stream_height ?b) (xi_desktop_height ?b)
           (axis_scale (xi_stream_height ?b) (xi_desktop_height ?b)) y)"
    using assms(2,3) p
    by (simp add: drd_input_dispatcher_handle_pointer_def drd_x11_input_inject_pointer_def
        drd_x11_input_check_running_def Let_def)
  with X Y show ?thesis by blast
qed

definition witness_input_answers :: input_answers where
  "witness_input_answers = \<lparr>ia_display = True, ia_xtest = True, ia_screen = 0, ia_width = 1920,
     ia_height = 1080, freerdp_keyboard_init = (\<lambda>_. 1033)\<rparr>"

definition witness_tables :: key_tables where
  "witness_tables = \<lparr>XKeysymToKeycode = (\<lambda>s. if s = XK_Super_L then 133 else 134),
     x11_keycode_from_rdp_scancode = (\<lambda>sc e. 0)\<rparr>"

theorem pointer_target_accurate_witness:
  "\<exists>d kt tr tx ty. fold (input_step drd_input_dispatcher_handle_keyboard)
       [I_start witness_input_answers witness_tables 1024 768]
       (drd_input_dispatcher_init, witness_tables, []) = (d, kt, tr) \<and>
     hd (fst (drd_input_dispatcher_handle_pointer PTR_FLAGS_MOVE 1023 0 d)) =
       Fake_motion 0 tx ty \<and> unat tx < 1920 \<and> unat ty < 1080"
proof -
  let ?st = "(drd_input_dispatcher_init, witness_tables, [])"
  obtain d kt tr where r: "fold (input_step drd_input_dispatcher_handle_keyboard)
      [I_start witness_input_answers witness_tables 1024 768] ?st = (d, kt, tr)"
    by (metis surj_pair)
  have d: "xi_running (id_backend d)" "xi_stream_width (id_backend d) = 1024"
    "xi_stream_height (id_backend d) = 768" "xi_desktop_width (id_backend d) = 1920"
    "xi_desktop_height (id_backend d) = 1080" "xi_screen (id_backend d) = 0"
    using r
    by (auto simp: input_step_def drd_input_dispatcher_start_def drd_x11_input_start_def
        drd_x11_input_open_display_def witness_input_answers_def drd_input_dispatcher_init_def
        drd_x11_input_init_def drd_x11_input_update_desktop_size_def
        drd_x11_input_refresh_pointer_scale_def Let_def)
  have f: "PTR_FLAGS_MOVE AND PTR_FLAGS_MOVE \<noteq> 0" by (simp add: flag_defs)
  from pointer_target_accurate [OF r d(1) f, of 1023 0] d r show ?thesis by auto
qed

subsection \<open>Two deviations\<close>

text \<open>
  The Windows key: the protocol sends the left one as scan code \<open>0x5B\<close> with the extended
  flag (and the right one as \<open>0x5C\<close>), but the code reads the extended flag as \<open>right\<close>, so the
  left key is injected as the right Super key, and no client key yields the left one.
\<close>

lemma left_win_injects_right_super:
  assumes "cache_ok kt b" "xi_running b" "XKeysymToKeycode kt XK_Super_R \<noteq> 0"
  shows "fst (snd (drd_x11_input_inject_keyboard kt KBD_FLAGS_EXTENDED SCAN_LWIN b)) =
    [Fake_key (ucast (XKeysymToKeycode kt XK_Super_R)) True, X_flush]"
proof -
  obtain b' k m where res: "drd_x11_input_resolve_keycode kt b SCAN_LWIN True = (b', k, m)"
    by (metis surj_pair)
  have "xi_display b" using assms(1,2) by (simp add: cache_ok_def)
  then have k: "k = ucast (XKeysymToKeycode kt XK_Super_R)"
    using resolve_translates(1) [OF assms(1,2) res]
    by (simp add: translate_scancode_def drd_x11_input_lookup_special_keycode_def scan_defs
        XK_Super_R_def NoSymbol_def)
  moreover have "k \<noteq> 0"
    using k assms(3) by (simp add: ucast_u8_eq_0)
  ultimately show ?thesis
    using assms(2) \<open>xi_display b\<close> res
    by (simp add: drd_x11_input_inject_keyboard_def drd_x11_input_check_running_def flag_defs)
qed

text \<open>Unicode input drops the shift level: two characters on the same key, such as \<open>a\<close> and
  \<open>A\<close>, inject the same events.\<close>

lemma unicode_shift_level_lost:
  assumes "XKeysymToKeycode kt 0x41 = XKeysymToKeycode kt 0x61"
  shows "drd_x11_input_inject_unicode kt flags 0x41 b = drd_x11_input_inject_unicode kt flags 0x61 b"
  using assms
  by (simp add: drd_x11_input_inject_unicode_def drd_x11_input_keysym_from_codepoint_def
      NoSymbol_def Let_def split: sum.splits)

end
