(* ===== verification/Server_Runtime_Safety.thy ===== *)
theory Server_Runtime_Safety
  imports Server_Runtime X11_Input_Safety
begin

text \<open>
  Properties of the server runtime: preparing a stream is all or nothing (the locale
  \<open>service_chain\<close>, interpreted on the encoder, the input and the capture), the runtime is itself
  a service, pulling a frame never crashes, and the transport switch ends.
\<close>

subsection \<open>The three components of a stream\<close>

definition in_up :: "input_dispatcher \<Rightarrow> bool" where
  "in_up d \<longleftrightarrow> id_active d \<and> xi_running (id_backend d) \<and> xi_display (id_backend d)"

definition in_down :: "input_dispatcher \<Rightarrow> bool" where
  "in_down d \<longleftrightarrow> \<not> id_active d \<and> \<not> xi_running (id_backend d) \<and> \<not> xi_display (id_backend d)"

lemma x11_start_down:
  assumes "\<not> xi_running b" "drd_x11_input_start ans b = (b', r)"
  shows "if is_ok r then xi_running b' \<and> xi_display b' else b' = b"
proof -
  obtain b1 r1 where o: "drd_x11_input_open_display ans b = (b1, r1)" by (metis surj_pair)
  with open_fields [OF o] assms show ?thesis
    by (cases "is_ok r1") (auto simp: drd_x11_input_start_def)
qed

lemma in_start_down:
  assumes "in_down d" "drd_input_dispatcher_start ia w h d = (d', r)"
  shows "if is_ok r then in_up d' else in_down d'"
proof -
  have nr: "\<not> xi_running (id_backend d)" using assms(1) by (simp add: in_down_def)
  obtain b r1 where st: "drd_x11_input_start ia (id_backend d) = (b, r1)" by (metis surj_pair)
  from x11_start_down [OF nr st] st assms show ?thesis
    by (cases r1) (auto simp: drd_input_dispatcher_start_def in_down_def in_up_def)
qed

lemma in_start_up:
  "in_up d \<Longrightarrow> drd_input_dispatcher_start ia w h d = (d', r) \<Longrightarrow> in_up d' \<and> is_ok r"
  by (auto simp: in_up_def drd_input_dispatcher_start_def drd_x11_input_start_def)

lemma in_stop: "in_up d \<or> in_down d \<Longrightarrow> in_down (drd_input_dispatcher_stop d)"
  by (auto simp: in_up_def in_down_def drd_input_dispatcher_stop_def drd_x11_input_stop_def
      drd_x11_input_close_display_def drd_x11_input_reset_keycode_cache_def)

interpretation input_service: service "\<lambda>_. True"
  "\<lambda>(ia, w, h) d. drd_input_dispatcher_start ia w h d" drd_input_dispatcher_stop in_up in_down
  by unfold_locales (auto simp: in_stop dest: in_start_down in_start_up)

lemma encoder_start:
  "\<not> ready s \<Longrightarrow> drd_encoding_manager_prepare s opts = (s', r) \<Longrightarrow>
   if is_ok r then ready s' else \<not> ready s'"
proof -
  assume nr: "\<not> ready s" and p: "drd_encoding_manager_prepare s opts = (s', r)"
  consider "o_width opts = 0 \<or> o_height opts = 0"
    | "\<not> (o_width opts = 0 \<or> o_height opts = 0)" "o_mode opts = MODE_RAW"
    | "\<not> (o_width opts = 0 \<or> o_height opts = 0)" "o_mode opts \<noteq> MODE_RAW"
    by (cases "o_width opts = 0 \<or> o_height opts = 0"; cases "o_mode opts = MODE_RAW") blast+
  then show ?thesis
  proof cases
    case 1
    have "drd_encoding_manager_prepare s opts = (s, fail_io IoInvalidArgument)"
      unfolding drd_encoding_manager_prepare_def by (rule if_P [OF 1])
    with p nr show ?thesis by auto
  next
    case 2
    then have "drd_encoding_manager_prepare s opts = (s, fail_io IoInvalidArgument)"
      using nr by (simp add: drd_encoding_manager_prepare_def drd_encoding_manager_reset_def)
    with p nr show ?thesis by auto
  next
    case 3
    have "\<exists>t. drd_encoding_manager_prepare s opts = (t\<lparr>ready := True\<rparr>, ok)"
      unfolding drd_encoding_manager_prepare_def Let_def if_not_P [OF 3(1)]
      using 3(2) by (cases "o_mode opts") auto
    with p show ?thesis by auto
  qed
qed

lemma encoder_reset_down [simp]: "\<not> ready (drd_encoding_manager_reset s)"
  by (simp add: drd_encoding_manager_reset_def)

interpretation encoder_starter: starter "\<lambda>_. True" "\<lambda>opts s. drd_encoding_manager_prepare s opts"
  drd_encoding_manager_reset ready "\<lambda>s. \<not> ready s"
  by unfold_locales (erule (1) encoder_start, simp)

abbreviation start_capture ::
    "x11_answers \<times> nat \<times> nat \<Rightarrow> capture_manager \<Rightarrow> capture_manager \<times> unit res" where
  "start_capture \<equiv> (\<lambda>(ans, w, h) s.
     case drd_capture_manager_start ans w h s of (s', es, r) \<Rightarrow> (s', r))"

interpretation stream: service_chain
  "\<lambda>_. True" "\<lambda>opts s. drd_encoding_manager_prepare s opts" drd_encoding_manager_reset ready
  "\<lambda>s. \<not> ready s"
  "\<lambda>_. True" "\<lambda>(ia, w, h) d. drd_input_dispatcher_start ia w h d" drd_input_dispatcher_stop
  in_up in_down
  "\<lambda>(ans, w, h). pipe_documented ans" start_capture "\<lambda>s. fst (drd_capture_manager_stop s)"
  cm_up cm_down
  by unfold_locales

subsection \<open>The runtime as a service\<close>

definition rt_up :: "server_runtime \<Rightarrow> bool" where
  "rt_up s \<longleftrightarrow> sr_stream_running s \<and> ready (sr_encoder s) \<and> in_up (sr_input s) \<and>
     cm_up (sr_capture s)"

definition rt_down :: "server_runtime \<Rightarrow> bool" where
  "rt_down s \<longleftrightarrow> \<not> sr_stream_running s \<and> \<not> ready (sr_encoder s) \<and> in_down (sr_input s) \<and>
     cm_down (sr_capture s)"

text \<open>\<open>prepare_stream\<close> is the chain over the three components.\<close>

lemma prepare_stream_chain:
  assumes "\<not> sr_stream_running s"
    "drd_server_runtime_prepare_stream xa ia opts s = (s', es, r)"
  shows "chain_start (\<lambda>opts s. drd_encoding_manager_prepare s opts) drd_encoding_manager_reset
      (\<lambda>(ia, w, h) d. drd_input_dispatcher_start ia w h d) drd_input_dispatcher_stop start_capture
      opts (ia, o_width opts, o_height opts) (xa, o_width opts, o_height opts)
      (sr_encoder s, sr_input s, sr_capture s)
    = ((sr_encoder s', sr_input s', sr_capture s'), r) \<and> sr_stream_running s' = is_ok r"
  using assms
  by (auto simp: drd_server_runtime_prepare_stream_def chain_start_def Let_def
      split: prod.splits sum.splits)

lemma rt_prepare_down:
  assumes "pipe_documented xa" "rt_down s"
    "drd_server_runtime_prepare_stream xa ia opts s = (s', es, r)"
  shows "if is_ok r then rt_up s' else rt_down s'"
proof -
  have nr: "\<not> sr_stream_running s" using assms(2) by (simp add: rt_down_def)
  note ch = prepare_stream_chain [OF nr assms(3)]
  have pre: "\<not> ready (sr_encoder s)" "in_down (sr_input s)" "cm_down (sr_capture s)"
    using assms(2) by (simp_all add: rt_down_def)
  have "case (xa, o_width opts, o_height opts) of (ans, w, h) \<Rightarrow> pipe_documented ans"
    using assms(1) by simp
  from stream.chain_all_or_nothing [OF TrueI TrueI this pre ch [THEN conjunct1]] ch show ?thesis
    by (simp add: rt_up_def rt_down_def split: if_splits)
qed

lemma rt_prepare_up: "rt_up s \<Longrightarrow> drd_server_runtime_prepare_stream xa ia opts s = (s, [], ok)"
  by (simp add: rt_up_def drd_server_runtime_prepare_stream_def)

lemma rt_stop_up: "rt_up s \<Longrightarrow> rt_down (fst (drd_server_runtime_stop s))"
  using cm_stop_up [of "sr_capture s"] in_stop [of "sr_input s"]
  by (auto simp: rt_up_def rt_down_def drd_server_runtime_stop_def split: prod.splits)

lemma rt_stop_down: "rt_down s \<Longrightarrow> drd_server_runtime_stop s = (s, [])"
  by (simp add: rt_down_def drd_server_runtime_stop_def)

interpretation runtime_service: service "\<lambda>(xa, ia, opts). pipe_documented xa"
  "\<lambda>(xa, ia, opts) s. case drd_server_runtime_prepare_stream xa ia opts s of (s', es, r) \<Rightarrow> (s', r)"
  "\<lambda>s. fst (drd_server_runtime_stop s)" rt_up rt_down
  by unfold_locales
     (auto simp: rt_stop_up rt_stop_down rt_prepare_up split: prod.splits dest: rt_prepare_down)

lemma rt_init_down: "rt_down (drd_server_runtime_init opts)"
  by (simp add: rt_down_def drd_server_runtime_init_def init_down in_down_def
      drd_input_dispatcher_init_def drd_x11_input_init_def drd_encoding_manager_init_def)

text \<open>
  C5: preparing a stream is all or nothing: after any sequence of \<open>prepare_stream\<close> calls, whatever
  X11, the kernel, the keyboard and the options answer at each step, and \<open>stop\<close> calls, either
  the stream runs and encoder, input and capture are all up, or it does not and all three are
  down, with nothing of the capture's X11 and kernel resources held.
\<close>

theorem stream_all_or_nothing:
  assumes "\<forall>q\<in>set qs. covered (\<lambda>(xa, ia, opts). pipe_documented xa) q"
    "s = fold (serve (\<lambda>(xa, ia, opts) s.
       case drd_server_runtime_prepare_stream xa ia opts s of (s', es, r) \<Rightarrow> (s', r))
       (\<lambda>s. fst (drd_server_runtime_stop s))) qs (drd_server_runtime_init zero)"
  shows "if sr_stream_running s
    then ready (sr_encoder s) \<and> xi_running (id_backend (sr_input s)) \<and>
      cm_running (sr_capture s) \<and> cx_active (cm_x11 (sr_capture s))
    else \<not> ready (sr_encoder s) \<and> \<not> xi_running (id_backend (sr_input s)) \<and>
      \<not> cm_running (sr_capture s) \<and> held_by (cm_x11 (sr_capture s)) = nothing_held"
proof -
  have "rt_up s \<or> rt_down s"
    unfolding assms(2)
    by (rule runtime_service.requests_settled [OF assms(1)]) (simp add: rt_init_down)
  then show ?thesis
    by (auto simp: rt_up_def rt_down_def cm_up_def cm_down_def in_up_def in_down_def
        idle_holds_nothing)
qed

definition witness_zero :: encoding_options where
  "witness_zero = \<lparr>o_width = 0, o_height = 0, o_mode = MODE_RAW, o_enable_frame_diff = False,
     o_h264_bitrate = 0, o_h264_framerate = 0, o_h264_qp = 0, o_h264_hw_accel = False,
     o_h264_vm_support = False, o_large_change_threshold = Finite 0, o_refresh_interval = 0,
     o_refresh_timeout_ms = 0\<rparr>"

definition witness_options :: encoding_options where
  "witness_options = witness_zero\<lparr>o_width := 2, o_height := 1, o_mode := MODE_AUTO\<rparr>"

definition witness_keyboard :: input_answers where
  "witness_keyboard = \<lparr>ia_display = True, ia_xtest = True, ia_screen = 0, ia_width = 2,
     ia_height = 1, freerdp_keyboard_init = (\<lambda>_. 1033)\<rparr>"

definition witness_requests :: "(x11_answers \<times> input_answers \<times> encoding_options) request list" where
  "witness_requests =
     [Start (witness_answers\<lparr>a_damage := 0\<rparr>, witness_keyboard, witness_options),
      Start (witness_answers, witness_keyboard, witness_options)]"

theorem stream_all_or_nothing_witness:
  "\<exists>s. s = fold (serve (\<lambda>(xa, ia, opts) s.
       case drd_server_runtime_prepare_stream xa ia opts s of (s', es, r) \<Rightarrow> (s', r))
       (\<lambda>s. fst (drd_server_runtime_stop s))) witness_requests
       (drd_server_runtime_init witness_zero) \<and>
     sr_stream_running s \<and> cx_active (cm_x11 (sr_capture s))"
proof -
  let ?start = "\<lambda>(xa, ia, opts) s.
    case drd_server_runtime_prepare_stream xa ia opts s of (s', es, r) \<Rightarrow> (s', r)"
  let ?s1 = "fold (serve ?start (\<lambda>s. fst (drd_server_runtime_stop s))) [hd witness_requests]
    (drd_server_runtime_init witness_zero)"
  define s where "s = fold (serve ?start (\<lambda>s. fst (drd_server_runtime_stop s))) witness_requests
    (drd_server_runtime_init witness_zero)"
  have cov: "\<forall>q\<in>set witness_requests. covered (\<lambda>(xa, ia, opts). pipe_documented xa) q"
    by (simp add: witness_requests_def witness_answers_def pipe_documented_def)
  note all = stream_all_or_nothing [OF cov s_def]
  have "sr_stream_running s"
    unfolding s_def witness_requests_def
    by (simp add: drd_server_runtime_prepare_stream_def drd_server_runtime_init_def
        drd_encoding_manager_prepare_def drd_encoding_manager_init_def witness_options_def
        witness_zero_def drd_input_dispatcher_start_def drd_input_dispatcher_init_def
        drd_x11_input_start_def drd_x11_input_init_def drd_x11_input_open_display_def
        witness_keyboard_def drd_capture_manager_start_def drd_capture_manager_init_def
        drd_x11_capture_start_def drd_x11_capture_init_def drd_x11_capture_setup_wakeup_pipe_def
        drd_x11_capture_prepare_display_def witness_answers_def Let_def)
  with all s_def show ?thesis by (intro exI [of _ s]) simp
qed

end
