(* ===== verification/Server_Runtime_Pull.thy ===== *)
theory Server_Runtime_Pull
  imports Server_Runtime_Safety
begin

text \<open>
  The runtime while it streams: the encoder's invariant and the validity of the queued and the
  cached frames over every operation of the runtime, so that pulling a frame never crashes; and
  the compare-and-exchange loop of the transport switch.
\<close>

subsection \<open>The encoder between two frames\<close>

text \<open>The cached frame can be encoded again: there is none, or it is a frame of valid size.\<close>

definition cache_valid :: "encoder \<Rightarrow> bool" where
  "cache_valid e \<longleftrightarrow> previous_frame e = [] \<or> diff_width e = 0 \<or>
     (diff_wf e \<and> tiles_x e * tiles_y e \<le> UINT16_MAX)"

definition enc_ok :: "codec_api \<Rightarrow> encoder \<Rightarrow> bool" where
  "enc_ok fr e \<longleftrightarrow> enc_inv fr e \<and> cache_valid e"

text \<open>\<open>enc_ok\<close> looks at the codec contexts, the difference state and the refresh book-keeping.\<close>

lemma enc_ok_same_diff:
  assumes "enc_ok fr e" "same_diff e e'" "codecs_inv fr e'" "vaapi_inv e'"
  shows "enc_ok fr e'"
proof -
  have "previous_frame e' = previous_frame e" "diff_width e' = diff_width e"
    "tiles_x e' = tiles_x e" "tiles_y e' = tiles_y e"
    using assms(2) by (simp_all add: same_diff_def)
  then have "cache_valid e' = cache_valid e"
    by (simp add: cache_valid_def same_diff_facts(1) [OF assms(2)])
  with assms show ?thesis
    by (simp add: enc_ok_def enc_inv_def same_diff_facts [OF assms(2)])
qed

lemma enc_ok_force_keyframe: "enc_ok fr e \<Longrightarrow> enc_ok fr (e\<lparr>force_keyframe := True\<rparr>)"
  by (simp add: enc_ok_def enc_inv_def hashes_sized_def coherent_def codecs_inv_def vaapi_inv_def
      refresh_inv_def cache_valid_def diff_wf_def) blast

lemma no_tiles: "tiles_of 0 0 0 = []"
  by (simp add: tiles_of_def steps64.simps [of 0 0])

lemma enc_ok_reset: "enc_ok fr e \<Longrightarrow> enc_ok fr (drd_encoding_manager_reset e)"
  unfolding drd_encoding_manager_reset_def
  by (simp add: enc_ok_def enc_inv_def hashes_sized_def coherent_def codecs_inv_def vaapi_inv_def
      refresh_inv_def cache_valid_def no_tiles has_flag_def)

lemma enc_ok_init: "enc_ok fr drd_encoding_manager_init"
  by (simp add: enc_ok_def enc_inv_def hashes_sized_def coherent_def codecs_inv_def vaapi_inv_def
      refresh_inv_def cache_valid_def no_tiles has_flag_def drd_encoding_manager_init_def)

definition configured :: "encoding_options \<Rightarrow> encoder \<Rightarrow> encoder" where
  "configured options s = s\<lparr>enable_diff := o_enable_frame_diff options,
            h264_bitrate := o_h264_bitrate options, h264_framerate := o_h264_framerate options,
            h264_qp := o_h264_qp options, h264_hw_accel := o_h264_hw_accel options,
            force_keyframe := True, progressive_rfx_frames := 0,
            large_change_threshold := o_large_change_threshold options,
            progressive_refresh_interval := o_refresh_interval options,
            progressive_refresh_timeout_ms := o_refresh_timeout_ms options,
            last_codec := CODEC_UNKNOWN, avc_to_non_avc_transition := False,
            frame_width := o_width options, frame_height := o_height options, ready := True\<rparr>"

lemma prepare_configured:
  "fst (drd_encoding_manager_prepare e options) \<in>
     {e, drd_encoding_manager_reset e, configured options e,
      configured options (drd_encoding_manager_reset e)}"
  unfolding drd_encoding_manager_prepare_def Let_def configured_def [symmetric] by simp

lemma enc_ok_configured: "enc_ok fr e \<Longrightarrow> enc_ok fr (configured options e)"
  by (simp add: configured_def enc_ok_def enc_inv_def hashes_sized_def coherent_def codecs_inv_def
      vaapi_inv_def refresh_inv_def cache_valid_def diff_wf_def) blast

lemma enc_ok_prepare: "enc_ok fr e \<Longrightarrow> enc_ok fr (fst (drd_encoding_manager_prepare e options))"
  using prepare_configured [of e options] enc_ok_reset enc_ok_configured by auto

lemma enc_ok_encode:
  assumes "flags_ok fr" "enc_ok fr e" "frame_valid f"
  shows "returns (drd_encoding_manager_encode_surface_gfx fr va va2 st now now2 e sid f fid h0 auto)
    (\<lambda>(e', h, cmds, r). enc_ok fr e' \<and> ready e' = ready e \<and> length cmds \<le> 1 \<and>
       (\<not> ready e \<longrightarrow> cmds = []))"
proof (cases "ready e")
  case False
  then show ?thesis unfolding encode_not_ready [OF False] using assms(2) by simp
next
  case True
  have inv: "enc_inv fr e" using assms(2) by (simp add: enc_ok_def)
  obtain flags where "returns
      (drd_encoding_manager_encode_surface_gfx fr va va2 st now now2 e sid f fid h0 auto)
      (outcome_ok fr (pixels f) flags (keyframe_due (prepared e f) now) (prepared e f)
         {c. codec_announced st c})"
    using encode_ready [OF assms(1) inv assms(3) True] by blast
  then show ?thesis
  proof (rule returns_mono)
    fix x assume o: "outcome_ok fr (pixels f) flags (keyframe_due (prepared e f) now) (prepared e f)
      {c. codec_announced st c} x"
    obtain e' h cmds r where x: "x = (e', h, cmds, r)" by (cases x)
    have o': "enc_inv fr e'" "diff_wf e'" "same_size (prepared e f) e'" "length cmds \<le> 1"
      using o by (simp_all add: outcome_ok_def x)
    have "ready (prepared e f) = ready e"
      by (simp add: prepared_def drd_encoding_manager_prepare_gfx_diff_state_def Let_def)
    moreover have "diff_width e' = unat (fr_width f)" "diff_height e' = unat (fr_height f)"
      using o'(3) prepared_encodable(2,3) [OF inv assms(3)] by (simp_all add: same_size_def)
    then have "tiles_x e' * tiles_y e' \<le> UINT16_MAX"
      using o'(2) assms(3) by (simp add: diff_wf_def frame_valid_def)
    ultimately show "case x of (e', h, cmds, r) \<Rightarrow> enc_ok fr e' \<and> ready e' = ready e \<and>
        length cmds \<le> 1 \<and> (\<not> ready e \<longrightarrow> cmds = [])"
      using o' True by (simp add: x enc_ok_def cache_valid_def same_size_def)
  qed
qed

lemma cached_frame_valid:
  assumes "diff_wf e" "tiles_x e * tiles_y e \<le> UINT16_MAX"
  shows "\<exists>f. frame_write
      (drd_frame_ensure_capacity fresh
         (drd_frame_configure drd_frame_new (word_of_nat (diff_width e))
            (word_of_nat (diff_height e)) (word_of_nat (diff_stride e)) ts)
         (length (previous_frame e))) (previous_frame e) = Some f \<and> frame_valid f"
proof -
  have d: "0 < diff_width e" "0 < diff_height e" "diff_width e \<le> 65535" "diff_height e \<le> 65535"
    "4 * diff_width e \<le> diff_stride e" "diff_stride e * diff_height e < 2 ^ 32"
    using assms(1) by (simp_all add: diff_wf_def frame_ok_def)
  have "diff_stride e \<le> diff_stride e * diff_height e" using d(2) by simp
  then have s: "diff_stride e < 2 ^ 32" using d(6) by (rule le_less_trans)
  have u: "unat (word_of_nat n :: u32) = n" if "n < 2 ^ 32" for n
    using that by (simp add: unat_of_nat take_bit_nat_eq_self)
  have us: "unat (word_of_nat (diff_width e) :: u32) = diff_width e"
    "unat (word_of_nat (diff_height e) :: u32) = diff_height e"
    "unat (word_of_nat (diff_stride e) :: u32) = diff_stride e"
    using d(3,4) s by (simp_all add: u)
  show ?thesis
    unfolding write_after_ensure_capacity
    using assms us
    by (simp add: frame_valid_def drd_frame_configure_def diff_wf_def)
qed

lemma enc_ok_cached:
  assumes "flags_ok fr" "enc_ok fr e"
  shows "returns (drd_encoding_manager_encode_cached_frame_gfx fr va va2 st now now2 fresh ts e
      sid fid h0 auto)
    (\<lambda>(e', h, cmds, r). enc_ok fr e' \<and> ready e' = ready e \<and> length cmds \<le> 1 \<and>
       (\<not> ready e \<longrightarrow> cmds = []))"
proof -
  let ?bad = "length (previous_frame e) = 0 \<or> diff_width e = 0 \<or> diff_height e = 0 \<or> diff_stride e = 0"
  consider "\<not> ready e" | "ready e" ?bad | "ready e" "\<not> ?bad"
    by (cases "ready e"; cases ?bad; simp)
  then show ?thesis
  proof cases
    case 1
    show ?thesis
      unfolding drd_encoding_manager_encode_cached_frame_gfx_def if_P [OF 1] using assms(2) by simp
  next
    case 2
    show ?thesis
      unfolding drd_encoding_manager_encode_cached_frame_gfx_def if_P [OF 2(2)]
      using assms(2) 2(1) by simp
  next
    case 3
    then have "diff_wf e" "tiles_x e * tiles_y e \<le> UINT16_MAX"
      using assms(2) by (auto simp: enc_ok_def cache_valid_def)
    from cached_frame_valid [OF this, of fresh ts] obtain f where
      f: "frame_write (drd_frame_ensure_capacity fresh
         (drd_frame_configure drd_frame_new (word_of_nat (diff_width e))
            (word_of_nat (diff_height e)) (word_of_nat (diff_stride e)) ts)
         (length (previous_frame e))) (previous_frame e) = Some f" and v: "frame_valid f"
      by blast
    note E = enc_ok_encode [OF assms(1) enc_ok_force_keyframe [OF assms(2)] v,
        of va va2 st now now2 sid fid h0 auto]
    show ?thesis
      unfolding drd_encoding_manager_encode_cached_frame_gfx_def
      using 3 f E by simp
  qed
qed

lemma enc_ok_encoder_prepare:
  assumes "flags_ok fr" "enc_ok fr e"
  shows "enc_ok fr (fst (drd_encoder_prepare fr w e))"
proof (rule enc_ok_same_diff [OF assms(2) encoder_prepare_same])
  show "codecs_inv fr (fst (drd_encoder_prepare fr w e))"
    using assms by (intro encoder_prepare_inv) (simp_all add: enc_ok_def enc_inv_def)
  show "vaapi_inv (fst (drd_encoder_prepare fr w e))"
    using assms(2) by (simp add: encoder_prepare_vaapi enc_ok_def enc_inv_def)
qed

subsection \<open>The runtime's operations\<close>

definition rt_inv :: "codec_api \<Rightarrow> server_runtime \<Rightarrow> bool" where
  "rt_inv fr s \<longleftrightarrow> (rt_up s \<or> rt_down s) \<and> enc_ok fr (sr_encoder s) \<and>
     fq_wf (cm_queue (sr_capture s)) \<and> (\<forall>f\<in>set (fq_abs (cm_queue (sr_capture s))). frame_valid f)"

text \<open>The steps of a running daemon: the application prepares and stops the stream, the capture
  thread pushes a frame, the session pulls or repeats one, the channel switches the transport,
  asks for a key frame or prepares codecs, and the peer's input is injected.\<close>

inductive rt_trans :: "codec_api \<Rightarrow> server_runtime \<Rightarrow> server_runtime \<Rightarrow> bool" for fr where
  prepare: "pipe_documented xa \<Longrightarrow> drd_server_runtime_prepare_stream xa ia opts s = (s', es, r) \<Longrightarrow>
     rt_trans fr s s'"
| stop: "drd_server_runtime_stop s = (s', es) \<Longrightarrow> rt_trans fr s s'"
| push: "frame_valid f \<Longrightarrow> rt_trans fr s (s\<lparr>sr_capture := (sr_capture s)\<lparr>cm_queue :=
     drd_frame_queue_push (cm_queue (sr_capture s)) f\<rparr>\<rparr>)"
| pull: "ec_codecs ec = fr \<Longrightarrow> \<forall>w\<in>set ws. keeps_queue frame_valid (fst w) \<Longrightarrow>
     drd_server_runtime_pull_encoded_frame_surface_gfx ec ws now t rn surf fid h0 s =
       Some (Some (s', h, cmds, r)) \<Longrightarrow> rt_trans fr s s'"
| send: "ec_codecs ec = fr \<Longrightarrow> drd_server_runtime_send_cached_frame_surface_gfx ec surf fid h0 s =
       Some (s', h, cmds, r) \<Longrightarrow> rt_trans fr s s'"
| pull_bits: "\<forall>w\<in>set ws. keeps_queue frame_valid (fst w) \<Longrightarrow>
     drd_server_runtime_pull_encoded_frame_surface_bit ws now t s = Some (s', r) \<Longrightarrow> rt_trans fr s s'"
| transport: "drd_server_runtime_set_transport others desired s = Some s' \<Longrightarrow> rt_trans fr s s'"
| options: "rt_trans fr s (drd_server_runtime_set_encoding_options opts s)"
| credentials: "rt_trans fr s (drd_server_runtime_set_tls_credentials c s)"
| keyframe: "rt_trans fr s (drd_server_runtime_request_keyframe s)"
| codecs: "rt_trans fr s (fst (drd_runtime_encoder_prepare fr w s))"
| key: "drd_input_dispatcher_handle_keyboard kt flags sc (sr_input s) = (d, ev, r) \<Longrightarrow>
     rt_trans fr s (s\<lparr>sr_input := d\<rparr>)"
| resize: "rt_trans fr s (s\<lparr>sr_input := drd_input_dispatcher_update_desktop_size w h (sr_input s)\<rparr>)"

inductive rt_reachable :: "codec_api \<Rightarrow> server_runtime \<Rightarrow> bool" for fr where
  start: "rt_reachable fr (drd_server_runtime_init zero)"
| step: "rt_reachable fr s \<Longrightarrow> rt_trans fr s s' \<Longrightarrow> rt_reachable fr s'"

lemma rt_inv_encoder:
  assumes "rt_inv fr s" "enc_ok fr e" "ready e = ready (sr_encoder s)"
  shows "rt_inv fr (s\<lparr>sr_encoder := e\<rparr>)"
  using assms by (simp add: rt_inv_def rt_up_def rt_down_def)

lemma rt_inv_prepare:
  assumes "rt_inv fr s" "pipe_documented xa"
    "drd_server_runtime_prepare_stream xa ia opts s = (s', es, r)"
  shows "rt_inv fr s'"
proof (cases "rt_up s")
  case True
  with assms rt_prepare_up [OF True, of xa ia opts] show ?thesis by simp
next
  case False
  then have dn: "rt_down s" using assms(1) by (simp add: rt_inv_def)
  then have nr: "\<not> sr_stream_running s" by (simp add: rt_down_def)
  have ud: "rt_up s' \<or> rt_down s'"
    using rt_prepare_down [OF assms(2) dn assms(3)] by (simp split: if_splits)
  have enc: "enc_ok fr (fst (drd_encoding_manager_prepare (sr_encoder s) opts))"
    using assms(1) by (intro enc_ok_prepare) (simp add: rt_inv_def)
  have "enc_ok fr (sr_encoder s')"
    using assms(3) nr enc enc_ok_reset [OF enc]
    by (auto simp: drd_server_runtime_prepare_stream_def Let_def split: prod.splits sum.splits)
  moreover have "cm_queue (sr_capture s') = cm_queue (sr_capture s) \<or>
      fq_abs (cm_queue (sr_capture s')) = []"
    using assms(3) nr
    by (auto simp: drd_server_runtime_prepare_stream_def drd_capture_manager_start_def Let_def
        split: prod.splits sum.splits if_splits)
  moreover have "fq_wf (cm_queue (sr_capture s'))"
    using ud by (auto simp: rt_up_def rt_down_def cm_up_def cm_down_def)
  ultimately show ?thesis
    using ud assms(1) by (auto simp: rt_inv_def)
qed

lemma rt_inv_stop:
  assumes "rt_inv fr s" "drd_server_runtime_stop s = (s', es)"
  shows "rt_inv fr s'"
proof (cases "rt_up s")
  case False
  with assms rt_stop_down [of s] show ?thesis by (simp add: rt_inv_def)
next
  case True
  have dn: "rt_down s'" using rt_stop_up [OF True] assms(2) by simp
  have "enc_ok fr (sr_encoder s')" "fq_abs (cm_queue (sr_capture s')) = fq_abs (cm_queue (sr_capture s))"
    using assms True enc_ok_reset
    by (auto simp: rt_inv_def rt_up_def drd_server_runtime_stop_def drd_capture_manager_stop_def
        split: prod.splits if_splits)
  with dn assms(1) show ?thesis by (auto simp: rt_inv_def rt_down_def cm_down_def)
qed

lemma rt_inv_queue:
  assumes "rt_inv fr s" "fq_wf q" "\<forall>f\<in>set (fq_abs q). frame_valid f"
    "q_running q = q_running (cm_queue (sr_capture s))"
  shows "rt_inv fr (s\<lparr>sr_capture := (sr_capture s)\<lparr>cm_queue := q\<rparr>\<rparr>)"
  using assms by (auto simp: rt_inv_def rt_up_def rt_down_def cm_up_def cm_down_def)

lemma wait_frame_inv:
  assumes "rt_inv fr s" "\<forall>w\<in>set ws. keeps_queue frame_valid (fst w)"
    "drd_capture_manager_wait_frame ws now t (sr_capture s) = Some (cap, r)"
  shows "rt_inv fr (s\<lparr>sr_capture := cap\<rparr>)"
    "\<And>x. r = Inr x \<Longrightarrow> \<exists>f. x = Some f \<and> frame_valid f"
proof -
  let ?q = "cm_queue (sr_capture s)"
  have q: "fq_wf ?q" "\<forall>f\<in>set (fq_abs ?q). frame_valid f"
    using assms(1) by (simp_all add: rt_inv_def)
  have "rt_inv fr (s\<lparr>sr_capture := cap\<rparr>) \<and> (\<forall>x. r = Inr x \<longrightarrow> (\<exists>f. x = Some f \<and> frame_valid f))"
  proof (cases "cm_running (sr_capture s)")
    case False
    with assms(1,3) show ?thesis by (auto simp: drd_capture_manager_wait_frame_def)
  next
    case True
    obtain q1 out where en: "wait_enter ?q now t = (q1, out)" by (metis surj_pair)
    have eff: "wait_effect ?q (q1, out)" using enter_effect [OF q(1)] en by metis
    note E = wait_effect_frames [OF eff q]
    obtain q' b x where run: "queue_wait_run ws (q1, out) = Some (q', b, x)"
      "cap = (sr_capture s)\<lparr>cm_queue := q'\<rparr>" "r = (if b then Inr x else fail_io IoTimedOut)"
      using assms(3) True en
      by (auto simp: drd_capture_manager_wait_frame_def drd_frame_queue_wait_def)
    have R: "fq_wf q' \<and> (\<forall>f\<in>set (fq_abs q'). frame_valid f) \<and> q_running q' = q_running q1 \<and>
        (b \<longrightarrow> (\<exists>f. x = Some f \<and> frame_valid f))"
      using wait_run_frames [OF assms(2) E(1,2) _ run(1)] E(3) by blast
    have "rt_inv fr (s\<lparr>sr_capture := cap\<rparr>)"
      unfolding run(2) using R E(4) by (intro rt_inv_queue [OF assms(1)]) simp_all
    with R run(3) show ?thesis by simp
  qed
  then show "rt_inv fr (s\<lparr>sr_capture := cap\<rparr>)"
    "\<And>x. r = Inr x \<Longrightarrow> \<exists>f. x = Some f \<and> frame_valid f" by blast+
qed

lemma store_encoded_inv:
  assumes "rt_inv fr s" "returns m (\<lambda>(e', h, cmds, r). enc_ok fr e' \<and>
    ready e' = ready (sr_encoder s) \<and> length cmds \<le> 1 \<and> (\<not> ready (sr_encoder s) \<longrightarrow> cmds = []))"
  shows "returns (map_option (store_encoded s) m)
    (\<lambda>(s', h, cmds, r). rt_inv fr s' \<and> length cmds \<le> 1 \<and> (cmds \<noteq> [] \<longrightarrow> rt_up s'))"
proof -
  obtain e' h cmds r where m: "m = Some (e', h, cmds, r)"
    using assms(2) by (cases m) auto
  have p: "enc_ok fr e'" "ready e' = ready (sr_encoder s)" "length cmds \<le> 1"
    "\<not> ready (sr_encoder s) \<longrightarrow> cmds = []"
    using assms(2) by (simp_all add: m)
  have i: "rt_inv fr (s\<lparr>sr_encoder := e'\<rparr>)" by (rule rt_inv_encoder [OF assms(1) p(1,2)])
  have "cmds \<noteq> [] \<longrightarrow> rt_up (s\<lparr>sr_encoder := e'\<rparr>)"
    using i p(2,4) unfolding rt_inv_def rt_down_def by auto
  with i p(3) show ?thesis by (simp add: m store_encoded_def)
qed

text \<open>An encode that another thread interferes with; it crashes, whatever it would have sent.\<close>

definition encode_raced :: "encode_context \<Rightarrow> server_runtime \<Rightarrow> bool" where
  "encode_raced ec s \<longleftrightarrow> ec_interrupted ec \<and> ready (sr_encoder s)"

lemma encode_alone_simps [simp]:
  "\<not> encode_raced ec s \<Longrightarrow> encode_alone ec s m = m"
  "encode_raced ec s \<Longrightarrow> encode_alone ec s m = None"
  by (auto simp: encode_alone_def encode_raced_def)

lemma raced_capture [simp]: "encode_raced ec (s\<lparr>sr_capture := c\<rparr>) = encode_raced ec s"
  by (simp add: encode_raced_def)

lemma encode_cached_inv:
  assumes "rt_inv (ec_codecs ec) s" "flags_ok (ec_codecs ec)" "\<not> encode_raced ec s"
  shows "returns (encode_cached ec surf fid h0 s) (\<lambda>(s', h, cmds, r).
    rt_inv (ec_codecs ec) s' \<and> length cmds \<le> 1 \<and> (cmds \<noteq> [] \<longrightarrow> rt_up s'))"
proof -
  have e: "enc_ok (ec_codecs ec) (sr_encoder s)" using assms(1) by (simp add: rt_inv_def)
  show ?thesis
    unfolding encode_cached_def encode_alone_simps(1) [OF assms(3)]
    by (rule store_encoded_inv [OF assms(1) enc_ok_cached [OF assms(2) e]])
qed

lemma encode_surface_inv:
  assumes "rt_inv (ec_codecs ec) s" "flags_ok (ec_codecs ec)" "frame_valid f" "\<not> encode_raced ec s"
  shows "returns (encode_alone ec s (map_option (store_encoded s)
      (drd_encoding_manager_encode_surface_gfx (ec_codecs ec) (ec_vaapi ec) (ec_vaapi_encode ec)
         (ec_settings ec) (ec_now ec) (ec_now2 ec) (sr_encoder s) surf f fid h0 (auto_switch s))))
    (\<lambda>(s', h, cmds, r). rt_inv (ec_codecs ec) s' \<and> length cmds \<le> 1 \<and> (cmds \<noteq> [] \<longrightarrow> rt_up s'))"
proof -
  have e: "enc_ok (ec_codecs ec) (sr_encoder s)" using assms(1) by (simp add: rt_inv_def)
  show ?thesis
    unfolding encode_alone_simps(1) [OF assms(4)]
    by (rule store_encoded_inv [OF assms(1) enc_ok_encode [OF assms(2) e assms(3)]])
qed

text \<open>A pull whose wait has ended goes on to an encode: of the frame it got, or of the cached one
  when the time is up and a refresh is due.\<close>

definition pull_encodes ::
    "((drd_frame frame_queue \<Rightarrow> drd_frame frame_queue) \<times> bool) list \<Rightarrow> int \<Rightarrow> int \<Rightarrow> int \<Rightarrow>
     server_runtime \<Rightarrow> bool" where
  "pull_encodes ws now timeout_us refresh_now s \<longleftrightarrow>
     (case drd_capture_manager_wait_frame ws now timeout_us (sr_capture s) of
        None \<Rightarrow> False
      | Some (cap, Inl e) \<Rightarrow> e = GIo IoTimedOut \<and>
          drd_encoding_manager_refresh_interval_reached (sr_encoder s) refresh_now
      | Some (cap, Inr x) \<Rightarrow> True)"

lemma pull_inv:
  assumes "rt_inv (ec_codecs ec) s" "flags_ok (ec_codecs ec)"
    "\<forall>w\<in>set ws. keeps_queue frame_valid (fst w)"
    "drd_server_runtime_pull_encoded_frame_surface_gfx ec ws now t rn surf fid h0 s = Some res"
  shows "if encode_raced ec s \<and> pull_encodes ws now t rn s then res = None
    else returns res (\<lambda>(s', h, cmds, r).
      rt_inv (ec_codecs ec) s' \<and> length cmds \<le> 1 \<and> (cmds \<noteq> [] \<longrightarrow> rt_up s'))"
proof -
  obtain cap r where w: "drd_capture_manager_wait_frame ws now t (sr_capture s) = Some (cap, r)"
    using assms(4) by (auto simp: drd_server_runtime_pull_encoded_frame_surface_gfx_def
        split: option.splits)
  note W = wait_frame_inv [OF assms(1,3) w]
  show ?thesis
  proof (cases r)
    case (Inl e)
    then show ?thesis
      using assms(4) w W(1) encode_cached_inv [OF W(1) assms(2)]
      by (auto simp: drd_server_runtime_pull_encoded_frame_surface_gfx_def pull_encodes_def
          encode_cached_def Let_def split: if_splits)
  next
    case (Inr x)
    then obtain f where "x = Some f" "frame_valid f" using W(2) by blast
    with assms(4) w Inr encode_surface_inv [OF W(1) assms(2)] show ?thesis
      by (auto simp: drd_server_runtime_pull_encoded_frame_surface_gfx_def pull_encodes_def Let_def)
  qed
qed

lemma pull_ends:
  assumes "drd_capture_manager_wait_frame ws now t (sr_capture s) \<noteq> None"
  shows "\<exists>res. drd_server_runtime_pull_encoded_frame_surface_gfx ec ws now t rn surf fid h0 s = Some res"
proof -
  obtain cap r where w: "drd_capture_manager_wait_frame ws now t (sr_capture s) = Some (cap, r)"
    using assms by auto
  show ?thesis
  proof (cases r)
    case (Inr x)
    with w show ?thesis
      by (cases x) (simp_all add: drd_server_runtime_pull_encoded_frame_surface_gfx_def Let_def)
  qed (simp add: w drd_server_runtime_pull_encoded_frame_surface_gfx_def Let_def)
qed

lemma set_transport_encoder:
  "drd_server_runtime_set_transport others desired s = Some s' \<Longrightarrow>
   \<exists>m e. s' = s\<lparr>sr_transport_mode := m, sr_encoder := e\<rparr> \<and>
     (e = sr_encoder s \<or> e = drd_encoding_manager_force_keyframe (sr_encoder s))"
proof (induction others desired s rule: drd_server_runtime_set_transport.induct)
  case (1 others desired s)
  show ?case
  proof (cases "sr_transport_mode s = desired")
    case True
    with "1.prems" have "s' = s\<lparr>sr_transport_mode := sr_transport_mode s, sr_encoder := sr_encoder s\<rparr>"
      by (simp add: drd_server_runtime_set_transport.simps)
    then show ?thesis by blast
  next
    case False
    with "1.prems" obtain f fs where o: "others = f # fs"
      by (cases others) (simp_all add: drd_server_runtime_set_transport.simps [of "[]"] Let_def)
    let ?s = "s\<lparr>sr_transport_mode := f (sr_transport_mode s)\<rparr>"
    show ?thesis
    proof (cases "f (sr_transport_mode s) = sr_transport_mode s")
      case True
      with "1.prems" False o have "s' = s\<lparr>sr_transport_mode := desired,
          sr_encoder := drd_encoding_manager_force_keyframe (sr_encoder s)\<rparr>"
        by (simp add: drd_server_runtime_set_transport.simps [of "f # fs"] Let_def)
      then show ?thesis by blast
    next
      case no: False
      with "1.prems" False o have "drd_server_runtime_set_transport fs desired ?s = Some s'"
        by (simp add: drd_server_runtime_set_transport.simps [of "f # fs"] Let_def)
      with "1.IH" [OF refl False o refl] no obtain m e where
        "s' = ?s\<lparr>sr_transport_mode := m, sr_encoder := e\<rparr>"
        "e = sr_encoder s \<or> e = drd_encoding_manager_force_keyframe (sr_encoder s)"
        by auto
      then have "s' = s\<lparr>sr_transport_mode := m, sr_encoder := e\<rparr> \<and>
          (e = sr_encoder s \<or> e = drd_encoding_manager_force_keyframe (sr_encoder s))" by simp
      then show ?thesis by blast
    qed
  qed
qed

lemma rt_inv_input:
  assumes "rt_inv fr s" "in_up d = in_up (sr_input s)" "in_down d = in_down (sr_input s)"
  shows "rt_inv fr (s\<lparr>sr_input := d\<rparr>)"
  using assms by (simp add: rt_inv_def rt_up_def rt_down_def)

lemma key_keeps_input:
  assumes "drd_input_dispatcher_handle_keyboard kt flags sc d = (d', ev, r)"
  shows "in_up d' = in_up d" "in_down d' = in_down d"
  using assms
  by (auto simp: drd_input_dispatcher_handle_keyboard_def drd_x11_input_inject_keyboard_def
      drd_x11_input_resolve_keycode_def in_up_def in_down_def Let_def split: sum.splits if_splits)

lemma resize_keeps_input:
  "in_up (drd_input_dispatcher_update_desktop_size w h d) = in_up d"
  "in_down (drd_input_dispatcher_update_desktop_size w h d) = in_down d"
  by (simp_all add: in_up_def in_down_def drd_input_dispatcher_update_desktop_size_def)

lemma rt_trans_inv:
  assumes "flags_ok fr" "rt_inv fr s" "rt_trans fr s s'"
  shows "rt_inv fr s'"
  using assms(3)
proof cases
  case (prepare xa ia opts es r)
  then show ?thesis using rt_inv_prepare [OF assms(2)] by blast
next
  case (stop es)
  then show ?thesis by (rule rt_inv_stop [OF assms(2)])
next
  case (push f)
  have k: "keeps_queue frame_valid (\<lambda>q. drd_frame_queue_push q f)"
    by (rule keeps_queue_push [of frame_valid f, OF push(2)])
  then show ?thesis
    unfolding push(1) using assms(2)
    by (intro rt_inv_queue) (auto simp: rt_inv_def keeps_queue_def)
next
  case (pull ec ws now t rn surf fid h0 h cmds r)
  then show ?thesis
    using pull_inv [of ec s ws now t rn surf fid h0] assms(1,2) by (auto split: if_splits)
next
  case (send ec surf fid h0 h cmds r)
  then have e: "encode_cached ec surf fid h0 s = Some (s', h, cmds, r)"
    by (simp add: drd_server_runtime_send_cached_frame_surface_gfx_def)
  then have "\<not> encode_raced ec s" by (auto simp: encode_cached_def)
  then show ?thesis using encode_cached_inv [of ec s surf fid h0] assms(1,2) send(1) e by simp
next
  case (pull_bits ws now t r)
  then obtain cap x where "drd_capture_manager_wait_frame ws now t (sr_capture s) = Some (cap, x)"
    "s' = s\<lparr>sr_capture := cap\<rparr>"
    by (auto simp: drd_server_runtime_pull_encoded_frame_surface_bit_def)
  then show ?thesis using wait_frame_inv(1) [OF assms(2) pull_bits(1)] by simp
next
  case (transport others desired)
  from set_transport_encoder [OF transport] obtain m e where
    "s' = s\<lparr>sr_transport_mode := m, sr_encoder := e\<rparr>"
    "e = sr_encoder s \<or> e = drd_encoding_manager_force_keyframe (sr_encoder s)"
    by blast
  moreover have "rt_inv fr (s\<lparr>sr_encoder := e\<rparr>)"
    using calculation(2) assms(2) enc_ok_force_keyframe
    by (intro rt_inv_encoder) (auto simp: rt_inv_def drd_encoding_manager_force_keyframe_def)
  ultimately show ?thesis by (simp add: rt_inv_def rt_up_def rt_down_def)
next
  case (options opts)
  then show ?thesis
    using assms(2) by (simp add: drd_server_runtime_set_encoding_options_def rt_inv_def rt_up_def rt_down_def)
next
  case (credentials c)
  then show ?thesis
    using assms(2) by (simp add: drd_server_runtime_set_tls_credentials_def rt_inv_def rt_up_def rt_down_def)
next
  case keyframe
  have "rt_inv fr (s\<lparr>sr_encoder := (sr_encoder s)\<lparr>force_keyframe := True\<rparr>\<rparr>)"
    using assms(2) enc_ok_force_keyframe
    by (intro rt_inv_encoder [OF assms(2)]) (simp_all add: rt_inv_def)
  with keyframe show ?thesis
    by (simp add: drd_server_runtime_request_keyframe_def drd_encoding_manager_force_keyframe_def)
next
  case (codecs w)
  have "rt_inv fr (s\<lparr>sr_encoder := fst (drd_encoder_prepare fr w (sr_encoder s))\<rparr>)"
    using assms(2) encoder_prepare_same [of "sr_encoder s" fr w]
    by (intro rt_inv_encoder enc_ok_encoder_prepare [OF assms(1)])
       (simp_all add: rt_inv_def same_diff_def)
  with codecs show ?thesis by (simp add: drd_runtime_encoder_prepare_def split: prod.splits)
next
  case (key kt flags sc d ev r)
  then show ?thesis using rt_inv_input [OF assms(2)] key_keeps_input [OF key(2)] by simp
next
  case (resize w h)
  then show ?thesis using rt_inv_input [OF assms(2)] resize_keeps_input by simp
qed

lemma rt_reachable_inv:
  assumes "rt_reachable fr s" "flags_ok fr"
  shows "rt_inv fr s"
  using assms(1)
proof induction
  case (start zero)
  show ?case
    by (simp add: rt_inv_def rt_init_down)
       (simp add: drd_server_runtime_init_def enc_ok_init drd_capture_manager_init_def init_wf)
next
  case (step s s')
  with assms(2) show ?case by (blast intro: rt_trans_inv)
qed

lemma pull_safe:
  assumes "flags_ok (ec_codecs ec)" "rt_reachable (ec_codecs ec) s"
    "\<forall>w\<in>set ws. keeps_queue frame_valid (fst w)"
    "drd_server_runtime_pull_encoded_frame_surface_gfx ec ws now timeout_us rn surf fid h0 s = Some res"
  shows "if ec_interrupted ec \<and> ready (sr_encoder s) \<and> pull_encodes ws now timeout_us rn s
    then res = None
    else returns res (\<lambda>(s', h, cmds, r). rt_reachable (ec_codecs ec) s' \<and> length cmds \<le> 1 \<and>
      (cmds \<noteq> [] \<longrightarrow> sr_stream_running s' \<and> cm_running (sr_capture s')))"
proof (cases "encode_raced ec s \<and> pull_encodes ws now timeout_us rn s")
  case True
  with pull_inv [OF rt_reachable_inv [OF assms(2,1)] assms(1,3,4)] show ?thesis
    by (simp add: encode_raced_def)
next
  case False
  with pull_inv [OF rt_reachable_inv [OF assms(2,1)] assms(1,3,4)]
  obtain s' h cmds r where res: "res = Some (s', h, cmds, r)" "length cmds \<le> 1"
    "cmds \<noteq> [] \<longrightarrow> rt_up s'"
    by (cases res) auto
  have "rt_trans (ec_codecs ec) s s'"
    using assms(3,4) res(1) by (intro rt_trans.pull) auto
  then have "rt_reachable (ec_codecs ec) s'" by (rule rt_reachable.step [OF assms(2)])
  with res False show ?thesis by (simp add: rt_up_def cm_up_def encode_raced_def)
qed


definition witness_context :: encode_context where
  "witness_context = \<lparr>ec_codecs = sample_api 0, ec_vaapi = sample_vaapi,
     ec_vaapi_encode = sample_vaapi, ec_settings = sample_settings, ec_now = 0, ec_now2 = 0,
     ec_fresh = (\<lambda>_. 0), ec_timestamp = 0, ec_interrupted = False\<rparr>"


subsection \<open>The transport switch\<close>

text \<open>
  the compare-and-exchange loop of the transport switch ends within two rounds whatever the
  other threads do to the mode, because there are only two modes; the mode is then the desired
  one, and this call forces a key frame exactly when it made the switch itself.
\<close>

theorem transport_switch_ends:
  assumes "2 \<le> length others"
  shows "drd_server_runtime_set_transport others desired s = Some
    (if sr_transport_mode s = desired then s
     else if hd others (sr_transport_mode s) = sr_transport_mode s
     then s\<lparr>sr_transport_mode := desired,
            sr_encoder := drd_encoding_manager_force_keyframe (sr_encoder s)\<rparr>
     else s\<lparr>sr_transport_mode := desired\<rparr>)"
proof -
  obtain f g fs where o: "others = f # g # fs"
    using assms by (cases others; cases "tl others") auto
  have two: "m \<noteq> d \<Longrightarrow> m' \<noteq> m \<Longrightarrow> m' = d" for m m' d :: frame_transport
    by (cases m; cases m'; cases d) simp_all
  show ?thesis
    using two [of "sr_transport_mode s" desired "f (sr_transport_mode s)"]
    by (simp add: o drd_server_runtime_set_transport.simps [of "f # g # fs"]
        drd_server_runtime_set_transport.simps [of "g # fs"] Let_def)
qed

theorem transport_switch_ends_witness:
  "\<exists>s. drd_server_runtime_set_transport
     [(\<lambda>_. FRAME_TRANSPORT_SURFACE_BITS), (\<lambda>m. m)] FRAME_TRANSPORT_SURFACE_BITS
     (drd_server_runtime_init witness_zero) = Some s \<and>
     sr_transport_mode s = FRAME_TRANSPORT_SURFACE_BITS"
  using transport_switch_ends [of "[(\<lambda>_. FRAME_TRANSPORT_SURFACE_BITS), (\<lambda>m. m)]"
      FRAME_TRANSPORT_SURFACE_BITS "drd_server_runtime_init witness_zero"]
  by simp

end
