(* ===== verification/Graphics_Flow.thy ===== *)
theory Graphics_Flow
  imports Graphics_Pipeline
begin

text \<open>
  The back-pressure of the pipeline (\<^verbatim>\<open>src/session/drd_rdp_graphics_pipeline.c\<close>): the blocking
  wait of the render thread as critical sections interleaved with the channel callbacks, the
  bound on unacknowledged frames, and which events can wake the waiter.
\<close>

subsection \<open>The wait\<close>

definition capacity_blocked :: "pipeline \<Rightarrow> bool" where
  "capacity_blocked self \<longleftrightarrow> surface_ready self \<and> \<not> frame_acks_suspended self \<and>
     outstanding_frames self \<ge> int (max_outstanding_frames self)"

definition capacity_result :: "pipeline \<Rightarrow> bool" where
  "capacity_result self \<longleftrightarrow> surface_ready self \<and>
     (frame_acks_suspended self \<or> outstanding_frames self < int (max_outstanding_frames self))"

datatype waiter = Away | Asleep | Signalled | Returned bool

text \<open>The loop head, reached on entry and after every wake-up, and the entry itself.\<close>

definition capacity_loop :: "pipeline \<Rightarrow> waiter" where
  "capacity_loop self = (if capacity_blocked self then Asleep else Returned (capacity_result self))"

definition wait_for_capacity_enter :: "pipeline \<Rightarrow> waiter" where
  "wait_for_capacity_enter self =
     (if last_frame_h264 self then Returned True else capacity_loop self)"

text \<open>\<open>g_cond_wait_until\<close> gives up at the deadline: the loop breaks and the state is read.\<close>

definition wait_for_capacity_expire :: "pipeline \<Rightarrow> waiter" where
  "wait_for_capacity_expire self = Returned (capacity_result self)"

subsection \<open>The other threads\<close>

datatype pipeline_op =
    Maybe_init channel_answers
  | Frame_ack nat
  | Frame_out bool
  | Frame_mode bool
  | Caps_confirmed
  | Channel_assigned nat
  | Dispose

fun run_op :: "pipeline_op \<Rightarrow> pipeline \<Rightarrow> pipeline \<times> gfx_event list" where
  "run_op (Maybe_init ans) s =
     (case drd_rdp_graphics_pipeline_maybe_init ans (\<lambda>t. t) s of (t, ev, good) \<Rightarrow> (t, ev))"
| "run_op (Frame_ack d) s = drd_rdpgfx_frame_ack s d"
| "run_op (Frame_out add) s = drd_rdp_graphics_pipeline_out_frame_change s add"
| "run_op (Frame_mode m) s = (drd_rdp_graphics_pipeline_set_last_frame_mode s m, [])"
| "run_op Caps_confirmed s = (s\<lparr>caps_confirmed := True\<rparr>, [])"
| "run_op (Channel_assigned cid) s = (case drd_rdpgfx_channel_assigned (Some s) cid of
     (Some t, r) \<Rightarrow> (t, []) | (None, r) \<Rightarrow> (s, []))"
| "run_op Dispose s = drd_rdp_graphics_pipeline_dispose s"

definition signal :: "gfx_event list \<Rightarrow> waiter \<Rightarrow> waiter" where
  "signal ev w = (if Wake \<in> set ev \<and> w = Asleep then Signalled else w)"

text \<open>The render thread and the other threads, with spurious wake-ups. \<open>timed\<close> says that the
  wait has a deadline.\<close>

inductive flow_step :: "bool \<Rightarrow> pipeline \<times> waiter \<Rightarrow> pipeline \<times> waiter \<Rightarrow> bool" for timed where
  enter: "w = Away \<or> w = Returned r \<Longrightarrow> flow_step timed (s, w) (s, wait_for_capacity_enter s)"
| other: "run_op p s = (t, ev) \<Longrightarrow> flow_step timed (s, w) (t, signal ev w)"
| resume: "flow_step timed (s, Signalled) (s, capacity_loop s)"
| spurious: "flow_step timed (s, Asleep) (s, capacity_loop s)"
| expire: "timed \<Longrightarrow> w = Asleep \<or> w = Signalled \<Longrightarrow>
    flow_step timed (s, w) (s, wait_for_capacity_expire s)"

inductive flow_reachable :: "bool \<Rightarrow> nat \<Rightarrow> nat \<Rightarrow> pipeline \<times> waiter \<Rightarrow> bool" for timed W H where
  start: "drd_rdp_graphics_pipeline_new True W H = Some s \<Longrightarrow> flow_reachable timed W H (s, Away)"
| step: "flow_reachable timed W H c \<Longrightarrow> flow_step timed c d \<Longrightarrow> flow_reachable timed W H d"

text \<open>An operation that does not broadcast keeps a blocked pipeline blocked.\<close>

lemma run_op_blocked:
  assumes "capacity_blocked s" and "run_op p s = (t, ev)" and "Wake \<notin> set ev"
  shows "capacity_blocked t"
proof (cases p)
  case (Maybe_init ans)
  then show ?thesis using assms
    by (auto simp: capacity_blocked_def drd_rdp_graphics_pipeline_maybe_init_def Let_def
        drd_rdp_graphics_pipeline_reset_locked_def split: if_splits)
next
  case (Frame_ack d)
  then show ?thesis using assms by (auto simp: drd_rdpgfx_frame_ack_def Let_def split: if_splits)
next
  case (Frame_out add)
  then show ?thesis using assms
    by (auto simp: capacity_blocked_def drd_rdp_graphics_pipeline_out_frame_change_def split: if_splits)
next
  case (Frame_mode m)
  then show ?thesis using assms
    by (auto simp: capacity_blocked_def drd_rdp_graphics_pipeline_set_last_frame_mode_def)
next
  case Caps_confirmed
  then show ?thesis using assms by (auto simp: capacity_blocked_def)
next
  case (Channel_assigned cid)
  then show ?thesis using assms by (auto simp: capacity_blocked_def drd_rdpgfx_channel_assigned_def)
next
  case Dispose
  then show ?thesis using assms
    by (auto simp: capacity_blocked_def drd_rdp_graphics_pipeline_dispose_def Let_def split: if_splits)
qed

lemma asleep_blocked:
  assumes "flow_reachable timed W H c" shows "snd c = Asleep \<longrightarrow> capacity_blocked (fst c)"
  using assms
proof induction
  case (step c d)
  from step.hyps(2) step.IH show ?case
  proof cases
    case (other p s t ev w)
    then show ?thesis
      using step.IH run_op_blocked [of s p t ev] by (auto simp: signal_def split: if_splits)
  qed (auto simp: wait_for_capacity_enter_def capacity_loop_def wait_for_capacity_expire_def
      split: if_splits)
qed simp

subsection \<open>The bound on unacknowledged frames\<close>

text \<open>The render loop submits a frame only after \<open>can_submit\<close>, and then sets the mode of the
  frame; everything else is another thread.\<close>

datatype flow_action = Submit bool | Other_thread pipeline_op

fun flow_act :: "flow_action \<Rightarrow> pipeline \<Rightarrow> pipeline" where
  "flow_act (Submit h264_frame) s =
     (if drd_rdp_graphics_pipeline_can_submit s
      then drd_rdp_graphics_pipeline_set_last_frame_mode
             (fst (drd_rdp_graphics_pipeline_out_frame_change s True)) h264_frame
      else s)"
| "flow_act (Other_thread p) s = fst (run_op p s)"

text \<open>The other threads never submit frames or set the mode.\<close>

fun channel_side :: "flow_action \<Rightarrow> bool" where
  "channel_side (Other_thread (Frame_out add)) = (\<not> add)"
| "channel_side (Other_thread (Frame_mode m)) = False"
| "channel_side a = True"

definition tile_only :: "flow_action \<Rightarrow> bool" where
  "tile_only a \<longleftrightarrow> a \<noteq> Submit True"

definition flow_bounded :: "pipeline \<Rightarrow> bool" where
  "flow_bounded s \<longleftrightarrow> 0 \<le> outstanding_frames s \<and> max_outstanding_frames s = 3"

lemma run_op_bounded:
  assumes "flow_bounded s" and "run_op p s = (t, ev)"
  shows "flow_bounded t"
    and "p \<noteq> Frame_out True \<Longrightarrow> outstanding_frames t \<le> outstanding_frames s"
    and "(\<forall>m. p \<noteq> Frame_mode m) \<Longrightarrow> last_frame_h264 t \<Longrightarrow> last_frame_h264 s"
  using assms
  by (cases p; auto simp: flow_bounded_def drd_rdp_graphics_pipeline_maybe_init_def Let_def
      drd_rdp_graphics_pipeline_reset_locked_def drd_rdpgfx_frame_ack_def
      drd_rdp_graphics_pipeline_out_frame_change_def drd_rdp_graphics_pipeline_dispose_def
      drd_rdp_graphics_pipeline_set_last_frame_mode_def drd_rdpgfx_channel_assigned_def
      split: if_splits)+

definition tile_run_inv :: "pipeline \<Rightarrow> bool" where
  "tile_run_inv s \<longleftrightarrow> flow_bounded s \<and> outstanding_frames s \<le> 3 \<and> \<not> last_frame_h264 s"

lemma flow_act_bounded:
  assumes "flow_bounded s" shows "flow_bounded (flow_act a s)"
proof (cases a)
  case (Submit m)
  then show ?thesis using assms
    by (auto simp: flow_bounded_def drd_rdp_graphics_pipeline_out_frame_change_def
        drd_rdp_graphics_pipeline_set_last_frame_mode_def)
next
  case (Other_thread p)
  then show ?thesis using run_op_bounded(1) [OF assms] by (cases "run_op p s") simp
qed

lemma flow_act_tile:
  assumes inv: "tile_run_inv s" and "channel_side a" "tile_only a"
  shows "tile_run_inv (flow_act a s)"
proof (cases a)
  case (Submit m)
  then show ?thesis using assms
    by (auto simp: tile_run_inv_def flow_bounded_def tile_only_def drd_rdp_graphics_pipeline_can_submit_def
        drd_rdp_graphics_pipeline_out_frame_change_def drd_rdp_graphics_pipeline_set_last_frame_mode_def)
next
  case (Other_thread p)
  obtain t ev where r: "run_op p s = (t, ev)" by fastforce
  have "p \<noteq> Frame_out True" "\<forall>m. p \<noteq> Frame_mode m"
    using assms(2) Other_thread by (cases p; auto)+
  then show ?thesis
    using run_op_bounded [OF _ r] inv by (auto simp: tile_run_inv_def Other_thread r)
qed

lemma run_tile:
  "tile_run_inv s \<Longrightarrow> \<forall>a \<in> set as. channel_side a \<and> tile_only a \<Longrightarrow> tile_run_inv (fold flow_act as s)"
  by (induction as arbitrary: s) (auto simp: flow_act_tile)

lemma flow_run_bounded: "flow_bounded s \<Longrightarrow> flow_bounded (fold flow_act as s)"
  by (induction as arbitrary: s) (auto simp: flow_act_bounded)

lemma new_bounded:
  assumes "drd_rdp_graphics_pipeline_new b W H = Some s"
  shows "tile_run_inv s"
  using assms by (auto simp: drd_rdp_graphics_pipeline_new_def drd_rdp_graphics_pipeline_init_def
      tile_run_inv_def flow_bounded_def split: if_splits)

subsection \<open>Who can end the wait\<close>

text \<open>The operations that do not concern frames in flight; a request to stop the render thread is
  none of the operations: it only sets a flag that the loop reads between waits.\<close>

fun quiet :: "pipeline_op \<Rightarrow> bool" where
  "quiet (Frame_ack d) = False"
| "quiet (Frame_out add) = add"
| "quiet Dispose = False"
| "quiet p = True"

lemma quiet_no_wake:
  assumes "capacity_blocked s" "quiet p" "run_op p s = (t, ev)" shows "Wake \<notin> set ev"
  using assms
  by (cases p) (auto simp: capacity_blocked_def drd_rdp_graphics_pipeline_maybe_init_def Let_def
      drd_rdp_graphics_pipeline_reset_locked_def drd_rdp_graphics_pipeline_out_frame_change_def
      drd_rdp_graphics_pipeline_set_last_frame_mode_def drd_rdpgfx_channel_assigned_def
      split: if_splits)

fun run_quiet :: "pipeline_op list \<Rightarrow> pipeline \<times> waiter \<Rightarrow> pipeline \<times> waiter" where
  "run_quiet [] c = c"
| "run_quiet (p # ps) (s, w) = (case run_op p s of (t, ev) \<Rightarrow> run_quiet ps (t, signal ev w))"

lemma quiet_asleep:
  assumes "capacity_blocked s" "\<forall>p \<in> set ps. quiet p"
  shows "\<exists>t. run_quiet ps (s, Asleep) = (t, Asleep) \<and> capacity_blocked t"
  using assms
proof (induction ps arbitrary: s)
  case (Cons p ps)
  obtain t ev where r: "run_op p s = (t, ev)" by fastforce
  have w: "Wake \<notin> set ev" using quiet_no_wake [OF Cons.prems(1) _ r] Cons.prems(2) by simp
  then have "capacity_blocked t" by (rule run_op_blocked [OF Cons.prems(1) r])
  with Cons.IH [of t] Cons.prems(2) w r show ?case by (simp add: signal_def)
qed simp

subsection \<open>Properties\<close>

text \<open>
  No lost wake-up: in every interleaving of the render thread with the channel callbacks, a
  render thread asleep in \<open>wait_for_capacity\<close> without a pending wake-up waits on a ready surface
  with a full window, so every change that frees capacity has woken it.
\<close>

theorem no_lost_capacity_wakeup:
  assumes "flow_reachable timed W H (s, Asleep)"
  shows "surface_ready s \<and> \<not> frame_acks_suspended s \<and>
    outstanding_frames s \<ge> int (max_outstanding_frames s) \<and> \<not> capacity_result s"
  using asleep_blocked [OF assms] by (auto simp: capacity_blocked_def capacity_result_def)

text \<open>
  The window of unacknowledged frames: the counter never becomes negative, and as long as
  no AVC frame is sent at most three frames are in flight, in every sequence of guarded
  submissions and channel events.
\<close>

theorem frames_in_flight_bounded:
  assumes "drd_rdp_graphics_pipeline_new b W H = Some s" and "\<forall>a \<in> set as. channel_side a"
  shows "0 \<le> outstanding_frames (fold flow_act as s) \<and>
    ((\<forall>a \<in> set as. tile_only a) \<longrightarrow> outstanding_frames (fold flow_act as s) \<le> 3)"
proof -
  have "flow_bounded (fold flow_act as s)"
    using new_bounded [OF assms(1)] flow_run_bounded by (simp add: tile_run_inv_def)
  moreover have "\<forall>a \<in> set as. tile_only a \<Longrightarrow> tile_run_inv (fold flow_act as s)"
    using run_tile [OF new_bounded [OF assms(1)]] assms(2) by blast
  ultimately show ?thesis by (auto simp: flow_bounded_def tile_run_inv_def)
qed

text \<open>
  the untimed wait ends only by a frame acknowledgement, a withdrawn frame or the disposal
  of the pipeline: any sequence of other operations leaves a sleeping render thread asleep. A
  request to stop the render thread is not among the events that wake it.
\<close>

theorem wait_needs_channel_event:
  assumes "capacity_blocked s" and "\<forall>p \<in> set ps. quiet p"
  shows "snd (run_quiet ps (s, Asleep)) = Asleep \<and>
    capacity_loop (fst (run_quiet ps (s, Asleep))) = Asleep"
  using quiet_asleep [OF assms] by (auto simp: capacity_loop_def)

subsection \<open>Witnesses\<close>

definition all_yes :: channel_answers where
  "all_yes = \<lparr>ans_reset = True, ans_create = True, ans_map = True, ans_open = True\<rparr>"

definition ready_pipeline :: pipeline where
  "ready_pipeline = drd_rdp_graphics_pipeline_init\<lparr>gp_width := 8, gp_height := 6, gp_context := True,
     caps_confirmed := True, channel_opened := True, surface_ready := True\<rparr>"

abbreviation full_pipeline :: pipeline where
  "full_pipeline \<equiv> ready_pipeline\<lparr>outstanding_frames := 3\<rparr>"

lemma full_blocked: "capacity_blocked full_pipeline"
  by (simp add: capacity_blocked_def ready_pipeline_def drd_rdp_graphics_pipeline_init_def)

lemma new_sample: "drd_rdp_graphics_pipeline_new True 8 6 =
    Some (drd_rdp_graphics_pipeline_init\<lparr>gp_width := 8, gp_height := 6, gp_context := True\<rparr>)"
  by (simp add: drd_rdp_graphics_pipeline_new_def u16_of_def)

lemma flow_other: "flow_reachable timed W H (s, w) \<Longrightarrow> run_op p s = (t, ev) \<Longrightarrow> signal ev w = w' \<Longrightarrow>
    flow_reachable timed W H (t, w')"
  using flow_reachable.step [OF _ flow_step.other] by blast

lemma full_reachable: "flow_reachable False 8 6 (full_pipeline, Away)"
proof -
  let ?i = "drd_rdp_graphics_pipeline_init\<lparr>gp_width := 8, gp_height := 6, gp_context := True\<rparr>"
  have r0: "flow_reachable False 8 6 (?i, Away)" by (rule flow_reachable.start [OF new_sample])
  have r1: "flow_reachable False 8 6 (?i\<lparr>caps_confirmed := True\<rparr>, Away)"
    by (rule flow_other [OF r0, of Caps_confirmed]) (simp_all add: signal_def)
  have r2: "flow_reachable False 8 6 (ready_pipeline, Away)"
    by (rule flow_other [OF r1, of "Maybe_init all_yes"])
       (simp_all add: signal_def drd_rdp_graphics_pipeline_maybe_init_def Let_def all_yes_def
         drd_rdp_graphics_pipeline_reset_locked_def ready_pipeline_def drd_rdp_graphics_pipeline_init_def)
  have add: "flow_reachable False 8 6 (ready_pipeline\<lparr>outstanding_frames := n\<rparr>, Away) \<Longrightarrow>
      flow_reachable False 8 6 (ready_pipeline\<lparr>outstanding_frames := n + 1\<rparr>, Away)" for n
    by (erule flow_other [where p = "Frame_out True"])
       (simp_all add: signal_def drd_rdp_graphics_pipeline_out_frame_change_def ready_pipeline_def
         drd_rdp_graphics_pipeline_init_def)
  have "ready_pipeline = ready_pipeline\<lparr>outstanding_frames := 0\<rparr>"
    by (simp add: ready_pipeline_def drd_rdp_graphics_pipeline_init_def)
  with r2 have "flow_reachable False 8 6 (ready_pipeline\<lparr>outstanding_frames := 0\<rparr>, Away)" by simp
  from add [OF add [OF add [OF this]]] show ?thesis by simp
qed

theorem no_lost_capacity_wakeup_witness:
  "flow_reachable False 8 6 (full_pipeline, Asleep) \<and> \<not> capacity_result full_pipeline"
proof -
  have "wait_for_capacity_enter full_pipeline = Asleep"
    using full_blocked by (simp add: wait_for_capacity_enter_def capacity_loop_def
        ready_pipeline_def drd_rdp_graphics_pipeline_init_def)
  then have "flow_reachable False 8 6 (full_pipeline, Asleep)"
    using flow_reachable.step [OF full_reachable flow_step.enter [of Away undefined False full_pipeline]]
    by simp
  with no_lost_capacity_wakeup [OF this] show ?thesis by blast
qed

theorem frames_in_flight_bounded_witness:
  "outstanding_frames (fold flow_act
     (Other_thread Caps_confirmed # Other_thread (Maybe_init all_yes) # replicate 7 (Submit False))
     (drd_rdp_graphics_pipeline_init\<lparr>gp_width := 8, gp_height := 6, gp_context := True\<rparr>)) \<le> 3"
  by (rule frames_in_flight_bounded [OF new_sample, THEN conjunct2, rule_format])
     (auto simp: tile_only_def)

theorem wait_needs_channel_event_witness:
  "snd (run_quiet [Maybe_init all_yes, Caps_confirmed, Frame_mode True] (full_pipeline, Asleep)) = Asleep"
  using wait_needs_channel_event [OF full_blocked, of "[Maybe_init all_yes, Caps_confirmed, Frame_mode True]"]
  by simp

end
