(* ===== verification/Rdp_Session.thy ===== *)
theory Rdp_Session
  imports Server_Runtime_Pull Graphics_Flow
begin

text \<open>
  One RDP session (\<^verbatim>\<open>src/session/drd_rdp_session.c\<close>): its life cycle, its three threads, the
  closed callback, the activation of a peer, the refresh timer and the server redirection.

  An operation is run by a thread (\<open>who\<close>). A join of one's own thread never ends (\<open>None\<close>), nor does
  one of a render thread that sleeps for good in its untimed wait (\<open>ss_render_stuck\<close>). What the
  session does to the outside is the list of events it returns. The runtime is passed beside the
  session, which only knows whether it has one. The peer's answers, and those of FreeRDP and
  WinPR, are parameters.
\<close>

subsection \<open>State\<close>

datatype thread = Main_thread | Event_thread | Vcm_thread | Render_thread

datatype session_error =
    SESSION_ERROR_NONE | SESSION_ERROR_BAD_CAPS | SESSION_ERROR_BAD_MONITOR_DATA
  | SESSION_ERROR_CLOSE_STACK_ON_DRIVER_FAILURE | SESSION_ERROR_GRAPHICS_SUBSYSTEM_FAILED
  | SESSION_ERROR_SERVER_REDIRECTION

datatype os_major = OSMAJORTYPE_WINDOWS | OSMAJORTYPE_IOS | OSMAJORTYPE_ANDROID | OSMAJORTYPE_OTHER nat

text \<open>The settings of the peer that the session reads and writes, its context, and the peer.\<close>

record peer_settings =
  ps_width :: nat
  ps_height :: nat
  ps_desktop_resize :: bool
  ps_multifrag_max :: nat
  ps_os_major :: os_major
  ps_os_minor_nt :: bool

record peer_context =
  pc_settings :: "peer_settings option"
  pc_desktop_resize_cb :: bool  \<comment> \<open>\<open>context->update->DesktopResize\<close>\<close>

record peer =
  pe_hostname :: "string option"
  pe_context :: "peer_context option"
  pe_disconnect_cb :: bool

record rdp_session =
  ss_peer :: "peer option"
  ss_peer_address :: string
  ss_state :: string
  ss_runtime :: bool
  ss_vcm :: bool  \<comment> \<open>neither NULL nor \<open>INVALID_HANDLE_VALUE\<close>\<close>
  ss_vcm_thread :: bool
  ss_pipeline :: "pipeline option"
  ss_pipeline_ready :: bool
  ss_frame_sequence :: u32
  ss_max_payload :: nat
  ss_is_activated :: bool
  ss_event_thread :: bool
  ss_stop_event :: bool
  ss_connection_alive :: bool
  ss_render_thread :: bool
  ss_render_running :: bool
  ss_closed_cb :: bool
  ss_closed_invoked :: bool
  ss_local_session :: bool
  ss_passive :: bool
  ss_last_error :: session_error
  ss_pull_errors :: nat
  ss_refresh_source :: nat
  ss_refresh_due :: bool
  ss_render_stuck :: bool  \<comment> \<open>not in the code: the render thread sleeps in the untimed wait for
    capacity, and no event of the channel will wake it\<close>

datatype session_event =
    Closed_callback
  | Peer_disconnect | Local_session_close
  | Desktop_resize nat nat
  | Set_stop_event | Close_stop_event
  | Thread_start thread | Join_thread thread
  | Timer_add nat nat | Timer_remove nat
  | Capture_event x11_event | Channel_event gfx_event

definition drd_rdp_session_init :: rdp_session where
  "drd_rdp_session_init =
     \<lparr>ss_peer = None, ss_peer_address = ''unknown'', ss_state = ''created'', ss_runtime = False,
      ss_vcm = False, ss_vcm_thread = False, ss_pipeline = None, ss_pipeline_ready = False,
      ss_frame_sequence = 1, ss_max_payload = 0, ss_is_activated = False, ss_event_thread = False,
      ss_stop_event = False, ss_connection_alive = True, ss_render_thread = False,
      ss_render_running = False, ss_closed_cb = False, ss_closed_invoked = False,
      ss_local_session = False, ss_passive = False, ss_last_error = SESSION_ERROR_NONE,
      ss_pull_errors = 0, ss_refresh_source = 0, ss_refresh_due = False, ss_render_stuck = False\<rparr>"

definition drd_rdp_session_new :: "peer \<Rightarrow> rdp_session" where
  "drd_rdp_session_new p = drd_rdp_session_init\<lparr>ss_peer := Some p,
     ss_peer_address := (case pe_hostname p of None \<Rightarrow> ''unknown'' | Some h \<Rightarrow> h)\<rparr>"

definition drd_rdp_session_set_peer_address :: "string option \<Rightarrow> rdp_session \<Rightarrow> rdp_session" where
  "drd_rdp_session_set_peer_address a self =
     self\<lparr>ss_peer_address := (case a of None \<Rightarrow> ''unknown'' | Some h \<Rightarrow> h)\<rparr>"

definition drd_rdp_session_get_peer_address :: "rdp_session \<Rightarrow> string" where
  "drd_rdp_session_get_peer_address self = ss_peer_address self"

definition drd_rdp_session_set_peer_state :: "string \<Rightarrow> rdp_session \<Rightarrow> rdp_session" where
  "drd_rdp_session_set_peer_state st self = self\<lparr>ss_state := st\<rparr>"

definition drd_rdp_session_set_passive_mode :: "bool \<Rightarrow> rdp_session \<Rightarrow> rdp_session" where
  "drd_rdp_session_set_passive_mode passive self = self\<lparr>ss_passive := passive\<rparr>"

definition drd_rdp_session_attach_local_session ::
    "bool \<Rightarrow> rdp_session \<Rightarrow> rdp_session \<times> session_event list" where
  "drd_rdp_session_attach_local_session session self =
     (if \<not> session then (self, [])
      else (self\<lparr>ss_local_session := True\<rparr>,
            if ss_local_session self then [Local_session_close] else []))"

definition drd_rdp_session_post_connect :: "rdp_session \<Rightarrow> rdp_session \<times> bool" where
  "drd_rdp_session_post_connect self = (drd_rdp_session_set_peer_state ''post-connect'' self, True)"

definition peer_settings_of :: "rdp_session \<Rightarrow> peer_settings option" where
  "peer_settings_of self = Option.bind (ss_peer self) (\<lambda>p. Option.bind (pe_context p) pc_settings)"

definition drd_rdp_session_client_is_mstsc :: "rdp_session \<Rightarrow> bool" where
  "drd_rdp_session_client_is_mstsc self = (case peer_settings_of self of None \<Rightarrow> False
     | Some st \<Rightarrow> ps_os_major st = OSMAJORTYPE_WINDOWS \<and> ps_os_minor_nt st)"

definition drd_rdp_session_get_peer_resolution :: "rdp_session \<Rightarrow> (nat \<times> nat) option" where
  "drd_rdp_session_get_peer_resolution self =
     map_option (\<lambda>st. (ps_width st, ps_height st)) (peer_settings_of self)"

definition drd_rdp_session_refresh_surface_payload_limit :: "rdp_session \<Rightarrow> rdp_session" where
  "drd_rdp_session_refresh_surface_payload_limit self =
     self\<lparr>ss_max_payload := (case peer_settings_of self of None \<Rightarrow> 0
        | Some st \<Rightarrow> ps_multifrag_max st)\<rparr>"

subsection \<open>The graphics pipeline of the session\<close>

text \<open>A transport switch between whose read and exchange no other thread writes the mode; the
  general loop is \<open>drd_server_runtime_set_transport\<close>.\<close>

definition switch_transport :: "frame_transport \<Rightarrow> server_runtime \<Rightarrow> server_runtime" where
  "switch_transport m rt = the (drd_server_runtime_set_transport [\<lambda>x. x] m rt)"

lemma switch_transport_eq:
  "switch_transport m rt = (if sr_transport_mode rt = m then rt else rt\<lparr>sr_transport_mode := m,
     sr_encoder := drd_encoding_manager_force_keyframe (sr_encoder rt)\<rparr>)"
  by (simp add: switch_transport_def drd_server_runtime_set_transport.simps [of "[\<lambda>x. x]"] Let_def)

definition drd_rdp_session_maybe_init_graphics ::
    "bool \<Rightarrow> rdp_session \<Rightarrow> server_runtime \<Rightarrow> rdp_session" where
  "drd_rdp_session_maybe_init_graphics allocated self rt =
     (if ss_pipeline self \<noteq> None \<or> Option.bind (ss_peer self) pe_context = None \<or>
         \<not> ss_runtime self \<or> \<not> ss_vcm self then self
      else case drd_server_runtime_get_encoding_options rt of
        None \<Rightarrow> self
      | Some opts \<Rightarrow>
          if o_mode opts \<noteq> MODE_RFX \<and> o_mode opts \<noteq> MODE_AUTO \<and> o_mode opts \<noteq> MODE_H264 then self
          else (case drd_rdp_graphics_pipeline_new allocated (o_width opts) (o_height opts) of
                  None \<Rightarrow> self
                | Some p \<Rightarrow> self\<lparr>ss_pipeline := Some p, ss_pipeline_ready := False\<rparr>))"

definition drd_rdp_session_disable_graphics_pipeline ::
    "rdp_session \<Rightarrow> server_runtime \<Rightarrow> rdp_session \<times> server_runtime \<times> session_event list" where
  "drd_rdp_session_disable_graphics_pipeline self rt =
     (case ss_pipeline self of
        None \<Rightarrow> (self, rt, [])
      | Some p \<Rightarrow>
          (self\<lparr>ss_pipeline_ready := False, ss_pipeline := None\<rparr>,
           if ss_runtime self then switch_transport FRAME_TRANSPORT_SURFACE_BITS rt else rt,
           map Channel_event (snd (drd_rdp_graphics_pipeline_dispose p))))"

text \<open>The daemon has one runtime, so the pointer comparison of the code is one of having it.\<close>

definition drd_rdp_session_set_runtime ::
    "bool \<Rightarrow> bool \<Rightarrow> rdp_session \<Rightarrow> server_runtime \<Rightarrow> rdp_session" where
  "drd_rdp_session_set_runtime allocated runtime self rt =
     (if ss_runtime self = runtime then self
      else drd_rdp_session_maybe_init_graphics allocated (self\<lparr>ss_runtime := runtime\<rparr>) rt)"

definition drd_rdp_session_set_virtual_channel_manager ::
    "bool \<Rightarrow> bool \<Rightarrow> rdp_session \<Rightarrow> server_runtime \<Rightarrow> rdp_session" where
  "drd_rdp_session_set_virtual_channel_manager allocated vcm self rt =
     drd_rdp_session_maybe_init_graphics allocated (self\<lparr>ss_vcm := vcm\<rparr>) rt"

subsection \<open>Threads and the closed callback\<close>

definition drd_rdp_session_notify_closed :: "rdp_session \<Rightarrow> rdp_session \<times> session_event list" where
  "drd_rdp_session_notify_closed self =
     (if \<not> ss_closed_cb self then (self, [])
      else if ss_closed_invoked self then (self, [])
      else (self\<lparr>ss_closed_invoked := True\<rparr>, [Closed_callback]))"

definition drd_rdp_session_set_closed_callback ::
    "bool \<Rightarrow> rdp_session \<Rightarrow> rdp_session \<times> session_event list" where
  "drd_rdp_session_set_closed_callback callback self =
     (let s = self\<lparr>ss_closed_cb := callback\<rparr> in
      if \<not> callback then (s\<lparr>ss_closed_invoked := False\<rparr>, [])
      else if \<not> ss_connection_alive s then drd_rdp_session_notify_closed s
      else (s, []))"

definition drd_rdp_session_start_event_thread ::
    "bool \<Rightarrow> rdp_session \<Rightarrow> rdp_session \<times> session_event list \<times> bool" where
  "drd_rdp_session_start_event_thread event_created self =
     (if ss_peer self = None then (self, [], False)
      else if ss_event_thread self then (self, [], True)
      else if \<not> ss_stop_event self \<and> \<not> event_created then (self, [], False)
      else let s = self\<lparr>ss_stop_event := True, ss_connection_alive := True\<rparr> in
      if ss_vcm s \<and> \<not> ss_vcm_thread s
      then (s\<lparr>ss_vcm_thread := True\<rparr>, [Thread_start Vcm_thread], True)
      else (s, [], True))"

definition drd_rdp_session_start_render_thread ::
    "rdp_session \<Rightarrow> rdp_session \<times> session_event list \<times> bool" where
  "drd_rdp_session_start_render_thread self =
     (if ss_render_thread self then (self, [], True)
      else if \<not> ss_runtime self then (self, [], False)
      else (self\<lparr>ss_render_running := True, ss_render_thread := True, ss_render_stuck := False\<rparr>,
            [Thread_start Render_thread], True))"

text \<open>Nothing here wakes a render thread that sleeps in the wait for capacity: the join waits for the
  client's next acknowledgement, if it comes.\<close>

definition drd_rdp_session_stop_render_thread ::
    "thread \<Rightarrow> rdp_session \<Rightarrow> (rdp_session \<times> session_event list) option" where
  "drd_rdp_session_stop_render_thread who self =
     (if \<not> ss_render_thread self then Some (self, [])
      else if who = Render_thread \<or> ss_render_stuck self then None
      else Some (self\<lparr>ss_render_running := False, ss_render_thread := False\<rparr>,
                 [Join_thread Render_thread]))"

text \<open>What the channel thread does after its loop, before a join of it can return.\<close>

definition vcm_thread_exit :: "rdp_session \<Rightarrow> rdp_session \<times> session_event list" where
  "vcm_thread_exit self = drd_rdp_session_notify_closed (self\<lparr>ss_render_running := False\<rparr>)"

definition join_event_thread ::
    "thread \<Rightarrow> rdp_session \<Rightarrow> (rdp_session \<times> session_event list) option" where
  "join_event_thread who self =
     (if \<not> ss_event_thread self then Some (self, [])
      else if who = Event_thread then None
      else Some (self\<lparr>ss_event_thread := False\<rparr>, [Join_thread Event_thread]))"

definition join_vcm_thread ::
    "thread \<Rightarrow> rdp_session \<Rightarrow> (rdp_session \<times> session_event list) option" where
  "join_vcm_thread who self =
     (if \<not> ss_vcm_thread self then Some (self, [])
      else if who = Vcm_thread then None
      else let (s, es) = vcm_thread_exit self
           in Some (s\<lparr>ss_vcm_thread := False\<rparr>, es @ [Join_thread Vcm_thread]))"

definition drd_rdp_session_stop_event_thread ::
    "thread \<Rightarrow> rdp_session \<Rightarrow> (rdp_session \<times> session_event list) option" where
  "drd_rdp_session_stop_event_thread who self =
     Option.bind (drd_rdp_session_stop_render_thread who self) (\<lambda>(s0, e0).
     let s1 = s0\<lparr>ss_connection_alive := False\<rparr>;
         e1 = (if ss_stop_event s1 then [Set_stop_event] else []) in
     Option.bind (join_event_thread who s1) (\<lambda>(s2, e2).
     Option.bind (join_vcm_thread who s2) (\<lambda>(s3, e3).
     let e4 = (if ss_stop_event s3 then [Close_stop_event] else []);
         (s5, e5) = drd_rdp_session_notify_closed (s3\<lparr>ss_stop_event := False\<rparr>)
     in Some (s5, e0 @ e1 @ e2 @ e3 @ e4 @ e5))))"

definition close_local_session :: "rdp_session \<Rightarrow> rdp_session \<times> session_event list" where
  "close_local_session self =
     (self\<lparr>ss_local_session := False\<rparr>, if ss_local_session self then [Local_session_close] else [])"

definition drd_rdp_session_disconnect ::
    "thread \<Rightarrow> rdp_session \<Rightarrow> server_runtime \<Rightarrow>
     (rdp_session \<times> server_runtime \<times> session_event list) option" where
  "drd_rdp_session_disconnect who self rt =
     Option.bind (drd_rdp_session_stop_event_thread who self) (\<lambda>(s1, e1).
     let (s2, rt2, e2) = drd_rdp_session_disable_graphics_pipeline s1 rt;
         (s3, e3) = close_local_session s2;
         s4 = s3\<lparr>ss_render_running := False, ss_connection_alive := False\<rparr>;
         (s5, e5) = (case ss_peer s4 of
              Some p \<Rightarrow> if pe_disconnect_cb p then (s4\<lparr>ss_peer := None\<rparr>, [Peer_disconnect])
                        else (s4, [])
            | None \<Rightarrow> (s4, []))
     in Some (s5\<lparr>ss_is_activated := False\<rparr>, rt2, e1 @ e2 @ e3 @ e5))"

definition drd_rdp_session_notify_error ::
    "thread \<Rightarrow> session_error \<Rightarrow> rdp_session \<Rightarrow> server_runtime \<Rightarrow>
     (rdp_session \<times> server_runtime \<times> session_event list) option" where
  "drd_rdp_session_notify_error who err self rt =
     (if err = SESSION_ERROR_NONE then Some (self, rt, [])
      else let s = self\<lparr>ss_last_error := err\<rparr> in
      if err = SESSION_ERROR_SERVER_REDIRECTION then drd_rdp_session_disconnect who s rt
      else Some (s, rt, []))"

subsection \<open>The refresh timer\<close>

definition drd_rdp_session_cancel_refresh_timer :: "rdp_session \<Rightarrow> rdp_session \<times> session_event list" where
  "drd_rdp_session_cancel_refresh_timer self =
     (self\<lparr>ss_refresh_source := 0, ss_refresh_due := False\<rparr>,
      if ss_refresh_source self \<noteq> 0 then [Timer_remove (ss_refresh_source self)] else [])"

definition drd_rdp_session_on_refresh_timeout :: "int \<Rightarrow> rdp_session \<Rightarrow> server_runtime \<Rightarrow> rdp_session" where
  "drd_rdp_session_on_refresh_timeout now self rt =
     (let s = self\<lparr>ss_refresh_source := 0\<rparr> in
      if ss_runtime s \<and> drd_encoding_manager_refresh_interval_reached (sr_encoder rt) now
      then s\<lparr>ss_refresh_due := True\<rparr> else s)"

text \<open>\<open>source\<close> is the identifier the main loop gives to a new timer.\<close>

definition drd_rdp_session_update_refresh_timer_state ::
    "nat \<Rightarrow> rdp_session \<Rightarrow> server_runtime \<Rightarrow> rdp_session \<times> session_event list" where
  "drd_rdp_session_update_refresh_timer_state source self rt =
     (if \<not> ss_runtime self then drd_rdp_session_cancel_refresh_timer self
      else if \<not> drd_encoding_manager_has_avc_to_non_avc_transition (sr_encoder rt)
      then drd_rdp_session_cancel_refresh_timer self
      else if ss_refresh_source self = 0 \<and>
              drd_encoding_manager_get_refresh_timeout_ms (sr_encoder rt) > 0
      then (self\<lparr>ss_refresh_source := source\<rparr>,
            [Timer_add source (drd_encoding_manager_get_refresh_timeout_ms (sr_encoder rt))])
      else (self, []))"

definition drd_rdp_session_dispose ::
    "thread \<Rightarrow> rdp_session \<Rightarrow> server_runtime \<Rightarrow>
     (rdp_session \<times> server_runtime \<times> session_event list) option" where
  "drd_rdp_session_dispose who self rt =
     Option.bind (drd_rdp_session_stop_event_thread who self) (\<lambda>(s1, e1).
     let (s2, rt2, e2) = drd_rdp_session_disable_graphics_pipeline s1 rt;
         (s3, e3) = drd_rdp_session_cancel_refresh_timer s2 in
     Option.bind (join_vcm_thread who s3) (\<lambda>(s4, e4).
     let s5 = (if Option.bind (ss_peer s4) pe_context \<noteq> None then s4\<lparr>ss_peer := None\<rparr> else s4);
         (s6, e6) = close_local_session (s5\<lparr>ss_runtime := False\<rparr>)
     in Some (s6, rt2, e1 @ e2 @ e3 @ e4 @ e6)))"

subsection \<open>Activation\<close>

text \<open>The answers to the two writes of the desktop size and to \<open>DesktopResize\<close>.\<close>

record resize_answers =
  ra_set_width :: bool
  ra_set_height :: bool
  ra_notify :: bool

definition put_peer_settings :: "peer_settings \<Rightarrow> rdp_session \<Rightarrow> rdp_session" where
  "put_peer_settings st self = self\<lparr>ss_peer := map_option (\<lambda>p. p\<lparr>pe_context :=
     map_option (\<lambda>c. c\<lparr>pc_settings := Some st\<rparr>) (pe_context p)\<rparr>) (ss_peer self)\<rparr>"

definition desktop_resize_cb :: "rdp_session \<Rightarrow> bool" where
  "desktop_resize_cb self = (case Option.bind (ss_peer self) pe_context of None \<Rightarrow> False
     | Some c \<Rightarrow> pc_desktop_resize_cb c)"

definition drd_rdp_session_enforce_peer_desktop_size ::
    "resize_answers \<Rightarrow> rdp_session \<Rightarrow> server_runtime \<Rightarrow> rdp_session \<times> session_event list \<times> bool" where
  "drd_rdp_session_enforce_peer_desktop_size ra self rt =
     (if Option.bind (ss_peer self) pe_context = None \<or> \<not> ss_runtime self then (self, [], True)
      else case drd_server_runtime_get_encoding_options rt of None \<Rightarrow> (self, [], True)
      | Some opts \<Rightarrow>
      (case peer_settings_of self of None \<Rightarrow> (self, [], True)
      | Some st \<Rightarrow>
         let w = o_width opts; h = o_height opts in
         if \<not> ps_desktop_resize st \<and> (ps_width st \<noteq> w \<or> ps_height st \<noteq> h) then (self, [], False)
         else if ps_width st \<noteq> w \<and> \<not> ra_set_width ra then (self, [], False)
         else let s1 = (if ps_width st \<noteq> w then put_peer_settings (st\<lparr>ps_width := w\<rparr>) self else self) in
         if ps_height st \<noteq> h \<and> \<not> ra_set_height ra then (s1, [], False)
         else let s2 = (if ps_height st \<noteq> h
                        then put_peer_settings (st\<lparr>ps_width := w, ps_height := h\<rparr>) s1 else s1) in
         if ps_width st = w \<and> ps_height st = h then (s2, [], True)
         else if \<not> desktop_resize_cb s2 then (s2, [], False)
         else (s2, [Desktop_resize w h], ra_notify ra)))"

text \<open>A failed activation: the state is set and the session is disconnected.\<close>

definition activation_failed ::
    "thread \<Rightarrow> string \<Rightarrow> rdp_session \<Rightarrow> server_runtime \<Rightarrow> session_event list \<Rightarrow>
     (rdp_session \<times> server_runtime \<times> session_event list \<times> bool) option" where
  "activation_failed who st self rt es =
     map_option (\<lambda>(s, rt', es'). (s, rt', es @ es', False))
       (drd_rdp_session_disconnect who (drd_rdp_session_set_peer_state st self) rt)"

definition drd_rdp_session_activate ::
    "thread \<Rightarrow> resize_answers \<Rightarrow> x11_answers \<Rightarrow> input_answers \<Rightarrow> rdp_session \<Rightarrow> server_runtime \<Rightarrow>
     (rdp_session \<times> server_runtime \<times> session_event list \<times> bool) option" where
  "drd_rdp_session_activate who ra xa ia self rt =
     (if ss_passive self
      then Some ((drd_rdp_session_set_peer_state ''activated-passive'' self)\<lparr>ss_is_activated := True\<rparr>,
                 rt, [], True)
      else case drd_rdp_session_enforce_peer_desktop_size ra self rt of
        (s1, e1, False) \<Rightarrow> activation_failed who ''desktop-resize-blocked'' s1 rt e1
      | (s1, e1, True) \<Rightarrow>
      if \<not> ss_runtime s1 then Some (s1, rt, e1, False)
      else case drd_server_runtime_get_encoding_options rt of
        None \<Rightarrow> activation_failed who ''encoding-opts-missing'' s1 rt e1
      | Some opts \<Rightarrow>
      let stream_running = drd_server_runtime_is_stream_running rt;
          (rt1, e2, r) = (if stream_running then (rt, [], ok)
                          else drd_server_runtime_prepare_stream xa ia opts rt)
      in case r of
        Inl _ \<Rightarrow> activation_failed who ''stream-prepare-failed'' s1 rt1 (e1 @ map Capture_event e2)
      | Inr _ \<Rightarrow>
        let rt2 = (if stream_running then rt1 else drd_server_runtime_request_keyframe rt1);
            s2 = drd_rdp_session_refresh_surface_payload_limit s1;
            s3 = (drd_rdp_session_set_peer_state ''activated'' s2)\<lparr>ss_is_activated := True\<rparr>;
            (s4, e4, started) = drd_rdp_session_start_render_thread s3
        in Some (s4, rt2, e1 @ map Capture_event e2 @ e4, True))"

end
