(* ===== verification/Rdp_Session_Loops.thy ===== *)
theory Rdp_Session_Loops
  imports Rdp_Session
begin

text \<open>
  The two loops of a session (\<^verbatim>\<open>src/session/drd_rdp_session.c\<close>), one iteration per step: the
  channel thread, which drives FreeRDP and opens the graphics channel, and the render thread,
  which composes the runtime, the encoder and the graphics pipeline.
\<close>

datatype loop_flow = Loop_again | Loop_ends | Loop_waits

text \<open>A channel set-up asks the runtime for the graphics transport.\<close>

definition channel_set_up :: "gfx_event list \<Rightarrow> server_runtime \<Rightarrow> server_runtime" where
  "channel_set_up ev rt = (if Use_gfx_transport \<in> set ev
     then switch_transport FRAME_TRANSPORT_GRAPHICS_PIPELINE rt else rt)"

definition pipeline_maybe_init ::
    "channel_answers \<Rightarrow> rdp_session \<Rightarrow> server_runtime \<Rightarrow> rdp_session \<times> server_runtime \<times> session_event list" where
  "pipeline_maybe_init ans self rt =
     (case ss_pipeline self of None \<Rightarrow> (self, rt, [])
      | Some p \<Rightarrow> (case drd_rdp_graphics_pipeline_maybe_init ans (\<lambda>t. t) p of
          (p', ev, good) \<Rightarrow> (self\<lparr>ss_pipeline := Some p'\<rparr>, channel_set_up ev rt, map Channel_event ev)))"

subsection \<open>The channel thread\<close>

datatype drdynvc_state = DRDYNVC_STATE_NONE | DRDYNVC_STATE_READY | DRDYNVC_STATE_OTHER

record vcm_answers =
  va_handles :: bool  \<comment> \<open>\<open>GetEventHandles\<close> has handles\<close>
  va_wait_failed :: bool
  va_check_fd :: bool
  va_connected :: bool
  va_joined :: bool
  va_state :: drdynvc_state
  va_channel_event :: bool
  va_channel_check :: bool
  va_channel :: channel_answers

text \<open>\<open>callbacks\<close> is what the peer's callbacks do to the session while this thread is inside
  \<open>CheckFileDescriptor\<close>; they run on this thread.\<close>

definition drd_rdp_session_vcm_thread ::
    "(rdp_session \<Rightarrow> server_runtime \<Rightarrow> (rdp_session \<times> server_runtime \<times> session_event list) option) \<Rightarrow>
     vcm_answers \<Rightarrow> rdp_session \<Rightarrow> server_runtime \<Rightarrow>
     (rdp_session \<times> server_runtime \<times> session_event list \<times> loop_flow) option" where
  "drd_rdp_session_vcm_thread callbacks va self rt =
     (let dead = (\<lambda>s. s\<lparr>ss_connection_alive := False\<rparr>) in
      if \<not> ss_connection_alive self then Some (self, rt, [], Loop_ends)
      else if \<not> va_handles va then Some (dead self, rt, [], Loop_ends)
      else if va_wait_failed va then Some (self, rt, [], Loop_ends)
      else Option.bind (callbacks self rt) (\<lambda>(s1, rt1, e1).
        if \<not> va_check_fd va then Some (dead s1, rt1, e1, Loop_ends)
        else if \<not> va_connected va then Some (s1, rt1, e1, Loop_again)
        else if \<not> va_joined va then Some (s1, rt1, e1, Loop_again)
        else let (s2, rt2, e2) = (if va_state va = DRDYNVC_STATE_READY \<and> ss_connection_alive s1
                 then pipeline_maybe_init (va_channel va) s1 rt1 else (s1, rt1, [])) in
        if \<not> ss_connection_alive s2 then Some (s2, rt2, e1 @ e2, Loop_ends)
        else if va_channel_event va \<and> \<not> va_channel_check va
        then Some (dead s2, rt2, e1 @ e2, Loop_ends)
        else Some (s2, rt2, e1 @ e2, Loop_again)))"

subsection \<open>The render thread\<close>

text \<open>The untimed wait for capacity: \<open>ops\<close> is what other threads do to the pipeline while the
  render thread sleeps; \<open>None\<close> when it is still asleep after them.\<close>

fun capacity_wait :: "pipeline_op list \<Rightarrow> pipeline \<Rightarrow> waiter \<Rightarrow> (pipeline \<times> bool) option" where
  "capacity_wait ops p (Returned r) = Some (p, r)"
| "capacity_wait [] p w = None"
| "capacity_wait (op # ops) p w =
     (let (q, ev) = run_op op p; w' = signal ev w
      in capacity_wait ops q (if w' = Signalled then capacity_loop q else w'))"

definition drd_rdp_session_wait_for_graphics_capacity ::
    "pipeline_op list \<Rightarrow> rdp_session \<Rightarrow> (rdp_session \<times> bool) option" where
  "drd_rdp_session_wait_for_graphics_capacity ops self =
     (case ss_pipeline self of
        None \<Rightarrow> Some (self, False)
      | Some p \<Rightarrow>
          if \<not> ss_pipeline_ready self then Some (self, False)
          else map_option (\<lambda>(p', r). (self\<lparr>ss_pipeline := Some p'\<rparr>, r))
                 (capacity_wait ops p (wait_for_capacity_enter p)))"

text \<open>What one iteration meets: the libraries and clocks of the two encodings, the producers'
  steps during the wait for a frame, the channel's steps during the wait for capacity.\<close>

record render_env =
  re_send :: encode_context
  re_pull :: encode_context
  re_capacity :: "pipeline_op list"
  re_ws :: "((drd_frame frame_queue \<Rightarrow> drd_frame frame_queue) \<times> bool) list"
  re_now :: int
  re_refresh_now :: int
  re_allocated :: bool
  re_channel :: channel_answers
  re_timer :: nat

type_synonym render_state = "rdp_session \<times> server_runtime"

text \<open>A frame that was reported as sent is counted, and its mode noted.\<close>

definition count_frame :: "bool \<Rightarrow> rdp_session \<Rightarrow> rdp_session" where
  "count_frame avc self = self\<lparr>ss_pipeline := map_option (\<lambda>p.
     drd_rdp_graphics_pipeline_set_last_frame_mode
       (fst (drd_rdp_graphics_pipeline_out_frame_change p True)) avc) (ss_pipeline self)\<rparr>"

definition quiet_error :: "gerror \<Rightarrow> bool" where
  "quiet_error e \<longleftrightarrow> e = GIo IoTimedOut \<or> e = GIo IoPending"

definition pull_failed :: "gerror \<Rightarrow> rdp_session \<Rightarrow> rdp_session" where
  "pull_failed e self = (if quiet_error e \<or> e = Unset then self
     else self\<lparr>ss_pull_errors := wrap64 (ss_pull_errors self + 1)\<rparr>)"

definition surface_id_of :: "rdp_session \<Rightarrow> u16" where
  "surface_id_of self = (case ss_pipeline self of None \<Rightarrow> 0
     | Some p \<Rightarrow> word_of_nat (drd_rdp_graphics_pipeline_get_surface_id p))"

text \<open>The cached frame, when the refresh timer has asked for it: whether it was sent.\<close>

definition render_cached ::
    "render_env \<Rightarrow> render_state \<Rightarrow> (render_state \<times> surface_command list \<times> bool \<times> bool) option" where
  "render_cached env st =
     (case st of (self, rt) \<Rightarrow>
      if \<not> ss_refresh_due self then Some (st, [], False, False)
      else let s0 = self\<lparr>ss_refresh_due := False\<rparr>
      in map_option (\<lambda>(rt', avc, cmds, r). case r of
             Inr _ \<Rightarrow> ((count_frame avc s0, rt'), cmds, avc, True)
           | Inl e \<Rightarrow> ((pull_failed e s0, rt'), cmds, avc, False))
           (drd_server_runtime_send_cached_frame_surface_gfx (re_send env) (surface_id_of s0)
              (ss_frame_sequence s0) False rt))"

text \<open>The next frame of the capture. \<open>None\<close> is a crash, \<open>Some None\<close> a wait that has not ended.\<close>

definition render_pull ::
    "render_env \<Rightarrow> bool \<Rightarrow> render_state \<Rightarrow> (render_state \<times> surface_command list \<times> bool) option option" where
  "render_pull env avc st =
     (case st of (self, rt) \<Rightarrow>
      case drd_server_runtime_pull_encoded_frame_surface_gfx (re_pull env) (re_ws env) (re_now env)
             (16 * 1000) (re_refresh_now env) (surface_id_of self) (ss_frame_sequence self) avc rt of
        None \<Rightarrow> Some None
      | Some None \<Rightarrow> None
      | Some (Some (rt', h', cmds, r)) \<Rightarrow> Some (Some (case r of
            Inr _ \<Rightarrow> ((count_frame h' self, rt'), cmds, True)
          | Inl e \<Rightarrow> ((pull_failed e self, rt'), cmds, False))))"

definition next_sequence :: "u32 \<Rightarrow> u32" where
  "next_sequence n = (if n + 1 = 0 then 1 else n + 1)"

text \<open>The end of an iteration that did not leave it early.\<close>

definition render_end ::
    "render_env \<Rightarrow> render_state \<Rightarrow> surface_command list \<Rightarrow> session_event list \<Rightarrow>
     render_state \<times> surface_command list \<times> session_event list \<times> loop_flow" where
  "render_end env st cmds es =
     (case st of (self, rt) \<Rightarrow>
      let (s, e) = drd_rdp_session_update_refresh_timer_state (re_timer env) self rt
      in ((s\<lparr>ss_frame_sequence := next_sequence (ss_frame_sequence s)\<rparr>, rt), cmds, es @ e, Loop_again))"

type_synonym render_result =
  "(render_state \<times> surface_command list \<times> session_event list \<times> loop_flow) option"

text \<open>The part of an iteration with the graphics pipeline ready. The settings are read through
  the peer, which must be there.\<close>

definition render_ready :: "render_env \<Rightarrow> render_state \<Rightarrow> session_event list \<Rightarrow> render_result" where
  "render_ready env st es =
     (case st of (self, rt) \<Rightarrow>
      case drd_rdp_session_wait_for_graphics_capacity (re_capacity env) self of
        None \<Rightarrow> Some (st, [], es, Loop_waits)
      | Some (s1, good) \<Rightarrow>
        if \<not> good \<or> \<not> (case ss_pipeline s1 of None \<Rightarrow> False
                        | Some p \<Rightarrow> drd_rdp_graphics_pipeline_can_submit p)
        then let (s2, rt2, e2) = drd_rdp_session_disable_graphics_pipeline s1 rt
             in Some ((s2, rt2), [], es @ e2, Loop_again)
        else if peer_settings_of s1 = None then None
        else Option.bind (render_cached env (s1, rt)) (\<lambda>(st2, cmds, avc, sent).
          if sent then Some (render_end env st2 cmds es)
          else (case render_pull env avc st2 of
              None \<Rightarrow> None
            | Some None \<Rightarrow> Some (st2, cmds, es, Loop_waits)
            | Some (Some (st3, cmds', sent')) \<Rightarrow>
                if sent' then Some (render_end env st3 (cmds @ cmds') es)
                else Some (st3, cmds @ cmds', es, Loop_again))))"

text \<open>The part on the surface-bits transport: the encoder does not support it, so a frame only
  leads to a new attempt at a graphics pipeline. The context is read through the peer.\<close>

definition render_surface_bits :: "render_env \<Rightarrow> render_state \<Rightarrow> session_event list \<Rightarrow> render_result" where
  "render_surface_bits env st es =
     (case st of (self, rt) \<Rightarrow>
      if ss_peer self = None then None
      else case drd_server_runtime_pull_encoded_frame_surface_bit (re_ws env) (re_now env) (16 * 1000) rt of
        None \<Rightarrow> Some (st, [], es, Loop_waits)
      | Some (rt1, Inl e) \<Rightarrow>
          if quiet_error e then Some ((self, rt1), [], es, Loop_again)
          else if e = GIo IoNotSupported
          then (if ss_pipeline self = None
                then let s1 = drd_rdp_session_maybe_init_graphics (re_allocated env) self rt1;
                         (s2, rt2, e2) = pipeline_maybe_init (re_channel env) s1 rt1
                     in Some ((s2, rt2), [], es @ e2, Loop_again)
                else Some ((self, rt1), [], es, Loop_again))
          else Some ((pull_failed e self, rt1), [], es, Loop_again)
      | Some (rt1, Inr _) \<Rightarrow> Some (render_end env (self, rt1) [] es))"

definition drd_rdp_session_render_thread :: "render_env \<Rightarrow> render_state \<Rightarrow> render_result" where
  "drd_rdp_session_render_thread env st =
     (case st of (self, rt) \<Rightarrow>
      if \<not> ss_render_running self \<or> \<not> ss_connection_alive self then Some (st, [], [], Loop_ends)
      else if \<not> ss_is_activated self \<or> \<not> ss_runtime self then Some (st, [], [], Loop_again)
      else if drd_server_runtime_get_transport rt = FRAME_TRANSPORT_GRAPHICS_PIPELINE
      then let (s1, rt1, e1) = (if ss_pipeline self = None
                 then pipeline_maybe_init (re_channel env)
                        (drd_rdp_session_maybe_init_graphics (re_allocated env) self rt) rt
                 else (self, rt, []));
               (s2, rt2) = (if \<not> ss_pipeline_ready s1 \<and> (case ss_pipeline s1 of None \<Rightarrow> False
                        | Some p \<Rightarrow> drd_rdp_graphics_pipeline_is_ready p)
                 then (s1\<lparr>ss_pipeline_ready := True\<rparr>,
                       switch_transport FRAME_TRANSPORT_GRAPHICS_PIPELINE rt1)
                 else (s1, rt1))
           in if ss_pipeline_ready s2 then render_ready env (s2, rt2) e1
              else Some (render_end env (s2, rt2) [] e1)
      else render_surface_bits env st [])"

end
