(* ===== verification/Qt_Graphics.thy ===== *)
theory Qt_Graphics
  imports Graphics_Flow
begin

text \<open>
  The graphics pipeline of the Qt port (\<^verbatim>\<open>qt/session/drd_rdp_graphics_pipeline.cpp\<close>), and how it
  follows the daemon's pipeline. The functions run under the object's mutex, as in the daemon; the
  events are those of \<open>Graphics_Pipeline\<close>.
\<close>

subsection \<open>State and operations\<close>

record qt_pipeline =
  qg_width :: nat
  qg_height :: nat
  qg_context :: bool  \<comment> \<open>\<open>rdpgfxContext_\<close> is not NULL\<close>
  qg_channel_opened :: bool
  qg_caps_confirmed :: bool
  qg_surface_ready :: bool
  qg_surface_id :: nat
  qg_codec_context_id :: nat
  qg_next_frame_id :: nat
  qg_outstanding :: int
  qg_max_outstanding :: nat
  qg_channel_id :: nat
  qg_acks_suspended :: bool
  qg_last_h264 :: bool

text \<open>The constructor always makes an object; its context is NULL when the peer or the channel
  manager is missing, or when it cannot be allocated.\<close>

definition qt_pipeline_new :: "bool \<Rightarrow> bool \<Rightarrow> nat \<Rightarrow> nat \<Rightarrow> qt_pipeline" where
  "qt_pipeline_new valid allocated width height =
     \<lparr>qg_width = u16_of width, qg_height = u16_of height, qg_context = (valid \<and> allocated),
      qg_channel_opened = False, qg_caps_confirmed = False, qg_surface_ready = False,
      qg_surface_id = 1, qg_codec_context_id = 1, qg_next_frame_id = 1, qg_outstanding = 0,
      qg_max_outstanding = 3, qg_channel_id = 0, qg_acks_suspended = False, qg_last_h264 = False\<rparr>"

text \<open>The destructor; \<open>present\<close> says which of the two callbacks the context has.\<close>

definition qt_pipeline_delete :: "bool \<times> bool \<Rightarrow> qt_pipeline \<Rightarrow> gfx_event list" where
  "qt_pipeline_delete present self =
     (if \<not> qg_context self then []
      else (if qg_surface_ready self \<and> fst present then [Delete_surface (qg_surface_id self), Wake] else []) @
           (if qg_channel_opened self \<and> snd present then [Close_channel] else []))"

definition qt_build_timestamp :: "nat \<Rightarrow> nat \<Rightarrow> nat \<Rightarrow> nat \<Rightarrow> u32" where
  "qt_build_timestamp hour minute second msec =
     push_bit 22 (word_of_nat hour) OR push_bit 16 (word_of_nat minute) OR
     push_bit 10 (word_of_nat second) OR word_of_nat msec"

definition qt_reset_locked :: "channel_answers \<Rightarrow> qt_pipeline \<Rightarrow> qt_pipeline \<times> gfx_event list \<times> bool" where
  "qt_reset_locked ans self =
     (if \<not> qg_context self then (self, [], False)
      else if qg_surface_ready self then (self, [], True)
      else let e1 = Reset_graphics (qg_width self) (qg_height self);
               e2 = Create_surface (qg_surface_id self) (qg_width self) (qg_height self);
               e3 = Map_surface (qg_surface_id self)
      in if \<not> ans_reset ans then (self, [e1], False)
      else if \<not> ans_create ans then (self, [e1, e2], False)
      else if \<not> ans_map ans then (self, [e1, e2, e3], False)
      else (self\<lparr>qg_next_frame_id := 1, qg_outstanding := 0, qg_surface_ready := True,
                 qg_last_h264 := False, qg_acks_suspended := False\<rparr>, [e1, e2, e3, Wake], True))"

text \<open>\<open>others\<close> is what other threads do while the mutex is released for the opening.\<close>

definition qt_maybe_init ::
    "channel_answers \<Rightarrow> (qt_pipeline \<Rightarrow> qt_pipeline) \<Rightarrow> qt_pipeline \<Rightarrow> qt_pipeline \<times> gfx_event list \<times> bool" where
  "qt_maybe_init ans others self =
     (if \<not> qg_context self then (self, [], False)
      else if \<not> qg_channel_opened self \<and> \<not> ans_open ans then (others self, [], False)
      else let s1 = (if qg_channel_opened self then self else (others self)\<lparr>qg_channel_opened := True\<rparr>)
      in if \<not> qg_caps_confirmed s1 then (s1, [], False)
      else qt_reset_locked ans s1)"

definition qt_is_ready :: "qt_pipeline \<Rightarrow> bool" where
  "qt_is_ready self = qg_surface_ready self"

definition qt_can_submit :: "qt_pipeline \<Rightarrow> bool" where
  "qt_can_submit self \<longleftrightarrow> qg_surface_ready self \<and>
     (qg_acks_suspended self \<or> qg_outstanding self < int (qg_max_outstanding self) \<or> qg_last_h264 self)"

definition qt_get_surface_id :: "qt_pipeline \<Rightarrow> nat" where
  "qt_get_surface_id self = qg_surface_id self"

definition qt_get_context :: "qt_pipeline \<Rightarrow> bool" where
  "qt_get_context self = qg_context self"

definition qt_out_frame_change :: "qt_pipeline \<Rightarrow> bool \<Rightarrow> qt_pipeline \<times> gfx_event list" where
  "qt_out_frame_change self add =
     (if add then
        (if \<not> qg_acks_suspended self then (self\<lparr>qg_outstanding := qg_outstanding self + 1\<rparr>, []) else (self, []))
      else ((if \<not> qg_acks_suspended self \<and> qg_outstanding self > 0
             then self\<lparr>qg_outstanding := qg_outstanding self - 1\<rparr> else self), [Wake]))"

definition qt_frame_acknowledge :: "qt_pipeline \<Rightarrow> nat \<Rightarrow> qt_pipeline \<times> gfx_event list" where
  "qt_frame_acknowledge self queue_depth =
     (if queue_depth = SUSPEND_FRAME_ACKNOWLEDGEMENT
      then (self\<lparr>qg_acks_suspended := True, qg_outstanding := 0\<rparr>, [Wake])
      else let s = self\<lparr>qg_acks_suspended := False\<rparr>
      in ((if qg_outstanding s > 0
           then (if qg_last_h264 s then s\<lparr>qg_outstanding := 0\<rparr>
                 else s\<lparr>qg_outstanding := qg_outstanding s - 1\<rparr>)
           else s), [Wake]))"

definition qt_channel_id_assigned :: "qt_pipeline option \<Rightarrow> nat \<Rightarrow> qt_pipeline option \<times> bool" where
  "qt_channel_id_assigned custom cid = (map_option (\<lambda>self. self\<lparr>qg_channel_id := cid\<rparr>) custom, True)"

definition qt_set_last_frame_mode :: "qt_pipeline \<Rightarrow> bool \<Rightarrow> qt_pipeline" where
  "qt_set_last_frame_mode self h264_mode = self\<lparr>qg_last_h264 := h264_mode\<rparr>"

subsection \<open>The blocking wait\<close>

definition qt_capacity_blocked :: "qt_pipeline \<Rightarrow> bool" where
  "qt_capacity_blocked self \<longleftrightarrow> qg_surface_ready self \<and> \<not> qg_acks_suspended self \<and>
     qg_outstanding self \<ge> int (qg_max_outstanding self)"

definition qt_capacity_result :: "qt_pipeline \<Rightarrow> bool" where
  "qt_capacity_result self \<longleftrightarrow> qg_surface_ready self \<and>
     (qg_acks_suspended self \<or> qg_outstanding self < int (qg_max_outstanding self))"

definition qt_capacity_loop :: "qt_pipeline \<Rightarrow> waiter" where
  "qt_capacity_loop self = (if qt_capacity_blocked self then Asleep else Returned (qt_capacity_result self))"

definition qt_wait_enter :: "qt_pipeline \<Rightarrow> waiter" where
  "qt_wait_enter self = (if qg_last_h264 self then Returned True else qt_capacity_loop self)"

text \<open>The second argument of \<open>QWaitCondition::wait\<close>, a number of milliseconds from now: \<open>None\<close> is
  the call without one, which waits for ever. \<open>now_ms\<close> is the time since the epoch.\<close>

definition qt_wait_milliseconds :: "int \<Rightarrow> int \<Rightarrow> int option" where
  "qt_wait_milliseconds now_ms timeout_us =
     (let deadline = (if timeout_us > 0 then now_ms * 1000 + timeout_us else 0)
      in if timeout_us < 0 then None else Some (deadline div 1000))"

subsection \<open>Following the daemon\<close>

definition pipeline_of :: "qt_pipeline \<Rightarrow> pipeline" where
  "pipeline_of q = \<lparr>gp_width = qg_width q, gp_height = qg_height q, gp_context = qg_context q,
     channel_opened = qg_channel_opened q, caps_confirmed = qg_caps_confirmed q,
     surface_ready = qg_surface_ready q, surface_id = qg_surface_id q,
     codec_context_id = qg_codec_context_id q, next_frame_id = qg_next_frame_id q,
     outstanding_frames = qg_outstanding q, max_outstanding_frames = qg_max_outstanding q,
     channel_id = qg_channel_id q, frame_acks_suspended = qg_acks_suspended q,
     last_frame_h264 = qg_last_h264 q\<rparr>"

text \<open>What can happen to a pipeline of the port: the callback for the client's capabilities is not
  installed, so nothing confirms them.\<close>

datatype qt_gfx_op =
    Qt_maybe_init channel_answers
  | Qt_frame_ack nat
  | Qt_frame_out bool
  | Qt_frame_mode bool
  | Qt_channel_assigned nat

fun qt_run_op :: "qt_gfx_op \<Rightarrow> qt_pipeline \<Rightarrow> qt_pipeline \<times> gfx_event list" where
  "qt_run_op (Qt_maybe_init ans) s = (case qt_maybe_init ans (\<lambda>t. t) s of (t, ev, good) \<Rightarrow> (t, ev))"
| "qt_run_op (Qt_frame_ack d) s = qt_frame_acknowledge s d"
| "qt_run_op (Qt_frame_out add) s = qt_out_frame_change s add"
| "qt_run_op (Qt_frame_mode m) s = (qt_set_last_frame_mode s m, [])"
| "qt_run_op (Qt_channel_assigned cid) s = (the (fst (qt_channel_id_assigned (Some s) cid)), [])"

fun op_of :: "qt_gfx_op \<Rightarrow> pipeline_op" where
  "op_of (Qt_maybe_init ans) = Maybe_init ans"
| "op_of (Qt_frame_ack d) = Frame_ack d"
| "op_of (Qt_frame_out add) = Frame_out add"
| "op_of (Qt_frame_mode m) = Frame_mode m"
| "op_of (Qt_channel_assigned cid) = Channel_assigned cid"

lemma pipeline_of_simps [simp]:
  "gp_context (pipeline_of q) = qg_context q" "channel_opened (pipeline_of q) = qg_channel_opened q"
  "caps_confirmed (pipeline_of q) = qg_caps_confirmed q" "surface_ready (pipeline_of q) = qg_surface_ready q"
  "outstanding_frames (pipeline_of q) = qg_outstanding q"
  "max_outstanding_frames (pipeline_of q) = qg_max_outstanding q"
  "frame_acks_suspended (pipeline_of q) = qg_acks_suspended q"
  "last_frame_h264 (pipeline_of q) = qg_last_h264 q" "gp_width (pipeline_of q) = qg_width q"
  "gp_height (pipeline_of q) = qg_height q" "surface_id (pipeline_of q) = qg_surface_id q"
  by (simp_all add: pipeline_of_def)

lemma reset_follows:
  assumes "qg_context s" "qt_reset_locked ans s = (t, ev, good)"
  shows "drd_rdp_graphics_pipeline_reset_locked ans (pipeline_of s) = (pipeline_of t, ev, good)"
  using assms by (auto simp: qt_reset_locked_def drd_rdp_graphics_pipeline_reset_locked_def Let_def
      pipeline_of_def split: if_splits)

lemma maybe_init_follows:
  assumes "qt_maybe_init ans (\<lambda>t. t) s = (t, ev, good)" "Use_gfx_transport \<notin> set ev"
  shows "\<exists>ev'. drd_rdp_graphics_pipeline_maybe_init ans (\<lambda>t. t) (pipeline_of s) = (pipeline_of t, ev', good) \<and>
    filter (\<lambda>e. e \<noteq> Use_gfx_transport) ev' = ev"
proof (cases "\<not> qg_context s \<or> \<not> qg_channel_opened s \<and> \<not> ans_open ans")
  case True
  then show ?thesis using assms(1)
    by (auto simp: qt_maybe_init_def drd_rdp_graphics_pipeline_maybe_init_def)
next
  case False
  define s1 where "s1 = (if qg_channel_opened s then s else s\<lparr>qg_channel_opened := True\<rparr>)"
  have abs1: "(pipeline_of s)\<lparr>channel_opened := True\<rparr> = pipeline_of s1"
    using False by (auto simp: s1_def pipeline_of_def)
  have q: "(t, ev, good) = (if \<not> qg_caps_confirmed s1 then (s1, [], False) else qt_reset_locked ans s1)"
    using assms(1) False by (auto simp: qt_maybe_init_def s1_def Let_def)
  have c: "drd_rdp_graphics_pipeline_maybe_init ans (\<lambda>t. t) (pipeline_of s) =
     (if \<not> qg_caps_confirmed s1 then (pipeline_of s1, [], False)
      else case drd_rdp_graphics_pipeline_reset_locked ans (pipeline_of s1) of
        (s2, ev, good) \<Rightarrow> (s2, ev @ [Use_gfx_transport], good))"
    using False
    by (cases "qg_channel_opened s") (simp_all add: drd_rdp_graphics_pipeline_maybe_init_def Let_def abs1)
  show ?thesis
  proof (cases "qg_caps_confirmed s1")
    case True
    have "qg_context s1" using False by (simp add: s1_def)
    note r = reset_follows [OF this]
    have qr: "qt_reset_locked ans s1 = (t, ev, good)" using q True by simp
    show ?thesis unfolding c using True r [OF qr] assms(2) by (simp add: filter_id_conv) (metis)
  next
    case False
    then show ?thesis unfolding c using q by simp
  qed
qed

lemma qt_reset_no_switch: "Use_gfx_transport \<notin> set (fst (snd (qt_reset_locked ans s)))"
  by (simp add: qt_reset_locked_def Let_def)

lemma qt_maybe_init_no_switch: "Use_gfx_transport \<notin> set (fst (snd (qt_maybe_init ans others s)))"
  using qt_reset_no_switch by (auto simp: qt_maybe_init_def Let_def)

lemma run_op_follows:
  "\<exists>ev. run_op (op_of p) (pipeline_of s) = (pipeline_of (fst (qt_run_op p s)), ev) \<and>
    filter (\<lambda>e. e \<noteq> Use_gfx_transport) ev = snd (qt_run_op p s)"
proof (cases p)
  case (Qt_maybe_init ans)
  obtain t ev good where q: "qt_maybe_init ans (\<lambda>t. t) s = (t, ev, good)" by (metis surj_pair)
  show ?thesis using maybe_init_follows [OF q] qt_maybe_init_no_switch [of ans "\<lambda>t. t" s] q Qt_maybe_init
    by auto
next
  case (Qt_frame_ack d)
  then show ?thesis
    by (auto simp: qt_frame_acknowledge_def drd_rdpgfx_frame_ack_def Let_def pipeline_of_def)
next
  case (Qt_frame_out add)
  then show ?thesis
    by (auto simp: qt_out_frame_change_def drd_rdp_graphics_pipeline_out_frame_change_def pipeline_of_def)
next
  case (Qt_frame_mode m)
  then show ?thesis
    by (simp add: qt_set_last_frame_mode_def drd_rdp_graphics_pipeline_set_last_frame_mode_def pipeline_of_def)
next
  case (Qt_channel_assigned cid)
  then show ?thesis by (simp add: qt_channel_id_assigned_def drd_rdpgfx_channel_assigned_def pipeline_of_def)
qed

lemma waits_follow:
  "wait_for_capacity_enter (pipeline_of s) = qt_wait_enter s"
  "capacity_loop (pipeline_of s) = qt_capacity_loop s"
  "drd_rdp_graphics_pipeline_can_submit (pipeline_of s) = qt_can_submit s"
  by (simp_all add: wait_for_capacity_enter_def capacity_loop_def qt_wait_enter_def qt_capacity_loop_def
      capacity_blocked_def qt_capacity_blocked_def capacity_result_def qt_capacity_result_def
      drd_rdp_graphics_pipeline_can_submit_def qt_can_submit_def)

definition qt_gfx_state :: "qt_gfx_op list \<Rightarrow> qt_pipeline \<Rightarrow> qt_pipeline" where
  "qt_gfx_state ps s = fold (\<lambda>p t. fst (qt_run_op p t)) ps s"

lemma runs_follow:
  "fold (\<lambda>p t. fst (run_op p t)) (map op_of ps) (pipeline_of s) = pipeline_of (qt_gfx_state ps s)"
proof (induction ps arbitrary: s)
  case (Cons p ps)
  have "fst (run_op (op_of p) (pipeline_of s)) = pipeline_of (fst (qt_run_op p s))"
    using run_op_follows [of p s] by auto
  then show ?case using Cons.IH by (simp add: qt_gfx_state_def)
qed (simp add: qt_gfx_state_def)

text \<open>Nothing confirms the capabilities, so no surface is ever created.\<close>

definition never_ready :: "qt_pipeline \<Rightarrow> bool" where
  "never_ready s \<longleftrightarrow> \<not> qg_caps_confirmed s \<and> \<not> qg_surface_ready s"

lemma run_never_ready: "never_ready s \<Longrightarrow> never_ready (fst (qt_run_op p s))"
  by (cases p) (auto simp: never_ready_def qt_maybe_init_def qt_frame_acknowledge_def
      qt_out_frame_change_def qt_set_last_frame_mode_def qt_channel_id_assigned_def Let_def)

lemma runs_never_ready: "never_ready s \<Longrightarrow> never_ready (qt_gfx_state ps s)"
  by (induction ps arbitrary: s) (simp_all add: qt_gfx_state_def run_never_ready)

lemma maybe_init_never_ready:
  assumes "never_ready s" shows "snd (snd (qt_maybe_init ans (\<lambda>t. t) s)) = False"
  using assms by (auto simp: never_ready_def qt_maybe_init_def Let_def)

text \<open>A wait of the port with a timeout is as long as the time since the epoch and the timeout
  together: in 2025, more than half a century instead of 16 ms.\<close>

lemma qt_timeout_is_absolute:
  "timeout_us > 0 \<Longrightarrow> 0 \<le> now_ms \<Longrightarrow>
     qt_wait_milliseconds now_ms timeout_us = Some (now_ms + timeout_us div 1000)"
  by (simp add: qt_wait_milliseconds_def Let_def)

lemma qt_timeout_of_16ms:
  "qt_wait_milliseconds 1750000000000 16000 = Some 1750000000016 \<and> 1750000000016 > (50 * 365 * 86400 * 1000 :: int)"
  by (simp add: qt_wait_milliseconds_def)

subsection \<open>Properties\<close>

text \<open>
  C21: the pipeline of the Qt port refines the daemon's: whatever happens to it, its state is the
  state of the daemon's pipeline after the same operations, with the same answers of
  \<open>canSubmit\<close> and of the blocking wait; but as the port installs no callback for the client's
  capabilities, the initialisation never succeeds, the surface never becomes ready and no frame
  may ever be submitted.
\<close>

theorem qt_pipeline_refines:
  assumes "s = qt_gfx_state ps (qt_pipeline_new valid allocated W H)"
    and "p = fold (\<lambda>p t. fst (run_op p t)) (map op_of ps)
      (drd_rdp_graphics_pipeline_init\<lparr>gp_width := u16_of W, gp_height := u16_of H, gp_context := valid \<and> allocated\<rparr>)"
  shows "p = pipeline_of s \<and> drd_rdp_graphics_pipeline_can_submit p = qt_can_submit s \<and>
    wait_for_capacity_enter p = qt_wait_enter s \<and> capacity_loop p = qt_capacity_loop s \<and>
    \<not> qt_is_ready s \<and> \<not> qt_can_submit s \<and> (\<forall>ans. snd (snd (qt_maybe_init ans (\<lambda>t. t) s)) = False)"
proof -
  have new: "drd_rdp_graphics_pipeline_init\<lparr>gp_width := u16_of W, gp_height := u16_of H,
      gp_context := valid \<and> allocated\<rparr> = pipeline_of (qt_pipeline_new valid allocated W H)"
    by (simp add: drd_rdp_graphics_pipeline_init_def pipeline_of_def qt_pipeline_new_def)
  have p: "p = pipeline_of s" unfolding assms new by (rule runs_follow)
  have nr: "never_ready s" unfolding assms(1)
    by (rule runs_never_ready) (simp add: never_ready_def qt_pipeline_new_def)
  show ?thesis
    using nr maybe_init_never_ready [OF nr]
    by (auto simp: p waits_follow never_ready_def qt_is_ready_def qt_can_submit_def)
qed

theorem qt_pipeline_refines_witness:
  "\<exists>s. s = qt_gfx_state [Qt_frame_out True, Qt_frame_ack 1] (qt_pipeline_new True True 1024 768) \<and>
    \<not> qt_can_submit s \<and> qg_outstanding s = 0"
proof -
  let ?s = "qt_gfx_state [Qt_frame_out True, Qt_frame_ack 1] (qt_pipeline_new True True 1024 768)"
  have "\<not> qt_can_submit ?s" using qt_pipeline_refines [OF refl refl] by blast
  moreover have "qg_outstanding ?s = 0"
    by (simp add: qt_gfx_state_def qt_out_frame_change_def qt_frame_acknowledge_def qt_pipeline_new_def
        SUSPEND_FRAME_ACKNOWLEDGEMENT_def)
  ultimately show ?thesis by blast
qed

end
