(* ===== verification/Qt_Session.thy ===== *)
theory Qt_Session
  imports Rdp_Session_Loops Qt_Graphics
begin

text \<open>
  One session of the Qt port (\<^verbatim>\<open>qt/session/drd_rdp_session.cpp\<close>), with the peer callback of
  \<^verbatim>\<open>qt/transport/drd_transport.cpp\<close> that calls back into it.

  An operation is run by a thread (\<open>who\<close>). It can be \<open>Done\<close>, it can \<open>Abort\<close> the process (a
  null pointer that is used, or a running thread whose object is deleted), and it can \<open>Overflow\<close>
  the stack: \<open>disconnect\<close> calls itself through the peer, and the first argument bounds the
  depth of its calls. \<open>QThread::wait\<close> on another thread returns when that thread has ended, and
  its \<open>finished\<close> signal is then in the queue of the main loop (\<open>qs_posted\<close>).
\<close>

subsection \<open>State\<close>

datatype 'a run = Done 'a | Abort | Overflow

fun run_bind :: "'a run \<Rightarrow> ('a \<Rightarrow> 'b run) \<Rightarrow> 'b run" where
  "run_bind (Done x) f = f x"
| "run_bind Abort f = Abort"
| "run_bind Overflow f = Overflow"

record qt_session =
  qs_peer :: "peer option"
  qs_ctx_session :: bool  \<comment> \<open>the context of the peer points back to the session\<close>
  qs_address :: string
  qs_state :: string
  qs_runtime :: bool
  qs_vcm :: bool  \<comment> \<open>neither NULL nor \<open>INVALID_HANDLE_VALUE\<close>\<close>
  qs_vcm_thread :: bool  \<comment> \<open>the object; \<open>qs_vcm_live\<close>: its function is running\<close>
  qs_vcm_live :: bool
  qs_pipeline :: "qt_pipeline option"
  qs_pipeline_ready :: bool
  qs_frame_sequence :: u32
  qs_max_payload :: int
  qs_activated :: bool
  qs_stop_event :: bool
  qs_alive :: bool
  qs_render_thread :: bool
  qs_render_live :: bool
  qs_render_running :: bool
  qs_closed_cb :: bool
  qs_closed_invoked :: bool
  qs_local :: bool
  qs_passive :: bool
  qs_error :: session_error
  qs_refresh_source :: nat
  qs_running :: bool
  qs_posted :: "thread list"

datatype qt_event =
    Qt_closed_callback | Qt_delete_local | Qt_set_stop_event | Qt_close_stop_event
  | Qt_thread_start thread | Qt_join thread | Qt_channel gfx_event | Qt_set_channel_event

type_synonym qt_result = "(qt_session \<times> qt_event list) run"

definition qt_session_new :: "peer option \<Rightarrow> qt_session" where
  "qt_session_new peer =
     \<lparr>qs_peer = peer, qs_ctx_session = False,
      qs_address = (case peer of None \<Rightarrow> ''unknown'' | Some p \<Rightarrow>
        (case pe_hostname p of None \<Rightarrow> [] | Some h \<Rightarrow> h)),
      qs_state = ''created'', qs_runtime = False, qs_vcm = False, qs_vcm_thread = False, qs_vcm_live = False,
      qs_pipeline = None, qs_pipeline_ready = False, qs_frame_sequence = 1, qs_max_payload = 0,
      qs_activated = False, qs_stop_event = False, qs_alive = True, qs_render_thread = False,
      qs_render_live = False, qs_render_running = False, qs_closed_cb = False, qs_closed_invoked = False, qs_local = False,
      qs_passive = False, qs_error = SESSION_ERROR_NONE, qs_refresh_source = 0, qs_running = False,
      qs_posted = []\<rparr>"

definition qt_set_peer_address :: "string \<Rightarrow> qt_session \<Rightarrow> qt_session" where
  "qt_set_peer_address a self = self\<lparr>qs_address := (if a \<noteq> [] then a else ''unknown'')\<rparr>"

definition qt_peer_address :: "qt_session \<Rightarrow> string" where "qt_peer_address self = qs_address self"

definition qt_set_peer_state :: "string \<Rightarrow> qt_session \<Rightarrow> qt_session" where
  "qt_set_peer_state st self = self\<lparr>qs_state := (if st \<noteq> [] then st else ''unknown'')\<rparr>"

definition qt_peer_state :: "qt_session \<Rightarrow> string" where "qt_peer_state self = qs_state self"

definition qt_set_passive_mode :: "bool \<Rightarrow> qt_session \<Rightarrow> qt_session" where
  "qt_set_passive_mode passive self = self\<lparr>qs_passive := passive\<rparr>"

definition qt_is_passive_mode :: "qt_session \<Rightarrow> bool" where "qt_is_passive_mode self = qs_passive self"

definition qt_attach_local_session :: "bool \<Rightarrow> qt_session \<Rightarrow> qt_session \<times> qt_event list" where
  "qt_attach_local_session session self =
     (if \<not> session then (self, [])
      else (self\<lparr>qs_local := True\<rparr>, if qs_local self then [Qt_delete_local] else []))"

definition qt_context_of :: "qt_session \<Rightarrow> peer_context option" where
  "qt_context_of self = Option.bind (qs_peer self) pe_context"

definition qt_settings_of :: "qt_session \<Rightarrow> peer_settings option" where
  "qt_settings_of self = Option.bind (qt_context_of self) pc_settings"

subsection \<open>The graphics pipeline\<close>

definition qt_maybe_init_graphics :: "bool \<Rightarrow> qt_session \<Rightarrow> qt_session" where
  "qt_maybe_init_graphics allocated self =
     (if qs_pipeline self \<noteq> None \<or> qt_context_of self = None \<or> \<not> qs_runtime self \<or> \<not> qs_vcm self
      then self
      else self\<lparr>qs_pipeline := Some (qt_pipeline_new True allocated 1024 768),
                qs_pipeline_ready := False\<rparr>)"

definition qt_disable_graphics :: "qt_session \<Rightarrow> qt_session \<times> qt_event list" where
  "qt_disable_graphics self =
     (case qs_pipeline self of None \<Rightarrow> (self, [])
      | Some p \<Rightarrow> (self\<lparr>qs_pipeline_ready := False, qs_pipeline := None\<rparr>,
                  map Qt_channel (qt_pipeline_delete (True, True) p)))"

definition qt_set_runtime :: "bool \<Rightarrow> bool \<Rightarrow> qt_session \<Rightarrow> qt_session" where
  "qt_set_runtime allocated runtime self =
     (if qs_runtime self = runtime then self
      else qt_maybe_init_graphics allocated (self\<lparr>qs_runtime := runtime\<rparr>))"

definition qt_set_vcm :: "bool \<Rightarrow> bool \<Rightarrow> qt_session \<Rightarrow> qt_session" where
  "qt_set_vcm allocated vcm self = qt_maybe_init_graphics allocated (self\<lparr>qs_vcm := vcm\<rparr>)"

definition qt_refresh_payload_limit :: "qt_session \<Rightarrow> qt_session" where
  "qt_refresh_payload_limit self = self\<lparr>qs_max_payload :=
     (case qt_settings_of self of None \<Rightarrow> 0
      | Some st \<Rightarrow> sint (word_of_nat (ps_multifrag_max st) :: u32))\<rparr>"

definition qt_wait_for_capacity :: "qt_session \<Rightarrow> bool" where
  "qt_wait_for_capacity self \<longleftrightarrow> qs_pipeline self \<noteq> None \<and> qs_pipeline_ready self"

definition qt_enforce_desktop_size :: "qt_session \<Rightarrow> bool" where
  "qt_enforce_desktop_size self = True"

definition qt_client_is_mstsc :: "qt_session \<Rightarrow> bool" where
  "qt_client_is_mstsc self = (case qt_settings_of self of None \<Rightarrow> False
     | Some st \<Rightarrow> ps_os_major st = OSMAJORTYPE_WINDOWS \<and> ps_os_minor_nt st)"

definition qt_get_peer_resolution :: "qt_session \<Rightarrow> (nat \<times> nat) option" where
  "qt_get_peer_resolution self = map_option (\<lambda>st. (ps_width st, ps_height st)) (qt_settings_of self)"

subsection \<open>Threads and the closed callback\<close>

definition qt_notify_closed :: "qt_session \<Rightarrow> qt_session \<times> qt_event list" where
  "qt_notify_closed self =
     (if \<not> qs_closed_cb self \<or> qs_closed_invoked self then (self, [])
      else (self\<lparr>qs_closed_invoked := True\<rparr>, [Qt_closed_callback]))"

definition qt_set_closed_callback :: "bool \<Rightarrow> qt_session \<Rightarrow> qt_session \<times> qt_event list" where
  "qt_set_closed_callback callback self =
     (let s = self\<lparr>qs_closed_cb := callback, qs_closed_invoked := False\<rparr>
      in if callback \<and> \<not> qs_alive s then qt_notify_closed s else (s, []))"

text \<open>The ends of the two threads' functions: the thread's \<open>finished\<close> signal is posted.\<close>

definition qt_vcm_thread_leaves :: "qt_session \<Rightarrow> qt_session \<times> qt_event list" where
  "qt_vcm_thread_leaves self =
     (let (s, e) = qt_notify_closed (self\<lparr>qs_render_running := False\<rparr>)
      in (s\<lparr>qs_vcm_live := False, qs_posted := qs_posted s @ [Vcm_thread]\<rparr>, e))"

definition qt_render_thread_leaves :: "qt_session \<Rightarrow> qt_session" where
  "qt_render_thread_leaves self =
     self\<lparr>qs_render_live := False, qs_posted := qs_posted self @ [Render_thread]\<rparr>"

text \<open>Waiting for a thread and deleting its object; a thread that still runs leaves first. \<open>None\<close> is
  a thread that does this to itself: the wait is refused and a running thread is deleted.\<close>

definition qt_stop_render_thread :: "thread \<Rightarrow> qt_session \<Rightarrow> (qt_session \<times> qt_event list) option" where
  "qt_stop_render_thread who self =
     (if \<not> qs_render_thread self then Some (self, [])
      else if qs_render_live self \<and> who = Render_thread then None
      else let s = (if qs_render_live self then qt_render_thread_leaves self else self)
           in Some (s\<lparr>qs_render_running := False, qs_render_thread := False\<rparr>, [Qt_join Render_thread]))"

definition qt_join_vcm_thread :: "thread \<Rightarrow> qt_session \<Rightarrow> (qt_session \<times> qt_event list) option" where
  "qt_join_vcm_thread who self =
     (if \<not> qs_vcm_thread self then Some (self, [])
      else if qs_vcm_live self \<and> who = Vcm_thread then None
      else let (s, e) = (if qs_vcm_live self then qt_vcm_thread_leaves self else (self, []))
           in Some (s\<lparr>qs_vcm_thread := False\<rparr>, e @ [Qt_join Vcm_thread]))"

definition qt_stop_event_thread :: "thread \<Rightarrow> qt_session \<Rightarrow> (qt_session \<times> qt_event list) option" where
  "qt_stop_event_thread who self =
     Option.bind (qt_stop_render_thread who self) (\<lambda>(s1, e1).
     let s2 = s1\<lparr>qs_alive := False\<rparr>;
         e2 = (if qs_stop_event s2 then [Qt_set_stop_event] else []) in
     Option.bind (qt_join_vcm_thread who s2) (\<lambda>(s3, e3).
     let e4 = (if qs_stop_event s3 then [Qt_close_stop_event] else []);
         (s5, e5) = qt_notify_closed (s3\<lparr>qs_stop_event := False\<rparr>)
     in Some (s5\<lparr>qs_running := False\<rparr>, e1 @ e2 @ e3 @ e4 @ e5)))"

definition qt_start_event_thread :: "bool \<Rightarrow> qt_session \<Rightarrow> qt_session \<times> qt_event list \<times> bool" where
  "qt_start_event_thread event_created self =
     (if qs_peer self = None then (self, [], False)
      else if \<not> qs_stop_event self \<and> \<not> event_created then (self, [], False)
      else let s1 = self\<lparr>qs_stop_event := True, qs_alive := True\<rparr>;
               new = (qs_vcm s1 \<and> \<not> qs_vcm_thread s1)
      in (s1\<lparr>qs_vcm_thread := (qs_vcm_thread s1 \<or> new), qs_vcm_live := (qs_vcm_live s1 \<or> new),
              qs_running := True\<rparr>,
          if new then [Qt_thread_start Vcm_thread] else [], True))"

definition qt_start_render_thread :: "qt_session \<Rightarrow> qt_session \<times> qt_event list \<times> bool" where
  "qt_start_render_thread self =
     (if qs_render_thread self then (self, [], True)
      else if \<not> qs_runtime self then (self, [], False)
      else (self\<lparr>qs_render_running := True, qs_render_thread := True, qs_render_live := True\<rparr>,
            [Qt_thread_start Render_thread], True))"

text \<open>The slots of the two \<open>finished\<close> signals use their thread's pointer without a check: \<open>None\<close> is the
  call through the null pointer.\<close>

definition qt_on_vcm_thread_finished :: "qt_session \<Rightarrow> qt_session option" where
  "qt_on_vcm_thread_finished self =
     (if \<not> qs_vcm_thread self then None else Some (self\<lparr>qs_vcm_thread := False\<rparr>))"

definition qt_on_render_thread_finished :: "qt_session \<Rightarrow> qt_session option" where
  "qt_on_render_thread_finished self =
     (if \<not> qs_render_thread self then None else Some (self\<lparr>qs_render_thread := False\<rparr>))"

text \<open>The main loop delivers the next signal.\<close>

definition qt_deliver :: "qt_session \<Rightarrow> qt_session option" where
  "qt_deliver self = (case qs_posted self of [] \<Rightarrow> Some self
     | t # ts \<Rightarrow> let s = self\<lparr>qs_posted := ts\<rparr>
       in if t = Vcm_thread then qt_on_vcm_thread_finished s else qt_on_render_thread_finished s)"

subsection \<open>Disconnecting\<close>

text \<open>What \<open>disconnect\<close> does before it turns to the peer.\<close>

definition qt_disconnect_first :: "thread \<Rightarrow> qt_session \<Rightarrow> (qt_session \<times> qt_event list) option" where
  "qt_disconnect_first who self =
     map_option (\<lambda>(s1, e1). let (s2, e2) = qt_disable_graphics s1
       in (s2\<lparr>qs_local := False, qs_alive := False, qs_render_running := False\<rparr>,
           e1 @ e2 @ (if qs_local s2 then [Qt_delete_local] else [])))
     (qt_stop_event_thread who self)"

text \<open>\<open>drd_peer_disconnected\<close> goes on to the session when the peer has a context that points to one.\<close>

definition qt_calls_back :: "qt_session \<Rightarrow> bool" where
  "qt_calls_back self = (case qs_peer self of None \<Rightarrow> False
     | Some p \<Rightarrow> pe_disconnect_cb p \<and> pe_context p \<noteq> None \<and> qs_ctx_session self)"

fun qt_disconnect :: "nat \<Rightarrow> thread \<Rightarrow> qt_session \<Rightarrow> qt_result" where
  "qt_disconnect 0 who self = Overflow"
| "qt_disconnect (Suc depth) who self =
     (case qt_disconnect_first who self of
        None \<Rightarrow> Abort
      | Some (s1, e1) \<Rightarrow>
          run_bind (if qt_calls_back s1 then qt_disconnect depth who s1 else Done (s1, []))
            (\<lambda>(s2, e2).
              let s3 = (case qs_peer s1 of None \<Rightarrow> s2
                  | Some p \<Rightarrow> if pe_disconnect_cb p then s2\<lparr>qs_peer := None\<rparr> else s2)
              in Done (s3\<lparr>qs_activated := False, qs_running := False\<rparr>, e1 @ e2)))"

definition qt_peer_disconnected :: "nat \<Rightarrow> thread \<Rightarrow> qt_session \<Rightarrow> qt_result" where
  "qt_peer_disconnected depth who self =
     (if qt_context_of self \<noteq> None \<and> qs_ctx_session self then qt_disconnect depth who self
      else Done (self, []))"

text \<open>The destructor.\<close>

definition qt_session_delete :: "nat \<Rightarrow> thread \<Rightarrow> qt_session \<Rightarrow> qt_event list run" where
  "qt_session_delete depth who self =
     (case qt_stop_event_thread who self of None \<Rightarrow> Abort
      | Some (s1, e1) \<Rightarrow>
        let (s2, e2) = qt_disable_graphics s1 in
        run_bind (if qt_calls_back s2 then qt_disconnect depth who s2 else Done (s2, []))
          (\<lambda>(s3, e3). Done (e1 @ e2 @ e3 @ (if qs_local s3 then [Qt_delete_local] else []))))"

definition qt_notify_error :: "nat \<Rightarrow> thread \<Rightarrow> session_error \<Rightarrow> qt_session \<Rightarrow> qt_result" where
  "qt_notify_error depth who error self =
     (if error = SESSION_ERROR_NONE then Done (self, [])
      else let s = self\<lparr>qs_error := error\<rparr> in
      if error = SESSION_ERROR_SERVER_REDIRECTION then qt_disconnect depth who s else Done (s, []))"

subsection \<open>The callbacks of a connection\<close>

definition qt_post_connect :: "qt_session \<Rightarrow> qt_session \<times> bool" where
  "qt_post_connect self = (qt_set_peer_state ''post-connect'' self, True)"

text \<open>\<open>joined\<close> says whether the client joined the channel of the dynamic channels.\<close>

definition qt_capabilities :: "bool \<Rightarrow> qt_session \<Rightarrow> qt_session \<times> bool" where
  "qt_capabilities joined self =
     (let s = qt_set_peer_state ''capabilities'' self in
      case qt_settings_of s of None \<Rightarrow> (s, False)
      | Some st \<Rightarrow>
        if \<not> qs_vcm s then (s\<lparr>qs_error := SESSION_ERROR_BAD_CAPS\<rparr>, False)
        else if \<not> joined then (s\<lparr>qs_error := SESSION_ERROR_BAD_CAPS\<rparr>, False)
        else if \<not> ps_desktop_resize st
        then ((qt_set_peer_state ''desktop-resize-unsupported'' s)\<lparr>qs_error := SESSION_ERROR_BAD_CAPS\<rparr>, False)
        else (s, True))"

definition qt_activate :: "nat \<Rightarrow> thread \<Rightarrow> qt_session \<Rightarrow> (qt_session \<times> qt_event list \<times> bool) run" where
  "qt_activate depth who self =
     (if qs_passive self
      then Done ((qt_set_peer_state ''activated-passive'' self)\<lparr>qs_activated := True\<rparr>, [], True)
      else if \<not> qt_enforce_desktop_size self
      then run_bind (qt_disconnect depth who (qt_set_peer_state ''desktop-resize-blocked'' self))
             (\<lambda>(s, e). Done (s, e, False))
      else if \<not> qs_runtime self then Done (self, [], False)
      else let (s, e, started) = qt_start_render_thread
             ((qt_set_peer_state ''activated'' self)\<lparr>qs_activated := True\<rparr>)
           in Done (s, e, True))"

text \<open>The redirection is not implemented: the arguments are checked and success is reported.\<close>

definition qt_send_server_redirection ::
    "string \<Rightarrow> string \<Rightarrow> string \<Rightarrow> string \<Rightarrow> qt_session \<Rightarrow> qt_event list \<times> bool" where
  "qt_send_server_redirection routing_token username password certificate self =
     (if qs_peer self = None \<or> routing_token = [] \<or> username = [] \<or> password = [] \<or> certificate = []
      then ([], False)
      else if qt_settings_of self = None then ([], False)
      else ([], True))"

definition qt_pump :: bool where "qt_pump = True"

definition qt_on_refresh_timeout :: "qt_session \<Rightarrow> qt_session \<times> bool" where
  "qt_on_refresh_timeout self = (self\<lparr>qs_refresh_source := 0\<rparr>, False)"

subsection \<open>The threads\<close>

datatype qt_callback = Cb_post_connect | Cb_capabilities bool | Cb_activate | Cb_disconnect

text \<open>A callback in the transport, run by the channel thread.\<close>

definition qt_peer_callback :: "nat \<Rightarrow> qt_callback \<Rightarrow> qt_session \<Rightarrow> qt_result" where
  "qt_peer_callback depth c self =
     (if qt_context_of self = None \<or> \<not> qs_ctx_session self then Done (self, [])
      else case c of
        Cb_post_connect \<Rightarrow> Done (fst (qt_post_connect self), [])
      | Cb_capabilities joined \<Rightarrow> Done (fst (qt_capabilities joined self), [])
      | Cb_activate \<Rightarrow> run_bind (qt_activate depth Vcm_thread self) (\<lambda>(s, e, r). Done (s, e))
      | Cb_disconnect \<Rightarrow> qt_disconnect depth Vcm_thread self)"

fun qt_peer_callbacks :: "nat \<Rightarrow> qt_callback list \<Rightarrow> qt_session \<Rightarrow> qt_result" where
  "qt_peer_callbacks depth [] self = Done (self, [])"
| "qt_peer_callbacks depth (c # cs) self =
     run_bind (qt_peer_callback depth c self) (\<lambda>(s1, e1).
     run_bind (qt_peer_callbacks depth cs s1) (\<lambda>(s2, e2). Done (s2, e1 @ e2)))"

record vcm_round =
  vr_peer_handles :: nat
  vr_wait_failed :: bool
  vr_callbacks :: "qt_callback list"  \<comment> \<open>what \<open>CheckFileDescriptor\<close> calls\<close>
  vr_check :: bool
  vr_connected :: bool
  vr_joined :: bool
  vr_state :: drdynvc_state
  vr_channel_signalled :: bool
  vr_channel_check :: bool

text \<open>One round of the channel thread's loop, and whether it goes on.\<close>

definition qt_vcm_round :: "nat \<Rightarrow> vcm_round \<Rightarrow> qt_session \<Rightarrow> (qt_session \<times> qt_event list \<times> bool) run" where
  "qt_vcm_round depth vr self =
     (if \<not> qs_alive self then Done (self, [], False)
      else if vr_peer_handles vr = 0 then Done (self\<lparr>qs_alive := False\<rparr>, [], False)
      else if vr_wait_failed vr then Done (self, [], False)
      else run_bind (qt_peer_callbacks depth (vr_callbacks vr) self) (\<lambda>(s1, e1).
        if \<not> vr_check vr then Done (s1\<lparr>qs_alive := False\<rparr>, e1, False)
        else if \<not> vr_connected vr \<or> \<not> vr_joined vr then Done (s1, e1, True)
        else let e2 = e1 @ (if vr_state vr = DRDYNVC_STATE_NONE then [Qt_set_channel_event] else []) in
        if \<not> qs_alive s1 then Done (s1, e2, False)
        else if vr_channel_signalled vr \<and> \<not> vr_channel_check vr
        then Done (s1\<lparr>qs_alive := False\<rparr>, e2, False)
        else Done (s1, e2, True)))"

fun qt_vcm_rounds :: "nat \<Rightarrow> vcm_round list \<Rightarrow> qt_session \<Rightarrow> (qt_session \<times> qt_event list \<times> bool) run" where
  "qt_vcm_rounds depth [] self = Done (self, [], True)"
| "qt_vcm_rounds depth (vr # vrs) self =
     run_bind (qt_vcm_round depth vr self) (\<lambda>(s1, e1, more).
       if \<not> more then let (s2, e2) = qt_vcm_thread_leaves s1 in Done (s2, e1 @ e2, False)
       else run_bind (qt_vcm_rounds depth vrs s1) (\<lambda>(s2, e2, more2). Done (s2, e1 @ e2, more2)))"

text \<open>One round of the render thread: no frame is produced yet. The second component says whether the
  loop goes on.\<close>

definition qt_render_round :: "qt_session \<Rightarrow> qt_session \<times> bool" where
  "qt_render_round self =
     (if \<not> qs_render_running self \<or> \<not> qs_alive self then (qt_render_thread_leaves self, False)
      else if \<not> qs_activated self \<or> \<not> qs_runtime self then (self, True)
      else let s = self\<lparr>qs_frame_sequence := qs_frame_sequence self + 1\<rparr>
           in (if qs_frame_sequence s = 0 then s\<lparr>qs_frame_sequence := 1\<rparr> else s, True))"

fun qt_render_rounds :: "nat \<Rightarrow> qt_session \<Rightarrow> qt_session" where
  "qt_render_rounds 0 self = self"
| "qt_render_rounds (Suc n) self =
     (let (s, more) = qt_render_round self in if more then qt_render_rounds n s else s)"

end
