(* ===== verification/Qt_Session_Safety.thy ===== *)
theory Qt_Session_Safety
  imports Qt_Session
begin

text \<open>
  What the sessions of the Qt port do: a session that its peer's callbacks can reach never returns
  from \<open>disconnect\<close>; a thread that was waited for crashes the main loop with its last signal.
\<close>

subsection \<open>Stopping\<close>

text \<open>The thread \<open>who\<close> does not wait for itself.\<close>

definition can_join :: "thread \<Rightarrow> qt_session \<Rightarrow> bool" where
  "can_join who self \<longleftrightarrow> (qs_vcm_thread self \<and> qs_vcm_live self \<longrightarrow> who \<noteq> Vcm_thread) \<and>
     (qs_render_thread self \<and> qs_render_live self \<longrightarrow> who \<noteq> Render_thread)"

text \<open>The signals that stopping posts.\<close>

definition stop_posts :: "qt_session \<Rightarrow> thread list" where
  "stop_posts self = (if qs_render_thread self \<and> qs_render_live self then [Render_thread] else []) @
     (if qs_vcm_thread self \<and> qs_vcm_live self then [Vcm_thread] else [])"

lemmas stop_defs = qt_stop_event_thread_def qt_stop_render_thread_def qt_join_vcm_thread_def
  qt_vcm_thread_leaves_def qt_render_thread_leaves_def qt_notify_closed_def Let_def

lemma stop_self: "\<not> can_join who self \<Longrightarrow> qt_stop_event_thread who self = None"
  by (auto simp: can_join_def stop_defs)

lemma notify_closed_fields:
  "qs_vcm_thread (fst (qt_notify_closed s)) = qs_vcm_thread s"
  "qs_vcm_live (fst (qt_notify_closed s)) = qs_vcm_live s"
  "qs_render_thread (fst (qt_notify_closed s)) = qs_render_thread s"
  "qs_alive (fst (qt_notify_closed s)) = qs_alive s" "qs_stop_event (fst (qt_notify_closed s)) = qs_stop_event s"
  "qs_posted (fst (qt_notify_closed s)) = qs_posted s" "qs_peer (fst (qt_notify_closed s)) = qs_peer s"
  "qs_ctx_session (fst (qt_notify_closed s)) = qs_ctx_session s"
  "qs_closed_cb (fst (qt_notify_closed s)) = qs_closed_cb s"
  "qs_closed_invoked (fst (qt_notify_closed s)) = (qs_closed_invoked s \<or> qs_closed_cb s)"
  "snd (qt_notify_closed s) = (if qs_closed_cb s \<and> \<not> qs_closed_invoked s then [Qt_closed_callback] else [])"
  by (auto simp: qt_notify_closed_def)

lemma stop_render:
  assumes "can_join who self"
  shows "qt_stop_render_thread who self = Some
    (self\<lparr>qs_render_live := qs_render_live self \<and> \<not> qs_render_thread self,
       qs_posted := qs_posted self @ (if qs_render_thread self \<and> qs_render_live self then [Render_thread] else []),
       qs_render_running := qs_render_running self \<and> \<not> qs_render_thread self, qs_render_thread := False\<rparr>,
     if qs_render_thread self then [Qt_join Render_thread] else [])"
  using assms by (cases "qs_render_thread self"; cases "qs_render_live self")
    (simp_all add: can_join_def qt_stop_render_thread_def qt_render_thread_leaves_def)

lemma join_vcm:
  assumes "qs_vcm_thread self \<and> qs_vcm_live self \<longrightarrow> who \<noteq> Vcm_thread"
    and t: "t = qt_join_vcm_thread who self"
  shows "t \<noteq> None" "\<not> qs_vcm_thread (fst (the t))" "qs_render_thread (fst (the t)) = qs_render_thread self"
    "qs_alive (fst (the t)) = qs_alive self" "qs_stop_event (fst (the t)) = qs_stop_event self"
    "qs_posted (fst (the t)) = qs_posted self @ (if qs_vcm_thread self \<and> qs_vcm_live self then [Vcm_thread] else [])"
    "qs_peer (fst (the t)) = qs_peer self" "qs_ctx_session (fst (the t)) = qs_ctx_session self"
    "qs_closed_cb (fst (the t)) = qs_closed_cb self"
    "qs_closed_invoked (fst (the t)) = (qs_closed_invoked self \<or>
       qs_closed_cb self \<and> qs_vcm_thread self \<and> qs_vcm_live self)"
    "count_list (snd (the t)) Qt_closed_callback =
       (if qs_closed_cb self \<and> \<not> qs_closed_invoked self \<and> qs_vcm_thread self \<and> qs_vcm_live self then 1 else 0)"
  using assms(1) unfolding t
  by (auto simp: qt_join_vcm_thread_def qt_vcm_thread_leaves_def case_prod_unfold notify_closed_fields)

lemma stop_event_thread:
  assumes "can_join who self"
  obtains s e where "qt_stop_event_thread who self = Some (s, e)"
    "\<not> qs_vcm_thread s" "\<not> qs_render_thread s" "\<not> qs_alive s" "\<not> qs_stop_event s"
    "qs_posted s = qs_posted self @ stop_posts self"
    "qs_peer s = qs_peer self" "qs_ctx_session s = qs_ctx_session self"
    "qs_closed_cb s = qs_closed_cb self"
    "qs_closed_invoked s = (qs_closed_invoked self \<or> qs_closed_cb self)"
    "count_list e Qt_closed_callback = (if qs_closed_cb self \<and> \<not> qs_closed_invoked self then 1 else 0)"
proof -
  define s2 where "s2 = (fst (the (qt_stop_render_thread who self)))\<lparr>qs_alive := False\<rparr>"
  have s2: "qs_vcm_thread s2 = qs_vcm_thread self" "qs_vcm_live s2 = qs_vcm_live self"
    "\<not> qs_render_thread s2" "\<not> qs_alive s2" "qs_stop_event s2 = qs_stop_event self"
    "qs_posted s2 = qs_posted self @ (if qs_render_thread self \<and> qs_render_live self then [Render_thread] else [])"
    "qs_peer s2 = qs_peer self" "qs_ctx_session s2 = qs_ctx_session self"
    "qs_closed_cb s2 = qs_closed_cb self" "qs_closed_invoked s2 = qs_closed_invoked self"
    by (simp_all add: s2_def stop_render [OF assms])
  define t where "t = qt_join_vcm_thread who s2"
  have ok2: "qs_vcm_thread s2 \<and> qs_vcm_live s2 \<longrightarrow> who \<noteq> Vcm_thread"
    using assms s2 by (simp add: can_join_def)
  note j = join_vcm [OF ok2 t_def]
  define n where "n = qt_notify_closed ((fst (the t))\<lparr>qs_stop_event := False\<rparr>)"
  obtain e1 where e1: "qt_stop_event_thread who self = Some ((fst n)\<lparr>qs_running := False\<rparr>,
      e1 @ (if qs_stop_event s2 then [Qt_set_stop_event] else []) @ snd (the t) @
        (if qs_stop_event (fst (the t)) then [Qt_close_stop_event] else []) @ snd n)"
    "Qt_closed_callback \<notin> set e1"
    using j(1) stop_render [OF assms]
    by (cases t) (auto simp: qt_stop_event_thread_def Let_def case_prod_unfold n_def t_def s2_def)
  show ?thesis
    by (rule that, rule e1(1))
       (use e1(2) j s2 in \<open>auto simp: n_def notify_closed_fields stop_posts_def count_list_0_iff\<close>)
qed

lemma disable_graphics:
  obtains s e where "qt_disable_graphics self = (s, e)" "qs_pipeline s = None"
    "qs_peer s = qs_peer self" "qs_ctx_session s = qs_ctx_session self"
    "qs_vcm_thread s = qs_vcm_thread self" "qs_render_thread s = qs_render_thread self"
    "Qt_closed_callback \<notin> set e"
  using that by (cases "qs_pipeline self") (auto simp: qt_disable_graphics_def)

lemma calls_back_cong:
  "qs_peer s = qs_peer t \<Longrightarrow> qs_ctx_session s = qs_ctx_session t \<Longrightarrow> qt_calls_back s = qt_calls_back t"
  by (simp add: qt_calls_back_def split: option.split)

lemma disconnect_first:
  assumes "can_join who self"
  obtains s e where "qt_disconnect_first who self = Some (s, e)" "can_join who s"
    "qt_calls_back s = qt_calls_back self" "qs_peer s = qs_peer self"
proof -
  obtain s1 e1 where 1: "qt_stop_event_thread who self = Some (s1, e1)" "\<not> qs_vcm_thread s1"
    "\<not> qs_render_thread s1" "qs_peer s1 = qs_peer self" "qs_ctx_session s1 = qs_ctx_session self"
    by (rule stop_event_thread [OF assms])
  obtain s2 e2 where 2: "qt_disable_graphics s1 = (s2, e2)" "qs_peer s2 = qs_peer s1"
    "qs_ctx_session s2 = qs_ctx_session s1" "qs_vcm_thread s2 = qs_vcm_thread s1"
    "qs_render_thread s2 = qs_render_thread s1"
    by (rule disable_graphics)
  have c: "qt_calls_back (s2\<lparr>qs_local := False, qs_alive := False, qs_render_running := False\<rparr>) = qt_calls_back self"
    by (rule calls_back_cong) (simp_all add: 1 2)
  show ?thesis
    by (rule that [of "s2\<lparr>qs_local := False, qs_alive := False, qs_render_running := False\<rparr>"
        "e1 @ e2 @ (if qs_local s2 then [Qt_delete_local] else [])"])
       (simp_all add: qt_disconnect_first_def 1 2 can_join_def c)
qed

subsection \<open>Disconnecting\<close>

lemma disconnect_overflows:
  assumes "qt_calls_back self" "can_join who self"
  shows "qt_disconnect depth who self = Overflow"
  using assms
proof (induction depth arbitrary: self)
  case (Suc depth)
  obtain s e where "qt_disconnect_first who self = Some (s, e)" "can_join who s"
    "qt_calls_back s = qt_calls_back self"
    by (rule disconnect_first [OF Suc.prems(2)])
  with Suc show ?case by simp
qed simp

lemma disconnect_done:
  assumes "\<not> qt_calls_back self" "can_join who self"
  obtains t e where "qt_disconnect (Suc depth) who self = Done (t, e)"
proof -
  obtain s e where "qt_disconnect_first who self = Some (s, e)" "qt_calls_back s = qt_calls_back self"
    by (rule disconnect_first [OF assms(2)])
  with assms(1) that show ?thesis by (simp add: Let_def)
qed

lemma delete_shape:
  assumes "can_join who self"
  obtains s e where "can_join who s" "qt_calls_back s = qt_calls_back self"
    "qt_session_delete depth who self =
       run_bind (if qt_calls_back s then qt_disconnect depth who s else Done (s, []))
         (\<lambda>(s3, e3). Done (e @ e3 @ (if qs_local s3 then [Qt_delete_local] else [])))"
proof -
  obtain s1 e1 where 1: "qt_stop_event_thread who self = Some (s1, e1)" "\<not> qs_vcm_thread s1"
    "\<not> qs_render_thread s1" "qs_peer s1 = qs_peer self" "qs_ctx_session s1 = qs_ctx_session self"
    by (rule stop_event_thread [OF assms])
  obtain s2 e2 where 2: "qt_disable_graphics s1 = (s2, e2)" "qs_peer s2 = qs_peer s1"
    "qs_ctx_session s2 = qs_ctx_session s1" "qs_vcm_thread s2 = qs_vcm_thread s1"
    "qs_render_thread s2 = qs_render_thread s1"
    by (rule disable_graphics)
  have c: "qt_calls_back s2 = qt_calls_back self" by (rule calls_back_cong) (simp_all add: 1 2)
  show ?thesis
    by (rule that [of s2 "e1 @ e2"])
       (simp_all add: qt_session_delete_def 1 2 can_join_def c)
qed

lemma session_delete:
  assumes "can_join who self"
  shows "(\<exists>e. qt_session_delete depth who self = Done e) \<longleftrightarrow> \<not> qt_calls_back self"
    "qt_calls_back self \<Longrightarrow> qt_session_delete depth who self = Overflow"
proof -
  obtain s e where s: "can_join who s" "qt_calls_back s = qt_calls_back self"
    "qt_session_delete depth who self =
       run_bind (if qt_calls_back s then qt_disconnect depth who s else Done (s, []))
         (\<lambda>(s3, e3). Done (e @ e3 @ (if qs_local s3 then [Qt_delete_local] else [])))"
    by (rule delete_shape [OF assms])
  show over: "qt_session_delete depth who self = Overflow" if "qt_calls_back self"
    using that s disconnect_overflows by simp
  show "(\<exists>e. qt_session_delete depth who self = Done e) \<longleftrightarrow> \<not> qt_calls_back self"
    using over s by (cases "qt_calls_back self") simp_all
qed

text \<open>
  C16: a session disconnects exactly when nothing leads its peer back to it. Once the transport
  has installed its callback and the peer's context points to the session, \<open>disconnect\<close> asks the
  peer to disconnect before it forgets the peer, the peer's callback calls \<open>disconnect\<close> again, and
  no depth of the stack is enough; the destructor ends the same way.
\<close>

theorem qt_disconnect_returns_iff:
  assumes "can_join who self"
  shows "if qt_calls_back self
    then \<forall>depth. qt_disconnect depth who self = Overflow \<and> qt_session_delete depth who self = Overflow
    else \<forall>depth. (\<exists>t. qt_disconnect (Suc depth) who self = Done t) \<and> (\<exists>e. qt_session_delete depth who self = Done e)"
proof (cases "qt_calls_back self")
  case True
  then show ?thesis using disconnect_overflows [OF _ assms] session_delete(2) [OF assms] by simp
next
  case False
  have "\<exists>t. qt_disconnect (Suc depth) who self = Done t" for depth
    by (rule disconnect_done [OF False assms]) blast
  with False show ?thesis using session_delete(1) [OF assms] by simp
qed

definition witness_peer :: peer where
  "witness_peer = \<lparr>pe_hostname = Some ''host'',
     pe_context = Some \<lparr>pc_settings = None, pc_desktop_resize_cb = False\<rparr>, pe_disconnect_cb = True\<rparr>"

definition witness_session :: qt_session where
  "witness_session = fst (qt_start_event_thread True
     ((qt_session_new (Some witness_peer))\<lparr>qs_ctx_session := True, qs_vcm := True, qs_closed_cb := True\<rparr>))"

lemma witness_session:
  "qs_vcm_thread witness_session" "qs_vcm_live witness_session" "\<not> qs_render_thread witness_session"
  "qt_calls_back witness_session" "qs_posted witness_session = []"
  "qs_closed_cb witness_session" "\<not> qs_closed_invoked witness_session"
  by (simp_all add: witness_session_def qt_start_event_thread_def qt_session_new_def Let_def
      qt_calls_back_def witness_peer_def)

theorem qt_disconnect_returns_iff_witness:
  "qt_disconnect 100 Main_thread witness_session = Overflow \<and>
   qt_session_delete 100 Main_thread witness_session = Overflow"
  using qt_disconnect_returns_iff [of Main_thread witness_session] witness_session
  by (simp add: can_join_def)

subsection \<open>The signals of the threads\<close>

text \<open>
  Stopping the threads of a session leaves neither thread, wakes the channel thread, and calls
  the closed callback once if it was not called before. But the \<open>finished\<close> signal of every thread
  that was still running waits in the main loop, whose slot then uses the pointer that stopping has
  cleared: the next event of the loop crashes. A channel thread that leaves by itself is delivered
  safely.
\<close>

theorem qt_joined_slot_crashes:
  assumes "can_join who self" "qs_posted self = []"
  shows "\<exists>s e. qt_stop_event_thread who self = Some (s, e) \<and> \<not> qs_vcm_thread s \<and> \<not> qs_render_thread s \<and>
      \<not> qs_alive s \<and> count_list e Qt_closed_callback = (if qs_closed_cb self \<and> \<not> qs_closed_invoked self then 1 else 0) \<and>
      (qt_deliver s = None \<longleftrightarrow> qs_vcm_thread self \<and> qs_vcm_live self \<or> qs_render_thread self \<and> qs_render_live self) \<and>
      (qs_vcm_thread self \<longrightarrow> (\<exists>t. qt_deliver (fst (qt_vcm_thread_leaves self)) = Some t \<and> \<not> qs_vcm_thread t))"
proof -
  obtain s e where s: "qt_stop_event_thread who self = Some (s, e)"
    "\<not> qs_vcm_thread s" "\<not> qs_render_thread s" "\<not> qs_alive s"
    "qs_posted s = qs_posted self @ stop_posts self"
    "count_list e Qt_closed_callback = (if qs_closed_cb self \<and> \<not> qs_closed_invoked self then 1 else 0)"
    by (rule stop_event_thread [OF assms(1)])
  have "qt_deliver s = None \<longleftrightarrow> stop_posts self \<noteq> []"
    using s(2,3,5) assms(2)
    by (auto simp: qt_deliver_def qt_on_vcm_thread_finished_def qt_on_render_thread_finished_def Let_def
        split: list.split)
  moreover have "\<exists>t. qt_deliver (fst (qt_vcm_thread_leaves self)) = Some t \<and> \<not> qs_vcm_thread t" if "qs_vcm_thread self"
    using that assms(2)
    by (simp add: qt_vcm_thread_leaves_def qt_notify_closed_def Let_def qt_deliver_def
        qt_on_vcm_thread_finished_def)
  ultimately show ?thesis using s by (auto simp: stop_posts_def)
qed

theorem qt_joined_slot_crashes_witness:
  "\<exists>s e. qt_stop_event_thread Main_thread witness_session = Some (s, e) \<and>
     count_list e Qt_closed_callback = 1 \<and> qt_deliver s = None"
  using qt_joined_slot_crashes [of Main_thread witness_session] witness_session
  by (auto simp: can_join_def)

subsection \<open>The render thread\<close>

lemma render_round_sequence:
  "qs_frame_sequence self \<noteq> 0 \<Longrightarrow> qs_frame_sequence (fst (qt_render_round self)) \<noteq> 0"
  by (simp add: qt_render_round_def qt_render_thread_leaves_def Let_def)

lemma render_rounds_sequence:
  "qs_frame_sequence self \<noteq> 0 \<Longrightarrow> qs_frame_sequence (qt_render_rounds n self) \<noteq> 0"
proof (induction n arbitrary: self)
  case (Suc n)
  then show ?case
    using render_round_sequence [of self] by (cases "qt_render_round self") simp
qed simp

lemma render_thread_stops:
  "\<not> qs_render_running self \<or> \<not> qs_alive self \<Longrightarrow> \<not> qs_render_live (qt_render_rounds (Suc n) self)"
  by (auto simp: qt_render_round_def qt_render_thread_leaves_def)

end
