(* ===== verification/Routing_Token.thy ===== *)
theory Routing_Token
  imports Drd_Prelude "HOL-Library.Monad_Syntax"
begin

unbundle bit_operations_syntax

text \<open>
  The routing-token probe of \<^verbatim>\<open>src/transport/drd_rdp_routing_token.c\<close>: before a connection is
  handled, its first packet (a TPKT with an X.224 connection request) is peeked and searched for
  the \<open>Cookie: msts=\<close> line and the RDP negotiation request. The socket is the sequence of what
  \<open>poll\<close> and \<open>recv\<close> answer. \<open>None\<close> marks a read outside the peeked packet.
\<close>

subsection \<open>Peeking bytes\<close>

text \<open>One round of the polling loop: \<open>g_poll\<close> fails, the cancellable is set, \<open>recv\<close> fails,
  \<open>recv\<close> would block, or \<open>recv\<close> peeks some bytes (none at the end of the stream). Calls
  interrupted by a signal are repeated at once and do not show.\<close>

datatype peek_event =
    Poll_failed int | Peek_cancelled | Recv_failed int | Recv_again | Peeked "u8 list"

text \<open>\<open>None\<close> when the loop is still running after the given rounds; otherwise the rounds left
  over and the bytes or the error. \<open>recv\<close> copies at most \<open>len\<close> bytes.\<close>

fun peek_bytes :: "nat \<Rightarrow> peek_event list \<Rightarrow> (peek_event list \<times> u8 list res) option" where
  "peek_bytes len [] = None"
| "peek_bytes len (Poll_failed e # evs) = Some (evs, fail_io (IoErrno e))"
| "peek_bytes len (Peek_cancelled # evs) = Some (evs, fail_io IoCancelled)"
| "peek_bytes len (Recv_failed e # evs) = Some (evs, fail_io (IoErrno e))"
| "peek_bytes len (Recv_again # evs) = peek_bytes len evs"
| "peek_bytes len (Peeked bs # evs) =
     (if length (take len bs) < len then peek_bytes len evs else Some (evs, Inr (take len bs)))"

subsection \<open>The cookie line\<close>

fun find_cr_lf_from :: "nat \<Rightarrow> u8 list \<Rightarrow> nat option" where
  "find_cr_lf_from i (a # b # bs) =
     (if a = 0x0D \<and> b = 0x0A then Some i else find_cr_lf_from (Suc i) (b # bs))"
| "find_cr_lf_from i bs = None"

definition find_cr_lf :: "u8 list \<Rightarrow> nat option" where
  "find_cr_lf buffer = find_cr_lf_from 0 buffer"

text \<open>\<open>''Cookie: msts=''\<close>\<close>

definition cookie_prefix :: "u8 list" where
  "cookie_prefix = [0x43, 0x6F, 0x6F, 0x6B, 0x69, 0x65, 0x3A, 0x20, 0x6D, 0x73, 0x74, 0x73, 0x3D]"

text \<open>\<open>g_strndup\<close>: at most \<open>n\<close> bytes, up to the first NUL.\<close>

definition strndup :: "u8 list \<Rightarrow> nat \<Rightarrow> u8 list" where
  "strndup bs n = takeWhile (\<lambda>b. b \<noteq> 0) (take n bs)"

text \<open>The token and the offset of the CR LF; the length passed to \<open>g_strndup\<close> must not be negative.\<close>

definition get_routing_token_without_prefix :: "u8 list \<Rightarrow> (u8 list \<times> nat) option option" where
  "get_routing_token_without_prefix buffer =
     (if length buffer < length cookie_prefix then Some None
      else if strndup buffer (length cookie_prefix) \<noteq> cookie_prefix then Some None
      else case find_cr_lf buffer of
        None \<Rightarrow> Some None
      | Some n \<Rightarrow>
          if n < length cookie_prefix then None
          else Some (Some (strndup (drop (length cookie_prefix) buffer) (n - length cookie_prefix), n)))"

subsection \<open>Reading the packet\<close>

text \<open>The WinPR stream readers: bytes at an offset, little or big endian.\<close>

definition get_u8 :: "u8 list \<Rightarrow> nat \<Rightarrow> nat option" where
  "get_u8 bs i = (if i < length bs then Some (unat (bs ! i)) else None)"

definition get_u16 :: "u8 list \<Rightarrow> nat \<Rightarrow> nat option" where
  "get_u16 bs i = do { a \<leftarrow> get_u8 bs i; b \<leftarrow> get_u8 bs (i + 1); Some (a + 256 * b) }"

definition get_u16_be :: "u8 list \<Rightarrow> nat \<Rightarrow> nat option" where
  "get_u16_be bs i = do { a \<leftarrow> get_u8 bs i; b \<leftarrow> get_u8 bs (i + 1); Some (256 * a + b) }"

definition get_u32 :: "u8 list \<Rightarrow> nat \<Rightarrow> nat option" where
  "get_u32 bs i = do { a \<leftarrow> get_u16 bs i; b \<leftarrow> get_u16 bs (i + 2); Some (a + 65536 * b) }"

record routing_token_info =
  requested_rdstls :: bool
  routing_token :: "u8 list option"

definition drd_routing_token_info_new :: routing_token_info where
  "drd_routing_token_info_new = \<lparr>requested_rdstls = False, routing_token = None\<rparr>"

definition PROTOCOL_RDSTLS :: nat where "PROTOCOL_RDSTLS = 4"

text \<open>The TPKT header in the first four bytes: the length of the whole packet.\<close>

definition parse_tpkt :: "u8 list \<Rightarrow> nat res option" where
  "parse_tpkt hdr = do {
     version \<leftarrow> get_u8 hdr 0;
     tpkt_length \<leftarrow> get_u16_be hdr 2;
     Some (if version \<noteq> 3 then fail_io IoFailed
           else if tpkt_length < 4 + 7 then fail_io IoFailed
           else Inr tpkt_length) }"

text \<open>The rest of the packet; \<open>info\<close> is filled in as the code goes, so an error later on keeps
  the token that was found.\<close>

definition parse_x224 ::
    "nat \<Rightarrow> u8 list \<Rightarrow> routing_token_info \<Rightarrow> (routing_token_info \<times> unit res) option" where
  "parse_x224 tpkt_length pkt info = do {
     length_indicator \<leftarrow> get_u8 pkt 4;
     cr_cdt \<leftarrow> get_u8 pkt 5;
     dst_ref \<leftarrow> get_u16 pkt 6;
     class_opt \<leftarrow> get_u8 pkt 10;
     if tpkt_length - 5 \<noteq> length_indicator \<or> cr_cdt \<noteq> 0xE0 \<or> dst_ref \<noteq> 0 \<or>
        class_opt AND 0xFC \<noteq> 0
     then Some (info, fail_io IoFailed)
     else do {
       found \<leftarrow> get_routing_token_without_prefix (drop 11 pkt);
       (case found of
          None \<Rightarrow> Some (info, ok)
        | Some (token, n) \<Rightarrow>
            let info1 = info\<lparr>routing_token := Some token\<rparr>;
                pos = 11 + n + 2
            in if length pkt < pos then None
            else if length pkt - pos < 8 then Some (info1, ok)
            else do {
              rdp_neg_type \<leftarrow> get_u8 pkt pos;
              rdp_neg_length \<leftarrow> get_u16 pkt (pos + 2);
              requested_protocols \<leftarrow> get_u32 pkt (pos + 4);
              if rdp_neg_type \<noteq> 1 \<or> rdp_neg_length \<noteq> 8 then Some (info1, fail_io IoFailed)
              else Some (info1\<lparr>requested_rdstls :=
                           requested_protocols AND PROTOCOL_RDSTLS \<noteq> 0\<rparr>, ok) }) } }"

text \<open>The whole probe; the outer option is a read outside a buffer, the inner one a loop that is
  still waiting for the peer.\<close>

definition drd_routing_token_peek ::
    "peek_event list \<Rightarrow> routing_token_info \<Rightarrow> (routing_token_info \<times> unit res) option option" where
  "drd_routing_token_peek evs info =
     (case peek_bytes 4 evs of
        None \<Rightarrow> Some None
      | Some (evs1, Inl e) \<Rightarrow> Some (Some (info, Inl e))
      | Some (evs1, Inr hdr) \<Rightarrow> do {
          header \<leftarrow> parse_tpkt hdr;
          (case header of
             Inl e \<Rightarrow> Some (Some (info, Inl e))
           | Inr tpkt_length \<Rightarrow>
               (case peek_bytes tpkt_length evs1 of
                  None \<Rightarrow> Some None
                | Some (evs2, Inl e) \<Rightarrow> Some (Some (info, Inl e))
                | Some (evs2, Inr pkt) \<Rightarrow> map_option Some (parse_x224 tpkt_length pkt info))) })"

subsection \<open>Bounds\<close>

lemma peek_bytes_length:
  "peek_bytes len evs = Some (evs', Inr bs) \<Longrightarrow> length bs = len"
  by (induction len evs rule: peek_bytes.induct) (auto split: if_splits)

lemma get_u8_in: "i < length bs \<Longrightarrow> get_u8 bs i = Some (unat (bs ! i))"
  by (simp add: get_u8_def)

lemma get_u16_in: "i + 1 < length bs \<Longrightarrow> get_u16 bs i = Some (unat (bs ! i) + 256 * unat (bs ! (i + 1)))"
  by (simp add: get_u16_def get_u8_in)

lemma get_u16_be_in: "i + 1 < length bs \<Longrightarrow> get_u16_be bs i = Some (256 * unat (bs ! i) + unat (bs ! (i + 1)))"
  by (simp add: get_u16_be_def get_u8_in)

lemma get_u32_in:
  "i + 3 < length bs \<Longrightarrow> get_u32 bs i = Some (unat (bs ! i) + 256 * unat (bs ! (i + 1)) +
     65536 * (unat (bs ! (i + 2)) + 256 * unat (bs ! (i + 2 + 1))))"
  by (simp add: get_u32_def get_u16_in)

lemma find_cr_lf_from_Some:
  "find_cr_lf_from i bs = Some n \<Longrightarrow>
     i \<le> n \<and> n - i + 1 < length bs \<and> bs ! (n - i) = 0x0D \<and> bs ! (n - i + 1) = 0x0A"
proof (induction i bs rule: find_cr_lf_from.induct)
  case (1 i a b bs)
  show ?case
  proof (cases "a = 0x0D \<and> b = 0x0A")
    case False
    with 1 have IH: "Suc i \<le> n \<and> n - Suc i + 1 < length (b # bs) \<and> (b # bs) ! (n - Suc i) = 0x0D \<and>
      (b # bs) ! (n - Suc i + 1) = 0x0A" by simp
    from IH have "Suc i \<le> n" by (rule conjunct1)
    then have "n - i = Suc (n - Suc i)" by simp
    then show ?thesis using IH by simp
  qed (use 1 in simp)
qed simp_all

lemma find_cr_lf_Some:
  "find_cr_lf bs = Some n \<Longrightarrow> n + 1 < length bs \<and> bs ! n = 0x0D \<and> bs ! (n + 1) = 0x0A"
  using find_cr_lf_from_Some [of 0 bs n] by (simp add: find_cr_lf_def)

lemma length_cookie_prefix [simp]: "length cookie_prefix = 13"
  by (simp add: cookie_prefix_def)

lemma cookie_prefix_no_cr: "i < 13 \<Longrightarrow> cookie_prefix ! i \<noteq> 0x0D"
proof -
  have "0x0D \<notin> set cookie_prefix" by (simp add: cookie_prefix_def)
  then show "i < 13 \<Longrightarrow> cookie_prefix ! i \<noteq> 0x0D" by (metis length_cookie_prefix nth_mem)
qed

lemma strndup_eq_prefix:
  assumes "strndup bs n = p" and "length p = n" shows "take n bs = p"
proof -
  have "length (takeWhile (\<lambda>b. b \<noteq> 0) (take n bs)) = n" using assms by (simp add: strndup_def)
  moreover have "length (takeWhile (\<lambda>b. b \<noteq> 0) (take n bs)) \<le> length (take n bs)"
    by (rule length_takeWhile_le)
  ultimately have "takeWhile (\<lambda>b. b \<noteq> 0) (take n bs) = take n bs"
    by (metis length_take min.bounded_iff min.absorb2 order_antisym take_all takeWhile_eq_take
        length_takeWhile_le)
  with assms(1) show ?thesis by (simp add: strndup_def)
qed

lemma token_search_safe:
  "\<exists>r. get_routing_token_without_prefix buffer = Some r \<and>
    (\<forall>token n. r = Some (token, n) \<longrightarrow> n + 1 < length buffer)"
proof (cases "length buffer < 13 \<or> strndup buffer 13 \<noteq> cookie_prefix")
  case True
  then show ?thesis by (auto simp: get_routing_token_without_prefix_def)
next
  case False
  then have p: "take 13 buffer = cookie_prefix" by (intro strndup_eq_prefix) simp_all
  show ?thesis
  proof (cases "find_cr_lf buffer")
    case (Some n)
    note f = find_cr_lf_Some [OF Some]
    have "\<not> n < 13"
    proof
      assume n: "n < 13"
      then have "buffer ! n = cookie_prefix ! n" using p by (metis nth_take)
      with f cookie_prefix_no_cr [OF n] show False by simp
    qed
    with False Some f show ?thesis by (simp add: get_routing_token_without_prefix_def)
  qed (use False in \<open>simp add: get_routing_token_without_prefix_def\<close>)
qed

lemma parse_tpkt_safe:
  assumes "length hdr = 4"
  shows "\<exists>r. parse_tpkt hdr = Some r \<and> (\<forall>n. r = Inr n \<longrightarrow> 11 \<le> n)"
  using assms by (simp add: parse_tpkt_def get_u8_in get_u16_be_in)

lemma parse_x224_safe:
  assumes "length pkt = n" and "11 \<le> n" shows "\<exists>r. parse_x224 n pkt info = Some r"
proof -
  obtain r where t: "get_routing_token_without_prefix (drop 11 pkt) = Some r"
    and b: "\<forall>token k. r = Some (token, k) \<longrightarrow> k + 1 < length (drop 11 pkt)"
    using token_search_safe by blast
  show ?thesis
  proof (cases r)
    case (Some p)
    obtain token k where p: "p = (token, k)" by (cases p)
    have k: "11 + k + 2 \<le> length pkt" using b Some p assms by simp
    show ?thesis
    proof (cases "length pkt - (11 + k + 2) < 8")
      case False
      then have "11 + k + 2 + 7 < length pkt" using k by simp
      then show ?thesis
        using assms t Some p k False
        by (simp add: parse_x224_def get_u8_in get_u16_in get_u32_in Let_def)
    qed (use assms t Some p k in \<open>simp add: parse_x224_def get_u8_in get_u16_in Let_def\<close>)
  qed (use assms t in \<open>simp add: parse_x224_def get_u8_in get_u16_in\<close>)
qed

lemma peek_safe: "\<exists>r. drd_routing_token_peek evs info = Some r"
proof (cases "peek_bytes 4 evs")
  case (Some p)
  obtain evs1 x where p: "p = (evs1, x)" by (cases p)
  show ?thesis
  proof (cases x)
    case (Inr hdr)
    have "length hdr = 4" using peek_bytes_length [of 4 evs evs1 hdr] Some p Inr by simp
    then obtain h where h: "parse_tpkt hdr = Some h" "\<forall>n. h = Inr n \<longrightarrow> 11 \<le> n"
      using parse_tpkt_safe by blast
    show ?thesis
    proof (cases h)
      case (Inr n)
      note n = this
      show ?thesis
      proof (cases "peek_bytes n evs1")
        case (Some q)
        obtain evs2 y where q: "q = (evs2, y)" by (cases q)
        show ?thesis
        proof (cases y)
          case (Inr pkt)
          have "length pkt = n" using peek_bytes_length [of n evs1 evs2 pkt] Some q Inr by simp
          then obtain r where "parse_x224 n pkt info = Some r" using parse_x224_safe h(2) n by blast
          with \<open>x = Inr hdr\<close> show ?thesis
            using \<open>peek_bytes 4 evs = Some p\<close> p h n Some q Inr by (simp add: drd_routing_token_peek_def)
        qed (use \<open>peek_bytes 4 evs = Some p\<close> p \<open>x = Inr hdr\<close> h n Some q in
             \<open>simp add: drd_routing_token_peek_def\<close>)
      qed (use \<open>peek_bytes 4 evs = Some p\<close> p \<open>x = Inr hdr\<close> h n in
           \<open>simp add: drd_routing_token_peek_def\<close>)
    qed (use \<open>peek_bytes 4 evs = Some p\<close> p \<open>x = Inr hdr\<close> h in
         \<open>simp add: drd_routing_token_peek_def\<close>)
  qed (use Some p in \<open>simp add: drd_routing_token_peek_def\<close>)
qed (simp add: drd_routing_token_peek_def)

subsection \<open>A request as the client sends it\<close>

definition x224_request :: "u8 list \<Rightarrow> u8 \<Rightarrow> u8 list \<Rightarrow> u8 list" where
  "x224_request token protocols_low protocols_high =
     (let n = 34 + length token
      in [3, 0, word_of_nat (n div 256), word_of_nat (n mod 256), word_of_nat (n - 5), 0xE0,
          0, 0, 0, 0, 0] @ cookie_prefix @ token @ [0x0D, 0x0A] @
         [1, 0, 8, 0, protocols_low] @ protocols_high)"

lemma find_cr_lf_from_append:
  "0x0D \<notin> set xs \<Longrightarrow> find_cr_lf_from i (xs @ 0x0D # 0x0A # ys) = Some (i + length xs)"
proof (induction xs arbitrary: i)
  case (Cons x xs)
  then show ?case by (cases xs) auto
qed simp

lemma strndup_all: "0 \<notin> set xs \<Longrightarrow> strndup (xs @ ys) (length xs) = xs"
  by (simp add: strndup_def takeWhile_eq_all_conv) (metis takeWhile_eq_all_conv)

lemma token_found:
  assumes "0 \<notin> set token" "0x0D \<notin> set token"
  shows "get_routing_token_without_prefix (cookie_prefix @ token @ 0x0D # 0x0A # ys) =
    Some (Some (token, 13 + length token))"
proof -
  let ?b = "cookie_prefix @ token @ 0x0D # 0x0A # ys"
  have "0 \<notin> set cookie_prefix" "0x0D \<notin> set cookie_prefix" by (simp_all add: cookie_prefix_def)
  then have p: "strndup ?b 13 = cookie_prefix"
    and f: "find_cr_lf ?b = Some (13 + length token)"
    using strndup_all [of cookie_prefix "token @ 0x0D # 0x0A # ys"]
      find_cr_lf_from_append [of "cookie_prefix @ token" 0 ys] assms(2)
    by (simp_all add: find_cr_lf_def)
  have d: "strndup (drop 13 ?b) (length token) = token"
    using strndup_all [OF assms(1), of "0x0D # 0x0A # ys"] by simp
  show ?thesis
    using p f d by (simp add: get_routing_token_without_prefix_def)
qed

lemma bit2_low: "(a + 256 * b) AND 4 \<noteq> (0::nat) \<longleftrightarrow> bit a 2"
proof -
  have "(a + 256 * b) AND 4 \<noteq> 0 \<longleftrightarrow> bit (a + 256 * b) 2"
    using and_exp_eq_0_iff_not_bit [of "a + 256 * b" 2] by simp
  also have "\<dots> \<longleftrightarrow> odd ((a + 256 * b) div 4)" by (simp add: bit_iff_odd)
  also have "(a + 256 * b) div 4 = a div 4 + 64 * b" by simp
  also have "odd (a div 4 + 64 * b) \<longleftrightarrow> odd (a div 4)" by simp
  also have "\<dots> \<longleftrightarrow> bit a 2" by (simp add: bit_iff_odd)
  finally show ?thesis .
qed

lemma parse_request:
  assumes t: "0 \<notin> set token" "0x0D \<notin> set token" "length token \<le> 226" and "length hi = 3"
  shows "parse_x224 (34 + length token) (x224_request token lo hi) info =
    Some (info\<lparr>routing_token := Some token, requested_rdstls := bit lo 2\<rparr>, ok)"
proof -
  let ?n = "34 + length token" and ?p = "x224_request token lo hi"
  obtain h1 h2 h3 where hi: "hi = [h1, h2, h3]"
    using assms(4) by (auto simp: length_Suc_conv numeral_eq_Suc)
  have rest: "drop 11 ?p = cookie_prefix @ token @ 0x0D # 0x0A # [1, 0, 8, 0, lo] @ hi"
    by (simp add: x224_request_def Let_def)
  have len: "length ?p = ?n" using assms(4) by (simp add: x224_request_def Let_def)
  have at: "?p ! (26 + length token + i) = ([1, 0, 8, 0, lo] @ hi) ! i" if "i < 8" for i
  proof -
    have "?p ! (26 + length token + i) = drop 11 ?p ! (15 + length token + i)"
      using len that by (simp add: ac_simps)
    also have "\<dots> = ([1, 0, 8, 0, lo] @ hi) ! i" unfolding rest by (simp add: nth_append)
    finally show ?thesis .
  qed
  note at' = at [of 0] at [of 2] at [of 3] at [of 4] at [of 5] at [of 6] at [of 7]
  have li: "unat (word_of_nat (29 + length token) :: u8) = 29 + length token"
    unfolding unat_of_nat by (rule mod_less) (use t(3) in simp)
  have hd: "get_u8 ?p 4 = Some (29 + length token)" "get_u8 ?p 5 = Some 0xE0"
    "get_u16 ?p 6 = Some 0" "get_u8 ?p 10 = Some 0"
    using li by (simp_all add: get_u16_def get_u8_def x224_request_def Let_def)
  have neg: "get_u8 ?p (26 + length token) = Some 1" "get_u16 ?p (28 + length token) = Some 8"
    "get_u32 ?p (30 + length token) =
      Some (unat lo + 256 * unat h1 + 65536 * (unat h2 + 256 * unat h3))"
    using at' hi len by (simp_all add: get_u8_in get_u16_in get_u32_in add.commute [of _ "length token"])
  have "unat lo + 256 * unat h1 + 65536 * (unat h2 + 256 * unat h3) =
      unat lo + 256 * (unat h1 + 256 * (unat h2 + 256 * unat h3))" by simp
  then have b: "(unat lo + 256 * unat h1 + 65536 * (unat h2 + 256 * unat h3)) AND 4 \<noteq> 0 \<longleftrightarrow> bit lo 2"
    using bit2_low [of "unat lo" "unat h1 + 256 * (unat h2 + 256 * unat h3)"] by (simp add: bit_unsigned_iff possible_bit_def add.assoc)
  show ?thesis
    using hd neg b len
    by (simp add: parse_x224_def rest token_found [OF t(1,2)] Let_def PROTOCOL_RDSTLS_def add.commute)
qed

text \<open>A peer that closes the connection before the packet is complete keeps \<open>recv\<close> answering 0,
  and the loop goes on: it never reports an error, and each round returns at once.\<close>

lemma peek_spins_at_eof: "0 < len \<Longrightarrow> peek_bytes len (replicate n (Peeked [])) = None"
  by (induction n) simp_all

lemma parse_request_header:
  assumes "length token \<le> 226"
  shows "parse_tpkt (take 4 (x224_request token lo hi)) = Some (Inr (34 + length token))"
proof -
  have "unat (word_of_nat ((34 + length token) div 256) :: u8) = (34 + length token) div 256"
    "unat (word_of_nat ((34 + length token) mod 256) :: u8) = (34 + length token) mod 256"
    unfolding unat_of_nat by (rule mod_less; use assms in simp)+
  then show ?thesis
    using mult_div_mod_eq [of 256 "34 + length token"]
    by (simp add: parse_tpkt_def get_u16_be_def get_u8_def x224_request_def Let_def)
qed

subsection \<open>Properties\<close>

text \<open>
  C23: the probe of an untrusted connection reads only inside the peeked packet: whatever the
  socket delivers, every field it reads, the token it copies and the seek past the cookie line
  stay inside the bytes announced by the TPKT length.
\<close>

theorem routing_token_peek_in_bounds: "drd_routing_token_peek evs info \<noteq> None"
  using peek_safe [of evs info] by auto

text \<open>
  C19: the token round trip: for the connection request of a client with a routing token (no
  NUL or CR, at most 226 bytes) and any requested protocols, the probe returns exactly that
  token and reports RDSTLS exactly when its bit is set.
\<close>

theorem routing_token_roundtrip:
  assumes "0 \<notin> set token" and "0x0D \<notin> set token" and "length token \<le> 226" and "length hi = 3"
  shows "drd_routing_token_peek
      (Peeked (x224_request token lo hi) # Peeked (x224_request token lo hi) # evs)
      drd_routing_token_info_new =
    Some (Some (\<lparr>requested_rdstls = bit lo 2, routing_token = Some token\<rparr>, ok))"
proof -
  have len: "length (x224_request token lo hi) = 34 + length token"
    using assms(4) by (simp add: x224_request_def Let_def)
  show ?thesis
    using parse_request [OF assms, of lo drd_routing_token_info_new] parse_request_header [OF assms(3), of lo hi] len
    by (simp add: drd_routing_token_peek_def drd_routing_token_info_new_def)
qed

theorem routing_token_roundtrip_witness:
  "drd_routing_token_peek [Peeked (x224_request [0x34, 0x32] 0x0F [0, 0, 0]),
      Peeked (x224_request [0x34, 0x32] 0x0F [0, 0, 0])] drd_routing_token_info_new =
   Some (Some (\<lparr>requested_rdstls = True, routing_token = Some [0x34, 0x32]\<rparr>, ok))"
proof -
  have "bit (0x0F :: u8) 2" by simp
  then show ?thesis
    using routing_token_roundtrip [of "[0x34, 0x32]" "[0, 0, 0]" "0x0F" "[]"] by simp
qed

end
