(* ===== verification/System_Daemon.thy ===== *)
theory System_Daemon
  imports Routing_Token
begin

text \<open>
  The hand-over registry of the system daemon (\<^verbatim>\<open>src/system/drd_system_daemon.c\<close>): clients
  waiting to be passed from the greeter to a user session, found by routing token, queued in
  arrival order, and handed out over D-Bus. A \<open>DrdRemoteClient\<close> lives at an address of an
  explicit store, because the registry, the queue and the connection objects keep raw pointers
  to it: \<open>None\<close> is a use of a freed client.
\<close>

subsection \<open>Identities\<close>

definition handovers_path :: string where
  "handovers_path = ''/org/deepin/RemoteDesktop/Rdp/Handovers''"

text \<open>\<open>%u\<close> of \<open>printf\<close>.\<close>

fun decimal :: "nat \<Rightarrow> string" where
  "decimal n = (if n < 10 then [char_of (48 + n)] else decimal (n div 10) @ [char_of (48 + n mod 10)])"

declare decimal.simps [simp del]

definition is_digit :: "char \<Rightarrow> bool" where
  "is_digit c \<longleftrightarrow> 48 \<le> (of_char c :: nat) \<and> (of_char c :: nat) \<le> 57"

definition digits_value :: "string \<Rightarrow> nat" where
  "digits_value s = foldl (\<lambda>v c. 10 * v + (of_char c - 48)) 0 s"

text \<open>\<open>g_ascii_string_to_unsigned\<close> in base 10: digits only, value in the given range.\<close>

definition ascii_string_to_unsigned :: "string \<Rightarrow> nat \<Rightarrow> nat \<Rightarrow> nat option" where
  "ascii_string_to_unsigned s lo hi =
     (if s \<noteq> [] \<and> list_all is_digit s \<and> lo \<le> digits_value s \<and> digits_value s \<le> hi
      then Some (digits_value s) else None)"

definition get_id_from_routing_token :: "nat \<Rightarrow> string option" where
  "get_id_from_routing_token token =
     (if token = 0 then None else Some (handovers_path @ ''/'' @ decimal token))"

definition get_routing_token_from_id :: "string \<Rightarrow> string option" where
  "get_routing_token_from_id cid =
     (let prefix = handovers_path @ ''/''
      in if take (length prefix) cid \<noteq> prefix then None
         else if length cid = length prefix then None
         else Some (drop (length prefix) cid))"

definition G_MAXUINT32 :: nat where "G_MAXUINT32 = 4294967295"

subsection \<open>State\<close>

type_synonym addr = nat
type_synonym conn = nat
type_synonym session = nat

record remote_client =
  cl_id :: string
  cl_remote_id :: nat
  cl_rdstls :: bool
  cl_token :: string
  cl_connection :: "conn option"
  cl_session :: "session option"
  cl_assigned :: bool
  cl_use_system_credentials :: bool
  cl_handover_count :: nat
  cl_last_activity_us :: int
  cl_width :: nat
  cl_height :: nat

record system_daemon =
  heap :: "addr \<rightharpoonup> remote_client"
  next_addr :: addr
  remote_clients :: "string \<rightharpoonup> addr"
  pending_clients :: "addr list"
  conn_client :: "conn \<rightharpoonup> addr"  \<comment> \<open>the data key \<open>drd-system-client\<close>\<close>
  keep_open :: "conn set"  \<comment> \<open>the data key \<open>drd-system-keep-open\<close>\<close>
  exported :: "string set"
  bus_ready :: bool  \<comment> \<open>\<open>handover_manager\<close> is not NULL\<close>

definition drd_system_daemon_init :: system_daemon where
  "drd_system_daemon_init = \<lparr>heap = Map.empty, next_addr = 0, remote_clients = Map.empty,
     pending_clients = [], conn_client = Map.empty, keep_open = {}, exported = {},
     bus_ready = False\<rparr>"

definition DRD_SYSTEM_MAX_PENDING_CLIENTS :: nat where "DRD_SYSTEM_MAX_PENDING_CLIENTS = 32"

definition DRD_SYSTEM_CLIENT_STALE_TIMEOUT_US :: int where
  "DRD_SYSTEM_CLIENT_STALE_TIMEOUT_US = 30 * 1000000"

text \<open>Reading and writing a client through its pointer.\<close>

definition client_at :: "system_daemon \<Rightarrow> addr \<Rightarrow> remote_client option" where
  "client_at self a = heap self a"

definition put_client :: "addr \<Rightarrow> remote_client \<Rightarrow> system_daemon \<Rightarrow> system_daemon" where
  "put_client a c self = self\<lparr>heap := (heap self)(a \<mapsto> c)\<rparr>"

definition drd_system_daemon_touch_client :: "int \<Rightarrow> addr \<Rightarrow> system_daemon \<Rightarrow> system_daemon option" where
  "drd_system_daemon_touch_client now a self = do {
     c \<leftarrow> client_at self a;
     Some (put_client a (c\<lparr>cl_last_activity_us := now\<rparr>) self) }"

subsection \<open>The registry and the queue\<close>

definition drd_system_daemon_unqueue_client :: "addr \<Rightarrow> system_daemon \<Rightarrow> system_daemon" where
  "drd_system_daemon_unqueue_client a self =
     self\<lparr>pending_clients := remove1 a (pending_clients self)\<rparr>"

definition clear_connection_data :: "conn option \<Rightarrow> system_daemon \<Rightarrow> system_daemon" where
  "clear_connection_data c self = (case c of None \<Rightarrow> self
     | Some k \<Rightarrow> self\<lparr>conn_client := (conn_client self)(k := None), keep_open := keep_open self - {k}\<rparr>)"

text \<open>\<open>drd_remote_client_free\<close>, the destructor of the registry's values.\<close>

definition drd_remote_client_free :: "addr \<Rightarrow> system_daemon \<Rightarrow> system_daemon option" where
  "drd_remote_client_free a self = do {
     c \<leftarrow> client_at self a;
     let s = clear_connection_data (cl_connection c) self;
     Some (s\<lparr>heap := (heap s)(a := None)\<rparr>) }"

text \<open>\<open>g_hash_table_remove\<close>: the entry goes and its client is freed.\<close>

definition registry_remove :: "string \<Rightarrow> system_daemon \<Rightarrow> system_daemon option" where
  "registry_remove cid self = (case remote_clients self cid of
     None \<Rightarrow> Some self
   | Some a \<Rightarrow> drd_remote_client_free a
       (self\<lparr>remote_clients := (remote_clients self)(cid := None)\<rparr>))"

definition registry_replace :: "string \<Rightarrow> addr \<Rightarrow> system_daemon \<Rightarrow> system_daemon option" where
  "registry_replace cid a self = do {
     s \<leftarrow> registry_remove cid self;
     Some (s\<lparr>remote_clients := (remote_clients s)(cid \<mapsto> a)\<rparr>) }"

definition drd_system_daemon_remove_client :: "addr \<Rightarrow> system_daemon \<Rightarrow> system_daemon option" where
  "drd_system_daemon_remove_client a self = do {
     let s1 = drd_system_daemon_unqueue_client a self;
     c \<leftarrow> client_at s1 a;
     let s2 = (if bus_ready s1 then s1\<lparr>exported := exported s1 - {cl_id c}\<rparr> else s1);
     let s3 = clear_connection_data (cl_connection c) s2;
     let s4 = put_client a (c\<lparr>cl_session := None\<rparr>) s3;
     registry_remove (cl_id c) s4 }"

definition client_stale :: "int \<Rightarrow> remote_client \<Rightarrow> bool" where
  "client_stale now c \<longleftrightarrow> \<not> cl_assigned c \<and> 0 < cl_last_activity_us c \<and>
     DRD_SYSTEM_CLIENT_STALE_TIMEOUT_US \<le> now - cl_last_activity_us c"

text \<open>The loop over the links of the queue as it was on entry: removing the client of the
  current link unlinks that link only, and the next link was saved before.\<close>

fun prune_loop :: "int \<Rightarrow> addr list \<Rightarrow> system_daemon \<Rightarrow> system_daemon option" where
  "prune_loop now [] self = Some self"
| "prune_loop now (a # as) self = do {
     c \<leftarrow> client_at self a;
     s \<leftarrow> (if client_stale now c then drd_system_daemon_remove_client a self else Some self);
     prune_loop now as s }"

definition drd_system_daemon_prune_stale_pending_clients ::
    "int \<Rightarrow> system_daemon \<Rightarrow> system_daemon option" where
  "drd_system_daemon_prune_stale_pending_clients now self = prune_loop now (pending_clients self) self"

definition drd_system_daemon_get_pending_client_count :: "system_daemon \<Rightarrow> nat" where
  "drd_system_daemon_get_pending_client_count self = length (pending_clients self)"

definition drd_system_daemon_queue_client ::
    "int \<Rightarrow> addr \<Rightarrow> system_daemon \<Rightarrow> (system_daemon \<times> bool) option" where
  "drd_system_daemon_queue_client now a self = do {
     c \<leftarrow> client_at self a;
     if cl_assigned c then Some (self, True)
     else do {
       s \<leftarrow> drd_system_daemon_prune_stale_pending_clients now self;
       if DRD_SYSTEM_MAX_PENDING_CLIENTS \<le> drd_system_daemon_get_pending_client_count s
       then Some (s, False)
       else do {
         c1 \<leftarrow> client_at s a;
         let s1 = put_client a (c1\<lparr>cl_last_activity_us := now\<rparr>) s;
         Some (s1\<lparr>pending_clients := pending_clients s1 @ [a]\<rparr>, True) } } }"

definition drd_system_daemon_find_client_by_token :: "string \<Rightarrow> system_daemon \<Rightarrow> addr option" where
  "drd_system_daemon_find_client_by_token token self =
     (case ascii_string_to_unsigned token 1 G_MAXUINT32 of
        None \<Rightarrow> None
      | Some v \<Rightarrow> (case get_id_from_routing_token v of
           None \<Rightarrow> None
         | Some cid \<Rightarrow> remote_clients self cid))"

text \<open>The endless loop over \<open>g_random_int\<close>: \<open>None\<close> when the given numbers do not end it.\<close>

fun drd_system_daemon_generate_remote_identity ::
    "nat list \<Rightarrow> system_daemon \<Rightarrow> (string \<times> string) option" where
  "drd_system_daemon_generate_remote_identity [] self = None"
| "drd_system_daemon_generate_remote_identity (r # rs) self =
     (case get_id_from_routing_token r of
        None \<Rightarrow> drd_system_daemon_generate_remote_identity rs self
      | Some cid \<Rightarrow>
          if remote_clients self cid \<noteq> None then drd_system_daemon_generate_remote_identity rs self
          else map_option (\<lambda>t. (cid, t)) (get_routing_token_from_id cid))"

text \<open>The identity of a new client: the parsed token, the id and the token string. A token that
  is already tracked keeps its parsed value although a new identity is generated.\<close>

definition choose_identity ::
    "nat list \<Rightarrow> string option \<Rightarrow> system_daemon \<Rightarrow> (nat \<times> string \<times> string) option" where
  "choose_identity rs token self =
     (let parsed = (case token of None \<Rightarrow> None | Some t \<Rightarrow> ascii_string_to_unsigned t 1 G_MAXUINT32);
          direct = (case parsed of None \<Rightarrow> None
            | Some v \<Rightarrow> (case get_id_from_routing_token v of None \<Rightarrow> None
                | Some cid \<Rightarrow> if remote_clients self cid \<noteq> None then None
                    else map_option (\<lambda>t. (cid, t)) token));
          parsed_value = (case parsed of None \<Rightarrow> 0 | Some v \<Rightarrow> v)
      in case direct of
           Some (cid, t) \<Rightarrow> Some (parsed_value, cid, t)
         | None \<Rightarrow> (case drd_system_daemon_generate_remote_identity rs self of
             None \<Rightarrow> None
           | Some (cid, t) \<Rightarrow> Some (parsed_value, cid, t)))"

definition new_client :: "conn \<Rightarrow> bool \<Rightarrow> nat \<times> string \<times> string \<Rightarrow> remote_client" where
  "new_client k rdstls ident = (case ident of (parsed_value, cid, t) \<Rightarrow>
     \<lparr>cl_id = cid,
      cl_remote_id = (if 0 < parsed_value then parsed_value
        else case ascii_string_to_unsigned t 1 G_MAXUINT32 of None \<Rightarrow> 0 | Some v \<Rightarrow> v),
      cl_rdstls = rdstls, cl_token = t, cl_connection = Some k, cl_session = None,
      cl_assigned = False, cl_use_system_credentials = False, cl_handover_count = 0,
      cl_last_activity_us = 0, cl_width = 0, cl_height = 0\<rparr>)"

definition drd_system_daemon_register_client ::
    "int \<Rightarrow> nat list \<Rightarrow> conn \<Rightarrow> bool \<Rightarrow> string option \<Rightarrow> system_daemon \<Rightarrow> (system_daemon \<times> bool) option" where
  "drd_system_daemon_register_client now rs k rdstls token self = do {
     ident \<leftarrow> choose_identity rs token self;
     let c = new_client k rdstls ident;
     let a = next_addr self;
     let s1 = (put_client a c self)\<lparr>next_addr := Suc a\<rparr>;
     let s2 = (if bus_ready s1 then s1\<lparr>exported := insert (cl_id c) (exported s1)\<rparr> else s1);
     let s3 = s2\<lparr>conn_client := (conn_client s2)(k \<mapsto> a), keep_open := insert k (keep_open s2)\<rparr>;
     s4 \<leftarrow> registry_replace (cl_id c) a s3;
     (s5, queued) \<leftarrow> drd_system_daemon_queue_client now a s4;
     if queued then Some (s5, True)
     else do { s6 \<leftarrow> drd_system_daemon_remove_client a s5; Some (s6, False) } }"

subsection \<open>The handlers\<close>

datatype sd_event =
    Take_client_ready string bool
  | Redirect_client string string
  | Redirect_session session string
  | Runtime_geometry nat nat
  | Create_display nat nat nat

text \<open>\<open>drd_system_daemon_delegate\<close> after the probe of the routing token: \<open>peeked\<close> is its
  result. TRUE means the connection was taken over.\<close>

definition drd_system_daemon_delegate ::
    "int \<Rightarrow> nat list \<Rightarrow> conn \<Rightarrow> (bool \<times> string option) res \<Rightarrow> system_daemon \<Rightarrow>
     (system_daemon \<times> sd_event list \<times> bool) option" where
  "drd_system_daemon_delegate now rs k peeked self =
     (case peeked of
        Inl e \<Rightarrow> Some (self, [], True)
      | Inr (rdstls, token) \<Rightarrow> do {
          existing \<leftarrow> (case token of None \<Rightarrow> Some None
            | Some t \<Rightarrow> (case drd_system_daemon_find_client_by_token t self of
                None \<Rightarrow> Some None
              | Some a \<Rightarrow> map_option (\<lambda>c. if cl_session c = None then Some (a, c) else None)
                  (client_at self a)));
          (case existing of
             Some (a, c) \<Rightarrow> do {
               let s1 = (put_client a (c\<lparr>cl_connection := Some k\<rparr>) self)
                 \<lparr>conn_client := (conn_client self)(k \<mapsto> a), keep_open := insert k (keep_open self)\<rparr>;
               s2 \<leftarrow> drd_system_daemon_touch_client now a s1;
               Some (s2, [Take_client_ready (cl_id c) (cl_use_system_credentials c)], True) }
           | None \<Rightarrow> do {
               (s1, registered) \<leftarrow> drd_system_daemon_register_client now rs k rdstls token self;
               Some (s1, [], \<not> registered) }) })"

text \<open>A session on a connection is up: \<open>resolution\<close> is the client's desktop size when the
  session knows it, \<open>options\<close> the configured size when there is one, \<open>created\<close> the answer of the
  display manager.\<close>

definition drd_system_daemon_on_session_ready ::
    "int \<Rightarrow> session \<Rightarrow> bool \<Rightarrow> (nat \<times> nat) option \<Rightarrow> (nat \<times> nat) option \<Rightarrow> conn \<Rightarrow> system_daemon \<Rightarrow>
     (system_daemon \<times> sd_event list) option" where
  "drd_system_daemon_on_session_ready now sess mstsc options resolution k self =
     (case conn_client self k of
        None \<Rightarrow> Some (self, [])
      | Some a \<Rightarrow> do {
          c \<leftarrow> client_at self a;
          let c1 = c\<lparr>cl_session := Some sess, cl_use_system_credentials := (mstsc \<and> \<not> cl_rdstls c)\<rparr>;
          let s1 = put_client a c1 self;
          if cl_remote_id c1 = 0 then map_option (\<lambda>s. (s, [])) (drd_system_daemon_touch_client now a s1)
          else (case options of
            None \<Rightarrow> Some (s1, [])
          | Some (w, h) \<Rightarrow> do {
              let (c2, tw, th) = (case resolution of
                  Some (rw, rh) \<Rightarrow> if 0 < rw \<and> 0 < rh
                    then (c1\<lparr>cl_width := rw, cl_height := rh\<rparr>, rw, rh) else (c1, w, h)
                | None \<Rightarrow> (c1, w, h));
              s2 \<leftarrow> drd_system_daemon_touch_client now a (put_client a c2 s1);
              Some (s2, [Runtime_geometry tw th, Create_display (cl_remote_id c2) tw th]) }) })"

definition drd_system_daemon_handle_request_handover ::
    "int \<Rightarrow> system_daemon \<Rightarrow> (system_daemon \<times> string res) option" where
  "drd_system_daemon_handle_request_handover now self = do {
     s \<leftarrow> drd_system_daemon_prune_stale_pending_clients now self;
     (case pending_clients s of
        [] \<Rightarrow> Some (s, fail_io IoNotFound)
      | a # as \<Rightarrow> do {
          c \<leftarrow> client_at s a;
          let s1 = put_client a (c\<lparr>cl_assigned := True\<rparr>) (s\<lparr>pending_clients := as\<rparr>);
          s2 \<leftarrow> drd_system_daemon_touch_client now a s1;
          Some (s2, Inr (cl_id c)) }) }"

text \<open>\<open>tls\<close> is the certificate and key when they can be read, \<open>sent\<close> the answer of the redirection
  PDU.\<close>

definition drd_system_daemon_on_start_handover ::
    "int \<Rightarrow> 'tls res \<Rightarrow> bool \<Rightarrow> addr \<Rightarrow> system_daemon \<Rightarrow> (system_daemon \<times> sd_event list \<times> 'tls res) option" where
  "drd_system_daemon_on_start_handover now tls sent a self = do {
     s1 \<leftarrow> drd_system_daemon_touch_client now a self;
     c \<leftarrow> client_at s1 a;
     (case tls of
        Inl e \<Rightarrow> Some (s1, [], Inl e)
      | Inr material \<Rightarrow>
          (case cl_session c of
             Some sess \<Rightarrow>
               if \<not> sent then Some (s1, [Redirect_session sess (cl_token c)], fail_io IoFailed)
               else Some (put_client a (c\<lparr>cl_session := None, cl_connection := None, cl_assigned := True\<rparr>) s1,
                      [Redirect_session sess (cl_token c)], Inr material)
           | None \<Rightarrow> Some (s1, [Redirect_client (cl_id c) (cl_token c)], Inr material))) }"

text \<open>\<open>fd_sent\<close> says that the socket could be appended to the reply.\<close>

definition drd_system_daemon_on_take_client ::
    "int \<Rightarrow> bool \<Rightarrow> addr \<Rightarrow> system_daemon \<Rightarrow> (system_daemon \<times> conn res) option" where
  "drd_system_daemon_on_take_client now fd_sent a self = do {
     s1 \<leftarrow> drd_system_daemon_touch_client now a self;
     c \<leftarrow> client_at s1 a;
     (case cl_connection c of
        None \<Rightarrow> Some (s1, fail_io IoFailed)
      | Some k \<Rightarrow>
          if \<not> fd_sent then Some (s1, fail_io IoFailed)
          else do {
            let c1 = c\<lparr>cl_connection := None, cl_session := None,
                       cl_handover_count := cl_handover_count c + 1\<rparr>;
            let s2 = put_client a c1 s1;
            if 2 \<le> cl_handover_count c1 then Some (s2, Inr k)
            else do {
              let s3 = put_client a (c1\<lparr>cl_assigned := False\<rparr>) s2;
              (s4, queued) \<leftarrow> drd_system_daemon_queue_client now a s3;
              if queued then Some (s4, Inr k)
              else do { s5 \<leftarrow> drd_system_daemon_remove_client a s4; Some (s5, Inr k) } } }) }"

definition drd_system_daemon_on_get_system_credentials :: "unit res" where
  "drd_system_daemon_on_get_system_credentials = fail_io IoNotSupported"

text \<open>\<open>drd_system_daemon_stop\<close> empties the registry, which frees every client in it.\<close>

fun free_registered :: "addr list \<Rightarrow> system_daemon \<Rightarrow> system_daemon option" where
  "free_registered [] self = Some self"
| "free_registered (a # as) self =
     (case heap self a of
        None \<Rightarrow> free_registered as self
      | Some c \<Rightarrow> if remote_clients self (cl_id c) = Some a
          then do { s \<leftarrow> drd_remote_client_free a self; free_registered as s }
          else free_registered as self)"

definition drd_system_daemon_stop :: "system_daemon \<Rightarrow> system_daemon option" where
  "drd_system_daemon_stop self = do {
     s \<leftarrow> free_registered [0..<next_addr self] (self\<lparr>bus_ready := False, exported := {}\<rparr>);
     Some (s\<lparr>remote_clients := Map.empty, pending_clients := []\<rparr>) }"

definition drd_system_daemon_get_remote_client_count :: "system_daemon \<Rightarrow> nat" where
  "drd_system_daemon_get_remote_client_count self = card (dom (remote_clients self))"

end
