(* ===== verification/Qt_Config.thy ===== *)
theory Qt_Config
  imports Config System_Daemon
begin

text \<open>
  The configuration of the Qt port (\<^verbatim>\<open>qt/core/drd_config.cpp\<close>): a map from keys to values, the keys
  it takes from a file, the merge of the command line, and its checks, which are compared with the
  daemon's.

  Qt is a parameter: \<open>ini_file\<close> has the answers of \<open>QSettings\<close>, \<open>qt_api\<close> those of \<open>QFile\<close>, \<open>QDir\<close>
  and of the conversion of a text to a number. A null or empty \<open>QString\<close> is the empty string.
\<close>

subsection \<open>Values\<close>

datatype qvariant = V_string string | V_int int | V_bool bool

type_synonym qt_values = "string \<rightharpoonup> qvariant"

record qt_api =
  qt_text_int :: "string \<Rightarrow> int option"
  qt_exists :: "string \<Rightarrow> bool"
  qt_beside :: "string \<Rightarrow> string \<Rightarrow> string"  \<comment> \<open>a path in the directory of a file\<close>

record ini_file =
  in_contains :: "string \<Rightarrow> bool"
  in_string :: "string \<Rightarrow> string"
  in_int :: "string \<Rightarrow> int"
  in_bool :: "string \<Rightarrow> bool"

definition int_text :: "int \<Rightarrow> string" where
  "int_text i = (if i < 0 then CHR ''-'' # decimal (nat (- i)) else decimal (nat i))"

primrec qv_string :: "qvariant \<Rightarrow> string" where
  "qv_string (V_string s) = s"
| "qv_string (V_int i) = int_text i"
| "qv_string (V_bool b) = (if b then ''true'' else ''false'')"

primrec qv_int :: "qt_api \<Rightarrow> qvariant \<Rightarrow> int" where
  "qv_int qt (V_string s) = (case qt_text_int qt s of None \<Rightarrow> 0 | Some i \<Rightarrow> i)"
| "qv_int qt (V_int i) = i"
| "qv_int qt (V_bool b) = (if b then 1 else 0)"

primrec qv_bool :: "qvariant \<Rightarrow> bool" where
  "qv_bool (V_string s) = (map ascii_tolower s \<notin> {[], ''0'', ''false''})"
| "qv_bool (V_int i) = (i \<noteq> 0)"
| "qv_bool (V_bool b) = b"

definition qt_config_get_string :: "qt_values \<Rightarrow> string \<Rightarrow> string" where
  "qt_config_get_string values key = (case values key of None \<Rightarrow> [] | Some v \<Rightarrow> qv_string v)"

definition qt_config_get_int :: "qt_api \<Rightarrow> qt_values \<Rightarrow> string \<Rightarrow> int" where
  "qt_config_get_int qt values key = (case values key of None \<Rightarrow> 0 | Some v \<Rightarrow> qv_int qt v)"

definition qt_config_get_bool :: "qt_values \<Rightarrow> string \<Rightarrow> bool" where
  "qt_config_get_bool values key = (case values key of None \<Rightarrow> False | Some v \<Rightarrow> qv_bool v)"

definition qt_config_new :: qt_values where
  "qt_config_new = Map.empty
     (''bind_address'' \<mapsto> V_string ''0.0.0.0'', ''port'' \<mapsto> V_int 3390,
      ''encoding_mode'' \<mapsto> V_string ''rfx'', ''enable_frame_diff'' \<mapsto> V_bool True,
      ''nla_enabled'' \<mapsto> V_bool True, ''runtime_mode'' \<mapsto> V_string ''user'',
      ''pam_service'' \<mapsto> V_string ''deepin-remote-desktop'',
      ''capture_target_fps'' \<mapsto> V_int 60, ''capture_stats_interval_sec'' \<mapsto> V_int 5,
      ''certificate_path'' \<mapsto> V_string [], ''private_key_path'' \<mapsto> V_string [])"

datatype config_error =
    Config_not_found string | Invalid_port int | Certificate_not_found string | Key_not_found string
  | Invalid_encoder_mode string | Invalid_runtime_mode string
  | Tls_required | Nla_credentials_required | Nla_needs_system_mode

type_synonym config_step = "qt_values \<Rightarrow> qt_values \<times> (config_error + unit)"

definition qthn :: "config_step \<Rightarrow> config_step \<Rightarrow> config_step" where
  "qthn f g values = (case f values of (v, Inl e) \<Rightarrow> (v, Inl e) | (v, Inr _) \<Rightarrow> g v)"

subsection \<open>Loading a file\<close>

definition text_key :: "ini_file \<Rightarrow> string \<Rightarrow> qvariant" where "text_key f k = V_string (in_string f k)"
definition number_key :: "ini_file \<Rightarrow> string \<Rightarrow> qvariant" where "number_key f k = V_int (in_int f k)"
definition flag_key :: "ini_file \<Rightarrow> string \<Rightarrow> qvariant" where "flag_key f k = V_bool (in_bool f k)"

text \<open>A path that does not exist is taken in the directory of the configuration file.\<close>

definition path_key :: "qt_api \<Rightarrow> string \<Rightarrow> ini_file \<Rightarrow> string \<Rightarrow> qvariant" where
  "path_key qt path f k = V_string (let p = in_string f k in if qt_exists qt p then p else qt_beside qt path p)"

definition load_keys :: "qt_api \<Rightarrow> string \<Rightarrow> (string \<times> string \<times> (ini_file \<Rightarrow> string \<Rightarrow> qvariant)) list" where
  "load_keys qt path =
     [(''server/bind_address'', ''bind_address'', text_key), (''server/port'', ''port'', number_key),
      (''tls/certificate'', ''certificate_path'', path_key qt path),
      (''tls/private_key'', ''private_key_path'', path_key qt path),
      (''auth/username'', ''nla_username'', text_key), (''auth/password'', ''nla_password'', text_key),
      (''capture/width'', ''capture_width'', number_key), (''capture/height'', ''capture_height'', number_key),
      (''capture/target_fps'', ''capture_target_fps'', number_key),
      (''capture/stats_interval_sec'', ''capture_stats_interval_sec'', number_key),
      (''encoding/mode'', ''encoding_mode'', text_key),
      (''encoding/enable_diff'', ''enable_frame_diff'', flag_key),
      (''auth/enable_nla'', ''nla_enabled'', flag_key), (''auth/pam_service'', ''pam_service'', text_key),
      (''service/runtime_mode'', ''runtime_mode'', text_key)]"

definition load_key :: "ini_file \<Rightarrow> string \<times> string \<times> (ini_file \<Rightarrow> string \<Rightarrow> qvariant) \<Rightarrow> qt_values \<Rightarrow> qt_values" where
  "load_key f entry values = (case entry of (k, name, read) \<Rightarrow>
     if in_contains f k then values(name \<mapsto> read f k) else values)"

definition qt_config_load_from_file :: "qt_api \<Rightarrow> (string \<Rightarrow> ini_file) \<Rightarrow> string \<Rightarrow> config_step" where
  "qt_config_load_from_file qt open_file path values =
     (if \<not> qt_exists qt path then (values, Inl (Config_not_found path))
      else (fold (load_key (open_file path)) (load_keys qt path) values, Inr ()))"

subsection \<open>The command line\<close>

definition copy_key :: "qt_values \<Rightarrow> string \<Rightarrow> string \<Rightarrow> (qvariant \<Rightarrow> qvariant) \<Rightarrow> config_step" where
  "copy_key cli key name f values =
     ((case cli key of None \<Rightarrow> values | Some v \<Rightarrow> values(name \<mapsto> f v)), Inr ())"

definition merge_port :: "qt_api \<Rightarrow> qt_values \<Rightarrow> config_step" where
  "merge_port qt cli values = (case cli ''port'' of None \<Rightarrow> (values, Inr ())
     | Some v \<Rightarrow> let port = qv_int qt v in
         if port > 0 \<and> port \<le> 65535 then (values(''port'' \<mapsto> V_int port), Inr ())
         else (values, Inl (Invalid_port port)))"

definition merge_path :: "qt_api \<Rightarrow> qt_values \<Rightarrow> string \<Rightarrow> (string \<Rightarrow> config_error) \<Rightarrow> config_step" where
  "merge_path qt cli key err values = (case cli key of None \<Rightarrow> (values, Inr ())
     | Some v \<Rightarrow> let p = qv_string v in
         if \<not> qt_exists qt p then (values, Inl (err p)) else (values(key \<mapsto> V_string p), Inr ()))"

definition merge_choice ::
    "qt_values \<Rightarrow> string \<Rightarrow> string \<Rightarrow> string list \<Rightarrow> (string \<Rightarrow> config_error) \<Rightarrow> config_step" where
  "merge_choice cli key name choices err values = (case cli key of None \<Rightarrow> (values, Inr ())
     | Some v \<Rightarrow> let mode = map ascii_tolower (qv_string v) in
         if mode \<in> set choices then (values(name \<mapsto> V_string mode), Inr ()) else (values, Inl (err mode)))"

definition encoder_modes :: "string list" where "encoder_modes = [''h264'', ''rfx'', ''auto'']"
definition runtime_modes :: "string list" where "runtime_modes = [''user'', ''system'', ''handover'']"

definition qt_merge_checks :: config_step where
  "qt_merge_checks values =
     (let mode = qt_config_get_string values ''runtime_mode'';
          nla = qt_config_get_bool values ''nla_enabled'' in
      if mode \<noteq> ''handover'' \<and> (qt_config_get_string values ''certificate_path'' = [] \<or>
           qt_config_get_string values ''private_key_path'' = [])
      then (values, Inl Tls_required)
      else if nla \<and> mode \<noteq> ''handover'' \<and> (qt_config_get_string values ''nla_username'' = [] \<or>
           qt_config_get_string values ''nla_password'' = [])
      then (values, Inl Nla_credentials_required)
      else if \<not> nla \<and> mode \<noteq> ''system'' then (values, Inl Nla_needs_system_mode)
      else (values, Inr ()))"

definition merge_steps :: "qt_api \<Rightarrow> qt_values \<Rightarrow> config_step list" where
  "merge_steps qt cli =
     [copy_key cli ''bind_address'' ''bind_address'' (\<lambda>v. v), merge_port qt cli,
      merge_path qt cli ''certificate_path'' Certificate_not_found,
      merge_path qt cli ''private_key_path'' Key_not_found,
      copy_key cli ''capture_width'' ''capture_width'' (\<lambda>v. V_int (qv_int qt v)),
      copy_key cli ''capture_height'' ''capture_height'' (\<lambda>v. V_int (qv_int qt v)),
      copy_key cli ''capture_target_fps'' ''capture_target_fps'' (\<lambda>v. V_int (qv_int qt v)),
      copy_key cli ''capture_stats_interval_sec'' ''capture_stats_interval_sec'' (\<lambda>v. V_int (qv_int qt v)),
      merge_choice cli ''encoder_mode'' ''encoding_mode'' encoder_modes Invalid_encoder_mode,
      copy_key cli ''nla_username'' ''nla_username'' (\<lambda>v. v),
      copy_key cli ''nla_password'' ''nla_password'' (\<lambda>v. v),
      copy_key cli ''enable_nla'' ''nla_enabled'' (\<lambda>v. V_bool True),
      copy_key cli ''disable_nla'' ''nla_enabled'' (\<lambda>v. V_bool False),
      merge_choice cli ''runtime_mode'' ''runtime_mode'' runtime_modes Invalid_runtime_mode,
      copy_key cli ''enable_diff'' ''enable_frame_diff'' (\<lambda>v. V_bool True),
      copy_key cli ''disable_diff'' ''enable_frame_diff'' (\<lambda>v. V_bool False)]"

definition qt_config_merge_cli :: "qt_api \<Rightarrow> qt_values \<Rightarrow> config_step" where
  "qt_config_merge_cli qt cli = foldr qthn (merge_steps qt cli) qt_merge_checks"

subsection \<open>What a merge leaves\<close>

lemma qthn_ok: "qthn f g v = (v', Inr ()) \<longleftrightarrow> (\<exists>v1. f v = (v1, Inr ()) \<and> g v1 = (v', Inr ()))"
  by (cases "f v"; cases "snd (f v)") (auto simp: qthn_def)

lemma steps_ok:
  "foldr qthn fs g v = (v', Inr ()) \<Longrightarrow> \<exists>v1. g v1 = (v', Inr ())"
  by (induction fs arbitrary: v) (auto simp: qthn_ok)

text \<open>What every step keeps, the merge keeps.\<close>

lemma steps_keep:
  assumes "\<And>f v. f \<in> set fs \<Longrightarrow> P v \<Longrightarrow> P (fst (f v))" "\<And>v. P v \<Longrightarrow> P (fst (g v))" "P v"
  shows "P (fst (foldr qthn fs g v))"
  using assms
proof (induction fs arbitrary: v)
  case (Cons f fs)
  have "P (fst (f v))" using Cons.prems(1,3) by simp
  moreover have "P u \<Longrightarrow> P (fst (foldr qthn fs g u))" for u
    by (rule Cons.IH) (use Cons.prems in auto)
  ultimately show ?case
    by (cases "f v"; cases "snd (f v)") (auto simp: qthn_def [of f "foldr qthn fs g" v])
qed simp

lemma merge_checks_keep: "fst (qt_merge_checks v) = v"
  by (simp add: qt_merge_checks_def Let_def)

lemma merge_checked:
  assumes "qt_config_merge_cli qt cli v = (v', Inr ())"
  shows "qt_merge_checks v' = (v', Inr ())"
proof -
  obtain v1 where "qt_merge_checks v1 = (v', Inr ())"
    using steps_ok assms unfolding qt_config_merge_cli_def by blast
  then show ?thesis using merge_checks_keep [of v1] by simp
qed

text \<open>Values that a command line can leave.\<close>

definition qt_config_valid :: "qt_api \<Rightarrow> qt_values \<Rightarrow> bool" where
  "qt_config_valid qt v \<longleftrightarrow>
     (case v ''port'' of Some (V_int p) \<Rightarrow> 0 < p \<and> p \<le> 65535 | _ \<Rightarrow> False) \<and>
     (case v ''runtime_mode'' of Some (V_string m) \<Rightarrow> m \<in> set runtime_modes | _ \<Rightarrow> False) \<and>
     (case v ''encoding_mode'' of Some (V_string m) \<Rightarrow> m \<in> set encoder_modes | _ \<Rightarrow> False)"

lemma valid_upd:
  "name \<notin> {''port'', ''runtime_mode'', ''encoding_mode''} \<Longrightarrow>
   qt_config_valid qt (v(name \<mapsto> x)) = qt_config_valid qt v"
  by (auto simp: qt_config_valid_def)

lemma new_valid: "qt_config_valid qt qt_config_new"
  by (simp add: qt_config_valid_def qt_config_new_def runtime_modes_def encoder_modes_def)

lemma copy_key_valid:
  assumes "name \<notin> {''port'', ''runtime_mode'', ''encoding_mode''}" "qt_config_valid qt v"
  shows "qt_config_valid qt (fst (copy_key cli key name f v))"
  using assms by (auto simp: copy_key_def valid_upd split: option.split)

lemma merge_port_valid: "qt_config_valid qt v \<Longrightarrow> qt_config_valid qt (fst (merge_port qt cli v))"
  by (cases "cli ''port''") (simp_all add: merge_port_def Let_def qt_config_valid_def)

lemma merge_path_valid:
  assumes "key \<notin> {''port'', ''runtime_mode'', ''encoding_mode''}" "qt_config_valid qt v"
  shows "qt_config_valid qt (fst (merge_path qt cli key err v))"
  using assms by (auto simp: merge_path_def Let_def valid_upd split: option.split)

lemma merge_choice_valid:
  assumes "(name, choices) \<in> {(''encoding_mode'', encoder_modes), (''runtime_mode'', runtime_modes)}"
    "qt_config_valid qt v"
  shows "qt_config_valid qt (fst (merge_choice cli key name choices err v))"
proof (cases "cli key")
  case None
  then show ?thesis using assms(2) by (simp add: merge_choice_def)
next
  case (Some x)
  then show ?thesis using assms
    by (cases "map ascii_tolower (qv_string x) \<in> set choices")
       (auto simp: merge_choice_def Let_def qt_config_valid_def)
qed

lemma merge_valid:
  assumes "qt_config_valid qt v"
  shows "qt_config_valid qt (fst (qt_config_merge_cli qt cli v))"
  unfolding qt_config_merge_cli_def
proof (rule steps_keep [where P = "qt_config_valid qt"])
  show "qt_config_valid qt (fst (f u))" if "f \<in> set (merge_steps qt cli)" "qt_config_valid qt u" for f u
    using that by (auto simp: merge_steps_def copy_key_valid merge_port_valid merge_path_valid merge_choice_valid)
qed (simp_all add: merge_checks_keep assms)

subsection \<open>The daemon's checks\<close>

definition mode_of :: "string \<Rightarrow> runtime_mode" where
  "mode_of m = (if m = ''handover'' then RUNTIME_MODE_HANDOVER
     else if m = ''system'' then RUNTIME_MODE_SYSTEM else RUNTIME_MODE_USER)"

definition opt_text :: "string \<Rightarrow> string option" where "opt_text s = (if s = [] then None else Some s)"

text \<open>The daemon's configuration with the port's values.\<close>

definition config_abs :: "path_api \<Rightarrow> qt_values \<Rightarrow> config" where
  "config_abs fs v = (drd_config_new fs)
     \<lparr>cf_certificate_path := opt_text (qt_config_get_string v ''certificate_path''),
      cf_private_key_path := opt_text (qt_config_get_string v ''private_key_path''),
      cf_nla_username := opt_text (qt_config_get_string v ''nla_username''),
      cf_nla_password := opt_text (qt_config_get_string v ''nla_password''),
      cf_nla_enabled := qt_config_get_bool v ''nla_enabled'',
      cf_runtime_mode := mode_of (qt_config_get_string v ''runtime_mode''),
      cf_pam_service := opt_text (qt_config_get_string v ''pam_service'')\<rparr>"

lemma mode_of_simps:
  "mode_of m = RUNTIME_MODE_HANDOVER \<longleftrightarrow> m = ''handover''" "mode_of m = RUNTIME_MODE_SYSTEM \<longleftrightarrow> m = ''system''"
  by (simp_all add: mode_of_def)

lemma checks_agree:
  "is_ok (snd (merge_checks (config_abs fs v))) \<longleftrightarrow>
   snd (qt_merge_checks v) = Inr () \<and> qt_config_get_string v ''pam_service'' \<noteq> []"
proof -
  obtain m n c k u p s where g: "m = qt_config_get_string v ''runtime_mode''"
    "n = qt_config_get_bool v ''nla_enabled''" "c = qt_config_get_string v ''certificate_path''"
    "k = qt_config_get_string v ''private_key_path''" "u = qt_config_get_string v ''nla_username''"
    "p = qt_config_get_string v ''nla_password''" "s = qt_config_get_string v ''pam_service''"
    by simp
  have 1: "merge_checks (config_abs fs v) = (config_abs fs v,
      if m \<noteq> ''handover'' \<and> (c = [] \<or> k = []) then Inl GOptionBadValue
      else if \<not> n \<and> m \<noteq> ''system'' then Inl GOptionBadValue
      else if n \<and> m \<noteq> ''handover'' \<and> (u = [] \<or> p = []) then Inl GOptionBadValue
      else if s = [] then Inl GOptionBadValue else ok)"
    by (simp add: merge_checks_def config_abs_def mode_of_simps opt_text_def empty_string_def flip: g)
  have 2: "snd (qt_merge_checks v) =
      (if m \<noteq> ''handover'' \<and> (c = [] \<or> k = []) then Inl Tls_required
       else if n \<and> m \<noteq> ''handover'' \<and> (u = [] \<or> p = []) then Inl Nla_credentials_required
       else if \<not> n \<and> m \<noteq> ''system'' then Inl Nla_needs_system_mode else Inr ())"
    by (simp add: qt_merge_checks_def Let_def flip: g) auto
  show ?thesis unfolding 1 2 g(7) [symmetric] by auto
qed

text \<open>
  A merge that the Qt port accepts leaves a configuration that the daemon's own checks accept,
  unless it has an empty PAM service, which only the daemon looks for. Merging never spoils
  a valid port, runtime mode or encoder mode, even when it fails half way; the defaults are valid.
\<close>

theorem qt_merge_agrees:
  assumes "qt_config_merge_cli qt cli v = (v', r)"
  shows "(r = Inr () \<longrightarrow> (is_ok (snd (merge_checks (config_abs fs v'))) \<longleftrightarrow> qt_config_get_string v' ''pam_service'' \<noteq> [])) \<and>
    (qt_config_valid qt v \<longrightarrow> qt_config_valid qt v') \<and> qt_config_valid qt qt_config_new"
proof -
  have "snd (qt_merge_checks v') = Inr ()" if "r = Inr ()"
    using merge_checked assms that by (metis snd_conv)
  moreover have "qt_config_valid qt v'" if "qt_config_valid qt v"
    using merge_valid [OF that, of cli] assms by simp
  ultimately show ?thesis using checks_agree new_valid by simp
qed

definition witness_qt :: qt_api where
  "witness_qt = \<lparr>qt_text_int = (\<lambda>_. None), qt_exists = (\<lambda>_. True), qt_beside = (\<lambda>_ p. p)\<rparr>"

definition witness_cli :: qt_values where
  "witness_cli = Map.empty(''certificate_path'' \<mapsto> V_string ''c'', ''private_key_path'' \<mapsto> V_string ''k'',
     ''nla_username'' \<mapsto> V_string ''u'', ''nla_password'' \<mapsto> V_string ''p'')"

lemma witness_merge:
  "qt_config_merge_cli witness_qt witness_cli qt_config_new =
     (qt_config_new(''certificate_path'' \<mapsto> V_string ''c'', ''private_key_path'' \<mapsto> V_string ''k'',
        ''nla_username'' \<mapsto> V_string ''u'', ''nla_password'' \<mapsto> V_string ''p''), Inr ())"
  by (simp add: qt_config_merge_cli_def merge_steps_def qthn_def copy_key_def merge_port_def merge_path_def
      merge_choice_def witness_cli_def witness_qt_def qt_merge_checks_def Let_def qt_config_get_string_def
      qt_config_get_bool_def qt_config_new_def)

theorem qt_merge_agrees_witness:
  "is_ok (snd (merge_checks (config_abs fs (fst (qt_config_merge_cli witness_qt witness_cli qt_config_new)))))"
  using qt_merge_agrees [OF witness_merge, THEN conjunct1, of fs]
  unfolding witness_merge fst_conv by (simp add: qt_config_get_string_def qt_config_new_def)

lemma load_key_apply:
  "load_key f (k, name, read) v n = (if name = n \<and> in_contains f k then Some (read f k) else v n)"
  by (simp add: load_key_def)

text \<open>A file is not checked: it can leave a port and a runtime mode that the command line refuses.\<close>

lemma file_is_not_checked:
  assumes "qt_exists qt path" "in_contains (f path) ''server/port''" "in_int (f path) ''server/port'' = 70000"
  shows "\<exists>v'. qt_config_load_from_file qt f path v = (v', Inr ()) \<and> \<not> qt_config_valid qt v'"
proof -
  have "fold (load_key (f path)) (load_keys qt path) v ''port'' = Some (V_int 70000)"
    using assms(2,3) by (simp add: load_keys_def load_key_apply number_key_def)
  then show ?thesis using assms(1) by (simp add: qt_config_load_from_file_def qt_config_valid_def)
qed

end
