(* ===== verification/Qt_Tls.thy ===== *)
theory Qt_Tls
  imports Tls_Credentials
begin

text \<open>
  The TLS credentials of the Qt port (\<^verbatim>\<open>qt/security/drd_tls_credentials.cpp\<close>). The port keeps texts
  and paths only; files are read and PEM texts are parsed when a connection is configured. The
  FreeRDP objects live in the store of \<open>Tls_Credentials\<close>, whose answers are used here too. A null
  or empty \<open>QString\<close> is the empty string; what the code returns is \<open>is_ok\<close> of the result.
\<close>

subsection \<open>Operations\<close>

record qt_tls =
  qt_certificate_path :: string
  qt_private_key_path :: string
  qt_certificate_pem :: string
  qt_private_key_pem :: string

definition qt_tls_new :: qt_tls where
  "qt_tls_new = \<lparr>qt_certificate_path = [], qt_private_key_path = [], qt_certificate_pem = [],
     qt_private_key_pem = []\<rparr>"

definition qt_tls_load :: "string \<Rightarrow> string \<Rightarrow> qt_tls \<Rightarrow> qt_tls \<times> unit res" where
  "qt_tls_load certificate_path private_key_path self =
     (self\<lparr>qt_certificate_path := certificate_path, qt_private_key_path := private_key_path,
           qt_certificate_pem := [], qt_private_key_pem := []\<rparr>, ok)"

definition qt_tls_reload_from_pem :: "string \<Rightarrow> string \<Rightarrow> qt_tls \<Rightarrow> qt_tls \<times> unit res" where
  "qt_tls_reload_from_pem certificate_pem private_key_pem self =
     (if certificate_pem = [] \<or> private_key_pem = [] then (self, fail_io IoFailed)
      else (self\<lparr>qt_certificate_pem := certificate_pem, qt_private_key_pem := private_key_pem,
                 qt_certificate_path := [], qt_private_key_path := []\<rparr>, ok))"

definition qt_tls_get_certificate_path :: "qt_tls \<Rightarrow> string" where
  "qt_tls_get_certificate_path self = qt_certificate_path self"
definition qt_tls_get_private_key_path :: "qt_tls \<Rightarrow> string" where
  "qt_tls_get_private_key_path self = qt_private_key_path self"
definition qt_tls_get_certificate_pem :: "qt_tls \<Rightarrow> string" where
  "qt_tls_get_certificate_pem self = qt_certificate_pem self"
definition qt_tls_get_private_key_pem :: "qt_tls \<Rightarrow> string" where
  "qt_tls_get_private_key_pem self = qt_private_key_pem self"

text \<open>The texts that are parsed: the PEM data first, else both files.\<close>

definition qt_tls_material :: "tls_api \<Rightarrow> qt_tls \<Rightarrow> (string \<times> string) res" where
  "qt_tls_material api self =
     (if qt_certificate_pem self \<noteq> [] \<and> qt_private_key_pem self \<noteq> []
      then Inr (qt_certificate_pem self, qt_private_key_pem self)
      else if qt_certificate_path self \<noteq> [] \<and> qt_private_key_path self \<noteq> [] then
        (case ta_file api (qt_certificate_path self) of
           Inl e \<Rightarrow> fail_io IoFailed
         | Inr cert_data \<Rightarrow>
        (case ta_file api (qt_private_key_path self) of
           Inl e \<Rightarrow> fail_io IoFailed
         | Inr key_data \<Rightarrow> Inr (cert_data, key_data)))
      else fail_io IoFailed)"

text \<open>\<open>settings\<close> is NULL or the settings of a connection; the outer \<open>None\<close> is a double free.\<close>

definition qt_tls_apply ::
    "tls_api \<Rightarrow> qt_tls \<Rightarrow> tls_settings option \<Rightarrow> tls_store \<Rightarrow>
     (tls_settings option \<times> tls_store \<times> unit res) option" where
  "qt_tls_apply api self settings m =
     (case settings of None \<Rightarrow> Some (None, m, fail_io IoFailed)
      | Some st \<Rightarrow>
     (case qt_tls_material api self of Inl e \<Rightarrow> Some (Some st, m, Inl e)
      | Inr (cert_text, key_text) \<Rightarrow>
     (case freerdp_certificate_new_from_pem api cert_text m of
        (m1, None) \<Rightarrow> Some (Some st, m1, fail_io IoFailed)
      | (m1, Some certificate) \<Rightarrow>
     (case freerdp_key_new_from_pem api key_text m1 of
        (m2, None) \<Rightarrow> Option.bind (freerdp_certificate_free certificate m2) (\<lambda>m3.
            Some (Some st, m3, fail_io IoFailed))
      | (m2, Some key) \<Rightarrow>
        if \<not> ta_set_certificate api
        then Option.bind (freerdp_certificate_free certificate m2) (\<lambda>m3.
             Option.bind (freerdp_key_free key m3) (\<lambda>m4. Some (Some st, m4, fail_io IoFailed)))
        else let st1 = st\<lparr>st_certificate := Some certificate\<rparr> in
        if \<not> ta_set_key api
        then Option.bind (freerdp_key_free key m2) (\<lambda>m3. Some (Some st1, m3, fail_io IoFailed))
        else Some (Some (st1\<lparr>st_key := Some key\<rparr>), m2, ok)))))"

subsection \<open>As in the daemon\<close>

text \<open>The daemon's credentials that hold the texts of the port.\<close>

definition tls_abs :: "string \<times> string \<Rightarrow> tls_credentials" where
  "tls_abs material = drd_tls_credentials_init\<lparr>tc_certificate_pem := Some (fst material),
     tc_private_key_pem := Some (snd material)\<rparr>"

lemma qt_apply_eq:
  assumes "qt_tls_material api self = Inr material"
  shows "qt_tls_apply api self (Some st) m =
    map_option (\<lambda>(st', m', r). (Some st', m', r)) (drd_tls_credentials_apply api (tls_abs material) st m)"
proof -
  obtain c k where mat: "material = (c, k)" by (cases material)
  obtain m1 p where c: "freerdp_certificate_new_from_pem api c m = (m1, p)" by (metis surj_pair)
  obtain m2 q where k: "freerdp_key_new_from_pem api k m1 = (m2, q)" by (metis surj_pair)
  show ?thesis
    by (cases p; cases q)
       (simp_all add: qt_tls_apply_def drd_tls_credentials_apply_def tls_abs_def
         drd_tls_credentials_init_def assms mat c k Let_def map_option_bind comp_def)
qed

text \<open>A store with room: addresses from \<open>ts_next\<close> on are unused.\<close>

definition store_fresh :: "tls_store \<Rightarrow> bool" where
  "store_fresh m \<longleftrightarrow> (\<forall>p \<ge> ts_next m. ts_certs m p = None \<and> ts_keys m p = None)"

lemma qt_apply_outcome:
  assumes fresh: "store_fresh m"
  shows "\<exists>st' m' r. qt_tls_apply api self (Some \<lparr>st_certificate = None, st_key = None\<rparr>) m = Some (Some st', m', r) \<and>
    dom (ts_certs m') = dom (ts_certs m) \<union> opt_set (st_certificate st') \<and>
    dom (ts_keys m') = dom (ts_keys m) \<union> opt_set (st_key st') \<and>
    (is_ok r \<longleftrightarrow> st_key st' \<noteq> None) \<and>
    (is_ok r \<longrightarrow> (\<exists>c k p q. qt_tls_material api self = Inr (c, k) \<and>
       st' = \<lparr>st_certificate = Some p, st_key = Some q\<rparr> \<and> ts_certs m' p = Some c \<and> ts_keys m' q = Some k))"
proof (cases "qt_tls_material api self")
  case (Inl e)
  then show ?thesis by (simp add: qt_tls_apply_def opt_set_def)
next
  case (Inr material)
  obtain c k where mat: "material = (c, k)" by (cases material)
  let ?n = "ts_next m"
  have f: "ts_certs m ?n = None" "ts_keys m ?n = None" "ts_keys m (Suc ?n) = None"
    using fresh by (simp_all add: store_fresh_def)
  have d: "dom (ts_certs m) - {?n} = dom (ts_certs m)" "dom (ts_keys m) - {?n} = dom (ts_keys m)"
    "dom (ts_keys m) - {Suc ?n} = dom (ts_keys m)"
    using f by (auto simp: domIff)
  show ?thesis
    by (cases "ta_parse_certificate api c"; cases "ta_parse_key api k"; cases "ta_set_certificate api";
        cases "ta_set_key api")
       (simp_all add: qt_tls_apply_def Inr mat freerdp_certificate_new_from_pem_def
         freerdp_key_new_from_pem_def freerdp_certificate_free_def freerdp_key_free_def Let_def
         opt_set_def d)
qed

subsection \<open>Properties\<close>

text \<open>
  The credentials of the Qt port work as the daemon's: the configuration of a connection with
  texts to parse does exactly what the daemon's does with the same texts; it never frees an object
  twice, every FreeRDP object it leaves alive belongs to the settings, and when it reports success
  the settings hold the certificate and the key parsed from the credentials' texts.
\<close>

theorem qt_tls_apply_agrees:
  assumes "store_fresh m"
  shows "(case qt_tls_material api self of Inl e \<Rightarrow> qt_tls_apply api self (Some st) m = Some (Some st, m, Inl e)
      | Inr material \<Rightarrow> qt_tls_apply api self (Some st) m =
          map_option (\<lambda>(st', m', r). (Some st', m', r)) (drd_tls_credentials_apply api (tls_abs material) st m)) \<and>
    (\<exists>st' m' r. qt_tls_apply api self (Some \<lparr>st_certificate = None, st_key = None\<rparr>) m = Some (Some st', m', r) \<and>
      dom (ts_certs m') = dom (ts_certs m) \<union> opt_set (st_certificate st') \<and>
      dom (ts_keys m') = dom (ts_keys m) \<union> opt_set (st_key st') \<and>
      (is_ok r \<longrightarrow> (\<exists>c k p q. qt_tls_material api self = Inr (c, k) \<and>
         st' = \<lparr>st_certificate = Some p, st_key = Some q\<rparr> \<and> ts_certs m' p = Some c \<and> ts_keys m' q = Some k)))"
  (is "?agree \<and> _")
proof
  show ?agree
  proof (cases "qt_tls_material api self")
    case (Inl e)
    then show ?thesis by (simp add: qt_tls_apply_def)
  next
    case (Inr material)
    then show ?thesis using qt_apply_eq [OF Inr] by simp
  qed
qed (use qt_apply_outcome [OF assms, of api self] in blast)

text \<open>Loading files never fails, even when they are missing: the error shows at the first connection.\<close>

lemma qt_load_defers_errors:
  assumes "ta_file api cert = Inl e" "cert \<noteq> []" "key \<noteq> []"
  shows "qt_tls_load cert key self = (s, r) \<Longrightarrow>
    is_ok r \<and> qt_tls_apply api s (Some st) m = Some (Some st, m, fail_io IoFailed)"
  using assms by (auto simp: qt_tls_load_def qt_tls_apply_def qt_tls_material_def)

definition empty_store :: tls_store where
  "empty_store = \<lparr>ts_certs = Map.empty, ts_keys = Map.empty, ts_next = 0\<rparr>"

definition pem_credentials :: qt_tls where
  "pem_credentials = fst (qt_tls_reload_from_pem ''c'' ''k'' qt_tls_new)"

theorem qt_tls_apply_agrees_witness:
  "\<exists>st' m'. qt_tls_apply good_api pem_credentials (Some \<lparr>st_certificate = None, st_key = None\<rparr>) empty_store =
     Some (Some st', m', ok) \<and> dom (ts_certs m') = opt_set (st_certificate st')"
proof -
  have fresh: "store_fresh empty_store" by (simp add: store_fresh_def empty_store_def)
  have "\<exists>x m'. qt_tls_apply good_api pem_credentials (Some \<lparr>st_certificate = None, st_key = None\<rparr>) empty_store =
     Some (x, m', ok)"
    by (simp add: qt_tls_apply_def qt_tls_material_def pem_credentials_def qt_tls_reload_from_pem_def
        qt_tls_new_def good_api_def freerdp_certificate_new_from_pem_def freerdp_key_new_from_pem_def)
  moreover have "dom (ts_certs empty_store) = {}" by (simp add: empty_store_def)
  ultimately show ?thesis
    using conjunct2 [OF qt_tls_apply_agrees [OF fresh, of good_api pem_credentials no_settings]] by auto
qed

end
