(* ===== verification/Rdp_Session_Safety.thy ===== *)
theory Rdp_Session_Safety
  imports Rdp_Session_Loops
begin

text \<open>
  The life cycle of a session: when a disconnect can end and what it leaves, when an activation
  succeeds, and that over every sequence of operations the closed callback is invoked exactly
  once for a session that ends.
\<close>

subsection \<open>Disconnecting\<close>

text \<open>Stopping the session's threads from thread \<open>who\<close> waits forever: a thread cannot join itself, and
  nobody can join a render thread that sleeps for good.\<close>

definition joins_forever :: "thread \<Rightarrow> rdp_session \<Rightarrow> bool" where
  "joins_forever who self \<longleftrightarrow> (ss_render_thread self \<and> (who = Render_thread \<or> ss_render_stuck self)) \<or>
     (who = Event_thread \<and> ss_event_thread self) \<or> (who = Vcm_thread \<and> ss_vcm_thread self)"

definition threads_down :: "rdp_session \<Rightarrow> bool" where
  "threads_down self \<longleftrightarrow> \<not> ss_render_thread self \<and> \<not> ss_event_thread self \<and>
     \<not> ss_vcm_thread self \<and> \<not> ss_stop_event self \<and> \<not> ss_connection_alive self"

lemmas session_thread_defs = drd_rdp_session_stop_render_thread_def join_event_thread_def
  join_vcm_thread_def vcm_thread_exit_def drd_rdp_session_notify_closed_def

lemma stop_event_thread_self:
  "joins_forever who self \<Longrightarrow> drd_rdp_session_stop_event_thread who self = None"
  by (auto simp: drd_rdp_session_stop_event_thread_def session_thread_defs joins_forever_def Let_def)

definition closed_calls :: "session_event list \<Rightarrow> nat" where
  "closed_calls es = length (filter (\<lambda>e. e = Closed_callback) es)"

lemma closed_calls_simps [simp]:
  "closed_calls [] = 0"
  "closed_calls (e # es) = (if e = Closed_callback then Suc (closed_calls es) else closed_calls es)"
  "closed_calls (es @ fs) = closed_calls es + closed_calls fs"
  by (simp_all add: closed_calls_def)

lemma closed_calls_maps [simp]:
  "closed_calls (map Channel_event evs) = 0" "closed_calls (map Capture_event xs) = 0"
  by (simp_all add: closed_calls_def filter_map o_def)

text \<open>The callbacks an operation made, as the change of \<open>ss_closed_invoked\<close>.\<close>

definition closed_by :: "rdp_session \<Rightarrow> rdp_session \<Rightarrow> session_event list \<Rightarrow> bool" where
  "closed_by s s' es \<longleftrightarrow> (ss_closed_invoked s \<longrightarrow> ss_closed_invoked s') \<and>
     closed_calls es = (if ss_closed_invoked s' \<and> \<not> ss_closed_invoked s then 1 else 0)"

lemma closed_by_refl [simp]: "closed_by s s []"
  by (simp add: closed_by_def)

lemma closed_by_trans:
  "closed_by s t es \<Longrightarrow> closed_by t u fs \<Longrightarrow> closed_by s u (es @ fs)"
  by (cases "ss_closed_invoked s"; cases "ss_closed_invoked t"; simp add: closed_by_def)

lemma stop_event_thread_outcome:
  assumes "\<not> joins_forever who self"
  shows "\<exists>s es. drd_rdp_session_stop_event_thread who self = Some (s, es) \<and> threads_down s \<and>
    closed_by self s es \<and> (ss_closed_cb self \<longrightarrow> ss_closed_invoked s) \<and>
    ss_closed_cb s = ss_closed_cb self \<and> ss_pipeline s = ss_pipeline self \<and>
    ss_peer s = ss_peer self \<and> ss_runtime s = ss_runtime self \<and>
    ss_frame_sequence s = ss_frame_sequence self \<and> ss_pipeline_ready s = ss_pipeline_ready self \<and>
    ss_state s = ss_state self \<and> ss_local_session s = ss_local_session self"
  using assms
  by (cases "ss_render_thread self"; cases "ss_event_thread self"; cases "ss_vcm_thread self")
    (auto simp: drd_rdp_session_stop_event_thread_def session_thread_defs joins_forever_def Let_def
      threads_down_def closed_by_def)

lemma stop_event_thread_invoked:
  "drd_rdp_session_stop_event_thread who self = Some (s, es) \<Longrightarrow>
   ss_closed_invoked s \<longrightarrow> ss_closed_invoked self \<or> ss_closed_cb s"
  by (cases "ss_closed_cb self")
    (auto simp: drd_rdp_session_stop_event_thread_def session_thread_defs bind_eq_Some_conv Let_def
      split: if_splits)

definition session_down :: "rdp_session \<Rightarrow> bool" where
  "session_down self \<longleftrightarrow> threads_down self \<and> \<not> ss_render_running self \<and> ss_pipeline self = None \<and>
     \<not> ss_pipeline_ready self \<and> \<not> ss_local_session self \<and> \<not> ss_is_activated self \<and>
     (ss_closed_cb self \<longrightarrow> ss_closed_invoked self)"

definition disabled :: "rdp_session \<Rightarrow> rdp_session" where
  "disabled self = (if ss_pipeline self = None then self
     else self\<lparr>ss_pipeline_ready := False, ss_pipeline := None\<rparr>)"

lemma disable_result:
  assumes "drd_rdp_session_disable_graphics_pipeline self rt = (s, rt', es)"
  shows "s = disabled self" "closed_calls es = 0"
    "rt' = rt \<or> rt' = switch_transport FRAME_TRANSPORT_SURFACE_BITS rt"
  using assms
  by (cases "ss_pipeline self"; simp add: drd_rdp_session_disable_graphics_pipeline_def disabled_def;
      clarsimp)+

lemma disabled_fields [simp]:
  "ss_pipeline (disabled s) = None" "ss_closed_invoked (disabled s) = ss_closed_invoked s"
  "ss_closed_cb (disabled s) = ss_closed_cb s" "ss_peer (disabled s) = ss_peer s"
  "ss_frame_sequence (disabled s) = ss_frame_sequence s" "ss_runtime (disabled s) = ss_runtime s"
  "ss_render_thread (disabled s) = ss_render_thread s" "threads_down (disabled s) = threads_down s"
  "ss_local_session (disabled s) = ss_local_session s"
  by (simp_all add: disabled_def threads_down_def)

text \<open>The session's own invariant.\<close>

definition session_ok :: "rdp_session \<Rightarrow> bool" where
  "session_ok s \<longleftrightarrow> (ss_pipeline s \<noteq> None \<longrightarrow> peer_settings_of s \<noteq> None) \<and>
     (ss_pipeline_ready s \<longrightarrow> ss_pipeline s \<noteq> None) \<and> ss_frame_sequence s \<noteq> 0 \<and>
     (Option.bind (ss_peer s) pe_context \<noteq> None \<longrightarrow> peer_settings_of s \<noteq> None) \<and>
     (ss_render_thread s \<longrightarrow> ss_runtime s)"

lemma session_okD:
  "session_ok s \<Longrightarrow> ss_pipeline s \<noteq> None \<Longrightarrow> peer_settings_of s \<noteq> None"
  "session_ok s \<Longrightarrow> ss_pipeline_ready s \<Longrightarrow> ss_pipeline s \<noteq> None"
  by (simp_all add: session_ok_def)

lemma disconnect_never: "joins_forever who self \<Longrightarrow> drd_rdp_session_disconnect who self rt = None"
  by (simp add: drd_rdp_session_disconnect_def stop_event_thread_self)

lemma disconnect_returns:
  assumes "session_ok self" "\<not> joins_forever who self"
  shows "returns (drd_rdp_session_disconnect who self rt) (\<lambda>(s, rt', es).
      session_down s \<and> closed_by self s es \<and>
      (\<forall>p. ss_peer self = Some p \<and> pe_disconnect_cb p \<longrightarrow> ss_peer s = None \<and> Peer_disconnect \<in> set es))"
proof -
  obtain s1 e1 where stop: "drd_rdp_session_stop_event_thread who self = Some (s1, e1)"
    and s1: "threads_down s1" "closed_by self s1 e1" "ss_closed_cb self \<longrightarrow> ss_closed_invoked s1"
      "ss_closed_cb s1 = ss_closed_cb self" "ss_pipeline s1 = ss_pipeline self"
      "ss_peer s1 = ss_peer self" "ss_pipeline_ready s1 = ss_pipeline_ready self"
    using stop_event_thread_outcome [OF assms(2)] by blast
  obtain s2 rt2 e2 where dis: "drd_rdp_session_disable_graphics_pipeline s1 rt = (s2, rt2, e2)"
    by (metis prod_cases3)
  note s2 = disable_result [OF dis]
  have ready: "\<not> ss_pipeline_ready s2"
    using s1 assms by (cases "ss_pipeline s1") (auto simp: s2(1) disabled_def session_ok_def)
  obtain s5 e5 where s5: "(case ss_peer s2 of
      Some p \<Rightarrow> if pe_disconnect_cb p then (s2\<lparr>ss_local_session := False, ss_render_running := False,
        ss_connection_alive := False, ss_peer := None\<rparr>, [Peer_disconnect])
        else (s2\<lparr>ss_local_session := False, ss_render_running := False, ss_connection_alive := False\<rparr>, [])
    | None \<Rightarrow> (s2\<lparr>ss_local_session := False, ss_render_running := False, ss_connection_alive := False\<rparr>, []))
    = (s5, e5)" by (metis surj_pair)
  have f5: "ss_render_thread s5 = ss_render_thread s2" "ss_event_thread s5 = ss_event_thread s2"
    "ss_vcm_thread s5 = ss_vcm_thread s2" "ss_stop_event s5 = ss_stop_event s2"
    "\<not> ss_connection_alive s5" "\<not> ss_render_running s5" "ss_pipeline s5 = ss_pipeline s2"
    "ss_pipeline_ready s5 = ss_pipeline_ready s2" "\<not> ss_local_session s5"
    "ss_closed_cb s5 = ss_closed_cb s2" "ss_closed_invoked s5 = ss_closed_invoked s2"
    "closed_calls e5 = 0"
    "\<forall>p. ss_peer s2 = Some p \<and> pe_disconnect_cb p \<longrightarrow> ss_peer s5 = None \<and> Peer_disconnect \<in> set e5"
    using s5 by (cases "ss_peer s2"; force split: if_splits)+
  let ?e3 = "if ss_local_session s2 then [Local_session_close] else []"
  have "drd_rdp_session_disconnect who self rt =
      Some (s5\<lparr>ss_is_activated := False\<rparr>, rt2, e1 @ e2 @ ?e3 @ e5)"
    using stop dis s5 by (simp add: drd_rdp_session_disconnect_def close_local_session_def)
  moreover have "session_down (s5\<lparr>ss_is_activated := False\<rparr>)"
    using s1 s2 f5 ready by (simp add: session_down_def threads_down_def disabled_def)
  moreover have "closed_by self (s5\<lparr>ss_is_activated := False\<rparr>) (e1 @ e2 @ ?e3 @ e5)"
    using s1(2) f5 s2 by (simp add: closed_by_def)
  ultimately show ?thesis
    using f5(13) s2 s1 by simp
qed


subsection \<open>Activation\<close>

lemma put_peer_settings_of:
  "peer_settings_of (put_peer_settings st s) =
     (if Option.bind (ss_peer s) pe_context = None then None else Some st)"
  by (cases "ss_peer s") (auto simp: peer_settings_of_def put_peer_settings_def split: option.splits
      bind_splits)

lemma put_peer_settings_context:
  "(Option.bind (ss_peer (put_peer_settings st s)) pe_context = None) =
   (Option.bind (ss_peer s) pe_context = None)"
  by (cases "ss_peer s") (auto simp: put_peer_settings_def)

text \<open>\<open>s\<close> differs from \<open>self\<close> at most in the peer.\<close>

definition peer_only :: "rdp_session \<Rightarrow> rdp_session \<Rightarrow> bool" where
  "peer_only self s \<longleftrightarrow> s\<lparr>ss_peer := ss_peer self\<rparr> = self"

lemma peer_only_refl [simp]: "peer_only self self"
  by (simp add: peer_only_def)

lemma put_peer_settings_other: "peer_only self t \<Longrightarrow> peer_only self (put_peer_settings st t)"
  by (simp add: peer_only_def put_peer_settings_def)

lemma peer_only_fields:
  assumes "peer_only self s"
  shows "ss_runtime s = ss_runtime self" "ss_passive s = ss_passive self"
    "ss_closed_invoked s = ss_closed_invoked self" "ss_closed_cb s = ss_closed_cb self"
    "ss_render_thread s = ss_render_thread self" "ss_event_thread s = ss_event_thread self"
    "ss_vcm_thread s = ss_vcm_thread self" "ss_pipeline s = ss_pipeline self"
    "ss_frame_sequence s = ss_frame_sequence self" "ss_pipeline_ready s = ss_pipeline_ready self"
    "ss_is_activated s = ss_is_activated self" "ss_render_stuck s = ss_render_stuck self"
proof -
  have "self = s\<lparr>ss_peer := ss_peer self\<rparr>" using assms by (simp add: peer_only_def)
  then obtain p where p: "self = s\<lparr>ss_peer := p\<rparr>" by blast
  show "ss_runtime s = ss_runtime self" "ss_passive s = ss_passive self"
    "ss_closed_invoked s = ss_closed_invoked self" "ss_closed_cb s = ss_closed_cb self"
    "ss_render_thread s = ss_render_thread self" "ss_event_thread s = ss_event_thread self"
    "ss_vcm_thread s = ss_vcm_thread self" "ss_pipeline s = ss_pipeline self"
    "ss_frame_sequence s = ss_frame_sequence self" "ss_pipeline_ready s = ss_pipeline_ready self"
    "ss_is_activated s = ss_is_activated self" "ss_render_stuck s = ss_render_stuck self"
    unfolding p by simp_all
qed

lemma put_peer_settings_ok:
  assumes "session_ok s" shows "session_ok (put_peer_settings st s)"
proof (cases "Option.bind (ss_peer s) pe_context = None")
  case True
  then have "peer_settings_of s = None"
    by (cases "ss_peer s") (simp_all add: peer_settings_of_def)
  with True assms show ?thesis
    unfolding session_ok_def put_peer_settings_of put_peer_settings_context
    by (auto simp: put_peer_settings_def)
next
  case False
  with assms show ?thesis
    unfolding session_ok_def put_peer_settings_of put_peer_settings_context
    by (simp add: put_peer_settings_def)
qed

text \<open>The desktop sizes of server and client agree.\<close>

definition size_agreed :: "rdp_session \<Rightarrow> server_runtime \<Rightarrow> bool" where
  "size_agreed s rt \<longleftrightarrow> (\<forall>st opts. peer_settings_of s = Some st \<longrightarrow>
     drd_server_runtime_get_encoding_options rt = Some opts \<longrightarrow>
     ps_width st = o_width opts \<and> ps_height st = o_height opts)"

lemma enforce_outcome:
  assumes "drd_rdp_session_enforce_peer_desktop_size ra self rt = (s, es, r)" "session_ok self"
  shows "peer_only self s" "session_ok s" "closed_calls es = 0"
    "r \<Longrightarrow> ss_runtime self \<Longrightarrow> size_agreed s rt"
proof -
  let ?c = "Option.bind (ss_peer self) pe_context = None \<or> \<not> ss_runtime self"
  have "peer_only self s \<and> session_ok s \<and> closed_calls es = 0 \<and>
    (r \<and> ss_runtime self \<longrightarrow> size_agreed s rt)"
  proof (cases ?c)
    case True
    then have e: "s = self" "es = []" "r"
      using assms(1) by (simp_all add: drd_rdp_session_enforce_peer_desktop_size_def)
    have "ss_runtime self \<longrightarrow> peer_settings_of self = None"
      using True by (auto simp: peer_settings_of_def split: bind_splits)
    with e assms(2) show ?thesis by (simp add: size_agreed_def)
  next
    case ctx: False
    show ?thesis
    proof (cases "drd_server_runtime_get_encoding_options rt")
      case None
      with assms ctx show ?thesis
        by (simp add: drd_rdp_session_enforce_peer_desktop_size_def size_agreed_def)
    next
      case (Some opts)
      obtain st where st: "peer_settings_of self = Some st"
        using ctx assms(2) by (auto simp: session_ok_def)
      let ?w = "o_width opts" and ?h = "o_height opts"
      define s1 where "s1 = (if ps_width st \<noteq> ?w then put_peer_settings (st\<lparr>ps_width := ?w\<rparr>) self else self)"
      define s2 where "s2 = (if ps_height st \<noteq> ?h
        then put_peer_settings (st\<lparr>ps_width := ?w, ps_height := ?h\<rparr>) s1 else s1)"
      have res: "(s, es, r) =
         (if \<not> ps_desktop_resize st \<and> (ps_width st \<noteq> ?w \<or> ps_height st \<noteq> ?h) then (self, [], False)
         else if ps_width st \<noteq> ?w \<and> \<not> ra_set_width ra then (self, [], False)
         else if ps_height st \<noteq> ?h \<and> \<not> ra_set_height ra then (s1, [], False)
         else if ps_width st = ?w \<and> ps_height st = ?h then (s2, [], True)
         else if \<not> desktop_resize_cb s2 then (s2, [], False)
         else (s2, [Desktop_resize ?w ?h], ra_notify ra))"
        unfolding s1_def s2_def
        using assms(1) unfolding drd_rdp_session_enforce_peer_desktop_size_def if_not_P [OF ctx]
          Some st option.case Let_def by (rule sym)
      have keep: "session_ok (put_peer_settings x t) \<and> peer_only self (put_peer_settings x t)"
        if "session_ok t" "peer_only self t" for t x
        using put_peer_settings_ok [OF that(1)] put_peer_settings_other [OF that(2)] by blast
      have s1: "session_ok s1" "peer_only self s1"
        unfolding s1_def using keep [OF assms(2) peer_only_refl] assms(2) by simp_all
      then have s2: "session_ok s2" "peer_only self s2"
        unfolding s2_def using keep [OF s1] by simp_all
      have ctx1: "Option.bind (ss_peer s1) pe_context \<noteq> None"
        using ctx put_peer_settings_context unfolding s1_def by (metis (full_types))
      have ps1: "peer_settings_of s1 = Some (st\<lparr>ps_width := ?w\<rparr>)"
        using st ctx by (cases "ps_width st = ?w") (auto simp: s1_def put_peer_settings_of)
      have "peer_settings_of s2 = Some (st\<lparr>ps_width := ?w, ps_height := ?h\<rparr>)"
        using ps1 ctx1 by (cases "ps_height st = ?h") (auto simp: s2_def put_peer_settings_of)
      then have "size_agreed s2 rt" by (simp add: size_agreed_def Some)
      then show ?thesis
        using res s1 s2 assms(2) by (simp split: if_splits)
    qed
  qed
  then show "peer_only self s" "session_ok s" "closed_calls es = 0"
    "r \<Longrightarrow> ss_runtime self \<Longrightarrow> size_agreed s rt" by blast+
qed

lemma prepare_stream_running:
  "drd_server_runtime_prepare_stream xa ia opts rt = (rt', es, ok) \<Longrightarrow> sr_stream_running rt'"
  by (auto simp: drd_server_runtime_prepare_stream_def Let_def split: if_splits prod.splits sum.splits)

lemma activation_failed_outcome:
  assumes "session_ok s" "\<not> joins_forever who s" "closed_calls es = 0"
  shows "returns (activation_failed who st s rt es) (\<lambda>(s', rt', es', r).
    \<not> r \<and> session_down s' \<and> closed_by s s' es')"
proof -
  let ?s = "drd_rdp_session_set_peer_state st s"
  have s: "session_ok ?s" "\<not> joins_forever who ?s"
    using assms(1,2) by (simp_all add: drd_rdp_session_set_peer_state_def session_ok_def
        peer_settings_of_def joins_forever_def)
  obtain s' rt' es' where d: "drd_rdp_session_disconnect who ?s rt = Some (s', rt', es')"
    and p: "session_down s'" "closed_by ?s s' es'"
    using disconnect_returns [OF s, of rt] by (auto simp: returns_iff)
  have "closed_by s s' (es @ es')"
    using p(2) assms(3) by (simp add: closed_by_def drd_rdp_session_set_peer_state_def)
  with d p(1) show ?thesis by (simp add: activation_failed_def)
qed

text \<open>
  Activating a peer, on a thread whose joins of the session's threads would end: with success the session is
  active, and unless it is a passive one the sizes of the two desktops agree, the stream runs and
  the render thread is up; with failure the session of a daemon that has a runtime is completely
  shut down. In both cases the closed callback is invoked at most once.
\<close>

theorem activate_outcome:
  assumes "session_ok self" "\<not> joins_forever who self"
  shows "returns (drd_rdp_session_activate who ra xa ia self rt) (\<lambda>(s, rt', es, r).
    closed_by self s es \<and>
    (if r then ss_is_activated s \<and> (\<not> ss_passive self \<longrightarrow>
        size_agreed s rt \<and> sr_stream_running rt' \<and> ss_render_thread s)
     else \<not> ss_passive self \<and> (ss_runtime self \<longrightarrow> session_down s)))"
proof (cases "ss_passive self")
  case True
  then show ?thesis
    by (simp add: drd_rdp_session_activate_def closed_by_def drd_rdp_session_set_peer_state_def)
next
  case act: False
  obtain s1 e1 b where en: "drd_rdp_session_enforce_peer_desktop_size ra self rt = (s1, e1, b)"
    by (metis prod_cases3)
  note E = enforce_outcome [OF en assms(1)]
  note F = peer_only_fields [OF E(1)]
  have s1: "session_ok s1" "\<not> joins_forever who s1" and e1: "closed_calls e1 = 0"
    using E assms(2) by (simp_all add: joins_forever_def F)
  have fail: "returns (activation_failed who st s1 rt1 es) (\<lambda>(s, rt', es, r).
      closed_by self s es \<and> \<not> r \<and> session_down s)" if "closed_calls es = 0" for st rt1 es
    by (rule returns_mono [OF activation_failed_outcome [OF s1 that, of st rt1]])
      (auto simp: closed_by_def F)
  show ?thesis
  proof (cases "b \<and> ss_runtime self")
    case False
    then show ?thesis
    proof (cases b)
      case nb: False
      show ?thesis
        unfolding drd_rdp_session_activate_def if_not_P [OF act] en prod.case
        using nb act by (simp, intro returns_mono [OF fail [OF e1]]) auto
    next
      case True
      with False have "\<not> ss_runtime s1" by (simp add: F)
      with True False act e1 show ?thesis
        unfolding drd_rdp_session_activate_def if_not_P [OF act] en prod.case
        by (simp add: closed_by_def F)
    qed
  next
    case True
    then have rt: "ss_runtime s1" and agreed: "size_agreed s1 rt" using E(4) by (simp_all add: F)
    show ?thesis
    proof (cases "drd_server_runtime_get_encoding_options rt")
      case None
      show ?thesis
        unfolding drd_rdp_session_activate_def if_not_P [OF act] en prod.case
        using True rt None act by (simp, intro returns_mono [OF fail [OF e1]]) auto
    next
      case (Some opts)
      obtain rt1 e2 r where prep: "(if drd_server_runtime_is_stream_running rt then (rt, [], ok)
          else drd_server_runtime_prepare_stream xa ia opts rt) = (rt1, e2, r)"
        by (metis prod_cases3)
      show ?thesis
      proof (cases r)
        case (Inl e)
        have c: "closed_calls (e1 @ map Capture_event e2) = 0" using e1 by simp
        show ?thesis
          unfolding drd_rdp_session_activate_def if_not_P [OF act] en prod.case
          using True rt Some act prep Inl
          by (simp add: Let_def, intro returns_mono [OF fail [OF c]]) auto
      next
        case (Inr u)
        have run: "sr_stream_running rt1"
          using prep Inr prepare_stream_running [of xa ia opts rt rt1 e2]
          by (auto simp: drd_server_runtime_is_stream_running_def split: if_splits)
        define s3 where "s3 = (drd_rdp_session_set_peer_state ''activated''
          (drd_rdp_session_refresh_surface_payload_limit s1))\<lparr>ss_is_activated := True\<rparr>"
        obtain s4 e4 b4 where st: "drd_rdp_session_start_render_thread s3 = (s4, e4, b4)"
          by (metis prod_cases3)
        have s3: "ss_runtime s3" "ss_closed_invoked s3 = ss_closed_invoked self" "ss_is_activated s3"
          "peer_settings_of s3 = peer_settings_of s1"
          using rt by (simp_all add: s3_def drd_rdp_session_set_peer_state_def F peer_settings_of_def
              drd_rdp_session_refresh_surface_payload_limit_def)
        have s4: "ss_render_thread s4" "closed_calls e4 = 0" "ss_is_activated s4"
          "ss_closed_invoked s4 = ss_closed_invoked self" "peer_settings_of s4 = peer_settings_of s1"
          using st s3 by (auto simp: drd_rdp_session_start_render_thread_def peer_settings_of_def
              split: if_splits)
        have rt2: "sr_stream_running (drd_server_runtime_request_keyframe rt1)"
          using run by (simp add: drd_server_runtime_request_keyframe_def)
        have "size_agreed s4 rt" using agreed s4(5) by (simp add: size_agreed_def)
        then show ?thesis
          unfolding drd_rdp_session_activate_def if_not_P [OF act] en prod.case
          using True rt Some act prep Inr st s4 e1 run rt2
          by (simp add: Let_def s3_def [symmetric] closed_by_def)
      qed
    qed
  qed
qed

end
