(* ===== verification/Rdp_Session_Render.thy ===== *)
theory Rdp_Session_Render
  imports Rdp_Session_Safety
begin

text \<open>
  The render thread end to end: one iteration of its loop, with the runtime, the capture queue,
  the encoder and the graphics pipeline composed, never crashes and keeps the invariants of all
  of them; and the closed callback over every sequence of a session's operations.
\<close>

subsection \<open>Steps of the runtime\<close>

lemma switch_transport_reachable:
  assumes "rt_reachable fr rt" shows "rt_reachable fr (switch_transport m rt)"
proof (rule rt_reachable.step [OF assms rt_trans.transport])
  show "drd_server_runtime_set_transport [\<lambda>x. x] m rt = Some (switch_transport m rt)"
    by (simp add: switch_transport_def drd_server_runtime_set_transport.simps [of "[\<lambda>x. x]"] Let_def)
qed

lemma channel_set_up_reachable: "rt_reachable fr rt \<Longrightarrow> rt_reachable fr (channel_set_up ev rt)"
  by (simp add: channel_set_up_def switch_transport_reachable)

lemma session_ok_transfer:
  assumes "session_ok self" "ss_peer s = ss_peer self" "(ss_pipeline s = None) = (ss_pipeline self = None)"
    "ss_pipeline_ready s = ss_pipeline_ready self" "ss_frame_sequence s \<noteq> 0"
    "ss_render_thread s = ss_render_thread self" "ss_runtime s = ss_runtime self"
  shows "session_ok s"
  using assms by (simp add: session_ok_def peer_settings_of_def)

lemma next_sequence_nonzero [simp]: "next_sequence n \<noteq> 0"
  by (simp add: next_sequence_def)

lemma maybe_init_graphics_ok:
  "session_ok self \<Longrightarrow> session_ok (drd_rdp_session_maybe_init_graphics b self rt)"
  by (auto simp: drd_rdp_session_maybe_init_graphics_def session_ok_def peer_settings_of_def
      split: option.splits)

lemma pipeline_maybe_init_ok:
  assumes "pipeline_maybe_init ans self rt = (s, rt', es)" "session_ok self" "rt_reachable fr rt"
  shows "session_ok s" "rt_reachable fr rt'" "closed_calls es = 0"
proof -
  have "session_ok s \<and> rt_reachable fr rt' \<and> closed_calls es = 0"
  proof (cases "ss_pipeline self")
    case None
    with assms show ?thesis by (simp add: pipeline_maybe_init_def)
  next
    case (Some p)
    obtain p' ev g where m: "drd_rdp_graphics_pipeline_maybe_init ans (\<lambda>t. t) p = (p', ev, g)"
      by (metis prod_cases3)
    with assms(1) Some have "s = self\<lparr>ss_pipeline := Some p'\<rparr>" "rt' = channel_set_up ev rt"
      "es = map Channel_event ev"
      by (simp_all add: pipeline_maybe_init_def)
    moreover have "session_ok (self\<lparr>ss_pipeline := Some p'\<rparr>)"
      by (rule session_ok_transfer [OF assms(2)]) (use assms(2) Some in \<open>simp_all add: session_ok_def\<close>)
    ultimately show ?thesis using channel_set_up_reachable [OF assms(3)] by simp
  qed
  then show "session_ok s" "rt_reachable fr rt'" "closed_calls es = 0" by blast+
qed

lemma maybe_init_graphics_closed [simp]:
  "ss_closed_invoked (drd_rdp_session_maybe_init_graphics b self rt) = ss_closed_invoked self"
  "ss_closed_cb (drd_rdp_session_maybe_init_graphics b self rt) = ss_closed_cb self"
  by (simp_all add: drd_rdp_session_maybe_init_graphics_def split: option.splits)

lemma pipeline_maybe_init_closed:
  assumes "pipeline_maybe_init ans self rt = (s, rt', es)"
  shows "ss_closed_invoked s = ss_closed_invoked self" "ss_closed_cb s = ss_closed_cb self"
  using assms by (auto simp: pipeline_maybe_init_def split: option.splits prod.splits)

lemma pipeline_maybe_init_session:
  assumes "pipeline_maybe_init ans self rt = (s, rt', es)" "session_ok self"
  shows "session_ok s" "closed_calls es = 0"
proof -
  have "session_ok s \<and> closed_calls es = 0"
  proof (cases "ss_pipeline self")
    case None
    with assms show ?thesis by (simp add: pipeline_maybe_init_def)
  next
    case (Some p)
    obtain p' ev g where m: "drd_rdp_graphics_pipeline_maybe_init ans (\<lambda>t. t) p = (p', ev, g)"
      by (metis prod_cases3)
    with assms(1) Some have "s = self\<lparr>ss_pipeline := Some p'\<rparr>" "es = map Channel_event ev"
      by (simp_all add: pipeline_maybe_init_def)
    moreover have "session_ok (self\<lparr>ss_pipeline := Some p'\<rparr>)"
      by (rule session_ok_transfer [OF assms(2)]) (use assms(2) Some in \<open>simp_all add: session_ok_def\<close>)
    ultimately show ?thesis by simp
  qed
  then show "session_ok s" "closed_calls es = 0" by blast+
qed

lemma disabled_ok:
  assumes "session_ok self" shows "session_ok (disabled self)"
  using assms by (auto simp: disabled_def session_ok_def peer_settings_of_def)

lemma count_frame_fields [simp]:
  "ss_peer (count_frame b s) = ss_peer s" "ss_runtime (count_frame b s) = ss_runtime s"
  "(ss_pipeline (count_frame b s) = None) = (ss_pipeline s = None)"
  "ss_pipeline_ready (count_frame b s) = ss_pipeline_ready s"
  "ss_frame_sequence (count_frame b s) = ss_frame_sequence s"
  "ss_render_thread (count_frame b s) = ss_render_thread s"
  "ss_closed_invoked (count_frame b s) = ss_closed_invoked s" "ss_closed_cb (count_frame b s) = ss_closed_cb s"
  by (simp_all add: count_frame_def)

lemma pull_failed_fields [simp]:
  "ss_peer (pull_failed e s) = ss_peer s" "ss_runtime (pull_failed e s) = ss_runtime s"
  "ss_pipeline (pull_failed e s) = ss_pipeline s"
  "ss_pipeline_ready (pull_failed e s) = ss_pipeline_ready s"
  "ss_frame_sequence (pull_failed e s) = ss_frame_sequence s"
  "ss_render_thread (pull_failed e s) = ss_render_thread s"
  "ss_closed_invoked (pull_failed e s) = ss_closed_invoked s" "ss_closed_cb (pull_failed e s) = ss_closed_cb s"
  by (simp_all add: pull_failed_def)

lemma count_frame_ok: "session_ok s \<Longrightarrow> session_ok (count_frame b s)"
  by (rule session_ok_transfer) (simp_all add: session_ok_def)

lemma pull_failed_ok: "session_ok s \<Longrightarrow> session_ok (pull_failed e s)"
  by (rule session_ok_transfer) (simp_all add: session_ok_def)

subsection \<open>One iteration\<close>

text \<open>The surface the commands go to is the ready one of the session's pipeline.\<close>

definition surface_up :: "rdp_session \<Rightarrow> bool" where
  "surface_up s \<longleftrightarrow> (\<exists>p. ss_pipeline s = Some p \<and> surface_ready p)"

lemma surface_up_count [simp]: "surface_up (count_frame b s) = surface_up s"
  by (cases "ss_pipeline s")
    (simp_all add: surface_up_def count_frame_def drd_rdp_graphics_pipeline_out_frame_change_def
      drd_rdp_graphics_pipeline_set_last_frame_mode_def)

lemma surface_up_pull_failed [simp]: "surface_up (pull_failed e s) = surface_up s"
  by (simp add: surface_up_def)

text \<open>What holds after an iteration that sent at most \<open>n\<close> commands.\<close>

definition rendered :: "codec_api \<Rightarrow> nat \<Rightarrow> render_state \<Rightarrow> surface_command list \<Rightarrow> bool" where
  "rendered fr n st cmds \<longleftrightarrow> session_ok (fst st) \<and> rt_reachable fr (snd st) \<and> length cmds \<le> n \<and>
     (cmds \<noteq> [] \<longrightarrow> surface_up (fst st) \<and> sr_stream_running (snd st))"

text \<open>Nobody resets the encoder, or prepares its codecs, while the render thread encodes.\<close>

definition undisturbed :: "encode_context \<Rightarrow> bool" where
  "undisturbed ec \<longleftrightarrow> \<not> ec_interrupted ec"

lemma undisturbed_not_raced: "undisturbed ec \<Longrightarrow> \<not> encode_raced ec s"
  by (simp add: undisturbed_def encode_raced_def)

lemma send_cached_safe:
  assumes "flags_ok (ec_codecs ec)" "rt_reachable (ec_codecs ec) rt" "undisturbed ec"
  shows "returns (drd_server_runtime_send_cached_frame_surface_gfx ec surf fid h0 rt)
    (\<lambda>(rt', h, cmds, r). rt_reachable (ec_codecs ec) rt' \<and> length cmds \<le> 1 \<and>
       (cmds \<noteq> [] \<longrightarrow> sr_stream_running rt'))"
proof -
  note inv = rt_reachable_inv [OF assms(2,1)]
  obtain rt' h cmds r where e: "encode_cached ec surf fid h0 rt = Some (rt', h, cmds, r)"
    and p: "length cmds \<le> 1" "cmds \<noteq> [] \<longrightarrow> rt_up rt'"
    using encode_cached_inv [OF inv assms(1) undisturbed_not_raced [OF assms(3)], of surf fid h0]
    by (auto simp: returns_iff)
  then have s: "drd_server_runtime_send_cached_frame_surface_gfx ec surf fid h0 rt
      = Some (rt', h, cmds, r)"
    by (simp add: drd_server_runtime_send_cached_frame_surface_gfx_def)
  have "rt_reachable (ec_codecs ec) rt'"
    by (rule rt_reachable.step [OF assms(2) rt_trans.send [OF refl s]])
  with s p show ?thesis by (simp add: rt_up_def)
qed

lemma render_cached_safe:
  assumes "flags_ok (ec_codecs (re_send env))" "session_ok self" "surface_up self"
    "rt_reachable (ec_codecs (re_send env)) rt" "undisturbed (re_send env)"
  shows "returns (render_cached env (self, rt)) (\<lambda>(st, cmds, avc, sent).
    rendered (ec_codecs (re_send env)) 1 st cmds \<and> surface_up (fst st) \<and>
    ss_closed_invoked (fst st) = ss_closed_invoked self)"
proof (cases "ss_refresh_due self")
  case False
  with assms show ?thesis by (simp add: render_cached_def rendered_def)
next
  case True
  let ?s = "self\<lparr>ss_refresh_due := False\<rparr>"
  have s: "session_ok ?s" by (rule session_ok_transfer [OF assms(2)]) (use assms(2) in \<open>simp_all add: session_ok_def\<close>)
  have up: "surface_up ?s" using assms(3) by (simp add: surface_up_def)
  obtain rt' h cmds r where e: "drd_server_runtime_send_cached_frame_surface_gfx (re_send env)
      (surface_id_of ?s) (ss_frame_sequence ?s) False rt = Some (rt', h, cmds, r)"
    and p: "rt_reachable (ec_codecs (re_send env)) rt'" "length cmds \<le> 1"
      "cmds \<noteq> [] \<longrightarrow> sr_stream_running rt'"
    using send_cached_safe [OF assms(1,4,5), of "surface_id_of ?s" "ss_frame_sequence ?s" False]
    unfolding returns_iff by (elim exE conjE) (auto split: prod.splits)
  show ?thesis
    using True e p s up count_frame_ok [OF s] pull_failed_ok [OF s]
    by (cases r) (simp_all add: render_cached_def rendered_def)
qed

lemma render_pull_safe:
  assumes "flags_ok (ec_codecs (re_pull env))" "session_ok self" "surface_up self"
    "rt_reachable (ec_codecs (re_pull env)) rt"
    "\<forall>w\<in>set (re_ws env). keeps_queue frame_valid (fst w)" "undisturbed (re_pull env)"
  shows "returns (render_pull env avc (self, rt)) (\<lambda>out. case out of None \<Rightarrow> True
    | Some (st, cmds, sent) \<Rightarrow> rendered (ec_codecs (re_pull env)) 1 st cmds \<and>
        surface_up (fst st) \<and> ss_closed_invoked (fst st) = ss_closed_invoked self)"
proof (cases "drd_server_runtime_pull_encoded_frame_surface_gfx (re_pull env) (re_ws env)
    (re_now env) (16 * 1000) (re_refresh_now env) (surface_id_of self) (ss_frame_sequence self) avc rt")
  case None
  then show ?thesis by (simp add: render_pull_def)
next
  case (Some res)
  obtain rt' h cmds r where res: "res = Some (rt', h, cmds, r)"
    "rt_reachable (ec_codecs (re_pull env)) rt'" "length cmds \<le> 1"
    "cmds \<noteq> [] \<longrightarrow> sr_stream_running rt'"
    using pull_safe [OF assms(1,4,5) Some] assms(6) by (auto simp: returns_iff undisturbed_def)
  show ?thesis
    using Some res assms(3) count_frame_ok [OF assms(2)] pull_failed_ok [OF assms(2)]
    by (cases r) (simp_all add: render_pull_def rendered_def)
qed

text \<open>A pull neither starts nor stops the stream.\<close>

lemma store_encoded_stream:
  "map_option (store_encoded s) m = Some (s', x) \<Longrightarrow> sr_stream_running s' = sr_stream_running s"
  by (auto simp: store_encoded_def split: prod.splits)

lemma runtime_pull_stream:
  "drd_server_runtime_pull_encoded_frame_surface_gfx ec ws now t rn surf fid h0 s =
     Some (Some (s', x)) \<Longrightarrow> sr_stream_running s' = sr_stream_running s"
proof -
  assume p: "drd_server_runtime_pull_encoded_frame_surface_gfx ec ws now t rn surf fid h0 s =
     Some (Some (s', x))"
  obtain cap r where w: "drd_capture_manager_wait_frame ws now t (sr_capture s) = Some (cap, r)"
    using p by (auto simp: drd_server_runtime_pull_encoded_frame_surface_gfx_def split: option.splits)
  let ?s = "s\<lparr>sr_capture := cap\<rparr>"
  have st: "map_option (store_encoded ?s) m = Some (s', x) \<Longrightarrow> sr_stream_running s' = sr_stream_running s" for m
    using store_encoded_stream [of ?s m s' x] by simp
  show ?thesis
  proof (cases r)
    case (Inl e)
    with p w st show ?thesis
      by (auto simp: drd_server_runtime_pull_encoded_frame_surface_gfx_def Let_def encode_cached_def
          encode_alone_def split: if_splits)
  next
    case (Inr fo)
    with p w st show ?thesis
      by (cases fo) (simp_all add: drd_server_runtime_pull_encoded_frame_surface_gfx_def Let_def
          encode_alone_def split: if_splits)
  qed
qed

lemma pull_keeps_stream:
  assumes "render_pull env avc (s, rt) = Some (Some (st, cmds, sent))"
  shows "sr_stream_running (snd st) = sr_stream_running rt"
proof -
  obtain rt' h cmds' r where p: "drd_server_runtime_pull_encoded_frame_surface_gfx (re_pull env)
      (re_ws env) (re_now env) (16 * 1000) (re_refresh_now env) (surface_id_of s)
      (ss_frame_sequence s) avc rt = Some (Some (rt', h, cmds', r))"
    using assms by (auto simp: render_pull_def split: option.splits)
  from runtime_pull_stream [OF p] p assms show ?thesis
    by (cases r) (auto simp: render_pull_def)
qed

lemma render_end_ok:
  assumes "session_ok self" "render_end env (self, rt) cmds es = ((s, rt'), cmds', es', flow)"
  shows "session_ok s" "rt' = rt" "cmds' = cmds" "closed_calls es' = closed_calls es"
    "ss_closed_invoked s = ss_closed_invoked self" "surface_up s = surface_up self" "flow = Loop_again"
    "ss_closed_cb s = ss_closed_cb self"
proof -
  obtain t e where u: "drd_rdp_session_update_refresh_timer_state (re_timer env) self rt = (t, e)"
    by (metis surj_pair)
  have t: "ss_peer t = ss_peer self" "ss_pipeline t = ss_pipeline self"
    "ss_pipeline_ready t = ss_pipeline_ready self" "ss_render_thread t = ss_render_thread self"
    "ss_runtime t = ss_runtime self" "ss_closed_invoked t = ss_closed_invoked self"
    "ss_closed_cb t = ss_closed_cb self"
    "closed_calls e = 0"
    using u by (auto simp: drd_rdp_session_update_refresh_timer_state_def
        drd_rdp_session_cancel_refresh_timer_def split: if_splits)
  have s: "s = t\<lparr>ss_frame_sequence := next_sequence (ss_frame_sequence t)\<rparr>" "es' = es @ e"
    and "rt' = rt" "cmds' = cmds" "flow = Loop_again"
    using assms(2) u by (simp_all add: render_end_def)
  then show "rt' = rt" "cmds' = cmds" "flow = Loop_again" by simp_all
  show "session_ok s" by (rule session_ok_transfer [OF assms(1)]) (simp_all add: s t)
  show "closed_calls es' = closed_calls es" "ss_closed_invoked s = ss_closed_invoked self"
    "surface_up s = surface_up self" "ss_closed_cb s = ss_closed_cb self"
    by (simp_all add: s t surface_up_def)
qed

text \<open>The outcome of an iteration.\<close>

definition iterated :: "codec_api \<Rightarrow> rdp_session \<Rightarrow> render_state \<times> surface_command list \<times>
    session_event list \<times> loop_flow \<Rightarrow> bool" where
  "iterated fr self out \<longleftrightarrow> (case out of (st, cmds, es, flow) \<Rightarrow>
     rendered fr 2 st cmds \<and> closed_calls es = 0 \<and> flow \<noteq> Loop_ends \<and>
     ss_closed_invoked (fst st) = ss_closed_invoked self)"

lemma render_end_iterated:
  assumes "rendered fr 2 st cmds" "closed_calls es = 0"
    "ss_closed_invoked (fst st) = ss_closed_invoked self"
  shows "iterated fr self (render_end env st cmds es)"
proof -
  obtain s0 rt where st: "st = (s0, rt)" by (metis surj_pair)
  obtain s rt' cmds' es' flow where e: "render_end env (s0, rt) cmds es = ((s, rt'), cmds', es', flow)"
    by (metis prod.exhaust)
  have "session_ok s0" using assms(1) by (simp add: rendered_def st)
  from render_end_ok [OF this e] assms e show ?thesis
    by (simp add: iterated_def rendered_def st)
qed

lemma capacity_wait_session:
  assumes "drd_rdp_session_wait_for_graphics_capacity ops self = Some (s, b)" "session_ok self"
  shows "session_ok s \<and> ss_closed_invoked s = ss_closed_invoked self \<and> ss_closed_cb s = ss_closed_cb self"
proof (cases "ss_pipeline self")
  case None
  with assms show ?thesis by (auto simp: drd_rdp_session_wait_for_graphics_capacity_def)
next
  case (Some p)
  show ?thesis
  proof (cases "ss_pipeline_ready self")
    case False
    with assms Some show ?thesis by (auto simp: drd_rdp_session_wait_for_graphics_capacity_def)
  next
    case True
    with assms(1) Some obtain p' where s: "s = self\<lparr>ss_pipeline := Some p'\<rparr>"
      by (auto simp: drd_rdp_session_wait_for_graphics_capacity_def)
    have "session_ok s"
      by (rule session_ok_transfer [OF assms(2)]) (use assms(2) Some in \<open>simp_all add: s session_ok_def\<close>)
    with s show ?thesis by simp
  qed
qed

lemma render_ready_safe:
  assumes fl: "flags_ok fr" and ec: "ec_codecs (re_send env) = fr" "ec_codecs (re_pull env) = fr"
    and ws: "\<forall>w\<in>set (re_ws env). keeps_queue frame_valid (fst w)"
    and ok: "session_ok self" "rt_reachable fr rt" and es: "closed_calls es = 0"
    and alone: "undisturbed (re_send env)" "undisturbed (re_pull env)"
  shows "returns (render_ready env (self, rt) es) (iterated fr self)"
proof (cases "drd_rdp_session_wait_for_graphics_capacity (re_capacity env) self")
  case None
  with ok es show ?thesis by (simp add: render_ready_def iterated_def rendered_def)
next
  case (Some sb)
  obtain s1 b where sb: "sb = (s1, b)" by (metis surj_pair)
  note w = Some [unfolded sb]
  have s1: "session_ok s1" "ss_closed_invoked s1 = ss_closed_invoked self"
    using capacity_wait_session [OF w ok(1)] by simp_all
  let ?can = "case ss_pipeline s1 of None \<Rightarrow> False | Some p \<Rightarrow> drd_rdp_graphics_pipeline_can_submit p"
  show ?thesis
  proof (cases "\<not> b \<or> \<not> ?can")
    case True
    obtain s2 rt2 e2 where d: "drd_rdp_session_disable_graphics_pipeline s1 rt = (s2, rt2, e2)"
      by (metis prod_cases3)
    note D = disable_result [OF d]
    have "rt_reachable fr rt2" using D(3) ok(2) switch_transport_reachable by auto
    moreover have "session_ok s2" using disabled_ok [OF s1(1)] by (simp add: D(1))
    moreover have "render_ready env (self, rt) es = Some ((s2, rt2), [], es @ e2, Loop_again)"
      unfolding render_ready_def prod.case w option.case if_P [OF True] d Let_def ..
    ultimately show ?thesis
      using s1 D es by (simp add: iterated_def rendered_def)
  next
    case False
    then obtain p where p: "ss_pipeline s1 = Some p" "surface_ready p"
      by (auto simp: drd_rdp_graphics_pipeline_can_submit_def split: option.splits)
    then have up: "surface_up s1" by (simp add: surface_up_def)
    have peer: "peer_settings_of s1 \<noteq> None" using session_okD(1) [OF s1(1)] p by simp
    obtain st2 cmds avc sent where c: "render_cached env (s1, rt) = Some (st2, cmds, avc, sent)"
      and st2: "rendered fr 1 st2 cmds" "surface_up (fst st2)"
        "ss_closed_invoked (fst st2) = ss_closed_invoked self"
      using render_cached_safe [of env s1 rt] fl ec ok(2) s1 up alone unfolding returns_iff by force
    have unf: "render_ready env (self, rt) es =
      (if sent then Some (render_end env st2 cmds es)
       else (case render_pull env avc st2 of None \<Rightarrow> None
            | Some None \<Rightarrow> Some (st2, cmds, es, Loop_waits)
            | Some (Some (st3, cmds', sent')) \<Rightarrow>
                if sent' then Some (render_end env st3 (cmds @ cmds') es)
                else Some (st3, cmds @ cmds', es, Loop_again)))"
      unfolding render_ready_def prod.case w option.case if_not_P [OF False] if_not_P [OF peer] c
        bind.simps ..
    have r2: "rendered fr 2 st2 cmds" using st2(1) by (auto simp: rendered_def)
    show ?thesis
    proof (cases sent)
      case True
      with unf render_end_iterated [OF r2 es st2(3)] show ?thesis by simp
    next
      case no: False
      obtain s2 rt2 where st2e: "st2 = (s2, rt2)" by (metis surj_pair)
      have s2: "session_ok s2" "surface_up s2" "rt_reachable fr rt2" "length cmds \<le> 1"
        "ss_closed_invoked s2 = ss_closed_invoked self"
        using st2 by (simp_all add: rendered_def st2e)
      obtain out where out: "render_pull env avc (s2, rt2) = Some out"
        and o: "case out of None \<Rightarrow> True | Some (st, cmds, sent) \<Rightarrow> rendered fr 1 st cmds \<and>
          surface_up (fst st) \<and> ss_closed_invoked (fst st) = ss_closed_invoked s2"
        using render_pull_safe [of env s2 rt2 avc, unfolded ec, OF fl s2(1,2,3) ws alone(2)]
        unfolding returns_iff by blast
      show ?thesis
      proof (cases out)
        case None
        with unf no out r2 es s2(5) show ?thesis
          by (simp add: st2e iterated_def)
      next
        case (Some x)
        obtain st3 cmds' sent' where x: "x = (st3, cmds', sent')" by (metis prod_cases3)
        have st3: "rendered fr 1 st3 cmds'" "surface_up (fst st3)"
          "ss_closed_invoked (fst st3) = ss_closed_invoked self"
          using o s2(5) by (simp_all add: Some x)
        have run: "cmds \<noteq> [] \<longrightarrow> sr_stream_running (snd st3)"
          using pull_keeps_stream [OF out [unfolded Some x]] st2(1)
          by (auto simp: rendered_def st2e)
        have r3: "rendered fr 2 st3 (cmds @ cmds')"
          using st3 s2(4) run by (auto simp: rendered_def)
        from unf no out Some x st3(3) es r3 render_end_iterated [OF r3 es st3(3), of env]
        show ?thesis by (cases sent') (simp_all add: st2e iterated_def)
      qed
    qed
  qed
qed

lemma render_bits_safe:
  assumes ws: "\<forall>w\<in>set (re_ws env). keeps_queue frame_valid (fst w)"
    and ok: "session_ok self" "rt_reachable fr rt" and es: "closed_calls es = 0"
    and peer: "ss_peer self \<noteq> None"
  shows "returns (render_surface_bits env (self, rt) es) (iterated fr self)"
proof (cases "drd_server_runtime_pull_encoded_frame_surface_bit (re_ws env) (re_now env) (16 * 1000) rt")
  case None
  with ok es show ?thesis by (simp add: peer render_surface_bits_def iterated_def rendered_def)
next
  case (Some x)
  obtain rt1 r where x: "x = (rt1, r)" by (metis surj_pair)
  have rt1: "rt_reachable fr rt1"
    by (rule rt_reachable.step [OF ok(2) rt_trans.pull_bits [OF ws Some [unfolded x]]])
  have stay: "iterated fr self ((t, rt1), [], es, Loop_again)"
    if "session_ok t" "ss_closed_invoked t = ss_closed_invoked self" for t
    using that rt1 es by (simp add: iterated_def rendered_def)
  show ?thesis
  proof (cases r)
    case (Inr u)
    have "rendered fr 2 (self, rt1) []" using ok rt1 by (simp add: rendered_def)
    from render_end_iterated [OF this es] Some x Inr show ?thesis
      by (simp add: peer render_surface_bits_def)
  next
    case (Inl e)
    show ?thesis
    proof (cases "\<not> quiet_error e \<and> e = GIo IoNotSupported \<and> ss_pipeline self = None")
      case False
      then have "render_surface_bits env (self, rt) es \<in>
          {Some ((self, rt1), [], es, Loop_again), Some ((pull_failed e self, rt1), [], es, Loop_again)}"
        using Some x Inl by (auto simp: peer render_surface_bits_def)
      with stay ok(1) pull_failed_ok [OF ok(1)] show ?thesis by auto
    next
      case True
      let ?s1 = "drd_rdp_session_maybe_init_graphics (re_allocated env) self rt1"
      obtain s2 rt2 e2 where m: "pipeline_maybe_init (re_channel env) ?s1 rt1 = (s2, rt2, e2)"
        by (metis prod_cases3)
      note M = pipeline_maybe_init_ok [OF m maybe_init_graphics_ok [OF ok(1)] rt1]
      have "ss_closed_invoked s2 = ss_closed_invoked self"
        using pipeline_maybe_init_closed [OF m] by simp
      then show ?thesis
        using True Some x Inl m M es
        by (simp add: peer render_surface_bits_def Let_def iterated_def rendered_def quiet_error_def)
    qed
  qed
qed


end
