(* ===== verification/Rdp_Session_Life.thy ===== *)
theory Rdp_Session_Life
  imports Rdp_Session_Render
begin

text \<open>
  A session over its life (\<^verbatim>\<open>src/session/drd_rdp_session.c\<close>): every sequence of operations, run by
  the main thread, the channel thread and the peer's callbacks, keeps the session's invariant and
  invokes the closed callback at most once, and exactly once for a session that is disconnected.
\<close>

subsection \<open>The closed callback over a session's life\<close>

text \<open>What the owner, the threads and the peer's callbacks do to a session: \<open>Do_vcm\<close> is an iteration
  of the channel thread whose peer callback, if any, is a login or an activation, \<open>Do_render\<close> one of
  the render thread. \<open>Do_render_wait ops\<close> puts the render thread into its untimed wait for capacity
  when \<open>ops\<close> is everything the channel does from then on. \<open>Do_set_callback False\<close> clears the closed
  callback.\<close>

datatype peer_callback =
    Cb_none
  | Cb_post_connect
  | Cb_login_failed
  | Cb_activate resize_answers x11_answers input_answers

fun run_callback :: "peer_callback \<Rightarrow> rdp_session \<Rightarrow> server_runtime \<Rightarrow>
    (rdp_session \<times> server_runtime \<times> session_event list) option" where
  "run_callback Cb_none s rt = Some (s, rt, [])"
| "run_callback Cb_post_connect s rt = Some (fst (drd_rdp_session_post_connect s), rt, [])"
| "run_callback Cb_login_failed s rt = drd_rdp_session_disconnect Vcm_thread s rt"
| "run_callback (Cb_activate ra xa ia) s rt =
     map_option (\<lambda>(s', rt', es, r). (s', rt', es)) (drd_rdp_session_activate Vcm_thread ra xa ia s rt)"

datatype session_op =
    Do_set_runtime bool | Do_set_vcm bool bool | Do_set_callback bool
  | Do_set_passive bool | Do_attach bool
  | Do_start bool | Do_stop thread | Do_disconnect thread | Do_error thread session_error
  | Do_vcm peer_callback vcm_answers | Do_vcm_exit
  | Do_render render_env | Do_render_wait "pipeline_op list"
  | Do_timeout int | Do_dispose thread

fun session_step :: "session_op \<Rightarrow> rdp_session \<times> server_runtime \<Rightarrow>
    (rdp_session \<times> server_runtime \<times> session_event list) option" where
  "session_step (Do_set_runtime b) (s, rt) = Some (drd_rdp_session_set_runtime b True s rt, rt, [])"
| "session_step (Do_set_vcm b v) (s, rt) =
     Some (drd_rdp_session_set_virtual_channel_manager b v s rt, rt, [])"
| "session_step (Do_set_callback b) (s, rt) =
     (let (s', es) = drd_rdp_session_set_closed_callback b s in Some (s', rt, es))"
| "session_step (Do_set_passive b) (s, rt) = Some (drd_rdp_session_set_passive_mode b s, rt, [])"
| "session_step (Do_attach b) (s, rt) =
     (let (s', es) = drd_rdp_session_attach_local_session b s in Some (s', rt, es))"
| "session_step (Do_start b) (s, rt) =
     (let (s', es, r) = drd_rdp_session_start_event_thread b s in Some (s', rt, es))"
| "session_step (Do_stop who) (s, rt) =
     map_option (\<lambda>(s', es). (s', rt, es)) (drd_rdp_session_stop_event_thread who s)"
| "session_step (Do_disconnect who) (s, rt) = drd_rdp_session_disconnect who s rt"
| "session_step (Do_error who e) (s, rt) = drd_rdp_session_notify_error who e s rt"
| "session_step (Do_vcm cb va) (s, rt) =
     map_option (\<lambda>(s', rt', es, flow). (s', rt', es))
       (drd_rdp_session_vcm_thread (run_callback cb) va s rt)"
| "session_step Do_vcm_exit (s, rt) = (let (s', es) = vcm_thread_exit s in Some (s', rt, es))"
| "session_step (Do_render env) (s, rt) =
     map_option (\<lambda>((s', rt'), cmds, es, flow). (s', rt', es)) (drd_rdp_session_render_thread env (s, rt))"
| "session_step (Do_render_wait ops) (s, rt) = Some (s\<lparr>ss_render_stuck := ss_render_stuck s \<or>
     (ss_render_thread s \<and> drd_rdp_session_wait_for_graphics_capacity ops s = None)\<rparr>, rt, [])"
| "session_step (Do_timeout now) (s, rt) =
     Some (drd_rdp_session_on_refresh_timeout now s rt, rt, [])"
| "session_step (Do_dispose who) (s, rt) = drd_rdp_session_dispose who s rt"

fun session_run :: "session_op list \<Rightarrow> rdp_session \<times> server_runtime \<Rightarrow>
    (rdp_session \<times> server_runtime \<times> session_event list) option" where
  "session_run [] (s, rt) = Some (s, rt, [])"
| "session_run (op # ops) st = Option.bind (session_step op st) (\<lambda>(s, rt, es).
     map_option (\<lambda>(s', rt', es'). (s', rt', es @ es')) (session_run ops (s, rt)))"

text \<open>A step makes the callback at most once and remembers it; the callback stays as it is, or, over
  several steps none of which clears it, stays set.\<close>

definition life_step :: "rdp_session \<Rightarrow> rdp_session \<Rightarrow> session_event list \<Rightarrow> bool" where
  "life_step s s' es \<longleftrightarrow> closed_by s s' es \<and> ss_closed_cb s' = ss_closed_cb s \<and>
     (ss_closed_invoked s' \<longrightarrow> ss_closed_invoked s \<or> ss_closed_cb s')"

definition life_run :: "rdp_session \<Rightarrow> rdp_session \<Rightarrow> session_event list \<Rightarrow> bool" where
  "life_run s s' es \<longleftrightarrow> closed_by s s' es \<and> (ss_closed_cb s \<longrightarrow> ss_closed_cb s') \<and>
     (ss_closed_invoked s' \<longrightarrow> ss_closed_invoked s \<or> ss_closed_cb s')"

lemma life_step_run: "life_step s s' es \<Longrightarrow> life_run s s' es"
  by (auto simp: life_step_def life_run_def)

lemma life_run_trans: "life_run s t es \<Longrightarrow> life_run t u fs \<Longrightarrow> life_run s u (es @ fs)"
  using closed_by_trans [of s t es u fs] by (simp add: life_run_def) (auto simp: closed_by_def)

lemma life_step_same:
  "ss_closed_invoked s' = ss_closed_invoked s \<Longrightarrow> ss_closed_cb s' = ss_closed_cb s \<Longrightarrow>
   closed_calls es = 0 \<Longrightarrow> life_step s s' es"
  by (simp add: life_step_def closed_by_def)

lemma life_step_trans: "life_step s t es \<Longrightarrow> life_step t u fs \<Longrightarrow> life_step s u (es @ fs)"
  using closed_by_trans [of s t es u fs] by (simp add: life_step_def) (auto simp: closed_by_def)

lemma notify_life:
  "drd_rdp_session_notify_closed s = (s', es) \<Longrightarrow> life_step s s' es"
  by (auto simp: drd_rdp_session_notify_closed_def life_step_def closed_by_def split: if_splits)

lemma vcm_exit_life: "vcm_thread_exit s = (s', es) \<Longrightarrow> life_step s s' es"
  by (auto simp: vcm_thread_exit_def drd_rdp_session_notify_closed_def life_step_def closed_by_def
      split: if_splits)

lemma stop_life:
  assumes "drd_rdp_session_stop_event_thread who s = Some (s', es)"
  shows "life_step s s' es"
proof -
  have nj: "\<not> joins_forever who s"
    using assms stop_event_thread_self by fastforce
  obtain t fs where "drd_rdp_session_stop_event_thread who s = Some (t, fs)" "closed_by s t fs"
    "ss_closed_cb t = ss_closed_cb s" "ss_closed_invoked t \<longrightarrow> ss_closed_invoked s \<or> ss_closed_cb t"
    using stop_event_thread_outcome [OF nj] stop_event_thread_invoked [OF assms] assms by auto
  with assms show ?thesis by (simp add: life_step_def)
qed

text \<open>What a disconnect does after its threads are joined and its pipeline is gone.\<close>

definition hung_up :: "rdp_session \<Rightarrow> rdp_session" where
  "hung_up s = s\<lparr>ss_local_session := False, ss_render_running := False, ss_connection_alive := False,
     ss_peer := (case ss_peer s of None \<Rightarrow> None | Some p \<Rightarrow> if pe_disconnect_cb p then None else Some p),
     ss_is_activated := False\<rparr>"

lemma hung_up_fields [simp]:
  "ss_closed_invoked (hung_up s) = ss_closed_invoked s" "ss_closed_cb (hung_up s) = ss_closed_cb s"
  "ss_pipeline (hung_up s) = ss_pipeline s" "ss_pipeline_ready (hung_up s) = ss_pipeline_ready s"
  "ss_frame_sequence (hung_up s) = ss_frame_sequence s" "ss_render_thread (hung_up s) = ss_render_thread s"
  "ss_runtime (hung_up s) = ss_runtime s" "ss_peer (hung_up s) = ss_peer s \<or> ss_peer (hung_up s) = None"
  by (simp_all add: hung_up_def split: option.splits)

lemma disconnect_tail:
  assumes "drd_rdp_session_disconnect who s rt = Some (s', rt', es)"
    "drd_rdp_session_stop_event_thread who s = Some (s1, e1)"
    "drd_rdp_session_disable_graphics_pipeline s1 rt = (s2, rt2, e2)"
  obtains e3 where "s' = hung_up s2" "es = e1 @ e2 @ e3" "closed_calls e3 = 0"
proof (cases "ss_peer s2")
  case None
  with assms show ?thesis
    by (intro that [of "if ss_local_session s2 then [Local_session_close] else []"])
       (auto simp: drd_rdp_session_disconnect_def close_local_session_def Let_def hung_up_def)
next
  case (Some p)
  with assms show ?thesis
    by (intro that [of "(if ss_local_session s2 then [Local_session_close] else []) @
          (if pe_disconnect_cb p then [Peer_disconnect] else [])"])
       (auto simp: drd_rdp_session_disconnect_def close_local_session_def Let_def hung_up_def)
qed

lemma disconnect_life:
  assumes "drd_rdp_session_disconnect who s rt = Some (s', rt', es)"
  shows "life_step s s' es"
proof -
  obtain s1 e1 where st: "drd_rdp_session_stop_event_thread who s = Some (s1, e1)"
    using assms by (auto simp: drd_rdp_session_disconnect_def bind_eq_Some_conv)
  obtain s2 rt2 e2 where d: "drd_rdp_session_disable_graphics_pipeline s1 rt = (s2, rt2, e2)"
    by (metis prod_cases3)
  note D = disable_result [OF d]
  from disconnect_tail [OF assms st d] obtain e3 where
    r: "s' = hung_up s2" and "es = e1 @ e2 @ e3" "closed_calls e3 = 0" by blast
  with life_step_trans [OF stop_life [OF st] life_step_same [of s' s1 "e2 @ e3"]] r D
  show ?thesis by simp
qed

lemma disconnect_invokes:
  assumes "drd_rdp_session_disconnect who s rt = Some (s', rt', es)" "ss_closed_cb s"
  shows "ss_closed_invoked s'"
proof -
  obtain s1 e1 where st: "drd_rdp_session_stop_event_thread who s = Some (s1, e1)"
    using assms by (auto simp: drd_rdp_session_disconnect_def bind_eq_Some_conv)
  have nj: "\<not> joins_forever who s" using st stop_event_thread_self by fastforce
  have s1: "ss_closed_invoked s1" using stop_event_thread_outcome [OF nj] st assms(2) by auto
  obtain s2 rt2 e2 where d: "drd_rdp_session_disable_graphics_pipeline s1 rt = (s2, rt2, e2)"
    by (metis prod_cases3)
  have "ss_closed_invoked s' = ss_closed_invoked s2"
    using disconnect_tail [OF assms(1) st d] by (metis hung_up_fields(1))
  with s1 show ?thesis by (simp add: disable_result(1) [OF d])
qed

lemma activate_life:
  assumes "drd_rdp_session_activate who ra xa ia s rt = Some (s', rt', es, r)"
    "session_ok s"
  shows "life_step s s' es"
proof (cases "ss_passive s")
  case True
  with assms show ?thesis
    by (auto simp: drd_rdp_session_activate_def drd_rdp_session_set_peer_state_def
        intro!: life_step_same)
next
  case act: False
  obtain s1 e1 b where en: "drd_rdp_session_enforce_peer_desktop_size ra s rt = (s1, e1, b)"
    by (metis prod_cases3)
  note E = enforce_outcome [OF en assms(2)]
  have first: "life_step s s1 e1"
    using E(3) by (intro life_step_same) (simp_all add: peer_only_fields [OF E(1)])
  have fail: "life_step s t fs" if "activation_failed who st s1 rt1 (e1 @ gs) = Some (t, rt2, fs, q)"
    "closed_calls gs = 0" for t fs st rt1 rt2 gs q
  proof -
    let ?s = "drd_rdp_session_set_peer_state st s1"
    note failed = that(1)
    obtain hs where d: "drd_rdp_session_disconnect who ?s rt1 = Some (t, rt2, hs)"
      and fs: "fs = (e1 @ gs) @ hs"
      using failed by (auto simp: activation_failed_def)
    have "life_step s1 ?s gs"
      using that(2) by (intro life_step_same) (simp_all add: drd_rdp_session_set_peer_state_def)
    from life_step_trans [OF life_step_trans [OF first this] disconnect_life [OF d]] show ?thesis
      by (simp add: fs)
  qed
  note un = assms(1) [unfolded drd_rdp_session_activate_def if_not_P [OF act] en prod.case]
  show ?thesis
  proof (cases "b \<and> ss_runtime s1")
    case False
    then show ?thesis
      using un fail [of _ _ "[]"] first by (cases b) auto
  next
    case True
    show ?thesis
    proof (cases "drd_server_runtime_get_encoding_options rt")
      case None
      with True un show ?thesis using fail [of _ _ "[]"] by auto
    next
      case (Some opts)
      obtain rt1 e2 q where prep: "(if drd_server_runtime_is_stream_running rt then (rt, [], ok)
          else drd_server_runtime_prepare_stream xa ia opts rt) = (rt1, e2, q)"
        by (metis prod_cases3)
      show ?thesis
      proof (cases q)
        case (Inl e)
        with True Some un prep show ?thesis
          using fail [of _ _ "map Capture_event e2"] by (auto simp: Let_def)
      next
        case (Inr u)
        define s3 where "s3 = (drd_rdp_session_set_peer_state ''activated''
          (drd_rdp_session_refresh_surface_payload_limit s1))\<lparr>ss_is_activated := True\<rparr>"
        obtain s4 e4 b4 where st: "drd_rdp_session_start_render_thread s3 = (s4, e4, b4)"
          by (metis prod_cases3)
        have "s' = s4" "es = e1 @ map Capture_event e2 @ e4"
          using un True Some prep Inr st by (simp_all add: Let_def s3_def)
        moreover have "life_step s1 s4 (map Capture_event e2 @ e4)"
          using st by (intro life_step_same)
            (auto simp: drd_rdp_session_start_render_thread_def s3_def
              drd_rdp_session_set_peer_state_def drd_rdp_session_refresh_surface_payload_limit_def
              split: if_splits)
        ultimately show ?thesis using life_step_trans [OF first] by simp
      qed
    qed
  qed
qed

text \<open>The session's invariant over all steps.\<close>

lemma session_ok_cong:
  assumes "session_ok self" "ss_peer s = ss_peer self \<or> ss_peer s = None"
    "ss_peer s = None \<Longrightarrow> ss_pipeline s = None"
    "ss_pipeline s = None \<or> ss_pipeline s = ss_pipeline self"
    "ss_pipeline_ready s \<Longrightarrow> ss_pipeline s \<noteq> None" "ss_frame_sequence s = ss_frame_sequence self"
    "ss_render_thread s \<Longrightarrow> ss_runtime s"
  shows "session_ok s"
  using assms by (auto simp: session_ok_def peer_settings_of_def)

lemma vcm_exit_fields:
  "vcm_thread_exit s = (s', es) \<Longrightarrow> ss_peer s' = ss_peer s \<and> ss_pipeline s' = ss_pipeline s \<and>
   ss_pipeline_ready s' = ss_pipeline_ready s \<and> ss_frame_sequence s' = ss_frame_sequence s \<and>
   ss_render_thread s' = ss_render_thread s \<and> ss_runtime s' = ss_runtime s"
  by (auto simp: vcm_thread_exit_def drd_rdp_session_notify_closed_def split: if_splits)

lemma session_stop_ok:
  assumes "drd_rdp_session_stop_event_thread who s = Some (s', es)" "session_ok s"
  shows "session_ok s'"
proof -
  have nj: "\<not> joins_forever who s" using assms stop_event_thread_self by fastforce
  obtain t fs where "drd_rdp_session_stop_event_thread who s = Some (t, fs)" "threads_down t"
    "ss_pipeline t = ss_pipeline s" "ss_peer t = ss_peer s" "ss_runtime t = ss_runtime s"
    "ss_frame_sequence t = ss_frame_sequence s" "ss_pipeline_ready t = ss_pipeline_ready s"
    using stop_event_thread_outcome [OF nj] by blast
  with assms show ?thesis
    by (auto simp: session_ok_def threads_down_def peer_settings_of_def)
qed

lemma disconnect_ok:
  assumes "drd_rdp_session_disconnect who s rt = Some (s', rt', es)" "session_ok s"
  shows "session_ok s'"
proof -
  obtain s1 e1 where st: "drd_rdp_session_stop_event_thread who s = Some (s1, e1)"
    using assms by (auto simp: drd_rdp_session_disconnect_def bind_eq_Some_conv)
  obtain s2 rt2 e2 where d: "drd_rdp_session_disable_graphics_pipeline s1 rt = (s2, rt2, e2)"
    by (metis prod_cases3)
  have s2: "session_ok s2"
    using disabled_ok [OF session_stop_ok [OF st assms(2)]] by (simp add: disable_result(1) [OF d])
  have p2: "ss_pipeline s2 = None" by (simp add: disable_result(1) [OF d])
  have r: "s' = hung_up s2" using disconnect_tail [OF assms(1) st d] by blast
  show ?thesis
    unfolding r by (rule session_ok_cong [OF s2]) (use p2 s2 in \<open>auto simp: session_ok_def\<close>)
qed

lemma activate_ok:
  assumes "drd_rdp_session_activate who ra xa ia s rt = Some (s', rt', es, r)" "session_ok s"
  shows "session_ok s'"
proof (cases "ss_passive s")
  case True
  with assms(1) have "s' = (drd_rdp_session_set_peer_state ''activated-passive'' s)\<lparr>ss_is_activated := True\<rparr>"
    by (simp add: drd_rdp_session_activate_def)
  then show ?thesis
    by (intro session_ok_transfer [OF assms(2)])
       (use assms(2) in \<open>simp_all add: drd_rdp_session_set_peer_state_def session_ok_def\<close>)
next
  case act: False
  obtain s1 e1 b where en: "drd_rdp_session_enforce_peer_desktop_size ra s rt = (s1, e1, b)"
    by (metis prod_cases3)
  note E = enforce_outcome [OF en assms(2)]
  have fail: "session_ok t" if "activation_failed who st s1 rt1 gs = Some (t, rt2, fs, q)"
    for t fs st rt1 rt2 gs q
  proof -
    note failed = that
    obtain hs where d: "drd_rdp_session_disconnect who (drd_rdp_session_set_peer_state st s1) rt1 = Some (t, rt2, hs)"
      using failed by (auto simp: activation_failed_def)
    have "session_ok (drd_rdp_session_set_peer_state st s1)"
      by (rule session_ok_transfer [OF E(2)])
         (use E(2) in \<open>simp_all add: drd_rdp_session_set_peer_state_def session_ok_def\<close>)
    from disconnect_ok [OF d this] show ?thesis .
  qed
  note un = assms(1) [unfolded drd_rdp_session_activate_def if_not_P [OF act] en prod.case]
  show ?thesis
  proof (cases "b \<and> ss_runtime s1")
    case False
    then show ?thesis using un fail E(2) by (cases b) auto
  next
    case True
    show ?thesis
    proof (cases "drd_server_runtime_get_encoding_options rt")
      case None
      with True un show ?thesis using fail by auto
    next
      case (Some opts)
      obtain rt1 e2 q where prep: "(if drd_server_runtime_is_stream_running rt then (rt, [], ok)
          else drd_server_runtime_prepare_stream xa ia opts rt) = (rt1, e2, q)"
        by (metis prod_cases3)
      show ?thesis
      proof (cases q)
        case (Inl e)
        with True Some un prep show ?thesis using fail by (auto simp: Let_def)
      next
        case (Inr u)
        define s3 where "s3 = (drd_rdp_session_set_peer_state ''activated''
          (drd_rdp_session_refresh_surface_payload_limit s1))\<lparr>ss_is_activated := True\<rparr>"
        obtain s4 e4 b4 where st: "drd_rdp_session_start_render_thread s3 = (s4, e4, b4)"
          by (metis prod_cases3)
        have "s' = s4" using un True Some prep Inr st by (simp add: Let_def s3_def)
        moreover have "ss_peer s4 = ss_peer s1" "ss_pipeline s4 = ss_pipeline s1"
          "ss_pipeline_ready s4 = ss_pipeline_ready s1" "ss_frame_sequence s4 = ss_frame_sequence s1"
          "ss_runtime s4 = ss_runtime s1"
          using st by (auto simp: drd_rdp_session_start_render_thread_def s3_def
              drd_rdp_session_set_peer_state_def drd_rdp_session_refresh_surface_payload_limit_def
              split: if_splits)
        ultimately show ?thesis
          using E(2) True by (auto simp: session_ok_def peer_settings_of_def)
      qed
    qed
  qed
qed

lemma callback_life_ok:
  assumes "run_callback cb s rt = Some (s', rt', es)" "session_ok s"
  shows "life_step s s' es \<and> session_ok s'"
proof (cases cb)
  case Cb_none
  with assms show ?thesis by (auto intro: life_step_same)
next
  case Cb_post_connect
  with assms(1) have "s' = drd_rdp_session_set_peer_state ''post-connect'' s" "es = []"
    by (simp_all add: drd_rdp_session_post_connect_def)
  then show ?thesis
    using session_ok_transfer [OF assms(2), of s'] assms(2)
    by (simp add: life_step_same drd_rdp_session_set_peer_state_def session_ok_def)
next
  case Cb_login_failed
  with assms(1) have d: "drd_rdp_session_disconnect Vcm_thread s rt = Some (s', rt', es)" by simp
  from disconnect_life [OF d] disconnect_ok [OF d assms(2)] show ?thesis by blast
next
  case (Cb_activate ra xa ia)
  with assms(1) obtain r where "drd_rdp_session_activate Vcm_thread ra xa ia s rt = Some (s', rt', es, r)"
    by auto
  with activate_life activate_ok assms(2) show ?thesis by blast
qed

lemma vcm_iteration_life_ok:
  assumes "drd_rdp_session_vcm_thread (run_callback cb) va s rt = Some (s', rt', es, flow)"
    "session_ok s"
  shows "life_step s s' es \<and> session_ok s'"
proof -
  have dead: "life_step t (t\<lparr>ss_connection_alive := False\<rparr>) [] \<and>
      (session_ok t \<longrightarrow> session_ok (t\<lparr>ss_connection_alive := False\<rparr>))" for t
    by (simp add: life_step_same session_ok_def peer_settings_of_def)
  note un = assms(1) [unfolded drd_rdp_session_vcm_thread_def Let_def]
  show ?thesis
  proof (cases "\<not> ss_connection_alive s \<or> \<not> va_handles va \<or> va_wait_failed va")
    case True
    with un assms(2) dead [of s] show ?thesis
      by (auto simp: life_step_same split: if_splits)
  next
    case False
    with un obtain s1 rt1 e1 where cb: "run_callback cb s rt = Some (s1, rt1, e1)"
      by (auto simp: bind_eq_Some_conv)
    note L1 = callback_life_ok [OF cb assms(2)]
    obtain s2 rt2 e2 where m: "(if va_state va = DRDYNVC_STATE_READY \<and> ss_connection_alive s1
        then pipeline_maybe_init (va_channel va) s1 rt1 else (s1, rt1, [])) = (s2, rt2, e2)"
      by (metis prod_cases3)
    have L2: "life_step s1 s2 e2 \<and> session_ok s2"
    proof (cases "va_state va = DRDYNVC_STATE_READY \<and> ss_connection_alive s1")
      case True
      note m1 = m [unfolded if_P [OF True]]
      have "session_ok s2" "closed_calls e2 = 0"
        using pipeline_maybe_init_session [OF m1] L1 by blast+
      moreover have "ss_closed_cb s2 = ss_closed_cb s1" "ss_closed_invoked s2 = ss_closed_invoked s1"
        using m1 by (auto simp: pipeline_maybe_init_def split: option.splits prod.splits)
      ultimately show ?thesis by (simp add: life_step_same)
    next
      case False
      with m L1 show ?thesis by (auto intro: life_step_same)
    qed
    have L12: "life_step s s2 (e1 @ e2)" using life_step_trans L1 L2 by blast
    have "(s' = s1 \<or> s' = s1\<lparr>ss_connection_alive := False\<rparr>) \<and> es = e1 \<or>
        (s' = s2 \<or> s' = s2\<lparr>ss_connection_alive := False\<rparr>) \<and> es = e1 @ e2"
      using un False cb m by (auto split: if_splits)
    then show ?thesis
      using L1 L2 L12 dead [of s1] dead [of s2] life_step_trans [of s s1 e1 s' "[]"]
        life_step_trans [of s s2 "e1 @ e2" s' "[]"] by auto
  qed
qed

text \<open>The render thread never touches the closed callback.\<close>

definition quiet_from :: "rdp_session \<Rightarrow> rdp_session \<Rightarrow> session_event list \<Rightarrow> bool" where
  "quiet_from s t es \<longleftrightarrow> session_ok t \<and> ss_closed_cb t = ss_closed_cb s \<and>
     ss_closed_invoked t = ss_closed_invoked s \<and> closed_calls es = 0"

lemma quiet_from_life: "quiet_from s t es \<Longrightarrow> life_step s t es \<and> session_ok t"
  by (simp add: quiet_from_def life_step_same)

lemma quiet_count: "quiet_from s t es \<Longrightarrow> quiet_from s (count_frame b t) es"
  by (simp add: quiet_from_def count_frame_ok)

lemma quiet_failed: "quiet_from s t es \<Longrightarrow> quiet_from s (pull_failed e t) es"
  by (simp add: quiet_from_def pull_failed_ok)

lemma quiet_end:
  assumes "quiet_from s (fst st) es" "render_end env st cmds es = (st', cmds', es', flow)"
  shows "quiet_from s (fst st') es'"
proof -
  obtain a b c d where p: "st = (a, b)" "st' = (c, d)" by (metis surj_pair)
  have "session_ok a" using assms(1) by (simp add: quiet_from_def p)
  from render_end_ok [OF this assms(2) [unfolded p]] assms(1) show ?thesis
    by (simp add: quiet_from_def p)
qed

lemma quiet_cached:
  assumes "quiet_from s (fst st) es" "render_cached env st = Some (st', cmds, avc, sent)"
  shows "quiet_from s (fst st') es"
proof -
  obtain t rt where st: "st = (t, rt)" by (cases st)
  let ?t = "t\<lparr>ss_refresh_due := False\<rparr>"
  have q: "quiet_from s ?t es"
    using assms(1) by (simp add: st quiet_from_def session_ok_def peer_settings_of_def)
  show ?thesis
  proof (cases "ss_refresh_due t")
    case False
    with assms show ?thesis by (auto simp: st render_cached_def)
  next
    case True
    with assms(2) obtain rt1 h cs r where "drd_server_runtime_send_cached_frame_surface_gfx (re_send env)
        (surface_id_of ?t) (ss_frame_sequence ?t) False rt = Some (rt1, h, cs, r)"
      by (auto simp: st render_cached_def Let_def)
    with assms(2) True quiet_count [OF q] quiet_failed [OF q] show ?thesis
      by (cases r) (auto simp: st render_cached_def Let_def)
  qed
qed

lemma quiet_pull:
  assumes "quiet_from s (fst st) es" "render_pull env avc st = Some (Some (st', cmds, sent))"
  shows "quiet_from s (fst st') es"
  using assms quiet_count [OF assms(1)] quiet_failed [OF assms(1)]
  by (auto simp: render_pull_def split: prod.splits option.splits sum.split_asm)

lemma quiet_ready:
  assumes "quiet_from s t es" "render_ready env (t, rt) es = Some (st', cmds, es', flow)"
  shows "quiet_from s (fst st') es'"
proof (cases "drd_rdp_session_wait_for_graphics_capacity (re_capacity env) t")
  case None
  with assms show ?thesis by (auto simp: render_ready_def)
next
  case (Some x)
  obtain s1 good where x: "x = (s1, good)" by (cases x)
  from capacity_wait_session [OF Some [unfolded x]] assms(1) have q: "quiet_from s s1 es"
    by (simp add: quiet_from_def)
  obtain s2 rt2 e2 where d: "drd_rdp_session_disable_graphics_pipeline s1 rt = (s2, rt2, e2)"
    by (metis prod_cases3)
  have q2: "quiet_from s s2 (es @ e2)"
    using q disable_result [OF d] disabled_ok by (simp add: quiet_from_def)
  note un = assms(2) [unfolded render_ready_def prod.case Some x option.case d Let_def]
  show ?thesis
  proof (cases "\<not> good \<or> \<not> (case ss_pipeline s1 of None \<Rightarrow> False
      | Some p \<Rightarrow> drd_rdp_graphics_pipeline_can_submit p)")
    case True
    with un q2 show ?thesis by (auto simp: if_P)
  next
    case False
    note un2 = un [unfolded if_not_P [OF False]]
    from un2 obtain st2 cmds2 avc sent where c: "render_cached env (s1, rt) = Some (st2, cmds2, avc, sent)"
      by (auto simp: bind_eq_Some_conv split: if_splits)
    have q3: "quiet_from s (fst st2) es" by (rule quiet_cached [OF _ c]) (simp add: q)
    show ?thesis
      using un2 c quiet_end [OF q3] q3 quiet_pull [OF q3] quiet_end [OF quiet_pull [OF q3]]
      by (auto split: if_splits option.splits prod.splits)
  qed
qed

lemma quiet_maybe_init:
  assumes "pipeline_maybe_init ans t rt = (t', rt', fs)" "quiet_from s t es"
  shows "quiet_from s t' (es @ fs)"
  using pipeline_maybe_init_session [OF assms(1)] pipeline_maybe_init_closed [OF assms(1)] assms(2)
  by (simp add: quiet_from_def)

lemma quiet_init_graphics:
  "quiet_from s t es \<Longrightarrow> quiet_from s (drd_rdp_session_maybe_init_graphics b t rt) es"
  by (simp add: quiet_from_def maybe_init_graphics_ok)

lemma quiet_bits:
  assumes "quiet_from s t es" "render_surface_bits env (t, rt) es = Some (st', cmds, es', flow)"
  shows "quiet_from s (fst st') es'"
proof (cases "drd_server_runtime_pull_encoded_frame_surface_bit (re_ws env) (re_now env) (16 * 1000) rt")
  case None
  with assms show ?thesis by (auto simp: render_surface_bits_def split: if_splits)
next
  case (Some x)
  obtain rt1 r where x: "x = (rt1, r)" by (cases x)
  note un = assms(2) [unfolded render_surface_bits_def prod.case Some x option.case]
  show ?thesis
  proof (cases r)
    case (Inr u)
    with un have "Some (render_end env (t, rt1) [] es) = Some (st', cmds, es', flow)"
      by (simp split: if_splits)
    then show ?thesis using quiet_end [of s "(t, rt1)" es env "[]"] assms(1) by simp
  next
    case (Inl e)
    obtain s2 rt2 e2 where m: "pipeline_maybe_init (re_channel env)
        (drd_rdp_session_maybe_init_graphics (re_allocated env) t rt1) rt1 = (s2, rt2, e2)"
      by (metis prod_cases3)
    from quiet_maybe_init [OF m quiet_init_graphics [OF assms(1)]] quiet_failed [OF assms(1)] un Inl m assms(1)
    show ?thesis by (auto simp: Let_def split: if_splits)
  qed
qed

lemma render_thread_life:
  assumes "drd_rdp_session_render_thread env (s, rt) = Some (st', cmds, es, flow)" "session_ok s"
  shows "life_step s (fst st') es \<and> session_ok (fst st')"
proof -
  have q: "quiet_from s s []" using assms(2) by (simp add: quiet_from_def)
  obtain s1 rt1 e1 where one: "(if ss_pipeline s = None
      then pipeline_maybe_init (re_channel env)
        (drd_rdp_session_maybe_init_graphics (re_allocated env) s rt) rt
      else (s, rt, [])) = (s1, rt1, e1)" by (metis prod_cases3)
  have q1: "quiet_from s s1 e1"
    using one quiet_maybe_init [OF _ quiet_init_graphics [OF q]] q by (auto split: if_splits)
  have q2: "quiet_from s (s1\<lparr>ss_pipeline_ready := True\<rparr>) e1"
    if "ss_pipeline s1 \<noteq> None"
    using q1 that by (simp add: quiet_from_def session_ok_def peer_settings_of_def)
  have "quiet_from s (fst st') es"
  proof (cases "\<not> ss_render_running s \<or> \<not> ss_connection_alive s \<or> \<not> ss_is_activated s \<or> \<not> ss_runtime s")
    case True
    with assms(1) q show ?thesis by (auto simp: drd_rdp_session_render_thread_def split: if_splits)
  next
    case run: False
    show ?thesis
    proof (cases "drd_server_runtime_get_transport rt = FRAME_TRANSPORT_GRAPHICS_PIPELINE")
      case False
      with run assms(1) have "render_surface_bits env (s, rt) [] = Some (st', cmds, es, flow)"
        by (simp add: drd_rdp_session_render_thread_def)
      then show ?thesis by (rule quiet_bits [OF q])
    next
      case True
      define up where "up \<longleftrightarrow> \<not> ss_pipeline_ready s1 \<and> (case ss_pipeline s1 of None \<Rightarrow> False
          | Some p \<Rightarrow> drd_rdp_graphics_pipeline_is_ready p)"
      define s2 where "s2 = (if up then s1\<lparr>ss_pipeline_ready := True\<rparr> else s1)"
      define rt2 where "rt2 = (if up then switch_transport FRAME_TRANSPORT_GRAPHICS_PIPELINE rt1 else rt1)"
      have s2: "quiet_from s s2 e1" using q1 q2 by (auto simp: s2_def up_def split: option.splits)
      have out: "Some (st', cmds, es, flow) = (if ss_pipeline_ready s2 then render_ready env (s2, rt2) e1
          else Some (render_end env (s2, rt2) [] e1))"
      proof -
        have act: "\<not> (\<not> ss_render_running s \<or> \<not> ss_connection_alive s)" "\<not> (\<not> ss_is_activated s \<or> \<not> ss_runtime s)"
          using run by simp_all
        have "drd_rdp_session_render_thread env (s, rt) = (if ss_pipeline_ready s2
            then render_ready env (s2, rt2) e1 else Some (render_end env (s2, rt2) [] e1))"
          unfolding drd_rdp_session_render_thread_def prod.case if_not_P [OF act(1)] if_not_P [OF act(2)]
            if_P [OF True] one Let_def s2_def rt2_def up_def by simp
        with assms(1) show ?thesis by simp
      qed
      show ?thesis
      proof (cases "ss_pipeline_ready s2")
        case True
        with out have "render_ready env (s2, rt2) e1 = Some (st', cmds, es, flow)" by simp
        then show ?thesis by (rule quiet_ready [OF s2])
      next
        case False
        with out have "render_end env (s2, rt2) [] e1 = (st', cmds, es, flow)" by simp
        then show ?thesis by (rule quiet_end [of s "(s2, rt2)", unfolded fst_conv, OF s2])
      qed
    qed
  qed
  then show ?thesis by (rule quiet_from_life)
qed

lemma dispose_life:
  assumes "drd_rdp_session_dispose who s rt = Some (s', rt', es)" "session_ok s"
  shows "life_step s s' es \<and> session_ok s'"
proof -
  from assms(1) obtain s1 e1 where st: "drd_rdp_session_stop_event_thread who s = Some (s1, e1)"
    by (auto simp: drd_rdp_session_dispose_def bind_eq_Some_conv)
  obtain s2 rt2 e2 where d: "drd_rdp_session_disable_graphics_pipeline s1 rt = (s2, rt2, e2)"
    by (metis prod_cases3)
  have "\<not> joins_forever who s" using st stop_event_thread_self by fastforce
  then have down: "threads_down s1" using stop_event_thread_outcome [of who s] st by auto
  note D = disable_result [OF d]
  have s2: "session_ok s2" "ss_pipeline s2 = None" "\<not> ss_vcm_thread s2" "\<not> ss_render_thread s2"
    using disabled_ok [OF session_stop_ok [OF st assms(2)]] down by (simp_all add: D(1) threads_down_def disabled_def)
  define t where "t = s2\<lparr>ss_refresh_source := 0, ss_refresh_due := False,
     ss_peer := (if Option.bind (ss_peer s2) pe_context \<noteq> None then None else ss_peer s2),
     ss_runtime := False, ss_local_session := False\<rparr>"
  have "s' = t \<and> (\<exists>e3. es = e1 @ e2 @ e3 \<and> closed_calls e3 = 0)"
    using assms(1) st d s2(3)
    by (auto simp: drd_rdp_session_dispose_def drd_rdp_session_cancel_refresh_timer_def join_vcm_thread_def
        close_local_session_def Let_def t_def)
  then obtain e3 where r: "s' = t" "es = e1 @ e2 @ e3" "closed_calls e3 = 0" by blast
  have "session_ok t"
    by (rule session_ok_cong [OF s2(1)]) (use s2 in \<open>auto simp: t_def session_ok_def\<close>)
  moreover have "life_step s1 t (e2 @ e3)"
    using r(3) D by (intro life_step_same) (simp_all add: t_def)
  ultimately show ?thesis using life_step_trans [OF stop_life [OF st]] r by simp
qed

lemma set_callback_life:
  assumes "drd_rdp_session_set_closed_callback True s = (t, fs)" "session_ok s"
  shows "life_run s t fs \<and> session_ok t \<and> ss_closed_cb t"
proof -
  have "closed_by s t fs \<and> ss_closed_cb t \<and> ss_peer t = ss_peer s \<and> ss_pipeline t = ss_pipeline s \<and>
    ss_pipeline_ready t = ss_pipeline_ready s \<and> ss_frame_sequence t = ss_frame_sequence s \<and>
    ss_render_thread t = ss_render_thread s \<and> ss_runtime t = ss_runtime s"
    using assms(1) by (auto simp: drd_rdp_session_set_closed_callback_def Let_def closed_by_def
        drd_rdp_session_notify_closed_def split: if_splits)
  with assms(2) show ?thesis
    by (auto simp: life_run_def session_ok_def peer_settings_of_def)
qed

lemma session_step_life:
  assumes "session_step op (s, rt) = Some (s', rt', es)" "session_ok s" "\<forall>b. op \<noteq> Do_set_callback b"
  shows "life_step s s' es \<and> session_ok s'"
proof (cases op)
  case (Do_set_runtime b)
  have "session_ok (s\<lparr>ss_runtime := True\<rparr>)"
    using assms(2) by (simp add: session_ok_def peer_settings_of_def)
  from maybe_init_graphics_ok [OF this] have "session_ok s'"
    using assms Do_set_runtime by (auto simp: drd_rdp_session_set_runtime_def split: if_splits)
  moreover have "ss_closed_cb s' = ss_closed_cb s" "ss_closed_invoked s' = ss_closed_invoked s" "es = []"
    using assms(1) Do_set_runtime
    by (auto simp: drd_rdp_session_set_runtime_def drd_rdp_session_maybe_init_graphics_def
        split: option.splits if_splits)
  ultimately show ?thesis by (simp add: life_step_same)
next
  case (Do_set_vcm b v)
  have "session_ok (s\<lparr>ss_vcm := v\<rparr>)"
    using assms(2) by (simp add: session_ok_def peer_settings_of_def)
  from maybe_init_graphics_ok [OF this] have "session_ok s'"
    using assms Do_set_vcm by (simp add: drd_rdp_session_set_virtual_channel_manager_def) blast
  moreover have "ss_closed_cb s' = ss_closed_cb s" "ss_closed_invoked s' = ss_closed_invoked s" "es = []"
    using assms(1) Do_set_vcm
    by (auto simp: drd_rdp_session_set_virtual_channel_manager_def
        drd_rdp_session_maybe_init_graphics_def split: option.splits if_splits)
  ultimately show ?thesis by (simp add: life_step_same)
next
  case (Do_set_callback b)
  with assms(3) show ?thesis by blast
next
  case (Do_set_passive b)
  with assms show ?thesis
    by (auto simp: drd_rdp_session_set_passive_mode_def session_ok_def
        peer_settings_of_def intro!: life_step_same)
next
  case (Do_attach b)
  with assms show ?thesis
    by (auto simp: drd_rdp_session_attach_local_session_def session_ok_def
        peer_settings_of_def intro!: life_step_same split: if_splits)
next
  case (Do_start b)
  obtain t fs r where t: "drd_rdp_session_start_event_thread b s = (t, fs, r)" by (metis prod_cases3)
  have eq: "s' = t" "es = fs" using assms(1) Do_start t by simp_all
  have "ss_closed_cb t = ss_closed_cb s \<and> ss_closed_invoked t = ss_closed_invoked s \<and>
    closed_calls fs = 0 \<and> ss_peer t = ss_peer s \<and> ss_pipeline t = ss_pipeline s \<and>
    ss_pipeline_ready t = ss_pipeline_ready s \<and> ss_frame_sequence t = ss_frame_sequence s \<and>
    ss_render_thread t = ss_render_thread s \<and> ss_runtime t = ss_runtime s"
    using t by (auto simp: drd_rdp_session_start_event_thread_def Let_def split: if_splits)
  with assms(2) show ?thesis
    by (auto simp: eq session_ok_def peer_settings_of_def intro: life_step_same)
next
  case (Do_stop who)
  then obtain st: "drd_rdp_session_stop_event_thread who s = Some (s', es)" using assms(1) by auto
  from stop_life [OF st] session_stop_ok [OF st assms(2)] show ?thesis by blast
next
  case (Do_disconnect who)
  then have d: "drd_rdp_session_disconnect who s rt = Some (s', rt', es)" using assms(1) by simp
  from disconnect_life [OF d] disconnect_ok [OF d assms(2)] show ?thesis by blast
next
  case (Do_error who e)
  let ?s = "s\<lparr>ss_last_error := e\<rparr>"
  have s: "session_ok ?s" "life_step s ?s []"
    using assms(2) by (simp_all add: session_ok_def peer_settings_of_def life_step_same)
  show ?thesis
  proof (cases "e = SESSION_ERROR_SERVER_REDIRECTION")
    case True
    then have d: "drd_rdp_session_disconnect who ?s rt = Some (s', rt', es)"
      using assms(1) Do_error by (simp add: drd_rdp_session_notify_error_def)
    from life_step_trans [OF s(2) disconnect_life [OF d]] disconnect_ok [OF d s(1)] show ?thesis by simp
  next
    case False
    with assms Do_error s show ?thesis
      by (auto simp: drd_rdp_session_notify_error_def life_step_same split: if_splits)
  qed
next
  case (Do_vcm cb va)
  then obtain flow where "drd_rdp_session_vcm_thread (run_callback cb) va s rt = Some (s', rt', es, flow)"
    using assms(1) by auto
  from vcm_iteration_life_ok [OF this assms(2)] show ?thesis .
next
  case Do_vcm_exit
  obtain t fs where t: "vcm_thread_exit s = (t, fs)" by (metis surj_pair)
  then have eq: "s' = t" "es = fs" using assms(1) Do_vcm_exit by simp_all
  from vcm_exit_life [OF t] vcm_exit_fields [OF t] assms(2) show ?thesis
    by (auto simp: eq session_ok_def peer_settings_of_def)
next
  case (Do_render env)
  then obtain cmds flow where "drd_rdp_session_render_thread env (s, rt) = Some ((s', rt'), cmds, es, flow)"
    using assms(1) by (auto split: prod.splits)
  from render_thread_life [OF this assms(2)] show ?thesis by simp
next
  case (Do_render_wait ops)
  with assms have "es = []" "ss_closed_cb s' = ss_closed_cb s" "ss_closed_invoked s' = ss_closed_invoked s"
    "session_ok s'"
    by (auto simp: session_ok_def peer_settings_of_def)
  then show ?thesis by (simp add: life_step_same)
next
  case (Do_dispose who)
  with assms dispose_life show ?thesis by simp
next
  case (Do_timeout now)
  then have "s' \<in> {s\<lparr>ss_refresh_source := 0\<rparr>, s\<lparr>ss_refresh_source := 0, ss_refresh_due := True\<rparr>}" "es = []"
    using assms(1) by (simp_all add: drd_rdp_session_on_refresh_timeout_def Let_def split: if_splits)
  then have "ss_closed_cb s' = ss_closed_cb s" "ss_closed_invoked s' = ss_closed_invoked s" "es = []"
    "session_ok s'"
    using assms(2) by (auto simp: session_ok_def peer_settings_of_def)
  then show ?thesis by (simp add: life_step_same)
qed

text \<open>Any step, and what it does to the count of callbacks: clearing the callback forgets that it was
  made.\<close>

definition clears :: "session_op list \<Rightarrow> nat" where
  "clears ops = length (filter (\<lambda>op. op = Do_set_callback False) ops)"

definition invoked :: "rdp_session \<Rightarrow> nat" where
  "invoked s = (if ss_closed_invoked s then 1 else 0)"

lemma life_run_calls: "life_run s s' es \<Longrightarrow> closed_calls es + invoked s = invoked s'"
  by (auto simp: life_run_def closed_by_def invoked_def)

lemma session_step_life_ok:
  assumes "session_step op (s, rt) = Some (s', rt', es)" "session_ok s"
  shows "session_ok s' \<and> (if op = Do_set_callback False
    then \<not> ss_closed_invoked s' \<and> closed_calls es = 0 else life_run s s' es)"
proof (cases op)
  case (Do_set_callback b)
  obtain t fs where t: "drd_rdp_session_set_closed_callback b s = (t, fs)" by (metis surj_pair)
  have e: "s' = t" "es = fs" using assms(1) Do_set_callback t by simp_all
  show ?thesis
  proof (cases b)
    case True
    with set_callback_life [of s t fs] t assms(2) e Do_set_callback show ?thesis by simp
  next
    case False
    with t assms(2) Do_set_callback show ?thesis
      by (auto simp: e drd_rdp_session_set_closed_callback_def Let_def session_ok_def peer_settings_of_def)
  qed
qed (use session_step_life [OF assms] life_step_run in auto)

lemma session_run_ok:
  "session_run ops (s, rt) = Some (s', rt', es) \<Longrightarrow> session_ok s \<Longrightarrow>
   session_ok s' \<and> closed_calls es + invoked s \<le> invoked s' + clears ops \<and>
   (ss_closed_invoked s' \<longrightarrow> ss_closed_invoked s \<or> 1 \<le> closed_calls es) \<and>
   (clears ops = 0 \<longrightarrow> life_run s s' es)"
proof (induction ops arbitrary: s rt es)
  case Nil
  then show ?case by (auto simp: clears_def intro: life_step_run [OF life_step_same])
next
  case (Cons op ops)
  from Cons.prems(1) obtain t rt1 e1 e2 where st: "session_step op (s, rt) = Some (t, rt1, e1)"
    and run: "session_run ops (t, rt1) = Some (s', rt', e2)" and es: "es = e1 @ e2"
    by (auto simp: bind_eq_Some_conv)
  note step = session_step_life_ok [OF st Cons.prems(2)]
  note rest = Cons.IH [OF run conjunct1 [OF step]]
  show ?case
  proof (cases "op = Do_set_callback False")
    case True
    with step rest show ?thesis by (auto simp: es clears_def invoked_def split: if_splits)
  next
    case False
    then have l: "life_run s t e1" using step by simp
    have "ss_closed_invoked t \<longrightarrow> ss_closed_invoked s \<or> 1 \<le> closed_calls e1"
      using l by (auto simp: life_run_def closed_by_def)
    with False rest life_run_calls [OF l] life_run_trans [OF l] show ?thesis
      by (auto simp: es clears_def)
  qed
qed

lemma session_run_append:
  "session_run (as @ bs) (s, rt) = Some (s', rt', es) \<Longrightarrow>
   \<exists>t rt1 e1 e2. session_run as (s, rt) = Some (t, rt1, e1) \<and>
     session_run bs (t, rt1) = Some (s', rt', e2) \<and> es = e1 @ e2"
proof (induction as arbitrary: s rt es)
  case (Cons op as)
  then obtain t rt1 e1 e2 where st: "session_step op (s, rt) = Some (t, rt1, e1)"
    and run: "session_run (as @ bs) (t, rt1) = Some (s', rt', e2)" and es: "es = e1 @ e2"
    by (auto simp: bind_eq_Some_conv)
  from Cons.IH [OF run] obtain u rt2 f1 f2 where "session_run as (t, rt1) = Some (u, rt2, f1)"
    "session_run bs (u, rt2) = Some (s', rt', f2)" "e2 = f1 @ f2" by blast
  with st es show ?case by simp
qed simp

lemma new_session_ok:
  "(\<And>c. pe_context p = Some c \<Longrightarrow> pc_settings c \<noteq> None) \<Longrightarrow> session_ok (drd_rdp_session_new p)"
  by (auto simp: session_ok_def drd_rdp_session_new_def drd_rdp_session_init_def peer_settings_of_def)

text \<open>A callback that is registered and not cleared has been made when a disconnect ends.\<close>

lemma disconnect_has_called:
  assumes run: "session_run (as @ Do_set_callback True # bs @ Do_disconnect who # cs) (n, rt) = Some (s, rt', es)"
    and n: "session_ok n" "\<not> ss_closed_invoked n" and bs: "clears bs = 0"
  shows "1 \<le> closed_calls es"
proof -
  let ?early = "as @ Do_set_callback True # bs @ [Do_disconnect who]"
  have "as @ Do_set_callback True # bs @ Do_disconnect who # cs = ?early @ cs" by simp
  from session_run_append [OF run [unfolded this]] obtain t4 r4 e4 f4 where
    early: "session_run ?early (n, rt) = Some (t4, r4, e4)" and es: "es = e4 @ f4" by blast
  from session_run_append [OF early] obtain t1 r1 e1 f1 where 1: "session_run as (n, rt) = Some (t1, r1, e1)"
      "session_run (Do_set_callback True # bs @ [Do_disconnect who]) (t1, r1) = Some (t4, r4, f1)" by blast
  then obtain t2 r2 e2 f2 where 2: "session_step (Do_set_callback True) (t1, r1) = Some (t2, r2, e2)"
      "session_run (bs @ [Do_disconnect who]) (t2, r2) = Some (t4, r4, f2)"
    by (auto simp: bind_eq_Some_conv simp del: session_step.simps)
  from session_run_append [OF 2(2)] obtain t3 r3 e3 f3 where 3: "session_run bs (t2, r2) = Some (t3, r3, e3)"
      "session_run [Do_disconnect who] (t3, r3) = Some (t4, r4, f3)" by blast
  then obtain fs where 4: "drd_rdp_session_disconnect who t3 r3 = Some (t4, r4, fs)"
    by (auto simp: bind_eq_Some_conv)
  have ok1: "session_ok t1" using session_run_ok [OF 1(1) n(1)] by blast
  have ok2: "session_ok t2" using session_step_life_ok [OF 2(1) ok1] by blast
  have cb2: "ss_closed_cb t2"
    using 2(1) by (auto simp: drd_rdp_session_set_closed_callback_def Let_def
        drd_rdp_session_notify_closed_def split: if_splits)
  have "ss_closed_cb t3" using session_run_ok [OF 3(1) ok2] bs cb2 by (simp add: life_run_def)
  then have "ss_closed_invoked t4" by (rule disconnect_invokes [OF 4])
  with session_run_ok [OF early n(1)] n(2) show ?thesis by (auto simp: es)
qed

text \<open>
  C37: Over every sequence of a session's operations, run by its owner, its threads and the peer's
  callbacks in any order, the closed callback is invoked at most once, and at most once more for
  every time that it was cleared, since clearing it (\<open>Do_set_callback False\<close>) forgets that it was
  made. Once it has been registered, a disconnect that ends has invoked it, unless it was cleared in
  between.
\<close>

theorem closed_callback_once:
  assumes "\<forall>c. pe_context p = Some c \<longrightarrow> pc_settings c \<noteq> None"
    "session_run ops (drd_rdp_session_new p, rt) = Some (s, rt', es)"
  shows "closed_calls es \<le> Suc (clears ops) \<and>
    (\<forall>as bs cs who. ops = as @ Do_set_callback True # bs @ Do_disconnect who # cs \<and> clears bs = 0 \<longrightarrow>
       1 \<le> closed_calls es)"
proof -
  let ?n = "drd_rdp_session_new p"
  have n: "session_ok ?n" by (rule new_session_ok) (use assms(1) in blast)
  have n0: "\<not> ss_closed_invoked ?n" by (simp add: drd_rdp_session_new_def drd_rdp_session_init_def)
  have "closed_calls es \<le> Suc (clears ops)"
    using session_run_ok [OF assms(2) n] by (auto simp: invoked_def split: if_splits)
  with disconnect_has_called [OF _ n n0] assms(2) show ?thesis by blast
qed

subsection \<open>Two consequences\<close>

text \<open>The peer's callbacks run on the channel thread. A failed login there disconnects the session,
  which joins the channel thread: the thread waits for itself. So does an activation that fails
  because the client cannot change its desktop size.\<close>

lemma failed_login_joins_forever:
  "ss_vcm_thread s \<Longrightarrow> run_callback Cb_login_failed s rt = None"
  by (simp add: drd_rdp_session_disconnect_def stop_event_thread_self joins_forever_def)

lemma failed_activation_joins_forever:
  assumes "ss_vcm_thread s" "\<not> ss_passive s" "ss_runtime s"
    "drd_server_runtime_get_encoding_options rt = Some opts" "peer_settings_of s = Some st"
    "\<not> ps_desktop_resize st" "ps_width st \<noteq> o_width opts"
  shows "run_callback (Cb_activate ra xa ia) s rt = None"
proof -
  have "Option.bind (ss_peer s) pe_context \<noteq> None"
    using assms(5) by (auto simp: peer_settings_of_def split: bind_splits)
  then have "drd_rdp_session_enforce_peer_desktop_size ra s rt = (s, [], False)"
    using assms by (simp add: drd_rdp_session_enforce_peer_desktop_size_def Let_def)
  moreover have "drd_rdp_session_disconnect Vcm_thread
      (drd_rdp_session_set_peer_state ''desktop-resize-blocked'' s) rt = None"
    using assms(1) by (simp add: drd_rdp_session_disconnect_def stop_event_thread_self
        joins_forever_def drd_rdp_session_set_peer_state_def)
  ultimately show ?thesis
    using assms(2) by (simp add: drd_rdp_session_activate_def activation_failed_def)
qed

text \<open>While the client has not set up its channel, an iteration of the render thread neither waits
  nor sends: the thread spins.\<close>

lemma render_spins:
  assumes "ss_render_running s" "ss_connection_alive s" "ss_is_activated s" "ss_runtime s"
    "drd_server_runtime_get_transport rt = FRAME_TRANSPORT_GRAPHICS_PIPELINE"
    "ss_pipeline s = Some p" "\<not> surface_ready p" "\<not> ss_pipeline_ready s"
  shows "drd_rdp_session_render_thread env (s, rt) = Some (render_end env (s, rt) [] [])"
  using assms by (simp add: drd_rdp_session_render_thread_def drd_rdp_graphics_pipeline_is_ready_def)

subsection \<open>Witnesses\<close>

definition sample_peer :: peer where
  "sample_peer = \<lparr>pe_hostname = None, pe_context = Some \<lparr>pc_settings = Some
     \<lparr>ps_width = 800, ps_height = 600, ps_desktop_resize = True, ps_multifrag_max = 0,
      ps_os_major = OSMAJORTYPE_WINDOWS, ps_os_minor_nt = True\<rparr>, pc_desktop_resize_cb = True\<rparr>,
     pe_disconnect_cb = True\<rparr>"

definition sample_session :: rdp_session where
  "sample_session = (drd_rdp_session_new sample_peer)\<lparr>ss_runtime := True, ss_vcm := True,
     ss_vcm_thread := True, ss_stop_event := True, ss_closed_cb := True,
     ss_is_activated := True, ss_render_running := True\<rparr>"

definition sample_runtime :: server_runtime where
  "sample_runtime = drd_server_runtime_init witness_zero"

lemma sample_session_ok: "session_ok sample_session"
  by (simp add: session_ok_def sample_session_def drd_rdp_session_new_def drd_rdp_session_init_def
      sample_peer_def peer_settings_of_def)

lemma sample_session_joins:
  "\<not> joins_forever Main_thread sample_session" "joins_forever Vcm_thread sample_session"
  by (simp_all add: joins_forever_def sample_session_def drd_rdp_session_new_def drd_rdp_session_init_def)

text \<open>A session whose render thread is left in its wait: three frames are out, and the client
  acknowledges none.\<close>

definition waiting_session :: rdp_session where
  "waiting_session = sample_session\<lparr>ss_pipeline := Some full_pipeline, ss_pipeline_ready := True,
     ss_render_thread := True\<rparr>"

lemma waiting_session_stuck:
  "session_step (Do_render_wait []) (waiting_session, sample_runtime) =
     Some (waiting_session\<lparr>ss_render_stuck := True\<rparr>, sample_runtime, [])"
proof -
  have "wait_for_capacity_enter full_pipeline = Asleep"
    using full_blocked by (simp add: wait_for_capacity_enter_def capacity_loop_def
        ready_pipeline_def drd_rdp_graphics_pipeline_init_def)
  then have "drd_rdp_session_wait_for_graphics_capacity [] waiting_session = None"
    by (simp add: drd_rdp_session_wait_for_graphics_capacity_def waiting_session_def)
  moreover have "ss_render_thread waiting_session" by (simp add: waiting_session_def)
  ultimately show ?thesis by simp
qed


lemma activate_outcome_witness:
  "returns (drd_rdp_session_activate Main_thread
      \<lparr>ra_set_width = True, ra_set_height = True, ra_notify = True\<rparr> witness_answers
      witness_keyboard sample_session sample_runtime)
    (\<lambda>(s, rt', es, r). closed_by sample_session s es)"
  by (rule returns_mono [OF activate_outcome [OF sample_session_ok sample_session_joins(1)]]) auto

definition sample_env :: render_env where
  "sample_env = \<lparr>re_send = witness_context, re_pull = witness_context, re_capacity = [],
     re_ws = [], re_now = 0, re_refresh_now = 0, re_allocated = True, re_channel = all_yes,
     re_timer = 5\<rparr>"


lemma closed_callback_once_witness:
  "(\<exists>s rt' es. session_run [Do_set_vcm True True, Do_start True, Do_set_callback True,
      Do_disconnect Main_thread] (drd_rdp_session_new sample_peer, sample_runtime)
      = Some (s, rt', es) \<and> closed_calls es = 1) \<and>
   (\<exists>s rt' es. session_run [Do_set_callback True, Do_disconnect Main_thread, Do_set_callback False,
      Do_set_callback True] (drd_rdp_session_new sample_peer, sample_runtime)
      = Some (s, rt', es) \<and> closed_calls es = 2)"
proof
  let ?n = "drd_rdp_session_new sample_peer"
  let ?ops = "[Do_set_vcm True True, Do_start True, Do_set_callback True, Do_disconnect Main_thread]"
  let ?twice = "[Do_set_callback True, Do_disconnect Main_thread, Do_set_callback False, Do_set_callback True]"
  note defs = drd_rdp_session_set_virtual_channel_manager_def
    drd_rdp_session_maybe_init_graphics_def drd_rdp_session_new_def drd_rdp_session_init_def
    drd_rdp_session_start_event_thread_def drd_rdp_session_set_closed_callback_def
    drd_rdp_session_disconnect_def drd_rdp_session_stop_event_thread_def session_thread_defs
    drd_rdp_session_disable_graphics_pipeline_def close_local_session_def sample_peer_def
  have ok: "\<forall>c. pe_context sample_peer = Some c \<longrightarrow> pc_settings c \<noteq> None"
    by (simp add: sample_peer_def)
  obtain s rt' es where run: "session_run ?ops (?n, sample_runtime) = Some (s, rt', es)"
    by (simp add: defs Let_def split: prod.splits)
  have split: "?ops = [Do_set_vcm True True, Do_start True] @ Do_set_callback True # [] @ Do_disconnect Main_thread # []"
    by simp
  have "clears ?ops = 0" "clears [] = 0" by (simp_all add: clears_def)
  with closed_callback_once [OF ok run] split have "closed_calls es = 1"
    by (metis One_nat_def le_antisym)
  with run show "\<exists>s rt' es. session_run ?ops (?n, sample_runtime) = Some (s, rt', es) \<and> closed_calls es = 1"
    by blast
  show "\<exists>s rt' es. session_run ?twice (?n, sample_runtime) = Some (s, rt', es) \<and> closed_calls es = 2"
    by (simp add: defs Let_def split: prod.splits)
qed

end
