(* ===== verification/Nla_Sam.thy ===== *)
theory Nla_Sam
  imports Drd_Prelude "HOL-Library.Char_ord"
begin

text \<open>
  The account database for network level authentication (\<^verbatim>\<open>src/security/drd_nla_sam.c\<close>): a
  one-line SAM file with the user's NT hash, written to a private temporary file and removed with
  the object.

  Buffers are lists of characters with their zero bytes; a write outside is \<open>None\<close>. The files
  are a map from paths to contents; the system calls are answers. \<open>spare\<close> is what lies behind
  the requested bytes of an allocation as far as a write there hits no other object: GLib promises
  nothing of it, it may be empty and it may hold anything.
\<close>

subsection \<open>C strings in buffers\<close>

definition nul :: char where
  "nul = CHR 0x00"

definition c_strlen :: "string \<Rightarrow> nat" where
  "c_strlen buf = length (takeWhile (\<lambda>c. c \<noteq> nul) buf)"

definition put_string :: "nat \<Rightarrow> string \<Rightarrow> string \<Rightarrow> string option" where
  "put_string off src buf = (if off + length src + 1 \<le> length buf
     then Some (take off buf @ src @ [nul] @ drop (off + length src + 1) buf) else None)"

definition append_string :: "string \<Rightarrow> string \<Rightarrow> string option" where
  "append_string src buf = put_string (c_strlen buf) src buf"

definition hex_digit :: "nat \<Rightarrow> char" where
  "hex_digit n = ''0123456789abcdef'' ! n"

text \<open>The \<^verbatim>\<open>%02x\<close> of a byte.\<close>

definition hex2 :: "u8 \<Rightarrow> string" where
  "hex2 b = [hex_digit (unat b div 16), hex_digit (unat b mod 16)]"

subsection \<open>The entry\<close>

definition drd_nla_sam_format_entry :: "string \<Rightarrow> string \<Rightarrow> string \<Rightarrow> string option" where
  "drd_nla_sam_format_entry spare username nt_hash_hex =
     (let buffer_len = length username + 3 + length nt_hash_hex + 4 in
      Option.bind (put_string 0 username (replicate buffer_len nul @ spare)) (\<lambda>l1.
      Option.bind (append_string '':::'' l1) (\<lambda>l2.
      Option.bind (append_string nt_hash_hex l2) (\<lambda>l3.
      append_string ('':::'' @ [CHR 0x0A]) l3))))"

definition EINTR :: int where "EINTR = 4"
definition EEXIST :: int where "EEXIST = 17"

datatype write_answer = Wrote nat | Write_error int

text \<open>The loop of writes: what the file has received, and \<open>None\<close> while the answers so far do not
  end it.\<close>

fun write_loop :: "write_answer list \<Rightarrow> string \<Rightarrow> string \<Rightarrow> nat \<Rightarrow> (string \<times> unit res) option" where
  "write_loop ws entry file written =
     (if written < length entry then (case ws of
          [] \<Rightarrow> None
        | Write_error e # rest \<Rightarrow> if e = EINTR then write_loop rest entry file written
                                else Some (file, fail_io (IoErrno e))
        | Wrote n # rest \<Rightarrow> write_loop rest entry (file @ take n (drop written entry)) (written + n))
      else Some (file, ok))"

declare write_loop.simps [simp del]

record sam_answers =
  sa_runtime_dir :: "string option"
  sa_tmp_dir :: string
  sa_build_filename :: "string list \<Rightarrow> string"
  sa_mkdir :: "int option"  \<comment> \<open>\<open>None\<close>: success; otherwise \<open>errno\<close>\<close>
  sa_mkstemp :: "string \<Rightarrow> int + string"  \<comment> \<open>template to errno or path\<close>
  sa_spare :: string
  sa_writes :: "write_answer list"
  sa_fsync :: "int option"

definition drd_nla_sam_write_entry ::
    "sam_answers \<Rightarrow> string \<Rightarrow> string \<Rightarrow> (string \<times> unit res) option" where
  "drd_nla_sam_write_entry ans username nt_hash_hex =
     Option.bind (drd_nla_sam_format_entry (sa_spare ans) username nt_hash_hex) (\<lambda>line.
     let entry = take (c_strlen line) line in
     Option.bind (write_loop (sa_writes ans) entry [] 0) (\<lambda>(file, r).
     case r of Inl e \<Rightarrow> Some (file, Inl e)
     | Inr _ \<Rightarrow> (case sa_fsync ans of Some e \<Rightarrow> Some (file, fail_io (IoErrno e))
        | None \<Rightarrow> Some (file, ok))))"

subsection \<open>The file\<close>

type_synonym files = "string \<rightharpoonup> string"

record nla_sam_file =
  sam_path :: string

definition drd_nla_sam_default_dir :: "sam_answers \<Rightarrow> string" where
  "drd_nla_sam_default_dir ans = (case sa_runtime_dir ans of
       Some runtime_dir \<Rightarrow> sa_build_filename ans [runtime_dir, ''drd'']
     | None \<Rightarrow> sa_build_filename ans [sa_tmp_dir ans, ''drd''])"

definition drd_nla_sam_file_new ::
    "sam_answers \<Rightarrow> string option \<Rightarrow> string option \<Rightarrow> files \<Rightarrow> (files \<times> nla_sam_file res) option" where
  "drd_nla_sam_file_new ans username nt_hash_hex fs =
     (case (username, nt_hash_hex) of
        (Some user, Some hash) \<Rightarrow>
          if user = [] \<or> hash = [] then Some (fs, Inl Unset)
          else let base_dir = drd_nla_sam_default_dir ans in
          (case (case sa_mkdir ans of Some e \<Rightarrow> if e \<noteq> EEXIST then Some e else None | None \<Rightarrow> None) of
             Some e \<Rightarrow> Some (fs, fail_io (IoErrno e))
           | None \<Rightarrow>
          (case sa_mkstemp ans (sa_build_filename ans [base_dir, ''nla-sam-XXXXXX'']) of
             Inl e \<Rightarrow> Some (fs, fail_io (IoErrno e))
           | Inr path \<Rightarrow>
             let fs1 = fs(path \<mapsto> []) in
             Option.bind (drd_nla_sam_write_entry ans user hash) (\<lambda>(file, r).
             let fs2 = fs1(path \<mapsto> file) in
             case r of Inl e \<Rightarrow> Some (fs2(path := None), Inl e)
             | Inr _ \<Rightarrow> Some (fs2, Inr \<lparr>sam_path = path\<rparr>))))
      | _ \<Rightarrow> Some (fs, Inl Unset))"

definition drd_nla_sam_file_get_path :: "nla_sam_file option \<Rightarrow> string option" where
  "drd_nla_sam_file_get_path f = map_option sam_path f"

definition drd_nla_sam_file_free :: "nla_sam_file option \<Rightarrow> files \<Rightarrow> files" where
  "drd_nla_sam_file_free f fs = (case f of None \<Rightarrow> fs | Some s \<Rightarrow> fs(sam_path s := None))"

subsection \<open>The hash\<close>

text \<open>The loop of \<^verbatim>\<open>snprintf\<close> calls into a buffer of 33 bytes.\<close>

fun hex_loop :: "u8 list \<Rightarrow> nat \<Rightarrow> string \<Rightarrow> string option" where
  "hex_loop [] i hex = Some hex"
| "hex_loop (b # bs) i hex = Option.bind (put_string (i * 2) (hex2 b) hex) (hex_loop bs (i + 1))"

text \<open>\<open>ntowf\<close> is WinPR's hash function. \<open>None\<close>: a write outside the buffer.\<close>

definition drd_nla_sam_hash_password ::
    "(string \<Rightarrow> u8 list option) \<Rightarrow> string \<Rightarrow> string option option" where
  "drd_nla_sam_hash_password ntowf password =
     (if password = [] then Some None
      else case ntowf password of None \<Rightarrow> Some None
      | Some hash \<Rightarrow> map_option (\<lambda>hex. Some (take (c_strlen hex) hex))
                       (hex_loop hash 0 (replicate 33 nul)))"

subsection \<open>Buffers\<close>

definition c_string :: "string \<Rightarrow> bool" where
  "c_string s \<longleftrightarrow> nul \<notin> set s"

lemma c_strlen_append: "c_string s \<Longrightarrow> c_strlen (s @ nul # r) = length s"
  unfolding c_strlen_def c_string_def by (subst takeWhile_append2) auto

lemma c_strlen_replicate: "c_string s \<Longrightarrow> n \<noteq> 0 \<Longrightarrow> c_strlen (s @ replicate n nul) = length s"
  by (cases n) (simp_all add: c_strlen_append)

text \<open>Appending to a buffer that is zero up to its end, with something behind.\<close>

lemma append_zeroed:
  assumes "c_string s" "length src < n"
  shows "append_string src (s @ replicate n nul @ r) = Some ((s @ src) @ replicate (n - length src) nul @ r)"
proof -
  obtain k where n: "n = length src + Suc k" using assms(2) less_imp_Suc_add by fastforce
  have "drop (length src + 1) (replicate n nul @ r) = replicate k nul @ r" by (simp add: n)
  then show ?thesis using assms
    by (simp add: append_string_def put_string_def c_strlen_append n)
qed

lemma append_over_end:
  assumes "c_string s" "src \<noteq> []"
  shows "append_string src (s @ replicate (length src) nul @ r) =
    (if r = [] then None else Some ((s @ src) @ nul # tl r))"
proof -
  obtain k where k: "length src = Suc k" using assms(2) by (cases src) auto
  have "c_strlen (s @ replicate (length src) nul @ r) = length s"
    using assms(1) by (simp add: k c_strlen_append)
  then show ?thesis by (cases r) (simp_all add: append_string_def put_string_def)
qed

lemma c_string_append [simp]: "c_string (s @ t) \<longleftrightarrow> c_string s \<and> c_string t"
  by (auto simp: c_string_def)

lemma c_string_Nil [simp]: "c_string []"
  by (simp add: c_string_def)

lemma c_string_Cons [simp]: "c_string (c # s) \<longleftrightarrow> c \<noteq> CHR 0x00 \<and> c_string s"
  by (auto simp: c_string_def nul_def)

lemma c_string_colons [simp]: "c_string '':::''" "c_string ('':::'' @ [CHR 0x0A])"
  by (simp_all add: c_string_def nul_def)

definition sam_entry :: "string \<Rightarrow> string \<Rightarrow> string" where
  "sam_entry user hash = user @ '':::'' @ hash @ '':::'' @ [CHR 0x0A]"

text \<open>The buffer has no room for the terminator: the last write is outside what was requested.\<close>

lemma format_entry_eq:
  assumes "c_string user" "c_string hash"
  shows "drd_nla_sam_format_entry spare user hash =
    (if spare = [] then None else Some (sam_entry user hash @ nul # tl spare))"
proof -
  let ?n = "length user + length hash + 7"
  have zero: "put_string 0 user (replicate ?n nul @ spare) =
      Some (user @ replicate (?n - length user) nul @ spare)"
    using append_zeroed [of "[]" user ?n spare]
    by (simp add: append_string_def c_strlen_def c_string_def takeWhile_append takeWhile_replicate nul_def)
  have "append_string '':::'' (user @ replicate (?n - length user) nul @ spare) =
      Some ((user @ '':::'') @ replicate (length hash + 4) nul @ spare)"
    using append_zeroed [OF assms(1), of "'':::''" "?n - length user" spare] by simp
  moreover have "append_string hash ((user @ '':::'') @ replicate (length hash + 4) nul @ spare) =
      Some ((user @ '':::'' @ hash) @ replicate 4 nul @ spare)"
    using append_zeroed [of "user @ '':::''" hash "length hash + 4" spare] assms by simp
  moreover have "append_string ('':::'' @ [CHR 0x0A]) ((user @ '':::'' @ hash) @ replicate 4 nul @ spare) =
      (if spare = [] then None else Some (sam_entry user hash @ nul # tl spare))"
  proof -
    have four: "length ('':::'' @ [CHR 0x0A]) = 4" by simp
    have entry: "(user @ '':::'' @ hash) @ '':::'' @ [CHR 0x0A] = sam_entry user hash"
      by (simp add: sam_entry_def)
    have "c_string (user @ '':::'' @ hash)" using assms by simp
    from append_over_end [OF this, of "'':::'' @ [CHR 0x0A]" spare, unfolded four entry]
    show ?thesis by simp
  qed
  moreover have "length user + 3 + length hash + 4 = ?n" by simp
  ultimately show ?thesis
    unfolding drd_nla_sam_format_entry_def Let_def by (simp only: zero bind.bind_lunit)
qed

subsection \<open>Writing\<close>

text \<open>The answers to \<open>write\<close> that end the loop on \<open>n\<close> bytes.\<close>

fun writes_end :: "write_answer list \<Rightarrow> nat \<Rightarrow> bool" where
  "writes_end ws n = (n = 0 \<or> (case ws of [] \<Rightarrow> False
     | Write_error e # rest \<Rightarrow> e \<noteq> EINTR \<or> writes_end rest n
     | Wrote k # rest \<Rightarrow> writes_end rest (n - k)))"

declare writes_end.simps [simp del]

lemmas write_loop_list = write_loop.simps [of "[]"] write_loop.simps [of "w # ws" for w ws]
lemmas writes_end_list = writes_end.simps [of "[]"] writes_end.simps [of "w # ws" for w ws]

lemma write_loop_outcome:
  "writes_end ws (length entry - written) \<Longrightarrow>
   returns (write_loop ws entry (take written entry) written) (\<lambda>(file, r). is_ok r \<longrightarrow> file = entry)"
proof (induction ws arbitrary: written)
  case Nil
  then show ?case by (simp add: write_loop_list writes_end_list)
next
  case (Cons w ws)
  show ?case
  proof (cases "written < length entry")
    case False
    then show ?thesis by (simp add: write_loop_list)
  next
    case True
    show ?thesis
    proof (cases w)
      case (Wrote n)
      with True Cons.prems have "writes_end ws (length entry - (written + n))"
        by (simp add: writes_end_list)
      from Cons.IH [OF this] True Wrote show ?thesis
        by (simp add: write_loop_list take_add)
    next
      case (Write_error e)
      with True Cons show ?thesis
        by (auto simp: write_loop_list writes_end_list)
    qed
  qed
qed

lemma write_loop_not_unset: "write_loop ws entry out n = Some (f, Inl e) \<Longrightarrow> e \<noteq> Unset"
proof (induction ws arbitrary: out n)
  case Nil
  then show ?case by (auto simp: write_loop_list split: if_splits)
next
  case (Cons w ws)
  then show ?case
    by (cases w) (auto simp: write_loop_list split: if_splits)
qed

lemma write_entry_not_unset:
  assumes "drd_nla_sam_write_entry ans user hash = Some (f, Inl e)"
  shows "e \<noteq> Unset"
proof -
  from assms obtain line out r where
    "write_loop (sa_writes ans) (take (c_strlen line) line) [] 0 = Some (out, r)"
    "(case r of Inl e' \<Rightarrow> Some (out, Inl e')
      | Inr _ \<Rightarrow> (case sa_fsync ans of Some e' \<Rightarrow> Some (out, fail_io (IoErrno e'))
         | None \<Rightarrow> Some (out, ok))) = Some (f, Inl e)"
    by (auto simp: drd_nla_sam_write_entry_def Let_def bind_eq_Some_conv)
  then show ?thesis
    by (cases r) (auto dest: write_loop_not_unset split: option.splits)
qed

lemma write_entry_outcome:
  assumes "c_string user" "c_string hash" "sa_spare ans \<noteq> []"
    "writes_end (sa_writes ans) (length (sam_entry user hash))"
  shows "returns (drd_nla_sam_write_entry ans user hash)
    (\<lambda>(file, r). is_ok r \<longrightarrow> file = sam_entry user hash)"
proof -
  have "c_string (sam_entry user hash)" using assms by (simp add: sam_entry_def)
  then have "take (c_strlen (sam_entry user hash @ nul # tl (sa_spare ans)))
      (sam_entry user hash @ nul # tl (sa_spare ans)) = sam_entry user hash"
    by (simp add: c_strlen_append)
  with write_loop_outcome [of "sa_writes ans" "sam_entry user hash" 0] assms show ?thesis
    by (auto simp: drd_nla_sam_write_entry_def format_entry_eq Let_def returns_iff
        split: sum.splits option.splits)
qed

subsection \<open>Reading an entry back\<close>

text \<open>The fields between the colons of a line; the user and the NT hash are the first and the
  fourth.\<close>

fun fields :: "string \<Rightarrow> string list" where
  "fields [] = [[]]"
| "fields (c # cs) = (if c = CHR '':'' then [] # fields cs
     else (c # hd (fields cs)) # tl (fields cs))"

lemma fields_not_Nil [simp]: "fields s \<noteq> []"
  by (induction s) auto

lemma fields_append_colon: "CHR '':'' \<notin> set s \<Longrightarrow> fields (s @ CHR '':'' # t) = s # fields t"
  by (induction s) auto

definition sam_lookup :: "string \<Rightarrow> string \<Rightarrow> string option" where
  "sam_lookup line user = (case fields line of
      [u, _, _, hash, _, _, _] \<Rightarrow> if u = user then Some hash else None | _ \<Rightarrow> None)"

lemma sam_lookup_entry:
  assumes "CHR '':'' \<notin> set user" "CHR '':'' \<notin> set hash"
  shows "sam_lookup (sam_entry user hash) user = Some hash"
  using assms by (simp add: sam_lookup_def sam_entry_def fields_append_colon)

text \<open>The creation gets as far as writing the entry: the directory is there and a temporary file was
  made.\<close>

definition sam_file_made :: "sam_answers \<Rightarrow> bool" where
  "sam_file_made ans \<longleftrightarrow> (sa_mkdir ans = None \<or> sa_mkdir ans = Some EEXIST) \<and>
     (\<exists>path. sa_mkstemp ans (sa_build_filename ans [drd_nla_sam_default_dir ans, ''nla-sam-XXXXXX'']) = Inr path)"

text \<open>
  C40: Creating the account database, for a user name without a colon and a temporary file that did
  not exist before. The entry's buffer is one byte short: whenever the entry is formatted, the
  last byte is written behind the requested ones, and if no spare bytes lie there it overwrites
  the heap. In every other case the creation returns. With success exactly one file is new; its
  one entry reads back as the user and the hash; and freeing the object removes the file. With
  failure no file is left.
\<close>

theorem sam_file_outcome:
  assumes "c_string user" "c_string hash" "user \<noteq> []" "hash \<noteq> []"
    "CHR '':'' \<notin> set user" "CHR '':'' \<notin> set hash"
    "writes_end (sa_writes ans) (length (sam_entry user hash))"
    "\<forall>t p. sa_mkstemp ans t = Inr p \<longrightarrow> fs p = None"
  shows "if sam_file_made ans \<and> sa_spare ans = []
    then drd_nla_sam_file_new ans (Some user) (Some hash) fs = None
    else returns (drd_nla_sam_file_new ans (Some user) (Some hash) fs) (\<lambda>(fs', r). case r of
      Inl e \<Rightarrow> fs' = fs \<and> e \<noteq> Unset
    | Inr f \<Rightarrow> fs (sam_path f) = None \<and>
        (\<exists>line. fs' = fs(sam_path f \<mapsto> line) \<and> sam_lookup line user = Some hash) \<and>
        drd_nla_sam_file_free (Some f) fs' = fs)"
proof (cases "sam_file_made ans")
  case False
  with assms(3,4) show ?thesis
    by (cases "sa_mkdir ans") (auto simp: sam_file_made_def drd_nla_sam_file_new_def Let_def
        split: sum.splits)
next
  case True
  then obtain path where made: "sa_mkdir ans = None \<or> sa_mkdir ans = Some EEXIST"
    and Inr: "sa_mkstemp ans (sa_build_filename ans [drd_nla_sam_default_dir ans, ''nla-sam-XXXXXX'']) = Inr path"
    by (auto simp: sam_file_made_def)
  with assms(8) have fresh: "fs path = None" "fs(path := None) = fs" by (auto simp: fun_upd_idem)
  show ?thesis
  proof (cases "sa_spare ans = []")
    case none: True
    with assms(1,2) have "drd_nla_sam_write_entry ans user hash = None"
      by (simp add: drd_nla_sam_write_entry_def format_entry_eq)
    with assms(3,4) made Inr True none show ?thesis
      by (auto simp: drd_nla_sam_file_new_def Let_def)
  next
    case False
    from write_entry_outcome [OF assms(1,2) False assms(7)] obtain out r where w:
      "drd_nla_sam_write_entry ans user hash = Some (out, r)" "is_ok r \<longrightarrow> out = sam_entry user hash"
      by (auto simp: returns_iff)
    have r: "r \<noteq> Inl Unset" using w(1) write_entry_not_unset by blast
    show ?thesis
      using assms(3,4) made Inr w fresh r False sam_lookup_entry [OF assms(5,6)]
      by (cases r) (auto simp: drd_nla_sam_file_new_def Let_def drd_nla_sam_file_free_def)
  qed
qed

definition sample_sam_answers :: sam_answers where
  "sample_sam_answers = \<lparr>sa_runtime_dir = Some ''/run'', sa_tmp_dir = ''/tmp'',
     sa_build_filename = concat, sa_mkdir = Some EEXIST, sa_mkstemp = (\<lambda>t. Inr ''/run/drd/sam''),
     sa_spare = [], sa_writes = [Write_error EINTR, Wrote 5, Wrote 100], sa_fsync = None\<rparr>"

lemma sam_file_outcome_witness:
  "drd_nla_sam_file_new sample_sam_answers (Some ''al'') (Some ''0f'') Map.empty = None \<and>
   returns (drd_nla_sam_file_new (sample_sam_answers\<lparr>sa_spare := ''xyz''\<rparr>) (Some ''al'') (Some ''0f'') Map.empty)
    (\<lambda>(fs', r). case r of Inl e \<Rightarrow> fs' = Map.empty | Inr f \<Rightarrow>
      (\<exists>line. fs' = [sam_path f \<mapsto> line] \<and> sam_lookup line ''al'' = Some ''0f''))"
proof
  have facts: "c_string ''al''" "c_string ''0f''"
    "''al'' \<noteq> []" "''0f'' \<noteq> []" "CHR '':'' \<notin> set ''al''" "CHR '':'' \<notin> set ''0f''"
    "writes_end (sa_writes (sample_sam_answers\<lparr>sa_spare := sp\<rparr>)) (length (sam_entry ''al'' ''0f''))"
    "\<forall>t p. sa_mkstemp (sample_sam_answers\<lparr>sa_spare := sp\<rparr>) t = Inr p \<longrightarrow> Map.empty p = None" for sp
    by (simp_all add: sample_sam_answers_def sam_entry_def writes_end_list EINTR_def)
  have "sam_file_made (sample_sam_answers\<lparr>sa_spare := []\<rparr>)"
    by (simp add: sam_file_made_def sample_sam_answers_def)
  with sam_file_outcome [OF facts, of "[]"] show
    "drd_nla_sam_file_new sample_sam_answers (Some ''al'') (Some ''0f'') Map.empty = None"
    by (simp add: sample_sam_answers_def)
  have "sa_spare (sample_sam_answers\<lparr>sa_spare := ''xyz''\<rparr>) \<noteq> []" by simp
  with sam_file_outcome [OF facts, of "''xyz''"] show "returns (drd_nla_sam_file_new
      (sample_sam_answers\<lparr>sa_spare := ''xyz''\<rparr>) (Some ''al'') (Some ''0f'') Map.empty)
    (\<lambda>(fs', r). case r of Inl e \<Rightarrow> fs' = Map.empty | Inr f \<Rightarrow>
      (\<exists>line. fs' = [sam_path f \<mapsto> line] \<and> sam_lookup line ''al'' = Some ''0f''))"
    by (auto intro: returns_mono split: sum.splits)
qed

text \<open>The requested buffer alone is one byte too short for every entry.\<close>

lemma format_entry_overflows:
  "c_string user \<Longrightarrow> c_string hash \<Longrightarrow> drd_nla_sam_format_entry [] user hash = None"
  by (simp add: format_entry_eq)

subsection \<open>The hash\<close>

lemma put_zeroed:
  assumes "length src < n" "length s = off"
  shows "put_string off src (s @ replicate n nul) = Some ((s @ src) @ replicate (n - length src) nul)"
proof -
  from assms(1) obtain k where n: "n = length src + Suc k" using less_imp_Suc_add by fastforce
  have "drop (length src + 1) (replicate n nul) = replicate k nul" by (simp add: n)
  with assms(2) show ?thesis by (auto simp: put_string_def n)
qed

lemma length_hex2 [simp]: "length (hex2 b) = 2"
  by (simp add: hex2_def)

lemma hex_loop_eq:
  "length s = i * 2 \<Longrightarrow> length bs * 2 < n \<Longrightarrow>
   hex_loop bs i (s @ replicate n nul) =
     Some (s @ concat (map hex2 bs) @ replicate (n - length bs * 2) nul)"
proof (induction bs arbitrary: s i n)
  case (Cons b bs)
  have "put_string (i * 2) (hex2 b) (s @ replicate n nul) =
      Some ((s @ hex2 b) @ replicate (n - 2) nul)"
    using put_zeroed [of "hex2 b" n s "i * 2"] Cons.prems by simp
  with Cons.IH [of "s @ hex2 b" "i + 1" "n - 2"] Cons.prems show ?case by simp
qed simp

definition hex_value :: "char \<Rightarrow> nat" where
  "hex_value c = length (takeWhile (\<lambda>d. d \<noteq> c) ''0123456789abcdef'')"

fun unhex :: "string \<Rightarrow> u8 list" where
  "unhex (a # b # cs) = word_of_nat (16 * hex_value a + hex_value b) # unhex cs"
| "unhex _ = []"

lemma hex_digit_facts: "n < 16 \<Longrightarrow> hex_value (hex_digit n) = n \<and> hex_digit n \<noteq> nul"
proof -
  have "\<forall>n\<in>set [0..<16]. hex_value (hex_digit n) = n \<and> hex_digit n \<noteq> nul" by code_simp
  then show "n < 16 \<Longrightarrow> hex_value (hex_digit n) = n \<and> hex_digit n \<noteq> nul" by simp
qed

lemma unhex_hex [simp]: "unhex (concat (map hex2 bs)) = bs"
proof (induction bs)
  case (Cons b bs)
  have "unat b < 256" using unsigned_less [of b] by simp
  then have "unat b div 16 < 16" "unat b mod 16 < 16" by simp_all
  moreover have "16 * (unat b div 16) + unat b mod 16 = unat b" by simp
  ultimately show ?case using Cons by (simp add: hex2_def hex_digit_facts del: of_nat_add)
qed simp

lemma c_string_hex: "c_string (concat (map hex2 bs))"
proof (induction bs)
  case (Cons b bs)
  have "unat b < 256" using unsigned_less [of b] by simp
  then have "unat b div 16 < 16" "unat b mod 16 < 16" by simp_all
  with Cons show ?case using hex_digit_facts by (simp add: hex2_def nul_def)
qed simp

text \<open>The hash is written inside its buffer of 33 bytes and is the hexadecimal form of the 16
  bytes that WinPR computed.\<close>

lemma hash_password_hex:
  assumes "\<forall>h. ntowf password = Some h \<longrightarrow> length h = 16"
  shows "returns (drd_nla_sam_hash_password ntowf password)
    (\<lambda>r. \<forall>hex. r = Some hex \<longrightarrow> ntowf password = Some (unhex hex) \<and> length hex = 32 \<and> c_string hex)"
proof (cases "ntowf password")
  case None
  then show ?thesis by (simp add: drd_nla_sam_hash_password_def)
next
  case (Some h)
  with assms have len: "length h = 16" by simp
  have "hex_loop h 0 (replicate 33 nul) = Some (concat (map hex2 h) @ replicate 1 nul)"
    using hex_loop_eq [of "[]" 0 h 33] len by simp
  moreover have "length (concat (map hex2 h)) = 32"
    using len by (simp add: length_concat comp_def sum_list_triv)
  ultimately show ?thesis using Some c_string_hex [of h] c_strlen_replicate [of "concat (map hex2 h)" 1]
    by (simp add: drd_nla_sam_hash_password_def)
qed

end
