(* ===== verification/Local_Session.thy ===== *)
theory Local_Session
  imports Drd_Prelude
begin

text \<open>
  The PAM session of a TLS login (\<^verbatim>\<open>src/security/drd_local_session.c\<close>): the conversation
  callback, opening and closing. PAM answers each call with a status; what the code does is the
  list of its calls, each with the answer it got.
\<close>

subsection \<open>The conversation\<close>

datatype msg_style = PAM_PROMPT_ECHO_OFF | PAM_PROMPT_ECHO_ON | PAM_ERROR_MSG | PAM_TEXT_INFO | Other_style

datatype pam_status = PAM_SUCCESS | PAM_CONV_ERR | PAM_NEW_AUTHTOK_REQD | PAM_CRED_UNAVAIL | Other_status nat

text \<open>The loop over the messages: \<open>done\<close> are the responses filled so far. On an error the array is
  freed, and the copies in it are lost: \<open>Inl\<close> names them.\<close>

fun conv_loop ::
    "(nat \<Rightarrow> bool) \<Rightarrow> string option \<Rightarrow> msg_style list \<Rightarrow> string option list \<Rightarrow>
     string list + string option list" where
  "conv_loop dup password [] filled = Inr filled"
| "conv_loop dup password (m # ms) filled =
     (let failed = Inl [s. Some s \<leftarrow> filled] in
      case m of
        PAM_PROMPT_ECHO_OFF \<Rightarrow> (case password of None \<Rightarrow> failed
          | Some p \<Rightarrow> if \<not> dup (length filled) then failed
                      else conv_loop dup password ms (filled @ [Some p]))
      | PAM_PROMPT_ECHO_ON \<Rightarrow> failed
      | PAM_ERROR_MSG \<Rightarrow> conv_loop dup password ms (filled @ [None])
      | PAM_TEXT_INFO \<Rightarrow> conv_loop dup password ms (filled @ [None])
      | Other_style \<Rightarrow> failed)"

text \<open>The status, the responses handed to PAM, and the copies of the password that nobody owns.
  \<open>conv\<close> is the callback's data, \<open>dup i\<close> whether the \<open>i\<close>-th \<^verbatim>\<open>strdup\<close> succeeds.\<close>

definition drd_local_session_pam_conv ::
    "bool \<Rightarrow> (nat \<Rightarrow> bool) \<Rightarrow> string option option \<Rightarrow> msg_style list \<Rightarrow>
     pam_status \<times> string option list option \<times> string list" where
  "drd_local_session_pam_conv calloc dup conv msgs =
     (if \<not> calloc then (PAM_CONV_ERR, None, [])
      else case conv_loop dup (Option.bind conv id) msgs [] of
        Inl lost \<Rightarrow> (PAM_CONV_ERR, None, lost)
      | Inr responses \<Rightarrow> (PAM_SUCCESS, Some responses, []))"

subsection \<open>Opening and closing\<close>

datatype pam_item = PAM_RHOST | PAM_USER_HOST

datatype pam_event =
    Pam_start string string pam_status
  | Pam_set_item pam_item string
  | Pam_authenticate pam_status
  | Pam_acct_mgmt pam_status
  | Pam_establish_cred pam_status
  | Pam_open_session pam_status
  | Pam_close_session
  | Pam_delete_cred
  | Pam_end

record pam_answers =
  pm_start :: pam_status
  pm_authenticate :: pam_status
  pm_acct_mgmt :: pam_status
  pm_setcred :: pam_status
  pm_open_session :: pam_status
  pm_has_user_host :: bool  \<comment> \<open>\<open>PAM_USER_HOST\<close> is defined by the platform\<close>

record local_session =
  ls_handle :: bool
  ls_username :: "string option"

definition drd_local_session_scrub_string :: "string option \<Rightarrow> string option" where
  "drd_local_session_scrub_string v = None"

definition drd_local_session_cleanup_handle :: "bool \<Rightarrow> pam_event list" where
  "drd_local_session_cleanup_handle handle =
     (if \<not> handle then [] else [Pam_close_session, Pam_delete_cred, Pam_end])"

definition empty_arg :: "string option \<Rightarrow> bool" where
  "empty_arg s \<longleftrightarrow> s = None \<or> s = Some []"

text \<open>The items set on the handle before the authentication.\<close>

definition pam_items :: "pam_answers \<Rightarrow> string option \<Rightarrow> string option \<Rightarrow> pam_event list" where
  "pam_items ans domain remote_host =
     (case remote_host of None \<Rightarrow> [] | Some h \<Rightarrow> [Pam_set_item PAM_RHOST h]) @
     (case domain of None \<Rightarrow> [] | Some d \<Rightarrow>
        if d \<noteq> [] \<and> pm_has_user_host ans then [Pam_set_item PAM_USER_HOST d] else [])"

definition drd_local_session_new ::
    "pam_answers \<Rightarrow> string option \<Rightarrow> string option \<Rightarrow> string option \<Rightarrow> string option \<Rightarrow> string option \<Rightarrow>
     pam_event list \<times> local_session res" where
  "drd_local_session_new ans pam_service username domain password remote_host =
     (if empty_arg pam_service \<or> empty_arg username \<or> empty_arg password then ([], Inl Unset)
      else let e0 = [Pam_start (the pam_service) (the username) (pm_start ans)] in
      if pm_start ans \<noteq> PAM_SUCCESS then (e0, fail_io IoFailed)
      else let e1 = e0 @ pam_items ans domain remote_host @ [Pam_authenticate (pm_authenticate ans)] in
      if pm_authenticate ans \<noteq> PAM_SUCCESS then (e1 @ [Pam_end], fail_io IoPermissionDenied)
      else let e2 = e1 @ [Pam_acct_mgmt (pm_acct_mgmt ans)] in
      if pm_acct_mgmt ans \<noteq> PAM_SUCCESS \<and> pm_acct_mgmt ans \<noteq> PAM_NEW_AUTHTOK_REQD
      then (e2 @ [Pam_end], fail_io IoPermissionDenied)
      else let e3 = e2 @ [Pam_establish_cred (pm_setcred ans)] in
      if pm_setcred ans \<noteq> PAM_SUCCESS \<and> pm_setcred ans \<noteq> PAM_CRED_UNAVAIL
      then (e3 @ [Pam_end], fail_io IoFailed)
      else let e4 = e3 @ [Pam_open_session (pm_open_session ans)] in
      if pm_open_session ans \<noteq> PAM_SUCCESS
      then (e4 @ [Pam_delete_cred, Pam_end], fail_io IoFailed)
      else (e4, Inr \<lparr>ls_handle = True, ls_username = username\<rparr>))"

text \<open>What is left of the object when its memory is given back.\<close>

definition drd_local_session_close :: "local_session option \<Rightarrow> local_session option \<times> pam_event list" where
  "drd_local_session_close session =
     (case session of None \<Rightarrow> (None, [])
      | Some s \<Rightarrow> (Some (s\<lparr>ls_handle := False,
            ls_username := drd_local_session_scrub_string (ls_username s)\<rparr>),
          drd_local_session_cleanup_handle (ls_handle s)))"

subsection \<open>The order PAM demands\<close>

text \<open>The state of a PAM transaction: whether the user is authenticated and his account valid,
  whether credentials are set, and whether a session is open. A call out of order has no next
  state.\<close>

datatype pam_fact = Authenticated | Account_valid | Credentials_set | Session_open

datatype pam_state = Pam_none | Pam_up "pam_fact set" | Pam_over

definition reached :: "bool \<Rightarrow> pam_fact \<Rightarrow> pam_fact set \<Rightarrow> pam_state" where
  "reached b f fs = Pam_up (if b then insert f fs else fs)"

primrec pam_next :: "pam_event \<Rightarrow> pam_state \<Rightarrow> pam_state option" where
  "pam_next (Pam_start v u st) s =
     (if s = Pam_none then Some (if st = PAM_SUCCESS then Pam_up {} else Pam_over) else None)"
| "pam_next (Pam_set_item i v) s = (if s = Pam_up {} then Some s else None)"
| "pam_next (Pam_authenticate st) s =
     (if s = Pam_up {} then Some (reached (st = PAM_SUCCESS) Authenticated {}) else None)"
| "pam_next (Pam_acct_mgmt st) s =
     (if s = Pam_up {Authenticated}
      then Some (reached (st \<in> {PAM_SUCCESS, PAM_NEW_AUTHTOK_REQD}) Account_valid {Authenticated})
      else None)"
| "pam_next (Pam_establish_cred st) s =
     (if s = Pam_up {Authenticated, Account_valid}
      then Some (reached (st \<in> {PAM_SUCCESS, PAM_CRED_UNAVAIL}) Credentials_set
        {Authenticated, Account_valid}) else None)"
| "pam_next (Pam_open_session st) s =
     (if s = Pam_up {Authenticated, Account_valid, Credentials_set}
      then Some (reached (st = PAM_SUCCESS) Session_open
        {Authenticated, Account_valid, Credentials_set}) else None)"
| "pam_next Pam_close_session s = (case s of Pam_up fs \<Rightarrow>
     if Session_open \<in> fs then Some (Pam_up (fs - {Session_open})) else None | _ \<Rightarrow> None)"
| "pam_next Pam_delete_cred s = (case s of Pam_up fs \<Rightarrow>
     if Credentials_set \<in> fs \<and> Session_open \<notin> fs then Some (Pam_up (fs - {Credentials_set}))
     else None | _ \<Rightarrow> None)"
| "pam_next Pam_end s = (case s of Pam_up fs \<Rightarrow>
     if Credentials_set \<notin> fs \<and> Session_open \<notin> fs then Some Pam_over else None | _ \<Rightarrow> None)"

fun pam_run :: "pam_event list \<Rightarrow> pam_state \<Rightarrow> pam_state option" where
  "pam_run [] s = Some s"
| "pam_run (e # es) s = Option.bind (pam_next e s) (pam_run es)"

lemma pam_run_append: "pam_run (es @ fs) s = Option.bind (pam_run es s) (pam_run fs)"
  by (induction es arbitrary: s) (auto split: bind_splits)

lemma pam_facts: "UNIV = {Authenticated, Account_valid, Credentials_set, Session_open}"
  by (auto intro: pam_fact.exhaust)

lemma pam_run_items:
  "pam_run (pam_items ans domain host) (Pam_up {}) = Some (Pam_up {})"
  by (simp add: pam_items_def pam_run_append split: option.splits)

definition pam_accepts :: "pam_answers \<Rightarrow> bool" where
  "pam_accepts ans \<longleftrightarrow> pm_start ans = PAM_SUCCESS \<and> pm_authenticate ans = PAM_SUCCESS \<and>
     pm_acct_mgmt ans \<in> {PAM_SUCCESS, PAM_NEW_AUTHTOK_REQD} \<and>
     pm_setcred ans \<in> {PAM_SUCCESS, PAM_CRED_UNAVAIL} \<and> pm_open_session ans = PAM_SUCCESS"

text \<open>
  A local session is opened exactly when service, user and password are given and PAM accepts
  authentication, account, credentials and session. The calls always follow PAM's order; a failure
  leaves no transaction behind, and closing an opened session ends its session, its credentials
  and the transaction, and scrubs the user's name.
\<close>

theorem local_session_outcome:
  "case drd_local_session_new ans service user domain password host of (calls, r) \<Rightarrow>
    (is_ok r \<longleftrightarrow> \<not> empty_arg service \<and> \<not> empty_arg user \<and> \<not> empty_arg password \<and>
      pam_accepts ans) \<and>
    (case r of
       Inl e \<Rightarrow> pam_run calls Pam_none \<in> {Some Pam_none, Some Pam_over}
     | Inr s \<Rightarrow> pam_run calls Pam_none = Some (Pam_up UNIV) \<and>
         (let (s', es) = drd_local_session_close (Some s)
          in pam_run (calls @ es) Pam_none = Some Pam_over \<and>
             s' = Some \<lparr>ls_handle = False, ls_username = None\<rparr>))"
proof (cases "empty_arg service \<or> empty_arg user \<or> empty_arg password \<or> pm_start ans \<noteq> PAM_SUCCESS")
  case True
  then show ?thesis by (auto simp: drd_local_session_new_def Let_def pam_accepts_def)
next
  case False
  then have "\<not> empty_arg service" "\<not> empty_arg user" "\<not> empty_arg password"
    "pm_start ans = PAM_SUCCESS" by simp_all
  note started = this
  note run = drd_local_session_new_def Let_def pam_accepts_def pam_run_append
    pam_run_items reached_def started
  show ?thesis
  proof (cases "pm_authenticate ans = PAM_SUCCESS \<and>
      (pm_acct_mgmt ans = PAM_SUCCESS \<or> pm_acct_mgmt ans = PAM_NEW_AUTHTOK_REQD)")
    case False
    then show ?thesis by (auto simp: run)
  next
    case valid: True
    have facts: "insert Account_valid {Authenticated} = {Authenticated, Account_valid}"
      "insert Credentials_set {Authenticated, Account_valid} =
        {Authenticated, Account_valid, Credentials_set}"
      "insert Session_open {Authenticated, Account_valid, Credentials_set} = UNIV"
      "{Authenticated, Account_valid, Credentials_set} - {Credentials_set} = {Authenticated, Account_valid}"
      "UNIV - {Session_open} = {Authenticated, Account_valid, Credentials_set}"
      by (auto simp: pam_facts)
    show ?thesis
    proof (cases "pm_setcred ans = PAM_SUCCESS \<or> pm_setcred ans = PAM_CRED_UNAVAIL")
      case False
      with valid show ?thesis by (auto simp: run facts)
    next
      case True
      with valid show ?thesis
        by (cases "pm_open_session ans = PAM_SUCCESS")
          (auto simp: run facts drd_local_session_close_def drd_local_session_cleanup_handle_def
            drd_local_session_scrub_string_def)
    qed
  qed
qed

text \<open>The password is given only to prompts without echo.\<close>

lemma conv_loop_answers:
  "conv_loop dup password ms filled = Inr rs \<Longrightarrow>
   rs = filled @ map (\<lambda>m. if m = PAM_PROMPT_ECHO_OFF then password else None) ms"
proof (induction ms arbitrary: filled)
  case (Cons m ms)
  from Cons.prems have "conv_loop dup password ms
      (filled @ [if m = PAM_PROMPT_ECHO_OFF then password else None]) = Inr rs"
    by (auto simp: Let_def split: msg_style.splits option.splits if_splits)
  from Cons.IH [OF this] show ?case by simp
qed simp

text \<open>A prompt that the code refuses, after one it answered, loses the copy of the password: only
  the array is freed.\<close>

lemma refused_prompt_loses_password:
  "drd_local_session_pam_conv True (\<lambda>_. True) (Some (Some p)) [PAM_PROMPT_ECHO_OFF, PAM_PROMPT_ECHO_ON] =
     (PAM_CONV_ERR, None, [p])"
  by (simp add: drd_local_session_pam_conv_def)

end
