(* ===== verification/System_Info.thy ===== *)
theory System_Info
  imports Nla_Sam "HOL-Library.Sublist"
begin

text \<open>
  The detection of a virtual machine (\<^verbatim>\<open>src/utils/drd_system_info.c\<close>): three files of the kernel
  are searched for the names of hypervisors, once; the answer is kept.
\<close>

definition vm_markers :: "string list" where
  "vm_markers = [''kvm'', ''qemu'', ''vmware'', ''virtualbox'', ''hyper-v'', ''hyperv'', ''xen'',
     ''bhyve'', ''bochs'', ''parallels'', ''rhev'', ''ovirt'', ''openstack'', ''virtual machine'']"

text \<open>The lower case of ASCII letters, and the search for a substring.\<close>

definition ascii_down :: "char \<Rightarrow> char" where
  "ascii_down c = (let n = of_char c in if 65 \<le> n \<and> n \<le> (90::nat) then char_of (n + 32) else c)"

fun strstr :: "string \<Rightarrow> string \<Rightarrow> bool" where
  "strstr m [] = (m = [])"
| "strstr m (c # s) = (take (length m) (c # s) = m \<or> strstr m s)"

definition drd_system_text_contains_vm_marker :: "string option \<Rightarrow> bool" where
  "drd_system_text_contains_vm_marker text =
     (case text of None \<Rightarrow> False
      | Some t \<Rightarrow> let lower = map ascii_down t in list_ex (\<lambda>m. strstr m lower) vm_markers)"

text \<open>A C string ends at its first zero byte.\<close>

definition drd_system_file_contains_vm_marker :: "(string \<Rightarrow> string option) \<Rightarrow> string option \<Rightarrow> bool" where
  "drd_system_file_contains_vm_marker files path =
     (case path of None \<Rightarrow> False
      | Some p \<Rightarrow> (case files p of None \<Rightarrow> False
         | Some content \<Rightarrow>
             drd_system_text_contains_vm_marker (Some (takeWhile (\<lambda>c. c \<noteq> nul) content))))"

definition vm_files :: "string list" where
  "vm_files = [''/sys/class/dmi/id/product_name'', ''/sys/class/dmi/id/sys_vendor'', ''/proc/cpuinfo'']"

record system_info =
  si_initialized :: bool
  si_cached :: bool

definition system_info_static :: system_info where
  "system_info_static = \<lparr>si_initialized = False, si_cached = False\<rparr>"

definition drd_system_is_virtual_machine ::
    "(string \<Rightarrow> string option) \<Rightarrow> system_info \<Rightarrow> system_info \<times> bool" where
  "drd_system_is_virtual_machine files st =
     (let st' = (if si_initialized st then st
        else \<lparr>si_initialized = True,
              si_cached = list_ex (\<lambda>p. drd_system_file_contains_vm_marker files (Some p)) vm_files\<rparr>)
      in (st', si_cached st'))"

lemma strstr_sublist: "strstr m s \<longleftrightarrow> sublist m s"
proof (induction s)
  case (Cons c s)
  have "take (length m) (c # s) = m \<longleftrightarrow> prefix m (c # s)"
    by (metis append_take_drop_id prefix_def take_is_prefix append_eq_conv_conj)
  with Cons show ?case by (simp add: sublist_Cons_right)
qed auto

text \<open>Over any number of calls, whatever the files become, the answer is that of the first: one of
  the files contained, up to letter case, the name of a hypervisor.\<close>

fun vm_answers :: "(string \<Rightarrow> string option) list \<Rightarrow> system_info \<Rightarrow> bool list" where
  "vm_answers [] st = []"
| "vm_answers (f # fs) st = (let (st', b) = drd_system_is_virtual_machine f st in b # vm_answers fs st')"

lemma vm_answers_cached: "si_initialized st \<Longrightarrow> vm_answers fs st = map (\<lambda>_. si_cached st) fs"
  by (induction fs) (simp_all add: drd_system_is_virtual_machine_def)

lemma vm_detection_stable:
  "vm_answers (f # fs) system_info_static = map (\<lambda>_. \<exists>p\<in>set vm_files. \<exists>t m. f p = Some t \<and>
     m \<in> set vm_markers \<and> sublist m (map ascii_down (takeWhile (\<lambda>c. c \<noteq> nul) t))) (f # fs)"
proof -
  have "drd_system_file_contains_vm_marker f (Some p) \<longleftrightarrow> (\<exists>t m. f p = Some t \<and>
      m \<in> set vm_markers \<and> sublist m (map ascii_down (takeWhile (\<lambda>c. c \<noteq> nul) t)))" for p
    by (auto simp: drd_system_file_contains_vm_marker_def drd_system_text_contains_vm_marker_def
        strstr_sublist list_ex_iff Let_def split: option.splits)
  then show ?thesis
    by (simp add: drd_system_is_virtual_machine_def system_info_static_def vm_answers_cached
        list_ex_iff)
qed

end
