(* ===== verification/Rdp_Listener.thy ===== *)
theory Rdp_Listener
  imports Rdp_Session_Life Nla_Sam Local_Session Tls_Credentials Config System_Info
begin

text \<open>
  The RDP listener (\<^verbatim>\<open>src/transport/drd_rdp_listener.c\<close>): the settings of a connection, the
  contexts of its peers, FreeRDP's callbacks, and the service that accepts one session at a time.

  The world of a listener is the listener, the runtime, the peer contexts by their number (which
  is also the address of the peer's session), the temporary files, the TLS objects and the cached
  answer of the virtual machine detection.
\<close>

subsection \<open>State\<close>

record listener =
  li_bind_address :: string
  li_port :: nat
  li_sessions :: "nat list"
  li_has_runtime :: bool
  li_nla_username :: "string option"
  li_nla_password :: "string option"
  li_nla_hash :: "string option"
  li_nla_enabled :: bool
  li_pam_service :: string
  li_runtime_mode :: runtime_mode
  li_options :: encoding_options
  li_is_bound :: bool
  li_cancellable :: bool
  li_delegate :: bool
  li_session_cb :: bool

text \<open>The strings of the client's login that the settings hold.\<close>

record login =
  lg_username :: "string option"
  lg_password :: "string option"
  lg_domain :: "string option"

record drd_peer_context =
  px_session :: rdp_session
  px_runtime :: bool
  px_nla_sam :: "nla_sam_file option"
  px_vcm :: bool
  px_listener :: bool
  px_login :: login
  px_hostname :: "string option"
  px_input :: bool  \<comment> \<open>the input callbacks are installed\<close>

record listener_world =
  lw_listener :: listener
  lw_runtime :: server_runtime
  lw_peers :: "nat \<rightharpoonup> drd_peer_context"
  lw_files :: files
  lw_tls :: tls_credentials
  lw_store :: tls_store
  lw_vm :: system_info
  lw_leaked :: "drd_peer_context list"  \<comment> \<open>contexts whose peer was freed without them\<close>

definition drd_rdp_listener_is_system_mode :: "listener \<Rightarrow> bool" where
  "drd_rdp_listener_is_system_mode self \<longleftrightarrow> li_runtime_mode self = RUNTIME_MODE_SYSTEM"

definition drd_rdp_listener_is_handover_mode :: "listener \<Rightarrow> bool" where
  "drd_rdp_listener_is_handover_mode self \<longleftrightarrow> li_runtime_mode self = RUNTIME_MODE_HANDOVER"

definition drd_rdp_listener_init :: "encoding_options \<Rightarrow> listener" where
  "drd_rdp_listener_init zero_options =
     \<lparr>li_bind_address = [], li_port = 0, li_sessions = [], li_has_runtime = False,
      li_nla_username = None, li_nla_password = None, li_nla_hash = None, li_nla_enabled = False,
      li_pam_service = [], li_runtime_mode = RUNTIME_MODE_USER, li_options = zero_options,
      li_is_bound = False, li_cancellable = False, li_delegate = False, li_session_cb = False\<rparr>"

text \<open>\<open>None\<close> is the NULL of a violated precondition.\<close>

definition drd_rdp_listener_new ::
    "string option \<Rightarrow> nat \<Rightarrow> encoding_options \<Rightarrow> bool \<Rightarrow> string option \<Rightarrow> string option \<Rightarrow>
     string option \<Rightarrow> runtime_mode \<Rightarrow> listener option" where
  "drd_rdp_listener_new bind_address port options nla_enabled nla_username nla_password pam_service mode =
     (if empty_arg pam_service then None
      else if nla_enabled \<and> (empty_arg nla_username \<or> empty_arg nla_password) then None
      else Some ((drd_rdp_listener_init options)
        \<lparr>li_bind_address := (case bind_address of None \<Rightarrow> ''0.0.0.0'' | Some a \<Rightarrow> a), li_port := port,
         li_has_runtime := True, li_nla_enabled := nla_enabled,
         li_nla_username := (if nla_enabled then nla_username else None),
         li_nla_password := (if nla_enabled then nla_password else None),
         li_pam_service := the pam_service, li_runtime_mode := mode\<rparr>))"

definition drd_rdp_listener_has_active_session :: "listener \<Rightarrow> bool" where
  "drd_rdp_listener_has_active_session self \<longleftrightarrow> length (li_sessions self) > 0"

definition drd_rdp_listener_update_system_encoding ::
    "nat \<Rightarrow> nat \<Rightarrow> listener \<Rightarrow> server_runtime \<Rightarrow> server_runtime" where
  "drd_rdp_listener_update_system_encoding client_width client_height self rt =
     (if \<not> drd_rdp_listener_is_system_mode self then rt
      else if \<not> li_has_runtime self then rt
      else let updated = (if client_width > 0 \<and> client_height > 0
             then (li_options self)\<lparr>o_width := client_width, o_height := client_height\<rparr>
             else li_options self)
      in drd_server_runtime_set_encoding_options updated rt)"

definition drd_rdp_listener_ensure_nla_hash ::
    "(string \<Rightarrow> u8 list option) \<Rightarrow> listener \<Rightarrow> (listener \<times> unit res) option" where
  "drd_rdp_listener_ensure_nla_hash ntowf self =
     (if \<not> li_nla_enabled self then Some (self, ok)
      else if li_nla_hash self \<noteq> None then Some (self, ok)
      else case li_nla_password self of
        None \<Rightarrow> Some (self, fail_io IoFailed)
      | Some password \<Rightarrow>
          map_option (\<lambda>hash. case hash of
              None \<Rightarrow> (self, fail_io IoFailed)
            | Some h \<Rightarrow> (self\<lparr>li_nla_hash := Some h, li_nla_password := None\<rparr>, ok))
            (drd_nla_sam_hash_password ntowf password))"

text \<open>\<^verbatim>\<open>g_ptr_array_remove_fast\<close>: the last element takes the place of the removed one.\<close>

definition remove_fast :: "'a \<Rightarrow> 'a list \<Rightarrow> 'a list" where
  "remove_fast x xs = (let before = takeWhile (\<lambda>y. y \<noteq> x) xs;
      after = drop (length before + 1) xs
    in if after = [] then before else before @ [last after] @ butlast after)"

definition drd_rdp_listener_session_closed ::
    "nat \<Rightarrow> listener \<times> server_runtime \<Rightarrow> (listener \<times> server_runtime) \<times> x11_event list \<times> bool" where
  "drd_rdp_listener_session_closed session st =
     (case st of (self, rt) \<Rightarrow>
      if session \<notin> set (li_sessions self) then (st, [], False)
      else let s = self\<lparr>li_sessions := remove_fast session (li_sessions self)\<rparr> in
      if li_sessions s = [] \<and> li_has_runtime s
      then let (rt', es) = drd_server_runtime_stop rt in ((s, rt'), es, True)
      else ((s, rt), [], True))"

definition drd_rdp_listener_on_session_closed ::
    "nat \<Rightarrow> listener \<times> server_runtime \<Rightarrow> (listener \<times> server_runtime) \<times> x11_event list" where
  "drd_rdp_listener_on_session_closed session st =
     (let (st', es, _) = drd_rdp_listener_session_closed session st in (st', es))"

subsection \<open>The settings of a connection\<close>

datatype bool_setting =
    FreeRDP_ServerMode | FreeRDP_SurfaceFrameMarkerEnabled | FreeRDP_FrameMarkerCommandEnabled
  | FreeRDP_FastPathOutput | FreeRDP_NetworkAutoDetect | FreeRDP_RefreshRect
  | FreeRDP_SupportDisplayControl | FreeRDP_SupportMonitorLayoutPdu | FreeRDP_RemoteFxCodec
  | FreeRDP_RemoteFxImageCodec | FreeRDP_NSCodec | FreeRDP_GfxH264 | FreeRDP_GfxAVC444v2
  | FreeRDP_GfxAVC444 | FreeRDP_GfxProgressive | FreeRDP_GfxProgressiveV2
  | FreeRDP_SupportGraphicsPipeline | FreeRDP_HasExtendedMouseEvent | FreeRDP_HasHorizontalWheel
  | FreeRDP_HasRelativeMouseEvent | FreeRDP_UnicodeInput | FreeRDP_HasQoeEvent
  | FreeRDP_GfxSmallCache | FreeRDP_GfxThinClient | FreeRDP_SupportMultitransport
  | FreeRDP_TlsSecurity | FreeRDP_NlaSecurity | FreeRDP_RdpSecurity | FreeRDP_RdstlsSecurity

datatype uint_setting =
    FreeRDP_DesktopWidth | FreeRDP_DesktopHeight | FreeRDP_ColorDepth | FreeRDP_EncryptionLevel
  | FreeRDP_VCFlags | FreeRDP_VCChunkSize | FreeRDP_PointerCacheSize
  | FreeRDP_MultifragMaxRequestSize | FreeRDP_OsMajorType | FreeRDP_OsMinorType

datatype uint_value = Num nat | ENCRYPTION_LEVEL_CLIENT_COMPATIBLE | VCCAPS_COMPR_SC
  | OSMAJORTYPE_UNIX | OSMINORTYPE_PSEUDO_XSERVER

datatype setting_write =
    Set_bool bool_setting bool
  | Set_uint uint_setting uint_value
  | Set_ntlm_sam_file "string option"

record rdp_settings =
  fs_bool :: "bool_setting \<Rightarrow> bool"
  fs_uint :: "uint_setting \<Rightarrow> uint_value"
  fs_ntlm_sam_file :: "string option"
  fs_tls :: tls_settings

primrec do_write :: "setting_write \<Rightarrow> rdp_settings \<Rightarrow> rdp_settings" where
  "do_write (Set_bool k v) st = st\<lparr>fs_bool := (fs_bool st)(k := v)\<rparr>"
| "do_write (Set_uint k v) st = st\<lparr>fs_uint := (fs_uint st)(k := v)\<rparr>"
| "do_write (Set_ntlm_sam_file v) st = st\<lparr>fs_ntlm_sam_file := v\<rparr>"

text \<open>A chain of \<open>!set(..) || !set(..)\<close>: it stops at the first write that FreeRDP refuses.\<close>

fun write_settings :: "(setting_write \<Rightarrow> bool) \<Rightarrow> setting_write list \<Rightarrow> rdp_settings \<Rightarrow> rdp_settings \<times> bool" where
  "write_settings accept [] st = (st, True)"
| "write_settings accept (w # ws) st =
     (if \<not> accept w then (st, False) else write_settings accept ws (do_write w st))"

definition base_settings :: "nat \<Rightarrow> nat \<Rightarrow> bool \<Rightarrow> bool \<Rightarrow> setting_write list" where
  "base_settings width height enable_h264 enable_graphics_pipeline =
     [Set_uint FreeRDP_DesktopWidth (Num width), Set_uint FreeRDP_DesktopHeight (Num height),
      Set_uint FreeRDP_ColorDepth (Num 32), Set_bool FreeRDP_ServerMode True,
      Set_bool FreeRDP_SurfaceFrameMarkerEnabled True, Set_bool FreeRDP_FrameMarkerCommandEnabled True,
      Set_bool FreeRDP_FastPathOutput True, Set_bool FreeRDP_NetworkAutoDetect True,
      Set_bool FreeRDP_RefreshRect False, Set_bool FreeRDP_SupportDisplayControl False,
      Set_bool FreeRDP_SupportMonitorLayoutPdu False, Set_bool FreeRDP_RemoteFxCodec True,
      Set_bool FreeRDP_RemoteFxImageCodec True, Set_bool FreeRDP_NSCodec False,
      Set_bool FreeRDP_GfxH264 enable_h264, Set_bool FreeRDP_GfxAVC444v2 False,
      Set_bool FreeRDP_GfxAVC444 False, Set_bool FreeRDP_GfxProgressive True,
      Set_bool FreeRDP_GfxProgressiveV2 True,
      Set_bool FreeRDP_SupportGraphicsPipeline enable_graphics_pipeline,
      Set_bool FreeRDP_HasExtendedMouseEvent True, Set_bool FreeRDP_HasHorizontalWheel True,
      Set_bool FreeRDP_HasRelativeMouseEvent False, Set_bool FreeRDP_UnicodeInput True,
      Set_bool FreeRDP_HasQoeEvent False,
      Set_uint FreeRDP_EncryptionLevel ENCRYPTION_LEVEL_CLIENT_COMPATIBLE,
      Set_uint FreeRDP_VCFlags VCCAPS_COMPR_SC, Set_uint FreeRDP_VCChunkSize (Num 16256),
      Set_uint FreeRDP_PointerCacheSize (Num 100),
      Set_uint FreeRDP_MultifragMaxRequestSize (Num 0),
      Set_uint FreeRDP_OsMajorType OSMAJORTYPE_UNIX,
      Set_uint FreeRDP_OsMinorType OSMINORTYPE_PSEUDO_XSERVER,
      Set_bool FreeRDP_GfxSmallCache False, Set_bool FreeRDP_GfxThinClient True,
      Set_bool FreeRDP_SupportMultitransport False]"

definition security_settings :: "bool \<Rightarrow> setting_write list" where
  "security_settings nla_enabled =
     [Set_bool FreeRDP_TlsSecurity (\<not> nla_enabled), Set_bool FreeRDP_NlaSecurity nla_enabled,
      Set_bool FreeRDP_RdpSecurity False]"

definition rfx_settings :: "setting_write list" where
  "rfx_settings = [Set_bool FreeRDP_GfxH264 False, Set_bool FreeRDP_GfxAVC444v2 False,
     Set_bool FreeRDP_GfxAVC444 False]"

text \<open>What FreeRDP, WinPR and the system answer while a connection is accepted.\<close>

record accept_answers =
  aa_context_new :: bool
  aa_initialize :: bool
  aa_open_server :: bool
  aa_event_created :: bool
  aa_pipeline_allocated :: bool
  aa_setting :: "setting_write \<Rightarrow> bool"
  aa_tls :: tls_api
  aa_sam :: sam_answers
  aa_ntowf :: "string \<Rightarrow> u8 list option"
  aa_vm_files :: "string \<Rightarrow> string option"
  aa_settings :: rdp_settings  \<comment> \<open>the defaults of a new context\<close>
  aa_peer :: peer  \<comment> \<open>the peer of the connection\<close>
  aa_login :: login

text \<open>The account database of a connection: the state of listener and files, the object kept in the
  peer's context, and the settings.\<close>

definition configure_nla ::
    "accept_answers \<Rightarrow> drd_peer_context \<Rightarrow> rdp_settings \<Rightarrow> listener \<Rightarrow> files \<Rightarrow>
     (listener \<times> files \<times> nla_sam_file option \<times> rdp_settings \<times> unit res) option" where
  "configure_nla aa ctx st self fs =
     (if li_nla_enabled self then
        (if li_nla_username self = None then Some (self, fs, px_nla_sam ctx, st, fail_io IoFailed)
         else Option.bind (drd_rdp_listener_ensure_nla_hash (aa_ntowf aa) self) (\<lambda>(self1, r).
           case r of Inl e \<Rightarrow> Some (self1, fs, px_nla_sam ctx, st, fail_io IoFailed)
           | Inr _ \<Rightarrow>
             let fs1 = drd_nla_sam_file_free (px_nla_sam ctx) fs in
             Option.bind (drd_nla_sam_file_new (aa_sam aa) (li_nla_username self1)
                 (li_nla_hash self1) fs1) (\<lambda>(fs2, f).
               case f of Inl e \<Rightarrow> Some (self1, fs2, None, st, Inl e)
               | Inr sam \<Rightarrow>
                 let w = Set_ntlm_sam_file (drd_nla_sam_file_get_path (Some sam)) in
                 if \<not> aa_setting aa w then Some (self1, fs2, Some sam, st, fail_io IoFailed)
                 else Some (self1, fs2, Some sam, do_write w st, ok))))
      else let fs1 = drd_nla_sam_file_free (px_nla_sam ctx) fs; w = Set_ntlm_sam_file None in
        if \<not> aa_setting aa w then Some (self, fs1, None, st, fail_io IoFailed)
        else Some (self, fs1, None, do_write w st, ok))"

text \<open>Everything that is written after the account database. A refused write of the RFX block sets
  an error but does not leave the function.\<close>

definition configure_display ::
    "accept_answers \<Rightarrow> bool \<Rightarrow> rdp_settings \<Rightarrow> listener \<Rightarrow> rdp_settings \<times> unit res" where
  "configure_display aa is_virtual_machine st self =
     (let width = o_width (li_options self); height = o_height (li_options self);
          h264_vm_support = o_h264_vm_support (li_options self);
          mode = o_mode (li_options self);
          enable_h264 = (h264_vm_support \<or> \<not> is_virtual_machine);
          enable_graphics_pipeline = (mode = MODE_RFX \<or> mode = MODE_AUTO \<or> mode \<noteq> MODE_H264) in
      if width = 0 \<or> height = 0 then (st, fail_io IoFailed)
      else case write_settings (aa_setting aa)
              (base_settings width height enable_h264 enable_graphics_pipeline) st of
        (st1, False) \<Rightarrow> (st1, fail_io IoFailed)
      | (st1, True) \<Rightarrow>
        let st2 = (if mode = MODE_RFX
              then fst (write_settings (aa_setting aa) rfx_settings st1)
              else st1)
        in case write_settings (aa_setting aa) (security_settings (li_nla_enabled self)) st2 of
          (st3, False) \<Rightarrow> (st3, fail_io IoFailed)
        | (st3, True) \<Rightarrow>
          if drd_rdp_listener_is_handover_mode self
          then (case write_settings (aa_setting aa) [Set_bool FreeRDP_RdstlsSecurity True] st3 of
              (st4, False) \<Rightarrow> (st4, fail_io IoFailed) | (st4, True) \<Rightarrow> (st4, ok))
          else (st3, ok))"

definition drd_configure_peer_settings ::
    "accept_answers \<Rightarrow> drd_peer_context \<Rightarrow> listener_world \<Rightarrow>
     (drd_peer_context \<times> listener_world \<times> rdp_settings \<times> unit res) option" where
  "drd_configure_peer_settings aa ctx w =
     (let st = aa_settings aa; self = lw_listener w in
      if drd_server_runtime_get_tls_credentials (lw_runtime w) = None
      then Some (ctx, w, st, fail_io IoFailed)
      else Option.bind (drd_tls_credentials_apply (aa_tls aa) (lw_tls w) (fs_tls st) (lw_store w))
       (\<lambda>(tls, store, r).
        let w1 = w\<lparr>lw_store := store\<rparr>; st1 = st\<lparr>fs_tls := tls\<rparr> in
        case r of Inl e \<Rightarrow> Some (ctx, w1, st1, Inl e)
        | Inr _ \<Rightarrow>
          Option.bind (configure_nla aa ctx st1 self (lw_files w1)) (\<lambda>(self2, fs, sam, st2, r2).
          let ctx2 = ctx\<lparr>px_nla_sam := sam\<rparr>; w2 = w1\<lparr>lw_listener := self2, lw_files := fs\<rparr> in
          case r2 of Inl e \<Rightarrow> Some (ctx2, w2, st2, Inl e)
          | Inr _ \<Rightarrow>
            let (vm, is_vm) = drd_system_is_virtual_machine (aa_vm_files aa) (lw_vm w2);
                (st3, r3) = configure_display aa is_vm st2 self2
            in Some (ctx2, w2\<lparr>lw_vm := vm\<rparr>, st3, r3))))"

end
