(* ===== verification/Rdp_Peer_Settings.thy ===== *)
theory Rdp_Peer_Settings
  imports Rdp_Listener
begin

text \<open>
  What the listener writes into the settings of a connection it accepts.
\<close>

subsection \<open>Chains of writes\<close>

lemma write_settings_all:
  "write_settings acc ws st = (st', True) \<Longrightarrow> st' = fold do_write ws st"
  by (induction ws arbitrary: st) (auto split: if_splits)

lemma write_settings_frame:
  assumes "\<And>w st. w \<in> set ws \<Longrightarrow> f (do_write w st) = f st"
  shows "f (fst (write_settings acc ws st)) = f st"
  using assms
proof (induction ws arbitrary: st)
  case (Cons w ws)
  have "f (fst (write_settings acc ws st)) = f st" for st
    by (rule Cons.IH) (use Cons.prems in auto)
  then show ?case using Cons.prems by simp
qed simp

text \<open>The fields after a write.\<close>

lemma do_write_bool [simp]:
  "fs_bool (do_write w st) k = (case w of Set_bool k' v \<Rightarrow> if k = k' then v else fs_bool st k
     | _ \<Rightarrow> fs_bool st k)"
  by (cases w) simp_all

lemma do_write_uint [simp]:
  "fs_uint (do_write w st) k = (case w of Set_uint k' v \<Rightarrow> if k = k' then v else fs_uint st k
     | _ \<Rightarrow> fs_uint st k)"
  by (cases w) simp_all

lemma do_write_sam [simp]:
  "fs_ntlm_sam_file (do_write w st) = (case w of Set_ntlm_sam_file v \<Rightarrow> v | _ \<Rightarrow> fs_ntlm_sam_file st)"
  by (cases w) simp_all

lemma do_write_tls [simp]: "fs_tls (do_write w st) = fs_tls st"
  by (cases w) simp_all

lemmas do_write_eqs = do_write.simps
declare do_write.simps [simp del]

lemma base_settings_effect:
  assumes "st' = fold do_write (base_settings width height allow gfx) st"
  shows "fs_uint st' FreeRDP_DesktopWidth = Num width" "fs_uint st' FreeRDP_DesktopHeight = Num height"
    "fs_bool st' FreeRDP_GfxH264 = allow" "\<not> fs_bool st' FreeRDP_GfxAVC444"
    "\<not> fs_bool st' FreeRDP_GfxAVC444v2" "fs_bool st' FreeRDP_SupportGraphicsPipeline = gfx"
    "fs_ntlm_sam_file st' = fs_ntlm_sam_file st" "fs_tls st' = fs_tls st"
  by (simp_all add: assms base_settings_def)

lemma security_settings_effect:
  assumes "st' = fold do_write (security_settings nla) st"
  shows "fs_bool st' FreeRDP_TlsSecurity = (\<not> nla)" "fs_bool st' FreeRDP_NlaSecurity = nla"
    "\<not> fs_bool st' FreeRDP_RdpSecurity"
    "k \<notin> {FreeRDP_TlsSecurity, FreeRDP_NlaSecurity, FreeRDP_RdpSecurity} \<Longrightarrow> fs_bool st' k = fs_bool st k"
    "fs_uint st' = fs_uint st" "fs_ntlm_sam_file st' = fs_ntlm_sam_file st" "fs_tls st' = fs_tls st"
  by (simp_all add: assms security_settings_def fun_eq_iff)

text \<open>The RFX block only takes codecs away, however far it gets.\<close>

lemma rfx_settings_effect:
  assumes "st' = fst (write_settings acc rfx_settings st)"
  shows "fs_bool st' k \<Longrightarrow> fs_bool st k" "acc (Set_bool FreeRDP_GfxH264 False) \<Longrightarrow> \<not> fs_bool st' FreeRDP_GfxH264"
    "k \<notin> {FreeRDP_GfxH264, FreeRDP_GfxAVC444, FreeRDP_GfxAVC444v2} \<Longrightarrow> fs_bool st' k = fs_bool st k"
    "fs_uint st' = fs_uint st" "fs_ntlm_sam_file st' = fs_ntlm_sam_file st" "fs_tls st' = fs_tls st"
  by (auto simp: assms rfx_settings_def fun_eq_iff split: if_splits)

lemma configure_display_effect:
  assumes "configure_display aa vm st l = (st', r)" "r = ok"
  shows "fs_uint st' FreeRDP_DesktopWidth = Num (o_width (li_options l))"
    "fs_uint st' FreeRDP_DesktopHeight = Num (o_height (li_options l))"
    "o_width (li_options l) \<noteq> 0" "o_height (li_options l) \<noteq> 0"
    "\<not> fs_bool st' FreeRDP_GfxAVC444" "\<not> fs_bool st' FreeRDP_GfxAVC444v2"
    "fs_bool st' FreeRDP_GfxH264 \<Longrightarrow> o_h264_vm_support (li_options l) \<or> \<not> vm"
    "o_mode (li_options l) = MODE_RFX \<Longrightarrow> aa_setting aa (Set_bool FreeRDP_GfxH264 False) \<Longrightarrow>
       \<not> fs_bool st' FreeRDP_GfxH264"
    "fs_bool st' FreeRDP_SupportGraphicsPipeline = (o_mode (li_options l) \<noteq> MODE_H264)"
    "fs_bool st' FreeRDP_TlsSecurity = (\<not> li_nla_enabled l)"
    "fs_bool st' FreeRDP_NlaSecurity = li_nla_enabled l" "\<not> fs_bool st' FreeRDP_RdpSecurity"
    "drd_rdp_listener_is_handover_mode l \<Longrightarrow> fs_bool st' FreeRDP_RdstlsSecurity"
    "fs_ntlm_sam_file st' = fs_ntlm_sam_file st" "fs_tls st' = fs_tls st"
proof -
  let ?allow = "o_h264_vm_support (li_options l) \<or> \<not> vm"
  define gfx where "gfx = (o_mode (li_options l) \<noteq> MODE_H264)"
  define st1 where "st1 = fold do_write (base_settings (o_width (li_options l)) (o_height (li_options l)) ?allow gfx) st"
  define st2 where "st2 = (if o_mode (li_options l) = MODE_RFX
    then fst (write_settings (aa_setting aa) rfx_settings st1) else st1)"
  define st3 where "st3 = fold do_write (security_settings (li_nla_enabled l)) st2"
  have modes: "(o_mode (li_options l) = MODE_RFX \<or> o_mode (li_options l) = MODE_AUTO \<or>
      o_mode (li_options l) \<noteq> MODE_H264) = gfx"
    by (auto simp: gfx_def)
  note un = assms(1) [unfolded configure_display_def Let_def modes, folded h264_def]
  have sz: "o_width (li_options l) \<noteq> 0" "o_height (li_options l) \<noteq> 0"
    using un assms(2) by (auto split: if_splits)
  obtain a b where w1: "write_settings (aa_setting aa) (base_settings (o_width (li_options l))
      (o_height (li_options l)) ?allow gfx) st = (a, b)" by (metis surj_pair)
  have b: "b" using un sz w1 assms(2) by (cases b) simp_all
  have a: "a = st1" using write_settings_all w1 b by (simp add: st1_def)
  obtain c d where w3: "write_settings (aa_setting aa) (security_settings (li_nla_enabled l)) st2 = (c, d)"
    by (metis surj_pair)
  have d: "d" using un sz w1 a b w3 assms(2) by (cases d) (simp_all add: st2_def)
  have c: "c = st3" using write_settings_all w3 d by (simp add: st3_def)
  have st': "st' = (if drd_rdp_listener_is_handover_mode l
      then do_write (Set_bool FreeRDP_RdstlsSecurity True) st3 else st3)"
    using un sz w1 a b w3 c d assms(2)
    by (simp add: st2_def split: if_splits)
  note e1 = base_settings_effect [OF st1_def]
  note r0 = rfx_settings_effect [OF refl, where acc = "aa_setting aa" and st = st1]
  note r = r0(1) [of FreeRDP_GfxH264] r0(1) [of FreeRDP_GfxAVC444] r0(1) [of FreeRDP_GfxAVC444v2]
    r0(2) r0(3) [of FreeRDP_SupportGraphicsPipeline] r0(4-6)
  have e2: "(fs_bool st2 FreeRDP_GfxH264 \<longrightarrow> ?allow) \<and>
    (o_mode (li_options l) = MODE_RFX \<and> aa_setting aa (Set_bool FreeRDP_GfxH264 False) \<longrightarrow>
       \<not> fs_bool st2 FreeRDP_GfxH264) \<and>
    \<not> fs_bool st2 FreeRDP_GfxAVC444 \<and> \<not> fs_bool st2 FreeRDP_GfxAVC444v2 \<and>
    fs_bool st2 FreeRDP_SupportGraphicsPipeline = gfx \<and> fs_uint st2 = fs_uint st1 \<and>
    fs_ntlm_sam_file st2 = fs_ntlm_sam_file st \<and> fs_tls st2 = fs_tls st"
  proof (cases "o_mode (li_options l) = MODE_RFX")
    case True
    then have s2: "st2 = fst (write_settings (aa_setting aa) rfx_settings st1)" by (simp add: st2_def)
    show ?thesis unfolding s2 using r e1(3-8) by auto
  next
    case False
    then have s2: "st2 = st1" by (simp add: st2_def)
    show ?thesis using e1 False by (simp add: s2)
  qed
  note e3 = security_settings_effect [OF st3_def]
  show "fs_uint st' FreeRDP_DesktopWidth = Num (o_width (li_options l))"
    "fs_uint st' FreeRDP_DesktopHeight = Num (o_height (li_options l))"
    "o_width (li_options l) \<noteq> 0" "o_height (li_options l) \<noteq> 0"
    "\<not> fs_bool st' FreeRDP_GfxAVC444" "\<not> fs_bool st' FreeRDP_GfxAVC444v2"
    "fs_bool st' FreeRDP_SupportGraphicsPipeline = (o_mode (li_options l) \<noteq> MODE_H264)"
    "fs_bool st' FreeRDP_TlsSecurity = (\<not> li_nla_enabled l)"
    "fs_bool st' FreeRDP_NlaSecurity = li_nla_enabled l" "\<not> fs_bool st' FreeRDP_RdpSecurity"
    "drd_rdp_listener_is_handover_mode l \<Longrightarrow> fs_bool st' FreeRDP_RdstlsSecurity"
    "fs_ntlm_sam_file st' = fs_ntlm_sam_file st" "fs_tls st' = fs_tls st"
    using e1 e2 e3 sz by (simp_all add: st' gfx_def)
  show "o_h264_vm_support (li_options l) \<or> \<not> vm" if "fs_bool st' FreeRDP_GfxH264"
    using that e2 e3(4) by (simp add: st' h264_def split: if_splits)
  show "\<not> fs_bool st' FreeRDP_GfxH264" if "o_mode (li_options l) = MODE_RFX"
    "aa_setting aa (Set_bool FreeRDP_GfxH264 False)"
    using e2 that e3(4) by (simp add: st')
qed

subsection \<open>The account database\<close>

text \<open>With NLA, a new file that holds the entry of the configured account, and the settings name
  it; without NLA, no file and no name.\<close>

definition nla_configured :: "accept_answers \<Rightarrow> listener \<Rightarrow> files \<Rightarrow> nla_sam_file option \<Rightarrow> string option \<Rightarrow> bool" where
  "nla_configured aa l fs sam setting \<longleftrightarrow> (if li_nla_enabled l
     then \<exists>f user hash file. sam = Some f \<and> setting = Some (sam_path f) \<and>
       li_nla_username l = Some user \<and> li_nla_hash l = Some hash \<and>
       drd_nla_sam_write_entry (aa_sam aa) user hash = Some (file, ok) \<and> fs (sam_path f) = Some file
     else sam = None \<and> setting = None)"

lemma hashed_listener:
  assumes "drd_rdp_listener_ensure_nla_hash ntowf l = Some (l', Inr u)"
  shows "li_nla_enabled l' = li_nla_enabled l" "li_nla_username l' = li_nla_username l"
    "li_options l' = li_options l" "li_runtime_mode l' = li_runtime_mode l"
  using assms by (auto simp: drd_rdp_listener_ensure_nla_hash_def split: if_splits option.splits)

lemma sam_file_created:
  assumes "drd_nla_sam_file_new ans user hash fs = Some (fs', Inr f)"
  shows "\<exists>u h file. user = Some u \<and> hash = Some h \<and> drd_nla_sam_write_entry ans u h = Some (file, ok) \<and>
    fs' (sam_path f) = Some file"
proof -
  obtain u h where uh: "user = Some u" "hash = Some h"
    using assms by (auto simp: drd_nla_sam_file_new_def split: option.splits)
  note un = assms [unfolded drd_nla_sam_file_new_def uh prod.case option.case Let_def]
  obtain path where path: "sa_mkstemp ans (sa_build_filename ans
      [drd_nla_sam_default_dir ans, ''nla-sam-XXXXXX'']) = Inr path"
    using un by (auto split: if_splits sum.splits option.splits)
  then obtain contents r where written: "drd_nla_sam_write_entry ans u h = Some (contents, r)"
    using un by (auto simp: bind_eq_Some_conv split: if_splits option.splits)
  have "r = ok"
    using un path written by (cases r) (auto split: if_splits option.splits)
  with un path written uh show ?thesis by (auto split: if_splits option.splits)
qed

lemma configure_nla_effect:
  assumes "configure_nla aa ctx st l fs = Some (l', fs', sam, st', r)" "r = ok"
  shows "nla_configured aa l' fs' sam (fs_ntlm_sam_file st')" "fs_tls st' = fs_tls st"
    "li_options l' = li_options l" "li_runtime_mode l' = li_runtime_mode l"
    "li_nla_enabled l' = li_nla_enabled l"
proof -
  have "nla_configured aa l' fs' sam (fs_ntlm_sam_file st') \<and> fs_tls st' = fs_tls st \<and>
    li_options l' = li_options l \<and> li_runtime_mode l' = li_runtime_mode l \<and>
    li_nla_enabled l' = li_nla_enabled l"
  proof (cases "li_nla_enabled l")
    case False
    with assms show ?thesis
      by (auto simp: configure_nla_def Let_def nla_configured_def split: if_splits)
  next
    case True
    note un = assms(1) [unfolded configure_nla_def Let_def, unfolded if_P [OF True]]
    obtain user where user: "li_nla_username l = Some user"
      using un assms(2) by (cases "li_nla_username l") auto
    obtain l1 r1 where hash: "drd_rdp_listener_ensure_nla_hash (aa_ntowf aa) l = Some (l1, r1)"
      using un user by (auto simp: bind_eq_Some_conv)
    obtain u1 where r1: "r1 = Inr u1" using un user hash assms(2) by (cases r1) auto
    obtain fs2 f where new: "drd_nla_sam_file_new (aa_sam aa) (li_nla_username l1) (li_nla_hash l1)
        (drd_nla_sam_file_free (px_nla_sam ctx) fs) = Some (fs2, f)"
      using un user hash r1 by (auto simp: bind_eq_Some_conv)
    obtain f1 where f: "f = Inr f1" using un user hash r1 new assms(2) by (cases f) auto
    note h = hashed_listener [OF hash [unfolded r1]]
    note c = sam_file_created [OF new [unfolded f]]
    have res: "l' = l1 \<and> fs' = fs2 \<and> sam = Some f1 \<and>
        st' = do_write (Set_ntlm_sam_file (drd_nla_sam_file_get_path (Some f1))) st"
      using un user hash r1 new f assms(2) by (auto split: if_splits)
    show ?thesis using res h c user True
      by (auto simp: nla_configured_def drd_nla_sam_file_get_path_def)
  qed
  then show "nla_configured aa l' fs' sam (fs_ntlm_sam_file st')" "fs_tls st' = fs_tls st"
    "li_options l' = li_options l" "li_runtime_mode l' = li_runtime_mode l"
    "li_nla_enabled l' = li_nla_enabled l" by blast+
qed

subsection \<open>The settings\<close>

text \<open>
  C9: The settings of a connection that was configured: the desktop has the configured, non-empty
  size; exactly one of TLS and NLA is offered, and never the security of plain RDP; with NLA
  the account database is written and named, without it nothing is; a handed-over connection
  takes RDSTLS; AVC444 is off, and H.264 is only offered where it is allowed; the graphics
  pipeline is offered in every mode but H.264; the TLS material was applied.
\<close>

theorem peer_settings_outcome:
  assumes "drd_configure_peer_settings aa ctx w = Some (ctx', w', st, r)" "r = ok"
  shows "let l = lw_listener w; opts = li_options l in
    fs_uint st FreeRDP_DesktopWidth = Num (o_width opts) \<and> o_width opts \<noteq> 0 \<and>
    fs_uint st FreeRDP_DesktopHeight = Num (o_height opts) \<and> o_height opts \<noteq> 0 \<and>
    fs_bool st FreeRDP_TlsSecurity = (\<not> li_nla_enabled l) \<and>
    fs_bool st FreeRDP_NlaSecurity = li_nla_enabled l \<and> \<not> fs_bool st FreeRDP_RdpSecurity \<and>
    nla_configured aa (lw_listener w') (lw_files w') (px_nla_sam ctx') (fs_ntlm_sam_file st) \<and>
    (drd_rdp_listener_is_handover_mode l \<longrightarrow> fs_bool st FreeRDP_RdstlsSecurity) \<and>
    \<not> fs_bool st FreeRDP_GfxAVC444 \<and> \<not> fs_bool st FreeRDP_GfxAVC444v2 \<and>
    (fs_bool st FreeRDP_GfxH264 \<longrightarrow> o_h264_vm_support opts \<or>
       \<not> snd (drd_system_is_virtual_machine (aa_vm_files aa) (lw_vm w))) \<and>
    fs_bool st FreeRDP_SupportGraphicsPipeline = (o_mode opts \<noteq> MODE_H264) \<and>
    drd_tls_credentials_apply (aa_tls aa) (lw_tls w) (fs_tls (aa_settings aa)) (lw_store w) =
      Some (fs_tls st, lw_store w', ok)"
proof -
  note un = assms(1) [unfolded drd_configure_peer_settings_def Let_def]
  obtain creds where creds: "drd_server_runtime_get_tls_credentials (lw_runtime w) = Some creds"
    using un assms(2) by (cases "drd_server_runtime_get_tls_credentials (lw_runtime w)") auto
  obtain tls store r1 where tls: "drd_tls_credentials_apply (aa_tls aa) (lw_tls w)
      (fs_tls (aa_settings aa)) (lw_store w) = Some (tls, store, r1)"
    using un creds by (auto simp: bind_eq_Some_conv)
  obtain u1 where r1: "r1 = Inr u1" using un creds tls assms(2) by (cases r1) auto
  obtain l fs sam st2 r2 where nla: "configure_nla aa ctx ((aa_settings aa)\<lparr>fs_tls := tls\<rparr>)
      (lw_listener w) (lw_files w) = Some (l, fs, sam, st2, r2)"
    using un creds tls r1 by (auto simp: bind_eq_Some_conv)
  obtain u2 where r2: "r2 = Inr u2" using un creds tls r1 nla assms(2) by (cases r2) auto
  obtain vm is_vm where vm: "drd_system_is_virtual_machine (aa_vm_files aa) (lw_vm w) = (vm, is_vm)"
    by (metis surj_pair)
  obtain st3 r3 where disp: "configure_display aa is_vm st2 l = (st3, r3)" by (metis surj_pair)
  have res: "ctx' = ctx\<lparr>px_nla_sam := sam\<rparr>" "st = st3" "r3 = ok" "lw_listener w' = l"
    "lw_files w' = fs" "lw_store w' = store"
    using un creds tls r1 nla r2 vm disp assms(2) by auto
  have "r2 = ok" using r2 by simp
  note n = configure_nla_effect [OF nla this]
  note d = configure_display_effect [OF disp res(3)]
  have mode: "drd_rdp_listener_is_handover_mode l = drd_rdp_listener_is_handover_mode (lw_listener w)"
    using n(4) by (simp add: drd_rdp_listener_is_handover_mode_def)
  show ?thesis
    using d(1-7) d(9-15) n vm tls r1 mode unfolding Let_def res by simp
qed

subsection \<open>Witness\<close>

definition sample_accept :: accept_answers where
  "sample_accept = \<lparr>aa_context_new = True, aa_initialize = True, aa_open_server = True,
     aa_event_created = True, aa_pipeline_allocated = True, aa_setting = (\<lambda>_. True),
     aa_tls = good_api, aa_sam = sample_sam_answers, aa_ntowf = (\<lambda>_. None), aa_vm_files = (\<lambda>_. None),
     aa_settings = \<lparr>fs_bool = (\<lambda>_. False), fs_uint = (\<lambda>_. Num 0), fs_ntlm_sam_file = None,
       fs_tls = no_settings\<rparr>,
     aa_peer = sample_peer, aa_login = \<lparr>lg_username = Some ''al'', lg_password = Some ''pw'', lg_domain = None\<rparr>\<rparr>"

definition sample_listener :: listener where
  "sample_listener = the (drd_rdp_listener_new None 3389 witness_options False None None
     (Some ''drd'') RUNTIME_MODE_HANDOVER)"

definition sample_world :: listener_world where
  "sample_world = \<lparr>lw_listener = sample_listener,
     lw_runtime = drd_server_runtime_set_tls_credentials (Some 0) sample_runtime,
     lw_peers = Map.empty, lw_files = Map.empty,
     lw_tls = drd_tls_credentials_init\<lparr>tc_certificate_pem := Some ''c'', tc_private_key_pem := Some ''k''\<rparr>,
     lw_store = \<lparr>ts_certs = Map.empty, ts_keys = Map.empty, ts_next = 0\<rparr>, lw_vm = system_info_static,
     lw_leaked = []\<rparr>"

lemma sample_listener_fields [simp]:
  "li_nla_enabled sample_listener = False" "li_options sample_listener = witness_options"
  "li_runtime_mode sample_listener = RUNTIME_MODE_HANDOVER" "li_sessions sample_listener = []"
  "li_has_runtime sample_listener = True" "li_session_cb sample_listener = False"
  "li_pam_service sample_listener = ''drd''"
  by (simp_all add: sample_listener_def drd_rdp_listener_new_def drd_rdp_listener_init_def empty_arg_def)

lemma write_settings_yes: "write_settings (\<lambda>_. True) ws st = (fold do_write ws st, True)"
  by (induction ws arbitrary: st) simp_all

lemma sample_configured:
  assumes "lw_listener w = sample_listener\<lparr>li_session_cb := cb\<rparr>" "lw_runtime w = lw_runtime sample_world"
    "tc_certificate_pem (lw_tls w) = Some cert" "tc_private_key_pem (lw_tls w) = Some key"
    "px_nla_sam ctx = None" "cert \<noteq> ''bad''" "key \<noteq> ''bad''"
  shows "\<exists>w' st. drd_configure_peer_settings sample_accept ctx w = Some (ctx, w', st, ok) \<and>
    lw_listener w' = lw_listener w \<and> lw_runtime w' = lw_runtime w \<and> lw_peers w' = lw_peers w \<and>
    tc_certificate_pem (lw_tls w') = Some cert"
proof -
  have ctx: "ctx\<lparr>px_nla_sam := None\<rparr> = ctx" using assms(5) by simp
  show ?thesis
    by (simp add: drd_configure_peer_settings_def assms sample_world_def sample_accept_def Let_def
        drd_server_runtime_set_tls_credentials_def drd_server_runtime_get_tls_credentials_def
        drd_tls_credentials_apply_def good_api_def freerdp_certificate_new_from_pem_def
        freerdp_key_new_from_pem_def configure_nla_def drd_nla_sam_file_free_def
        configure_display_def witness_options_def write_settings_yes
        drd_rdp_listener_is_handover_mode_def ctx split: prod.split)
qed

lemma sample_listener_no_callback: "sample_listener\<lparr>li_session_cb := False\<rparr> = sample_listener"
  by (simp add: sample_listener_def drd_rdp_listener_new_def drd_rdp_listener_init_def empty_arg_def)

definition sample_context :: drd_peer_context where
  "sample_context = \<lparr>px_session = drd_rdp_session_new sample_peer, px_runtime = False, px_nla_sam = None,
     px_vcm = False, px_listener = False, px_login = aa_login sample_accept, px_hostname = None,
     px_input = False\<rparr>"

lemma peer_settings_outcome_witness:
  "\<exists>w' st. drd_configure_peer_settings sample_accept sample_context sample_world =
       Some (sample_context, w', st, ok) \<and>
     fs_bool st FreeRDP_TlsSecurity \<and> fs_bool st FreeRDP_RdstlsSecurity"
proof -
  have w: "lw_listener sample_world = sample_listener" by (simp add: sample_world_def)
  have "lw_listener sample_world = sample_listener\<lparr>li_session_cb := False\<rparr>"
    "tc_certificate_pem (lw_tls sample_world) = Some ''c''" "tc_private_key_pem (lw_tls sample_world) = Some ''k''"
    "px_nla_sam sample_context = None"
    by (simp_all add: sample_world_def sample_listener_no_callback sample_context_def)
  from sample_configured [OF this(1) refl this(2-4), simplified] obtain w' st where run:
    "drd_configure_peer_settings sample_accept sample_context sample_world =
       Some (sample_context, w', st, ok)" by blast
  from peer_settings_outcome [OF run refl] have
    "fs_bool st FreeRDP_TlsSecurity \<and> fs_bool st FreeRDP_RdstlsSecurity"
    by (simp add: Let_def w drd_rdp_listener_is_handover_mode_def)
  with run show ?thesis by blast
qed

end
