(* ===== verification/Qt_Listener.thy ===== *)
theory Qt_Listener
  imports Qt_Session_Safety Qt_Config Qt_Tls Rdp_Peer_Settings
begin

text \<open>
  The listener of the Qt port (\<^verbatim>\<open>qt/transport/drd_transport.cpp\<close>): what it needs to start, the
  settings it writes, and the connections it adopts.

  FreeRDP, WinPR and Qt's sockets are the answers in \<open>qt_accept\<close>. The channel thread of a session
  starts in the middle of an adoption; \<open>qa_rounds\<close> are the rounds of its loop that it gets done
  before the rest of the adoption.
\<close>

subsection \<open>State\<close>

text \<open>The \<open>runtime\<close> of the port only keeps the credentials (\<^verbatim>\<open>qt/core/drd_server_runtime.cpp\<close>).\<close>

record qt_runtime =
  qr_tls :: "qt_tls option"

definition qt_runtime_new :: qt_runtime where "qt_runtime_new = \<lparr>qr_tls = None\<rparr>"

definition qt_runtime_set_tls :: "qt_tls option \<Rightarrow> qt_runtime \<Rightarrow> qt_runtime" where
  "qt_runtime_set_tls t self = self\<lparr>qr_tls := t\<rparr>"

definition qt_runtime_tls :: "qt_runtime \<Rightarrow> qt_tls option" where "qt_runtime_tls self = qr_tls self"

definition qt_runtime_prepare_stream :: "qt_runtime \<Rightarrow> qt_runtime \<times> bool" where
  "qt_runtime_prepare_stream self = (self, True)"

definition qt_runtime_stop :: "qt_runtime \<Rightarrow> qt_runtime" where "qt_runtime_stop self = self"

text \<open>\<open>ql_server\<close> is the TCP server: \<open>None\<close> before it is made, and whether it listens.\<close>

record qt_listener =
  ql_bind_address :: string
  ql_port :: u16
  ql_runtime :: bool  \<comment> \<open>not NULL; the runtime itself is \<open>qw_runtime\<close> below\<close>
  ql_options :: qt_values
  ql_nla_enabled :: bool
  ql_nla_username :: string
  ql_nla_password :: string
  ql_pam_service :: string
  ql_mode :: string
  ql_running :: bool
  ql_delegate :: bool
  ql_session_cb :: bool
  ql_sessions :: "nat list"
  ql_server :: "bool option"

datatype listener_error =
    Invalid_listener | Runtime_required | Pam_required | Listener_nla_required | Invalid_mode
  | Invalid_address | Listen_failed
  | Connection_required | Not_a_socket | No_descriptor | No_freerdp_peer
  | No_peer_address | No_hostname | No_context | Initialize_failed | No_channel_manager | No_event_thread
  | Invalid_peer_context | No_settings | Invalid_runtime | No_tls_credentials | Tls_failed gerror
  | Security_flags_failed | Geometry_not_configured | Settings_failed | Rdstls_failed

type_synonym listener_res = "listener_error + unit"

definition runtime_mode_matches :: "string \<Rightarrow> string \<Rightarrow> bool" where
  "runtime_mode_matches mode expected = strcaseeq mode expected"

definition known_mode :: "string \<Rightarrow> bool" where
  "known_mode mode \<longleftrightarrow> runtime_mode_matches mode ''user'' \<or> runtime_mode_matches mode ''system'' \<or>
     runtime_mode_matches mode ''handover''"

definition qt_listener_init ::
    "string \<Rightarrow> u16 \<Rightarrow> bool \<Rightarrow> qt_values \<Rightarrow> bool \<Rightarrow> string \<Rightarrow> string \<Rightarrow> string \<Rightarrow> string \<Rightarrow> qt_listener" where
  "qt_listener_init bind_address port runtime options nla_enabled username password pam_service mode =
     \<lparr>ql_bind_address = bind_address, ql_port = port, ql_runtime = runtime, ql_options = options,
      ql_nla_enabled = nla_enabled, ql_nla_username = username, ql_nla_password = password,
      ql_pam_service = pam_service, ql_mode = mode, ql_running = False, ql_delegate = False,
      ql_session_cb = False, ql_sessions = [], ql_server = None\<rparr>"

text \<open>\<open>DrdQtTransport\<close>'s constructor function; \<open>None\<close> is NULL.\<close>

definition qt_listener_new ::
    "string \<Rightarrow> u16 \<Rightarrow> bool \<Rightarrow> qt_values \<Rightarrow> bool \<Rightarrow> string \<Rightarrow> string \<Rightarrow> string \<Rightarrow> string \<Rightarrow>
     qt_listener option" where
  "qt_listener_new bind_address port runtime options nla_enabled username password pam_service mode =
     (let effective_bind = (if bind_address = [] then ''0.0.0.0'' else bind_address) in
      if \<not> runtime \<or> pam_service = [] then None
      else if nla_enabled \<and> (username = [] \<or> password = []) then None
      else if \<not> known_mode mode then None
      else Some (qt_listener_init effective_bind port runtime options nla_enabled username password
             pam_service mode))"

text \<open>\<open>address_ok\<close> and \<open>can_listen\<close> are the answers of \<open>QHostAddress\<close> and \<open>QTcpServer\<close>.\<close>

definition qt_listener_start ::
    "(string \<Rightarrow> bool) \<Rightarrow> (string \<Rightarrow> u16 \<Rightarrow> bool) \<Rightarrow> qt_listener \<Rightarrow> qt_listener \<times> listener_res" where
  "qt_listener_start address_ok can_listen self =
     (if ql_running self then (self, Inr ())
      else if \<not> ql_runtime self then (self, Inl Runtime_required)
      else if ql_pam_service self = [] then (self, Inl Pam_required)
      else if ql_nla_enabled self \<and> (ql_nla_username self = [] \<or> ql_nla_password self = [])
      then (self, Inl Listener_nla_required)
      else if \<not> known_mode (ql_mode self) then (self, Inl Invalid_mode)
      else let s = (if ql_server self = None then self\<lparr>ql_server := Some False\<rparr> else self) in
      if \<not> address_ok (ql_bind_address s) then (s, Inl Invalid_address)
      else if \<not> can_listen (ql_bind_address s) (ql_port s) then (s, Inl Listen_failed)
      else (s\<lparr>ql_server := Some True, ql_running := True\<rparr>, Inr ()))"

definition qt_listener_stop :: "qt_listener \<Rightarrow> qt_listener" where
  "qt_listener_stop self = self\<lparr>ql_server := None, ql_running := False\<rparr>"

definition qt_listener_set_delegate :: "bool \<Rightarrow> qt_listener \<Rightarrow> qt_listener" where
  "qt_listener_set_delegate f self = self\<lparr>ql_delegate := f\<rparr>"

definition qt_listener_set_session_callback :: "bool \<Rightarrow> qt_listener \<Rightarrow> qt_listener" where
  "qt_listener_set_session_callback f self = self\<lparr>ql_session_cb := f\<rparr>"

definition qt_listener_runtime :: "qt_listener \<Rightarrow> bool" where
  "qt_listener_runtime self = ql_runtime self"

definition qt_listener_is_handover_mode :: "qt_listener \<Rightarrow> bool" where
  "qt_listener_is_handover_mode self = runtime_mode_matches (ql_mode self) ''handover''"

text \<open>The functions of \<open>DrdQtTransport\<close> that take any object: \<open>None\<close> is one that is no listener.\<close>

definition transport_start ::
    "(string \<Rightarrow> bool) \<Rightarrow> (string \<Rightarrow> u16 \<Rightarrow> bool) \<Rightarrow> qt_listener option \<Rightarrow> qt_listener option \<times> listener_res" where
  "transport_start address_ok can_listen listener = (case listener of None \<Rightarrow> (None, Inl Invalid_listener)
     | Some l \<Rightarrow> (case qt_listener_start address_ok can_listen l of (l', r) \<Rightarrow> (Some l', r)))"

definition transport_stop :: "qt_listener option \<Rightarrow> qt_listener option" where
  "transport_stop = map_option qt_listener_stop"

definition transport_get_runtime :: "qt_listener option \<Rightarrow> bool" where
  "transport_get_runtime l = (case l of None \<Rightarrow> False | Some l' \<Rightarrow> qt_listener_runtime l')"

definition transport_set_delegate :: "bool \<Rightarrow> qt_listener option \<Rightarrow> qt_listener option" where
  "transport_set_delegate f = map_option (qt_listener_set_delegate f)"

definition transport_set_session_callback :: "bool \<Rightarrow> qt_listener option \<Rightarrow> qt_listener option" where
  "transport_set_session_callback f = map_option (qt_listener_set_session_callback f)"

definition transport_is_handover_mode :: "qt_listener option \<Rightarrow> bool" where
  "transport_is_handover_mode l = (case l of None \<Rightarrow> False | Some l' \<Rightarrow> qt_listener_is_handover_mode l')"

subsection \<open>The settings of a connection\<close>

record qt_accept =
  qa_delegate :: bool  \<comment> \<open>the delegate takes the connection\<close>
  qa_socket :: bool
  qa_descriptor :: bool
  qa_address :: string
  qa_peer_new :: bool
  qa_getpeername :: bool
  qa_hostname :: "string option"
  qa_default_disconnect :: bool
  qa_context_new :: bool
  qa_initialize :: bool
  qa_open_server :: bool
  qa_event_created :: bool
  qa_pipeline_allocated :: bool
  qa_rounds :: "vcm_round list"
  qa_setting :: "setting_write \<Rightarrow> bool"
  qa_tls :: tls_api
  qa_settings :: "rdp_settings option"
  qa_peer_settings :: peer_settings

text \<open>\<open>QVariantMap::value(key, default).toInt()\<close>, and the conversion to \<open>UINT32\<close>.\<close>

definition option_value :: "qt_api \<Rightarrow> qt_values \<Rightarrow> string \<Rightarrow> int \<Rightarrow> int" where
  "option_value qt options key fallback = (case options key of None \<Rightarrow> fallback | Some v \<Rightarrow> qv_int qt v)"

definition u32_of_int :: "int \<Rightarrow> nat" where
  "u32_of_int i = unat (word_of_int i :: u32)"

text \<open>\<open>settings\<close> are those of the peer's context; \<open>None\<close> outside is a double free of a TLS object.\<close>

definition qt_configure_peer_settings ::
    "qt_api \<Rightarrow> qt_accept \<Rightarrow> bool \<Rightarrow> qt_listener \<Rightarrow> qt_runtime \<Rightarrow> tls_store \<Rightarrow>
     (rdp_settings option \<times> tls_store \<times> listener_res) option" where
  "qt_configure_peer_settings qt a has_context self runtime m =
     (if \<not> has_context then Some (None, m, Inl Invalid_peer_context)
      else case qa_settings a of None \<Rightarrow> Some (None, m, Inl No_settings)
      | Some st \<Rightarrow>
      if \<not> ql_runtime self then Some (Some st, m, Inl Invalid_runtime) else
     (case qt_runtime_tls runtime of None \<Rightarrow> Some (Some st, m, Inl No_tls_credentials)
      | Some tls \<Rightarrow>
      Option.bind (qt_tls_apply (qa_tls a) tls (Some (fs_tls st)) m) (\<lambda>(t, m1, r).
      let st1 = (case t of None \<Rightarrow> st | Some t' \<Rightarrow> st\<lparr>fs_tls := t'\<rparr>) in
      case r of Inl e \<Rightarrow> Some (Some st1, m1, Inl (Tls_failed e))
      | Inr _ \<Rightarrow>
     (case write_settings (qa_setting a) (security_settings (ql_nla_enabled self)) st1 of
        (st2, False) \<Rightarrow> Some (Some st2, m1, Inl Security_flags_failed)
      | (st2, True) \<Rightarrow>
        let width = option_value qt (ql_options self) ''width'' 1024;
            height = option_value qt (ql_options self) ''height'' 768 in
        if width = 0 \<or> height = 0 then Some (Some st2, m1, Inl Geometry_not_configured)
        else (case write_settings (qa_setting a)
                (base_settings (u32_of_int width) (u32_of_int height) True True) st2 of
          (st3, False) \<Rightarrow> Some (Some st3, m1, Inl Settings_failed)
        | (st3, True) \<Rightarrow>
          if qt_listener_is_handover_mode self
          then (case write_settings (qa_setting a) [Set_bool FreeRDP_RdstlsSecurity True] st3 of
              (st4, False) \<Rightarrow> Some (Some st4, m1, Inl Rdstls_failed)
            | (st4, True) \<Rightarrow> Some (Some st4, m1, Inr ()))
          else Some (Some st3, m1, Inr ()))))))"

subsection \<open>Adopting a connection\<close>

datatype qt_peer_event = Peer_freed | Channel_manager_closed | Session_callback nat | From_session qt_event

definition put_context_of :: "qt_accept \<Rightarrow> qt_session \<Rightarrow> qt_session" where
  "put_context_of a s = s\<lparr>qs_peer := map_option (\<lambda>p. p\<lparr>pe_context :=
     Some \<lparr>pc_settings = map_option (\<lambda>_. qa_peer_settings a) (qa_settings a), pc_desktop_resize_cb = False\<rparr>\<rparr>)
     (qs_peer s), qs_ctx_session := True\<rparr>"

text \<open>\<open>initialize_peer\<close>. The channel thread is started at its end; its rounds follow.\<close>

definition qt_initialize_peer ::
    "nat \<Rightarrow> qt_accept \<Rightarrow> qt_session \<Rightarrow> (qt_session \<times> qt_peer_event list \<times> listener_res) run" where
  "qt_initialize_peer depth a self =
     (if \<not> qa_context_new a then Done (self, [], Inl No_context)
      else let s1 = put_context_of a self;
               s2 = s1\<lparr>qs_peer := map_option (pe_disconnect_cb_update (\<lambda>_. True)) (qs_peer s1)\<rparr> in
      if \<not> qa_initialize a then Done (s2, [], Inl Initialize_failed)
      else if \<not> qa_open_server a then Done (s2, [], Inl No_channel_manager)
      else (case qt_start_event_thread (qa_event_created a)
               (qt_set_vcm (qa_pipeline_allocated a) True s2) of
          (s3, e3, False) \<Rightarrow> Done (s3, map From_session e3 @ [Channel_manager_closed], Inl No_event_thread)
        | (s3, e3, True) \<Rightarrow> run_bind (qt_vcm_rounds depth (qa_rounds a) s3) (\<lambda>(s4, e4, more).
            Done (s4, map From_session (e3 @ e4), Inr ()))))"

text \<open>The state of a listener: itself, its sessions, their settings, and the TLS objects.\<close>

record qt_world =
  qw_listener :: qt_listener
  qw_runtime :: qt_runtime
  qw_sessions :: "nat \<rightharpoonup> qt_session"
  qw_settings :: "nat \<rightharpoonup> rdp_settings"
  qw_store :: tls_store

text \<open>An adoption that fails deletes the session, which may not come back, and frees the peer.\<close>

definition qt_abandon ::
    "nat \<Rightarrow> qt_session \<Rightarrow> qt_world \<Rightarrow> qt_peer_event list \<Rightarrow> listener_error \<Rightarrow>
     (qt_world \<times> qt_peer_event list \<times> listener_res) run" where
  "qt_abandon depth s w es err = run_bind (qt_session_delete depth Main_thread s)
     (\<lambda>e. Done (w, es @ map From_session e @ [Peer_freed], Inl err))"

definition qt_adopt_connection ::
    "nat \<Rightarrow> qt_api \<Rightarrow> qt_accept \<Rightarrow> bool \<Rightarrow> nat \<Rightarrow> qt_world \<Rightarrow> (qt_world \<times> qt_peer_event list \<times> listener_res) run" where
  "qt_adopt_connection depth qt a connection i w =
     (let l = qw_listener w in
      if \<not> connection then Done (w, [], Inl Connection_required)
      else if ql_delegate l \<and> qa_delegate a then Done (w, [], Inr ())
      else if \<not> qa_socket a then Done (w, [], Inl Not_a_socket)
      else if \<not> qa_descriptor a then Done (w, [], Inl No_descriptor)
      else if \<not> qa_peer_new a then Done (w, [], Inl No_freerdp_peer)
      else if \<not> qa_getpeername a then Done (w, [Peer_freed], Inl No_peer_address)
      else case qa_hostname a of None \<Rightarrow> Done (w, [Peer_freed], Inl No_hostname)
      | Some hostname \<Rightarrow>
        let peer = \<lparr>pe_hostname = Some hostname, pe_context = None,
                    pe_disconnect_cb = qa_default_disconnect a\<rparr>;
            s0 = qt_set_runtime (qa_pipeline_allocated a) (ql_runtime l)
                   (qt_set_peer_address (qa_address a) (qt_session_new (Some peer)))
        in run_bind (qt_initialize_peer depth a s0) (\<lambda>(s1, e1, r).
          case r of Inl err \<Rightarrow> qt_abandon depth s1 w e1 err
          | Inr _ \<Rightarrow>
           (case qt_configure_peer_settings qt a True l (qw_runtime w) (qw_store w) of None \<Rightarrow> Abort
            | Some (st, m, r2) \<Rightarrow>
              let w1 = w\<lparr>qw_store := m\<rparr> in
              case r2 of Inl err \<Rightarrow> qt_abandon depth s1 w1 e1 err
              | Inr _ \<Rightarrow>
                Done (w1\<lparr>qw_listener := l\<lparr>ql_sessions := ql_sessions l @ [i]\<rparr>,
                         qw_sessions := (qw_sessions w1)(i \<mapsto> s1),
                         qw_settings := (case st of None \<Rightarrow> qw_settings w1 | Some st' \<Rightarrow> (qw_settings w1)(i \<mapsto> st'))\<rparr>,
                      e1 @ (if ql_session_cb l then [Session_callback i] else []), Inr ()))))"

definition transport_adopt_connection ::
    "nat \<Rightarrow> qt_api \<Rightarrow> qt_accept \<Rightarrow> bool \<Rightarrow> nat \<Rightarrow> bool \<Rightarrow> qt_world \<Rightarrow> (qt_world \<times> qt_peer_event list \<times> listener_res) run" where
  "transport_adopt_connection depth qt a connection i is_listener w =
     (if \<not> is_listener then Done (w, [], Inl Invalid_listener)
      else qt_adopt_connection depth qt a connection i w)"

subsection \<open>The listener's checks\<close>

lemma new_listener_starts:
  assumes "qt_listener_new bind_address port runtime options nla username password pam mode = Some l"
    "qt_listener_start address_ok can_listen l = (l', r)"
  shows "r = Inr () \<longleftrightarrow> address_ok (ql_bind_address l) \<and> can_listen (ql_bind_address l) port"
    "ql_running l' \<longleftrightarrow> r = Inr ()" "ql_server l' = Some (ql_running l')"
  using assms by (auto simp: qt_listener_new_def qt_listener_init_def qt_listener_start_def Let_def split: if_splits)

lemma start_keeps_running: "ql_running l \<Longrightarrow> qt_listener_start address_ok can_listen l = (l, Inr ())"
  by (simp add: qt_listener_start_def)

lemma stop_then_start:
  "ql_running l' \<longleftrightarrow> r = Inr ()" if "qt_listener_start address_ok can_listen (qt_listener_stop l) = (l', r)"
  using that by (auto simp: qt_listener_start_def qt_listener_stop_def Let_def split: if_splits)

subsection \<open>The settings\<close>

lemma base_settings_keep:
  assumes "st' = fold do_write (base_settings width height True True) st"
  shows "fs_bool st' FreeRDP_TlsSecurity = fs_bool st FreeRDP_TlsSecurity"
    "fs_bool st' FreeRDP_NlaSecurity = fs_bool st FreeRDP_NlaSecurity"
    "fs_bool st' FreeRDP_RdpSecurity = fs_bool st FreeRDP_RdpSecurity"
    "fs_bool st' FreeRDP_GfxH264" "fs_bool st' FreeRDP_SupportGraphicsPipeline"
  by (simp_all add: assms base_settings_def)

text \<open>The settings of a configured connection.\<close>

definition qt_configured :: "qt_api \<Rightarrow> qt_listener \<Rightarrow> rdp_settings \<Rightarrow> rdp_settings \<Rightarrow> bool" where
  "qt_configured qt l st st' \<longleftrightarrow>
     fs_bool st' FreeRDP_TlsSecurity = (\<not> ql_nla_enabled l) \<and> fs_bool st' FreeRDP_NlaSecurity = ql_nla_enabled l \<and>
     \<not> fs_bool st' FreeRDP_RdpSecurity \<and> (qt_listener_is_handover_mode l \<longrightarrow> fs_bool st' FreeRDP_RdstlsSecurity) \<and>
     fs_uint st' FreeRDP_DesktopWidth = Num (u32_of_int (option_value qt (ql_options l) ''width'' 1024)) \<and>
     fs_uint st' FreeRDP_DesktopHeight = Num (u32_of_int (option_value qt (ql_options l) ''height'' 768)) \<and>
     fs_bool st' FreeRDP_GfxH264 \<and> fs_bool st' FreeRDP_SupportGraphicsPipeline \<and>
     \<not> fs_bool st' FreeRDP_GfxAVC444 \<and> \<not> fs_bool st' FreeRDP_GfxAVC444v2 \<and>
     fs_ntlm_sam_file st' = fs_ntlm_sam_file st"

lemma configure_writes:
  assumes "write_settings acc (security_settings (ql_nla_enabled l)) st1 = (st2, True)"
    "write_settings acc (base_settings (u32_of_int (option_value qt (ql_options l) ''width'' 1024))
       (u32_of_int (option_value qt (ql_options l) ''height'' 768)) True True) st2 = (st3, True)"
    "st4 = (if qt_listener_is_handover_mode l then do_write (Set_bool FreeRDP_RdstlsSecurity True) st3 else st3)"
    "fs_ntlm_sam_file st1 = fs_ntlm_sam_file st"
  shows "qt_configured qt l st st4" "fs_tls st4 = fs_tls st1"
proof -
  note e2 = security_settings_effect [OF write_settings_all [OF assms(1)]]
  note e3 = base_settings_effect [OF write_settings_all [OF assms(2)]]
    base_settings_keep [OF write_settings_all [OF assms(2)]]
  show "qt_configured qt l st st4" "fs_tls st4 = fs_tls st1"
    using e2(1-3,6,7) e3 assms(4) by (simp_all add: assms(3) qt_configured_def)
qed

lemma tls_apply_some:
  "qt_tls_apply api tls (Some st) m = Some (t, m', r) \<Longrightarrow> t \<noteq> None"
  by (auto simp: qt_tls_apply_def Let_def bind_eq_Some_conv split: sum.splits option.splits prod.splits if_splits)

lemma configure_ok:
  assumes "qt_configure_peer_settings qt a has_context l runtime m = Some (t, m', Inr ())"
  obtains st tls st' where "has_context" "qa_settings a = Some st" "ql_runtime l" "qr_tls runtime = Some tls"
    "t = Some st'" "qt_configured qt l st st'"
    "qt_tls_apply (qa_tls a) tls (Some (fs_tls st)) m = Some (Some (fs_tls st'), m', ok)"
    "option_value qt (ql_options l) ''width'' 1024 \<noteq> 0" "option_value qt (ql_options l) ''height'' 768 \<noteq> 0"
proof -
  note un = assms [unfolded qt_configure_peer_settings_def qt_runtime_tls_def Let_def]
  obtain st tls where 1: "has_context" "qa_settings a = Some st" "ql_runtime l" "qr_tls runtime = Some tls"
    using un by (auto split: if_splits option.splits)
  obtain t0 m1 r0 where 2: "qt_tls_apply (qa_tls a) tls (Some (fs_tls st)) m = Some (t0, m1, r0)"
    using un 1 by (cases "qt_tls_apply (qa_tls a) tls (Some (fs_tls st)) m") auto
  obtain t1 where 3: "t0 = Some t1" using tls_apply_some [OF 2] by auto
  have 4: "r0 = ok" using un 1 2 by (cases r0) simp_all
  define st1 where "st1 = st\<lparr>fs_tls := t1\<rparr>"
  obtain st2 b2 where 5: "write_settings (qa_setting a) (security_settings (ql_nla_enabled l)) st1 = (st2, b2)"
    by (metis surj_pair)
  have b2: "b2" using un 1 2 3 4 5 by (cases b2) (simp_all add: st1_def)
  let ?w = "option_value qt (ql_options l) ''width'' 1024"
  let ?h = "option_value qt (ql_options l) ''height'' 768"
  have wh: "?w \<noteq> 0" "?h \<noteq> 0" using un 1 2 3 4 5 b2 by (auto simp: st1_def split: if_splits)
  obtain st3 b3 where 6: "write_settings (qa_setting a) (base_settings (u32_of_int ?w) (u32_of_int ?h) True True) st2 = (st3, b3)"
    by (metis surj_pair)
  have b3: "b3" using un 1 2 3 4 5 b2 wh 6 by (cases b3) (simp_all add: st1_def)
  define st4 where "st4 = (if qt_listener_is_handover_mode l then do_write (Set_bool FreeRDP_RdstlsSecurity True) st3 else st3)"
  have 7: "t = Some st4" "m' = m1"
    using un 1 2 3 4 5 b2 wh 6 b3 by (auto simp: st1_def st4_def split: if_splits)
  have f: "fs_ntlm_sam_file st1 = fs_ntlm_sam_file st" "fs_tls st1 = t1" by (simp_all add: st1_def)
  note w = configure_writes [OF 5 [unfolded eqTrueI [OF b2]] 6 [unfolded eqTrueI [OF b3]] st4_def f(1)]
  show ?thesis
    by (rule that [OF 1 7(1) w(1) _ wh]) (use 2 3 4 7 w(2) f in simp)
qed

subsection \<open>Adopting\<close>

text \<open>What a running connection keeps.\<close>

lemma disconnect_not_done:
  assumes "qt_calls_back s"
  shows "qt_disconnect depth who s \<noteq> Done t"
proof (cases "can_join who s")
  case True
  then show ?thesis using disconnect_overflows [OF assms] by simp
next
  case False
  then show ?thesis
    by (cases depth) (simp_all add: qt_disconnect_first_def stop_self)
qed

text \<open>Steps that keep the peer keep its way back.\<close>

lemma callback_keeps:
  assumes "qt_peer_callback depth c s = Done (t, e)" "qt_calls_back s"
  shows "qt_calls_back t"
proof -
  have ctx: "qt_context_of s \<noteq> None" "qs_ctx_session s"
    using assms(2) by (auto simp: qt_calls_back_def qt_context_of_def split: option.splits)
  show ?thesis using assms ctx calls_back_cong [of t s]
    by (cases c)
       (auto simp: qt_peer_callback_def qt_post_connect_def qt_capabilities_def qt_set_peer_state_def
         qt_activate_def qt_enforce_desktop_size_def qt_start_render_thread_def disconnect_not_done Let_def
         split: option.splits if_splits)
qed

lemma run_bind_done: "run_bind m f = Done r \<longleftrightarrow> (\<exists>x. m = Done x \<and> f x = Done r)"
  by (cases m) simp_all

lemma callbacks_keep:
  "qt_peer_callbacks depth cs s = Done (t, e) \<Longrightarrow> qt_calls_back s \<Longrightarrow> qt_calls_back t"
proof (induction cs arbitrary: s t e)
  case (Cons c cs)
  from Cons.prems(1) obtain s1 e1 where 1: "qt_peer_callback depth c s = Done (s1, e1)"
    by (cases "qt_peer_callback depth c s") auto
  then obtain e2 where 2: "qt_peer_callbacks depth cs s1 = Done (t, e2)"
    using Cons.prems(1) by (cases "qt_peer_callbacks depth cs s1") auto
  show ?case using callback_keeps [OF 1 Cons.prems(2)] Cons.IH 2 by blast
qed simp

lemma calls_back_alive [simp]: "qt_calls_back (s\<lparr>qs_alive := b\<rparr>) = qt_calls_back s"
  by (rule calls_back_cong) simp_all

lemma leaves_keeps: "qt_calls_back (fst (qt_vcm_thread_leaves s)) = qt_calls_back s"
  by (rule calls_back_cong) (simp_all add: qt_vcm_thread_leaves_def case_prod_unfold notify_closed_fields)

lemma round_keeps:
  assumes "qt_vcm_round depth vr s = Done (t, e, g)" "qt_calls_back s"
  shows "qt_calls_back t"
proof (cases "qs_alive s \<and> vr_peer_handles vr \<noteq> 0 \<and> \<not> vr_wait_failed vr")
  case True
  then obtain s1 e1 where 1: "qt_peer_callbacks depth (vr_callbacks vr) s = Done (s1, e1)"
    using assms(1) by (cases "qt_peer_callbacks depth (vr_callbacks vr) s") (auto simp: qt_vcm_round_def)
  have "qt_calls_back s1" by (rule callbacks_keep [OF 1 assms(2)])
  then show ?thesis using assms(1) True 1 by (auto simp: qt_vcm_round_def Let_def split: if_splits)
next
  case False
  then show ?thesis using assms by (auto simp: qt_vcm_round_def split: if_splits)
qed

lemma rounds_keep:
  "qt_vcm_rounds depth vrs s = Done (t, e, g) \<Longrightarrow> qt_calls_back s \<Longrightarrow> qt_calls_back t"
proof (induction vrs arbitrary: s t e g)
  case (Cons vr vrs)
  from Cons.prems(1) obtain s1 e1 m1 where 1: "qt_vcm_round depth vr s = Done (s1, e1, m1)"
    by (cases "qt_vcm_round depth vr s") auto
  have k: "qt_calls_back s1" by (rule round_keeps [OF 1 Cons.prems(2)])
  show ?case
  proof (cases m1)
    case False
    then have "t = fst (qt_vcm_thread_leaves s1)"
      using Cons.prems(1) 1 by (simp add: case_prod_unfold Let_def)
    then show ?thesis using k leaves_keeps [of s1] by simp
  next
    case True
    then obtain e2 m2 where "qt_vcm_rounds depth vrs s1 = Done (t, e2, m2)"
      using Cons.prems(1) 1 by (cases "qt_vcm_rounds depth vrs s1") auto
    then show ?thesis using Cons.IH k by blast
  qed
qed simp

lemma start_event_thread_keeps:
  "qt_calls_back (fst (qt_start_event_thread created s)) = qt_calls_back s"
  by (rule calls_back_cong) (simp_all add: qt_start_event_thread_def Let_def)

lemma set_vcm_keeps: "qt_calls_back (qt_set_vcm allocated v s) = qt_calls_back s"
  by (rule calls_back_cong) (simp_all add: qt_set_vcm_def qt_maybe_init_graphics_def)

text \<open>Once the peer has its context, it can reach the session, whatever else fails.\<close>

lemma initialize_calls_back:
  assumes "qt_initialize_peer depth a s = Done (t, e, r)" "qs_peer s \<noteq> None" "r \<noteq> Inl No_context"
  shows "qt_calls_back t"
proof -
  define s2 where "s2 = (put_context_of a s)\<lparr>qs_peer :=
    map_option (pe_disconnect_cb_update (\<lambda>_. True)) (qs_peer (put_context_of a s))\<rparr>"
  have ctx: "qa_context_new a" using assms(1,3) by (auto simp: qt_initialize_peer_def split: if_splits)
  have s2: "qt_calls_back s2"
    using assms(2) by (auto simp: s2_def put_context_of_def qt_calls_back_def)
  obtain s3 e3 ok3 where 3: "qt_start_event_thread (qa_event_created a)
      (qt_set_vcm (qa_pipeline_allocated a) True s2) = (s3, e3, ok3)"
    by (metis surj_pair)
  have s3: "qt_calls_back s3"
    using start_event_thread_keeps [of "qa_event_created a" "qt_set_vcm (qa_pipeline_allocated a) True s2"]
      s2 set_vcm_keeps 3 by simp
  show ?thesis
  proof (cases "qa_initialize a \<and> qa_open_server a \<and> ok3")
    case False
    then show ?thesis using assms(1) ctx s2 s3 3
      by (auto simp: qt_initialize_peer_def Let_def simp flip: s2_def split: if_splits)
  next
    case True
    then obtain e4 m4 where "qt_vcm_rounds depth (qa_rounds a) s3 = Done (t, e4, m4)"
      using assms(1) ctx 3
      by (cases "qt_vcm_rounds depth (qa_rounds a) s3")
         (auto simp: qt_initialize_peer_def Let_def simp flip: s2_def)
    then show ?thesis using rounds_keep s3 by blast
  qed
qed

lemma initialize_no_context:
  assumes "qt_initialize_peer depth a s = Done (t, e, Inl No_context)"
  shows "t = s" "e = []"
  using assms by (auto simp: qt_initialize_peer_def Let_def run_bind_done
      split: if_splits prod.splits bool.splits)

lemma abandon_not_done:
  "qt_calls_back s \<Longrightarrow> qt_abandon depth s w es err = Overflow"
  using session_delete(2) [of Main_thread s depth] by (simp add: qt_abandon_def can_join_def)

text \<open>The errors that are found before the peer has a context.\<close>

definition early_errors :: "listener_error set" where
  "early_errors = {Connection_required, Not_a_socket, No_descriptor, No_freerdp_peer, No_peer_address,
     No_hostname, No_context}"

lemma set_runtime_peer: "qs_peer (qt_set_runtime al r s) = qs_peer s"
  by (simp add: qt_set_runtime_def qt_maybe_init_graphics_def)

text \<open>The cases of an adoption that returns.\<close>

lemma adopt_done:
  assumes "qt_adopt_connection depth qt a connection i w = Done (w', es, r)"
  shows "(\<exists>err. r = Inl err \<and> err \<in> early_errors \<and> w' = w) \<or>
    (r = Inr () \<and> ql_delegate (qw_listener w) \<and> qa_delegate a \<and> w' = w) \<or>
    (\<exists>s st' m. r = Inr () \<and> qt_calls_back s \<and>
       qt_configure_peer_settings qt a True (qw_listener w) (qw_runtime w) (qw_store w) = Some (Some st', m, Inr ()) \<and>
       w' = w\<lparr>qw_store := m, qw_listener := (qw_listener w)\<lparr>ql_sessions := ql_sessions (qw_listener w) @ [i]\<rparr>,
          qw_sessions := (qw_sessions w)(i \<mapsto> s), qw_settings := (qw_settings w)(i \<mapsto> st')\<rparr>)"
proof -
  let ?l = "qw_listener w"
  note un = assms [unfolded qt_adopt_connection_def Let_def]
  show ?thesis
  proof (cases "connection \<and> \<not> (ql_delegate ?l \<and> qa_delegate a) \<and> qa_socket a \<and> qa_descriptor a \<and>
      qa_peer_new a \<and> qa_getpeername a \<and> qa_hostname a \<noteq> None")
    case False
    have "(\<exists>err. r = Inl err \<and> err \<in> early_errors \<and> w' = w) \<or>
        (r = Inr () \<and> ql_delegate ?l \<and> qa_delegate a \<and> w' = w)"
      using un False by (auto simp: early_errors_def split: if_splits option.splits)
    then show ?thesis by blast
  next
    case True
    then obtain h where h: "qa_hostname a = Some h" by auto
    define s0 where "s0 = qt_set_runtime (qa_pipeline_allocated a) (ql_runtime ?l)
      (qt_set_peer_address (qa_address a) (qt_session_new (Some \<lparr>pe_hostname = Some h, pe_context = None,
         pe_disconnect_cb = qa_default_disconnect a\<rparr>)))"
    have p0: "qs_peer s0 \<noteq> None"
      by (simp add: s0_def set_runtime_peer qt_set_peer_address_def qt_session_new_def)
    obtain s1 e1 r1 where 1: "qt_initialize_peer depth a s0 = Done (s1, e1, r1)"
      using un True h by (cases "qt_initialize_peer depth a s0") (auto simp flip: s0_def)
    show ?thesis
    proof (cases r1)
      case (Inl err)
      have ab: "qt_abandon depth s1 w e1 err = Done (w', es, r)"
        using un True h 1 Inl by (simp flip: s0_def)
      then have "err = No_context"
        using initialize_calls_back [OF 1 p0] abandon_not_done [of s1 depth w e1 err] Inl by auto
      then show ?thesis using ab by (auto simp: qt_abandon_def run_bind_done early_errors_def)
    next
      case (Inr u)
      have cb: "qt_calls_back s1" using initialize_calls_back [OF 1 p0] Inr by simp
      obtain st m r2 where 2: "qt_configure_peer_settings qt a True ?l (qw_runtime w) (qw_store w) = Some (st, m, r2)"
        using un True h 1 Inr
        by (cases "qt_configure_peer_settings qt a True ?l (qw_runtime w) (qw_store w)") (auto simp flip: s0_def)
      have r2: "r2 = Inr ()"
        using un True h 1 Inr 2 abandon_not_done [OF cb] by (cases r2) (simp_all flip: s0_def)
      obtain st0 st' where st: "qa_settings a = Some st0" "st = Some st'" "qt_configured qt ?l st0 st'"
        using configure_ok 2 [unfolded r2] by blast
      have "w' = w\<lparr>qw_store := m, qw_listener := ?l\<lparr>ql_sessions := ql_sessions ?l @ [i]\<rparr>,
          qw_sessions := (qw_sessions w)(i \<mapsto> s1), qw_settings := (qw_settings w)(i \<mapsto> st')\<rparr>" "r = Inr ()"
        using un True h 1 Inr 2 r2 st(2) by (simp_all flip: s0_def)
      then show ?thesis using 2 r2 st(2) cb by blast
    qed
  qed
qed

text \<open>
  C13: an adoption of a connection that returns has either failed before the peer had a context,
  and then it changed nothing, or the delegate took the connection, or exactly one session was
  added, whose settings have one security protocol (NLA or TLS, never RDP), RDSTLS for a hand-over,
  the size of the options, H.264 whatever the options say, and no account database even with NLA.
  Every later failure ends in the session's destructor, which never returns: the process dies.
\<close>

theorem qt_adopt_outcome:
  assumes "qt_adopt_connection depth qt a connection i w = Done (w', es, r)"
  shows "case r of
      Inl err \<Rightarrow> err \<in> early_errors \<and> w' = w
    | Inr _ \<Rightarrow> (ql_delegate (qw_listener w) \<and> qa_delegate a \<and> w' = w) \<or>
        (\<exists>s st st'. qa_settings a = Some st \<and> qt_configured qt (qw_listener w) st st' \<and>
           qw_listener w' = (qw_listener w)\<lparr>ql_sessions := ql_sessions (qw_listener w) @ [i]\<rparr> \<and>
           qw_sessions w' = (qw_sessions w)(i \<mapsto> s) \<and> qt_calls_back s \<and>
           qw_settings w' = (qw_settings w)(i \<mapsto> st'))"
  using adopt_done [OF assms]
proof (elim disjE exE conjE)
  fix s st' m
  assume c: "qt_configure_peer_settings qt a True (qw_listener w) (qw_runtime w) (qw_store w) = Some (Some st', m, Inr ())"
    and rest: "r = Inr ()" "qt_calls_back s"
      "w' = w\<lparr>qw_store := m, qw_listener := (qw_listener w)\<lparr>ql_sessions := ql_sessions (qw_listener w) @ [i]\<rparr>,
         qw_sessions := (qw_sessions w)(i \<mapsto> s), qw_settings := (qw_settings w)(i \<mapsto> st')\<rparr>"
  obtain st where "qa_settings a = Some st" "qt_configured qt (qw_listener w) st st'"
    using configure_ok [OF c] by blast
  then show ?thesis using rest by auto
qed simp_all

definition witness_accept :: qt_accept where
  "witness_accept = \<lparr>qa_delegate = False, qa_socket = True, qa_descriptor = True, qa_address = ''host'',
     qa_peer_new = True, qa_getpeername = True, qa_hostname = Some ''host'', qa_default_disconnect = True,
     qa_context_new = True, qa_initialize = True, qa_open_server = True, qa_event_created = True,
     qa_pipeline_allocated = True, qa_rounds = [], qa_setting = (\<lambda>_. True), qa_tls = good_api,
     qa_settings = Some \<lparr>fs_bool = (\<lambda>_. False), fs_uint = (\<lambda>_. Num 0), fs_ntlm_sam_file = None,
       fs_tls = \<lparr>st_certificate = None, st_key = None\<rparr>\<rparr>,
     qa_peer_settings = \<lparr>ps_width = 1024, ps_height = 768, ps_desktop_resize = False, ps_multifrag_max = 0,
       ps_os_major = OSMAJORTYPE_OTHER 0, ps_os_minor_nt = False\<rparr>\<rparr>"

definition witness_listener :: qt_listener where
  "witness_listener = the (qt_listener_new ''127.0.0.1'' 3390 True Map.empty True ''u'' ''p'' ''pam'' ''user'')"

definition witness_world :: qt_world where
  "witness_world = \<lparr>qw_listener = witness_listener, qw_runtime = qt_runtime_set_tls (Some pem_credentials) qt_runtime_new,
     qw_sessions = Map.empty, qw_settings = Map.empty, qw_store = empty_store\<rparr>"

lemma known_user: "known_mode ''user''"
  by (simp add: known_mode_def runtime_mode_matches_def strcaseeq_def)

lemma witness_listener:
  "ql_delegate witness_listener = False" "ql_runtime witness_listener" "ql_nla_enabled witness_listener"
  "ql_options witness_listener = Map.empty" "ql_sessions witness_listener = []"
  "qt_listener_is_handover_mode witness_listener = False"
  by (simp_all add: witness_listener_def qt_listener_new_def qt_listener_init_def Let_def known_user
      qt_listener_is_handover_mode_def runtime_mode_matches_def strcaseeq_def ascii_tolower_def)

text \<open>The configuration of a connection that FreeRDP accepts, up to its size.\<close>

lemma witness_tls:
  "\<exists>t m. qt_tls_apply good_api pem_credentials (Some \<lparr>st_certificate = None, st_key = None\<rparr>) empty_store =
     Some (Some t, m, ok)"
  by (simp add: qt_tls_apply_def qt_tls_material_def pem_credentials_def qt_tls_reload_from_pem_def
      qt_tls_new_def good_api_def freerdp_certificate_new_from_pem_def freerdp_key_new_from_pem_def)

lemma witness_adopts:
  "\<exists>w' es. qt_adopt_connection depth qt witness_accept True i witness_world = Done (w', es, Inr ())"
proof -
  obtain t m where t: "qt_tls_apply good_api pem_credentials (Some \<lparr>st_certificate = None, st_key = None\<rparr>) empty_store =
     Some (Some t, m, ok)"
    using witness_tls by blast
  show ?thesis
    by (simp add: qt_adopt_connection_def witness_world_def witness_listener witness_accept_def Let_def
        qt_initialize_peer_def put_context_of_def qt_start_event_thread_def qt_set_vcm_def qt_maybe_init_graphics_def
        qt_set_runtime_def qt_set_peer_address_def qt_session_new_def qt_context_of_def
        qt_configure_peer_settings_def qt_runtime_tls_def qt_runtime_set_tls_def t write_settings_yes option_value_def)
qed

theorem qt_adopt_outcome_witness:
  "\<exists>w' es st'. qt_adopt_connection 0 witness_qt witness_accept True 7 witness_world = Done (w', es, Inr ()) \<and>
     qw_settings w' 7 = Some st' \<and> fs_bool st' FreeRDP_NlaSecurity \<and> fs_ntlm_sam_file st' = None"
proof -
  obtain w' es where a: "qt_adopt_connection 0 witness_qt witness_accept True 7 witness_world = Done (w', es, Inr ())"
    using witness_adopts by blast
  have l: "qw_listener witness_world = witness_listener" by (simp add: witness_world_def)
  have sam: "fs_ntlm_sam_file st = None" if "qa_settings witness_accept = Some st" for st
    using that by (auto simp: witness_accept_def)
  obtain st st' where st: "qa_settings witness_accept = Some st" "qt_configured witness_qt witness_listener st st'"
    "qw_settings w' = (qw_settings witness_world)(7 \<mapsto> st')"
    using qt_adopt_outcome [OF a] by (simp only: sum.case l witness_listener(1) simp_thms) blast
  have "fs_bool st' FreeRDP_NlaSecurity" "fs_ntlm_sam_file st' = None"
    using st(2) witness_listener(3) sam [OF st(1)] by (simp_all add: qt_configured_def)
  then show ?thesis using a st(3) by (metis fun_upd_same)
qed

end
