(* ===== verification/Rdp_Accept.thy ===== *)
theory Rdp_Accept
  imports Rdp_Listener System_Daemon
begin

text \<open>
  The peers of the listener (\<^verbatim>\<open>src/transport/drd_rdp_listener.c\<close>): FreeRDP's callbacks, the TLS
  login, accepting a peer, and the socket service around it.

  The callbacks run on the peer's channel thread. That thread is started in the middle of
  \<open>drd_rdp_listener_accept_peer\<close>, so what it does before the rest of that function is a list of
  operations between the two halves.
\<close>

subsection \<open>What a session does to the listener\<close>

text \<open>The session's own \<open>Disconnect\<close> call and its closed callback lead back into the listener.\<close>

definition put_session :: "nat \<Rightarrow> rdp_session \<Rightarrow> listener_world \<Rightarrow> listener_world" where
  "put_session i s w = w\<lparr>lw_peers := (case lw_peers w i of None \<Rightarrow> lw_peers w
     | Some ctx \<Rightarrow> (lw_peers w)(i \<mapsto> ctx\<lparr>px_session := s\<rparr>))\<rparr>"

definition put_context :: "nat \<Rightarrow> drd_peer_context \<Rightarrow> listener_world \<Rightarrow> listener_world" where
  "put_context i ctx w = w\<lparr>lw_peers := (lw_peers w)(i \<mapsto> ctx)\<rparr>"

definition close_session :: "nat \<Rightarrow> listener_world \<Rightarrow> listener_world" where
  "close_session i w = (case drd_rdp_listener_on_session_closed i (lw_listener w, lw_runtime w) of
     ((l, rt), _) \<Rightarrow> w\<lparr>lw_listener := l, lw_runtime := rt\<rparr>)"

definition drd_peer_disconnected :: "nat \<Rightarrow> listener_world \<Rightarrow> listener_world" where
  "drd_peer_disconnected i w =
     (case lw_peers w i of None \<Rightarrow> w
      | Some ctx \<Rightarrow>
        let w1 = put_session i (drd_rdp_session_set_peer_state ''disconnected'' (px_session ctx)) w
        in if px_listener ctx then close_session i w1 else w1)"

primrec handle_session_event :: "nat \<Rightarrow> listener_world \<Rightarrow> session_event list \<Rightarrow> listener_world" where
  "handle_session_event i w [] = w"
| "handle_session_event i w (e # es) = handle_session_event i
     (if e = Closed_callback then close_session i w
      else if e = Peer_disconnect then drd_peer_disconnected i w else w) es"

definition session_effect ::
    "nat \<Rightarrow> listener_world \<Rightarrow> rdp_session \<times> server_runtime \<times> session_event list \<Rightarrow> listener_world" where
  "session_effect i w res = (case res of (s, rt, es) \<Rightarrow>
     handle_session_event i (put_session i s (w\<lparr>lw_runtime := rt\<rparr>)) es)"

text \<open>The model makes these calls after the session's operation, the code in the middle of it. The
  only step of the session that follows the callback and touches the runtime is the switch to the
  other transport, and it commutes with the stop.\<close>

lemma stop_switch_commute:
  "map_prod id id (drd_server_runtime_stop (switch_transport m rt)) =
   (case drd_server_runtime_stop rt of (rt', es) \<Rightarrow> (switch_transport m rt', es))"
  by (auto simp: drd_server_runtime_stop_def switch_transport_eq drd_encoding_manager_reset_def
      drd_encoding_manager_force_keyframe_def split: prod.splits)

subsection \<open>FreeRDP's callbacks\<close>

definition drd_rdp_listener_authenticate_tls_login ::
    "pam_answers \<Rightarrow> listener \<Rightarrow> drd_peer_context \<Rightarrow> drd_peer_context \<times> pam_event list \<times> bool" where
  "drd_rdp_listener_authenticate_tls_login pam self ctx =
     (if \<not> px_listener ctx then (ctx, [], False)
      else let username = lg_username (px_login ctx); password = lg_password (px_login ctx);
               domain = lg_domain (px_login ctx) in
      if empty_arg username \<or> empty_arg password then (ctx, [], False)
      else case drd_local_session_new pam (Some (li_pam_service self)) username domain password
             (px_hostname ctx) of (calls, r) \<Rightarrow>
        let ctx1 = ctx\<lparr>px_login := (px_login ctx)\<lparr>lg_password := Some []\<rparr>\<rparr> in
        case r of Inl e \<Rightarrow> (ctx1, calls, False)
        | Inr _ \<Rightarrow> (ctx1\<lparr>px_session := fst (drd_rdp_session_attach_local_session True (px_session ctx1))\<rparr>,
                    calls, True))"

definition drd_peer_post_connect ::
    "pam_answers \<Rightarrow> nat \<Rightarrow> listener_world \<Rightarrow> (listener_world \<times> pam_event list \<times> bool) option" where
  "drd_peer_post_connect pam i w =
     (case lw_peers w i of None \<Rightarrow> Some (w, [], False)
      | Some ctx \<Rightarrow>
        let (s, result) = drd_rdp_session_post_connect (px_session ctx);
            ctx1 = ctx\<lparr>px_session := s, px_nla_sam := None\<rparr>;
            w1 = put_context i ctx1 (w\<lparr>lw_files := drd_nla_sam_file_free (px_nla_sam ctx) (lw_files w)\<rparr>)
        in if \<not> result then Some (w1, [], False)
        else if px_listener ctx1 \<and> \<not> li_nla_enabled (lw_listener w1)
        then (case drd_rdp_listener_authenticate_tls_login pam (lw_listener w1) ctx1 of
            (ctx2, calls, True) \<Rightarrow> Some (put_context i ctx2 w1, calls, True)
          | (ctx2, calls, False) \<Rightarrow>
              map_option (\<lambda>res. (session_effect i (put_context i ctx2 w1) res, calls, False))
                (drd_rdp_session_disconnect Vcm_thread (px_session ctx2) (lw_runtime w1)))
        else Some (w1, [], True))"

definition drd_peer_activate ::
    "resize_answers \<Rightarrow> x11_answers \<Rightarrow> input_answers \<Rightarrow> nat \<Rightarrow> listener_world \<Rightarrow>
     (listener_world \<times> bool) option" where
  "drd_peer_activate ra xa ia i w =
     (case lw_peers w i of None \<Rightarrow> Some (w, False)
      | Some ctx \<Rightarrow> map_option (\<lambda>(s, rt, es, r). (session_effect i w (s, rt, es), r))
          (drd_rdp_session_activate Vcm_thread ra xa ia (px_session ctx) (lw_runtime w)))"

text \<open>FreeRDP has written the client's settings when it calls this.\<close>

definition drd_peer_capabilities ::
    "peer_settings \<Rightarrow> bool \<Rightarrow> nat \<Rightarrow> listener_world \<Rightarrow> listener_world \<times> bool" where
  "drd_peer_capabilities client drdynvc_joined i w =
     (case lw_peers w i of None \<Rightarrow> (w, False)
      | Some ctx0 \<Rightarrow>
        let ctx = ctx0\<lparr>px_session := put_peer_settings client (px_session ctx0)\<rparr>;
            w1 = put_context i ctx w in
        if peer_settings_of (px_session ctx) = None then (w1, False)
        else if \<not> px_vcm ctx then (w1, False)
        else if \<not> drdynvc_joined then (w1, False)
        else if \<not> ps_desktop_resize client
        then (put_session i (drd_rdp_session_set_peer_state ''desktop-resize-unsupported'' (px_session ctx)) w1,
              False)
        else (if px_listener ctx
              then w1\<lparr>lw_runtime := drd_rdp_listener_update_system_encoding (ps_width client)
                        (ps_height client) (lw_listener w1) (lw_runtime w1)\<rparr>
              else w1, True))"

text \<open>The input callbacks. They are installed by the second half of accepting, never in system mode;
  they always report success to FreeRDP.\<close>

datatype client_input = Keyboard u16 u8 | Unicode u16 u16 | Pointer u16 u16 u16
  | Extended_pointer u16 u16 u16

definition drd_peer_get_dispatcher :: "drd_peer_context \<Rightarrow> server_runtime \<Rightarrow> input_dispatcher option" where
  "drd_peer_get_dispatcher ctx rt =
     (if \<not> px_runtime ctx then None else Some (drd_server_runtime_get_input rt))"

definition drd_rdp_peer_keyboard_event ::
    "key_tables \<Rightarrow> u16 \<Rightarrow> u8 \<Rightarrow> drd_peer_context \<Rightarrow> server_runtime \<Rightarrow> server_runtime \<times> xtest_event list \<times> bool" where
  "drd_rdp_peer_keyboard_event kt flags code ctx rt =
     (case drd_peer_get_dispatcher ctx rt of None \<Rightarrow> (rt, [], True)
      | Some d \<Rightarrow> (case drd_input_dispatcher_handle_keyboard kt flags code d of
          (d', ev, r) \<Rightarrow> (rt\<lparr>sr_input := d'\<rparr>, ev, True)))"

definition drd_rdp_peer_unicode_event ::
    "key_tables \<Rightarrow> u16 \<Rightarrow> u16 \<Rightarrow> drd_peer_context \<Rightarrow> server_runtime \<Rightarrow> server_runtime \<times> xtest_event list \<times> bool" where
  "drd_rdp_peer_unicode_event kt flags code ctx rt =
     (case drd_peer_get_dispatcher ctx rt of None \<Rightarrow> (rt, [], True)
      | Some d \<Rightarrow> (case drd_input_dispatcher_handle_unicode kt flags code d of
          (d', ev, r) \<Rightarrow> (rt\<lparr>sr_input := d'\<rparr>, ev, True)))"

definition drd_rdp_peer_pointer_event ::
    "u16 \<Rightarrow> u16 \<Rightarrow> u16 \<Rightarrow> drd_peer_context \<Rightarrow> server_runtime \<Rightarrow> server_runtime \<times> xtest_event list \<times> bool" where
  "drd_rdp_peer_pointer_event flags x y ctx rt =
     (case drd_peer_get_dispatcher ctx rt of None \<Rightarrow> (rt, [], True)
      | Some d \<Rightarrow> (case drd_input_dispatcher_handle_pointer flags x y d of (ev, r) \<Rightarrow> (rt, ev, True)))"

definition client_input_event ::
    "key_tables \<Rightarrow> client_input \<Rightarrow> nat \<Rightarrow> listener_world \<Rightarrow> listener_world \<times> xtest_event list" where
  "client_input_event kt c i w =
     (case lw_peers w i of None \<Rightarrow> (w, [])
      | Some ctx \<Rightarrow>
        if \<not> px_input ctx then (w, [])
        else let rt = lw_runtime w; (rt', ev, _) = (case c of
              Keyboard flags code \<Rightarrow> drd_rdp_peer_keyboard_event kt flags code ctx rt
            | Unicode flags code \<Rightarrow> drd_rdp_peer_unicode_event kt flags code ctx rt
            | Pointer flags x y \<Rightarrow> drd_rdp_peer_pointer_event flags x y ctx rt
            | Extended_pointer flags x y \<Rightarrow> drd_rdp_peer_pointer_event flags x y ctx rt)
        in (w\<lparr>lw_runtime := rt'\<rparr>, ev))"

text \<open>What a peer's threads can do at any time.\<close>

datatype client_op =
    Cl_capabilities peer_settings bool
  | Cl_post_connect pam_answers
  | Cl_activate resize_answers x11_answers input_answers
  | Cl_session session_op
  | Cl_input key_tables client_input

primrec client_step :: "nat \<Rightarrow> client_op \<Rightarrow> listener_world \<Rightarrow> listener_world option" where
  "client_step i (Cl_capabilities st joined) w = Some (fst (drd_peer_capabilities st joined i w))"
| "client_step i (Cl_post_connect pam) w = map_option fst (drd_peer_post_connect pam i w)"
| "client_step i (Cl_activate ra xa ia) w = map_option fst (drd_peer_activate ra xa ia i w)"
| "client_step i (Cl_session op) w =
     (case lw_peers w i of None \<Rightarrow> Some w
      | Some ctx \<Rightarrow> map_option (session_effect i w) (session_step op (px_session ctx, lw_runtime w)))"
| "client_step i (Cl_input kt c) w = Some (fst (client_input_event kt c i w))"

primrec client_run :: "(nat \<times> client_op) list \<Rightarrow> listener_world \<Rightarrow> listener_world option" where
  "client_run [] w = Some w"
| "client_run (op # ops) w = Option.bind (client_step (fst op) (snd op) w) (client_run ops)"

subsection \<open>Accepting a peer\<close>

definition drd_peer_context_new :: "accept_answers \<Rightarrow> drd_peer_context" where
  "drd_peer_context_new aa = \<lparr>px_session = drd_rdp_session_new (aa_peer aa), px_runtime = False,
     px_nla_sam = None, px_vcm = False, px_listener = False, px_login = aa_login aa,
     px_hostname = pe_hostname (aa_peer aa), px_input = False\<rparr>"

text \<open>The callback that would free a context. FreeRDP runs it in \<^verbatim>\<open>freerdp_peer_context_free\<close>, which
  this daemon never calls.\<close>

definition drd_peer_context_free :: "nat \<Rightarrow> listener_world \<Rightarrow> listener_world option" where
  "drd_peer_context_free i w =
     (case lw_peers w i of None \<Rightarrow> Some w
      | Some ctx \<Rightarrow>
        let w1 = (if px_listener ctx then close_session i w else w) in
        map_option (\<lambda>res. let w2 = session_effect i w1 res in
            w2\<lparr>lw_files := drd_nla_sam_file_free (px_nla_sam ctx) (lw_files w2),
               lw_peers := (lw_peers w2)(i := None)\<rparr>)
          (drd_rdp_session_dispose Main_thread (px_session ctx) (lw_runtime w1)))"

text \<open>The half up to the start of the peer's thread.\<close>

definition accept_setup ::
    "accept_answers \<Rightarrow> string \<Rightarrow> nat \<Rightarrow> listener_world \<Rightarrow> (listener_world \<times> bool) option" where
  "accept_setup aa peer_name i w =
     (if \<not> aa_context_new aa then Some (w, False)
      else let ctx = drd_peer_context_new aa; w1 = put_context i ctx w in
      if drd_rdp_listener_has_active_session (lw_listener w1) then Some (w1, False)
      else Option.bind (drd_configure_peer_settings aa ctx w1) (\<lambda>(ctx2, w2, st, r).
        case r of Inl e \<Rightarrow> Some (put_context i ctx2 w2, False)
        | Inr _ \<Rightarrow>
          if \<not> aa_initialize aa then Some (put_context i ctx2 w2, False)
          else let s3 = drd_rdp_session_set_peer_address (Some peer_name) (px_session ctx2);
                   ctx3 = ctx2\<lparr>px_session := s3\<rparr> in
          if \<not> aa_open_server aa then Some (put_context i ctx3 w2, False)
          else let al = aa_pipeline_allocated aa; rt = lw_runtime w2;
              s4 = drd_rdp_session_set_virtual_channel_manager al True s3 rt;
              s5 = drd_rdp_session_set_runtime al True s4 rt;
              s6 = drd_rdp_session_set_passive_mode
                     (drd_rdp_listener_is_system_mode (lw_listener w2)) s5;
              (s7, es, started) = drd_rdp_session_start_event_thread (aa_event_created aa) s6;
              ctx7 = ctx3\<lparr>px_vcm := True, px_runtime := True, px_session := s7\<rparr>
          in Some (put_context i ctx7 w2, started)))"

text \<open>The half after it.\<close>

definition accept_publish :: "nat \<Rightarrow> listener_world \<Rightarrow> listener_world" where
  "accept_publish i w =
     (case lw_peers w i of None \<Rightarrow> w
      | Some ctx \<Rightarrow>
        let s1 = drd_rdp_session_set_peer_state ''initialized'' (px_session ctx);
            l = lw_listener w;
            w1 = put_context i (ctx\<lparr>px_session := s1, px_listener := True\<rparr>)
                   (w\<lparr>lw_listener := l\<lparr>li_sessions := li_sessions l @ [i]\<rparr>\<rparr>);
            (s2, es) = drd_rdp_session_set_closed_callback True s1;
            w2 = session_effect i w1 (s2, lw_runtime w1, es)
        in (case lw_peers w2 i of None \<Rightarrow> w2
            | Some c \<Rightarrow> put_context i (c\<lparr>px_input := \<not> drd_rdp_listener_is_system_mode l\<rparr>) w2))"

definition drd_rdp_listener_accept_peer ::
    "accept_answers \<Rightarrow> (nat \<times> client_op) list \<Rightarrow> string \<Rightarrow> nat \<Rightarrow> listener_world \<Rightarrow>
     (listener_world \<times> bool) option" where
  "drd_rdp_listener_accept_peer aa between peer_name i w =
     Option.bind (accept_setup aa peer_name i w) (\<lambda>(w1, started).
       if \<not> started then Some (w1, False)
       else map_option (\<lambda>w2. (accept_publish i w2, True)) (client_run between w1))"

subsection \<open>Connections\<close>

record connection =
  cn_remote :: "(string \<times> nat) option"  \<comment> \<open>an internet address and port\<close>
  cn_fd :: "int option"  \<comment> \<open>the socket's descriptor\<close>
  cn_dup :: "int + unit"  \<comment> \<open>\<open>errno\<close> of a failed \<^verbatim>\<open>dup\<close>\<close>
  cn_getfd :: bool
  cn_peer_new :: bool
  cn_keep_open :: bool  \<comment> \<open>the system daemon keeps the connection\<close>

datatype connection_event =
    Dup_fd | Cloexec_fd | Close_dup_fd | Peer_free | Close_connection | Unref_connection
  | Session_ready nat

definition drd_rdp_listener_describe_connection :: "connection \<Rightarrow> string" where
  "drd_rdp_listener_describe_connection c =
     (case cn_remote c of None \<Rightarrow> ''unknown'' | Some (ip, port) \<Rightarrow> ip @ '':'' @ decimal port)"

definition drd_rdp_listener_connection_keep_open :: "connection \<Rightarrow> bool" where
  "drd_rdp_listener_connection_keep_open c = cn_keep_open c"

definition drd_rdp_listener_peer_from_connection :: "connection \<Rightarrow> connection_event list \<times> unit res" where
  "drd_rdp_listener_peer_from_connection c =
     (case cn_fd c of None \<Rightarrow> ([], fail_io IoFailed)
      | Some fd \<Rightarrow>
        if fd < 0 then ([], fail_io IoFailed)
        else (case cn_dup c of Inl e \<Rightarrow> ([], fail_io (IoErrno e))
        | Inr _ \<Rightarrow>
          let es = Dup_fd # (if cn_getfd c then [Cloexec_fd] else []) in
          if \<not> cn_peer_new c then (es @ [Close_dup_fd], fail_io IoFailed) else (es, ok)))"

definition drd_rdp_listener_close_connection :: "bool \<Rightarrow> connection_event list" where
  "drd_rdp_listener_close_connection keep =
     (if keep then [] else [Close_connection]) @ [Unref_connection]"

text \<open>\<^verbatim>\<open>freerdp_peer_free\<close> frees the peer and closes its descriptor, but not the context: that is what
  \<^verbatim>\<open>freerdp_peer_context_free\<close> is for. The context, its session and its account database stay behind,
  and nothing refers to them any more.\<close>

definition drd_rdp_listener_cleanup_peer ::
    "nat \<Rightarrow> bool \<Rightarrow> listener_world \<Rightarrow> listener_world \<times> connection_event list" where
  "drd_rdp_listener_cleanup_peer i keep w =
     ((case lw_peers w i of None \<Rightarrow> w
       | Some ctx \<Rightarrow> w\<lparr>lw_peers := (lw_peers w)(i := None), lw_leaked := ctx # lw_leaked w\<rparr>),
      Peer_free # drd_rdp_listener_close_connection keep)"

definition drd_rdp_listener_handle_connection ::
    "accept_answers \<Rightarrow> (nat \<times> client_op) list \<Rightarrow> connection \<Rightarrow> nat \<Rightarrow> listener_world \<Rightarrow>
     (listener_world \<times> connection_event list \<times> unit res) option" where
  "drd_rdp_listener_handle_connection aa between c i w =
     (let peer_name = drd_rdp_listener_describe_connection c;
          keep = drd_rdp_listener_connection_keep_open c
      in case drd_rdp_listener_peer_from_connection c of
        (es, Inl e) \<Rightarrow> Some (w, es @ drd_rdp_listener_close_connection False, Inl e)
      | (es, Inr _) \<Rightarrow>
        map_option (\<lambda>(w1, accepted).
          if \<not> accepted
          then (let (w2, fs) = drd_rdp_listener_cleanup_peer i keep w1 in (w2, es @ fs, Inl Unset))
          else (w1, es @
            (if li_session_cb (lw_listener w1) \<and> lw_peers w1 i \<noteq> None then [Session_ready i] else []) @
            drd_rdp_listener_close_connection keep, ok))
          (drd_rdp_listener_accept_peer aa between peer_name i w))"

text \<open>\<open>delegated\<close> is what the delegate answers: whether it handled the connection, and whether it
  reported an error. The service always goes on.\<close>

definition drd_rdp_listener_incoming ::
    "bool \<times> bool \<Rightarrow> accept_answers \<Rightarrow> (nat \<times> client_op) list \<Rightarrow> connection \<Rightarrow> nat \<Rightarrow> listener_world \<Rightarrow>
     (listener_world \<times> connection_event list \<times> bool) option" where
  "drd_rdp_listener_incoming delegated aa between c i w =
     (let self = lw_listener w;
          asked = (drd_rdp_listener_is_system_mode self \<and> li_delegate self) in
      if asked \<and> (fst delegated \<or> snd delegated) then Some (w, [], True)
      else map_option (\<lambda>(w', es, r). (w', es, True))
             (drd_rdp_listener_handle_connection aa between c i w))"

definition drd_rdp_listener_adopt_connection ::
    "accept_answers \<Rightarrow> (nat \<times> client_op) list \<Rightarrow> connection \<Rightarrow> nat \<Rightarrow> listener_world \<Rightarrow>
     (listener_world \<times> connection_event list \<times> unit res) option" where
  "drd_rdp_listener_adopt_connection aa between c i w =
     drd_rdp_listener_handle_connection aa between c i w"

subsection \<open>The service\<close>

record bind_answers =
  ba_any_port :: "unit res"
  ba_parse :: bool
  ba_address :: "unit res"

definition drd_rdp_listener_bind :: "bind_answers \<Rightarrow> listener \<Rightarrow> listener \<times> unit res" where
  "drd_rdp_listener_bind ba self =
     (if li_is_bound self then (self, fail_io (IoErrno EEXIST))
      else let r = (if li_bind_address self \<in> {[], ''0.0.0.0'', ''::''} then ba_any_port ba
                    else if \<not> ba_parse ba then fail_io IoInvalidArgument
                    else ba_address ba)
      in case r of Inl e \<Rightarrow> (self, Inl e) | Inr _ \<Rightarrow> (self\<lparr>li_is_bound := True\<rparr>, ok))"

definition drd_rdp_listener_start :: "bind_answers \<Rightarrow> listener \<Rightarrow> listener \<times> unit res" where
  "drd_rdp_listener_start ba self =
     (case drd_rdp_listener_bind ba self of
        (s, Inl e) \<Rightarrow> (s, Inl e)
      | (s, Inr _) \<Rightarrow>
        ((if drd_rdp_listener_is_system_mode s \<and> \<not> li_cancellable s
          then s\<lparr>li_cancellable := True\<rparr> else s), ok))"

definition drd_rdp_listener_stop_internal :: "listener_world \<Rightarrow> listener_world" where
  "drd_rdp_listener_stop_internal w =
     (let l = (lw_listener w)\<lparr>li_is_bound := False, li_sessions := [], li_cancellable := False\<rparr>;
          rt = (if li_has_runtime l then fst (drd_server_runtime_stop (lw_runtime w)) else lw_runtime w)
      in w\<lparr>lw_listener := l, lw_runtime := rt\<rparr>)"

definition drd_rdp_listener_stop :: "listener_world \<Rightarrow> listener_world" where
  "drd_rdp_listener_stop w = drd_rdp_listener_stop_internal w"

definition drd_rdp_listener_dispose :: "listener_world \<Rightarrow> listener_world" where
  "drd_rdp_listener_dispose w = (let w1 = drd_rdp_listener_stop_internal w
     in w1\<lparr>lw_listener := (lw_listener w1)\<lparr>li_has_runtime := False\<rparr>\<rparr>)"

definition drd_rdp_listener_finalize :: "listener \<Rightarrow> listener" where
  "drd_rdp_listener_finalize self = self\<lparr>li_bind_address := [], li_sessions := [],
     li_nla_username := None, li_nla_password := None, li_nla_hash := None, li_pam_service := []\<rparr>"

definition drd_rdp_listener_set_delegate :: "bool \<Rightarrow> listener \<Rightarrow> listener" where
  "drd_rdp_listener_set_delegate func self = self\<lparr>li_delegate := func\<rparr>"

definition drd_rdp_listener_set_session_callback :: "bool \<Rightarrow> listener \<Rightarrow> listener" where
  "drd_rdp_listener_set_session_callback func self = self\<lparr>li_session_cb := func\<rparr>"

end
