(* ===== verification/Rdp_Redirection.thy ===== *)
theory Rdp_Redirection
  imports Rdp_Session
begin

text \<open>
  The server redirection (\<^verbatim>\<open>drd_rdp_session_send_server_redirection\<close> of
  \<^verbatim>\<open>src/session/drd_rdp_session.c\<close>): which options the client is given, the certificate
  container byte by byte, and which flags announce them.

  FreeRDP's redirection object is the list of the calls made on it. WinPR's stream is the bytes
  written and the room left; writing past the room is a crash (\<open>None\<close>). The conversions, the
  random numbers and the certificate parser are answers.
\<close>

subsection \<open>The certificate container\<close>

record redirection_answers =
  rd_new :: bool
  rd_to_wchar :: "string \<Rightarrow> u16 list option"
  rd_random :: "u8 list option"
  rd_base64 :: "u8 list \<Rightarrow> string option"
  rd_certificate :: "string \<Rightarrow> u8 list option option"  \<comment> \<open>the parsed certificate, its DER form\<close>
  rd_stream_new :: bool
  rd_ensure :: "nat \<Rightarrow> nat \<Rightarrow> nat option"  \<comment> \<open>room and demand to the new room\<close>
  rd_encoding_type :: u32  \<comment> \<open>\<open>ENCODING_TYPE_ASN1_DER\<close>\<close>
  rd_valid :: bool
  rd_send :: bool

definition ELEMENT_TYPE_CERTIFICATE :: u32 where
  "ELEMENT_TYPE_CERTIFICATE = 32"

type_synonym stream = "u8 list \<times> nat"

definition le32 :: "u32 \<Rightarrow> u8 list" where
  "le32 n = map (\<lambda>i. ucast (drop_bit (8 * i) n)) [0, 1, 2, 3]"

definition stream_write :: "u8 list \<Rightarrow> stream \<Rightarrow> stream option" where
  "stream_write bs s = (if length bs \<le> snd s then Some (fst s @ bs, snd s - length bs) else None)"

text \<open>\<open>Some None\<close> is the \<open>NULL\<close> of the code. The length passes through a \<open>gint64\<close>.\<close>

definition drd_rdp_session_get_certificate_container ::
    "redirection_answers \<Rightarrow> string \<Rightarrow> u8 list option option" where
  "drd_rdp_session_get_certificate_container ans certificate =
     (case rd_certificate ans certificate of None \<Rightarrow> Some None
      | Some None \<Rightarrow> Some None
      | Some (Some der) \<Rightarrow>
        if \<not> rd_stream_new ans then Some None
        else case rd_ensure ans 2048 12 of None \<Rightarrow> Some None
        | Some room \<Rightarrow>
        Option.bind (stream_write (le32 ELEMENT_TYPE_CERTIFICATE) ([], room)) (\<lambda>s1.
        Option.bind (stream_write (le32 (rd_encoding_type ans)) s1) (\<lambda>s2.
        let der_len_signed = sint (word_of_nat (length der) :: 64 word) in
        if der_len_signed < 0 \<or> der_len_signed > 4294967295 then Some None
        else Option.bind (stream_write (le32 (word_of_int der_len_signed)) s2) (\<lambda>s3.
        case rd_ensure ans (snd s3) (length der) of None \<Rightarrow> Some None
        | Some room' \<Rightarrow>
        Option.bind (stream_write der (fst s3, room')) (\<lambda>s4. Some (Some (fst s4)))))))"

text \<open>What a reader of the container finds: element type, encoding, and the certificate.\<close>

definition read_le32 :: "u8 list \<Rightarrow> u32" where
  "read_le32 bs = or (ucast (bs ! 0)) (or (push_bit 8 (ucast (bs ! 1)))
     (or (push_bit 16 (ucast (bs ! 2))) (push_bit 24 (ucast (bs ! 3)))))"

definition container_reader :: "u8 list \<Rightarrow> (u32 \<times> u32 \<times> u8 list) option" where
  "container_reader bs = (if length bs < 12 then None
     else let n = unat (read_le32 (drop 8 bs)) in
     if length bs = 12 + n then Some (read_le32 bs, read_le32 (drop 4 bs), drop 12 bs) else None)"

subsection \<open>The redirection\<close>

datatype redirection_flag = LB_LOAD_BALANCE_INFO | LB_USERNAME | LB_PASSWORD
  | LB_PASSWORD_IS_PK_ENCRYPTED | LB_REDIRECTION_GUID | LB_TARGET_CERTIFICATE

datatype redirection_call =
    Set_byte_option redirection_flag "u8 list"
  | Set_string_option redirection_flag string
  | Set_flags "redirection_flag set"
  | Send_redirection

definition string_bytes :: "string \<Rightarrow> u8 list" where
  "string_bytes s = map of_char s"

definition le16 :: "u16 \<Rightarrow> u8 list" where
  "le16 n = [ucast n, ucast (drop_bit 8 n)]"

text \<open>The bytes of the string with its terminator, as the pointer and the size name them.\<close>

definition drd_rdp_session_get_utf16_string :: "redirection_answers \<Rightarrow> string \<Rightarrow> u8 list option" where
  "drd_rdp_session_get_utf16_string ans str =
     map_option (\<lambda>ws. concat (map le16 (ws @ [0]))) (rd_to_wchar ans str)"

definition drd_rdp_session_generate_redirection_guid :: "redirection_answers \<Rightarrow> u8 list option" where
  "drd_rdp_session_generate_redirection_guid ans =
     Option.bind (rd_random ans) (\<lambda>guid_bytes.
     Option.bind (rd_base64 ans guid_bytes) (drd_rdp_session_get_utf16_string ans))"

definition encrypts_password :: "peer_settings \<Rightarrow> bool" where
  "encrypts_password st \<longleftrightarrow> ps_os_major st \<noteq> OSMAJORTYPE_IOS \<and> ps_os_major st \<noteq> OSMAJORTYPE_ANDROID"

definition drd_rdp_session_send_server_redirection ::
    "redirection_answers \<Rightarrow> string \<Rightarrow> string \<Rightarrow> string \<Rightarrow> string \<Rightarrow> rdp_session \<Rightarrow>
     (redirection_call list \<times> bool) option" where
  "drd_rdp_session_send_server_redirection ans routing_token username password certificate self =
     (case peer_settings_of self of None \<Rightarrow> Some ([], False)
      | Some settings \<Rightarrow>
      if \<not> rd_new ans then Some ([], False)
      else let f1 = {LB_LOAD_BALANCE_INFO};
          c1 = [Set_byte_option LB_LOAD_BALANCE_INFO (string_bytes routing_token)];
          f2 = insert LB_USERNAME f1;
          c2 = c1 @ [Set_string_option LB_USERNAME username];
          f3 = insert LB_PASSWORD f2;
          f4 = (if encrypts_password settings then insert LB_PASSWORD_IS_PK_ENCRYPTED f3 else f3)
      in case drd_rdp_session_get_utf16_string ans password of None \<Rightarrow> Some (c2, False)
      | Some utf16_password \<Rightarrow>
      let c3 = c2 @ [Set_byte_option LB_PASSWORD utf16_password];
          f5 = insert LB_REDIRECTION_GUID f4
      in case drd_rdp_session_generate_redirection_guid ans of None \<Rightarrow> Some (c3, False)
      | Some encoded_guid \<Rightarrow>
      let c4 = c3 @ [Set_byte_option LB_REDIRECTION_GUID encoded_guid];
          f6 = insert LB_TARGET_CERTIFICATE f5
      in Option.bind (drd_rdp_session_get_certificate_container ans certificate) (\<lambda>r.
      case r of None \<Rightarrow> Some (c4, False)
      | Some container \<Rightarrow>
      let c5 = c4 @ [Set_byte_option LB_TARGET_CERTIFICATE container, Set_flags f6] in
      if \<not> rd_valid ans then Some (c5, False)
      else Some (c5 @ [Send_redirection], rd_send ans)))"

subsection \<open>Its properties\<close>

text \<open>What WinPR documents of \<open>Stream_EnsureRemainingCapacity\<close>, and that objects in memory are
  smaller than the address space of a signed 64-bit size.\<close>

definition stream_grows :: "redirection_answers \<Rightarrow> bool" where
  "stream_grows ans \<longleftrightarrow> (\<forall>room n room'. rd_ensure ans room n = Some room' \<longrightarrow> n \<le> room')"

definition certificate_fits :: "redirection_answers \<Rightarrow> string \<Rightarrow> bool" where
  "certificate_fits ans certificate \<longleftrightarrow>
     (\<forall>der. rd_certificate ans certificate = Some (Some der) \<longrightarrow> length der < 2 ^ 63)"

lemma length_le32 [simp]: "length (le32 n) = 4"
  by (simp add: le32_def)

lemma read_le32_le32 [simp]: "read_le32 (le32 n @ bs) = n"
proof (rule bit_word_eqI)
  fix i :: nat assume "i < LENGTH(32)"
  then consider "i < 8" | "8 \<le> i" "i < 16" | "16 \<le> i" "i < 24" | "24 \<le> i" "i < 32" by fastforce
  then show "bit (read_le32 (le32 n @ bs)) i = bit n i"
    by cases (auto simp: read_le32_def le32_def bit_simps)
qed

lemma container_of:
  assumes "stream_grows ans" "certificate_fits ans certificate"
  shows "returns (drd_rdp_session_get_certificate_container ans certificate) (\<lambda>r.
    \<forall>bs. r = Some bs \<longrightarrow> (\<exists>der. rd_certificate ans certificate = Some (Some der) \<and>
      container_reader bs = Some (ELEMENT_TYPE_CERTIFICATE, rd_encoding_type ans, der)))"
proof (cases "rd_certificate ans certificate")
  case None
  then show ?thesis by (simp add: drd_rdp_session_get_certificate_container_def)
next
  case (Some c)
  show ?thesis
  proof (cases c)
    case None
    with Some show ?thesis by (simp add: drd_rdp_session_get_certificate_container_def)
  next
    case der: (Some der)
    have len: "length der < 2 ^ 63" using assms(2) Some der by (simp add: certificate_fits_def)
    then have si: "sint (word_of_nat (length der) :: 64 word) = int (length der)"
      by (simp add: sint_uint signed_take_bit_int_eq_self uint_nat unat_of_nat take_bit_nat_eq_self)
    note get = drd_rdp_session_get_certificate_container_def
    show ?thesis
    proof (cases "rd_stream_new ans \<and> rd_ensure ans 2048 12 \<noteq> None")
      case False
      with Some der show ?thesis by (auto simp: get)
    next
      case True
      then obtain room where room: "rd_ensure ans 2048 12 = Some room" "rd_stream_new ans" by blast
      then have r12: "12 \<le> room" using assms(1) by (auto simp: stream_grows_def)
      then have r4: "4 \<le> room - 8" "4 \<le> room - 4" "4 \<le> room" by simp_all
      show ?thesis
      proof (cases "length der \<le> 4294967295")
        case False
        with Some der room r4 show ?thesis by (simp add: get si stream_write_def Let_def)
      next
        case True
        then have n: "unat (word_of_nat (length der) :: u32) = length der"
          by (simp add: unat_of_nat take_bit_nat_eq_self)
        show ?thesis
        proof (cases "rd_ensure ans (room - 12) (length der)")
          case None
          with True Some der room r4 show ?thesis by (simp add: get si stream_write_def Let_def)
        next
          case grown: (Some room')
          then have "length der \<le> room'" using assms(1) by (simp add: stream_grows_def)
          moreover have "container_reader (le32 ELEMENT_TYPE_CERTIFICATE @ le32 (rd_encoding_type ans) @
              le32 (word_of_nat (length der)) @ der) =
              Some (ELEMENT_TYPE_CERTIFICATE, rd_encoding_type ans, der)"
            by (simp add: container_reader_def n Let_def)
          ultimately show ?thesis using True Some der room r4 grown
            by (simp add: get si stream_write_def Let_def)
        qed
      qed
    qed
  qed
qed

text \<open>The options that the calls set.\<close>

definition options_set :: "redirection_call list \<Rightarrow> redirection_flag set" where
  "options_set cs = {f. \<exists>bs. Set_byte_option f bs \<in> set cs} \<union>
     {f. \<exists>t. Set_string_option f t \<in> set cs}"

text \<open>
  C39: A redirection is sent only complete, and otherwise nothing is sent. When it is sent, it is
  the last call, the flags announce exactly the options that were set (and the encrypted
  password, except for iOS and Android), the token is byte for byte the routing token, the
  password ends in a UTF-16 terminator, and the container reads back as the DER form of the
  certificate. The stream of the container is never written past its room.
\<close>

theorem redirection_outcome:
  assumes "stream_grows ans" "certificate_fits ans certificate"
  shows "returns (drd_rdp_session_send_server_redirection ans token user password certificate self)
    (\<lambda>(calls, r). (r \<longleftrightarrow> Send_redirection \<in> set calls \<and> rd_send ans) \<and>
      (Send_redirection \<in> set calls \<longrightarrow> (\<exists>settings ws der container.
        peer_settings_of self = Some settings \<and>
        last calls = Send_redirection \<and> Send_redirection \<notin> set (butlast calls) \<and>
        Set_flags (options_set calls \<union>
          (if encrypts_password settings then {LB_PASSWORD_IS_PK_ENCRYPTED} else {})) \<in> set calls \<and>
        Set_byte_option LB_LOAD_BALANCE_INFO (string_bytes token) \<in> set calls \<and>
        Set_string_option LB_USERNAME user \<in> set calls \<and>
        rd_to_wchar ans password = Some ws \<and>
        Set_byte_option LB_PASSWORD (concat (map le16 ws) @ [0, 0]) \<in> set calls \<and>
        rd_certificate ans certificate = Some (Some der) \<and>
        Set_byte_option LB_TARGET_CERTIFICATE container \<in> set calls \<and>
        container_reader container = Some (ELEMENT_TYPE_CERTIFICATE, rd_encoding_type ans, der))))"
proof -
  from container_of [OF assms] obtain r where r:
    "drd_rdp_session_get_certificate_container ans certificate = Some r"
    "\<forall>bs. r = Some bs \<longrightarrow> (\<exists>der. rd_certificate ans certificate = Some (Some der) \<and>
      container_reader bs = Some (ELEMENT_TYPE_CERTIFICATE, rd_encoding_type ans, der))"
    by (auto simp: returns_iff)
  have opts: "options_set [Set_byte_option LB_LOAD_BALANCE_INFO a, Set_string_option LB_USERNAME b,
      Set_byte_option LB_PASSWORD c, Set_byte_option LB_REDIRECTION_GUID d,
      Set_byte_option LB_TARGET_CERTIFICATE e, Set_flags f, Send_redirection]
    = {LB_LOAD_BALANCE_INFO, LB_USERNAME, LB_PASSWORD, LB_REDIRECTION_GUID, LB_TARGET_CERTIFICATE}"
    for a b c d e f by (auto simp: options_set_def)
  note send = drd_rdp_session_send_server_redirection_def
  show ?thesis
  proof (cases "peer_settings_of self")
    case None
    then show ?thesis by (simp add: send)
  next
    case settings: (Some settings)
    show ?thesis
    proof (cases "rd_new ans \<and> rd_to_wchar ans password \<noteq> None \<and>
        drd_rdp_session_generate_redirection_guid ans \<noteq> None \<and> r \<noteq> None \<and> rd_valid ans")
      case False
      then show ?thesis
        by (auto simp: send settings r(1) Let_def drd_rdp_session_get_utf16_string_def
            split: option.splits)
    next
      case True
      then obtain ws guid container where all: "rd_new ans" "rd_to_wchar ans password = Some ws"
        "drd_rdp_session_generate_redirection_guid ans = Some guid" "r = Some container" "rd_valid ans"
        by blast
      from r(2) all(4) obtain der where der: "rd_certificate ans certificate = Some (Some der)"
        "container_reader container = Some (ELEMENT_TYPE_CERTIFICATE, rd_encoding_type ans, der)" by blast
      have zero: "le16 0 = [0, 0]" by (simp add: le16_def)
      have flags: "(if encrypts_password settings then insert LB_PASSWORD_IS_PK_ENCRYPTED
          {LB_PASSWORD, LB_USERNAME, LB_LOAD_BALANCE_INFO} else {LB_PASSWORD, LB_USERNAME, LB_LOAD_BALANCE_INFO})
        = {LB_LOAD_BALANCE_INFO, LB_USERNAME, LB_PASSWORD} \<union>
          (if encrypts_password settings then {LB_PASSWORD_IS_PK_ENCRYPTED} else {})" by auto
      show ?thesis
        by (simp add: send settings r(1) all der opts Let_def drd_rdp_session_get_utf16_string_def zero)
          (auto simp: opts)
    qed
  qed
qed

definition sample_answers :: redirection_answers where
  "sample_answers = \<lparr>rd_new = True, rd_to_wchar = (\<lambda>s. Some (map of_char s)),
     rd_random = Some [1, 2, 3], rd_base64 = (\<lambda>bs. Some ''AQID''),
     rd_certificate = (\<lambda>s. Some (Some [48, 130])), rd_stream_new = True,
     rd_ensure = (\<lambda>room n. Some (max room n)), rd_encoding_type = 1, rd_valid = True, rd_send = True\<rparr>"

definition redirected_peer :: peer where
  "redirected_peer = \<lparr>pe_hostname = None, pe_context = Some \<lparr>pc_settings = Some
     \<lparr>ps_width = 800, ps_height = 600, ps_desktop_resize = True, ps_multifrag_max = 0,
      ps_os_major = OSMAJORTYPE_WINDOWS, ps_os_minor_nt = True\<rparr>, pc_desktop_resize_cb = True\<rparr>,
     pe_disconnect_cb = True\<rparr>"

lemma redirection_outcome_witness:
  "returns (drd_rdp_session_send_server_redirection sample_answers ''42'' ''root'' ''pw'' ''PEM''
      (drd_rdp_session_new redirected_peer))
    (\<lambda>(calls, r). r \<and> last calls = Send_redirection \<and>
       Set_byte_option LB_LOAD_BALANCE_INFO (string_bytes ''42'') \<in> set calls)"
proof -
  have "stream_grows sample_answers" "certificate_fits sample_answers ''PEM''"
    by (simp_all add: sample_answers_def stream_grows_def certificate_fits_def)
  note T = redirection_outcome [OF this, of "''42''" "''root''" "''pw''" "drd_rdp_session_new redirected_peer"]
  have sent: "returns (drd_rdp_session_send_server_redirection sample_answers ''42'' ''root'' ''pw'' ''PEM''
      (drd_rdp_session_new redirected_peer)) (\<lambda>(calls, r). Send_redirection \<in> set calls)"
    by code_simp
  show ?thesis
    using T sent by (auto simp: returns_iff sample_answers_def)
qed

end
