(* ===== verification/Handover_Daemon.thy ===== *)
theory Handover_Daemon
  imports Rdp_Accept Rdp_Redirection
begin

text \<open>
  The hand-over daemon (\<^verbatim>\<open>src/system/drd_handover_daemon.c\<close>): it asks the system daemon for a
  hand-over object, gives it one-time credentials, takes the client's socket over, and sends its
  client on to another session when it is told to.

  The calls over D-Bus are parameters. The daemon's TLS credentials are an object of their own or
  the one of the runtime, which the listener's connections are configured with.
\<close>

subsection \<open>State\<close>

datatype daemon_tls = No_tls | Runtime_tls | Own_tls tls_credentials

record handover_daemon =
  ho_config :: config
  ho_tls :: daemon_tls
  ho_dispatcher :: bool
  ho_proxy :: bool
  ho_path :: "string option"
  ho_listener :: bool
  ho_active :: "nat option"
  ho_main_loop :: bool
  ho_nla_username :: "string option"
  ho_nla_password :: "string option"

definition drd_handover_daemon_new :: "config \<Rightarrow> daemon_tls \<Rightarrow> handover_daemon" where
  "drd_handover_daemon_new c tls = \<lparr>ho_config = c, ho_tls = tls, ho_dispatcher = False, ho_proxy = False,
     ho_path = None, ho_listener = False, ho_active = None, ho_main_loop = False,
     ho_nla_username = None, ho_nla_password = None\<rparr>"

datatype handover_event =
    Request_handover | Bind_proxy string
  | Start_handover string string
  | Take_client
  | Redirection redirection_call
  | Quit_main_loop

subsection \<open>One-time credentials\<close>

text \<open>\<open>rng\<close> gives the bytes of the random numbers. \<^verbatim>\<open>g_new\<close> of no elements is NULL.\<close>

definition drd_handover_daemon_generate_token :: "(nat \<Rightarrow> u8) \<Rightarrow> string option \<Rightarrow> nat \<Rightarrow> string option" where
  "drd_handover_daemon_generate_token rng start random_bytes =
     (if random_bytes = 0 then None
      else Some ((case start of None \<Rightarrow> [] | Some p \<Rightarrow> p) @ concat (map (hex2 \<circ> rng) [0..<random_bytes])))"

definition drd_handover_daemon_clear_nla_credentials :: "handover_daemon \<Rightarrow> handover_daemon" where
  "drd_handover_daemon_clear_nla_credentials self =
     self\<lparr>ho_nla_username := None, ho_nla_password := None\<rparr>"

definition drd_handover_daemon_refresh_nla_credentials ::
    "(nat \<Rightarrow> u8) \<Rightarrow> (nat \<Rightarrow> u8) \<Rightarrow> handover_daemon \<Rightarrow> handover_daemon \<times> unit res" where
  "drd_handover_daemon_refresh_nla_credentials rng1 rng2 self =
     (let s = (drd_handover_daemon_clear_nla_credentials self)
                \<lparr>ho_nla_username := drd_handover_daemon_generate_token rng1 (Some ''handover-'') 8,
                 ho_nla_password := drd_handover_daemon_generate_token rng2 (Some ''handover-'') 16\<rparr>
      in if ho_nla_username s = None \<or> ho_nla_password s = None
         then (drd_handover_daemon_clear_nla_credentials s, fail_io IoFailed)
         else (s, ok))"

subsection \<open>Binding and starting\<close>

record handover_answers =
  ha_dispatcher :: "unit res"
  ha_user_bytes :: "nat \<Rightarrow> u8"
  ha_password_bytes :: "nat \<Rightarrow> u8"
  ha_request :: "string res"  \<comment> \<open>the object path\<close>
  ha_proxy :: "unit res"
  ha_start :: "(string option \<times> string option) res"  \<comment> \<open>certificate and key\<close>
  ha_tls :: tls_api

definition drd_handover_daemon_bind_handover ::
    "handover_answers \<Rightarrow> handover_daemon \<Rightarrow> handover_daemon \<times> handover_event list \<times> unit res" where
  "drd_handover_daemon_bind_handover ha self =
     (case ha_request ha of Inl e \<Rightarrow> (self, [Request_handover], Inl e)
      | Inr object_path \<Rightarrow>
        let s = self\<lparr>ho_path := Some object_path\<rparr>; es = [Request_handover, Bind_proxy object_path] in
        case ha_proxy ha of Inl e \<Rightarrow> (s\<lparr>ho_proxy := False\<rparr>, es, Inl e)
        | Inr _ \<Rightarrow> (s\<lparr>ho_proxy := True\<rparr>, es, ok))"

definition drd_handover_daemon_start_session ::
    "handover_answers \<Rightarrow> handover_daemon \<times> listener_world \<Rightarrow>
     ((handover_daemon \<times> listener_world) \<times> handover_event list \<times> unit res) option" where
  "drd_handover_daemon_start_session ha st =
     (case st of (self, w) \<Rightarrow>
      case (ho_nla_username self, ho_nla_password self) of
        (Some user, Some password) \<Rightarrow>
          let es = [Start_handover user password] in
          (case ha_start ha of Inl e \<Rightarrow> Some (st, es, Inl e)
          | Inr (certificate, key) \<Rightarrow>
            let s = (if ho_tls self = No_tls
                     then self\<lparr>ho_tls := Own_tls drd_tls_credentials_new_empty\<rparr> else self)
            in case (certificate, key) of
              (Some cert_pem, Some key_pem) \<Rightarrow>
                (case ho_tls s of
                   Own_tls tls \<Rightarrow> map_option (\<lambda>(tls', store, r).
                       ((s\<lparr>ho_tls := Own_tls tls'\<rparr>, w\<lparr>lw_store := store\<rparr>), es, r))
                     (drd_tls_credentials_reload_from_pem (ha_tls ha) cert_pem key_pem tls (lw_store w))
                 | _ \<Rightarrow> map_option (\<lambda>(tls', store, r).
                       ((s, w\<lparr>lw_tls := tls', lw_store := store\<rparr>), es, r))
                     (drd_tls_credentials_reload_from_pem (ha_tls ha) cert_pem key_pem (lw_tls w) (lw_store w)))
            | _ \<Rightarrow> Some ((s, w), es, fail_io IoFailed))
      | _ \<Rightarrow> Some (st, [], Inl Unset))"

definition create_listener :: "handover_daemon \<times> listener_world \<Rightarrow> (handover_daemon \<times> listener_world) \<times> unit res" where
  "create_listener st =
     (case st of (self, w) \<Rightarrow>
      if ho_listener self then (st, ok)
      else let c = ho_config self in
      case drd_rdp_listener_new (drd_config_get_bind_address c) (drd_config_get_port c)
             (drd_config_get_encoding_options c) (drd_config_is_nla_enabled c) (ho_nla_username self)
             (ho_nla_password self) (drd_config_get_pam_service c) RUNTIME_MODE_HANDOVER of
        None \<Rightarrow> (st, fail_io IoFailed)
      | Some l \<Rightarrow> ((self\<lparr>ho_listener := True\<rparr>,
                    w\<lparr>lw_listener := drd_rdp_listener_set_session_callback True l\<rparr>), ok))"

definition drd_handover_daemon_start ::
    "handover_answers \<Rightarrow> handover_daemon \<times> listener_world \<Rightarrow>
     ((handover_daemon \<times> listener_world) \<times> handover_event list \<times> unit res) option" where
  "drd_handover_daemon_start ha st =
     (case st of (self, w) \<Rightarrow>
      case (if ho_dispatcher self then ok else ha_dispatcher ha) of
        Inl e \<Rightarrow> Some (st, [], Inl e)
      | Inr _ \<Rightarrow>
        let s1 = self\<lparr>ho_dispatcher := True\<rparr> in
        case (if ho_nla_username s1 = None \<or> ho_nla_password s1 = None
              then drd_handover_daemon_refresh_nla_credentials (ha_user_bytes ha) (ha_password_bytes ha) s1
              else (s1, ok)) of
          (s2, Inl e) \<Rightarrow> Some ((s2, w), [], Inl e)
        | (s2, Inr _) \<Rightarrow>
          (case create_listener (s2, w) of
            (st3, Inl e) \<Rightarrow> Some (st3, [], Inl e)
          | ((s3, w3), Inr _) \<Rightarrow>
            (case drd_handover_daemon_bind_handover ha s3 of
              (s4, es4, Inl e) \<Rightarrow> Some ((s4, w3), es4, Inl e)
            | (s4, es4, Inr _) \<Rightarrow>
              map_option (\<lambda>(st5, es5, r). (st5, es4 @ es5, r))
                (drd_handover_daemon_start_session ha (s4, w3)))))"

subsection \<open>Taking a client\<close>

record take_answers =
  tk_call :: "unit res"
  tk_fd :: "unit res"
  tk_socket :: "unit res"
  tk_connection :: connection

definition drd_handover_daemon_on_session_ready :: "nat \<Rightarrow> handover_daemon \<Rightarrow> handover_daemon" where
  "drd_handover_daemon_on_session_ready session self = self\<lparr>ho_active := Some session\<rparr>"

primrec on_listener_events :: "connection_event list \<Rightarrow> handover_daemon \<Rightarrow> handover_daemon" where
  "on_listener_events [] self = self"
| "on_listener_events (e # es) self = on_listener_events es
     (case e of Session_ready i \<Rightarrow> drd_handover_daemon_on_session_ready i self | _ \<Rightarrow> self)"

definition drd_handover_daemon_take_client ::
    "take_answers \<Rightarrow> accept_answers \<Rightarrow> (nat \<times> client_op) list \<Rightarrow> nat \<Rightarrow> handover_daemon \<times> listener_world \<Rightarrow>
     ((handover_daemon \<times> listener_world) \<times> handover_event list \<times> unit res) option" where
  "drd_handover_daemon_take_client tk aa between i st =
     (case st of (self, w) \<Rightarrow>
      case tk_call tk of Inl e \<Rightarrow> Some (st, [Take_client], Inl e)
      | Inr _ \<Rightarrow>
      (case tk_fd tk of Inl e \<Rightarrow> Some (st, [Take_client], Inl e)
      | Inr _ \<Rightarrow>
      (case tk_socket tk of Inl e \<Rightarrow> Some (st, [Take_client], Inl e)
      | Inr _ \<Rightarrow>
        if \<not> ho_listener self then Some (st, [Take_client], Inl Unset)
        else map_option (\<lambda>(w', es, r). ((on_listener_events es self, w'), [Take_client], r))
               (drd_rdp_listener_adopt_connection aa between (tk_connection tk) i w))))"

definition drd_handover_daemon_on_take_client_ready ::
    "take_answers \<Rightarrow> accept_answers \<Rightarrow> (nat \<times> client_op) list \<Rightarrow> nat \<Rightarrow> handover_daemon \<times> listener_world \<Rightarrow>
     ((handover_daemon \<times> listener_world) \<times> handover_event list) option" where
  "drd_handover_daemon_on_take_client_ready tk aa between i st =
     map_option (\<lambda>(st', es, r). (st', es)) (drd_handover_daemon_take_client tk aa between i st)"

definition drd_handover_daemon_on_restart_handover :: "handover_daemon \<Rightarrow> handover_daemon" where
  "drd_handover_daemon_on_restart_handover self = self"

subsection \<open>Redirecting the client\<close>

definition daemon_credentials :: "handover_daemon \<Rightarrow> listener_world \<Rightarrow> tls_credentials option" where
  "daemon_credentials self w =
     (case ho_tls self of No_tls \<Rightarrow> None | Runtime_tls \<Rightarrow> Some (lw_tls w) | Own_tls tls \<Rightarrow> Some tls)"

text \<open>The redirection runs on the main loop's thread.\<close>

definition drd_handover_daemon_redirect_active_client ::
    "redirection_answers \<Rightarrow> string option \<Rightarrow> string option \<Rightarrow> string option \<Rightarrow>
     handover_daemon \<times> listener_world \<Rightarrow>
     ((handover_daemon \<times> listener_world) \<times> handover_event list \<times> bool) option" where
  "drd_handover_daemon_redirect_active_client ra route username password st =
     (case st of (self, w) \<Rightarrow>
      case Option.bind (ho_active self) (lw_peers w) of None \<Rightarrow> Some (st, [], False)
      | Some ctx \<Rightarrow>
      (case (route, username, password) of
        (Some token, Some user, Some pass) \<Rightarrow>
          (case daemon_credentials self w of None \<Rightarrow> Some (st, [], False)
          | Some tls \<Rightarrow>
          (case drd_tls_credentials_read_material True False tls of
            Inr (Some certificate, _) \<Rightarrow>
              Option.bind (drd_rdp_session_send_server_redirection ra token user pass certificate
                (px_session ctx)) (\<lambda>(calls, sent).
              let es = map Redirection calls in
              if \<not> sent then Some (st, es, False)
              else map_option (\<lambda>res.
                  ((self\<lparr>ho_active := None\<rparr>, session_effect (the (ho_active self)) w res), es, True))
                (drd_rdp_session_notify_error Main_thread SESSION_ERROR_SERVER_REDIRECTION
                  (px_session ctx) (lw_runtime w)))
          | _ \<Rightarrow> Some (st, [], False)))
      | _ \<Rightarrow> Some (st, [], False)))"

text \<open>The daemon holds the only reference to its listener.\<close>

definition drd_handover_daemon_stop :: "handover_daemon \<times> listener_world \<Rightarrow> handover_daemon \<times> listener_world" where
  "drd_handover_daemon_stop st =
     (case st of (self, w) \<Rightarrow>
      (self\<lparr>ho_dispatcher := False, ho_proxy := False, ho_path := None, ho_listener := False\<rparr>,
       if ho_listener self
       then let w' = drd_rdp_listener_dispose w
            in w'\<lparr>lw_listener := drd_rdp_listener_finalize (lw_listener w')\<rparr>
       else w))"

definition drd_handover_daemon_request_shutdown :: "bool \<Rightarrow> handover_daemon \<Rightarrow> handover_event list" where
  "drd_handover_daemon_request_shutdown loop_running self =
     (if ho_main_loop self \<and> loop_running then [Quit_main_loop] else [])"

text \<open>Stopping the runtime joins the capture thread when the stream has one. That join can wait
  forever (see \<open>capture_stop_outcome\<close>): \<open>capture_ends\<close> is whether this one does not. Where in the
  signal's handler the stop comes does not matter.\<close>

definition joins_capture :: "server_runtime \<Rightarrow> bool" where
  "joins_capture rt \<longleftrightarrow> Thread_join \<in> set (snd (drd_server_runtime_stop rt))"

definition drd_handover_daemon_on_redirect_client ::
    "bool \<Rightarrow> bool \<Rightarrow> redirection_answers \<Rightarrow> string option \<Rightarrow> string option \<Rightarrow> string option \<Rightarrow>
     handover_daemon \<times> listener_world \<Rightarrow>
     ((handover_daemon \<times> listener_world) \<times> handover_event list) option" where
  "drd_handover_daemon_on_redirect_client capture_ends loop_running ra route username password st =
     Option.bind (drd_handover_daemon_redirect_active_client ra route username password st)
       (\<lambda>(st1, es, redirected).
        if \<not> redirected then Some (st1, es)
        else if joins_capture (lw_runtime (snd st)) \<and> \<not> capture_ends then None
        else let st2 = drd_handover_daemon_stop st1
             in Some (st2, es @ drd_handover_daemon_request_shutdown loop_running (fst st2)))"

definition drd_handover_daemon_set_main_loop :: "bool \<Rightarrow> handover_daemon \<Rightarrow> handover_daemon" where
  "drd_handover_daemon_set_main_loop loop self = self\<lparr>ho_main_loop := loop\<rparr>"

definition drd_handover_daemon_dispose :: "handover_daemon \<times> listener_world \<Rightarrow> handover_daemon \<times> listener_world" where
  "drd_handover_daemon_dispose st =
     (case drd_handover_daemon_stop st of (s, w) \<Rightarrow>
       ((drd_handover_daemon_clear_nla_credentials s)
          \<lparr>ho_active := None, ho_tls := No_tls, ho_main_loop := False\<rparr>, w))"

end
