(* ===== verification/Rdp_Accept_Safety.thy ===== *)
theory Rdp_Accept_Safety
  imports Rdp_Accept
begin

text \<open>
  What the listener guarantees: one session at a time, which keeps its place until its connection
  ends; a stream that goes with the last session; the settings of a connection; and the login
  that TLS-only connections need.
\<close>

subsection \<open>The effect of a session's events\<close>

abbreviation sessions :: "listener_world \<Rightarrow> nat list" where
  "sessions w \<equiv> li_sessions (lw_listener w)"

abbreviation streaming :: "listener_world \<Rightarrow> bool" where
  "streaming w \<equiv> sr_stream_running (lw_runtime w)"

lemma stop_not_running [simp]: "drd_server_runtime_stop rt = (rt', es) \<Longrightarrow> \<not> sr_stream_running rt'"
  by (auto simp: drd_server_runtime_stop_def split: if_splits prod.splits)

lemma remove_fast_single [simp]: "remove_fast x [x] = []"
  by (simp add: remove_fast_def)

text \<open>The slot of the one session: it may be given back, with the stream, and nothing else changes
  about it.\<close>

definition slot_ok :: "listener_world \<Rightarrow> bool" where
  "slot_ok w \<longleftrightarrow> length (sessions w) \<le> 1 \<and> li_has_runtime (lw_listener w)"

definition slot_step :: "listener_world \<Rightarrow> listener_world \<Rightarrow> bool" where
  "slot_step w w' \<longleftrightarrow> (lw_listener w' = lw_listener w \<and> (streaming w' \<longrightarrow> streaming w)) \<or>
     (lw_listener w' = (lw_listener w)\<lparr>li_sessions := []\<rparr> \<and> \<not> streaming w')"

lemma slot_step_same:
  "lw_listener w' = lw_listener w \<Longrightarrow> streaming w' \<longrightarrow> streaming w \<Longrightarrow> slot_step w w'"
  by (simp add: slot_step_def)

lemma slot_step_refl [simp]: "slot_step w w"
  by (simp add: slot_step_same)

lemma slot_step_ok: "slot_step w w' \<Longrightarrow> slot_ok w \<Longrightarrow> slot_ok w'"
  by (auto simp: slot_step_def slot_ok_def)

lemma slot_step_trans: "slot_step w w1 \<Longrightarrow> slot_step w1 w2 \<Longrightarrow> slot_step w w2"
  by (auto simp: slot_step_def)

lemma slot_step_sessions: "slot_step w w' \<Longrightarrow> set (sessions w') \<subseteq> set (sessions w)"
  by (auto simp: slot_step_def)

lemma close_session_cases:
  assumes "slot_ok w"
  shows "slot_step w (close_session i w) \<and> i \<notin> set (sessions (close_session i w)) \<and>
    lw_peers (close_session i w) = lw_peers w \<and> lw_files (close_session i w) = lw_files w"
proof (cases "i \<in> set (sessions w)")
  case True
  with assms have s: "sessions w = [i]"
    by (cases "sessions w") (auto simp: slot_ok_def)
  obtain rt es where st: "drd_server_runtime_stop (lw_runtime w) = (rt, es)" by (metis surj_pair)
  show ?thesis using s assms stop_not_running [OF st]
    by (simp add: close_session_def drd_rdp_listener_on_session_closed_def slot_ok_def slot_step_def
        drd_rdp_listener_session_closed_def Let_def st)
next
  case False
  then show ?thesis
    by (simp add: close_session_def drd_rdp_listener_on_session_closed_def
        drd_rdp_listener_session_closed_def Let_def slot_step_def)
qed

text \<open>A peer's context after events: at most the printed state of its session differs.\<close>

definition same_peer :: "nat \<Rightarrow> listener_world \<Rightarrow> listener_world \<Rightarrow> bool" where
  "same_peer i w w' \<longleftrightarrow> (\<forall>j. j \<noteq> i \<longrightarrow> lw_peers w' j = lw_peers w j) \<and>
     (case lw_peers w i of None \<Rightarrow> lw_peers w' i = None
      | Some ctx \<Rightarrow> \<exists>st. lw_peers w' i = Some (ctx\<lparr>px_session := (px_session ctx)\<lparr>ss_state := st\<rparr>\<rparr>))"

lemma same_peer_peers:
  assumes "lw_peers w' = lw_peers w"
  shows "same_peer i w w'"
proof (cases "lw_peers w i")
  case (Some ctx)
  have "ctx = ctx\<lparr>px_session := (px_session ctx)\<lparr>ss_state := ss_state (px_session ctx)\<rparr>\<rparr>" by simp
  then have "\<exists>st. ctx = ctx\<lparr>px_session := (px_session ctx)\<lparr>ss_state := st\<rparr>\<rparr>" ..
  with assms Some show ?thesis by (simp add: same_peer_def)
qed (use assms in \<open>simp add: same_peer_def\<close>)

lemma same_peer_refl [simp]: "same_peer i w w"
  by (simp add: same_peer_peers)

lemma same_peer_trans:
  "same_peer i w w1 \<Longrightarrow> same_peer i w1 w2 \<Longrightarrow> same_peer i w w2"
  unfolding same_peer_def by (cases "lw_peers w i") auto

lemma disconnected_cases:
  assumes "slot_ok w"
  shows "slot_step w (drd_peer_disconnected i w) \<and> same_peer i w (drd_peer_disconnected i w)"
proof (cases "lw_peers w i")
  case (Some ctx)
  let ?w1 = "put_session i (drd_rdp_session_set_peer_state ''disconnected'' (px_session ctx)) w"
  have w1: "slot_ok ?w1" "slot_step w ?w1" "same_peer i w ?w1"
    using assms Some by (auto simp: slot_ok_def slot_step_def same_peer_def put_session_def
        drd_rdp_session_set_peer_state_def)
  from close_session_cases [OF w1(1), of i] have "slot_step w (close_session i ?w1)"
    "same_peer i w (close_session i ?w1)"
    using slot_step_trans [OF w1(2)] same_peer_trans [OF w1(3)] same_peer_peers by blast+
  with w1 Some show ?thesis by (simp add: drd_peer_disconnected_def Let_def)
qed (simp add: drd_peer_disconnected_def)

lemma handle_event_cases:
  "slot_ok w \<Longrightarrow> slot_step w (handle_session_event i w es) \<and> same_peer i w (handle_session_event i w es) \<and>
   (Closed_callback \<in> set es \<longrightarrow> i \<notin> set (sessions (handle_session_event i w es)))"
proof (induction es arbitrary: w)
  case (Cons e es)
  define w1 where "w1 = (if e = Closed_callback then close_session i w
      else if e = Peer_disconnect then drd_peer_disconnected i w else w)"
  have w1: "slot_step w w1" "same_peer i w w1" "e = Closed_callback \<longrightarrow> i \<notin> set (sessions w1)"
    using close_session_cases [OF Cons.prems, of i] disconnected_cases [OF Cons.prems, of i]
      same_peer_peers by (auto simp: w1_def)
  from Cons.IH [OF slot_step_ok [OF w1(1) Cons.prems]] have r:
    "slot_step w1 (handle_session_event i w1 es)" "same_peer i w1 (handle_session_event i w1 es)"
    "Closed_callback \<in> set es \<longrightarrow> i \<notin> set (sessions (handle_session_event i w1 es))" by auto
  have "i \<notin> set (sessions w1) \<longrightarrow> i \<notin> set (sessions (handle_session_event i w1 es))"
    using slot_step_sessions [OF r(1)] by blast
  with r w1 show ?case
    using slot_step_trans [OF w1(1) r(1)] same_peer_trans [OF w1(2) r(2)] by (auto simp: w1_def)
qed simp

subsection \<open>The invariant of the listener\<close>

text \<open>A registered session is published and its closed callback is armed: it will be made when the
  session ends. A session that is not published has no callback.\<close>

definition armed :: "drd_peer_context \<Rightarrow> bool" where
  "armed ctx \<longleftrightarrow> px_listener ctx \<and> ss_closed_cb (px_session ctx) \<and> \<not> ss_closed_invoked (px_session ctx)"

definition peer_ok :: "drd_peer_context \<Rightarrow> bool" where
  "peer_ok ctx \<longleftrightarrow> session_ok (px_session ctx) \<and> (\<not> px_listener ctx \<longrightarrow>
     \<not> ss_closed_cb (px_session ctx) \<and> \<not> ss_closed_invoked (px_session ctx))"

definition lw_inv :: "listener_world \<Rightarrow> bool" where
  "lw_inv w \<longleftrightarrow> slot_ok w \<and> (\<forall>i\<in>set (sessions w). \<exists>ctx. lw_peers w i = Some ctx \<and> armed ctx) \<and>
     (\<forall>i ctx. lw_peers w i = Some ctx \<longrightarrow> peer_ok ctx)"

lemma lw_invD:
  assumes "lw_inv w"
  shows "slot_ok w" "i \<in> set (sessions w) \<Longrightarrow> \<exists>ctx. lw_peers w i = Some ctx \<and> armed ctx"
    "lw_peers w i = Some ctx \<Longrightarrow> peer_ok ctx"
  using assms by (auto simp: lw_inv_def)

lemma lw_inv_cong:
  assumes "lw_inv w" "lw_peers w' = lw_peers w" "sessions w' = sessions w"
    "li_has_runtime (lw_listener w') = li_has_runtime (lw_listener w)"
  shows "lw_inv w'"
  using assms by (simp add: lw_inv_def slot_ok_def)

text \<open>Writing back a context that differs in nothing the invariant is about.\<close>

lemma put_context_inv:
  assumes "lw_inv w" "peer_ok ctx'" "i \<in> set (sessions w) \<Longrightarrow> armed ctx'"
  shows "lw_inv (put_context i ctx' w)"
  using assms by (auto simp: lw_inv_def put_context_def slot_ok_def)

lemma peer_ok_session:
  assumes "peer_ok ctx" "life_step (px_session ctx) s es" "session_ok s"
  shows "peer_ok (ctx\<lparr>px_session := s\<rparr>)"
  using assms by (auto simp: peer_ok_def life_step_def)

lemma no_closed_event: "closed_calls es = 0 \<longleftrightarrow> Closed_callback \<notin> set es"
  by (induction es) (auto simp: closed_calls_def)

text \<open>The effect of a session's operation on the listener: the invariant is kept, and a session
  that leaves takes the stream with it.\<close>

definition published :: "listener_world \<Rightarrow> nat \<Rightarrow> bool option" where
  "published w i = map_option px_listener (lw_peers w i)"

definition world_step :: "listener_world \<Rightarrow> listener_world \<Rightarrow> bool" where
  "world_step w w' \<longleftrightarrow> lw_inv w' \<and> set (sessions w') \<subseteq> set (sessions w) \<and>
     published w' = published w \<and> (sessions w \<noteq> [] \<and> sessions w' = [] \<longrightarrow> \<not> streaming w')"

lemma session_effect_step:
  assumes inv: "lw_inv w" and ctx: "lw_peers w i = Some ctx"
    and life: "life_step (px_session ctx) s es" "session_ok s"
  shows "world_step w (session_effect i w (s, rt, es))"
proof -
  define w1 where "w1 = put_session i s (w\<lparr>lw_runtime := rt\<rparr>)"
  have l1: "lw_listener w1 = lw_listener w" by (simp add: w1_def put_session_def)
  have p1: "lw_peers w1 = (lw_peers w)(i \<mapsto> ctx\<lparr>px_session := s\<rparr>)"
    by (simp add: w1_def put_session_def ctx)
  let ?w = "handle_session_event i w1 es"
  have "slot_ok w1" using lw_invD(1) [OF inv] by (simp add: slot_ok_def l1)
  from handle_event_cases [OF this, of i es] have h: "slot_step w1 ?w" "same_peer i w1 ?w"
    "Closed_callback \<in> set es \<longrightarrow> i \<notin> set (sessions ?w)" and ok: "slot_ok ?w"
    using slot_step_ok \<open>slot_ok w1\<close> by blast+
  have sub: "set (sessions ?w) \<subseteq> set (sessions w)"
    using slot_step_sessions [OF h(1)] by (simp add: l1)
  from h(2) obtain st where at_i: "lw_peers ?w i = Some (ctx\<lparr>px_session := s\<lparr>ss_state := st\<rparr>\<rparr>)"
    by (auto simp: same_peer_def p1)
  have other: "lw_peers ?w j = lw_peers w j" if "j \<noteq> i" for j
    using h(2) that by (simp add: same_peer_def p1)
  have okst: "session_ok (s\<lparr>ss_state := st\<rparr>)"
    using life(2) by (simp add: session_ok_def peer_settings_of_def)
  have "peer_ok (ctx\<lparr>px_session := s\<lparr>ss_state := st\<rparr>\<rparr>)"
    using peer_ok_session [OF lw_invD(3) [OF inv ctx] life] okst by (simp add: peer_ok_def)
  then have peers: "peer_ok c" if "lw_peers ?w j = Some c" for j c
    using that at_i other lw_invD(3) [OF inv] by (cases "j = i") auto
  have reg: "\<exists>c. lw_peers ?w j = Some c \<and> armed c" if j: "j \<in> set (sessions ?w)" for j
  proof (cases "j = i")
    case True
    have a: "armed ctx" using lw_invD(2) [OF inv, of i] sub j True ctx by auto
    have "closed_calls es = 0" using h(3) j True by (simp add: no_closed_event)
    with a life(1) have "armed (ctx\<lparr>px_session := s\<lparr>ss_state := st\<rparr>\<rparr>)"
      by (auto simp: armed_def life_step_def closed_by_def split: if_splits)
    with at_i True show ?thesis by blast
  next
    case False
    with lw_invD(2) [OF inv, of j] sub j other show ?thesis by auto
  qed
  have "\<not> streaming ?w" if "sessions w \<noteq> []" "sessions ?w = []"
    using h(1) that by (auto simp: slot_step_def l1)
  moreover have "published ?w = published w"
  proof
    fix j
    show "published ?w j = published w j"
      using at_i other ctx by (cases "j = i") (simp_all add: published_def)
  qed
  ultimately show ?thesis using ok peers reg sub
    by (auto simp: world_step_def lw_inv_def session_effect_def w1_def)
qed

lemma world_step_refl: "lw_inv w \<Longrightarrow> world_step w w"
  by (simp add: world_step_def)

lemma put_context_step:
  assumes "lw_inv w" "peer_ok ctx'" "i \<in> set (sessions w) \<Longrightarrow> armed ctx'"
    "published w i = Some (px_listener ctx')"
  shows "world_step w (put_context i ctx' w)"
  using put_context_inv [OF assms(1-3)] assms(4)
  by (auto simp: world_step_def put_context_def published_def fun_eq_iff)

lemma world_step_files: "lw_inv w \<Longrightarrow> world_step w (w\<lparr>lw_files := f\<rparr>)"
  using lw_inv_cong [of w "w\<lparr>lw_files := f\<rparr>"] by (simp add: world_step_def published_def fun_eq_iff)

lemma world_step_runtime: "lw_inv w \<Longrightarrow> world_step w (w\<lparr>lw_runtime := rt\<rparr>)"
  using lw_inv_cong [of w "w\<lparr>lw_runtime := rt\<rparr>"] by (simp add: world_step_def published_def fun_eq_iff)

text \<open>After a change that leaves the registered sessions alone.\<close>

lemma world_step_after:
  "world_step w w1 \<Longrightarrow> sessions w1 = sessions w \<Longrightarrow> world_step w1 w2 \<Longrightarrow> world_step w w2"
  by (simp add: world_step_def)

lemma peer_ok_state:
  "peer_ok ctx \<Longrightarrow> peer_ok (ctx\<lparr>px_session := drd_rdp_session_set_peer_state st (px_session ctx)\<rparr>)"
  by (simp add: peer_ok_def drd_rdp_session_set_peer_state_def session_ok_def peer_settings_of_def)

lemma armed_state [simp]:
  "armed (ctx\<lparr>px_session := drd_rdp_session_set_peer_state st (px_session ctx)\<rparr>) = armed ctx"
  by (simp add: armed_def drd_rdp_session_set_peer_state_def)

lemma context_sams [simp]:
  "armed (ctx\<lparr>px_nla_sam := f\<rparr>) = armed ctx" "armed (ctx\<lparr>px_login := l\<rparr>) = armed ctx"
  "peer_ok (ctx\<lparr>px_nla_sam := f\<rparr>) = peer_ok ctx" "peer_ok (ctx\<lparr>px_login := l\<rparr>) = peer_ok ctx"
  by (simp_all add: armed_def peer_ok_def)

lemma registered_armed:
  "lw_inv w \<Longrightarrow> lw_peers w i = Some ctx \<Longrightarrow> i \<in> set (sessions w) \<Longrightarrow> armed ctx"
  using lw_invD(2) by fastforce

lemma login_context:
  assumes "drd_rdp_listener_authenticate_tls_login pam l ctx = (ctx2, calls, r)" "peer_ok ctx"
  shows "peer_ok ctx2" "armed ctx2 = armed ctx" "px_listener ctx2 = px_listener ctx" "\<not> r \<Longrightarrow> px_session ctx2 = px_session ctx"
  using assms
  by (auto simp: drd_rdp_listener_authenticate_tls_login_def Let_def peer_ok_def armed_def
      session_ok_def peer_settings_of_def drd_rdp_session_attach_local_session_def
      split: if_splits sum.splits prod.splits)

lemma post_connect_step:
  assumes "lw_inv w" "drd_peer_post_connect pam i w = Some (w', calls, r)"
  shows "world_step w w'"
proof (cases "lw_peers w i")
  case None
  with assms show ?thesis by (simp add: drd_peer_post_connect_def world_step_refl)
next
  case (Some ctx)
  define ctx1 where "ctx1 = ctx\<lparr>px_session := drd_rdp_session_set_peer_state ''post-connect'' (px_session ctx),
    px_nla_sam := None\<rparr>"
  define w0 where "w0 = w\<lparr>lw_files := drd_nla_sam_file_free (px_nla_sam ctx) (lw_files w)\<rparr>"
  define w1 where "w1 = put_context i ctx1 w0"
  have w0: "lw_inv w0" "sessions w0 = sessions w"
    using lw_inv_cong [OF assms(1), of w0] by (simp_all add: w0_def)
  have c1: "peer_ok ctx1" "armed ctx1 = armed ctx" "px_listener ctx1 = px_listener ctx"
    using peer_ok_state [OF lw_invD(3) [OF assms(1) Some]] by (simp_all add: ctx1_def)
  have reg: "i \<in> set (sessions w) \<Longrightarrow> armed ctx"
    using registered_armed [OF assms(1) Some] .
  have put: "lw_inv (put_context i c w0)" "sessions (put_context i c w0) = sessions w"
    "published (put_context i c w0) = published w"
    if "peer_ok c" "armed c = armed ctx" "px_listener c = px_listener ctx" for c
    using put_context_inv [OF w0(1) that(1)] that reg w0(2) Some
    by (auto simp: put_context_def published_def w0_def fun_eq_iff)
  have step1: "world_step w w1"
    using put [OF c1] by (simp add: world_step_def w1_def)
  note un = assms(2) [unfolded drd_peer_post_connect_def Some option.case Let_def
      drd_rdp_session_post_connect_def prod.case, folded ctx1_def w0_def, folded w1_def]
  show ?thesis
  proof (cases "px_listener ctx1 \<and> \<not> li_nla_enabled (lw_listener w1)")
    case False
    with un step1 show ?thesis by auto
  next
    case True
    obtain ctx2 cs good where login:
      "drd_rdp_listener_authenticate_tls_login pam (lw_listener w1) ctx1 = (ctx2, cs, good)"
      by (metis prod_cases3)
    note c2 = login_context [OF login c1(1)]
    have w2: "put_context i ctx2 w1 = put_context i ctx2 w0"
      by (simp add: w1_def put_context_def)
    note p2 = put [OF c2(1)] c2(2,3) c1(2,3)
    show ?thesis
    proof (cases good)
      case good: True
      with un True login p2 w2 show ?thesis by (auto simp: world_step_def)
    next
      case False
      then obtain s rt es where d: "drd_rdp_session_disconnect Vcm_thread (px_session ctx2) (lw_runtime w1) =
          Some (s, rt, es)" and w': "w' = session_effect i (put_context i ctx2 w1) (s, rt, es)"
        using un True login by auto
      have ok2: "session_ok (px_session ctx2)" using c2(1) by (simp add: peer_ok_def)
      have "world_step (put_context i ctx2 w0) w'"
        unfolding w' w2
        by (rule session_effect_step [OF _ _ disconnect_life [OF d] disconnect_ok [OF d ok2]])
          (use p2 in \<open>simp_all add: put_context_def\<close>)
      then show ?thesis using p2 by (simp add: world_step_def)
    qed
  qed
qed

lemma peer_ok_client_settings:
  "peer_ok ctx \<Longrightarrow> peer_ok (ctx\<lparr>px_session := put_peer_settings st (px_session ctx)\<rparr>)"
  by (auto simp: peer_ok_def put_peer_settings_def session_ok_def peer_settings_of_def
      bind_eq_None_conv split: option.splits)

lemma armed_client_settings [simp]:
  "armed (ctx\<lparr>px_session := put_peer_settings st (px_session ctx)\<rparr>) = armed ctx"
  by (simp add: armed_def put_peer_settings_def)

lemma put_session_twice:
  "put_session i s (put_context i c w) = put_context i (c\<lparr>px_session := s\<rparr>) w"
  by (simp add: put_session_def put_context_def)

lemma capabilities_step:
  assumes "lw_inv w"
  shows "world_step w (fst (drd_peer_capabilities client joined i w))"
proof (cases "lw_peers w i")
  case None
  with assms show ?thesis by (simp add: drd_peer_capabilities_def world_step_refl)
next
  case (Some ctx0)
  define ctx where "ctx = ctx0\<lparr>px_session := put_peer_settings client (px_session ctx0)\<rparr>"
  define bad where "bad = ctx\<lparr>px_session := drd_rdp_session_set_peer_state
    ''desktop-resize-unsupported'' (px_session ctx)\<rparr>"
  let ?w1 = "put_context i ctx w"
  have ctx: "peer_ok ctx" "armed ctx = armed ctx0"
    using peer_ok_client_settings [OF lw_invD(3) [OF assms Some]] by (simp_all add: ctx_def)
  have bad: "peer_ok bad" "armed bad = armed ctx0"
    using peer_ok_state [OF ctx(1)] ctx(2) by (simp_all add: bad_def)
  note reg = registered_armed [OF assms Some]
  have 1: "world_step w ?w1" "world_step w (put_context i bad w)"
    using put_context_step [OF assms ctx(1)] put_context_step [OF assms bad(1)] reg ctx(2) bad(2) Some
    by (simp_all add: published_def ctx_def bad_def)
  have inv1: "lw_inv ?w1" and s1: "sessions ?w1 = sessions w"
    using 1(1) by (simp_all add: world_step_def put_context_def)
  have 2: "world_step w (?w1\<lparr>lw_runtime := rt\<rparr>)" for rt
    by (rule world_step_after [OF 1(1) s1 world_step_runtime [OF inv1]])
  have 3: "put_session i (drd_rdp_session_set_peer_state ''desktop-resize-unsupported''
      (px_session ctx)) ?w1 = put_context i bad w"
    by (simp add: put_session_twice bad_def)
  show ?thesis
    using 1 2 by (simp add: drd_peer_capabilities_def Some Let_def flip: ctx_def) (simp add: 3)
qed

lemma activate_step:
  assumes "lw_inv w" "drd_peer_activate ra xa ia i w = Some (w', r)"
  shows "world_step w w'"
proof (cases "lw_peers w i")
  case None
  with assms show ?thesis by (simp add: drd_peer_activate_def world_step_refl)
next
  case (Some ctx)
  then obtain s rt es where a: "drd_rdp_session_activate Vcm_thread ra xa ia (px_session ctx)
      (lw_runtime w) = Some (s, rt, es, r)" and w': "w' = session_effect i w (s, rt, es)"
    using assms(2) by (auto simp: drd_peer_activate_def)
  have ok: "session_ok (px_session ctx)" using lw_invD(3) [OF assms(1) Some] by (simp add: peer_ok_def)
  show ?thesis unfolding w'
    by (rule session_effect_step [OF assms(1) Some activate_life [OF a ok] activate_ok [OF a ok]])
qed

lemma runtime_only:
  "lw_inv w \<Longrightarrow> world_step w (fst (case res of (rt, ev, _) \<Rightarrow> (w\<lparr>lw_runtime := rt\<rparr>, ev)))"
  by (cases res) (simp add: world_step_runtime)

lemma input_step:
  assumes "lw_inv w"
  shows "world_step w (fst (client_input_event kt c i w))"
proof (cases "lw_peers w i")
  case (Some ctx)
  show ?thesis
    using world_step_refl [OF assms] runtime_only [OF assms]
    unfolding client_input_event_def Some option.case Let_def by (cases "px_input ctx") simp_all
qed (use world_step_refl [OF assms] in \<open>simp add: client_input_event_def\<close>)

text \<open>Only the listener registers the closed callback, and nobody clears it.\<close>

definition client_own :: "client_op \<Rightarrow> bool" where
  "client_own op \<longleftrightarrow> (\<forall>b. op \<noteq> Cl_session (Do_set_callback b))"

lemma client_step_step:
  assumes "lw_inv w" "client_step i op w = Some w'" "client_own op"
  shows "world_step w w'"
proof (cases op)
  case (Cl_capabilities st joined)
  with assms capabilities_step show ?thesis by auto
next
  case (Cl_post_connect pam)
  with assms show ?thesis by (auto intro: post_connect_step)
next
  case (Cl_activate ra xa ia)
  with assms show ?thesis by (auto intro: activate_step)
next
  case (Cl_session sop)
  show ?thesis
  proof (cases "lw_peers w i")
    case None
    with assms Cl_session show ?thesis by (simp add: world_step_refl)
  next
    case (Some ctx)
    with assms(2) Cl_session obtain s rt es where st: "session_step sop (px_session ctx, lw_runtime w) =
        Some (s, rt, es)" and w': "w' = session_effect i w (s, rt, es)" by auto
    have ok: "session_ok (px_session ctx)" using lw_invD(3) [OF assms(1) Some] by (simp add: peer_ok_def)
    have "\<forall>b. sop \<noteq> Do_set_callback b" using assms(3) Cl_session by (simp add: client_own_def)
    from session_step_life [OF st ok this] show ?thesis
      unfolding w' using session_effect_step [OF assms(1) Some] by blast
  qed
next
  case (Cl_input kt c)
  with assms input_step show ?thesis by auto
qed

text \<open>A run of the peers' threads.\<close>

lemma client_run_inv:
  assumes "lw_inv w" "client_run ops w = Some w'" "\<forall>(i, op)\<in>set ops. client_own op"
  shows "lw_inv w' \<and> set (sessions w') \<subseteq> set (sessions w) \<and> published w' = published w"
  using assms
proof (induction ops arbitrary: w)
  case (Cons a ops)
  from Cons.prems(2) obtain w1 where 1: "client_step (fst a) (snd a) w = Some w1" "client_run ops w1 = Some w'"
    by (auto simp: bind_eq_Some_conv)
  have "client_own (snd a)" using Cons.prems(3) by (cases a) auto
  from client_step_step [OF Cons.prems(1) 1(1) this] have s: "lw_inv w1" "set (sessions w1) \<subseteq> set (sessions w)"
    "published w1 = published w"
    by (simp_all add: world_step_def)
  with Cons.IH [OF s(1) 1(2)] Cons.prems(3) show ?case by auto
qed simp

end
