(* ===== verification/Rdp_Listener_Safety.thy ===== *)
theory Rdp_Listener_Safety
  imports Rdp_Accept_Safety Rdp_Peer_Settings
begin

text \<open>
  The listener as a service: accepting, refusing and closing over every interleaving of its main
  loop with the threads of its peers, the login of TLS-only connections, and the settings of a
  connection.
\<close>

subsection \<open>Configuring a peer touches no session\<close>

definition same_listener :: "listener \<Rightarrow> listener \<Rightarrow> bool" where
  "same_listener l l' \<longleftrightarrow> li_sessions l' = li_sessions l \<and> li_has_runtime l' = li_has_runtime l \<and>
     li_nla_enabled l' = li_nla_enabled l \<and> li_pam_service l' = li_pam_service l \<and>
     li_runtime_mode l' = li_runtime_mode l \<and> li_options l' = li_options l \<and>
     li_session_cb l' = li_session_cb l \<and> li_delegate l' = li_delegate l \<and>
     li_nla_username l' = li_nla_username l"

lemma same_listener_refl [simp]: "same_listener l l"
  by (simp add: same_listener_def)

lemma ensure_nla_hash_same:
  "drd_rdp_listener_ensure_nla_hash ntowf l = Some (l', r) \<Longrightarrow> same_listener l l'"
  by (auto simp: drd_rdp_listener_ensure_nla_hash_def same_listener_def
      split: if_splits option.splits)

lemma configure_nla_same:
  assumes "configure_nla aa ctx st l fs = Some (l', fs', sam, st', r)"
  shows "same_listener l l'"
proof (cases "li_nla_enabled l \<and> li_nla_username l \<noteq> None")
  case False
  with assms show ?thesis by (auto simp: configure_nla_def Let_def split: if_splits)
next
  case True
  with assms obtain l1 r1 where hash: "drd_rdp_listener_ensure_nla_hash (aa_ntowf aa) l = Some (l1, r1)"
    by (auto simp: configure_nla_def bind_eq_Some_conv)
  have "l' = l1"
  proof (cases r1)
    case (Inl e)
    with assms True hash show ?thesis by (simp add: configure_nla_def)
  next
    case (Inr u)
    with assms True hash obtain fs2 f where
      "drd_nla_sam_file_new (aa_sam aa) (li_nla_username l1) (li_nla_hash l1)
         (drd_nla_sam_file_free (px_nla_sam ctx) fs) = Some (fs2, f)"
      by (auto simp: configure_nla_def Let_def bind_eq_Some_conv)
    with assms True hash Inr show ?thesis
      by (cases f) (simp_all add: configure_nla_def Let_def split: if_splits)
  qed
  with ensure_nla_hash_same [OF hash] show ?thesis by simp
qed

lemma configure_peer_same:
  assumes "drd_configure_peer_settings aa ctx w = Some (ctx', w', st, r)"
  shows "same_listener (lw_listener w) (lw_listener w') \<and> lw_peers w' = lw_peers w \<and>
    lw_runtime w' = lw_runtime w \<and> px_session ctx' = px_session ctx \<and> px_listener ctx' = px_listener ctx"
proof -
  note un = assms [unfolded drd_configure_peer_settings_def Let_def]
  show ?thesis
  proof (cases "drd_server_runtime_get_tls_credentials (lw_runtime w)")
    case None
    with un show ?thesis by auto
  next
    case (Some creds)
    then obtain tls store r1 where tls: "drd_tls_credentials_apply (aa_tls aa) (lw_tls w)
        (fs_tls (aa_settings aa)) (lw_store w) = Some (tls, store, r1)"
      using un by (auto simp: bind_eq_Some_conv)
    show ?thesis
    proof (cases r1)
      case (Inl e)
      with un Some tls show ?thesis by auto
    next
      case (Inr u)
      with un Some tls obtain l fs sam st2 r2 where nla: "configure_nla aa ctx
          ((aa_settings aa)\<lparr>fs_tls := tls\<rparr>) (lw_listener w) (lw_files w) = Some (l, fs, sam, st2, r2)"
        by (auto simp: bind_eq_Some_conv)
      from configure_nla_same [OF nla] un Some tls Inr nla show ?thesis
        by (cases r2) (auto split: prod.splits)
    qed
  qed
qed

subsection \<open>Accepting\<close>

text \<open>FreeRDP gives a new peer context its settings.\<close>

definition peer_has_settings :: "peer \<Rightarrow> bool" where
  "peer_has_settings p \<longleftrightarrow> (case pe_context p of None \<Rightarrow> True | Some c \<Rightarrow> pc_settings c \<noteq> None)"

lemma new_context_ok:
  assumes "peer_has_settings (aa_peer aa)"
  shows "peer_ok (drd_peer_context_new aa)" "\<not> px_listener (drd_peer_context_new aa)"
proof -
  have "session_ok (drd_rdp_session_new (aa_peer aa))"
    by (rule new_session_ok) (use assms in \<open>simp add: peer_has_settings_def\<close>)
  then show "peer_ok (drd_peer_context_new aa)"
    by (simp add: peer_ok_def drd_peer_context_new_def drd_rdp_session_new_def drd_rdp_session_init_def)
qed (simp add: drd_peer_context_new_def)

text \<open>What accepting does to the world before the session is published: one new peer, and nothing
  of the sessions.\<close>

definition setup_step :: "nat \<Rightarrow> listener_world \<Rightarrow> listener_world \<Rightarrow> bool" where
  "setup_step i w w' \<longleftrightarrow> same_listener (lw_listener w) (lw_listener w') \<and> lw_runtime w' = lw_runtime w \<and>
     (\<forall>j. j \<noteq> i \<longrightarrow> lw_peers w' j = lw_peers w j) \<and>
     (\<forall>ctx. lw_peers w' i = Some ctx \<longrightarrow> peer_ok ctx \<and> \<not> px_listener ctx)"

lemma setup_step_inv:
  assumes "setup_step i w w'" "lw_inv w" "lw_peers w i = None"
  shows "lw_inv w'"
proof -
  have "i \<notin> set (sessions w)" using lw_invD(2) [OF assms(2), of i] assms(3) by auto
  moreover have "sessions w' = sessions w" "li_has_runtime (lw_listener w') = li_has_runtime (lw_listener w)"
    using assms(1) by (simp_all add: setup_step_def same_listener_def)
  moreover have "peer_ok c" if "lw_peers w' j = Some c" for j c
    using that assms(1) lw_invD(3) [OF assms(2)] by (cases "j = i") (auto simp: setup_step_def)
  moreover have "lw_peers w' j = lw_peers w j" if "j \<in> set (sessions w)" for j
    using that assms(1) \<open>i \<notin> set (sessions w)\<close> by (auto simp: setup_step_def)
  ultimately show ?thesis using assms(2) by (auto simp: lw_inv_def slot_ok_def)
qed

lemma setup_step_context:
  assumes "setup_step i w w'" "peer_ok ctx" "\<not> px_listener ctx"
  shows "setup_step i w (put_context i ctx w')"
  using assms by (auto simp: setup_step_def put_context_def)

text \<open>The session's part of the setup.\<close>

definition start_session :: "accept_answers \<Rightarrow> bool \<Rightarrow> server_runtime \<Rightarrow> rdp_session \<Rightarrow> rdp_session \<times> session_event list \<times> bool" where
  "start_session aa passive rt s =
     (let s4 = drd_rdp_session_set_virtual_channel_manager (aa_pipeline_allocated aa) True s rt;
          s5 = drd_rdp_session_set_runtime (aa_pipeline_allocated aa) True s4 rt;
          s6 = drd_rdp_session_set_passive_mode passive s5
      in drd_rdp_session_start_event_thread (aa_event_created aa) s6)"

lemma start_session_ok:
  assumes "start_session aa passive rt s = (s', es, b)" "session_ok s"
  shows "session_ok s' \<and> ss_closed_cb s' = ss_closed_cb s \<and> ss_closed_invoked s' = ss_closed_invoked s"
proof -
  obtain s5 where s5: "session_step (Do_set_vcm (aa_pipeline_allocated aa) True) (s, rt) = Some (s5, rt, [])"
    by simp
  obtain s6 where s6: "session_step (Do_set_runtime (aa_pipeline_allocated aa)) (s5, rt) = Some (s6, rt, [])"
    by simp
  obtain s7 where s7: "session_step (Do_set_passive passive) (s6, rt) = Some (s7, rt, [])" by simp
  have s8: "session_step (Do_start (aa_event_created aa)) (s7, rt) = Some (s', rt, es)"
    using assms(1) s5 s6 s7 by (simp add: start_session_def Let_def)
  have "life_step s s5 [] \<and> session_ok s5" using session_step_life [OF s5 assms(2)] by simp
  moreover from this have "life_step s5 s6 [] \<and> session_ok s6" using session_step_life [OF s6] by simp
  moreover from this have "life_step s6 s7 [] \<and> session_ok s7" using session_step_life [OF s7] by simp
  moreover from this have "life_step s7 s' es \<and> session_ok s'" using session_step_life [OF s8] by simp
  moreover have "closed_calls es = 0"
    using s8 by (auto simp: drd_rdp_session_start_event_thread_def Let_def split: if_splits)
  ultimately show ?thesis
    by (cases "ss_closed_invoked s"; cases "ss_closed_invoked s5"; cases "ss_closed_invoked s6";
        cases "ss_closed_invoked s7"; cases "ss_closed_invoked s'"; simp add: life_step_def closed_by_def)
qed

lemma accept_setup_step:
  assumes acc: "accept_setup aa name i w = Some (w', started)" and fresh: "lw_peers w i = None"
    and peer: "peer_has_settings (aa_peer aa)"
  shows "setup_step i w w' \<and> (started \<longrightarrow> sessions w = [] \<and> lw_peers w' i \<noteq> None)"
proof (cases "aa_context_new aa")
  case False
  with acc fresh show ?thesis by (simp add: accept_setup_def setup_step_def)
next
  case new: True
  define ctx where "ctx = drd_peer_context_new aa"
  define w1 where "w1 = put_context i ctx w"
  note ctx = new_context_ok [OF peer, folded ctx_def]
  have w: "setup_step i w w" using fresh by (simp add: setup_step_def)
  have s1: "setup_step i w w1" unfolding w1_def by (rule setup_step_context [OF w ctx])
  note acc' = acc [unfolded accept_setup_def Let_def, folded ctx_def, folded w1_def]
  show ?thesis
  proof (cases "drd_rdp_listener_has_active_session (lw_listener w1)")
    case True
    with acc' new s1 show ?thesis by simp
  next
    case free: False
    then have none: "sessions w = []"
      by (simp add: drd_rdp_listener_has_active_session_def w1_def put_context_def)
    obtain ctx2 w2 st r where conf: "drd_configure_peer_settings aa ctx w1 = Some (ctx2, w2, st, r)"
      using acc' new free by (auto simp: bind_eq_Some_conv)
    note c = configure_peer_same [OF conf]
    have s2: "setup_step i w w2"
      using s1 c by (auto simp: setup_step_def same_listener_def)
    have ok2: "peer_ok ctx2" "\<not> px_listener ctx2" using ctx c by (simp_all add: peer_ok_def)
    define ctx3 where "ctx3 = ctx2\<lparr>px_session := drd_rdp_session_set_peer_address (Some name) (px_session ctx2)\<rparr>"
    have ok3: "peer_ok ctx3" "\<not> px_listener ctx3"
      using ok2 by (simp_all add: ctx3_def peer_ok_def drd_rdp_session_set_peer_address_def
          session_ok_def peer_settings_of_def)
    obtain s7 es b where start: "start_session aa (drd_rdp_listener_is_system_mode (lw_listener w2))
        (lw_runtime w2) (px_session ctx3) = (s7, es, b)" by (metis prod_cases3)
    define ctx7 where "ctx7 = ctx3\<lparr>px_vcm := True, px_runtime := True, px_session := s7\<rparr>"
    have ok7: "peer_ok ctx7" "\<not> px_listener ctx7"
      using start_session_ok [OF start] ok3 by (simp_all add: ctx7_def peer_ok_def)
    have "(w', started) \<in> {(put_context i ctx2 w2, False), (put_context i ctx3 w2, False),
        (put_context i ctx7 w2, b)}"
      using acc' new free conf start
      by (cases r; cases "aa_initialize aa"; cases "aa_open_server aa")
        (simp_all add: start_session_def ctx3_def ctx7_def Let_def split: prod.splits)
    then show ?thesis
      using setup_step_context [OF s2 ok2] setup_step_context [OF s2 ok3]
        setup_step_context [OF s2 ok7] none by (auto simp: put_context_def)
  qed
qed

text \<open>Publishing: the session takes its slot, unless its connection ended meanwhile.\<close>

lemma publish_step:
  assumes inv: "lw_inv w" and ctx: "lw_peers w i = Some ctx" "\<not> px_listener ctx"
    and free: "sessions w = []"
  shows "lw_inv (accept_publish i w)" "set (sessions (accept_publish i w)) \<subseteq> {i}"
proof -
  define s1 where "s1 = drd_rdp_session_set_peer_state ''initialized'' (px_session ctx)"
  define l where "l = lw_listener w"
  define w1 where "w1 = put_context i (ctx\<lparr>px_session := s1, px_listener := True\<rparr>)
    (w\<lparr>lw_listener := l\<lparr>li_sessions := li_sessions l @ [i]\<rparr>\<rparr>)"
  obtain s2 es where cb: "drd_rdp_session_set_closed_callback True s1 = (s2, es)" by (metis surj_pair)
  define w2 where "w2 = session_effect i w1 (s2, lw_runtime w1, es)"
  have p: "accept_publish i w = (case lw_peers w2 i of None \<Rightarrow> w2
      | Some c \<Rightarrow> put_context i (c\<lparr>px_input := \<not> drd_rdp_listener_is_system_mode l\<rparr>) w2)"
    unfolding accept_publish_def ctx(1) Let_def option.case
    unfolding l_def [symmetric] s1_def [symmetric] w1_def [symmetric] cb prod.case w2_def [symmetric] ..
  have ok: "peer_ok ctx" using lw_invD(3) [OF inv ctx(1)] .
  have s1: "session_ok s1" "\<not> ss_closed_invoked s1"
    using peer_ok_state [OF ok, of "''initialized''"] ok ctx(2)
    by (simp_all add: peer_ok_def s1_def drd_rdp_session_set_peer_state_def)
  from set_callback_life [OF cb s1(1)] have s2: "session_ok s2" "ss_closed_cb s2" by auto
  define ctx2 where "ctx2 = ctx\<lparr>px_listener := True, px_session := s2\<rparr>"
  have ctx2: "peer_ok ctx2" using s2 by (simp add: ctx2_def peer_ok_def)
  have w1f: "lw_listener w1 = (lw_listener w)\<lparr>li_sessions := [i]\<rparr>"
    "lw_peers w1 = (lw_peers w)(i \<mapsto> ctx\<lparr>px_session := s1, px_listener := True\<rparr>)"
    "lw_runtime w1 = lw_runtime w"
    using free by (simp_all add: w1_def put_context_def l_def)
  have put: "put_session i s2 w1 = put_context i ctx2 w1"
    by (simp add: put_session_def put_context_def w1f ctx2_def)
  have rt: "li_has_runtime (lw_listener w)" using lw_invD(1) [OF inv] by (simp add: slot_ok_def)
  have w2: "lw_inv w2 \<and> set (sessions w2) \<subseteq> {i} \<and> lw_peers w2 i = Some ctx2"
  proof (cases "ss_connection_alive s1")
    case True
    with cb have "es = []" and inv2: "\<not> ss_closed_invoked s2"
      using s1(2) by (auto simp: drd_rdp_session_set_closed_callback_def Let_def)
    have "w2 = put_context i ctx2 w1" by (simp add: w2_def session_effect_def \<open>es = []\<close> put)
    moreover have "armed ctx2" using s2 inv2 by (simp add: armed_def ctx2_def)
    ultimately show ?thesis using lw_invD(3) [OF inv] ctx2 rt
      by (auto simp: lw_inv_def slot_ok_def put_context_def w1f)
  next
    case False
    with cb have "es = [Closed_callback]"
      using s1(2) by (auto simp: drd_rdp_session_set_closed_callback_def Let_def
          drd_rdp_session_notify_closed_def)
    have w2': "w2 = close_session i (put_context i ctx2 w1)"
      by (simp add: w2_def session_effect_def \<open>es = [Closed_callback]\<close> put)
    have "slot_ok (put_context i ctx2 w1)" using rt by (simp add: slot_ok_def put_context_def w1f)
    note cl = close_session_cases [OF this, of i, folded w2']
    have "set (sessions w2) \<subseteq> set (sessions (put_context i ctx2 w1))"
      using cl slot_step_sessions by blast
    then have c: "slot_ok w2" "i \<notin> set (sessions w2)" "set (sessions w2) \<subseteq> {i}"
      "lw_peers w2 = lw_peers (put_context i ctx2 w1)"
      using cl slot_step_ok [OF _ \<open>slot_ok (put_context i ctx2 w1)\<close>]
      by (simp_all add: put_context_def w1f)
    have "sessions w2 = []" using c(2,3) by (cases "sessions w2") auto
    with c ctx2 lw_invD(3) [OF inv] show ?thesis
      by (auto simp: lw_inv_def put_context_def w1f)
  qed
  define c where "c = ctx2\<lparr>px_input := \<not> drd_rdp_listener_is_system_mode l\<rparr>"
  have c: "peer_ok c" "armed c = armed ctx2" using ctx2 by (simp_all add: c_def peer_ok_def armed_def)
  have pub: "accept_publish i w = put_context i c w2" using p w2 by (simp add: c_def)
  from w2 have "i \<in> set (sessions w2) \<Longrightarrow> armed c" using registered_armed c(2) by blast
  with w2 c(1) show "lw_inv (accept_publish i w)"
    unfolding pub by (intro put_context_inv) auto
  from w2 show "set (sessions (accept_publish i w)) \<subseteq> {i}"
    unfolding pub by (simp add: put_context_def)
qed

text \<open>A context that was never published holds no slot: its end changes no session.\<close>

lemma close_unregistered: "i \<notin> set (sessions w) \<Longrightarrow> close_session i w = w"
  by (simp add: close_session_def drd_rdp_listener_on_session_closed_def
      drd_rdp_listener_session_closed_def)

lemma events_unregistered:
  "i \<notin> set (sessions w) \<Longrightarrow> lw_listener (handle_session_event i w es) = lw_listener w \<and>
   lw_runtime (handle_session_event i w es) = lw_runtime w \<and>
   (\<forall>j. j \<noteq> i \<longrightarrow> lw_peers (handle_session_event i w es) j = lw_peers w j)"
proof (induction es arbitrary: w)
  case (Cons e es)
  define w1 where "w1 = (if e = Closed_callback then close_session i w
      else if e = Peer_disconnect then drd_peer_disconnected i w else w)"
  have d: "lw_listener (drd_peer_disconnected i w) = lw_listener w"
    "lw_runtime (drd_peer_disconnected i w) = lw_runtime w"
    "\<forall>j. j \<noteq> i \<longrightarrow> lw_peers (drd_peer_disconnected i w) j = lw_peers w j"
    using Cons.prems close_unregistered [of i "put_session i s w" for s]
    by (auto simp: drd_peer_disconnected_def Let_def put_session_def split: option.splits)
  then have w1: "lw_listener w1 = lw_listener w" "lw_runtime w1 = lw_runtime w"
    "\<forall>j. j \<noteq> i \<longrightarrow> lw_peers w1 j = lw_peers w j"
    using close_unregistered [OF Cons.prems] by (simp_all add: w1_def)
  with Cons.IH [of w1] Cons.prems show ?case by (simp flip: w1_def)
qed simp

lemma cleanup_step:
  assumes "drd_rdp_listener_cleanup_peer i keep w = (w', es)" "lw_inv w" "i \<notin> set (sessions w)"
  shows "lw_inv w'" "sessions w' = sessions w" "lw_peers w' i = None"
  using assms by (auto simp: drd_rdp_listener_cleanup_peer_def lw_inv_def slot_ok_def split: option.splits if_splits)

text \<open>If a context like that were freed after all, it would take nothing with it but itself.\<close>

lemma context_free_step:
  assumes "drd_peer_context_free i w = Some w'" "lw_inv w" "i \<notin> set (sessions w)"
  shows "lw_inv w'" "sessions w' = sessions w" "lw_peers w' i = None"
proof -
  have "lw_inv w' \<and> sessions w' = sessions w \<and> lw_peers w' i = None"
  proof (cases "lw_peers w i")
    case None
    with assms show ?thesis by (simp add: drd_peer_context_free_def)
  next
    case (Some ctx)
    obtain s rt es where w': "w' = (let w2 = session_effect i w (s, rt, es) in
        w2\<lparr>lw_files := drd_nla_sam_file_free (px_nla_sam ctx) (lw_files w2), lw_peers := (lw_peers w2)(i := None)\<rparr>)"
      using assms(1) close_unregistered [OF assms(3)] Some
      by (auto simp: drd_peer_context_free_def Let_def)
    define w1 where "w1 = put_session i s (w\<lparr>lw_runtime := rt\<rparr>)"
    have w1: "lw_listener w1 = lw_listener w" "\<forall>j. j \<noteq> i \<longrightarrow> lw_peers w1 j = lw_peers w j"
      using Some by (simp_all add: w1_def put_session_def)
    then have "i \<notin> set (sessions w1)" using assms(3) by simp
    from events_unregistered [OF this, of es] w1 assms show ?thesis
      by (auto simp: w' Let_def session_effect_def lw_inv_def slot_ok_def simp flip: w1_def)
  qed
  then show "lw_inv w'" "sessions w' = sessions w" "lw_peers w' i = None" by blast+
qed

lemma accept_peer_step:
  assumes acc: "drd_rdp_listener_accept_peer aa between name i w = Some (w', b)"
    and inv: "lw_inv w" and fresh: "lw_peers w i = None" and peer: "peer_has_settings (aa_peer aa)"
    and own: "\<forall>(j, op)\<in>set between. client_own op"
  shows "lw_inv w'" "b \<Longrightarrow> sessions w = [] \<and> set (sessions w') \<subseteq> {i}"
    "\<not> b \<Longrightarrow> sessions w' = sessions w \<and> i \<notin> set (sessions w')"
proof -
  have all: "lw_inv w' \<and> (b \<longrightarrow> sessions w = [] \<and> set (sessions w') \<subseteq> {i}) \<and>
    (\<not> b \<longrightarrow> sessions w' = sessions w \<and> i \<notin> set (sessions w'))"
  proof -
    have i: "i \<notin> set (sessions w)" using lw_invD(2) [OF inv, of i] fresh by auto
    from acc obtain w1 started where set: "accept_setup aa name i w = Some (w1, started)"
      by (auto simp: drd_rdp_listener_accept_peer_def bind_eq_Some_conv)
    note step = accept_setup_step [OF set fresh peer]
    have inv1: "lw_inv w1" and s1: "sessions w1 = sessions w"
      using setup_step_inv [OF _ inv fresh] step by (auto simp: setup_step_def same_listener_def)
    show ?thesis
    proof (cases started)
      case False
      with acc set inv1 s1 i show ?thesis by (simp add: drd_rdp_listener_accept_peer_def)
    next
      case True
      with acc set obtain w2 where run: "client_run between w1 = Some w2"
        and w': "w' = accept_publish i w2" "b" by (auto simp: drd_rdp_listener_accept_peer_def)
      from client_run_inv [OF inv1 run own] have 2: "lw_inv w2" "set (sessions w2) \<subseteq> set (sessions w1)"
        "published w2 = published w1" by blast+
      from step True obtain c where c: "lw_peers w1 i = Some c" "\<not> px_listener c" "sessions w = []"
        by (auto simp: setup_step_def)
      with 2(3) have "published w2 i = Some False" by (simp add: published_def)
      then obtain c2 where c2: "lw_peers w2 i = Some c2" "\<not> px_listener c2"
        by (auto simp: published_def)
      have "sessions w2 = []" using 2(2) s1 c(3) by simp
      from publish_step [OF 2(1) c2 this] c(3) w' show ?thesis by simp
    qed
  qed
  then show "lw_inv w'" "b \<Longrightarrow> sessions w = [] \<and> set (sessions w') \<subseteq> {i}"
    "\<not> b \<Longrightarrow> sessions w' = sessions w \<and> i \<notin> set (sessions w')" by blast+
qed

subsection \<open>A connection that is refused\<close>

text \<open>The peer of a refused connection is freed, its new context is not.\<close>

definition refused_leak :: "accept_answers \<Rightarrow> connection \<Rightarrow> drd_peer_context list" where
  "refused_leak aa c = (if snd (drd_rdp_listener_peer_from_connection c) = Inr () \<and> aa_context_new aa
     then [drd_peer_context_new aa] else [])"

lemma refused_connection:
  assumes busy: "sessions w \<noteq> []" and fresh: "lw_peers w i = None"
  shows "\<exists>es e. drd_rdp_listener_handle_connection aa between c i w =
      Some (w\<lparr>lw_leaked := refused_leak aa c @ lw_leaked w\<rparr>, es, Inl e) \<and> Session_ready i \<notin> set es"
proof (cases "drd_rdp_listener_peer_from_connection c")
  case (Pair es r)
  have ready: "Session_ready i \<notin> set es"
    using Pair by (auto simp: drd_rdp_listener_peer_from_connection_def Let_def
        split: option.splits if_splits sum.splits)
  show ?thesis
  proof (cases r)
    case (Inl e)
    with Pair ready show ?thesis
      by (simp add: drd_rdp_listener_handle_connection_def drd_rdp_listener_close_connection_def
          refused_leak_def)
  next
    case (Inr u)
    define w1 where "w1 = put_context i (drd_peer_context_new aa) w"
    have set: "accept_setup aa name i w = Some (if aa_context_new aa then w1 else w, False)" for name
      using busy by (simp add: accept_setup_def Let_def drd_rdp_listener_has_active_session_def
          put_context_def w1_def)
    have "(lw_peers w)(i := None) = lw_peers w" using fresh by (auto simp: fun_eq_iff)
    then show ?thesis
      using Pair Inr ready set fresh
      by (auto simp: drd_rdp_listener_handle_connection_def drd_rdp_listener_accept_peer_def Let_def
          drd_rdp_listener_cleanup_peer_def drd_rdp_listener_close_connection_def refused_leak_def
          w1_def put_context_def)
  qed
qed

lemma handle_connection_step:
  assumes run: "drd_rdp_listener_handle_connection aa between c i w = Some (w', es, r)"
    and inv: "lw_inv w" and fresh: "lw_peers w i = None" and peer: "peer_has_settings (aa_peer aa)"
    and own: "\<forall>(j, op)\<in>set between. client_own op"
  shows "lw_inv w'"
proof (cases "drd_rdp_listener_peer_from_connection c")
  case (Pair es1 r1)
  show ?thesis
  proof (cases r1)
    case (Inl e)
    with run Pair inv show ?thesis by (simp add: drd_rdp_listener_handle_connection_def)
  next
    case (Inr u)
    with run Pair obtain w1 b where acc: "drd_rdp_listener_accept_peer aa between
        (drd_rdp_listener_describe_connection c) i w = Some (w1, b)"
      by (auto simp: drd_rdp_listener_handle_connection_def Let_def bind_eq_Some_conv)
    note a = accept_peer_step [OF acc inv fresh peer own]
    show ?thesis
    proof (cases b)
      case True
      with run Pair Inr acc a(1) show ?thesis by (simp add: drd_rdp_listener_handle_connection_def)
    next
      case False
      obtain w2 fs where "drd_rdp_listener_cleanup_peer i (drd_rdp_listener_connection_keep_open c) w1 = (w2, fs)"
        by (metis surj_pair)
      moreover from this False run Pair Inr acc have "w' = w2"
        by (simp add: drd_rdp_listener_handle_connection_def)
      moreover have "i \<notin> set (sessions w1)" using a(3) [OF False] by blast
      ultimately show ?thesis using cleanup_step(1) a(1) by blast
    qed
  qed
qed

subsection \<open>The service over time\<close>

text \<open>The steps of the main loop and of the peers' threads. A connection gets a number that no
  peer has.\<close>

inductive listener_trans :: "listener_world \<Rightarrow> listener_world \<Rightarrow> bool" where
  client: "client_own op \<Longrightarrow> client_step i op w = Some w' \<Longrightarrow> listener_trans w w'"
| incoming: "lw_peers w i = None \<Longrightarrow> peer_has_settings (aa_peer aa) \<Longrightarrow>
    \<forall>(j, op)\<in>set between. client_own op \<Longrightarrow>
    drd_rdp_listener_incoming delegated aa between c i w = Some (w', es, r) \<Longrightarrow> listener_trans w w'"
| adopt: "lw_peers w i = None \<Longrightarrow> peer_has_settings (aa_peer aa) \<Longrightarrow>
    \<forall>(j, op)\<in>set between. client_own op \<Longrightarrow>
    drd_rdp_listener_adopt_connection aa between c i w = Some (w', es, r) \<Longrightarrow> listener_trans w w'"
| start: "listener_trans w (w\<lparr>lw_listener := fst (drd_rdp_listener_start ba (lw_listener w))\<rparr>)"
| stop: "listener_trans w (drd_rdp_listener_stop w)"
| delegate: "listener_trans w (w\<lparr>lw_listener := drd_rdp_listener_set_delegate b (lw_listener w)\<rparr>)"
| callback: "listener_trans w (w\<lparr>lw_listener := drd_rdp_listener_set_session_callback b (lw_listener w)\<rparr>)"

inductive listener_reachable :: "listener_world \<Rightarrow> bool" where
  create: "drd_rdp_listener_new addr port options nla user pass pam mode = Some (lw_listener w) \<Longrightarrow>
    lw_peers w = Map.empty \<Longrightarrow> listener_reachable w"
| step: "listener_reachable w \<Longrightarrow> listener_trans w w' \<Longrightarrow> listener_reachable w'"

lemma trans_inv:
  assumes "listener_trans w w'" "lw_inv w"
  shows "lw_inv w'"
  using assms
proof (induction rule: listener_trans.induct)
  case (client op i w w')
  then show ?case using client_step_step by (auto simp: world_step_def)
next
  case (incoming w i aa between delegated c w' es r)
  then show ?case using handle_connection_step
    by (auto simp: drd_rdp_listener_incoming_def Let_def split: if_splits)
next
  case (adopt w i aa between c w' es r)
  then show ?case using handle_connection_step by (simp add: drd_rdp_listener_adopt_connection_def)
next
  case (start w ba)
  have "sessions (w\<lparr>lw_listener := fst (drd_rdp_listener_start ba (lw_listener w))\<rparr>) = sessions w"
    "li_has_runtime (fst (drd_rdp_listener_start ba (lw_listener w))) = li_has_runtime (lw_listener w)"
    by (auto simp: drd_rdp_listener_start_def drd_rdp_listener_bind_def Let_def
        split: sum.splits if_splits prod.splits)
  then show ?case using start lw_inv_cong by simp
next
  case (stop w)
  then show ?case
    by (simp add: drd_rdp_listener_stop_def drd_rdp_listener_stop_internal_def Let_def lw_inv_def
        slot_ok_def)
next
  case (delegate w b)
  then show ?case using lw_inv_cong by (simp add: drd_rdp_listener_set_delegate_def)
next
  case (callback w b)
  then show ?case using lw_inv_cong by (simp add: drd_rdp_listener_set_session_callback_def)
qed

lemma new_listener:
  "drd_rdp_listener_new addr port options nla user pass pam mode = Some l \<Longrightarrow>
   li_sessions l = [] \<and> li_has_runtime l"
  by (auto simp: drd_rdp_listener_new_def drd_rdp_listener_init_def split: if_splits)

lemma listener_reachable_inv: "listener_reachable w \<Longrightarrow> lw_inv w"
proof (induction rule: listener_reachable.induct)
  case (create addr port options nla user pass pam mode w)
  with new_listener [OF create(1)] show ?case by (simp add: lw_inv_def slot_ok_def)
next
  case (step w w')
  then show ?case using trans_inv by blast
qed

text \<open>A session that is disconnected gives its slot back.\<close>

lemma disconnect_effect_frees:
  assumes inv: "lw_inv w" and ctx: "lw_peers w i = Some ctx"
    and d: "drd_rdp_session_disconnect who (px_session ctx) rt0 = Some (s, rt, es)"
  shows "i \<notin> set (sessions (session_effect i w (s, rt, es)))"
proof -
  define w1 where "w1 = put_session i s (w\<lparr>lw_runtime := rt\<rparr>)"
  have w1: "slot_ok w1" "sessions w1 = sessions w"
    using lw_invD(1) [OF inv] by (simp_all add: slot_ok_def put_session_def w1_def)
  note h = handle_event_cases [OF w1(1), of i es]
  show ?thesis
  proof (cases "i \<in> set (sessions w)")
    case False
    have "set (sessions (handle_session_event i w1 es)) \<subseteq> set (sessions w)"
      using slot_step_sessions [of w1] h w1(2) by auto
    with False show ?thesis by (auto simp: session_effect_def simp flip: w1_def)
  next
    case True
    have "closed_calls es = 1"
      using disconnect_invokes [OF d] disconnect_life [OF d] registered_armed [OF inv ctx True]
      by (simp add: armed_def life_step_def closed_by_def)
    then have "Closed_callback \<in> set es" using no_closed_event [of es] by auto
    with h show ?thesis by (simp add: session_effect_def flip: w1_def)
  qed
qed

lemma disconnect_frees_slot:
  assumes inv: "lw_inv w" and st: "client_step i (Cl_session (Do_disconnect who)) w = Some w'"
  shows "i \<notin> set (sessions w')"
proof (cases "lw_peers w i")
  case None
  with lw_invD(2) [OF inv] st show ?thesis by fastforce
next
  case (Some ctx)
  with st obtain s rt es where "drd_rdp_session_disconnect who (px_session ctx) (lw_runtime w) =
      Some (s, rt, es)" "w' = session_effect i w (s, rt, es)" by auto
  with disconnect_effect_frees [OF inv Some] show ?thesis by simp
qed


subsection \<open>The login of a TLS-only connection\<close>

lemma events_files: "lw_files (handle_session_event i w es) = lw_files w"
proof (induction es arbitrary: w)
  case (Cons e es)
  have "lw_files (close_session i w) = lw_files w" for w
    by (simp add: close_session_def split: prod.splits)
  then have "lw_files (drd_peer_disconnected i w) = lw_files w"
    by (simp add: drd_peer_disconnected_def Let_def put_session_def split: option.splits)
  with \<open>\<And>w. lw_files (close_session i w) = lw_files w\<close> Cons.IH show ?case by simp
qed simp

text \<open>The login is required of a published connection when NLA is off; it takes credentials that
  are not empty and that PAM accepts.\<close>

definition login_required :: "listener \<Rightarrow> drd_peer_context \<Rightarrow> bool" where
  "login_required l ctx \<longleftrightarrow> px_listener ctx \<and> \<not> li_nla_enabled l"

definition login_accepted :: "pam_answers \<Rightarrow> listener \<Rightarrow> drd_peer_context \<Rightarrow> bool" where
  "login_accepted pam l ctx \<longleftrightarrow> \<not> empty_arg (lg_username (px_login ctx)) \<and>
     \<not> empty_arg (lg_password (px_login ctx)) \<and>
     (\<exists>h. snd (drd_local_session_new pam (Some (li_pam_service l)) (lg_username (px_login ctx))
        (lg_domain (px_login ctx)) (lg_password (px_login ctx)) (px_hostname ctx)) = Inr h)"

lemma login_result:
  assumes "drd_rdp_listener_authenticate_tls_login pam l ctx = (ctx', calls, r)" "px_listener ctx"
  shows "r = login_accepted pam l ctx"
    "r \<Longrightarrow> ss_local_session (px_session ctx') \<and> lg_password (px_login ctx') = Some []"
  using assms by (auto simp: drd_rdp_listener_authenticate_tls_login_def login_accepted_def Let_def
      drd_rdp_session_attach_local_session_def split: if_splits sum.splits prod.splits)

text \<open>
  C8: FreeRDP's post-connect callback: when NLA is off, a published connection gets through exactly
  when its credentials are not empty and PAM accepts them; then the PAM session is attached and
  the password in the settings is wiped. A refused one loses its slot, or its thread waits forever
  for a thread of the session, such as itself. The connection's account database is deleted.
\<close>

theorem tls_login_required:
  assumes "listener_reachable w" "lw_peers w i = Some ctx"
  shows "case drd_peer_post_connect pam i w of
      None \<Rightarrow> login_required (lw_listener w) ctx \<and> \<not> login_accepted pam (lw_listener w) ctx \<and>
        joins_forever Vcm_thread (px_session ctx)
    | Some (w', calls, r) \<Rightarrow>
        (r \<longleftrightarrow> (login_required (lw_listener w) ctx \<longrightarrow> login_accepted pam (lw_listener w) ctx)) \<and>
        (\<forall>sam. px_nla_sam ctx = Some sam \<longrightarrow> lw_files w' (sam_path sam) = None) \<and>
        (r \<and> login_required (lw_listener w) ctx \<longrightarrow> (\<exists>ctx'. lw_peers w' i = Some ctx' \<and>
           ss_local_session (px_session ctx') \<and> lg_password (px_login ctx') = Some [])) \<and>
        (\<not> r \<longrightarrow> i \<notin> set (sessions w'))"
proof -
  note inv = listener_reachable_inv [OF assms(1)]
  define ctx1 where "ctx1 = ctx\<lparr>px_session := drd_rdp_session_set_peer_state ''post-connect'' (px_session ctx),
    px_nla_sam := None\<rparr>"
  define w0 where "w0 = w\<lparr>lw_files := drd_nla_sam_file_free (px_nla_sam ctx) (lw_files w)\<rparr>"
  define w1 where "w1 = put_context i ctx1 w0"
  note un = drd_peer_post_connect_def [of pam i w, unfolded assms(2) option.case Let_def
      drd_rdp_session_post_connect_def prod.case, folded ctx1_def w0_def, folded w1_def]
  have files: "\<forall>sam. px_nla_sam ctx = Some sam \<longrightarrow> lw_files w0 (sam_path sam) = None"
    by (simp add: w0_def drd_nla_sam_file_free_def)
  have f1: "lw_listener w1 = lw_listener w" "px_listener ctx1 = px_listener ctx" "lw_files w1 = lw_files w0"
    "px_login ctx1 = px_login ctx" "px_hostname ctx1 = px_hostname ctx"
    by (simp_all add: w1_def put_context_def w0_def ctx1_def)
  show ?thesis
  proof (cases "login_required (lw_listener w) ctx")
    case False
    then have "drd_peer_post_connect pam i w = Some (w1, [], True)"
      using un f1 by (auto simp: login_required_def)
    with False files f1 show ?thesis by simp
  next
    case req: True
    then have pub: "px_listener ctx1" by (simp add: login_required_def f1)
    obtain ctx2 calls good where login:
      "drd_rdp_listener_authenticate_tls_login pam (lw_listener w) ctx1 = (ctx2, calls, good)"
      by (metis prod_cases3)
    have acc: "good = login_accepted pam (lw_listener w) ctx"
      using login_result(1) [OF login pub] by (simp add: login_accepted_def f1)
    show ?thesis
    proof (cases good)
      case True
      then have "drd_peer_post_connect pam i w = Some (put_context i ctx2 w1, calls, True)"
        using un req f1 login by (simp add: login_required_def)
      with login_result(2) [OF login pub True] acc True files f1 show ?thesis
        by (simp add: put_context_def)
    next
      case False
      have ok1: "peer_ok ctx1" "armed ctx1 = armed ctx"
        using peer_ok_state [OF lw_invD(3) [OF inv assms(2)]] by (simp_all add: ctx1_def)
      note c2 = login_context [OF login ok1(1)]
      define w2 where "w2 = put_context i ctx2 w1"
      have "lw_inv w0" using lw_inv_cong [OF inv, of w0] by (simp add: w0_def)
      then have inv2: "lw_inv (put_context i ctx2 w0)"
        by (rule put_context_inv [OF _ c2(1)])
          (use registered_armed [OF inv assms(2)] c2(2) ok1(2) in \<open>simp add: w0_def\<close>)
      then have inv2: "lw_inv w2" by (simp add: w2_def w1_def put_context_def)
      have post: "drd_peer_post_connect pam i w = map_option (\<lambda>res. (session_effect i w2 res, calls, False))
          (drd_rdp_session_disconnect Vcm_thread (px_session ctx2) (lw_runtime w1))"
        using un req f1 login False by (simp add: login_required_def w2_def)
      have same: "joins_forever Vcm_thread (px_session ctx2) = joins_forever Vcm_thread (px_session ctx)"
        using c2(4) [OF False] by (simp add: ctx1_def joins_forever_def drd_rdp_session_set_peer_state_def)
      show ?thesis
      proof (cases "drd_rdp_session_disconnect Vcm_thread (px_session ctx2) (lw_runtime w1)")
        case None
        have "session_ok (px_session ctx2)" using c2(1) by (simp add: peer_ok_def)
        from disconnect_returns [OF this, of Vcm_thread "lw_runtime w1"] None
        have "joins_forever Vcm_thread (px_session ctx2)" by (auto simp: returns_iff)
        with None post req acc False same show ?thesis by simp
      next
        case (Some res)
        obtain s rt es where res: "res = (s, rt, es)" by (metis prod_cases3)
        have "lw_peers w2 i = Some ctx2" by (simp add: w2_def put_context_def)
        from disconnect_effect_frees [OF inv2 this Some [unfolded res]]
        have "i \<notin> set (sessions (session_effect i w2 (s, rt, es)))" .
        moreover have "lw_files (session_effect i w2 (s, rt, es)) = lw_files w0"
          by (simp add: session_effect_def events_files put_session_def w2_def put_context_def f1)
        ultimately show ?thesis using post Some res req acc False files by simp
      qed
    qed
  qed
qed

text \<open>Before the second half of accepting, a connection is not published: its thread can finish the
  handshake without a login.\<close>

lemma early_post_connect_skips_login:
  "lw_peers w i = Some ctx \<Longrightarrow> \<not> px_listener ctx \<Longrightarrow>
   \<exists>w'. drd_peer_post_connect pam i w = Some (w', [], True) \<and> lw_listener w' = lw_listener w"
  by (simp add: drd_peer_post_connect_def Let_def drd_rdp_session_post_connect_def put_context_def)

text \<open>A channel thread that ends because its wait failed leaves the connection counted as alive. If
  it does so before the closed callback is registered, nobody reports the end, and the session
  keeps its slot.\<close>

lemma early_exit_is_lost:
  "ss_connection_alive s \<Longrightarrow> \<not> ss_closed_cb s \<Longrightarrow>
   \<exists>s'. session_run [Do_vcm_exit, Do_set_callback True] (s, rt) = Some (s', rt, []) \<and>
     ss_closed_cb s' \<and> ss_closed_invoked s' = ss_closed_invoked s"
  by (simp add: vcm_thread_exit_def drd_rdp_session_notify_closed_def
      drd_rdp_session_set_closed_callback_def Let_def)

subsection \<open>Witnesses\<close>

definition sample_connection :: connection where
  "sample_connection = \<lparr>cn_remote = Some (''10.0.0.7'', 49152), cn_fd = Some 7, cn_dup = Inr (),
     cn_getfd = True, cn_peer_new = True, cn_keep_open = False\<rparr>"

lemma sample_new_context: "drd_peer_context_new sample_accept = sample_context"
  by (simp add: drd_peer_context_new_def sample_context_def sample_accept_def sample_peer_def)

lemma sample_session_fields:
  "ss_peer (drd_rdp_session_new p) = Some p" "\<not> ss_event_thread (drd_rdp_session_new p)"
  "\<not> ss_vcm_thread (drd_rdp_session_new p)" "\<not> ss_runtime (drd_rdp_session_new p)"
  "\<not> ss_vcm (drd_rdp_session_new p)" "ss_pipeline (drd_rdp_session_new p) = None"
  "\<not> ss_closed_invoked (drd_rdp_session_new p)" "\<not> ss_stop_event (drd_rdp_session_new p)"
  by (simp_all add: drd_rdp_session_new_def drd_rdp_session_init_def)

lemma sample_options: "drd_server_runtime_get_encoding_options
    (drd_server_runtime_set_tls_credentials (Some 0) sample_runtime) = None"
  by (simp add: drd_server_runtime_get_encoding_options_def drd_server_runtime_set_tls_credentials_def
      sample_runtime_def drd_server_runtime_init_def)

lemma sample_setup:
  assumes "lw_listener w0 = sample_listener\<lparr>li_session_cb := cb\<rparr>" "lw_runtime w0 = lw_runtime sample_world"
    "tc_certificate_pem (lw_tls w0) = Some cert" "tc_private_key_pem (lw_tls w0) = Some key"
    "lw_peers w0 = Map.empty" "cert \<noteq> ''bad''" "key \<noteq> ''bad''"
  shows "\<exists>w' c. accept_setup sample_accept name 0 w0 = Some (w', True) \<and> lw_peers w' 0 = Some c \<and>
     lw_peers w' (Suc 0) = None \<and> lw_listener w' = lw_listener w0 \<and> lw_runtime w' = lw_runtime w0 \<and>
     tc_certificate_pem (lw_tls w') = Some cert \<and> ss_connection_alive (px_session c) \<and> \<not> px_listener c \<and>
     \<not> ss_closed_invoked (px_session c) \<and> px_login c = px_login sample_context \<and>
     ss_peer (px_session c) = Some sample_peer \<and> \<not> ss_render_thread (px_session c)"
proof -
  define w1 where "w1 = put_context 0 sample_context w0"
  have w1: "lw_listener w1 = sample_listener\<lparr>li_session_cb := cb\<rparr>" "lw_runtime w1 = lw_runtime sample_world"
    "tc_certificate_pem (lw_tls w1) = Some cert" "tc_private_key_pem (lw_tls w1) = Some key"
    "lw_peers w1 = [0 \<mapsto> sample_context]"
    by (simp_all add: w1_def put_context_def assms)
  have "px_nla_sam sample_context = None" by (simp add: sample_context_def)
  from sample_configured [OF w1(1-4) this assms(6,7)] obtain w2 st where conf:
    "drd_configure_peer_settings sample_accept sample_context w1 = Some (sample_context, w2, st, ok)"
    "lw_listener w2 = lw_listener w1" "lw_runtime w2 = lw_runtime w1" "lw_peers w2 = lw_peers w1"
    "tc_certificate_pem (lw_tls w2) = Some cert" by blast
  have free: "\<not> drd_rdp_listener_has_active_session (sample_listener\<lparr>li_session_cb := cb\<rparr>)"
    by (simp add: drd_rdp_listener_has_active_session_def)
  have aa: "aa_context_new sample_accept" "aa_initialize sample_accept" "aa_open_server sample_accept"
    "aa_event_created sample_accept"
    by (simp_all add: sample_accept_def)
  have rt: "drd_server_runtime_get_encoding_options (lw_runtime sample_world) = None"
    using sample_options by (simp add: sample_world_def)
  have sc: "px_session sample_context = drd_rdp_session_new sample_peer" "\<not> px_listener sample_context"
    by (simp_all add: sample_context_def)
  have sc2: "ss_connection_alive (drd_rdp_session_new p)" "\<not> ss_render_thread (drd_rdp_session_new p)" for p
    by (simp_all add: drd_rdp_session_new_def drd_rdp_session_init_def)
  show ?thesis
    unfolding accept_setup_def Let_def sample_new_context w1_def [symmetric]
    by (simp add: free aa conf drd_rdp_session_start_event_thread_def
        drd_rdp_session_set_passive_mode_def drd_rdp_session_set_runtime_def
        drd_rdp_session_set_virtual_channel_manager_def drd_rdp_session_maybe_init_graphics_def
        drd_rdp_session_set_peer_address_def rt put_context_def w1 sc sc2 sample_session_fields
        assms(1,2))
qed

lemma sample_accepted:
  "\<exists>w c. listener_reachable w \<and> sessions w = [0] \<and> lw_peers w 0 = Some c \<and> lw_peers w (Suc 0) = None \<and>
     lw_listener w = sample_listener\<lparr>li_sessions := [0]\<rparr> \<and> px_listener c \<and> px_login c = px_login sample_context"
proof -
  have start: "listener_reachable sample_world"
    by (rule listener_reachable.create [of None 3389 witness_options False None None "Some ''drd''"
          RUNTIME_MODE_HANDOVER])
      (simp_all add: sample_world_def sample_listener_def drd_rdp_listener_new_def empty_arg_def)
  obtain w1 c where set: "accept_setup sample_accept (drd_rdp_listener_describe_connection sample_connection)
      0 sample_world = Some (w1, True)" and w1: "lw_peers w1 0 = Some c" "lw_listener w1 = sample_listener" "lw_peers w1 (Suc 0) = None"
      "ss_connection_alive (px_session c)" "\<not> px_listener c" "\<not> ss_closed_invoked (px_session c)"
      "px_login c = px_login sample_context"
  proof -
    have "lw_listener sample_world = sample_listener\<lparr>li_session_cb := False\<rparr>" "lw_listener sample_world = sample_listener"
      "tc_certificate_pem (lw_tls sample_world) = Some ''c''" "tc_private_key_pem (lw_tls sample_world) = Some ''k''"
      "lw_peers sample_world = Map.empty"
      by (simp_all add: sample_world_def sample_listener_no_callback)
    from sample_setup [OF this(1) refl this(3-5)] this(2) show thesis using that by auto
  qed
  define w2 where "w2 = accept_publish 0 w1"
  have w2: "lw_listener w2 = sample_listener\<lparr>li_sessions := [0]\<rparr> \<and> (\<exists>c'. lw_peers w2 0 = Some c' \<and>
      lw_peers w2 (Suc 0) = None \<and> px_listener c' \<and> px_login c' = px_login sample_context)"
    by (simp add: w2_def accept_publish_def w1 Let_def put_context_def put_session_def session_effect_def
        drd_rdp_session_set_closed_callback_def drd_rdp_session_set_peer_state_def)
  have acc: "drd_rdp_listener_accept_peer sample_accept []
      (drd_rdp_listener_describe_connection sample_connection) 0 sample_world = Some (w2, True)"
    by (simp add: drd_rdp_listener_accept_peer_def set w2_def)
  then have adopt: "\<exists>es. drd_rdp_listener_adopt_connection sample_accept [] sample_connection 0 sample_world =
      Some (w2, es, ok)"
    by (simp add: drd_rdp_listener_adopt_connection_def drd_rdp_listener_handle_connection_def Let_def
        drd_rdp_listener_peer_from_connection_def sample_connection_def)
  have "lw_peers sample_world 0 = None" "peer_has_settings (aa_peer sample_accept)"
    by (simp_all add: sample_world_def peer_has_settings_def sample_accept_def sample_peer_def)
  with adopt have "listener_trans sample_world w2"
    using listener_trans.adopt [of sample_world 0 sample_accept "[]"] by fastforce
  with start have "listener_reachable w2" by (rule listener_reachable.step)
  with w2 show ?thesis by auto
qed


definition sample_pam :: pam_answers where
  "sample_pam = \<lparr>pm_start = PAM_SUCCESS, pm_authenticate = PAM_SUCCESS, pm_acct_mgmt = PAM_SUCCESS,
     pm_setcred = PAM_SUCCESS, pm_open_session = PAM_SUCCESS, pm_has_user_host = True\<rparr>"

lemma tls_login_required_witness:
  "\<exists>w w' calls ctx'. listener_reachable w \<and> drd_peer_post_connect sample_pam 0 w = Some (w', calls, True) \<and>
     lw_peers w' 0 = Some ctx' \<and> ss_local_session (px_session ctx')"
proof -
  obtain w c where "listener_reachable w \<and> sessions w = [0] \<and> lw_peers w 0 = Some c \<and>
      lw_peers w (Suc 0) = None \<and> lw_listener w = sample_listener\<lparr>li_sessions := [0]\<rparr> \<and>
      px_listener c \<and> px_login c = px_login sample_context"
    using sample_accepted by (elim exE)
  then have w: "listener_reachable w" "lw_peers w 0 = Some c" "lw_listener w =
      sample_listener\<lparr>li_sessions := [0]\<rparr>" "px_listener c" "px_login c = px_login sample_context"
    by simp_all
  have req: "login_required (lw_listener w) c" by (simp add: login_required_def w)
  have acc: "login_accepted sample_pam (lw_listener w) c"
    by (simp add: login_accepted_def w sample_context_def sample_accept_def empty_arg_def
        drd_local_session_new_def sample_pam_def Let_def)
  note login = tls_login_required [OF w(1,2), of sample_pam]
  show ?thesis
  proof (cases "drd_peer_post_connect sample_pam 0 w")
    case None
    with login acc show ?thesis by simp
  next
    case (Some res)
    obtain w' calls r where res: "res = (w', calls, r)" by (metis prod_cases3)
    note login' = login [unfolded Some res option.case prod.case]
    have r: "r" using login' acc by blast
    then obtain ctx' where "lw_peers w' 0 = Some ctx'" "ss_local_session (px_session ctx')"
      using login' req by blast
    moreover have "drd_peer_post_connect sample_pam 0 w = Some (w', calls, True)"
      using Some res r by simp
    ultimately show ?thesis using w(1) by blast
  qed
qed

end
