(* ===== verification/Handover_Safety.thy ===== *)
theory Handover_Safety
  imports Handover_Daemon Rdp_Listener_Safety
begin

text \<open>
  What the hand-over daemon guarantees: its one-time credentials, what a start that succeeds has
  agreed on with the system daemon, and that a redirection is all or nothing.
\<close>

subsection \<open>The one-time credentials\<close>

lemma token_value:
  "0 < n \<Longrightarrow> drd_handover_daemon_generate_token rng (Some p) n = Some (p @ concat (map hex2 (map rng [0..<n])))"
  by (simp add: drd_handover_daemon_generate_token_def)

text \<open>Two tokens with the same prefix agree exactly when their random bytes do.\<close>

lemma token_injective:
  assumes "0 < n"
  shows "drd_handover_daemon_generate_token rng1 (Some p) n = drd_handover_daemon_generate_token rng2 (Some p) n
    \<longleftrightarrow> (\<forall>i<n. rng1 i = rng2 i)"
proof -
  have "concat (map hex2 (map rng1 [0..<n])) = concat (map hex2 (map rng2 [0..<n])) \<longleftrightarrow>
      map rng1 [0..<n] = map rng2 [0..<n]"
    using unhex_hex [of "map rng1 [0..<n]"] unhex_hex [of "map rng2 [0..<n]"] by metis
  then show ?thesis
    unfolding token_value [OF assms] by (auto simp del: map_map)
qed

lemma refresh_credentials:
  "\<exists>user password. drd_handover_daemon_refresh_nla_credentials rng1 rng2 self =
     (self\<lparr>ho_nla_username := Some user, ho_nla_password := Some password\<rparr>, ok) \<and>
     user = ''handover-'' @ concat (map hex2 (map rng1 [0..<8])) \<and>
     password = ''handover-'' @ concat (map hex2 (map rng2 [0..<16]))"
  unfolding drd_handover_daemon_refresh_nla_credentials_def Let_def
  by (simp add: token_value drd_handover_daemon_clear_nla_credentials_def del: map_map upt_conv_Cons upt_rec_numeral)

subsection \<open>Starting\<close>

lemma apply_pem_ok:
  assumes "drd_tls_credentials_apply_pem api c k tls m = Some (tls', m', r)" "r = ok"
  shows "tc_certificate_pem tls' = Some c" "tc_private_key_pem tls' = Some k"
  using assms by (auto simp: drd_tls_credentials_apply_pem_def bind_eq_Some_conv
      split: prod.splits option.splits)

lemma daemon_start_session_ok:
  assumes "drd_handover_daemon_start_session ha (self, w) = Some ((self', w'), es, r)" "r = ok"
    "ho_tls self = Runtime_tls"
  shows "self' = self \<and> lw_listener w' = lw_listener w \<and>
    (\<exists>user password cert key. ho_nla_username self = Some user \<and> ho_nla_password self = Some password \<and>
       es = [Start_handover user password] \<and> ha_start ha = Inr (Some cert, Some key) \<and>
       tc_certificate_pem (lw_tls w') = Some cert \<and> tc_private_key_pem (lw_tls w') = Some key)"
proof -
  obtain user where user: "ho_nla_username self = Some user"
    using assms by (auto simp: drd_handover_daemon_start_session_def split: option.splits)
  obtain password where password: "ho_nla_password self = Some password"
    using assms user by (auto simp: drd_handover_daemon_start_session_def split: option.splits)
  note un = assms(1) [unfolded drd_handover_daemon_start_session_def prod.case user password
      option.case Let_def]
  obtain material where m: "ha_start ha = Inr material" using un assms(2) by (cases "ha_start ha") auto
  obtain a b where ab: "material = (a, b)" by (metis surj_pair)
  obtain cert where cert: "a = Some cert" using un m ab assms(2,3) by (cases a) auto
  obtain key where key: "b = Some key" using un m ab cert assms(2,3) by (cases b) auto
  obtain tls' store where reload: "drd_tls_credentials_apply_pem (ha_tls ha) cert key (lw_tls w) (lw_store w) =
      Some (tls', store, r)" and res: "self' = self" "w' = w\<lparr>lw_tls := tls', lw_store := store\<rparr>"
      "es = [Start_handover user password]"
    using un m ab cert key assms(3) by (auto simp: drd_tls_credentials_reload_from_pem_def)
  from apply_pem_ok [OF reload assms(2)] res user password m ab cert key show ?thesis by simp
qed

text \<open>
  C12: A start of a new hand-over daemon that succeeds: it is bound to the object the system daemon
  named; its listener runs in hand-over mode and announces its sessions; the user and the
  password that were sent with StartHandover are fresh random tokens, and the ones a listener
  with NLA accepts; and the runtime's TLS material, which connections are configured with, is
  the one the system daemon sent back.
\<close>

theorem handover_start_outcome:
  assumes "drd_handover_daemon_start ha (drd_handover_daemon_new c Runtime_tls, w) = Some ((self, w'), es, r)"
    "r = ok"
  shows "\<exists>path user password cert key.
    es = [Request_handover, Bind_proxy path, Start_handover user password] \<and>
    ho_dispatcher self \<and> ho_proxy self \<and> ho_path self = Some path \<and> ha_request ha = Inr path \<and>
    ho_listener self \<and> li_runtime_mode (lw_listener w') = RUNTIME_MODE_HANDOVER \<and>
    li_session_cb (lw_listener w') \<and> li_sessions (lw_listener w') = [] \<and>
    user = ''handover-'' @ concat (map hex2 (map (ha_user_bytes ha) [0..<8])) \<and>
    password = ''handover-'' @ concat (map hex2 (map (ha_password_bytes ha) [0..<16])) \<and>
    (li_nla_enabled (lw_listener w') \<longrightarrow>
       li_nla_username (lw_listener w') = Some user \<and> li_nla_password (lw_listener w') = Some password) \<and>
    ha_start ha = Inr (Some cert, Some key) \<and>
    tc_certificate_pem (lw_tls w') = Some cert \<and> tc_private_key_pem (lw_tls w') = Some key"
proof -
  define s0 where "s0 = drd_handover_daemon_new c Runtime_tls"
  have s0: "\<not> ho_dispatcher s0" "ho_nla_username s0 = None" "\<not> ho_listener s0" "ho_tls s0 = Runtime_tls"
    "ho_config s0 = c"
    by (simp_all add: s0_def drd_handover_daemon_new_def)
  define s1 where "s1 = s0\<lparr>ho_dispatcher := True\<rparr>"
  note un = assms(1) [folded s0_def, unfolded drd_handover_daemon_start_def prod.case Let_def, folded s1_def]
  obtain u where disp: "ha_dispatcher ha = Inr u" using un assms(2) s0 by (cases "ha_dispatcher ha") auto
  obtain user password where fresh: "drd_handover_daemon_refresh_nla_credentials (ha_user_bytes ha)
      (ha_password_bytes ha) s1 = (s1\<lparr>ho_nla_username := Some user, ho_nla_password := Some password\<rparr>, ok)"
    and tokens: "user = ''handover-'' @ concat (map hex2 (map (ha_user_bytes ha) [0..<8]))"
      "password = ''handover-'' @ concat (map hex2 (map (ha_password_bytes ha) [0..<16]))"
    using refresh_credentials by blast
  define s2 where "s2 = s1\<lparr>ho_nla_username := Some user, ho_nla_password := Some password\<rparr>"
  have s2: "ho_nla_username s2 = Some user" "ho_nla_password s2 = Some password" "ho_dispatcher s2"
    "\<not> ho_listener s2" "ho_tls s2 = Runtime_tls" "ho_config s2 = c"
    using s0 by (simp_all add: s2_def s1_def)
  have n1: "ho_nla_username s1 = None" using s0 by (simp add: s1_def)
  note un2 = un [unfolded if_not_P [OF s0(1)] disp sum.case n1, simplified, unfolded fresh, folded s2_def,
      simplified]
  obtain l where l: "drd_rdp_listener_new (drd_config_get_bind_address c) (drd_config_get_port c)
      (drd_config_get_encoding_options c) (drd_config_is_nla_enabled c) (Some user) (Some password)
      (drd_config_get_pam_service c) RUNTIME_MODE_HANDOVER = Some l"
    using un2 assms(2) s2 by (auto simp: create_listener_def Let_def split: option.splits)
  define s3 where "s3 = s2\<lparr>ho_listener := True\<rparr>"
  define w3 where "w3 = w\<lparr>lw_listener := drd_rdp_listener_set_session_callback True l\<rparr>"
  have create: "create_listener (s2, w) = ((s3, w3), ok)"
    using s2 l by (simp add: create_listener_def Let_def s3_def w3_def)
  note un3 = un2 [unfolded create, simplified]
  obtain path where path: "ha_request ha = Inr path"
    using un3 assms(2) by (cases "ha_request ha") (auto simp: drd_handover_daemon_bind_handover_def)
  obtain v where proxy: "ha_proxy ha = Inr v"
    using un3 assms(2) path by (cases "ha_proxy ha") (auto simp: drd_handover_daemon_bind_handover_def Let_def)
  define s4 where "s4 = s3\<lparr>ho_path := Some path, ho_proxy := True\<rparr>"
  have bind: "drd_handover_daemon_bind_handover ha s3 = (s4, [Request_handover, Bind_proxy path], ok)"
    by (simp add: drd_handover_daemon_bind_handover_def path proxy Let_def s4_def)
  from un3 [unfolded bind, simplified] obtain es5 where
    sess: "drd_handover_daemon_start_session ha (s4, w3) = Some ((self, w'), es5, r)"
    and es: "es = [Request_handover, Bind_proxy path] @ es5" by auto
  have s4: "ho_tls s4 = Runtime_tls" "ho_nla_username s4 = Some user" "ho_nla_password s4 = Some password"
    "ho_dispatcher s4" "ho_proxy s4" "ho_path s4 = Some path" "ho_listener s4"
    using s2 by (simp_all add: s4_def s3_def)
  note st = daemon_start_session_ok [OF sess assms(2) s4(1)]
  have l3: "li_runtime_mode l = RUNTIME_MODE_HANDOVER" "li_sessions l = []"
    "li_nla_enabled l \<longrightarrow> li_nla_username l = Some user \<and> li_nla_password l = Some password"
    using l by (auto simp: drd_rdp_listener_new_def drd_rdp_listener_init_def split: if_splits)
  have cb: "drd_rdp_listener_set_session_callback True l = l\<lparr>li_session_cb := True\<rparr>"
    by (simp add: drd_rdp_listener_set_session_callback_def)
  from st s4 es path tokens l3 show ?thesis
    by (auto simp: w3_def cb)
qed

subsection \<open>The daemon over time\<close>

text \<open>The signals of the hand-over object arrive while the daemon holds its proxy.\<close>

inductive handover_reachable :: "handover_daemon \<times> listener_world \<Rightarrow> bool" where
  create: "lw_peers w = Map.empty \<Longrightarrow> handover_reachable (drd_handover_daemon_new c tls, w)"
| start: "handover_reachable st \<Longrightarrow> drd_handover_daemon_start ha st = Some (st', es, r) \<Longrightarrow>
    handover_reachable st'"
| take: "handover_reachable st \<Longrightarrow> ho_proxy (fst st) \<Longrightarrow> lw_peers (snd st) i = None \<Longrightarrow>
    peer_has_settings (aa_peer aa) \<Longrightarrow> \<forall>(j, op)\<in>set between. client_own op \<Longrightarrow>
    drd_handover_daemon_on_take_client_ready tk aa between i st = Some (st', es) \<Longrightarrow> handover_reachable st'"
| redirect: "handover_reachable st \<Longrightarrow> ho_proxy (fst st) \<Longrightarrow>
    drd_handover_daemon_on_redirect_client capture_ends running ra token user password st = Some (st', es) \<Longrightarrow>
    handover_reachable st'"
| client: "handover_reachable (self, w) \<Longrightarrow> ho_listener self \<Longrightarrow> client_own op \<Longrightarrow>
    client_step i op w = Some w' \<Longrightarrow> handover_reachable (self, w')"
| stop: "handover_reachable st \<Longrightarrow> handover_reachable (drd_handover_daemon_stop st)"

definition handover_inv :: "handover_daemon \<times> listener_world \<Rightarrow> bool" where
  "handover_inv st \<longleftrightarrow> (\<forall>i ctx. lw_peers (snd st) i = Some ctx \<longrightarrow> peer_ok ctx) \<and>
     (ho_proxy (fst st) \<longrightarrow> ho_listener (fst st)) \<and> (ho_listener (fst st) \<longrightarrow> lw_inv (snd st))"

lemma inv_peers: "lw_inv w \<Longrightarrow> lw_peers w i = Some ctx \<Longrightarrow> peer_ok ctx"
  by (rule lw_invD(3))

lemma handover_inv_cong:
  assumes "handover_inv (self, w)" "ho_listener self' = ho_listener self"
    "ho_proxy self' \<longrightarrow> ho_proxy self \<or> ho_listener self"
    "lw_peers w' = lw_peers w" "lw_listener w' = lw_listener w"
  shows "handover_inv (self', w')"
  using assms lw_inv_cong [of w w'] by (auto simp: handover_inv_def)

lemma start_session_inv:
  assumes "drd_handover_daemon_start_session ha (self, w) = Some (st', es, r)" "handover_inv (self, w)"
  shows "handover_inv st'"
proof -
  obtain self' w' where st': "st' = (self', w')" by (metis surj_pair)
  have "ho_listener self' = ho_listener self \<and> ho_proxy self' = ho_proxy self \<and>
    lw_peers w' = lw_peers w \<and> lw_listener w' = lw_listener w"
  proof (cases "ho_nla_username self = None \<or> ho_nla_password self = None")
    case True
    with assms(1) st' show ?thesis
      by (auto simp: drd_handover_daemon_start_session_def split: option.splits)
  next
    case False
    then obtain user password where np: "ho_nla_username self = Some user" "ho_nla_password self = Some password"
      by auto
    note un = assms(1) [unfolded drd_handover_daemon_start_session_def prod.case np option.case Let_def st']
    show ?thesis
    proof (cases "ha_start ha")
      case (Inl e)
      with un show ?thesis by simp
    next
      case (Inr m)
      obtain a b where m: "m = (a, b)" by (metis surj_pair)
      show ?thesis
        using un Inr m by (cases a; cases b; cases "ho_tls self") (auto split: if_splits)
    qed
  qed
  then show ?thesis unfolding st' using handover_inv_cong [OF assms(2)] by simp
qed

lemma create_listener_inv:
  assumes "create_listener (self, w) = ((self', w'), r)" "handover_inv (self, w)"
  shows "handover_inv (self', w') \<and> (r = ok \<longrightarrow> ho_listener self')"
proof (cases "ho_listener self")
  case True
  with assms show ?thesis by (simp add: create_listener_def)
next
  case False
  let ?new = "drd_rdp_listener_new (drd_config_get_bind_address (ho_config self))
    (drd_config_get_port (ho_config self)) (drd_config_get_encoding_options (ho_config self))
    (drd_config_is_nla_enabled (ho_config self)) (ho_nla_username self) (ho_nla_password self)
    (drd_config_get_pam_service (ho_config self)) RUNTIME_MODE_HANDOVER"
  show ?thesis
  proof (cases ?new)
    case None
    with False assms show ?thesis by (auto simp: create_listener_def Let_def)
  next
    case (Some l)
    note l = new_listener [OF Some]
    have "self' = self\<lparr>ho_listener := True\<rparr>"
      "w' = w\<lparr>lw_listener := drd_rdp_listener_set_session_callback True l\<rparr>"
      using False assms(1) Some by (simp_all add: create_listener_def Let_def)
    then show ?thesis using l assms(2)
      by (simp add: handover_inv_def lw_inv_def slot_ok_def drd_rdp_listener_set_session_callback_def)
  qed
qed

lemma refresh_inv:
  assumes "drd_handover_daemon_refresh_nla_credentials rng1 rng2 self = (self', r)" "handover_inv (self, w)"
  shows "handover_inv (self', w)"
proof -
  have "ho_listener self' = ho_listener self" "ho_proxy self' = ho_proxy self"
    using assms(1) by (auto simp: drd_handover_daemon_refresh_nla_credentials_def Let_def
        drd_handover_daemon_clear_nla_credentials_def split: if_splits)
  then show ?thesis using handover_inv_cong [OF assms(2)] by simp
qed

lemma start_inv:
  assumes start: "drd_handover_daemon_start ha st = Some (st', es, r)" and inv: "handover_inv st"
  shows "handover_inv st'"
proof -
  obtain self w where st: "st = (self, w)" by (metis surj_pair)
  define s1 where "s1 = self\<lparr>ho_dispatcher := True\<rparr>"
  have inv1: "handover_inv (s1, w)"
    using handover_inv_cong [of self w s1 w] inv by (simp add: st s1_def)
  note un = start [unfolded st drd_handover_daemon_start_def prod.case Let_def, folded s1_def]
  obtain s2 r2 where cred: "(if ho_nla_username s1 = None \<or> ho_nla_password s1 = None
      then drd_handover_daemon_refresh_nla_credentials (ha_user_bytes ha) (ha_password_bytes ha) s1
      else (s1, ok)) = (s2, r2)" by (metis surj_pair)
  have inv2: "handover_inv (s2, w)"
    using cred refresh_inv inv1 by (auto split: if_splits)
  obtain s3 w3 r3 where cl: "create_listener (s2, w) = ((s3, w3), r3)" by (metis surj_pair)
  note inv3 = create_listener_inv [OF cl inv2]
  obtain s4 es4 r4 where bind: "drd_handover_daemon_bind_handover ha s3 = (s4, es4, r4)"
    by (metis prod_cases3)
  have b: "ho_listener s4 = ho_listener s3"
    using bind by (auto simp: drd_handover_daemon_bind_handover_def Let_def split: sum.splits)
  have inv4: "handover_inv (s4, w3)" if "r3 = ok"
    using that inv3 b handover_inv_cong [of s3 w3 s4 w3] by auto
  show ?thesis
  proof (cases "if ho_dispatcher self then ok else ha_dispatcher ha")
    case (Inl e)
    with un inv st show ?thesis by simp
  next
    case d: (Inr u)
    note un2 = un [unfolded d sum.case cred prod.case]
    show ?thesis
    proof (cases r2)
      case (Inl e)
      with un2 inv2 show ?thesis by simp
    next
      case r2: (Inr u2)
      note un3 = un2 [unfolded r2 sum.case cl prod.case]
      show ?thesis
      proof (cases r3)
        case (Inl e)
        with un3 inv3 show ?thesis by auto
      next
        case r3: (Inr u3)
        then have i4: "handover_inv (s4, w3)" using inv4 by simp
        note un4 = un3 [unfolded r3 sum.case bind prod.case]
        show ?thesis
        proof (cases r4)
          case (Inl e)
          with un4 i4 show ?thesis by simp
        next
          case (Inr u4)
          with un4 obtain es5 where "drd_handover_daemon_start_session ha (s4, w3) = Some (st', es5, r)"
            by auto
          from start_session_inv [OF this i4] show ?thesis .
        qed
      qed
    qed
  qed
qed

lemma take_inv:
  assumes take: "drd_handover_daemon_on_take_client_ready tk aa between i (self, w) = Some (st', es)"
    and inv: "handover_inv (self, w)" and fresh: "lw_peers w i = None"
    and peer: "peer_has_settings (aa_peer aa)" and own: "\<forall>(j, op)\<in>set between. client_own op"
  shows "handover_inv st'"
proof (cases "(\<exists>e. tk_call tk = Inl e) \<or> (\<exists>e. tk_fd tk = Inl e) \<or> (\<exists>e. tk_socket tk = Inl e) \<or> \<not> ho_listener self")
  case True
  with take inv show ?thesis
    by (auto simp: drd_handover_daemon_on_take_client_ready_def drd_handover_daemon_take_client_def
        split: sum.splits)
next
  case False
  have keeps: "ho_listener (on_listener_events fs s) = ho_listener s \<and>
      ho_proxy (on_listener_events fs s) = ho_proxy s" for fs s
    by (induction fs arbitrary: s)
      (auto simp: drd_handover_daemon_on_session_ready_def split: connection_event.split)
  from False have f: "\<And>e. tk_call tk \<noteq> Inl e" "\<And>e. tk_fd tk \<noteq> Inl e" "\<And>e. tk_socket tk \<noteq> Inl e"
    "ho_listener self" by blast+
  then have r: "tk_call tk = ok" "tk_fd tk = ok" "tk_socket tk = ok"
    by (metis sum.exhaust unit.exhaust)+
  from take obtain w' fs u where adopt: "drd_rdp_listener_adopt_connection aa between (tk_connection tk) i w =
      Some (w', fs, u)" and st': "st' = (on_listener_events fs self, w')"
    by (auto simp: drd_handover_daemon_on_take_client_ready_def drd_handover_daemon_take_client_def r f(4))
  have "lw_inv w'"
    using handle_connection_step [OF _ _ fresh peer own] adopt inv f(4)
    by (auto simp: drd_rdp_listener_adopt_connection_def handover_inv_def)
  then show ?thesis using inv_peers keeps f(4) by (auto simp: handover_inv_def st')
qed

lemma stop_inv:
  "handover_inv (self, w) \<Longrightarrow> handover_inv (drd_handover_daemon_stop (self, w))"
  by (auto simp: handover_inv_def drd_handover_daemon_stop_def Let_def drd_rdp_listener_dispose_def
      drd_rdp_listener_stop_internal_def)

text \<open>The outcome of a redirection: refused without a change, or the session is disconnected.\<close>

definition redirected ::
    "redirection_answers \<Rightarrow> string option \<Rightarrow> string option \<Rightarrow> string option \<Rightarrow> handover_daemon \<times> listener_world \<Rightarrow>
     handover_daemon \<times> listener_world \<Rightarrow> handover_event list \<Rightarrow> bool" where
  "redirected ra token user password st st' es \<longleftrightarrow> (case (st, st') of ((self, w), (self', w')) \<Rightarrow>
     \<exists>i ctx t u p cert tls calls ctx'. ho_active self = Some i \<and> lw_peers w i = Some ctx \<and>
       token = Some t \<and> user = Some u \<and> password = Some p \<and>
       daemon_credentials self w = Some tls \<and> tc_certificate_pem tls = Some cert \<and>
       drd_rdp_session_send_server_redirection ra t u p cert (px_session ctx) = Some (calls, True) \<and>
       es = map Redirection calls \<and> self' = self\<lparr>ho_active := None\<rparr> \<and>
       lw_peers w' i = Some ctx' \<and> session_down (px_session ctx') \<and> lw_inv w' \<and> i \<notin> set (sessions w'))"

text \<open>A redirection is sent: there is an active session, the signal has all its arguments, the daemon
  has a certificate, and FreeRDP takes the redirection.\<close>

definition redirection_sent ::
    "redirection_answers \<Rightarrow> string option \<Rightarrow> string option \<Rightarrow> string option \<Rightarrow> handover_daemon \<times> listener_world \<Rightarrow> bool" where
  "redirection_sent ra token user password st \<longleftrightarrow> (case st of (self, w) \<Rightarrow>
     \<exists>i ctx t u p cert tls calls. ho_active self = Some i \<and> lw_peers w i = Some ctx \<and>
       token = Some t \<and> user = Some u \<and> password = Some p \<and>
       daemon_credentials self w = Some tls \<and> tc_certificate_pem tls = Some cert \<and>
       drd_rdp_session_send_server_redirection ra t u p cert (px_session ctx) = Some (calls, True))"

text \<open>The render thread of the active session sleeps for good.\<close>

definition client_stuck :: "handover_daemon \<times> listener_world \<Rightarrow> bool" where
  "client_stuck st \<longleftrightarrow> (case st of (self, w) \<Rightarrow> \<exists>i ctx. ho_active self = Some i \<and> lw_peers w i = Some ctx \<and>
     ss_render_thread (px_session ctx) \<and> ss_render_stuck (px_session ctx))"

lemma error_fields:
  "session_ok (s\<lparr>ss_last_error := e\<rparr>) = session_ok s"
  "joins_forever Main_thread (s\<lparr>ss_last_error := e\<rparr>) = (ss_render_thread s \<and> ss_render_stuck s)"
  "session_down (s\<lparr>ss_state := st\<rparr>) = session_down s"
  by (simp_all add: session_ok_def peer_settings_of_def joins_forever_def session_down_def threads_down_def)

lemma redirect_cases:
  assumes red: "drd_handover_daemon_redirect_active_client ra token user password (self, w) = Some (st', es, r)"
    and inv: "handover_inv (self, w)" "ho_listener self"
  shows "if r then redirected ra token user password (self, w) st' es else st' = (self, w)"
proof -
  note un = red [unfolded drd_handover_daemon_redirect_active_client_def prod.case]
  have linv: "lw_inv w" using inv by (simp add: handover_inv_def)
  show ?thesis
  proof (cases "Option.bind (ho_active self) (lw_peers w)")
    case None
    with un show ?thesis by auto
  next
    case ctx: (Some ctx)
    then obtain i where i: "ho_active self = Some i" "lw_peers w i = Some ctx"
      by (auto simp: bind_eq_Some_conv)
    show ?thesis
    proof (cases "token = None \<or> user = None \<or> password = None")
      case True
      with un ctx show ?thesis by (auto split: option.splits)
    next
      case False
      then obtain t u p where args: "token = Some t" "user = Some u" "password = Some p" by auto
      note un2 = un [unfolded ctx option.case args prod.case]
      show ?thesis
      proof (cases "daemon_credentials self w")
        case None
        with un2 show ?thesis by auto
      next
        case tls: (Some tls)
        show ?thesis
        proof (cases "tc_certificate_pem tls")
          case None
          with un2 tls show ?thesis by (auto simp: drd_tls_credentials_read_material_def)
        next
          case cert: (Some cert)
          note un3 = un2 [unfolded tls option.case, simplified drd_tls_credentials_read_material_def cert, simplified]
          from un3 obtain calls sent where send: "drd_rdp_session_send_server_redirection ra t u p cert
              (px_session ctx) = Some (calls, sent)" by (auto simp: bind_eq_Some_conv)
          show ?thesis
          proof (cases sent)
            case False
            with un3 send show ?thesis by simp
          next
            case True
            define s0 where "s0 = (px_session ctx)\<lparr>ss_last_error := SESSION_ERROR_SERVER_REDIRECTION\<rparr>"
            from un3 send True obtain res where
              err: "drd_rdp_session_notify_error Main_thread SESSION_ERROR_SERVER_REDIRECTION (px_session ctx)
                (lw_runtime w) = Some res"
              and res: "st' = (self\<lparr>ho_active := None\<rparr>, session_effect i w res)" "es = map Redirection calls" "r"
              using i by auto
            obtain s rt fs where rs: "res = (s, rt, fs)" by (metis prod_cases3)
            have d: "drd_rdp_session_disconnect Main_thread s0 (lw_runtime w) = Some (s, rt, fs)"
              using err by (simp add: drd_rdp_session_notify_error_def s0_def rs)
            have ok: "session_ok (px_session ctx)" using lw_invD(3) [OF linv i(2)] by (simp add: peer_ok_def)
            then have ok0: "session_ok s0" by (simp add: s0_def error_fields)
            have "\<not> joins_forever Main_thread s0" using disconnect_never d by fastforce
            from disconnect_returns [OF ok0 this, of "lw_runtime w"] d have down: "session_down s" by simp
            have "session_step (Do_error Main_thread SESSION_ERROR_SERVER_REDIRECTION)
                (px_session ctx, lw_runtime w) = Some (s, rt, fs)" using err rs by simp
            from session_step_life [OF this ok] have "life_step (px_session ctx) s fs" "session_ok s" by simp_all
            from session_effect_step [OF linv i(2) this] have ws: "world_step w (session_effect i w (s, rt, fs))" .
            define w1 where "w1 = put_session i s (w\<lparr>lw_runtime := rt\<rparr>)"
            have w1: "slot_ok w1" "lw_peers w1 i = Some (ctx\<lparr>px_session := s\<rparr>)" "sessions w1 = sessions w"
              using lw_invD(1) [OF linv] i(2) by (simp_all add: slot_ok_def put_session_def w1_def)
            note h = handle_event_cases [OF w1(1), of i fs]
            then obtain st where ctx': "lw_peers (session_effect i w (s, rt, fs)) i =
                Some (ctx\<lparr>px_session := s\<lparr>ss_state := st\<rparr>\<rparr>)"
              using w1(2) by (auto simp: same_peer_def session_effect_def simp flip: w1_def)
            define w0 where "w0 = put_context i (ctx\<lparr>px_session := s0\<rparr>) w"
            have "peer_ok (ctx\<lparr>px_session := s0\<rparr>)" "armed (ctx\<lparr>px_session := s0\<rparr>) = armed ctx"
              using lw_invD(3) [OF linv i(2)] ok0 by (simp_all add: peer_ok_def armed_def s0_def)
            then have "lw_inv w0" using put_context_inv [OF linv] registered_armed [OF linv i(2)]
              by (auto simp: w0_def)
            moreover have "lw_peers w0 i = Some (ctx\<lparr>px_session := s0\<rparr>)" by (simp add: w0_def put_context_def)
            ultimately have "i \<notin> set (sessions (session_effect i w0 (s, rt, fs)))"
              using disconnect_effect_frees [of w0 i _ Main_thread] d by fastforce
            moreover have "put_session i s (w0\<lparr>lw_runtime := rt\<rparr>) = w1"
              by (simp add: w0_def w1_def put_context_def put_session_def i(2))
            ultimately have gone: "i \<notin> set (sessions (session_effect i w (s, rt, fs)))"
              by (simp add: session_effect_def w1_def)
            have "redirected ra token user password (self, w) st' es"
              unfolding redirected_def res(1) prod.case args rs
              using i tls cert send True res(2) ctx' down ws gone
              by (simp add: world_step_def error_fields)
            then show ?thesis using res(3) by simp
          qed
        qed
      qed
    qed
  qed
qed

lemma redirect_inv:
  assumes red: "drd_handover_daemon_on_redirect_client capture_ends running ra token user password (self, w) = Some (st', es)"
    and inv: "handover_inv (self, w)" "ho_proxy self"
  shows "handover_inv st'"
proof -
  from red obtain res where act0: "drd_handover_daemon_redirect_active_client ra token user password (self, w) =
      Some res" by (auto simp: drd_handover_daemon_on_redirect_client_def bind_eq_Some_conv)
  obtain st1 es1 r where res: "res = (st1, es1, r)" by (metis prod_cases3)
  note act = act0 [unfolded res]
  have st': "st' = (if r then drd_handover_daemon_stop st1 else st1)"
    using red act by (simp add: drd_handover_daemon_on_redirect_client_def Let_def split: if_splits)
  have l: "ho_listener self" using inv by (simp add: handover_inv_def)
  note c = redirect_cases [OF act inv(1) l]
  obtain self1 w1 where st1: "st1 = (self1, w1)" by (metis surj_pair)
  show ?thesis
  proof (cases r)
    case False
    with c st' inv(1) show ?thesis by simp
  next
    case True
    from c True st1 have "redirected ra token user password (self, w) (self1, w1) es1" by simp
    then have "lw_inv w1" "ho_listener self1" using l unfolding redirected_def prod.case by auto
    then have "handover_inv st1" using inv_peers by (auto simp: st1 handover_inv_def)
    with st' True st1 stop_inv show ?thesis by simp
  qed
qed

lemma handover_reachable_inv: "handover_reachable st \<Longrightarrow> handover_inv st"
proof (induction rule: handover_reachable.induct)
  case (create w c tls)
  then show ?case by (simp add: handover_inv_def drd_handover_daemon_new_def)
next
  case (start st ha st' es r)
  then show ?case using start_inv by blast
next
  case (take st i aa between tk st' es)
  obtain self w where st: "st = (self, w)" by (metis surj_pair)
  from take show ?case unfolding st by (auto intro: take_inv)
next
  case (redirect st capture_ends running ra token user password st' es)
  obtain self w where st: "st = (self, w)" by (metis surj_pair)
  from redirect show ?case unfolding st by (auto intro: redirect_inv)
next
  case (client self w op i w')
  then have "lw_inv w'" using client_step_step by (auto simp: handover_inv_def world_step_def)
  then show ?case using client inv_peers by (auto simp: handover_inv_def)
next
  case (stop st)
  obtain self w where st: "st = (self, w)" by (metis surj_pair)
  from stop show ?case unfolding st by (auto intro: stop_inv)
qed

lemma send_returns:
  assumes "stream_grows ra" "certificate_fits ra cert"
  shows "drd_rdp_session_send_server_redirection ra t u p cert s \<noteq> None"
proof -
  from container_of [OF assms] obtain r where
    "drd_rdp_session_get_certificate_container ra cert = Some r" by (auto simp: returns_iff)
  then show ?thesis
    by (auto simp: drd_rdp_session_send_server_redirection_def Let_def split: option.splits)
qed

text \<open>The redirection ends, with or without success, unless it was sent to a client that is stuck.\<close>

lemma redirect_ends:
  assumes "handover_inv (self, w)" "stream_grows ra" "\<forall>c. certificate_fits ra c"
  shows "if redirection_sent ra token user password (self, w) \<and> client_stuck (self, w)
    then drd_handover_daemon_redirect_active_client ra token user password (self, w) = None
    else \<exists>st' es. drd_handover_daemon_redirect_active_client ra token user password (self, w) =
      Some (st', es, redirection_sent ra token user password (self, w))"
proof (cases "\<exists>i ctx t u p cert tls. ho_active self = Some i \<and> lw_peers w i = Some ctx \<and>
       token = Some t \<and> user = Some u \<and> password = Some p \<and>
       daemon_credentials self w = Some tls \<and> tc_certificate_pem tls = Some cert")
  case False
  then have "\<not> redirection_sent ra token user password (self, w)"
    by (auto simp: redirection_sent_def)
  moreover have "\<exists>st' es. drd_handover_daemon_redirect_active_client ra token user password (self, w) =
      Some (st', es, False)"
    using False by (auto simp: drd_handover_daemon_redirect_active_client_def bind_eq_Some_conv
        drd_tls_credentials_read_material_def split: option.splits)
  ultimately show ?thesis by simp
next
  case True
  then obtain i ctx t u p cert tls where d: "ho_active self = Some i" "lw_peers w i = Some ctx"
    "token = Some t" "user = Some u" "password = Some p" "daemon_credentials self w = Some tls"
    "tc_certificate_pem tls = Some cert" by blast
  obtain calls sent where send: "drd_rdp_session_send_server_redirection ra t u p cert (px_session ctx) =
      Some (calls, sent)"
    using send_returns [OF assms(2) assms(3) [rule_format, of cert]] by force
  have sent: "redirection_sent ra token user password (self, w) = sent"
    using d send by (auto simp: redirection_sent_def)
  have stuck: "client_stuck (self, w) = (ss_render_thread (px_session ctx) \<and> ss_render_stuck (px_session ctx))"
    using d by (simp add: client_stuck_def)
  let ?s = "(px_session ctx)\<lparr>ss_last_error := SESSION_ERROR_SERVER_REDIRECTION\<rparr>"
  have ok: "session_ok ?s" using assms(1) d(2) by (auto simp: handover_inv_def peer_ok_def error_fields)
  have red: "drd_handover_daemon_redirect_active_client ra token user password (self, w) =
      (if \<not> sent then Some ((self, w), map Redirection calls, False)
       else map_option (\<lambda>res. ((self\<lparr>ho_active := None\<rparr>, session_effect i w res), map Redirection calls, True))
         (drd_rdp_session_disconnect Main_thread ?s (lw_runtime w)))"
    using d send by (simp add: drd_handover_daemon_redirect_active_client_def Let_def
        drd_tls_credentials_read_material_def drd_rdp_session_notify_error_def)
  show ?thesis
  proof (cases "client_stuck (self, w)")
    case True
    then have "drd_rdp_session_disconnect Main_thread ?s (lw_runtime w) = None"
      using stuck by (intro disconnect_never) (simp add: error_fields)
    with True show ?thesis by (simp add: red sent)
  next
    case False
    then have "\<not> joins_forever Main_thread ?s" using stuck by (simp add: error_fields)
    from disconnect_returns [OF ok this, of "lw_runtime w"] show ?thesis
      using False by (auto simp: red sent returns_iff)
  qed
qed

text \<open>
  C10: A RedirectClient signal, in every reachable state of the hand-over daemon. When no
  redirection can be sent, the daemon is unchanged and goes on. When a complete redirection with
  the token, the credentials and the daemon's certificate was sent to the active session, the
  handler joins that session's render thread and, with the stream, the capture thread: it never
  returns if the render thread sleeps for good in its wait for capacity, or if the capture thread
  does not end. Otherwise it returns with the session disconnected and out of its slot, the
  listener gone with the stream stopped, and the main loop told to quit exactly when it was
  running.
\<close>

theorem handover_redirect_outcome:
  assumes "handover_reachable (self, w)" "ho_proxy self" "stream_grows ra" "\<forall>c. certificate_fits ra c"
  shows "if \<not> redirection_sent ra token user password (self, w)
    then returns (drd_handover_daemon_on_redirect_client capture_ends running ra token user password (self, w))
      (\<lambda>(st', es). st' = (self, w) \<and> Quit_main_loop \<notin> set es)
    else if client_stuck (self, w) \<or> (joins_capture (lw_runtime w) \<and> \<not> capture_ends)
    then drd_handover_daemon_on_redirect_client capture_ends running ra token user password (self, w) = None
    else returns (drd_handover_daemon_on_redirect_client capture_ends running ra token user password (self, w))
      (\<lambda>((self', w'), es). \<exists>st1 es1. redirected ra token user password (self, w) st1 es1 \<and>
        ho_active self' = None \<and> \<not> ho_listener self' \<and> \<not> ho_proxy self' \<and>
        lw_peers w' = lw_peers (snd st1) \<and> sessions w' = [] \<and> \<not> streaming w' \<and>
        (Quit_main_loop \<in> set es \<longleftrightarrow> ho_main_loop self \<and> running))"
proof (cases "redirection_sent ra token user password (self, w) \<and> client_stuck (self, w)")
  case True
  with redirect_ends [OF handover_reachable_inv [OF assms(1)] assms(3,4), of token user password]
  show ?thesis by (simp add: drd_handover_daemon_on_redirect_client_def)
next
  case ends: False
  note inv = handover_reachable_inv [OF assms(1)]
  have l: "ho_listener self" using inv assms(2) by (simp add: handover_inv_def)
  let ?r = "redirection_sent ra token user password (self, w)"
  obtain st1 es1 where act: "drd_handover_daemon_redirect_active_client ra token user password (self, w) =
      Some (st1, es1, ?r)"
    using redirect_ends [OF inv assms(3,4), of token user password] ends by auto
  note c = redirect_cases [OF act inv l]
  have noquit: "Quit_main_loop \<notin> set es1"
    using act by (auto simp: drd_handover_daemon_redirect_active_client_def bind_eq_Some_conv Let_def
        split: option.splits sum.splits if_splits)
  show ?thesis
  proof (cases ?r)
    case False
    with act c noquit show ?thesis by (simp add: drd_handover_daemon_on_redirect_client_def)
  next
    case True
    show ?thesis
    proof (cases "joins_capture (lw_runtime w) \<and> \<not> capture_ends")
      case stays: True
      with True act show ?thesis by (simp add: drd_handover_daemon_on_redirect_client_def)
    next
      case False
      obtain self1 w1 where st1: "st1 = (self1, w1)" by (metis surj_pair)
      from c True st1 have red: "redirected ra token user password (self, w) (self1, w1) es1" by simp
      then have s1: "self1 = self\<lparr>ho_active := None\<rparr>" and linv: "lw_inv w1" by (auto simp: redirected_def)
      obtain rt es where stop: "drd_server_runtime_stop (lw_runtime w1) = (rt, es)" by (metis surj_pair)
      have rtm: "li_has_runtime (lw_listener w1)" using lw_invD(1) [OF linv] by (simp add: slot_ok_def)
      have "drd_handover_daemon_on_redirect_client capture_ends running ra token user password (self, w) =
          (let st2 = drd_handover_daemon_stop (self1, w1)
           in Some (st2, es1 @ drd_handover_daemon_request_shutdown running (fst st2)))"
        using act True False by (auto simp: drd_handover_daemon_on_redirect_client_def st1)
      then show ?thesis
        using True False ends s1 l red rtm stop stop_not_running [OF stop] noquit
        by (auto simp: drd_handover_daemon_stop_def Let_def drd_rdp_listener_dispose_def
            drd_rdp_listener_stop_internal_def drd_rdp_listener_finalize_def
            drd_handover_daemon_request_shutdown_def intro!: exI [of _ "(self1, w1)"])
    qed
  qed
qed

subsection \<open>Witnesses\<close>

definition sample_daemon_config :: config where
  "sample_daemon_config = \<lparr>cf_bind_address = None, cf_port = 3390, cf_certificate_path = None,
     cf_private_key_path = None, cf_nla_username = None, cf_nla_password = None, cf_base_dir = None,
     cf_nla_enabled = True, cf_runtime_mode = RUNTIME_MODE_HANDOVER, cf_pam_service = Some ''drd'',
     cf_pam_service_overridden = False, cf_encoding = witness_options, cf_capture_target_fps = 60,
     cf_capture_stats_interval_sec = 5\<rparr>"

definition sample_handover :: handover_answers where
  "sample_handover = \<lparr>ha_dispatcher = ok, ha_user_bytes = (\<lambda>i. of_nat i), ha_password_bytes = (\<lambda>i. 255),
     ha_request = Inr ''/h/1'', ha_proxy = ok, ha_start = Inr (Some ''cert'', Some ''key''), ha_tls = good_api\<rparr>"

lemma sample_started:
  "\<exists>self w es. drd_handover_daemon_start sample_handover
     (drd_handover_daemon_new sample_daemon_config Runtime_tls, sample_world) = Some ((self, w), es, ok) \<and> ho_proxy self"
proof -
  let ?s = "(drd_handover_daemon_new sample_daemon_config Runtime_tls)\<lparr>ho_dispatcher := True\<rparr>"
  obtain user password where fresh: "drd_handover_daemon_refresh_nla_credentials
      (ha_user_bytes sample_handover) (ha_password_bytes sample_handover) ?s =
      (?s\<lparr>ho_nla_username := Some user, ho_nla_password := Some password\<rparr>, ok)"
      "user \<noteq> []" "password \<noteq> []"
    using refresh_credentials [of "ha_user_bytes sample_handover" "ha_password_bytes sample_handover" ?s]
    by fastforce
  have answers: "ha_dispatcher sample_handover = ok" "ha_request sample_handover = Inr ''/h/1''"
    "ha_proxy sample_handover = ok" "ha_start sample_handover = Inr (Some ''cert'', Some ''key'')"
    "ha_tls sample_handover = good_api"
    by (simp_all add: sample_handover_def)
  show ?thesis
    using fresh
    by (simp add: drd_handover_daemon_start_def answers drd_handover_daemon_new_def Let_def create_listener_def
        drd_rdp_listener_new_def empty_arg_def sample_daemon_config_def drd_config_get_pam_service_def
        drd_handover_daemon_bind_handover_def drd_handover_daemon_start_session_def
        drd_tls_credentials_reload_from_pem_def drd_tls_credentials_apply_pem_def good_api_def
        freerdp_certificate_new_from_pem_def freerdp_key_new_from_pem_def sample_world_def
        drd_tls_credentials_init_def free_opt_def)
qed

lemma handover_start_outcome_witness:
  "\<exists>self w es. drd_handover_daemon_start sample_handover
     (drd_handover_daemon_new sample_daemon_config Runtime_tls, sample_world) = Some ((self, w), es, ok) \<and>
     tc_certificate_pem (lw_tls w) = Some ''cert'' \<and> ho_proxy self"
proof -
  obtain self w es where start: "drd_handover_daemon_start sample_handover
     (drd_handover_daemon_new sample_daemon_config Runtime_tls, sample_world) = Some ((self, w), es, ok)"
    using sample_started by blast
  have "ha_start sample_handover = Inr (Some ''cert'', Some ''key'')" by (simp add: sample_handover_def)
  with handover_start_outcome [OF start refl] have "tc_certificate_pem (lw_tls w) = Some ''cert''" "ho_proxy self"
    by auto
  with start show ?thesis by blast
qed

text \<open>A daemon for TLS only, which has taken a client.\<close>

definition sample_tls_config :: config where
  "sample_tls_config = sample_daemon_config\<lparr>cf_nla_enabled := False, cf_port := 3389\<rparr>"

lemma sample_tls_started:
  "\<exists>self w es. drd_handover_daemon_start sample_handover
     (drd_handover_daemon_new sample_tls_config Runtime_tls, sample_world) = Some ((self, w), es, ok) \<and>
     ho_proxy self \<and> ho_listener self \<and> ho_tls self = Runtime_tls \<and>
     lw_listener w = sample_listener\<lparr>li_session_cb := True\<rparr> \<and> lw_runtime w = lw_runtime sample_world \<and>
     tc_certificate_pem (lw_tls w) = Some ''cert'' \<and> tc_private_key_pem (lw_tls w) = Some ''key'' \<and>
     lw_peers w = Map.empty"
proof -
  let ?s = "(drd_handover_daemon_new sample_tls_config Runtime_tls)\<lparr>ho_dispatcher := True\<rparr>"
  obtain user password where fresh: "drd_handover_daemon_refresh_nla_credentials
      (ha_user_bytes sample_handover) (ha_password_bytes sample_handover) ?s =
      (?s\<lparr>ho_nla_username := Some user, ho_nla_password := Some password\<rparr>, ok)"
      "user \<noteq> []" "password \<noteq> []"
    using refresh_credentials [of "ha_user_bytes sample_handover" "ha_password_bytes sample_handover" ?s]
    by fastforce
  have answers: "ha_dispatcher sample_handover = ok" "ha_request sample_handover = Inr ''/h/1''"
    "ha_proxy sample_handover = ok" "ha_start sample_handover = Inr (Some ''cert'', Some ''key'')"
    "ha_tls sample_handover = good_api"
    by (simp_all add: sample_handover_def)
  show ?thesis
    using fresh
    by (simp add: drd_handover_daemon_start_def answers drd_handover_daemon_new_def Let_def create_listener_def
        drd_rdp_listener_new_def empty_arg_def sample_tls_config_def sample_daemon_config_def
        drd_config_get_pam_service_def drd_config_get_bind_address_def drd_config_get_port_def
        drd_config_get_encoding_options_def drd_config_is_nla_enabled_def sample_listener_def
        drd_rdp_listener_set_session_callback_def
        drd_handover_daemon_bind_handover_def drd_handover_daemon_start_session_def
        drd_tls_credentials_reload_from_pem_def drd_tls_credentials_apply_pem_def good_api_def
        freerdp_certificate_new_from_pem_def freerdp_key_new_from_pem_def sample_world_def
        drd_tls_credentials_init_def free_opt_def)
qed

definition sample_take :: take_answers where
  "sample_take = \<lparr>tk_call = ok, tk_fd = ok, tk_socket = ok, tk_connection = sample_connection\<rparr>"

lemma sample_taken:
  "\<exists>self w ctx. handover_reachable (self, w) \<and> ho_proxy self \<and> ho_active self = Some 0 \<and>
     lw_peers w 0 = Some ctx \<and> ss_peer (px_session ctx) = Some sample_peer \<and>
     daemon_credentials self w = Some (lw_tls w) \<and> tc_certificate_pem (lw_tls w) = Some ''cert'' \<and>
     \<not> ss_render_thread (px_session ctx) \<and> \<not> sr_stream_running (lw_runtime w)"
proof -
  obtain self w es where start: "drd_handover_daemon_start sample_handover
     (drd_handover_daemon_new sample_tls_config Runtime_tls, sample_world) = Some ((self, w), es, ok)"
    and s: "ho_proxy self" "ho_listener self" "ho_tls self = Runtime_tls"
    and w: "lw_listener w = sample_listener\<lparr>li_session_cb := True\<rparr>" "lw_runtime w = lw_runtime sample_world"
      "tc_certificate_pem (lw_tls w) = Some ''cert''" "tc_private_key_pem (lw_tls w) = Some ''key''"
      "lw_peers w = Map.empty"
    using sample_tls_started by blast
  have "lw_peers sample_world = Map.empty" by (simp add: sample_world_def)
  from handover_reachable.create [OF this] start have reach: "handover_reachable (self, w)"
    using handover_reachable.start by blast
  from sample_setup [OF w, of "drd_rdp_listener_describe_connection sample_connection"]
  obtain w1 c where set: "accept_setup sample_accept (drd_rdp_listener_describe_connection sample_connection)
      0 w = Some (w1, True)" and w1: "lw_peers w1 0 = Some c" "lw_listener w1 = lw_listener w"
      "lw_runtime w1 = lw_runtime w" "tc_certificate_pem (lw_tls w1) = Some ''cert''"
      "ss_connection_alive (px_session c)" "ss_peer (px_session c) = Some sample_peer"
      "\<not> ss_render_thread (px_session c)"
    by auto
  define w2 where "w2 = accept_publish 0 w1"
  have w2: "lw_listener w2 = sample_listener\<lparr>li_sessions := [0], li_session_cb := True\<rparr> \<and>
      lw_runtime w2 = lw_runtime sample_world \<and> lw_tls w2 = lw_tls w1 \<and> (\<exists>ctx. lw_peers w2 0 = Some ctx \<and>
      ss_peer (px_session ctx) = Some sample_peer \<and> \<not> ss_render_thread (px_session ctx))"
    by (simp add: w2_def accept_publish_def w1 w Let_def put_context_def put_session_def session_effect_def
        drd_rdp_session_set_closed_callback_def drd_rdp_session_set_peer_state_def)
  then obtain ctx where ctx: "lw_peers w2 0 = Some ctx" "ss_peer (px_session ctx) = Some sample_peer"
    "\<not> ss_render_thread (px_session ctx)" by blast
  have "drd_rdp_listener_accept_peer sample_accept []
      (drd_rdp_listener_describe_connection sample_connection) 0 w = Some (w2, True)"
    by (simp add: drd_rdp_listener_accept_peer_def set w2_def)
  then have adopt: "\<exists>es. drd_rdp_listener_adopt_connection sample_accept [] sample_connection 0 w =
      Some (w2, es, ok) \<and> (\<forall>s. on_listener_events es s = s\<lparr>ho_active := Some 0\<rparr>)"
    using w2 ctx(1)
    by (simp add: drd_rdp_listener_adopt_connection_def drd_rdp_listener_handle_connection_def Let_def
        drd_rdp_listener_peer_from_connection_def sample_connection_def drd_rdp_listener_close_connection_def
        drd_rdp_listener_connection_keep_open_def drd_handover_daemon_on_session_ready_def)
  then have "drd_handover_daemon_on_take_client_ready sample_take sample_accept [] 0 (self, w) =
      Some ((self\<lparr>ho_active := Some 0\<rparr>, w2), [Take_client])"
    using s(2) by (auto simp: drd_handover_daemon_on_take_client_ready_def drd_handover_daemon_take_client_def
        sample_take_def)
  moreover have "peer_has_settings (aa_peer sample_accept)"
    by (simp add: peer_has_settings_def sample_accept_def sample_peer_def)
  ultimately have "handover_reachable (self\<lparr>ho_active := Some 0\<rparr>, w2)"
    using handover_reachable.take [OF reach, of 0 sample_accept "[]" sample_take] s(1) w(5) by simp
  moreover have "\<not> sr_stream_running (lw_runtime w2)"
    using w2 by (simp add: sample_world_def drd_server_runtime_set_tls_credentials_def sample_runtime_def
        drd_server_runtime_init_def)
  ultimately show ?thesis
    using s ctx w2 w1(4) by (intro exI [of _ "self\<lparr>ho_active := Some 0\<rparr>"] exI [of _ w2] exI [of _ ctx])
      (simp add: daemon_credentials_def)
qed

lemma handover_redirect_outcome_witness:
  "\<exists>self w. handover_reachable (self, w) \<and> ho_proxy self \<and>
     returns (drd_handover_daemon_on_redirect_client True True sample_answers (Some ''42'') (Some ''u'') None (self, w))
       (\<lambda>(st', es). st' = (self, w) \<and> Quit_main_loop \<notin> set es) \<and>
     returns (drd_handover_daemon_on_redirect_client True True sample_answers (Some ''42'') (Some ''u'')
         (Some ''p'') (self, w))
       (\<lambda>((self', w'), es). ho_active self' = None \<and> \<not> ho_listener self' \<and> \<not> streaming w')"
proof -
  obtain self w ctx where w: "handover_reachable (self, w)" "ho_proxy self" "ho_active self = Some 0"
    "lw_peers w 0 = Some ctx" "ss_peer (px_session ctx) = Some sample_peer"
    "daemon_credentials self w = Some (lw_tls w)" "tc_certificate_pem (lw_tls w) = Some ''cert''"
    "\<not> ss_render_thread (px_session ctx)" "\<not> sr_stream_running (lw_runtime w)"
    using sample_taken by blast
  have fits: "stream_grows sample_answers" "\<forall>c. certificate_fits sample_answers c"
    by (simp_all add: sample_answers_def stream_grows_def certificate_fits_def)
  note T = handover_redirect_outcome [OF w(1,2) fits, of "Some ''42''" "Some ''u''" _ True True]
  have "\<not> redirection_sent sample_answers (Some ''42'') (Some ''u'') None (self, w)"
    by (simp add: redirection_sent_def)
  with T have refused: "returns (drd_handover_daemon_on_redirect_client True True sample_answers
      (Some ''42'') (Some ''u'') None (self, w)) (\<lambda>(st', es). st' = (self, w) \<and> Quit_main_loop \<notin> set es)" by simp
  have "peer_settings_of (px_session ctx) = Some \<lparr>ps_width = 800, ps_height = 600, ps_desktop_resize = True,
      ps_multifrag_max = 0, ps_os_major = OSMAJORTYPE_WINDOWS, ps_os_minor_nt = True\<rparr>"
    by (simp add: peer_settings_of_def w(5) sample_peer_def)
  then have "\<exists>calls. drd_rdp_session_send_server_redirection sample_answers ''42'' ''u'' ''p'' ''cert''
      (px_session ctx) = Some (calls, True)"
    by (simp add: drd_rdp_session_send_server_redirection_def sample_answers_def Let_def
        drd_rdp_session_get_utf16_string_def drd_rdp_session_generate_redirection_guid_def
        drd_rdp_session_get_certificate_container_def stream_write_def)
  then have "redirection_sent sample_answers (Some ''42'') (Some ''u'') (Some ''p'') (self, w)"
    using w by (simp add: redirection_sent_def)
  moreover have "\<not> client_stuck (self, w)" using w by (simp add: client_stuck_def)
  ultimately have "returns (drd_handover_daemon_on_redirect_client True True sample_answers (Some ''42'') (Some ''u'')
         (Some ''p'') (self, w))
       (\<lambda>((self', w'), es). ho_active self' = None \<and> \<not> ho_listener self' \<and> \<not> streaming w')"
    using T [of "Some ''p''"] by (auto intro: returns_mono)
  with refused w(1,2) show ?thesis by blast
qed

end
