(* ===== verification/Qt_Daemons.thy ===== *)
theory Qt_Daemons
  imports Qt_Listener Handover_Safety
begin

text \<open>
  The hand-over daemon and the system daemon of the Qt port (\<^verbatim>\<open>qt/system/drd_handover_daemon.cpp\<close>,
  \<^verbatim>\<open>qt/system/drd_system_daemon.cpp\<close>). Their listener, the runtime and the sessions are in the
  world of \<open>Qt_Listener\<close>. D-Bus is the answers in \<open>qt_dbus\<close> and \<open>qt_take\<close>; the properties of the
  configuration object are the parameter \<open>prop\<close>.
\<close>

subsection \<open>Settings and one-time credentials\<close>

definition read_string_setting :: "bool \<Rightarrow> (string \<Rightarrow> qvariant option) \<Rightarrow> string \<Rightarrow> string \<Rightarrow> string" where
  "read_string_setting config prop key fallback =
     (if \<not> config then fallback
      else case prop key of None \<Rightarrow> fallback
      | Some v \<Rightarrow> if qv_string v \<noteq> [] then qv_string v else fallback)"

definition read_int_setting :: "qt_api \<Rightarrow> bool \<Rightarrow> (string \<Rightarrow> qvariant option) \<Rightarrow> string \<Rightarrow> int \<Rightarrow> int" where
  "read_int_setting qt config prop key fallback =
     (if \<not> config then fallback
      else case prop key of None \<Rightarrow> fallback
      | Some (V_string s) \<Rightarrow> (case qt_text_int qt s of None \<Rightarrow> fallback | Some i \<Rightarrow> i)
      | Some v \<Rightarrow> qv_int qt v)"

definition read_bool_setting :: "bool \<Rightarrow> (string \<Rightarrow> qvariant option) \<Rightarrow> string \<Rightarrow> bool \<Rightarrow> bool" where
  "read_bool_setting config prop key fallback =
     (if \<not> config then fallback else case prop key of None \<Rightarrow> fallback | Some v \<Rightarrow> qv_bool v)"

definition qt_generate_token :: "(nat \<Rightarrow> u32) \<Rightarrow> string \<Rightarrow> nat \<Rightarrow> string" where
  "qt_generate_token random start random_bytes =
     start @ concat (map (\<lambda>i. hex2 (ucast (random i AND 0xFF))) [0..<random_bytes])"

subsection \<open>The hand-over daemon\<close>

record qt_handover =
  qh_config :: bool
  qh_runtime :: bool
  qh_tls :: "qt_tls option"
  qh_loop :: bool
  qh_dispatcher :: bool
  qh_proxy :: bool
  qh_listener :: bool
  qh_active_session :: bool
  qh_object_path :: string
  qh_username :: string
  qh_password :: string
  qh_running :: bool

definition qt_handover_new :: "bool \<Rightarrow> bool \<Rightarrow> qt_tls option \<Rightarrow> qt_handover" where
  "qt_handover_new config runtime tls_credentials =
     \<lparr>qh_config = config, qh_runtime = runtime, qh_tls = tls_credentials, qh_loop = False, qh_dispatcher = False,
      qh_proxy = False, qh_listener = False, qh_active_session = False, qh_object_path = [], qh_username = [],
      qh_password = [], qh_running = False\<rparr>"

datatype daemon_error =
    Missing_dependencies | No_credentials | No_dispatcher | No_handover_listener | Request_failed
  | No_handover_object | Start_failed | No_tls_material | Bad_tls_material
  | Not_ready | Take_failed | No_take_descriptor | Invalid_take_descriptor | Socket_refused
  | Adoption_failed listener_error

type_synonym daemon_res = "daemon_error + unit"

definition clear_nla_credentials :: "qt_handover \<Rightarrow> qt_handover" where
  "clear_nla_credentials self = self\<lparr>qh_username := [], qh_password := []\<rparr>"

definition refresh_nla_credentials ::
    "(nat \<Rightarrow> u32) \<Rightarrow> (nat \<Rightarrow> u32) \<Rightarrow> qt_handover \<Rightarrow> qt_handover \<times> daemon_res" where
  "refresh_nla_credentials random1 random2 self =
     (let s = (clear_nla_credentials self)\<lparr>qh_username := qt_generate_token random1 ''handover-'' 8,
                qh_password := qt_generate_token random2 ''handover-'' 16\<rparr>
      in if qh_username s = [] \<or> qh_password s = [] then (clear_nla_credentials s, Inl No_credentials)
         else (s, Inr ()))"

text \<open>\<open>qd_start\<close> is the reply to \<open>StartHandover\<close>: an error, or its arguments.\<close>

record qt_dbus =
  qd_random_user :: "nat \<Rightarrow> u32"
  qd_random_password :: "nat \<Rightarrow> u32"
  qd_dispatcher_valid :: bool
  qd_request :: "string option"
  qd_object_valid :: bool
  qd_start :: "string list option"

text \<open>The listener that \<open>start\<close> makes, once.\<close>

definition make_handover_listener ::
    "qt_api \<Rightarrow> (string \<Rightarrow> qvariant option) \<Rightarrow> qt_handover \<times> qt_world \<Rightarrow> (qt_handover \<times> qt_world) \<times> daemon_res" where
  "make_handover_listener qt prop st = (case st of (self, w) \<Rightarrow>
     if qh_listener self then (st, Inr ())
     else case qt_listener_new
         (read_string_setting (qh_config self) prop ''server.bind_address'' ''0.0.0.0'')
         (word_of_int (read_int_setting qt (qh_config self) prop ''server.port'' 3390))
         (qh_runtime self) Map.empty
         (read_bool_setting (qh_config self) prop ''auth.enable_nla'' True)
         (qh_username self) (qh_password self)
         (read_string_setting (qh_config self) prop ''auth.pam_service'' ''deepin-remote-desktop'')
         ''handover'' of
       None \<Rightarrow> (st, Inl No_handover_listener)
     | Some l \<Rightarrow> ((self\<lparr>qh_listener := True\<rparr>, w\<lparr>qw_listener := qt_listener_set_session_callback True l\<rparr>), Inr ()))"

text \<open>Binding the hand-over object, and the TLS material of \<open>StartHandover\<close>.\<close>

definition bind_and_start :: "qt_dbus \<Rightarrow> qt_handover \<times> qt_world \<Rightarrow> (qt_handover \<times> qt_world) \<times> daemon_res" where
  "bind_and_start d st = (case st of (self, w) \<Rightarrow>
     case qd_request d of None \<Rightarrow> (st, Inl Request_failed)
     | Some path \<Rightarrow>
       let s1 = self\<lparr>qh_object_path := path, qh_proxy := True\<rparr> in
       if \<not> qd_object_valid d then ((s1, w), Inl No_handover_object)
       else case qd_start d of None \<Rightarrow> ((s1, w), Inl Start_failed)
       | Some args \<Rightarrow>
         if length args < 2 then ((s1, w), Inl No_tls_material)
         else let credentials = (case qh_tls s1 of None \<Rightarrow> qt_tls_new | Some t \<Rightarrow> t);
                  (t, r) = qt_tls_reload_from_pem (args ! 0) (args ! 1) credentials;
                  s2 = s1\<lparr>qh_tls := Some t\<rparr>
         in case r of Inl e \<Rightarrow> ((s2, w), Inl Bad_tls_material)
            | Inr _ \<Rightarrow> ((s2\<lparr>qh_running := True\<rparr>, w\<lparr>qw_runtime := qt_runtime_set_tls (Some t) (qw_runtime w)\<rparr>), Inr ()))"

definition qt_handover_start ::
    "qt_api \<Rightarrow> (string \<Rightarrow> qvariant option) \<Rightarrow> qt_dbus \<Rightarrow> qt_handover \<times> qt_world \<Rightarrow>
     (qt_handover \<times> qt_world) \<times> daemon_res" where
  "qt_handover_start qt prop d st = (case st of (self, w) \<Rightarrow>
     if qh_running self then (st, Inr ())
     else if \<not> qh_config self \<or> \<not> qh_runtime self then (st, Inl Missing_dependencies)
     else case (if qh_username self = [] \<or> qh_password self = []
                then refresh_nla_credentials (qd_random_user d) (qd_random_password d) self
                else (self, Inr ())) of
       (s1, Inl e) \<Rightarrow> ((s1, w), Inl e)
     | (s1, Inr _) \<Rightarrow>
       let s2 = s1\<lparr>qh_dispatcher := True\<rparr> in
       if \<not> qd_dispatcher_valid d then ((s2, w), Inl No_dispatcher)
       else (case make_handover_listener qt prop (s2, w) of
           (st3, Inl e) \<Rightarrow> (st3, Inl e)
         | (st3, Inr _) \<Rightarrow> bind_and_start d st3))"

datatype qt_loop_event = Quit_loop

text \<open>The second component: whether the main loop runs, so that it is told to quit.\<close>

definition quit_loop :: "bool \<Rightarrow> qt_handover \<Rightarrow> qt_loop_event list" where
  "quit_loop loop_running self = (if qh_loop self \<and> loop_running then [Quit_loop] else [])"

definition qt_handover_stop :: "bool \<Rightarrow> qt_handover \<Rightarrow> qt_handover \<times> qt_loop_event list" where
  "qt_handover_stop loop_running self =
     (if \<not> qh_running self then (self, [])
      else (self\<lparr>qh_dispatcher := False, qh_proxy := False, qh_object_path := [], qh_listener := False,
                 qh_active_session := False, qh_running := False\<rparr>, quit_loop loop_running self))"

definition qt_handover_set_main_loop :: "bool \<Rightarrow> qt_handover \<Rightarrow> qt_handover" where
  "qt_handover_set_main_loop l self = self\<lparr>qh_loop := l\<rparr>"

definition qt_request_shutdown :: "bool \<Rightarrow> qt_handover \<Rightarrow> qt_loop_event list" where
  "qt_request_shutdown loop_running self = quit_loop loop_running self"

text \<open>Nothing is sent to the session: the code only forgets it.\<close>

definition qt_redirect_active_client :: "string \<Rightarrow> string \<Rightarrow> string \<Rightarrow> qt_handover \<Rightarrow> qt_handover \<times> bool" where
  "qt_redirect_active_client token username password self =
     (if \<not> qh_active_session self then (self, False)
      else if token = [] \<or> username = [] \<or> password = [] then (self, False)
      else if qh_tls self = None then (self, False)
      else (self\<lparr>qh_active_session := False\<rparr>, True))"

definition qt_handle_redirect_client ::
    "bool \<Rightarrow> string \<Rightarrow> string \<Rightarrow> string \<Rightarrow> qt_handover \<Rightarrow> qt_handover \<times> qt_loop_event list" where
  "qt_handle_redirect_client loop_running token username password self =
     (case qt_redirect_active_client token username password self of
        (s, False) \<Rightarrow> (s, [])
      | (s, True) \<Rightarrow> let (s2, e) = qt_handover_stop loop_running s
          in (s2, e @ qt_request_shutdown (loop_running \<and> e = []) s2))"

text \<open>\<open>tk_reply\<close>: the reply to \<open>TakeClient\<close>, an error or the validity of the descriptors in it.\<close>

record qt_take =
  tk_reply :: "bool list option"
  tk_socket :: bool
  tk_accept :: qt_accept

text \<open>The session callback remembers the session.\<close>

definition on_adopted :: "qt_peer_event list \<Rightarrow> qt_handover \<Rightarrow> qt_handover" where
  "on_adopted es self = (if \<exists>e \<in> set es. (case e of Session_callback i \<Rightarrow> True | _ \<Rightarrow> False)
     then self\<lparr>qh_active_session := True\<rparr> else self)"

definition qt_take_client ::
    "nat \<Rightarrow> qt_api \<Rightarrow> qt_take \<Rightarrow> nat \<Rightarrow> qt_handover \<times> qt_world \<Rightarrow> ((qt_handover \<times> qt_world) \<times> daemon_res) run" where
  "qt_take_client depth qt t i st = (case st of (self, w) \<Rightarrow>
     if \<not> qh_proxy self \<or> \<not> qh_listener self then Done (st, Inl Not_ready)
     else case tk_reply t of None \<Rightarrow> Done (st, Inl Take_failed)
     | Some [] \<Rightarrow> Done (st, Inl No_take_descriptor)
     | Some (valid # _) \<Rightarrow>
       if \<not> valid then Done (st, Inl Invalid_take_descriptor)
       else if \<not> tk_socket t then Done (st, Inl Socket_refused)
       else run_bind (transport_adopt_connection depth qt (tk_accept t) True i True w) (\<lambda>(w1, es, r).
         Done ((on_adopted es self, w1), (case r of Inl e \<Rightarrow> Inl (Adoption_failed e) | Inr _ \<Rightarrow> Inr ()))))"

definition qt_handle_take_client_ready ::
    "nat \<Rightarrow> qt_api \<Rightarrow> qt_take \<Rightarrow> nat \<Rightarrow> bool \<Rightarrow> qt_handover \<times> qt_world \<Rightarrow> (qt_handover \<times> qt_world) run" where
  "qt_handle_take_client_ready depth qt t i use_system_credentials st =
     run_bind (qt_take_client depth qt t i st) (\<lambda>(st', r). Done st')"

definition qt_handle_restart_handover :: "qt_handover \<Rightarrow> qt_handover" where
  "qt_handle_restart_handover self = self"

subsection \<open>The system daemon\<close>

record qt_system =
  qy_config :: bool
  qy_runtime :: bool
  qy_tls :: bool
  qy_loop :: bool
  qy_pending :: nat
  qy_remote :: nat
  qy_running :: bool
  qy_handover :: qt_handover

definition qt_system_new :: "bool \<Rightarrow> bool \<Rightarrow> qt_tls option \<Rightarrow> qt_system" where
  "qt_system_new config runtime tls_credentials =
     \<lparr>qy_config = config, qy_runtime = runtime, qy_tls = (tls_credentials \<noteq> None), qy_loop = False, qy_pending = 0,
      qy_remote = 0, qy_running = False, qy_handover = qt_handover_new config runtime tls_credentials\<rparr>"

definition qt_system_start ::
    "qt_api \<Rightarrow> (string \<Rightarrow> qvariant option) \<Rightarrow> qt_dbus \<Rightarrow> qt_system \<times> qt_world \<Rightarrow> (qt_system \<times> qt_world) \<times> daemon_res" where
  "qt_system_start qt prop d st = (case st of (self, w) \<Rightarrow>
     if qy_running self then (st, Inr ())
     else if \<not> qy_config self \<or> \<not> qy_runtime self \<or> \<not> qy_tls self then (st, Inl Missing_dependencies)
     else case qt_handover_start qt prop d (qy_handover self, w) of
       ((h, w1), Inl e) \<Rightarrow> ((self\<lparr>qy_handover := h\<rparr>, w1), Inl e)
     | ((h, w1), Inr _) \<Rightarrow>
         ((self\<lparr>qy_handover := h, qy_pending := 0, qy_remote := 0, qy_running := True\<rparr>, w1), Inr ()))"

definition qt_system_stop :: "bool \<Rightarrow> qt_system \<Rightarrow> qt_system \<times> qt_loop_event list" where
  "qt_system_stop loop_running self =
     (if \<not> qy_running self then (self, [])
      else let (h, e) = qt_handover_stop loop_running (qy_handover self)
           in (self\<lparr>qy_handover := h, qy_pending := 0, qy_remote := 0, qy_running := False\<rparr>,
               e @ (if qy_loop self then [Quit_loop] else [])))"

definition qt_system_set_main_loop :: "bool \<Rightarrow> qt_system \<Rightarrow> qt_system" where
  "qt_system_set_main_loop l self =
     self\<lparr>qy_loop := l, qy_handover := qt_handover_set_main_loop l (qy_handover self)\<rparr>"

definition qt_pending_client_count :: "qt_system \<Rightarrow> nat" where "qt_pending_client_count self = qy_pending self"
definition qt_remote_client_count :: "qt_system \<Rightarrow> nat" where "qt_remote_client_count self = qy_remote self"

subsection \<open>Starting\<close>

lemma token_agrees:
  "0 < n \<Longrightarrow> drd_handover_daemon_generate_token (\<lambda>i. ucast (random i AND 0xFF)) (Some p) n =
     Some (qt_generate_token random p n)"
  by (simp add: drd_handover_daemon_generate_token_def qt_generate_token_def comp_def)

lemma token_nonempty: "p \<noteq> [] \<Longrightarrow> qt_generate_token random p n \<noteq> []"
  by (simp add: qt_generate_token_def)

lemma refresh_ok:
  "refresh_nla_credentials r1 r2 self =
     (self\<lparr>qh_username := qt_generate_token r1 ''handover-'' 8,
           qh_password := qt_generate_token r2 ''handover-'' 16\<rparr>, Inr ())"
  by (simp add: refresh_nla_credentials_def clear_nla_credentials_def token_nonempty)

lemma known_handover: "known_mode ''handover''" "runtime_mode_matches ''handover'' ''handover''"
  by (simp_all add: known_mode_def runtime_mode_matches_def strcaseeq_def)

text \<open>The listener of a daemon whose configuration object has no properties.\<close>

definition default_handover_listener :: "string \<Rightarrow> string \<Rightarrow> qt_listener" where
  "default_handover_listener username password = qt_listener_set_session_callback True
     (qt_listener_init ''0.0.0.0'' 3390 True Map.empty True username password ''deepin-remote-desktop'' ''handover'')"

lemma make_listener_default:
  assumes "\<not> qh_listener self" "qh_runtime self" "qh_username self \<noteq> []" "qh_password self \<noteq> []"
  shows "make_handover_listener qt (\<lambda>_. None) (self, w) =
    ((self\<lparr>qh_listener := True\<rparr>, w\<lparr>qw_listener := default_handover_listener (qh_username self) (qh_password self)\<rparr>), Inr ())"
  using assms
  by (simp add: make_handover_listener_def read_string_setting_def read_int_setting_def read_bool_setting_def
      qt_listener_new_def known_handover default_handover_listener_def)

lemma bind_and_start_outcome:
  assumes "bind_and_start d (self, w) = ((s', w'), r)" "\<not> qh_running self"
  shows "qh_running s' \<longleftrightarrow> r = Inr ()" "qw_listener w' = qw_listener w" "qw_sessions w' = qw_sessions w"
    "qh_listener s' = qh_listener self" "qh_username s' = qh_username self" "qh_password s' = qh_password self"
    "r = Inr () \<Longrightarrow> \<exists>c k rest t. qd_start d = Some (c # k # rest) \<and> c \<noteq> [] \<and> k \<noteq> [] \<and>
       qh_tls s' = Some t \<and> qr_tls (qw_runtime w') = Some t \<and> qt_certificate_pem t = c \<and> qt_private_key_pem t = k"
proof -
  have sh: "(\<exists>args c. qd_request d \<noteq> None \<and> qd_start d = Some args \<and> 2 \<le> length args \<and> args ! 0 \<noteq> [] \<and> args ! 1 \<noteq> [] \<and>
      r = Inr () \<and> w' = w\<lparr>qw_runtime := qt_runtime_set_tls (Some c) (qw_runtime w)\<rparr> \<and>
      qt_certificate_pem c = args ! 0 \<and> qt_private_key_pem c = args ! 1 \<and> qh_tls s' = Some c \<and> qh_running s') \<or>
    (r \<noteq> Inr () \<and> w' = w \<and> \<not> qh_running s')"
    using assms
    by (cases "qd_request d"; cases "qd_start d"; cases "qh_tls self")
       (auto simp: bind_and_start_def Let_def qt_tls_reload_from_pem_def split: if_splits)
  then show "qh_running s' \<longleftrightarrow> r = Inr ()" "qw_listener w' = qw_listener w" "qw_sessions w' = qw_sessions w"
    by auto
  show "qh_listener s' = qh_listener self" "qh_username s' = qh_username self" "qh_password s' = qh_password self"
    using assms(1)
    by (auto simp: bind_and_start_def Let_def split: if_splits option.splits prod.splits sum.splits)
  show "\<exists>c k rest t. qd_start d = Some (c # k # rest) \<and> c \<noteq> [] \<and> k \<noteq> [] \<and>
       qh_tls s' = Some t \<and> qr_tls (qw_runtime w') = Some t \<and> qt_certificate_pem t = c \<and> qt_private_key_pem t = k"
    if r: "r = Inr ()"
  proof -
    obtain args c where a: "qd_start d = Some args" "2 \<le> length args" "args ! 0 \<noteq> []" "args ! 1 \<noteq> []"
      "w' = w\<lparr>qw_runtime := qt_runtime_set_tls (Some c) (qw_runtime w)\<rparr>"
      "qt_certificate_pem c = args ! 0" "qt_private_key_pem c = args ! 1" "qh_tls s' = Some c"
      using sh r by auto
    then obtain x y rest where "args = x # y # rest"
      by (cases args; cases "tl args") auto
    then show ?thesis using a by (simp add: qt_runtime_set_tls_def)
  qed
qed

text \<open>
  C22: starting the hand-over daemon succeeds or leaves it stopped. When it succeeds, the runtime
  and the daemon hold the certificate and the key of the dispatcher's reply, and a new listener is
  in hand-over mode with NLA and the one-time credentials, which are those the daemon of the C
  program makes from the same random numbers. As the configuration object of the program has no
  properties, the address, the port and the PAM service of that listener are constants, whatever the
  configuration says; the listener does not listen, and no session is touched.
\<close>

theorem qt_handover_start_outcome:
  assumes "qt_handover_start qt (\<lambda>_. None) d (self, w) = ((s', w'), r)" "\<not> qh_running self" "\<not> qh_listener self"
    "qh_username self = []"
  shows "(qh_running s' \<longleftrightarrow> r = Inr ()) \<and> qw_sessions w' = qw_sessions w \<and>
    (r = Inr () \<longrightarrow>
       (\<exists>c k rest t. qd_start d = Some (c # k # rest) \<and> c \<noteq> [] \<and> k \<noteq> [] \<and> qh_tls s' = Some t \<and>
          qr_tls (qw_runtime w') = Some t \<and> qt_certificate_pem t = c \<and> qt_private_key_pem t = k) \<and>
       qw_listener w' = default_handover_listener (qh_username s') (qh_password s') \<and> \<not> ql_running (qw_listener w') \<and>
       drd_handover_daemon_generate_token (\<lambda>i. ucast (qd_random_user d i AND 0xFF)) (Some ''handover-'') 8 = Some (qh_username s') \<and>
       drd_handover_daemon_generate_token (\<lambda>i. ucast (qd_random_password d i AND 0xFF)) (Some ''handover-'') 16 = Some (qh_password s'))"
proof (cases "qh_config self \<and> qh_runtime self \<and> qd_dispatcher_valid d")
  case False
  then show ?thesis using assms by (auto simp: qt_handover_start_def refresh_ok Let_def split: if_splits)
next
  case True
  define s2 where "s2 = self\<lparr>qh_username := qt_generate_token (qd_random_user d) ''handover-'' 8,
    qh_password := qt_generate_token (qd_random_password d) ''handover-'' 16, qh_dispatcher := True\<rparr>"
  have f: "\<not> qh_listener s2" "qh_runtime s2" "qh_username s2 \<noteq> []" "qh_password s2 \<noteq> []" "\<not> qh_running s2"
    using True assms(2,3) by (simp_all add: s2_def token_nonempty)
  define w2 where "w2 = w\<lparr>qw_listener := default_handover_listener (qh_username s2) (qh_password s2)\<rparr>"
  have b: "bind_and_start d (s2\<lparr>qh_listener := True\<rparr>, w2) = ((s', w'), r)"
    using assms(1,2,4) True make_listener_default [OF f(1-4), of qt w]
    by (simp add: qt_handover_start_def refresh_ok Let_def flip: s2_def w2_def)
  note o = bind_and_start_outcome [OF b]
  have u: "qh_username s' = qh_username s2" "qh_password s' = qh_password s2"
    using o(5,6) f(5) by simp_all
  have t: "drd_handover_daemon_generate_token (\<lambda>i. ucast (qd_random_user d i AND 0xFF)) (Some ''handover-'') 8 = Some (qh_username s')"
    "drd_handover_daemon_generate_token (\<lambda>i. ucast (qd_random_password d i AND 0xFF)) (Some ''handover-'') 16 = Some (qh_password s')"
    by (simp_all add: token_agrees u s2_def)
  have l: "qw_listener w' = default_handover_listener (qh_username s') (qh_password s')" "qw_sessions w' = qw_sessions w"
    "\<not> ql_running (qw_listener w')"
    using o(2,3) f(5) u
    by (simp_all add: w2_def default_handover_listener_def qt_listener_set_session_callback_def qt_listener_init_def)
  show ?thesis using o(1,7) f(5) t l by simp
qed

definition witness_dbus :: qt_dbus where
  "witness_dbus = \<lparr>qd_random_user = (\<lambda>_. 0), qd_random_password = (\<lambda>_. 0), qd_dispatcher_valid = True,
     qd_request = Some ''/h'', qd_object_valid = True, qd_start = Some [''c'', ''k'']\<rparr>"

theorem qt_handover_start_outcome_witness:
  "\<exists>s' w'. qt_handover_start witness_qt (\<lambda>_. None) witness_dbus (qt_handover_new True True None, witness_world) = ((s', w'), Inr ()) \<and>
     qh_running s' \<and> \<not> ql_running (qw_listener w')"
proof -
  obtain s' w' r where a: "qt_handover_start witness_qt (\<lambda>_. None) witness_dbus (qt_handover_new True True None, witness_world) = ((s', w'), r)"
    by (metis surj_pair)
  have new: "\<not> qh_listener (qt_handover_new True True None)" "\<not> qh_running (qt_handover_new True True None)"
    "qh_username (qt_handover_new True True None) = []" by (simp_all add: qt_handover_new_def)
  have "r = Inr ()"
    using a make_listener_default [of "(qt_handover_new True True None)\<lparr>qh_username := qt_generate_token (\<lambda>_. 0) ''handover-'' 8,
      qh_password := qt_generate_token (\<lambda>_. 0) ''handover-'' 16, qh_dispatcher := True\<rparr>" witness_qt witness_world]
    by (simp add: qt_handover_start_def refresh_ok Let_def qt_handover_new_def witness_dbus_def token_nonempty
        bind_and_start_def qt_tls_reload_from_pem_def)
  then show ?thesis using a qt_handover_start_outcome [OF a new(2,1,3)] by blast
qed

subsection \<open>What the daemons do not do\<close>

text \<open>A redirection that is reported done sent nothing; the daemon stops and the main loop ends.\<close>

lemma redirect_only_stops:
  assumes "qh_active_session self" "token \<noteq> []" "username \<noteq> []" "password \<noteq> []" "qh_tls self \<noteq> None" "qh_running self"
    "qh_loop self" "qt_handle_redirect_client True token username password self = (s', e)"
  shows "e = [Quit_loop]" "\<not> qh_running s'" "\<not> qh_active_session s'" "\<not> qh_listener s'"
  using assms by (auto simp: qt_handle_redirect_client_def qt_redirect_active_client_def qt_handover_stop_def
      quit_loop_def qt_request_shutdown_def Let_def)

lemma system_follows_handover:
  assumes "qt_system_start qt prop d (self, w) = ((s', w'), r)" "\<not> qy_running self" "\<not> qh_running (qy_handover self)"
    "qt_handover_start qt prop d (qy_handover self, w) = ((h, wh), rh)"
  shows "qy_running s' \<longleftrightarrow> r = Inr ()" "r = Inr () \<Longrightarrow> rh = Inr () \<and> qy_handover s' = h \<and> w' = wh"
  using assms by (auto simp: qt_system_start_def split: if_splits sum.splits)

end
