(* ===== verification/Qt_Application.thy ===== *)
theory Qt_Application
  imports Qt_Daemons
begin

text \<open>
  The program of the Qt port (\<^verbatim>\<open>qt/core/drd_application.cpp\<close>, \<^verbatim>\<open>qt/main.cpp\<close>): the command line, the
  services of the three modes, and what is alive while the main loop runs.

  \<open>QCommandLineParser\<close> is a parameter: the options that are set, with their values.
\<close>

subsection \<open>The command line\<close>

type_synonym qt_options = "string \<rightharpoonup> string"

definition text_option :: "string \<Rightarrow> string \<Rightarrow> qt_options \<Rightarrow> qt_values \<Rightarrow> qt_values" where
  "text_option opt key parser values =
     (case parser opt of None \<Rightarrow> values | Some v \<Rightarrow> values(key \<mapsto> V_string v))"

text \<open>A number that cannot be read is ignored.\<close>

definition number_option :: "qt_api \<Rightarrow> string \<Rightarrow> string \<Rightarrow> qt_options \<Rightarrow> qt_values \<Rightarrow> qt_values" where
  "number_option qt opt key parser values =
     (case parser opt of None \<Rightarrow> values
      | Some v \<Rightarrow> (case qt_text_int qt v of None \<Rightarrow> values | Some i \<Rightarrow> values(key \<mapsto> V_int i)))"

definition flag_option :: "string \<Rightarrow> string \<Rightarrow> qt_options \<Rightarrow> qt_values \<Rightarrow> qt_values" where
  "flag_option opt key parser values =
     (case parser opt of None \<Rightarrow> values | Some v \<Rightarrow> values(key \<mapsto> V_bool True))"

definition cli_options :: "qt_api \<Rightarrow> (qt_options \<Rightarrow> qt_values \<Rightarrow> qt_values) list" where
  "cli_options qt =
     [text_option ''bind-address'' ''bind_address'', number_option qt ''port'' ''port'',
      text_option ''cert'' ''certificate_path'', text_option ''key'' ''private_key_path'',
      number_option qt ''width'' ''capture_width'', number_option qt ''height'' ''capture_height'',
      number_option qt ''capture-fps'' ''capture_target_fps'',
      number_option qt ''capture-stats-sec'' ''capture_stats_interval_sec'',
      text_option ''encoder'' ''encoder_mode'', text_option ''nla-username'' ''nla_username'',
      text_option ''nla-password'' ''nla_password'', flag_option ''enable-nla'' ''enable_nla'',
      flag_option ''disable-nla'' ''disable_nla'', text_option ''mode'' ''runtime_mode'',
      flag_option ''enable-diff'' ''enable_diff'', flag_option ''disable-diff'' ''disable_diff'']"

definition cli_values :: "qt_api \<Rightarrow> qt_options \<Rightarrow> qt_values" where
  "cli_values qt parser = fold (\<lambda>f. f parser) (cli_options qt) Map.empty"

subsection \<open>The services\<close>

text \<open>What is alive when the main loop runs: the world with its listener, if there is one, and a
  daemon, if there is one.\<close>

record qt_app =
  ap_config :: qt_values
  ap_world :: qt_world
  ap_listener :: bool
  ap_daemon :: bool

record app_answers =
  an_options :: qt_options
  an_open_file :: "string \<Rightarrow> ini_file"
  an_dbus :: qt_dbus
  an_address :: "string \<Rightarrow> bool"
  an_listen :: "string \<Rightarrow> u16 \<Rightarrow> bool"

datatype app_error =
    Config_failed config_error | Daemon_failed daemon_error | Listener_failed listener_error

text \<open>\<open>listener_options\<close>: what the user mode gives its listener.\<close>

definition listener_options :: "qt_api \<Rightarrow> qt_values \<Rightarrow> qt_values" where
  "listener_options qt c = Map.empty
     (''mode'' \<mapsto> V_string (qt_config_get_string c ''encoding_mode''),
      ''enable_diff'' \<mapsto> V_bool (qt_config_get_bool c ''enable_frame_diff''),
      ''width'' \<mapsto> V_int (qt_config_get_int qt c ''capture_width''),
      ''height'' \<mapsto> V_int (qt_config_get_int qt c ''capture_height''))"

definition start_user_mode ::
    "qt_api \<Rightarrow> app_answers \<Rightarrow> qt_values \<Rightarrow> qt_world \<Rightarrow> qt_world \<times> listener_res" where
  "start_user_mode qt a c w =
     (let (tls, _) = qt_tls_load (qt_config_get_string c ''certificate_path'')
            (qt_config_get_string c ''private_key_path'') qt_tls_new;
          w1 = w\<lparr>qw_runtime := qt_runtime_set_tls (Some tls) (qw_runtime w)\<rparr>;
          l = qt_listener_new (qt_config_get_string c ''bind_address'')
            (word_of_int (qt_config_get_int qt c ''port'')) True (listener_options qt c)
            (qt_config_get_bool c ''nla_enabled'') (qt_config_get_string c ''nla_username'')
            (qt_config_get_string c ''nla_password'') (qt_config_get_string c ''pam_service'')
            (qt_config_get_string c ''runtime_mode'')
      in case transport_start (an_address a) (an_listen a) l of
        (None, r) \<Rightarrow> (w1, r)
      | (Some l', r) \<Rightarrow> (w1\<lparr>qw_listener := l'\<rparr>, r))"

text \<open>The daemons of the other modes are owned by a pointer of their branch: they are destroyed,
  with their listener and their proxies, when the branch ends.\<close>

definition start_daemon_mode ::
    "qt_api \<Rightarrow> app_answers \<Rightarrow> bool \<Rightarrow> qt_world \<Rightarrow> qt_world \<times> daemon_res" where
  "start_daemon_mode qt a system w =
     (if system
      then (case qt_system_start qt (\<lambda>_. None) (an_dbus a)
              (qt_system_set_main_loop True (qt_system_new True True (Some qt_tls_new)), w) of
          ((s, w1), r) \<Rightarrow> (w1, r))
      else (case qt_handover_start qt (\<lambda>_. None) (an_dbus a)
              (qt_handover_set_main_loop True (qt_handover_new True True (Some qt_tls_new)), w) of
          ((s, w1), r) \<Rightarrow> (w1, r)))"

text \<open>Until the main loop is entered; an error is the exit status 1.\<close>

definition qt_application_start :: "qt_api \<Rightarrow> app_answers \<Rightarrow> qt_world \<Rightarrow> app_error + qt_app" where
  "qt_application_start qt a w0 =
     (let w = w0\<lparr>qw_runtime := qt_runtime_new\<rparr>;
          (c0, r0) = (case an_options a ''config'' of None \<Rightarrow> (qt_config_new, Inr ())
            | Some path \<Rightarrow> qt_config_load_from_file qt (an_open_file a) path qt_config_new)
      in case r0 of Inl e \<Rightarrow> Inl (Config_failed e)
      | Inr _ \<Rightarrow>
     (case qt_config_merge_cli qt (cli_values qt (an_options a)) c0 of
        (c, Inl e) \<Rightarrow> Inl (Config_failed e)
      | (c, Inr _) \<Rightarrow>
        let mode = qt_config_get_string c ''runtime_mode'' in
        if mode = ''system'' \<or> mode = ''handover''
        then (case start_daemon_mode qt a (mode = ''system'') w of
            (w1, Inl e) \<Rightarrow> Inl (Daemon_failed e)
          | (w1, Inr _) \<Rightarrow> Inr \<lparr>ap_config = c, ap_world = w1, ap_listener = False, ap_daemon = False\<rparr>)
        else (case start_user_mode qt a c w of
            (w1, Inl e) \<Rightarrow> Inl (Listener_failed e)
          | (w1, Inr _) \<Rightarrow> Inr \<lparr>ap_config = c, ap_world = w1, ap_listener = True, ap_daemon = False\<rparr>)))"

text \<open>The main loop ends with a signal; then the status is 0.\<close>

definition qt_application_run :: "qt_api \<Rightarrow> app_answers \<Rightarrow> qt_world \<Rightarrow> nat" where
  "qt_application_run qt a w = (case qt_application_start qt a w of Inl _ \<Rightarrow> 1 | Inr _ \<Rightarrow> 0)"

definition signal_handler :: "bool \<Rightarrow> bool \<Rightarrow> qt_loop_event list" where
  "signal_handler main_loop running = (if main_loop \<and> running then [Quit_loop] else [])"

definition drd_initialize_winpr :: "bool \<Rightarrow> bool \<Rightarrow> bool \<Rightarrow> bool" where
  "drd_initialize_winpr ssl table registered \<longleftrightarrow> ssl \<and> table \<and> registered"

definition qt_main :: "bool \<Rightarrow> bool \<Rightarrow> bool \<Rightarrow> qt_api \<Rightarrow> app_answers \<Rightarrow> qt_world \<Rightarrow> nat" where
  "qt_main ssl table registered qt a w =
     (if \<not> drd_initialize_winpr ssl table registered then 1 else qt_application_run qt a w)"

subsection \<open>What the program serves\<close>

lemma user_mode_listener:
  assumes "start_user_mode qt a c w = (w1, Inr ())"
  shows "ql_running (qw_listener w1)" "ql_options (qw_listener w1) = listener_options qt c"
    "ql_delegate (qw_listener w1) = False" "ql_server (qw_listener w1) = Some True"
    "ql_port (qw_listener w1) = word_of_int (qt_config_get_int qt c ''port'')"
    "ql_nla_enabled (qw_listener w1) = qt_config_get_bool c ''nla_enabled''"
proof -
  obtain l l' where l: "qt_listener_new (qt_config_get_string c ''bind_address'')
      (word_of_int (qt_config_get_int qt c ''port'')) True (listener_options qt c)
      (qt_config_get_bool c ''nla_enabled'') (qt_config_get_string c ''nla_username'')
      (qt_config_get_string c ''nla_password'') (qt_config_get_string c ''pam_service'')
      (qt_config_get_string c ''runtime_mode'') = Some l"
    "qt_listener_start (an_address a) (an_listen a) l = (l', Inr ())" "qw_listener w1 = l'"
    using assms
    by (auto simp: start_user_mode_def transport_start_def qt_tls_load_def Let_def
        split: option.splits prod.splits)
  note s = new_listener_starts [OF l(1,2)]
  show "ql_running (qw_listener w1)" "ql_server (qw_listener w1) = Some True"
    using s l(3) by simp_all
  have n: "ql_options l = listener_options qt c" "ql_delegate l = False"
    "ql_port l = word_of_int (qt_config_get_int qt c ''port'')" "ql_nla_enabled l = qt_config_get_bool c ''nla_enabled''"
    using l(1) by (auto simp: qt_listener_new_def qt_listener_init_def Let_def split: if_splits)
  have k: "ql_options l' = ql_options l" "ql_delegate l' = ql_delegate l" "ql_port l' = ql_port l"
    "ql_nla_enabled l' = ql_nla_enabled l"
    using l(2) by (auto simp: qt_listener_start_def Let_def split: if_splits)
  show "ql_options (qw_listener w1) = listener_options qt c" "ql_delegate (qw_listener w1) = False"
    "ql_port (qw_listener w1) = word_of_int (qt_config_get_int qt c ''port'')"
    "ql_nla_enabled (qw_listener w1) = qt_config_get_bool c ''nla_enabled''"
    using n k l(3) by simp_all
qed

lemma options_value:
  "option_value qt (listener_options qt c) ''width'' f = qt_config_get_int qt c ''capture_width''"
  "option_value qt (listener_options qt c) ''height'' f = qt_config_get_int qt c ''capture_height''"
  by (simp_all add: option_value_def listener_options_def)

text \<open>Without a size no connection is configured.\<close>

lemma no_size_no_configuration:
  assumes "option_value qt (ql_options l) ''width'' 1024 = 0 \<or> option_value qt (ql_options l) ''height'' 768 = 0"
  shows "qt_configure_peer_settings qt a ctx l runtime m \<noteq> Some (t, m', Inr ())"
proof
  assume "qt_configure_peer_settings qt a ctx l runtime m = Some (t, m', Inr ())"
  from configure_ok [OF this] assms show False by metis
qed

text \<open>
  C14: what the program serves while its main loop runs. In user mode, its listener listens on the
  configured port. In system and in hand-over mode nothing serves: the daemon that was started was
  destroyed before. And a user mode without a configured capture size, as the defaults have it,
  serves no connection either: every adoption that comes as far as the connection's settings finds
  no size, and no adoption returns success.
\<close>

theorem qt_application_serves:
  assumes "qt_application_start qt a w0 = Inr app"
  shows "\<not> ap_daemon app \<and>
    (ap_listener app \<longleftrightarrow> qt_config_get_string (ap_config app) ''runtime_mode'' \<notin> {''system'', ''handover''}) \<and>
    (ap_listener app \<longrightarrow> ql_server (qw_listener (ap_world app)) = Some True \<and>
       ql_port (qw_listener (ap_world app)) = word_of_int (qt_config_get_int qt (ap_config app) ''port'')) \<and>
    (ap_listener app \<and> (qt_config_get_int qt (ap_config app) ''capture_width'' = 0 \<or>
        qt_config_get_int qt (ap_config app) ''capture_height'' = 0) \<longrightarrow>
     (\<forall>depth ac i w' es. qt_adopt_connection depth qt ac True i (ap_world app) \<noteq> Done (w', es, Inr ())))"
proof (cases "ap_listener app")
  case False
  then show ?thesis using assms
    by (auto simp: qt_application_start_def Let_def split: sum.splits prod.splits if_splits)
next
  case True
  then obtain w where w: "start_user_mode qt a (ap_config app) w = (ap_world app, Inr ())" "\<not> ap_daemon app"
    "qt_config_get_string (ap_config app) ''runtime_mode'' \<notin> {''system'', ''handover''}"
    using assms by (auto simp: qt_application_start_def Let_def split: sum.splits prod.splits if_splits)
  note l = user_mode_listener [OF w(1)]
  have "qt_adopt_connection depth qt ac True i (ap_world app) \<noteq> Done (w', es, Inr ())"
    if z: "qt_config_get_int qt (ap_config app) ''capture_width'' = 0 \<or>
        qt_config_get_int qt (ap_config app) ''capture_height'' = 0" for depth ac i w' es
  proof
    assume "qt_adopt_connection depth qt ac True i (ap_world app) = Done (w', es, Inr ())"
    from adopt_done [OF this] no_size_no_configuration [of qt "qw_listener (ap_world app)"] z
    show False by (auto simp: l(2,3) options_value)
  qed
  then show ?thesis using True w(2,3) l(4,5) by blast
qed

definition witness_parser :: qt_options where
  "witness_parser = Map.empty(''cert'' \<mapsto> ''c'', ''key'' \<mapsto> ''k'', ''nla-username'' \<mapsto> ''u'', ''nla-password'' \<mapsto> ''p'')"

definition witness_app_answers :: app_answers where
  "witness_app_answers = \<lparr>an_options = witness_parser,
     an_open_file = (\<lambda>_. \<lparr>in_contains = (\<lambda>_. False), in_string = (\<lambda>_. []), in_int = (\<lambda>_. 0), in_bool = (\<lambda>_. False)\<rparr>),
     an_dbus = witness_dbus, an_address = (\<lambda>_. True), an_listen = (\<lambda>_ _. True)\<rparr>"

lemma witness_cli_values: "cli_values witness_qt witness_parser = witness_cli"
  by (simp add: cli_values_def cli_options_def text_option_def number_option_def flag_option_def
      witness_parser_def witness_cli_def)

lemma witness_starts:
  "\<exists>app. qt_application_start witness_qt witness_app_answers witness_world = Inr app \<and>
     ap_config app = fst (qt_config_merge_cli witness_qt witness_cli qt_config_new) \<and> ap_listener app"
proof -
  define c where "c = fst (qt_config_merge_cli witness_qt witness_cli qt_config_new)"
  have m: "qt_config_merge_cli witness_qt witness_cli qt_config_new = (c, Inr ())"
    by (simp add: c_def witness_merge)
  have mode: "qt_config_get_string c ''runtime_mode'' = ''user''"
    unfolding c_def witness_merge by (simp add: qt_config_get_string_def qt_config_new_def)
  define w where "w = witness_world\<lparr>qw_runtime := qt_runtime_new\<rparr>"
  obtain w1 where w1: "start_user_mode witness_qt witness_app_answers c w = (w1, Inr ())"
    unfolding c_def witness_merge
    by (simp add: start_user_mode_def qt_tls_load_def qt_config_get_string_def qt_config_get_bool_def
        qt_config_new_def qt_listener_new_def known_user transport_start_def qt_listener_start_def
        qt_listener_init_def witness_app_answers_def Let_def)
  have o: "an_options witness_app_answers = witness_parser" "witness_parser ''config'' = None"
    by (simp_all add: witness_app_answers_def witness_parser_def)
  have "qt_application_start witness_qt witness_app_answers witness_world =
      Inr \<lparr>ap_config = c, ap_world = w1, ap_listener = True, ap_daemon = False\<rparr>"
    unfolding qt_application_start_def Let_def o witness_cli_values option.case prod.case m sum.case mode
    by (simp add: w1 flip: w_def)
  then show ?thesis by (simp flip: c_def)
qed

theorem qt_application_serves_witness:
  "\<exists>app. qt_application_start witness_qt witness_app_answers witness_world = Inr app \<and> ap_listener app \<and>
     (\<forall>depth ac i w' es. qt_adopt_connection depth witness_qt ac True i (ap_world app) \<noteq> Done (w', es, Inr ()))"
proof -
  obtain app where a: "qt_application_start witness_qt witness_app_answers witness_world = Inr app"
    "ap_config app = fst (qt_config_merge_cli witness_qt witness_cli qt_config_new)" "ap_listener app"
    using witness_starts by blast
  have "qt_config_get_int witness_qt (ap_config app) ''capture_width'' = 0"
    unfolding a(2) witness_merge by (simp add: qt_config_get_int_def qt_config_new_def)
  then show ?thesis using qt_application_serves [OF a(1)] a(1,3) by blast
qed

end
