(* ===== verification/Qt_Placeholders.thy ===== *)
theory Qt_Placeholders
  imports Qt_Application
begin

text \<open>
  The parts of the Qt port that are placeholders: functions that ignore their arguments and answer
  a constant, and objects that only remember whether they were started. They are modelled so that it
  is on record what they answer: where the daemon would capture, encode or check a login, they report
  success or \<open>nothing\<close>. A cleared error message is dropped; a returned object is its identity.
\<close>

subsection \<open>Objects that are started and stopped\<close>

text \<open>\<^verbatim>\<open>qt/capture\<close>, \<^verbatim>\<open>qt/encoding\<close> and \<^verbatim>\<open>qt/input\<close>.\<close>

record switchable = sw_running :: bool

definition switchable_new :: switchable where "switchable_new = \<lparr>sw_running = False\<rparr>"

definition qp_capture_start :: "nat \<Rightarrow> nat \<Rightarrow> switchable \<Rightarrow> switchable \<times> bool" where
  "qp_capture_start width height self = (self\<lparr>sw_running := True\<rparr>, True)"
definition qp_capture_stop :: "switchable \<Rightarrow> switchable" where "qp_capture_stop self = self\<lparr>sw_running := False\<rparr>"
definition qp_capture_is_running :: "switchable \<Rightarrow> bool" where "qp_capture_is_running self = sw_running self"
definition qp_capture_get_display_size :: "switchable \<Rightarrow> (nat \<times> nat) \<times> bool" where
  "qp_capture_get_display_size self = ((0, 0), False)"
definition qp_capture_get_queue :: "switchable \<Rightarrow> nat option" where "qp_capture_get_queue self = None"
definition qp_capture_wait_frame :: "int \<Rightarrow> switchable \<Rightarrow> nat option \<times> bool" where
  "qp_capture_wait_frame timeout_us self = (None, False)"

definition qp_x11_capture_start :: "string \<Rightarrow> nat \<Rightarrow> nat \<Rightarrow> switchable \<Rightarrow> switchable \<times> bool" where
  "qp_x11_capture_start display_name requested_width requested_height self = (self\<lparr>sw_running := True\<rparr>, True)"
definition qp_x11_capture_stop :: "switchable \<Rightarrow> switchable" where
  "qp_x11_capture_stop self = self\<lparr>sw_running := False\<rparr>"
definition qp_x11_capture_is_running :: "switchable \<Rightarrow> bool" where
  "qp_x11_capture_is_running self = sw_running self"
definition qp_x11_capture_get_display_size :: "string \<Rightarrow> switchable \<Rightarrow> (nat \<times> nat) \<times> bool" where
  "qp_x11_capture_get_display_size display_name self = ((0, 0), False)"

definition qp_encoding_start :: "switchable \<Rightarrow> switchable \<times> bool" where
  "qp_encoding_start self = (self\<lparr>sw_running := True\<rparr>, True)"
definition qp_encoding_stop :: "switchable \<Rightarrow> switchable" where "qp_encoding_stop self = self\<lparr>sw_running := False\<rparr>"
definition qp_encoding_is_running :: "switchable \<Rightarrow> bool" where "qp_encoding_is_running self = sw_running self"

definition qp_dispatcher_start :: "switchable \<Rightarrow> switchable \<times> bool" where
  "qp_dispatcher_start self = (self\<lparr>sw_running := True\<rparr>, True)"
definition qp_dispatcher_stop :: "switchable \<Rightarrow> switchable" where
  "qp_dispatcher_stop self = self\<lparr>sw_running := False\<rparr>"
definition qp_dispatcher_is_running :: "switchable \<Rightarrow> bool" where
  "qp_dispatcher_is_running self = sw_running self"

definition qp_x11_input_start :: "switchable \<Rightarrow> switchable \<times> bool" where
  "qp_x11_input_start self = (self\<lparr>sw_running := True\<rparr>, True)"
definition qp_x11_input_stop :: "switchable \<Rightarrow> switchable" where
  "qp_x11_input_stop self = self\<lparr>sw_running := False\<rparr>"
definition qp_x11_input_is_running :: "switchable \<Rightarrow> bool" where
  "qp_x11_input_is_running self = sw_running self"

subsection \<open>The runtime module\<close>

text \<open>\<^verbatim>\<open>qt/core/drd_runtime.cpp\<close>.\<close>

datatype qp_transport = Qp_surface_bits | Qp_graphics_pipeline

record runtime_options =
  ro_width :: nat
  ro_height :: nat
  ro_mode :: nat
  ro_enable_frame_diff :: bool
  ro_h264_bitrate :: nat
  ro_h264_framerate :: nat
  ro_h264_qp :: nat
  ro_h264_hw_accel :: bool
  ro_h264_vm_support :: bool
  ro_large_change_threshold :: gdouble
  ro_refresh_interval :: nat
  ro_refresh_timeout_ms :: nat

definition no_runtime_options :: runtime_options where
  "no_runtime_options = \<lparr>ro_width = 0, ro_height = 0, ro_mode = 0, ro_enable_frame_diff = False,
     ro_h264_bitrate = 0, ro_h264_framerate = 0, ro_h264_qp = 0, ro_h264_hw_accel = False,
     ro_h264_vm_support = False, ro_large_change_threshold = 0, ro_refresh_interval = 0,
     ro_refresh_timeout_ms = 0\<rparr>"

definition qp_application_run :: "string list \<Rightarrow> int" where "qp_application_run arguments = 0"
definition qp_config_merge_cli ::
    "string \<Rightarrow> int \<Rightarrow> string \<Rightarrow> string \<Rightarrow> string \<Rightarrow> string \<Rightarrow> bool \<Rightarrow> bool \<Rightarrow> string \<Rightarrow> int \<Rightarrow> int \<Rightarrow> string \<Rightarrow> int \<Rightarrow> int \<Rightarrow> int \<Rightarrow> bool" where
  "qp_config_merge_cli bind_address port cert_path key_path nla_username nla_password enable_nla disable_nla mode
     width height encoder diff fps stats = True"
definition qp_config_get_bind_address :: string where "qp_config_get_bind_address = []"
definition qp_config_get_port :: nat where "qp_config_get_port = 0"
definition qp_config_get_certificate_path :: string where "qp_config_get_certificate_path = []"
definition qp_config_get_private_key_path :: string where "qp_config_get_private_key_path = []"
definition qp_config_get_nla_username :: string where "qp_config_get_nla_username = []"
definition qp_config_get_nla_password :: string where "qp_config_get_nla_password = []"
definition qp_config_is_nla_enabled :: bool where "qp_config_is_nla_enabled = False"
definition qp_config_get_runtime_mode :: runtime_mode where "qp_config_get_runtime_mode = RUNTIME_MODE_USER"
definition qp_config_get_pam_service :: string where "qp_config_get_pam_service = []"
definition qp_config_get_capture_width :: nat where "qp_config_get_capture_width = 0"
definition qp_config_get_capture_height :: nat where "qp_config_get_capture_height = 0"
definition qp_config_get_capture_target_fps :: nat where "qp_config_get_capture_target_fps = 0"
definition qp_config_get_capture_stats_interval_sec :: nat where "qp_config_get_capture_stats_interval_sec = 0"
definition qp_config_get_encoding_options :: runtime_options where
  "qp_config_get_encoding_options = no_runtime_options"

definition qp_runtime_get_capture :: "nat option" where "qp_runtime_get_capture = None"
definition qp_runtime_get_encoder :: "nat option" where "qp_runtime_get_encoder = None"
definition qp_runtime_get_input :: "nat option" where "qp_runtime_get_input = None"
definition qp_runtime_prepare_stream :: "runtime_options \<Rightarrow> bool" where "qp_runtime_prepare_stream options = True"

text \<open>The frame calls answer whether a frame was sent, and whether it was H.264.\<close>

definition qp_runtime_pull_gfx :: "nat \<Rightarrow> int \<Rightarrow> nat \<Rightarrow> bool \<times> bool" where
  "qp_runtime_pull_gfx sid timeout_us frame_id = (False, False)"
definition qp_runtime_send_cached_gfx :: "nat \<Rightarrow> nat \<Rightarrow> bool \<times> bool" where
  "qp_runtime_send_cached_gfx sid frame_id = (False, False)"
definition qp_runtime_pull_surface_bit :: "nat \<Rightarrow> nat \<Rightarrow> int \<Rightarrow> bool" where
  "qp_runtime_pull_surface_bit frame_id max_payload timeout_us = False"
definition qp_runtime_get_transport :: qp_transport where "qp_runtime_get_transport = Qp_surface_bits"
definition qp_runtime_get_encoding_options :: "runtime_options \<times> bool" where
  "qp_runtime_get_encoding_options = (no_runtime_options, False)"
definition qp_runtime_is_stream_running :: bool where "qp_runtime_is_stream_running = False"
definition qp_runtime_get_tls_credentials :: "nat option" where "qp_runtime_get_tls_credentials = None"
definition qp_runtime_encoder_prepare :: "nat \<Rightarrow> bool" where "qp_runtime_encoder_prepare codec_bits = False"

definition qp_encoding_options_get_string :: "string \<Rightarrow> string" where "qp_encoding_options_get_string key = []"
definition qp_encoding_options_get_int :: "string \<Rightarrow> int" where "qp_encoding_options_get_int key = 0"
definition qp_encoding_options_get_bool :: "string \<Rightarrow> bool" where "qp_encoding_options_get_bool key = False"

subsection \<open>The security module\<close>

text \<open>\<^verbatim>\<open>qt/security/drd_security.cpp\<close>, \<^verbatim>\<open>drd_local_session.cpp\<close> and \<^verbatim>\<open>drd_nla_sam.cpp\<close>.\<close>

record qp_tls = qp_certificate_path :: string  qp_private_key_path :: string

definition qp_tls_new :: "string \<Rightarrow> string \<Rightarrow> qp_tls" where
  "qp_tls_new certificate_path private_key_path =
     \<lparr>qp_certificate_path = certificate_path, qp_private_key_path = private_key_path\<rparr>"
definition qp_tls_new_empty :: qp_tls where "qp_tls_new_empty = \<lparr>qp_certificate_path = [], qp_private_key_path = []\<rparr>"
definition qp_tls_get_certificate_path :: "qp_tls option \<Rightarrow> string" where
  "qp_tls_get_certificate_path credentials = (case credentials of None \<Rightarrow> [] | Some c \<Rightarrow> qp_certificate_path c)"
definition qp_tls_get_private_key_path :: "qp_tls option \<Rightarrow> string" where
  "qp_tls_get_private_key_path credentials = (case credentials of None \<Rightarrow> [] | Some c \<Rightarrow> qp_private_key_path c)"
definition qp_tls_apply :: "qp_tls option \<Rightarrow> rdp_settings \<Rightarrow> rdp_settings \<times> bool" where
  "qp_tls_apply credentials settings = (settings, True)"
definition qp_tls_get_certificate :: "nat option" where "qp_tls_get_certificate = None"
definition qp_tls_get_private_key :: "nat option" where "qp_tls_get_private_key = None"
definition qp_tls_read_material :: "qp_tls option \<Rightarrow> (string \<times> string) \<times> bool" where
  "qp_tls_read_material credentials = (([], []), False)"
definition qp_tls_reload_from_pem :: "string \<Rightarrow> string \<Rightarrow> qp_tls option \<Rightarrow> qp_tls option \<times> bool" where
  "qp_tls_reload_from_pem certificate_pem key_pem credentials = (credentials, False)"

record qp_local_session =
  qp_pam_service :: string
  qp_username :: string
  qp_domain :: string
  qp_password :: string
  qp_remote_host :: string

text \<open>No PAM transaction is opened: every login makes a session.\<close>

definition qp_local_session_new :: "string \<Rightarrow> string \<Rightarrow> string \<Rightarrow> string \<Rightarrow> string \<Rightarrow> qp_local_session" where
  "qp_local_session_new pam_service username domain password remote_host =
     \<lparr>qp_pam_service = pam_service, qp_username = username, qp_domain = domain, qp_password = password,
      qp_remote_host = remote_host\<rparr>"
definition qp_local_session_open ::
    "string \<Rightarrow> string \<Rightarrow> string \<Rightarrow> string \<Rightarrow> string \<Rightarrow> qp_local_session \<Rightarrow> qp_local_session \<times> bool" where
  "qp_local_session_open pam_service username domain password remote_host self =
     (self\<lparr>qp_pam_service := pam_service, qp_username := username, qp_domain := domain,
           qp_password := password, qp_remote_host := remote_host\<rparr>, True)"
definition qp_local_session_close :: "qp_local_session \<Rightarrow> qp_local_session" where
  "qp_local_session_close self = self"

record qp_sam_file = qp_sam_username :: string  qp_nt_hash_hex :: string  qp_path :: string

definition qp_sam_file_new :: "string \<Rightarrow> string \<Rightarrow> qp_sam_file" where
  "qp_sam_file_new username nt_hash_hex = \<lparr>qp_sam_username = username, qp_nt_hash_hex = nt_hash_hex, qp_path = []\<rparr>"
definition qp_sam_file_get_path :: "qp_sam_file option \<Rightarrow> string" where
  "qp_sam_file_get_path sam_file = (case sam_file of None \<Rightarrow> [] | Some f \<Rightarrow> qp_path f)"
definition qp_sam_hash_password :: "string \<Rightarrow> string" where "qp_sam_hash_password password = []"
definition qp_sam_generate :: "string \<Rightarrow> string \<Rightarrow> string \<Rightarrow> string \<times> bool" where
  "qp_sam_generate username nt_hash_hex path = ([], True)"

subsection \<open>What they promise and do not keep\<close>

text \<open>A login with any password opens a session, which the daemon's model refuses when PAM does; an
  account database is made without a file.\<close>

lemma any_password_opens: "snd (qp_local_session_open pam user domain password host self)"
  by (simp add: qp_local_session_open_def)

lemma sam_file_without_path: "qp_sam_file_get_path (Some (qp_sam_file_new user hash)) = []"
  by (simp add: qp_sam_file_get_path_def qp_sam_file_new_def)

lemma capture_runs_without_frames:
  "qp_capture_start w h self = (s, r) \<Longrightarrow> r \<and> qp_capture_is_running s \<and> qp_capture_wait_frame t s = (None, False)"
  by (auto simp: qp_capture_start_def qp_capture_is_running_def qp_capture_wait_frame_def)

end
