(* ===== verification/Qt_Routing_Token.thy ===== *)
theory Qt_Routing_Token
  imports Routing_Token
begin

text \<open>
  The routing-token probe of the Qt port (\<^verbatim>\<open>qt/transport/drd_transport.cpp\<close>). It peeks what the
  socket holds at that moment instead of waiting for the packet, and reads it with Qt's
  containers. A \<open>QByteArray::at\<close> outside the array is \<open>None\<close>. Bytes are \<open>char\<close>s, which are
  signed: a cast to a wider unsigned type extends the sign first.
\<close>

subsection \<open>Reading bytes\<close>

definition qt_at :: "u8 list \<Rightarrow> nat \<Rightarrow> u8 option" where
  "qt_at bs i = (if i < length bs then Some (bs ! i) else None)"

text \<open>\<open>static_cast<quint16>(char)\<close>, and the two ways the code puts 16 bits together: the value is
  computed as an \<open>int\<close> and truncated.\<close>

definition char_to_u16 :: "u8 \<Rightarrow> u16" where
  "char_to_u16 c = scast c"

definition u16_high_low :: "u8 \<Rightarrow> u8 \<Rightarrow> u16" where
  "u16_high_low h l = ucast (push_bit 8 (ucast (char_to_u16 h) :: u32) OR ucast l)"

definition u16_low_high :: "u8 \<Rightarrow> u8 \<Rightarrow> u16" where
  "u16_low_high l h = ucast ((ucast (char_to_u16 l) :: u32) OR push_bit 8 (ucast (char_to_u16 h)))"

definition u32_from_bytes :: "u8 \<Rightarrow> u8 \<Rightarrow> u8 \<Rightarrow> u8 \<Rightarrow> u32" where
  "u32_from_bytes a b c d =
     ucast a OR push_bit 8 (ucast b) OR push_bit 16 (ucast c) OR push_bit 24 (ucast d)"

subsection \<open>The cookie line\<close>

function qt_find_crlf :: "u8 list \<Rightarrow> nat \<Rightarrow> nat option" where
  "qt_find_crlf buffer i =
     (if i + 1 < length buffer
      then (if buffer ! i = 0x0D \<and> buffer ! (i + 1) = 0x0A then Some i
            else qt_find_crlf buffer (i + 1))
      else None)"
  by pat_completeness auto
termination by (relation "measure (\<lambda>(buffer, i). length buffer - i)") auto

declare qt_find_crlf.simps [simp del]

text \<open>The token and the end of its line; a null \<open>QString\<close> is the empty list, and \<open>fromLatin1\<close>
  keeps every byte.\<close>

definition qt_read_routing_token :: "u8 list \<Rightarrow> nat \<Rightarrow> u8 list \<times> nat option" where
  "qt_read_routing_token buffer start =
     (if int (length buffer) - int start < int (length cookie_prefix) then ([], None)
      else if take (length cookie_prefix) (drop start buffer) \<noteq> cookie_prefix then ([], None)
      else case qt_find_crlf buffer start of
        None \<Rightarrow> ([], None)
      | Some line_end \<Rightarrow>
          let token_start = start + length cookie_prefix
          in (take (line_end - token_start) (drop token_start buffer), Some line_end))"

subsection \<open>The probe\<close>

record qt_token_info =
  qt_requested_rdstls :: bool
  qt_routing_token :: "u8 list"

definition qt_token_info_new :: qt_token_info where
  "qt_token_info_new = \<lparr>qt_requested_rdstls = False, qt_routing_token = []\<rparr>"

definition kTpktVersion :: u8 where "kTpktVersion = 3"
definition kMinTpktLength :: int where "kMinTpktLength = 4 + 7"
definition kProtocolRdstls :: u32 where "kProtocolRdstls = 4"

text \<open>The part behind the header, on the packet that was peeked.\<close>

definition qt_parse_pdu ::
    "u16 \<Rightarrow> u8 list \<Rightarrow> qt_token_info \<Rightarrow> (qt_token_info \<times> bool) option" where
  "qt_parse_pdu tpkt_length pdu info = do {
     length_indicator \<leftarrow> qt_at pdu 4;
     cr_cdt \<leftarrow> qt_at pdu 5;
     d0 \<leftarrow> qt_at pdu 6;
     d1 \<leftarrow> qt_at pdu 7;
     class_opt \<leftarrow> qt_at pdu 10;
     if uint tpkt_length - 5 \<noteq> uint length_indicator \<or> cr_cdt \<noteq> 0xE0 \<or> u16_high_low d0 d1 \<noteq> 0 \<or>
        class_opt AND 0xFC \<noteq> 0
     then Some (info, False)
     else
       let info0 = info\<lparr>qt_routing_token := [], qt_requested_rdstls := False\<rparr>;
           (token, line_end) = qt_read_routing_token pdu 11
       in if token = [] then Some (info0, True)
       else let info1 = info0\<lparr>qt_routing_token := token\<rparr>;
                after_cookie = the line_end + 2
       in if after_cookie + 8 > length pdu then Some (info1, True)
       else do {
         neg_type \<leftarrow> qt_at pdu after_cookie;
         n0 \<leftarrow> qt_at pdu (after_cookie + 2);
         n1 \<leftarrow> qt_at pdu (after_cookie + 3);
         p0 \<leftarrow> qt_at pdu (after_cookie + 4);
         p1 \<leftarrow> qt_at pdu (after_cookie + 5);
         p2 \<leftarrow> qt_at pdu (after_cookie + 6);
         p3 \<leftarrow> qt_at pdu (after_cookie + 7);
         if neg_type \<noteq> 1 \<or> u16_low_high n0 n1 \<noteq> 8 then Some (info1, False)
         else Some (info1\<lparr>qt_requested_rdstls :=
                (u32_from_bytes p0 p1 p2 p3 AND kProtocolRdstls \<noteq> 0)\<rparr>, True) } }"

text \<open>\<open>avail1\<close> and \<open>avail2\<close> are the bytes the connection can deliver when it is peeked the first
  and the second time.\<close>

definition qt_routing_token_peek ::
    "bool \<Rightarrow> u8 list \<Rightarrow> u8 list \<Rightarrow> qt_token_info \<Rightarrow> (qt_token_info \<times> bool) option" where
  "qt_routing_token_peek is_open avail1 avail2 info =
     (if \<not> is_open then Some (info, False)
      else let header = take 4 avail1 in
      if length header < 4 then Some (info, False)
      else do {
        version \<leftarrow> qt_at header 0;
        h \<leftarrow> qt_at header 2;
        l \<leftarrow> qt_at header 3;
        let tpkt_length = u16_high_low h l;
        if version \<noteq> kTpktVersion then Some (info, False)
        else if uint tpkt_length < kMinTpktLength then Some (info, False)
        else let pdu = take (unat tpkt_length) avail2 in
        if int (length pdu) < uint tpkt_length then Some (info, False)
        else qt_parse_pdu tpkt_length pdu info })"

subsection \<open>The sign of a byte does not matter\<close>

lemma u16_high_low_eq: "u16_high_low h l = push_bit 8 (ucast h) OR ucast l"
proof (rule bit_word_eqI)
  fix n assume "n < LENGTH(16)"
  then show "bit (u16_high_low h l) n = bit (push_bit 8 (ucast h) OR ucast l :: u16) n"
    by (cases "n = 15") (auto simp: u16_high_low_def char_to_u16_def bit_simps min_def)
qed

lemma u16_high_low_unat: "unat (u16_high_low h l) = 256 * unat h + unat l"
proof -
  have d: "push_bit 8 (ucast h :: u16) AND ucast l = 0"
    by (rule bit_word_eqI) (auto simp: bit_simps dest: bit_imp_le_length)
  have "u16_high_low h l = push_bit 8 (ucast h) + ucast l"
    using d by (simp add: u16_high_low_eq disjunctive_add_eq_or)
  then have "u16_high_low h l = word_of_nat (256 * unat h + unat l)"
    by (simp add: push_bit_eq_mult unsigned_ucast_eq)
  moreover have "256 * unat h + unat l < 2 ^ 16"
    using unsigned_less [of h, where ?'a = nat] unsigned_less [of l, where ?'a = nat] by simp
  ultimately show ?thesis by (simp only: unat_of_nat) simp
qed

lemma u16_high_low_0: "u16_high_low h l = 0 \<longleftrightarrow> h = 0 \<and> l = 0"
  using u16_high_low_unat [of h l] by (metis add_is_0 mult_is_0 unat_eq_0 zero_neq_numeral)

lemma u16_low_high_8: "u16_low_high l h = 8 \<longleftrightarrow> l = 8 \<and> h = 0"
proof
  assume a: "u16_low_high l h = 8"
  have "ucast (u16_low_high l h) = l"
  proof (rule bit_word_eqI)
    fix n assume "n < LENGTH(8)"
    then show "bit (ucast (u16_low_high l h) :: u8) n = bit l n"
      by (cases "n = 7") (auto simp: u16_low_high_def char_to_u16_def bit_simps min_def)
  qed
  then have l: "l = 8" using a by simp
  have "ucast (drop_bit 8 (u16_low_high l h)) = h" if "\<not> bit l 7"
  proof (rule bit_word_eqI)
    fix n assume "n < LENGTH(8)"
    then show "bit (ucast (drop_bit 8 (u16_low_high l h)) :: u8) n = bit h n"
      using that by (cases "n = 7") (auto simp: u16_low_high_def char_to_u16_def bit_simps min_def)
  qed
  from this [unfolded l] have "ucast (drop_bit 8 (u16_low_high 8 h)) = h" by simp
  then show "l = 8 \<and> h = 0" using a l by simp
next
  assume "l = 8 \<and> h = 0"
  then show "u16_low_high l h = 8" by (simp add: u16_low_high_def char_to_u16_def)
qed

lemma rdstls_bit: "u32_from_bytes a b c d AND kProtocolRdstls \<noteq> 0 \<longleftrightarrow> bit a 2"
proof -
  have "u32_from_bytes a b c d AND kProtocolRdstls \<noteq> 0 \<longleftrightarrow> bit (u32_from_bytes a b c d) 2"
    using and_exp_eq_0_iff_not_bit [of "u32_from_bytes a b c d" 2] by (simp add: kProtocolRdstls_def)
  also have "\<dots> \<longleftrightarrow> bit a 2" by (simp add: u32_from_bytes_def bit_simps)
  finally show ?thesis .
qed

subsection \<open>The cookie line, as in the daemon\<close>

lemma find_cr_lf_from_shift: "find_cr_lf_from (i + j) bs = map_option (\<lambda>k. k + j) (find_cr_lf_from i bs)"
proof (induction i bs rule: find_cr_lf_from.induct)
  case (1 i a b bs)
  then show ?case by simp
qed simp_all

lemma qt_find_crlf_eq: "qt_find_crlf bs i = find_cr_lf_from i (drop i bs)"
proof (induction bs i rule: qt_find_crlf.induct)
  case (1 bs i)
  show ?case
  proof (cases "i + 1 < length bs")
    case True
    then have "drop i bs = bs ! i # bs ! (i + 1) # drop (i + 2) bs"
      by (metis Cons_nth_drop_Suc Suc_eq_plus1 add_2_eq_Suc' add_lessD1)
    moreover have "drop (i + 1) bs = bs ! (i + 1) # drop (i + 2) bs"
      using True by (metis Cons_nth_drop_Suc Suc_eq_plus1 add_2_eq_Suc')
    ultimately show ?thesis using 1 [OF True] using True
      by (subst qt_find_crlf.simps) simp
  next
    case False
    then have "length (drop i bs) \<le> 1" by simp
    then have "find_cr_lf_from i (drop i bs) = None"
      by (cases "drop i bs") (auto simp: length_Suc_conv le_Suc_eq)
    then show ?thesis using False by (subst qt_find_crlf.simps) simp
  qed
qed

lemma find_crlf_offset: "qt_find_crlf pkt 11 = map_option (\<lambda>k. k + 11) (find_cr_lf (drop 11 pkt))"
  using find_cr_lf_from_shift [of 0 11] by (simp add: qt_find_crlf_eq find_cr_lf_def)

lemma cookie_prefix_match:
  assumes "13 \<le> length bs" shows "strndup bs 13 = cookie_prefix \<longleftrightarrow> take 13 bs = cookie_prefix"
proof
  assume "take 13 bs = cookie_prefix"
  moreover have "takeWhile (\<lambda>b. b \<noteq> 0) cookie_prefix = cookie_prefix" by (simp add: cookie_prefix_def)
  ultimately show "strndup bs 13 = cookie_prefix" by (simp add: strndup_def)
qed (rule strndup_eq_prefix, simp_all)

lemma read_token_agrees:
  assumes "11 \<le> length pkt"
  shows "(case get_routing_token_without_prefix (drop 11 pkt) of
      None \<Rightarrow> False
    | Some None \<Rightarrow> qt_read_routing_token pkt 11 = ([], None)
    | Some (Some (token, n)) \<Rightarrow> \<exists>t. qt_read_routing_token pkt 11 = (t, Some (n + 11)) \<and>
        token = takeWhile (\<lambda>b. b \<noteq> 0) t \<and> n + 1 < length (drop 11 pkt))"
proof -
  let ?p = "drop 11 pkt"
  obtain r where r: "get_routing_token_without_prefix ?p = Some r"
    and b: "\<forall>token n. r = Some (token, n) \<longrightarrow> n + 1 < length ?p"
    using token_search_safe by blast
  show ?thesis
  proof (cases "length ?p < 13 \<or> take 13 ?p \<noteq> cookie_prefix")
    case True
    then have n: "get_routing_token_without_prefix ?p = Some None"
      using cookie_prefix_match [of ?p] by (auto simp: get_routing_token_without_prefix_def not_less)
    have "qt_read_routing_token pkt 11 = ([], None)"
      using True assms by (auto simp: qt_read_routing_token_def)
    then show ?thesis unfolding n by simp
  next
    case False
    note c = cookie_prefix_match [of ?p]
    show ?thesis
    proof (cases "find_cr_lf ?p")
      case None
      then show ?thesis using False c assms
        by (auto simp: get_routing_token_without_prefix_def qt_read_routing_token_def find_crlf_offset)
    next
      case (Some n)
      then have n: "\<not> n < 13"
        using r False c by (auto simp: get_routing_token_without_prefix_def)
      then have g: "get_routing_token_without_prefix ?p = Some (Some (strndup (drop 13 ?p) (n - 13), n))"
        using Some False c by (auto simp: get_routing_token_without_prefix_def)
      have q: "qt_read_routing_token pkt 11 = (take (n - 13) (drop 13 ?p), Some (n + 11))"
        using False Some n assms by (auto simp: qt_read_routing_token_def find_crlf_offset Let_def)
      have "r = Some (strndup (drop 13 ?p) (n - 13), n)" using r g by simp
      then have "n + 1 < length ?p" using b by blast
      then show ?thesis unfolding g using q by (simp add: strndup_def)
    qed
  qed
qed

subsection \<open>The packet, as in the daemon\<close>

definition same_info :: "routing_token_info \<Rightarrow> qt_token_info \<Rightarrow> bool" where
  "same_info c q \<longleftrightarrow> requested_rdstls c = qt_requested_rdstls q \<and>
     routing_token c = (if qt_routing_token q = [] then None else Some (qt_routing_token q))"

text \<open>The cookie is one both read the same way: there is none, or its token is a C string and
  not empty.\<close>

definition plain_cookie :: "u8 list \<Rightarrow> bool" where
  "plain_cookie pkt = (case qt_read_routing_token pkt 11 of (token, line_end) \<Rightarrow>
     line_end = None \<or> token \<noteq> [] \<and> 0 \<notin> set token)"

lemma qt_at_in: "i < length bs \<Longrightarrow> qt_at bs i = Some (bs ! i)"
  by (simp add: qt_at_def)

text \<open>The checks on the fixed part of the packet, in the numbers of the daemon and in Qt's.\<close>

lemma unat_u8_iff: assumes "k < 256" shows "unat (x :: u8) = k \<longleftrightarrow> x = word_of_nat k"
proof
  assume "unat x = k"
  then show "x = word_of_nat k" by (metis of_nat_unat ucast_id)
next
  assume "x = word_of_nat k"
  then show "unat x = k" using assms by (simp only: unat_of_nat) simp
qed

lemma unat_u8_values:
  "unat (x :: u8) = 0xE0 \<longleftrightarrow> x = 0xE0" "unat (x :: u8) = 8 \<longleftrightarrow> x = 8" "unat (x :: u8) = 1 \<longleftrightarrow> x = 1"
  "unat (x :: u8) = 0 \<longleftrightarrow> x = 0"
  using unat_u8_iff [of "0xE0" x] unat_u8_iff [of "8" x] unat_u8_iff [of "1" x] unat_u8_iff [of "0" x]
  by simp_all

lemma x224_checks_agree:
  assumes "11 \<le> unat n"
  shows "(unat n - 5 \<noteq> unat li \<or> unat (cr :: u8) \<noteq> 0xE0 \<or> unat d0 + 256 * unat d1 \<noteq> 0 \<or>
      unat (cl :: u8) AND 0xFC \<noteq> 0) \<longleftrightarrow>
    (uint (n :: u16) - 5 \<noteq> uint (li :: u8) \<or> cr \<noteq> 0xE0 \<or> u16_high_low d0 d1 \<noteq> 0 \<or> cl AND 0xFC \<noteq> 0)"
proof -
  have "unat n - 5 = unat li \<longleftrightarrow> uint n - 5 = uint li"
  proof -
    have "uint n = int (unat n)" "uint li = int (unat li)" by simp_all
    then show ?thesis using assms by linarith
  qed
  moreover have "unat cr = 0xE0 \<longleftrightarrow> cr = 0xE0" by (rule unat_u8_values)
  moreover have "unat d0 + 256 * unat d1 = 0 \<longleftrightarrow> u16_high_low d0 d1 = 0"
    unfolding u16_high_low_0 unat_u8_values [symmetric] by simp
  moreover have "unat cl AND 0xFC = 0 \<longleftrightarrow> cl AND 0xFC = 0"
  proof -
    have "unat cl AND 0xFC = unat (cl AND 0xFC)" by (simp add: unsigned_and_eq)
    then show ?thesis unfolding unat_u8_values [symmetric] by simp
  qed
  ultimately show ?thesis by (simp only:)
qed

lemma eq_8_split: "a + 256 * b = (8 :: nat) \<longleftrightarrow> a = 8 \<and> b = 0"
  by (cases b) auto

lemma neg_request_agrees:
  assumes "pos + 8 \<le> length pkt"
  shows "get_u8 pkt pos = Some (unat (pkt ! pos))"
    "get_u16 pkt (pos + 2) = Some (unat (pkt ! (pos + 2)) + 256 * unat (pkt ! (pos + 3)))"
    "get_u32 pkt (pos + 4) = Some (unat (pkt ! (pos + 4)) + 256 * (unat (pkt ! (pos + 5)) +
       256 * (unat (pkt ! (pos + 6)) + 256 * unat (pkt ! (pos + 7)))))"
    "(unat (pkt ! pos) \<noteq> 1 \<or> unat (pkt ! (pos + 2)) + 256 * unat (pkt ! (pos + 3)) \<noteq> 8) \<longleftrightarrow>
     (pkt ! pos \<noteq> 1 \<or> u16_low_high (pkt ! (pos + 2)) (pkt ! (pos + 3)) \<noteq> 8)"
proof -
  have ix: "pos + 2 + 1 = pos + 3" "pos + 4 + 1 = pos + 5" "pos + 4 + 2 = pos + 6" "pos + 4 + 2 + 1 = pos + 7"
    "pos + 6 + 1 = pos + 7"
    by simp_all
  show "get_u8 pkt pos = Some (unat (pkt ! pos))"
    "get_u16 pkt (pos + 2) = Some (unat (pkt ! (pos + 2)) + 256 * unat (pkt ! (pos + 3)))"
    "get_u32 pkt (pos + 4) = Some (unat (pkt ! (pos + 4)) + 256 * (unat (pkt ! (pos + 5)) +
       256 * (unat (pkt ! (pos + 6)) + 256 * unat (pkt ! (pos + 7)))))"
    using assms get_u8_in [of pos pkt] get_u16_in [of "pos + 2" pkt] get_u32_in [of "pos + 4" pkt]
    unfolding ix by simp_all
  have "unat (pkt ! (pos + 2)) + 256 * unat (pkt ! (pos + 3)) = 8 \<longleftrightarrow>
      unat (pkt ! (pos + 2)) = 8 \<and> unat (pkt ! (pos + 3)) = 0"
    by (rule eq_8_split)
  also have "\<dots> \<longleftrightarrow> pkt ! (pos + 2) = 8 \<and> pkt ! (pos + 3) = 0"
    by (simp only: unat_u8_values)
  finally show "(unat (pkt ! pos) \<noteq> 1 \<or> unat (pkt ! (pos + 2)) + 256 * unat (pkt ! (pos + 3)) \<noteq> 8) \<longleftrightarrow>
     (pkt ! pos \<noteq> 1 \<or> u16_low_high (pkt ! (pos + 2)) (pkt ! (pos + 3)) \<noteq> 8)"
    unfolding u16_low_high_8 unat_u8_values(3) by simp
qed

lemma parse_agrees:
  assumes len: "length pkt = unat n" and n: "11 \<le> unat n" and plain: "plain_cookie pkt"
  shows "\<exists>c r q. parse_x224 (unat n) pkt drd_routing_token_info_new = Some (c, r) \<and>
    qt_parse_pdu n pkt qt_token_info_new = Some (q, is_ok r) \<and> same_info c q"
proof -
  define bad where "bad = (uint n - 5 \<noteq> uint (pkt ! 4) \<or> pkt ! 5 \<noteq> 0xE0 \<or>
    u16_high_low (pkt ! 6) (pkt ! 7) \<noteq> 0 \<or> pkt ! 10 AND 0xFC \<noteq> 0)"
  have hd: "get_u8 pkt 4 = Some (unat (pkt ! 4))" "get_u8 pkt 5 = Some (unat (pkt ! 5))"
    "get_u16 pkt 6 = Some (unat (pkt ! 6) + 256 * unat (pkt ! 7))" "get_u8 pkt 10 = Some (unat (pkt ! 10))"
    "qt_at pkt 4 = Some (pkt ! 4)" "qt_at pkt 5 = Some (pkt ! 5)" "qt_at pkt 6 = Some (pkt ! 6)"
    "qt_at pkt 7 = Some (pkt ! 7)" "qt_at pkt 10 = Some (pkt ! 10)"
    using len n by (simp_all add: get_u8_in get_u16_in qt_at_in)
  note defs = parse_x224_def [of "unat n" pkt drd_routing_token_info_new, unfolded hd bind.bind_lunit
      x224_checks_agree [OF n], folded bad_def]
    qt_parse_pdu_def [of n pkt qt_token_info_new, unfolded hd bind.bind_lunit, folded bad_def]
  note info = same_info_def drd_routing_token_info_new_def qt_token_info_new_def
  have "11 \<le> length pkt" using len n by simp
  note rt = read_token_agrees [OF this]
  show ?thesis
  proof (cases bad)
    case True
    then show ?thesis unfolding defs by (simp add: info)
  next
    case False
    obtain r where r: "get_routing_token_without_prefix (drop 11 pkt) = Some r"
      using rt by (auto split: option.splits)
    show ?thesis
    proof (cases r)
      case None
      then show ?thesis unfolding defs using False r rt by (simp add: info)
    next
      case (Some tk)
      obtain token k where tk: "tk = (token, k)" by (cases tk)
      obtain t where t: "qt_read_routing_token pkt 11 = (t, Some (k + 11))"
        "token = takeWhile (\<lambda>b. b \<noteq> 0) t" "k + 1 < length (drop 11 pkt)"
        using rt r Some tk by auto
      have t0: "t \<noteq> []" "0 \<notin> set t" using plain t(1) by (auto simp: plain_cookie_def)
      have "takeWhile (\<lambda>b. b \<noteq> 0) t = t" using t0(2) by (auto simp: takeWhile_eq_all_conv)
      then have token: "token = t" using t(2) by simp
      define pos where "pos = 11 + k + 2"
      have pos: "pos \<le> length pkt" "k + 11 + 2 = pos" using t(3) by (simp_all add: pos_def)
      show ?thesis
      proof (cases "length pkt - pos < 8")
        case True
        then have "pos + 8 > length pkt" using pos by simp
        then show ?thesis unfolding defs using False r Some tk t(1) t0 token True pos
          by (simp add: info Let_def pos_def [symmetric])
      next
        case big: False
        then have e: "pos + 8 \<le> length pkt" using pos by simp
        note na = neg_request_agrees [OF e]
        have at: "qt_at pkt pos = Some (pkt ! pos)" "qt_at pkt (pos + 2) = Some (pkt ! (pos + 2))"
          "qt_at pkt (pos + 3) = Some (pkt ! (pos + 3))" "qt_at pkt (pos + 4) = Some (pkt ! (pos + 4))"
          "qt_at pkt (pos + 5) = Some (pkt ! (pos + 5))" "qt_at pkt (pos + 6) = Some (pkt ! (pos + 6))"
          "qt_at pkt (pos + 7) = Some (pkt ! (pos + 7))"
          using e by (simp_all add: qt_at_in)
        have bits: "(unat (pkt ! (pos + 4)) + 256 * x) AND PROTOCOL_RDSTLS \<noteq> 0 \<longleftrightarrow> bit (pkt ! (pos + 4)) 2" for x
          using bit2_low [of "unat (pkt ! (pos + 4))" x]
          by (simp add: PROTOCOL_RDSTLS_def bit_unsigned_iff possible_bit_def)
        have np: "\<not> length pkt < pos" "\<not> length pkt < pos + 8" using e by simp_all
        define x where "x = unat (pkt ! (pos + 5)) +
          256 * (unat (pkt ! (pos + 6)) + 256 * unat (pkt ! (pos + 7)))"
        define y where "y = unat (pkt ! (pos + 2)) + 256 * unat (pkt ! (pos + 3))"
        note nb = na(1) na(2) [folded y_def] na(3) [folded x_def] na(4) [folded y_def]
        define neg where "neg = (pkt ! pos \<noteq> 1 \<or> u16_low_high (pkt ! (pos + 2)) (pkt ! (pos + 3)) \<noteq> 8)"
        let ?c = "drd_routing_token_info_new\<lparr>routing_token := Some t\<rparr>"
        let ?q = "qt_token_info_new\<lparr>qt_routing_token := t\<rparr>"
        have q0: "qt_token_info_new\<lparr>qt_routing_token := [], qt_requested_rdstls := False,
            qt_routing_token := t\<rparr> = ?q" by (simp add: qt_token_info_new_def)
        have "parse_x224 (unat n) pkt drd_routing_token_info_new = Some (if neg then (?c, fail_io IoFailed)
            else (?c\<lparr>requested_rdstls := bit (pkt ! (pos + 4)) 2\<rparr>, ok))"
          unfolding defs(1) using False r Some tk token big np(1)
          by (simp only: Let_def pos_def [symmetric] nb neg_def [symmetric] bits if_False bind.bind_lunit
              option.case prod.case) (cases neg; simp)
        moreover have "qt_parse_pdu n pkt qt_token_info_new = Some (if neg then (?q, False)
            else (?q\<lparr>qt_requested_rdstls := bit (pkt ! (pos + 4)) 2\<rparr>, True))"
          unfolding defs(2) t(1) Let_def prod.case option.sel pos(2) q0 at bind.bind_lunit
            neg_def [symmetric] rdstls_bit
          using False t0(1) np(2) by simp
        ultimately show ?thesis using t0(1) by (cases neg) (simp_all add: info)
      qed
    qed
  qed
qed

text \<open>The header: the same length, or refused by both.\<close>

lemma uint_unat_less: "int k < uint (n :: u16) \<longleftrightarrow> k < unat n" "uint n < kMinTpktLength \<longleftrightarrow> unat n < 11"
proof -
  have u: "uint n = int (unat n)" by simp
  show "int k < uint n \<longleftrightarrow> k < unat n" unfolding u by (rule of_nat_less_iff)
  have k: "kMinTpktLength = int 11" by (simp add: kMinTpktLength_def)
  show "uint n < kMinTpktLength \<longleftrightarrow> unat n < 11" unfolding u k by (rule of_nat_less_iff)
qed

lemma header_agrees:
  assumes "length hdr = 4"
  shows "parse_tpkt hdr = Some (if hdr ! 0 \<noteq> kTpktVersion \<or>
      uint (u16_high_low (hdr ! 2) (hdr ! 3)) < kMinTpktLength then fail_io IoFailed
    else Inr (unat (u16_high_low (hdr ! 2) (hdr ! 3))))"
proof -
  have "unat (hdr ! 0) = 3 \<longleftrightarrow> hdr ! 0 = kTpktVersion"
    using unat_u8_iff [of "3" "hdr ! 0"] by (simp add: kTpktVersion_def)
  then show ?thesis
    using assms by (simp add: parse_tpkt_def get_u8_in get_u16_be_in u16_high_low_unat uint_unat_less)
qed

lemma qt_parse_safe:
  assumes "length pkt = unat n" "11 \<le> unat n" shows "qt_parse_pdu n pkt info \<noteq> None"
proof -
  have "11 \<le> length pkt" using assms by simp
  note rt = read_token_agrees [OF this]
  obtain t e where te: "qt_read_routing_token pkt 11 = (t, e)" by (metis surj_pair)
  have hd: "qt_at pkt 4 = Some (pkt ! 4)" "qt_at pkt 5 = Some (pkt ! 5)" "qt_at pkt 6 = Some (pkt ! 6)"
    "qt_at pkt 7 = Some (pkt ! 7)" "qt_at pkt 10 = Some (pkt ! 10)"
    using assms by (simp_all add: qt_at_in)
  show ?thesis
  proof (cases "length pkt < the e + 2 + 8")
    case True
    then show ?thesis by (auto simp: qt_parse_pdu_def hd te Let_def)
  next
    case False
    define pos where "pos = the e + 2"
    have at: "qt_at pkt pos = Some (pkt ! pos)" "qt_at pkt (pos + 2) = Some (pkt ! (pos + 2))"
      "qt_at pkt (pos + 3) = Some (pkt ! (pos + 3))" "qt_at pkt (pos + 4) = Some (pkt ! (pos + 4))"
      "qt_at pkt (pos + 5) = Some (pkt ! (pos + 5))" "qt_at pkt (pos + 6) = Some (pkt ! (pos + 6))"
      "qt_at pkt (pos + 7) = Some (pkt ! (pos + 7))"
      using False by (simp_all add: qt_at_in pos_def)
    show ?thesis
      unfolding qt_parse_pdu_def hd te Let_def prod.case pos_def [symmetric] at bind.bind_lunit by auto
  qed
qed

lemma qt_peek_safe: "qt_routing_token_peek is_open a1 a2 info \<noteq> None"
proof (cases "length (take 4 a1) < 4")
  case False
  define hdr where "hdr = take 4 a1"
  define n where "n = u16_high_low (hdr ! 2) (hdr ! 3)"
  have at: "qt_at hdr 0 = Some (hdr ! 0)" "qt_at hdr 2 = Some (hdr ! 2)" "qt_at hdr 3 = Some (hdr ! 3)"
    using False by (simp_all add: hdr_def qt_at_in)
  have "qt_parse_pdu n (take (unat n) a2) info \<noteq> None"
    if "\<not> uint n < kMinTpktLength" "\<not> int (length (take (unat n) a2)) < uint n"
  proof (rule qt_parse_safe)
    show "length (take (unat n) a2) = unat n" using that(2) unfolding uint_unat_less by simp
    show "11 \<le> unat n" using that(1) unfolding uint_unat_less by simp
  qed
  then show ?thesis
    using False unfolding qt_routing_token_peek_def hdr_def [symmetric] Let_def at bind.bind_lunit
      n_def [symmetric] by (simp only: if_False split: if_splits) auto
qed (auto simp: qt_routing_token_peek_def)

subsection \<open>What the two probes answer differently\<close>

text \<open>A packet that has not arrived completely: the daemon waits for the rest, the Qt port gives up.\<close>

lemma partial_packet_differs:
  assumes "length a1 < 4"
  shows "drd_routing_token_peek [Peeked a1] drd_routing_token_info_new = Some None \<and>
    qt_routing_token_peek True a1 a2 qt_token_info_new = Some (qt_token_info_new, False)"
  using assms by (simp add: drd_routing_token_peek_def qt_routing_token_peek_def)

text \<open>A cookie with an empty token: the daemon goes on to the negotiation request behind it and
  sees that RDSTLS is asked for, the Qt port stops there.\<close>

lemma empty_cookie_differs:
  assumes "p = x224_request [] 4 [0, 0, 0]"
  shows "drd_routing_token_peek [Peeked p, Peeked p] drd_routing_token_info_new =
      Some (Some (\<lparr>requested_rdstls = True, routing_token = Some []\<rparr>, ok)) \<and>
    qt_routing_token_peek True p p qt_token_info_new = Some (qt_token_info_new, True)"
proof
  show "drd_routing_token_peek [Peeked p, Peeked p] drd_routing_token_info_new =
      Some (Some (\<lparr>requested_rdstls = True, routing_token = Some []\<rparr>, ok))"
    unfolding assms using parse_request [of "[]" "[0, 0, 0]" 4 drd_routing_token_info_new]
      parse_request_header [of "[]" 4 "[0, 0, 0]"]
    by (simp add: drd_routing_token_peek_def drd_routing_token_info_new_def x224_request_def Let_def)
  show "qt_routing_token_peek True p p qt_token_info_new = Some (qt_token_info_new, True)"
    unfolding assms
    by (simp add: qt_routing_token_peek_def qt_parse_pdu_def qt_at_def x224_request_def cookie_prefix_def
        u16_high_low_def char_to_u16_def kTpktVersion_def kMinTpktLength_def qt_read_routing_token_def
        qt_find_crlf.simps qt_token_info_new_def Let_def)
qed

subsection \<open>Properties\<close>

text \<open>
  C20: the probe of the Qt port agrees with the probe of the daemon: on a packet that has arrived
  completely, and whose cookie, if it has one, holds a non-empty C string, both accept or both
  refuse, and they report the same token and the same request for RDSTLS; the Qt port never reads
  outside what it peeked, whatever arrives.
\<close>

theorem qt_probe_agrees:
  assumes "4 \<le> length a1"
    and "\<And>n. parse_tpkt (take 4 a1) = Some (Inr n) \<Longrightarrow> n \<le> length a2 \<and> plain_cookie (take n a2)"
  shows "(\<exists>c r q. drd_routing_token_peek [Peeked a1, Peeked a2] drd_routing_token_info_new = Some (Some (c, r)) \<and>
      qt_routing_token_peek True a1 a2 qt_token_info_new = Some (q, is_ok r) \<and> same_info c q) \<and>
    qt_routing_token_peek is_open b1 b2 info \<noteq> None"
proof -
  define hdr where "hdr = take 4 a1"
  define n where "n = u16_high_low (hdr ! 2) (hdr ! 3)"
  define bad where "bad = (hdr ! 0 \<noteq> kTpktVersion \<or> uint n < kMinTpktLength)"
  have len: "length hdr = 4" using assms(1) by (simp add: hdr_def)
  note h = header_agrees [OF len, folded n_def, folded bad_def]
  have at: "qt_at hdr 0 = Some (hdr ! 0)" "qt_at hdr 2 = Some (hdr ! 2)" "qt_at hdr 3 = Some (hdr ! 3)"
    using len by (simp_all add: qt_at_in)
  have c0: "drd_routing_token_peek [Peeked a1, Peeked a2] drd_routing_token_info_new =
    (if bad then Some (Some (drd_routing_token_info_new, fail_io IoFailed))
     else case peek_bytes (unat n) [Peeked a2] of None \<Rightarrow> Some None
       | Some (evs2, Inl e) \<Rightarrow> Some (Some (drd_routing_token_info_new, Inl e))
       | Some (evs2, Inr pkt) \<Rightarrow> map_option Some (parse_x224 (unat n) pkt drd_routing_token_info_new))"
    using len h by (simp add: drd_routing_token_peek_def hdr_def [symmetric])
  have "\<not> length hdr < 4" using len by simp
  then have q0: "qt_routing_token_peek True a1 a2 qt_token_info_new =
    (if bad then Some (qt_token_info_new, False)
     else if int (length (take (unat n) a2)) < uint n then Some (qt_token_info_new, False)
     else qt_parse_pdu n (take (unat n) a2) qt_token_info_new)"
    unfolding qt_routing_token_peek_def hdr_def [symmetric] Let_def at bind.bind_lunit n_def [symmetric]
    by (simp add: bad_def)
  have "\<exists>c r q. drd_routing_token_peek [Peeked a1, Peeked a2] drd_routing_token_info_new = Some (Some (c, r)) \<and>
      qt_routing_token_peek True a1 a2 qt_token_info_new = Some (q, is_ok r) \<and> same_info c q"
  proof (cases bad)
    case True
    then show ?thesis unfolding c0 q0
      by (simp add: same_info_def drd_routing_token_info_new_def qt_token_info_new_def)
  next
    case False
    have a: "unat n \<le> length a2" "plain_cookie (take (unat n) a2)"
      using assms(2) [of "unat n"] h False by (simp_all add: hdr_def)
    have n11: "11 \<le> unat n" using False unfolding bad_def uint_unat_less by simp
    have l: "length (take (unat n) a2) = unat n" using a(1) by simp
    obtain c r q where pa: "parse_x224 (unat n) (take (unat n) a2) drd_routing_token_info_new = Some (c, r)"
      "qt_parse_pdu n (take (unat n) a2) qt_token_info_new = Some (q, is_ok r)" "same_info c q"
      using parse_agrees [OF l n11 a(2)] by blast
    have "drd_routing_token_peek [Peeked a1, Peeked a2] drd_routing_token_info_new = Some (Some (c, r))"
      unfolding c0 using False l pa(1) by simp
    moreover have "qt_routing_token_peek True a1 a2 qt_token_info_new = Some (q, is_ok r)"
      unfolding q0 l uint_unat_less using False pa(2) by simp
    ultimately show ?thesis using pa(3) by blast
  qed
  then show ?thesis using qt_peek_safe by blast
qed

theorem qt_probe_agrees_witness:
  "qt_routing_token_peek True (x224_request [0x34, 0x32] 0x0F [0, 0, 0]) (x224_request [0x34, 0x32] 0x0F [0, 0, 0])
     qt_token_info_new = Some (\<lparr>qt_requested_rdstls = True, qt_routing_token = [0x34, 0x32]\<rparr>, True)"
proof -
  let ?p = "x224_request [0x34, 0x32] 0x0F [0, 0, 0]"
  have p: "?p = [3, 0, 0, 36, 31, 0xE0, 0, 0, 0, 0, 0] @ cookie_prefix @ [0x34, 0x32, 0x0D, 0x0A, 1, 0, 8, 0, 0x0F, 0, 0, 0]"
    by (simp add: x224_request_def Let_def)
  have l: "4 \<le> length ?p" by (simp add: p)
  have t: "parse_tpkt (take 4 ?p) = Some (Inr 36)"
    using parse_request_header [of "[0x34, 0x32]" "0x0F" "[0, 0, 0]"] by simp
  have "36 \<le> length ?p \<and> plain_cookie (take 36 ?p)"
    by (simp add: p plain_cookie_def qt_read_routing_token_def cookie_prefix_def qt_find_crlf.simps)
  with t have a: "n \<le> length ?p \<and> plain_cookie (take n ?p)" if "parse_tpkt (take 4 ?p) = Some (Inr n)" for n
    using that by simp
  have c: "drd_routing_token_peek [Peeked ?p, Peeked ?p] drd_routing_token_info_new =
      Some (Some (\<lparr>requested_rdstls = True, routing_token = Some [0x34, 0x32]\<rparr>, ok))"
    using parse_request [of "[0x34, 0x32]" "[0, 0, 0]" "0x0F" drd_routing_token_info_new] t
    by (simp add: p drd_routing_token_peek_def drd_routing_token_info_new_def)
  obtain q where "qt_routing_token_peek True ?p ?p qt_token_info_new = Some (q, True)"
    "same_info \<lparr>requested_rdstls = True, routing_token = Some [0x34, 0x32]\<rparr> q"
    using qt_probe_agrees [OF l a, where is_open = True and ?b1.0 = "[]" and ?b2.0 = "[]" and info = qt_token_info_new]
      c by auto
  then show ?thesis by (cases q) (auto simp: same_info_def split: if_splits)
qed

end
