(* ===== verification/Rdp_Direct_Input.thy ===== *)
theory Rdp_Direct_Input
  imports Rdp_Accept
begin

text \<open>
  The input handlers of \<^verbatim>\<open>src/transport/drd_rdp_listener.c\<close> that talk to the X server directly. The
  listener does not install them; one of them is the only code that knows the extra mouse buttons.
\<close>

definition KBDEXT :: u32 where "KBDEXT = 0x0100"

text \<open>The flags of an extended pointer event.\<close>

definition PTR_XFLAGS_DOWN :: u16 where "PTR_XFLAGS_DOWN = 0x8000"
definition PTR_XFLAGS_BUTTON1 :: u16 where "PTR_XFLAGS_BUTTON1 = 0x0001"
definition PTR_XFLAGS_BUTTON2 :: u16 where "PTR_XFLAGS_BUTTON2 = 0x0002"

text \<open>WinPR's tables of key codes (those of X are bytes), and whether a display can be opened.\<close>

record direct_answers =
  da_display :: bool
  da_virtual_key :: "u32 \<Rightarrow> u32"
  da_keycode :: "u32 \<Rightarrow> u8"

definition drd_rdp_peer_keyboard_event_x11 :: "direct_answers \<Rightarrow> u16 \<Rightarrow> u8 \<Rightarrow> xtest_event list \<times> bool" where
  "drd_rdp_peer_keyboard_event_x11 da flags code =
     (if \<not> da_display da then ([], True)
      else let extended = (flags AND KBD_FLAGS_EXTENDED \<noteq> 0);
               scancode = (if extended then ucast code OR KBDEXT else ucast code);
               vk = da_virtual_key da scancode;
               vkcode = (if extended then vk OR KBDEXT else vk);
               keycode = da_keycode da vkcode
      in (if keycode \<noteq> 0
          then [Fake_key (ucast keycode) (\<not> (flags AND KBD_FLAGS_RELEASE \<noteq> 0)), X_flush] else [], True))"

definition drd_rdp_peer_unicode_event_x11 :: "u16 \<Rightarrow> u16 \<Rightarrow> xtest_event list \<times> bool" where
  "drd_rdp_peer_unicode_event_x11 flags code = ([], True)"

definition drd_rdp_peer_pointer_event_x11 ::
    "direct_answers \<Rightarrow> u16 \<Rightarrow> u16 \<Rightarrow> u16 \<Rightarrow> xtest_event list \<times> bool" where
  "drd_rdp_peer_pointer_event_x11 da flags x y =
     (if \<not> da_display da then ([], True)
      else let negative = (flags AND PTR_FLAGS_WHEEL_NEGATIVE \<noteq> 0);
               click = (\<lambda>b. [Fake_button b True, Fake_button b False]);
               button = (if flags AND PTR_FLAGS_BUTTON1 \<noteq> 0 then 1
                         else if flags AND PTR_FLAGS_BUTTON2 \<noteq> 0 then 3
                         else if flags AND PTR_FLAGS_BUTTON3 \<noteq> 0 then 2 else 0)
      in ((if flags AND PTR_FLAGS_WHEEL \<noteq> 0 then click (if negative then 5 else 4)
           else if flags AND PTR_FLAGS_HWHEEL \<noteq> 0 then click (if negative then 7 else 6)
           else (if flags AND PTR_FLAGS_MOVE \<noteq> 0 then [Fake_motion 0 x y] else []) @
                (if button \<noteq> 0 then [Fake_button button (flags AND PTR_FLAGS_DOWN \<noteq> 0)] else [])) @
          [X_flush], True))"

definition drd_rdp_peer_extended_pointer_event ::
    "direct_answers \<Rightarrow> u16 \<Rightarrow> u16 \<Rightarrow> u16 \<Rightarrow> xtest_event list \<times> bool" where
  "drd_rdp_peer_extended_pointer_event da flags x y =
     (if \<not> da_display da then ([], True)
      else let button = (if flags AND PTR_XFLAGS_BUTTON1 \<noteq> 0 then 8
                         else if flags AND PTR_XFLAGS_BUTTON2 \<noteq> 0 then 9 else 0)
      in (Fake_motion 0 x y #
          (if button \<noteq> 0 then [Fake_button button (flags AND PTR_XFLAGS_DOWN \<noteq> 0)] else []) @
          [X_flush], True))"

text \<open>The installed handler of extended events is the plain one, which drops the extra buttons: all
  that reaches the X server is a flush.\<close>

lemma extended_buttons_lost:
  assumes "flags \<in> {PTR_XFLAGS_BUTTON1, PTR_XFLAGS_BUTTON2, PTR_XFLAGS_BUTTON1 OR PTR_XFLAGS_DOWN,
      PTR_XFLAGS_BUTTON2 OR PTR_XFLAGS_DOWN}"
    "lw_peers w i = Some ctx" "da_display da"
  shows "set (snd (client_input_event kt (Extended_pointer flags x y) i w)) \<subseteq> {X_flush}"
    "\<exists>b. Fake_button b (flags AND PTR_XFLAGS_DOWN \<noteq> 0) \<in>
       set (fst (drd_rdp_peer_extended_pointer_event da flags x y))"
proof -
  have "set ev \<subseteq> {X_flush}" if "drd_input_dispatcher_handle_pointer flags x y d = (ev, r)" for d ev r
    using assms(1) that by (auto simp: drd_input_dispatcher_handle_pointer_def drd_x11_input_inject_pointer_def
        PTR_XFLAGS_BUTTON1_def PTR_XFLAGS_BUTTON2_def PTR_XFLAGS_DOWN_def flag_defs button_events_def
        button_map_def drd_x11_input_pointer_button_def wheel_events_def Let_def split: sum.splits)
  then show "set (snd (client_input_event kt (Extended_pointer flags x y) i w)) \<subseteq> {X_flush}"
    using assms(2) by (simp add: client_input_event_def drd_rdp_peer_pointer_event_def Let_def
        drd_peer_get_dispatcher_def split: prod.split)
  show "\<exists>b. Fake_button b (flags AND PTR_XFLAGS_DOWN \<noteq> 0) \<in>
       set (fst (drd_rdp_peer_extended_pointer_event da flags x y))"
    using assms(1,3) by (auto simp: drd_rdp_peer_extended_pointer_event_def PTR_XFLAGS_BUTTON1_def
        PTR_XFLAGS_BUTTON2_def PTR_XFLAGS_DOWN_def)
qed

end
