(* ===== verification/System_Daemon_Safety.thy ===== *)
theory System_Daemon_Safety
  imports System_Daemon "HOL-Library.Code_Target_Nat"
begin

text \<open>
  What the hand-over registry of the system daemon guarantees: tokens and object paths are in
  one-to-one correspondence, the registry, the store and the queue agree in every reachable
  state, no handler touches a freed client as long as \<open>TakeClient\<close> is called on dispatched
  clients only, and clients are dispatched in arrival order.
\<close>

subsection \<open>Tokens and paths\<close>

lemma digit_facts: "d < 10 \<Longrightarrow> is_digit (char_of (48 + d :: nat)) \<and> of_char (char_of (48 + d :: nat)) = 48 + d"
  by (simp add: is_digit_def)

lemma digits_value_append1: "digits_value (s @ [c]) = 10 * digits_value s + (of_char c - 48)"
  by (simp add: digits_value_def)

lemma decimal_facts: "decimal n \<noteq> [] \<and> list_all is_digit (decimal n) \<and> digits_value (decimal n) = n"
proof (induction n rule: decimal.induct)
  case (1 n)
  show ?case
  proof (cases "n < 10")
    case True
    then show ?thesis
      using digit_facts [OF True] by (subst (1 2 3) decimal.simps) (simp add: digits_value_def)
  next
    case False
    have d: "n mod 10 < 10" by simp
    show ?thesis
      using 1 [OF False] False digit_facts [OF d]
      by (subst (1 2 3) decimal.simps) (simp add: digits_value_append1)
  qed
qed

lemma parse_decimal: "0 < v \<Longrightarrow> v \<le> G_MAXUINT32 \<Longrightarrow> ascii_string_to_unsigned (decimal v) 1 G_MAXUINT32 = Some v"
  using decimal_facts [of v] by (simp add: ascii_string_to_unsigned_def)

lemma id_token_roundtrip:
  "get_id_from_routing_token v = Some cid \<Longrightarrow> get_routing_token_from_id cid = Some (decimal v)"
  using decimal_facts [of v]
  by (auto simp: get_id_from_routing_token_def get_routing_token_from_id_def split: if_splits)

lemma id_inj:
  "get_id_from_routing_token v = Some cid \<Longrightarrow> get_id_from_routing_token w = Some cid \<Longrightarrow> v = w"
proof -
  assume "get_id_from_routing_token v = Some cid" "get_id_from_routing_token w = Some cid"
  then have "cid = handovers_path @ ''/'' @ decimal v" "cid = handovers_path @ ''/'' @ decimal w"
    by (simp_all add: get_id_from_routing_token_def split: if_splits)
  then have "handovers_path @ ''/'' @ decimal v = handovers_path @ ''/'' @ decimal w" by (rule subst)
  then have d: "decimal v = decimal w" by (simp only: same_append_eq)
  have "v = digits_value (decimal v)" by (simp only: decimal_facts)
  also have "\<dots> = digits_value (decimal w)" by (rule arg_cong [OF d])
  also have "\<dots> = w" by (simp only: decimal_facts)
  finally show "v = w" .
qed

lemma parsed_range: "ascii_string_to_unsigned t lo hi = Some v \<Longrightarrow> lo \<le> v \<and> v \<le> hi"
  by (auto simp: ascii_string_to_unsigned_def split: if_splits)

subsection \<open>The invariant\<close>

definition registered :: "system_daemon \<Rightarrow> bool" where
  "registered s \<longleftrightarrow> (\<forall>cid a. remote_clients s cid = Some a \<longrightarrow> (\<exists>c. heap s a = Some c \<and> cl_id c = cid)) \<and>
     (\<forall>a c. heap s a = Some c \<longrightarrow> remote_clients s (cl_id c) = Some a \<and> a < next_addr s)"

definition queue_ok :: "system_daemon \<Rightarrow> bool" where
  "queue_ok s \<longleftrightarrow> (\<forall>a \<in> set (pending_clients s). heap s a \<noteq> None) \<and> distinct (pending_clients s) \<and>
     length (pending_clients s) \<le> DRD_SYSTEM_MAX_PENDING_CLIENTS"

definition sd_inv :: "system_daemon \<Rightarrow> bool" where
  "sd_inv s \<longleftrightarrow> registered s \<and> queue_ok s"

lemma clear_data_simps [simp]:
  "heap (clear_connection_data k s) = heap s" "next_addr (clear_connection_data k s) = next_addr s"
  "remote_clients (clear_connection_data k s) = remote_clients s"
  "pending_clients (clear_connection_data k s) = pending_clients s"
  "bus_ready (clear_connection_data k s) = bus_ready s"
  by (simp_all add: clear_connection_data_def split: option.splits)

lemma put_client_simps [simp]:
  "heap (put_client a c s) = (heap s)(a \<mapsto> c)" "next_addr (put_client a c s) = next_addr s"
  "remote_clients (put_client a c s) = remote_clients s"
  "pending_clients (put_client a c s) = pending_clients s"
  "conn_client (put_client a c s) = conn_client s"
  by (simp_all add: put_client_def)

text \<open>Overwriting a live client without changing its id.\<close>

lemma put_inv:
  assumes "sd_inv s" and "heap s a = Some c" and "cl_id c' = cl_id c"
  shows "sd_inv (put_client a c' s)"
proof -
  have r: "remote_clients s cid = Some b \<Longrightarrow> \<exists>d. heap s b = Some d \<and> cl_id d = cid"
    "heap s b = Some d \<Longrightarrow> remote_clients s (cl_id d) = Some b \<and> b < next_addr s" for cid b d
    using assms(1) by (simp_all add: sd_inv_def registered_def)
  have "registered (put_client a c' s)"
    unfolding registered_def
  proof (intro conjI allI impI)
    fix cid b assume "remote_clients (put_client a c' s) cid = Some b"
    then show "\<exists>d. heap (put_client a c' s) b = Some d \<and> cl_id d = cid"
      using r(1) [of cid b] assms(2,3) by auto
  next
    fix b d assume "heap (put_client a c' s) b = Some d"
    then show "remote_clients (put_client a c' s) (cl_id d) = Some b" "b < next_addr (put_client a c' s)"
      using r(2) assms(2,3) by (auto split: if_splits)
  qed
  with assms(1) show ?thesis by (simp add: sd_inv_def queue_ok_def)
qed

text \<open>Removing a live client.\<close>

lemma remove_client_eq:
  assumes reg: "registered s" and c: "heap s a = Some c"
  shows "\<exists>s'. drd_system_daemon_remove_client a s = Some s' \<and> heap s' = (heap s)(a := None) \<and>
    remote_clients s' = (remote_clients s)(cl_id c := None) \<and>
    pending_clients s' = remove1 a (pending_clients s) \<and> next_addr s' = next_addr s"
proof -
  have r: "remote_clients s (cl_id c) = Some a" using reg c by (simp add: registered_def)
  show ?thesis
    using c r
    by (simp add: drd_system_daemon_remove_client_def drd_system_daemon_unqueue_client_def
        client_at_def registry_remove_def drd_remote_client_free_def Let_def)
qed

lemma registered_remove:
  assumes "registered s" "heap s a = Some c"
    and "heap s' = (heap s)(a := None)" "remote_clients s' = (remote_clients s)(cl_id c := None)"
    and "next_addr s' = next_addr s"
  shows "registered s'"
proof -
  have r: "remote_clients s cid = Some b \<Longrightarrow> \<exists>d. heap s b = Some d \<and> cl_id d = cid"
    "heap s b = Some d \<Longrightarrow> remote_clients s (cl_id d) = Some b \<and> b < next_addr s" for cid b d
    using assms(1) by (simp_all add: registered_def)
  show ?thesis
    unfolding registered_def
  proof (intro conjI allI impI)
    fix cid b assume "remote_clients s' cid = Some b"
    then have b: "remote_clients s cid = Some b" "cid \<noteq> cl_id c" using assms(4) by (auto split: if_splits)
    obtain d where "heap s b = Some d" "cl_id d = cid" using r(1) [OF b(1)] by blast
    moreover from this have "b \<noteq> a" using b(2) assms(2) by auto
    ultimately show "\<exists>d. heap s' b = Some d \<and> cl_id d = cid" using assms(3) by simp
  next
    fix b d assume "heap s' b = Some d"
    then have b: "heap s b = Some d" "b \<noteq> a" using assms(3) by (auto split: if_splits)
    from r(2) [OF b(1)] have d: "remote_clients s (cl_id d) = Some b" "b < next_addr s" by simp_all
    have "cl_id d \<noteq> cl_id c" using d(1) r(2) [OF assms(2)] b(2) by auto
    then show "remote_clients s' (cl_id d) = Some b" "b < next_addr s'" using d assms(4,5) by simp_all
  qed
qed

lemma remove_inv:
  assumes "sd_inv s" "heap s a = Some c"
  shows "\<exists>s'. drd_system_daemon_remove_client a s = Some s' \<and> sd_inv s' \<and> heap s' = (heap s)(a := None) \<and>
    pending_clients s' = remove1 a (pending_clients s)"
proof -
  have reg: "registered s" using assms(1) by (simp add: sd_inv_def)
  obtain s' where s': "drd_system_daemon_remove_client a s = Some s'" "heap s' = (heap s)(a := None)"
    "remote_clients s' = (remote_clients s)(cl_id c := None)"
    "pending_clients s' = remove1 a (pending_clients s)" "next_addr s' = next_addr s"
    using remove_client_eq [OF reg assms(2)] by blast
  have "registered s'" by (rule registered_remove [OF reg assms(2) s'(2,3,5)])
  moreover have "queue_ok s'"
    using assms(1) s'(2,4) length_remove1 [of a "pending_clients s"]
    by (auto simp: sd_inv_def queue_ok_def set_remove1_eq distinct_remove1 split: if_splits)
  ultimately show ?thesis using s' by (auto simp: sd_inv_def)
qed

subsection \<open>Pruning\<close>

abbreviation stale_at :: "int \<Rightarrow> system_daemon \<Rightarrow> addr \<Rightarrow> bool" where
  "stale_at now s a \<equiv> (\<exists>c. heap s a = Some c \<and> client_stale now c)"

lemma prune_loop_ok:
  assumes "sd_inv s" "distinct as" "set as \<subseteq> set (pending_clients s)"
  shows "\<exists>s'. prune_loop now as s = Some s' \<and> sd_inv s' \<and>
    heap s' = (\<lambda>a. if a \<in> set as \<and> stale_at now s a then None else heap s a) \<and>
    pending_clients s' = filter (\<lambda>a. \<not> (a \<in> set as \<and> stale_at now s a)) (pending_clients s)"
  using assms
proof (induction as arbitrary: s)
  case (Cons a as)
  then obtain c where c: "heap s a = Some c" by (auto simp: sd_inv_def queue_ok_def)
  show ?case
  proof (cases "client_stale now c")
    case True
    obtain t where t: "drd_system_daemon_remove_client a s = Some t" "sd_inv t"
      "heap t = (heap s)(a := None)" "pending_clients t = remove1 a (pending_clients s)"
      using remove_inv [OF Cons.prems(1) c] by blast
    have d: "distinct (pending_clients s)" using Cons.prems(1) by (simp add: sd_inv_def queue_ok_def)
    have "set as \<subseteq> set (pending_clients t)"
      using Cons.prems(2,3) t(4) d by (auto simp: set_remove1_eq)
    then obtain s' where s': "prune_loop now as t = Some s'" "sd_inv s'"
      "heap s' = (\<lambda>b. if b \<in> set as \<and> stale_at now t b then None else heap t b)"
      "pending_clients s' = filter (\<lambda>b. \<not> (b \<in> set as \<and> stale_at now t b)) (pending_clients t)"
      using Cons.IH [OF t(2)] Cons.prems(2) by auto
    have st: "stale_at now t b \<longleftrightarrow> stale_at now s b \<and> b \<noteq> a" for b using t(3) by simp
    have "heap s' = (\<lambda>b. if b \<in> set (a # as) \<and> stale_at now s b then None else heap s b)"
      unfolding s'(3) st using t(3) c True Cons.prems(2) by (auto simp: fun_eq_iff)
    moreover have "pending_clients s' =
        filter (\<lambda>b. \<not> (b \<in> set (a # as) \<and> stale_at now s b)) (pending_clients s)"
      unfolding s'(4) t(4) st distinct_remove1_removeAll [OF d] removeAll_filter_not_eq filter_filter
      using c True Cons.prems(2) by (intro filter_cong) auto
    ultimately show ?thesis using c True t(1) s'(1,2) by (simp add: client_at_def)
  next
    case False
    obtain s' where s': "prune_loop now as s = Some s'" "sd_inv s'"
      "heap s' = (\<lambda>b. if b \<in> set as \<and> stale_at now s b then None else heap s b)"
      "pending_clients s' = filter (\<lambda>b. \<not> (b \<in> set as \<and> stale_at now s b)) (pending_clients s)"
      using Cons.IH [OF Cons.prems(1)] Cons.prems(2,3) by auto
    have "heap s' = (\<lambda>b. if b \<in> set (a # as) \<and> stale_at now s b then None else heap s b)"
      unfolding s'(3) using c False by (auto simp: fun_eq_iff)
    moreover have "pending_clients s' =
        filter (\<lambda>b. \<not> (b \<in> set (a # as) \<and> stale_at now s b)) (pending_clients s)"
      unfolding s'(4) using c False by (intro filter_cong) auto
    ultimately show ?thesis using c False s'(1,2) by (simp add: client_at_def)
  qed
qed simp

lemma prune_ok:
  assumes "sd_inv s"
  shows "\<exists>s'. drd_system_daemon_prune_stale_pending_clients now s = Some s' \<and> sd_inv s' \<and>
    heap s' = (\<lambda>a. if a \<in> set (pending_clients s) \<and> stale_at now s a then None else heap s a) \<and>
    pending_clients s' = filter (\<lambda>a. \<not> stale_at now s a) (pending_clients s)"
proof -
  have d: "distinct (pending_clients s)" using assms by (simp add: sd_inv_def queue_ok_def)
  obtain s' where s': "prune_loop now (pending_clients s) s = Some s'" "sd_inv s'"
    "heap s' = (\<lambda>a. if a \<in> set (pending_clients s) \<and> stale_at now s a then None else heap s a)"
    "pending_clients s' = filter (\<lambda>a. \<not> (a \<in> set (pending_clients s) \<and> stale_at now s a)) (pending_clients s)"
    using prune_loop_ok [OF assms d subset_refl] by blast
  have "pending_clients s' = filter (\<lambda>a. \<not> stale_at now s a) (pending_clients s)"
    unfolding s'(4) by (rule filter_cong) auto
  with s' show ?thesis by (simp add: drd_system_daemon_prune_stale_pending_clients_def)
qed

subsection \<open>Queueing and registering\<close>

lemma queue_client_ok:
  assumes inv: "sd_inv s" and c: "heap s a = Some c" and nq: "a \<notin> set (pending_clients s)"
  shows "\<exists>s' q c'. drd_system_daemon_queue_client now a s = Some (s', q) \<and> sd_inv s' \<and>
    heap s' a = Some c' \<and> c' = c\<lparr>cl_last_activity_us := cl_last_activity_us c'\<rparr> \<and>
    (\<not> q \<longrightarrow> a \<notin> set (pending_clients s')) \<and>
    (q \<and> \<not> cl_assigned c \<longrightarrow> pending_clients s' =
       filter (\<lambda>a. \<not> stale_at now s a) (pending_clients s) @ [a])"
proof (cases "cl_assigned c")
  case True
  then show ?thesis using inv c by (simp add: drd_system_daemon_queue_client_def client_at_def) blast
next
  case False
  obtain t where t: "drd_system_daemon_prune_stale_pending_clients now s = Some t" "sd_inv t"
    "heap t = (\<lambda>a. if a \<in> set (pending_clients s) \<and> stale_at now s a then None else heap s a)"
    "pending_clients t = filter (\<lambda>a. \<not> stale_at now s a) (pending_clients s)"
    using prune_ok [OF inv] by blast
  have ct: "heap t a = Some c" using t(3) c nq by simp
  have nt: "a \<notin> set (pending_clients t)" using t(4) nq by simp
  show ?thesis
  proof (cases "DRD_SYSTEM_MAX_PENDING_CLIENTS \<le> length (pending_clients t)")
    case True
    then show ?thesis using False c t(1,2) ct nt
      by (simp add: drd_system_daemon_queue_client_def client_at_def
          drd_system_daemon_get_pending_client_count_def) blast
  next
    case room: False
    let ?c = "c\<lparr>cl_last_activity_us := now\<rparr>"
    let ?p = "put_client a ?c t"
    let ?t = "?p\<lparr>pending_clients := pending_clients ?p @ [a]\<rparr>"
    have "sd_inv ?p" by (rule put_inv [OF t(2) ct]) simp
    then have "sd_inv ?t"
      using nt room by (auto simp: sd_inv_def registered_def queue_ok_def)
    then show ?thesis using False c t(1) ct room t(4)
      by (simp add: drd_system_daemon_queue_client_def client_at_def Let_def
          drd_system_daemon_get_pending_client_count_def) blast
  qed
qed

lemma generate_fresh:
  "drd_system_daemon_generate_remote_identity rs s = Some (cid, t) \<Longrightarrow>
     remote_clients s cid = None \<and> (\<exists>v. v \<in> set rs \<and> get_id_from_routing_token v = Some cid \<and> t = decimal v)"
proof (induction rs s rule: drd_system_daemon_generate_remote_identity.induct)
  case (2 r rs s)
  then show ?case
    by (auto simp: id_token_roundtrip split: option.splits if_splits)
qed simp

lemma choose_identity_fresh:
  assumes "choose_identity rs token s = Some (v, cid, t)" shows "remote_clients s cid = None"
proof (cases "drd_system_daemon_generate_remote_identity rs s")
  case None
  then show ?thesis using assms
    by (auto simp: choose_identity_def Let_def split: option.splits if_splits)
next
  case (Some p)
  then show ?thesis using assms generate_fresh [of rs s "fst p" "snd p"]
    by (auto simp: choose_identity_def Let_def split: option.splits if_splits)
qed

text \<open>The state in which a fresh client has been stored and registered.\<close>

definition with_client :: "conn \<Rightarrow> remote_client \<Rightarrow> system_daemon \<Rightarrow> system_daemon" where
  "with_client k c self =
     (let s1 = (put_client (next_addr self) c self)\<lparr>next_addr := Suc (next_addr self)\<rparr>;
          s2 = (if bus_ready s1 then s1\<lparr>exported := insert (cl_id c) (exported s1)\<rparr> else s1);
          s3 = s2\<lparr>conn_client := (conn_client s2)(k \<mapsto> next_addr self),
                  keep_open := insert k (keep_open s2)\<rparr>
      in s3\<lparr>remote_clients := (remote_clients s3)(cl_id c \<mapsto> next_addr self)\<rparr>)"

lemma with_client_facts:
  assumes inv: "sd_inv s" and fresh: "remote_clients s (cl_id c) = None"
  shows "sd_inv (with_client k c s)" "heap (with_client k c s) = (heap s)(next_addr s \<mapsto> c)"
    "pending_clients (with_client k c s) = pending_clients s"
    "remote_clients (with_client k c s) = (remote_clients s)(cl_id c \<mapsto> next_addr s)"
    "next_addr s \<notin> set (pending_clients s)" "heap s (next_addr s) = None"
proof -
  show eqs: "heap (with_client k c s) = (heap s)(next_addr s \<mapsto> c)"
    "pending_clients (with_client k c s) = pending_clients s"
    "remote_clients (with_client k c s) = (remote_clients s)(cl_id c \<mapsto> next_addr s)"
    by (simp_all add: with_client_def Let_def)
  have n: "next_addr (with_client k c s) = Suc (next_addr s)" by (simp add: with_client_def Let_def)
  have r: "remote_clients s cid = Some b \<Longrightarrow> \<exists>d. heap s b = Some d \<and> cl_id d = cid"
    "heap s b = Some d \<Longrightarrow> remote_clients s (cl_id d) = Some b \<and> b < next_addr s" for cid b d
    using inv by (simp_all add: sd_inv_def registered_def)
  show f: "heap s (next_addr s) = None" using r(2) [of "next_addr s"] by (cases "heap s (next_addr s)") auto
  show q: "next_addr s \<notin> set (pending_clients s)" using inv f by (auto simp: sd_inv_def queue_ok_def)
  have "registered (with_client k c s)"
    unfolding registered_def
  proof (intro conjI allI impI)
    fix cid b assume b: "remote_clients (with_client k c s) cid = Some b"
    show "\<exists>d. heap (with_client k c s) b = Some d \<and> cl_id d = cid"
    proof (cases "cid = cl_id c")
      case False
      then obtain d where "heap s b = Some d" "cl_id d = cid" using b r(1) [of cid b] eqs(3) by auto
      moreover from this have "b \<noteq> next_addr s" using f by auto
      ultimately show ?thesis using eqs(1) by simp
    qed (use b eqs in simp)
  next
    fix b d assume "heap (with_client k c s) b = Some d"
    then have h: "if b = next_addr s then d = c else heap s b = Some d" using eqs(1) by (simp split: if_splits)
    have "remote_clients (with_client k c s) (cl_id d) = Some b \<and> b < next_addr (with_client k c s)"
    proof (cases "b = next_addr s")
      case False
      then have rb: "remote_clients s (cl_id d) = Some b" "b < next_addr s" using h r(2) [of b d] by simp_all
      then have "cl_id d \<noteq> cl_id c" using fresh by auto
      then show ?thesis using rb eqs(3) n by simp
    qed (use h eqs(3) n in simp)
    then show "remote_clients (with_client k c s) (cl_id d) = Some b" "b < next_addr (with_client k c s)"
      by simp_all
  qed
  moreover have "queue_ok (with_client k c s)" using inv eqs by (auto simp: sd_inv_def queue_ok_def)
  ultimately show "sd_inv (with_client k c s)" by (simp add: sd_inv_def)
qed

lemma register_unfold:
  assumes "choose_identity rs token s = Some ident" and "remote_clients s (cl_id (new_client k rdstls ident)) = None"
  shows "drd_system_daemon_register_client now rs k rdstls token s = do {
     (s5, queued) \<leftarrow> drd_system_daemon_queue_client now (next_addr s) (with_client k (new_client k rdstls ident) s);
     if queued then Some (s5, True)
     else do { s6 \<leftarrow> drd_system_daemon_remove_client (next_addr s) s5; Some (s6, False) } }"
  using assms
  by (simp add: drd_system_daemon_register_client_def Let_def with_client_def registry_replace_def
      registry_remove_def)

lemma new_client_id: "cl_id (new_client k rdstls (v, cid, t)) = cid"
  by (simp add: new_client_def)

lemma register_ok:
  assumes inv: "sd_inv s" and ident: "choose_identity rs token s = Some (v, cid, t)"
  shows "\<exists>s' q. drd_system_daemon_register_client now rs k rdstls token s = Some (s', q) \<and> sd_inv s' \<and>
    (q \<longrightarrow> (\<exists>c. heap s' (next_addr s) = Some c \<and>
       c = (new_client k rdstls (v, cid, t))\<lparr>cl_last_activity_us := cl_last_activity_us c\<rparr> \<and>
       pending_clients s' = filter (\<lambda>a. \<not> stale_at now s a) (pending_clients s) @ [next_addr s]))"
proof -
  let ?c = "new_client k rdstls (v, cid, t)"
  let ?w = "with_client k ?c s"
  have fresh: "remote_clients s (cl_id ?c) = None"
    using choose_identity_fresh [OF ident] by (simp add: new_client_id)
  note w = with_client_facts [OF inv fresh]
  have wc: "heap ?w (next_addr s) = Some ?c" using w(2) by simp
  have wq: "next_addr s \<notin> set (pending_clients ?w)" using w(3,5) by simp
  have na: "\<not> cl_assigned ?c" by (simp add: new_client_def)
  have st: "filter (\<lambda>a. \<not> stale_at now ?w a) (pending_clients ?w) =
      filter (\<lambda>a. \<not> stale_at now s a) (pending_clients s)"
    unfolding w(3) using w(2,5) by (intro filter_cong) auto
  obtain s5 q c' where q: "drd_system_daemon_queue_client now (next_addr s) ?w = Some (s5, q)" "sd_inv s5"
    "heap s5 (next_addr s) = Some c'" "c' = ?c\<lparr>cl_last_activity_us := cl_last_activity_us c'\<rparr>"
    "\<not> q \<Longrightarrow> next_addr s \<notin> set (pending_clients s5)"
    "q \<Longrightarrow> pending_clients s5 = filter (\<lambda>a. \<not> stale_at now ?w a) (pending_clients ?w) @ [next_addr s]"
    using queue_client_ok [OF w(1) wc wq, of now] na by auto
  show ?thesis
  proof (cases q)
    case True
    then show ?thesis unfolding register_unfold [OF ident fresh] using q st by simp blast
  next
    case False
    obtain s6 where "drd_system_daemon_remove_client (next_addr s) s5 = Some s6" "sd_inv s6"
      using remove_inv [OF q(2,3)] by blast
    then show ?thesis unfolding register_unfold [OF ident fresh] using q(1) False by simp blast
  qed
qed

subsection \<open>The handlers\<close>

lemma sd_inv_conn [simp]:
  "sd_inv (s\<lparr>conn_client := f\<rparr>) = sd_inv s" "sd_inv (s\<lparr>keep_open := g\<rparr>) = sd_inv s"
  "sd_inv (s\<lparr>bus_ready := b\<rparr>) = sd_inv s"
  by (simp_all add: sd_inv_def registered_def queue_ok_def)

lemma touch_ok:
  assumes "sd_inv s" "heap s a = Some c"
  shows "drd_system_daemon_touch_client now a s = Some (put_client a (c\<lparr>cl_last_activity_us := now\<rparr>) s)"
    and "sd_inv (put_client a (c\<lparr>cl_last_activity_us := now\<rparr>) s)"
  using put_inv [OF assms, of "c\<lparr>cl_last_activity_us := now\<rparr>"] assms(2)
  by (simp_all add: drd_system_daemon_touch_client_def client_at_def)

lemma find_by_token_live:
  "sd_inv s \<Longrightarrow> drd_system_daemon_find_client_by_token t s = Some a \<Longrightarrow> \<exists>c. heap s a = Some c"
  unfolding drd_system_daemon_find_client_by_token_def sd_inv_def registered_def
  by (simp split: option.splits) blast

lemma delegate_ok:
  assumes inv: "sd_inv s"
    and ident: "\<And>rdstls token. peeked = Inr (rdstls, token) \<Longrightarrow> choose_identity rs token s \<noteq> None"
  shows "\<exists>s' ev b. drd_system_daemon_delegate now rs k peeked s = Some (s', ev, b) \<and> sd_inv s'"
proof (cases peeked)
  case (Inl e)
  then show ?thesis using inv by (simp add: drd_system_daemon_delegate_def) blast
next
  case (Inr p)
  obtain rdstls token where p: "p = (rdstls, token)" by (cases p)
  obtain v cid t where i: "choose_identity rs token s = Some (v, cid, t)"
    using ident Inr p by (metis not_None_eq prod_cases3)
  obtain s1 q where r: "drd_system_daemon_register_client now rs k rdstls token s = Some (s1, q)" "sd_inv s1"
    using register_ok [OF inv i, of now k rdstls] by blast
  define existing where "existing = (case token of None \<Rightarrow> None
     | Some t \<Rightarrow> (case drd_system_daemon_find_client_by_token t s of None \<Rightarrow> None
        | Some a \<Rightarrow> (case heap s a of None \<Rightarrow> None
           | Some c \<Rightarrow> if cl_session c = None then Some (a, c) else None)))"
  have e: "(case token of None \<Rightarrow> Some None
      | Some t \<Rightarrow> (case drd_system_daemon_find_client_by_token t s of None \<Rightarrow> Some None
         | Some a \<Rightarrow> map_option (\<lambda>c. if cl_session c = None then Some (a, c) else None) (client_at s a)))
      = Some existing"
  proof (cases token)
    case (Some t)
    show ?thesis
    proof (cases "drd_system_daemon_find_client_by_token t s")
      case (Some a)
      then obtain c where "heap s a = Some c" using find_by_token_live [OF inv] by blast
      then show ?thesis using \<open>token = Some t\<close> Some by (simp add: existing_def client_at_def)
    qed (simp add: existing_def Some)
  qed (simp add: existing_def)
  show ?thesis
  proof (cases existing)
    case None
    then show ?thesis using r e Inr p by (simp add: drd_system_daemon_delegate_def)
  next
    case (Some ac)
    obtain a c where ac: "ac = (a, c)" by (cases ac)
    have c: "heap s a = Some c" using Some ac by (auto simp: existing_def split: option.splits if_splits)
    let ?s1 = "(put_client a (c\<lparr>cl_connection := Some k\<rparr>) s)
       \<lparr>conn_client := (conn_client s)(k \<mapsto> a), keep_open := insert k (keep_open s)\<rparr>"
    have i1: "sd_inv ?s1" using put_inv [OF inv c, of "c\<lparr>cl_connection := Some k\<rparr>"] by simp
    have c1: "heap ?s1 a = Some (c\<lparr>cl_connection := Some k\<rparr>)" by simp
    from touch_ok [OF i1 c1, of now] show ?thesis
      using e Inr p Some ac by (simp add: drd_system_daemon_delegate_def Let_def) blast
  qed
qed

lemma session_ready_ok:
  assumes inv: "sd_inv s" and live: "\<And>a. conn_client s k = Some a \<Longrightarrow> heap s a \<noteq> None"
  shows "\<exists>s' ev. drd_system_daemon_on_session_ready now sess mstsc options resolution k s = Some (s', ev) \<and>
    sd_inv s'"
proof (cases "conn_client s k")
  case None
  then show ?thesis using inv by (simp add: drd_system_daemon_on_session_ready_def)
next
  case (Some a)
  then obtain c where c: "heap s a = Some c" using live by blast
  let ?c1 = "c\<lparr>cl_session := Some sess, cl_use_system_credentials := (mstsc \<and> \<not> cl_rdstls c)\<rparr>"
  let ?s1 = "put_client a ?c1 s"
  have i1: "sd_inv ?s1" by (rule put_inv [OF inv c]) simp
  have h1: "heap ?s1 a = Some ?c1" by simp
  have t2: "\<exists>s'. drd_system_daemon_touch_client now a (put_client a c2 ?s1) = Some s' \<and> sd_inv s'"
    if "cl_id c2 = cl_id c" for c2
  proof -
    have "sd_inv (put_client a c2 ?s1)" by (rule put_inv [OF i1 h1]) (simp add: that)
    from touch_ok [OF this, of a c2 now] show ?thesis by simp
  qed
  show ?thesis
  proof (cases "cl_remote_id c = 0")
    case True
    then show ?thesis using Some c touch_ok [OF i1 h1, of now]
      by (simp add: drd_system_daemon_on_session_ready_def client_at_def Let_def)
  next
    case False
    have one: "\<exists>s'. drd_system_daemon_touch_client now a (put_client a ?c1 ?s1) = Some s' \<and> sd_inv s'"
      by (rule t2) simp
    have two: "\<exists>s'. drd_system_daemon_touch_client now a
        (put_client a (?c1\<lparr>cl_width := rw, cl_height := rh\<rparr>) ?s1) = Some s' \<and> sd_inv s'" for rw rh
      by (rule t2) simp
    note d = drd_system_daemon_on_session_ready_def client_at_def Let_def
    show ?thesis
    proof (cases options)
      case None
      then show ?thesis using Some c False i1 by (simp add: d)
    next
      case opts: (Some wh)
      show ?thesis
      proof (cases resolution)
        case None
        then show ?thesis using Some c False one opts by (auto simp: d split: prod.splits)
      next
        case res: (Some r)
        obtain rw rh where r: "r = (rw, rh)" by (cases r)
        obtain s1 s2 where "drd_system_daemon_touch_client now a (put_client a ?c1 ?s1) = Some s1" "sd_inv s1"
          "drd_system_daemon_touch_client now a
             (put_client a (?c1\<lparr>cl_width := rw, cl_height := rh\<rparr>) ?s1) = Some s2" "sd_inv s2"
          using one two [of rh rw] by blast
        then show ?thesis using Some c False opts res r by (auto simp: d split: prod.splits)
      qed
    qed
  qed
qed

lemma request_handover_ok:
  assumes inv: "sd_inv s"
  shows "\<exists>s' r. drd_system_daemon_handle_request_handover now s = Some (s', r) \<and> sd_inv s' \<and>
    (case filter (\<lambda>a. \<not> stale_at now s a) (pending_clients s) of
       [] \<Rightarrow> r = fail_io IoNotFound \<and> pending_clients s' = []
     | a # as \<Rightarrow> pending_clients s' = as \<and>
         (\<exists>c. heap s a = Some c \<and> r = Inr (cl_id c) \<and>
            heap s' a = Some (c\<lparr>cl_assigned := True, cl_last_activity_us := now\<rparr>)))"
proof -
  obtain t where t: "drd_system_daemon_prune_stale_pending_clients now s = Some t" "sd_inv t"
    "heap t = (\<lambda>a. if a \<in> set (pending_clients s) \<and> stale_at now s a then None else heap s a)"
    "pending_clients t = filter (\<lambda>a. \<not> stale_at now s a) (pending_clients s)"
    using prune_ok [OF inv] by blast
  show ?thesis
  proof (cases "pending_clients t")
    case Nil
    then show ?thesis using t by (simp add: drd_system_daemon_handle_request_handover_def)
  next
    case (Cons a as)
    obtain c where c: "heap t a = Some c" using t(2) Cons by (auto simp: sd_inv_def queue_ok_def)
    have cs: "heap s a = Some c" using c t(3) by (simp split: if_splits)
    let ?t = "t\<lparr>pending_clients := as\<rparr>"
    have it: "sd_inv ?t" using t(2) Cons by (auto simp: sd_inv_def registered_def queue_ok_def)
    have ct: "heap ?t a = Some c" using c by simp
    let ?u = "put_client a (c\<lparr>cl_assigned := True\<rparr>) ?t"
    have iu: "sd_inv ?u" by (rule put_inv [OF it ct]) simp
    from touch_ok [OF iu, of a "c\<lparr>cl_assigned := True\<rparr>" now] show ?thesis
      unfolding t(4) [symmetric] using t(1) Cons c cs
      by (simp add: drd_system_daemon_handle_request_handover_def client_at_def Let_def)
  qed
qed

lemma start_handover_ok:
  assumes inv: "sd_inv s" and c: "heap s a = Some c"
  shows "\<exists>s' ev r. drd_system_daemon_on_start_handover now tls sent a s = Some (s', ev, r) \<and> sd_inv s'"
proof -
  let ?c = "c\<lparr>cl_last_activity_us := now\<rparr>"
  let ?s = "put_client a ?c s"
  have t: "drd_system_daemon_touch_client now a s = Some ?s" "sd_inv ?s" using touch_ok [OF inv c] by simp_all
  have h: "heap ?s a = Some ?c" by simp
  have "sd_inv (put_client a (?c\<lparr>cl_session := None, cl_connection := None, cl_assigned := True\<rparr>) ?s)"
    by (rule put_inv [OF t(2) h]) simp
  then show ?thesis using t h
    by (cases tls; cases "cl_session c"; cases sent)
       (simp_all add: drd_system_daemon_on_start_handover_def client_at_def)
qed

lemma take_client_ok:
  assumes inv: "sd_inv s" and c: "heap s a = Some c" and nq: "a \<notin> set (pending_clients s)"
  shows "\<exists>s' r. drd_system_daemon_on_take_client now fd_sent a s = Some (s', r) \<and> sd_inv s'"
proof -
  let ?c = "c\<lparr>cl_last_activity_us := now\<rparr>"
  let ?s = "put_client a ?c s"
  have t: "drd_system_daemon_touch_client now a s = Some ?s" "sd_inv ?s" using touch_ok [OF inv c] by simp_all
  have h: "heap ?s a = Some ?c" by simp
  show ?thesis
  proof (cases "cl_connection c = None \<or> \<not> fd_sent")
    case True
    then show ?thesis using t
      by (cases "cl_connection c") (auto simp: drd_system_daemon_on_take_client_def client_at_def)
  next
    case False
    then obtain k where k: "cl_connection c = Some k" "fd_sent" by auto
    let ?c1 = "?c\<lparr>cl_connection := None, cl_session := None, cl_handover_count := cl_handover_count c + 1\<rparr>"
    let ?s2 = "put_client a ?c1 ?s"
    have i2: "sd_inv ?s2" by (rule put_inv [OF t(2) h]) simp
    have h2: "heap ?s2 a = Some ?c1" by simp
    let ?s3 = "put_client a (?c1\<lparr>cl_assigned := False\<rparr>) ?s2"
    have i3: "sd_inv ?s3" by (rule put_inv [OF i2 h2]) simp
    have h3: "heap ?s3 a = Some (?c1\<lparr>cl_assigned := False\<rparr>)" by simp
    have n3: "a \<notin> set (pending_clients ?s3)" using nq by simp
    obtain s4 q c4 where q: "drd_system_daemon_queue_client now a ?s3 = Some (s4, q)" "sd_inv s4" "heap s4 a = Some c4"
      using queue_client_ok [OF i3 h3 n3, of now] by blast
    obtain s5 where r: "drd_system_daemon_remove_client a s4 = Some s5" "sd_inv s5"
      using remove_inv [OF q(2,3)] by blast
    show ?thesis
      using t(1) k q(1,2) r i2
      by (cases q) (auto simp: drd_system_daemon_on_take_client_def client_at_def Let_def)
  qed
qed

lemma free_registered_ok:
  "\<exists>t. free_registered as s = Some t \<and> remote_clients t = remote_clients s \<and>
     (\<forall>a. heap t a = (case heap s a of None \<Rightarrow> None
        | Some c \<Rightarrow> if a \<in> set as \<and> remote_clients s (cl_id c) = Some a then None else Some c))"
proof (induction as arbitrary: s)
  case Nil
  then show ?case by (simp split: option.splits)
next
  case (Cons b as)
  show ?case
  proof (cases "\<exists>c. heap s b = Some c \<and> remote_clients s (cl_id c) = Some b")
    case True
    then obtain c where c: "heap s b = Some c" "remote_clients s (cl_id c) = Some b" by blast
    obtain u where u: "drd_remote_client_free b s = Some u" "heap u = (heap s)(b := None)"
      "remote_clients u = remote_clients s"
      using c(1) by (simp add: drd_remote_client_free_def client_at_def Let_def)
    obtain t where "free_registered as u = Some t" "remote_clients t = remote_clients u"
      "\<forall>a. heap t a = (case heap u a of None \<Rightarrow> None
        | Some c \<Rightarrow> if a \<in> set as \<and> remote_clients u (cl_id c) = Some a then None else Some c)"
      using Cons.IH [of u] by blast
    with c u show ?thesis by (simp split: option.splits)
  next
    case False
    have "free_registered (b # as) s = free_registered as s" using False by (auto split: option.splits)
    moreover obtain t where "free_registered as s = Some t" "remote_clients t = remote_clients s"
      "\<forall>a. heap t a = (case heap s a of None \<Rightarrow> None
        | Some c \<Rightarrow> if a \<in> set as \<and> remote_clients s (cl_id c) = Some a then None else Some c)"
      using Cons.IH [of s] by blast
    ultimately show ?thesis using False by (auto split: option.splits)
  qed
qed

lemma stop_ok:
  assumes "sd_inv s" shows "\<exists>t. drd_system_daemon_stop s = Some t \<and> sd_inv t"
proof -
  let ?s = "s\<lparr>bus_ready := False, exported := {}\<rparr>"
  obtain t where t: "free_registered [0..<next_addr s] ?s = Some t"
    "\<forall>a. heap t a = (case heap ?s a of None \<Rightarrow> None
        | Some c \<Rightarrow> if a \<in> set [0..<next_addr s] \<and> remote_clients ?s (cl_id c) = Some a then None else Some c)"
    using free_registered_ok [of "[0..<next_addr s]" ?s] by blast
  have "heap t a = None" for a
    using t(2) assms by (cases "heap s a") (simp_all add: sd_inv_def registered_def)
  then have "sd_inv (t\<lparr>remote_clients := Map.empty, pending_clients := []\<rparr>)"
    by (simp add: sd_inv_def registered_def queue_ok_def)
  then show ?thesis using t(1) by (simp add: drd_system_daemon_stop_def)
qed

subsection \<open>Runs of the daemon\<close>

datatype sd_op =
    Bus_started
  | Connected int "nat list" conn "(bool \<times> string option) res"
  | Session_up int session bool "(nat \<times> nat) option" "(nat \<times> nat) option" conn
  | Request_handover int
  | Start_handover int "unit res" bool addr
  | Take_client int bool addr
  | Stopped

fun run_sd :: "sd_op \<Rightarrow> system_daemon \<Rightarrow> system_daemon option" where
  "run_sd Bus_started s = Some (s\<lparr>bus_ready := True\<rparr>)"
| "run_sd (Connected now rs k peeked) s = map_option fst (drd_system_daemon_delegate now rs k peeked s)"
| "run_sd (Session_up now sess mstsc options resolution k) s =
     map_option fst (drd_system_daemon_on_session_ready now sess mstsc options resolution k s)"
| "run_sd (Request_handover now) s = map_option fst (drd_system_daemon_handle_request_handover now s)"
| "run_sd (Start_handover now tls sent a) s =
     map_option fst (drd_system_daemon_on_start_handover now tls sent a s)"
| "run_sd (Take_client now fd_sent a) s =
     map_option fst (drd_system_daemon_on_take_client now fd_sent a s)"
| "run_sd Stopped s = drd_system_daemon_stop s"

text \<open>The protocol: method calls arrive on objects of live clients, \<open>TakeClient\<close> on a client that
  has been dispatched, a session comes up on a connection of a live client, and the random
  numbers eventually give a fresh identity.\<close>

fun follows_protocol :: "sd_op \<Rightarrow> system_daemon \<Rightarrow> bool" where
  "follows_protocol (Connected now rs k peeked) s =
     (case peeked of Inl e \<Rightarrow> True | Inr (rdstls, token) \<Rightarrow> choose_identity rs token s \<noteq> None)"
| "follows_protocol (Session_up now sess mstsc options resolution k) s =
     (case conn_client s k of None \<Rightarrow> True | Some a \<Rightarrow> heap s a \<noteq> None)"
| "follows_protocol (Start_handover now tls sent a) s = (heap s a \<noteq> None)"
| "follows_protocol (Take_client now fd_sent a) s = (heap s a \<noteq> None \<and> a \<notin> set (pending_clients s))"
| "follows_protocol p s = True"

inductive sd_reachable :: "system_daemon \<Rightarrow> bool" where
  start: "sd_reachable drd_system_daemon_init"
| step: "sd_reachable s \<Longrightarrow> follows_protocol p s \<Longrightarrow> run_sd p s = Some t \<Longrightarrow> sd_reachable t"

lemma run_ok:
  assumes "sd_inv s" "follows_protocol p s" shows "\<exists>t. run_sd p s = Some t \<and> sd_inv t"
proof (cases p)
  case Bus_started
  then show ?thesis using assms(1) by simp
next
  case (Connected now rs k peeked)
  have "choose_identity rs token s \<noteq> None" if "peeked = Inr (rdstls, token)" for rdstls token
    using assms(2) that Connected by simp
  then obtain s' ev b where "drd_system_daemon_delegate now rs k peeked s = Some (s', ev, b)" "sd_inv s'"
    using delegate_ok [OF assms(1), of peeked rs now k] by blast
  then show ?thesis using Connected by simp
next
  case (Session_up now sess mstsc options resolution k)
  have "heap s a \<noteq> None" if "conn_client s k = Some a" for a
    using assms(2) that Session_up by simp
  then obtain s' ev where
    "drd_system_daemon_on_session_ready now sess mstsc options resolution k s = Some (s', ev)" "sd_inv s'"
    using session_ready_ok [OF assms(1)] by blast
  then show ?thesis using Session_up by simp
next
  case (Request_handover now)
  then show ?thesis using request_handover_ok [OF assms(1), of now] by auto
next
  case (Start_handover now tls sent a)
  then obtain c where "heap s a = Some c" using assms(2) by auto
  from start_handover_ok [OF assms(1) this, of now tls sent] show ?thesis using Start_handover by auto
next
  case (Take_client now fd_sent a)
  then obtain c where "heap s a = Some c" "a \<notin> set (pending_clients s)" using assms(2) by auto
  from take_client_ok [OF assms(1) this, of now fd_sent] show ?thesis using Take_client by auto
next
  case Stopped
  then show ?thesis using stop_ok [OF assms(1)] by simp
qed

lemma sd_reachable_inv: "sd_reachable s \<Longrightarrow> sd_inv s"
proof (induction rule: sd_reachable.induct)
  case start
  show ?case by (simp add: sd_inv_def registered_def queue_ok_def drd_system_daemon_init_def)
next
  case (step s p t)
  then show ?case using run_ok by (metis option.inject)
qed

subsection \<open>What goes wrong outside the protocol\<close>

text \<open>A client whose \<open>TakeClient\<close> is called while it is still queued is queued twice; when it
  goes stale, pruning frees it at its first link and reads it again at the second.\<close>

definition early_take :: "sd_op list" where
  "early_take = [Connected 1 [5] 0 (Inr (False, None)), Take_client 2 True 0, Request_handover 40000000]"

fun run_all :: "sd_op list \<Rightarrow> system_daemon \<Rightarrow> system_daemon option" where
  "run_all [] s = Some s"
| "run_all (p # ps) s = (case run_sd p s of None \<Rightarrow> None | Some t \<Rightarrow> run_all ps t)"

lemma early_take_uses_freed_client: "run_all early_take drd_system_daemon_init = None"
  by code_simp

text \<open>A new client whose token is already tracked gets a fresh identity, but \<open>remote_id\<close>, which
  the display manager is given, keeps the value of the rejected token.\<close>

lemma collision_keeps_old_remote_id:
  assumes "ascii_string_to_unsigned t0 1 G_MAXUINT32 = Some v" and "get_id_from_routing_token v = Some id0"
    and "remote_clients s id0 \<noteq> None"
    and "drd_system_daemon_generate_remote_identity rs s = Some (cid, t)"
  shows "choose_identity rs (Some t0) s = Some (v, cid, t) \<and>
    cl_remote_id (new_client k rdstls (v, cid, t)) = v \<and> cid \<noteq> id0"
proof -
  have "0 < v" using parsed_range [OF assms(1)] by simp
  then show ?thesis
    using assms generate_fresh [OF assms(4)] by (auto simp: choose_identity_def Let_def new_client_def)
qed

subsection \<open>Properties\<close>

text \<open>
  C11: no use after free in the hand-over registry: in every state reached by connections,
  sessions, D-Bus calls and shutdowns that follow the protocol, every handler runs without
  touching a freed client, the registry and the live clients are in one-to-one correspondence,
  and the queue holds at most 32 distinct live clients.
\<close>

theorem handover_registry_safe:
  assumes "sd_reachable s" and "follows_protocol p s"
  shows "run_sd p s \<noteq> None \<and>
    (\<forall>cid a. remote_clients s cid = Some a \<longleftrightarrow> (\<exists>c. heap s a = Some c \<and> cl_id c = cid)) \<and>
    distinct (pending_clients s) \<and> length (pending_clients s) \<le> 32 \<and>
    (\<forall>a \<in> set (pending_clients s). heap s a \<noteq> None)"
proof -
  note inv = sd_reachable_inv [OF assms(1)]
  have "run_sd p s \<noteq> None" using run_ok [OF inv assms(2)] by auto
  moreover have "\<forall>cid a. remote_clients s cid = Some a \<longleftrightarrow> (\<exists>c. heap s a = Some c \<and> cl_id c = cid)"
    using inv unfolding sd_inv_def registered_def by blast
  moreover have "length (pending_clients s) \<le> 32"
    using inv by (simp add: sd_inv_def queue_ok_def DRD_SYSTEM_MAX_PENDING_CLIENTS_def)
  ultimately show ?thesis using inv by (simp add: sd_inv_def queue_ok_def)
qed

definition queued_once :: system_daemon where
  "queued_once = the (run_sd (Connected 1 [5] 0 (Inr (False, None))) drd_system_daemon_init)"

lemma queued_once_step:
  "follows_protocol (Connected 1 [5] 0 (Inr (False, None))) drd_system_daemon_init"
  "run_sd (Connected 1 [5] 0 (Inr (False, None))) drd_system_daemon_init = Some queued_once"
proof -
  have "choose_identity [5] None drd_system_daemon_init \<noteq> None" by code_simp
  then show f: "follows_protocol (Connected 1 [5] 0 (Inr (False, None))) drd_system_daemon_init" by simp
  have "sd_inv drd_system_daemon_init" by (rule sd_reachable_inv [OF sd_reachable.start])
  from run_ok [OF this f] show "run_sd (Connected 1 [5] 0 (Inr (False, None))) drd_system_daemon_init = Some queued_once"
    by (auto simp: queued_once_def)
qed

lemma queued_once_reachable: "sd_reachable queued_once"
  by (rule sd_reachable.step [OF sd_reachable.start queued_once_step])

theorem handover_registry_safe_witness:
  "run_sd (Request_handover 5) queued_once \<noteq> None \<and> distinct (pending_clients queued_once)"
  using handover_registry_safe [OF queued_once_reachable, of "Request_handover 5"] by simp

text \<open>
  Hand-overs are first come, first served: \<open>RequestHandover\<close> drops the clients that have
  been idle for 30 seconds and returns the path of the longest-waiting remaining one, marks it
  assigned and leaves the others queued in order; with none left it answers NOT_FOUND.
\<close>

theorem handover_first_come_first_served:
  assumes "sd_reachable s"
  shows "returns (drd_system_daemon_handle_request_handover now s) (\<lambda>(s', r).
    case filter (\<lambda>a. \<not> stale_at now s a) (pending_clients s) of
      [] \<Rightarrow> r = fail_io IoNotFound \<and> pending_clients s' = []
    | a # as \<Rightarrow> pending_clients s' = as \<and>
        (\<exists>c. heap s a = Some c \<and> r = Inr (cl_id c) \<and>
           heap s' a = Some (c\<lparr>cl_assigned := True, cl_last_activity_us := now\<rparr>)))"
proof -
  from request_handover_ok [OF sd_reachable_inv [OF assms], of now] obtain s' r where
    e: "drd_system_daemon_handle_request_handover now s = Some (s', r)" and
    p: "case filter (\<lambda>a. \<not> stale_at now s a) (pending_clients s) of
       [] \<Rightarrow> r = fail_io IoNotFound \<and> pending_clients s' = []
     | a # as \<Rightarrow> pending_clients s' = as \<and>
         (\<exists>c. heap s a = Some c \<and> r = Inr (cl_id c) \<and>
            heap s' a = Some (c\<lparr>cl_assigned := True, cl_last_activity_us := now\<rparr>))"
    by blast
  show ?thesis unfolding e returns_simps prod.case by (rule p)
qed

theorem handover_first_come_first_served_witness:
  "returns (drd_system_daemon_handle_request_handover 9 queued_once) (\<lambda>(s', r). is_ok r \<or> r = fail_io IoNotFound)"
  by (rule returns_mono [OF handover_first_come_first_served [OF queued_once_reachable]])
     (auto split: list.splits simp: neq_Nil_conv)

text \<open>
  A routing token leads back to its client: when a connection without a tracked token has
  been registered, looking up the token that the client was given finds exactly that client,
  whose path is the token's path and whose connection is the registered one.
\<close>

theorem registered_token_found:
  assumes "sd_reachable s" and "choose_identity rs token s = Some (v, cid, t)"
    and "drd_system_daemon_register_client now rs k rdstls token s = Some (s', True)"
    and "list_all (\<lambda>r. r \<le> G_MAXUINT32) rs"
  shows "\<exists>a c. drd_system_daemon_find_client_by_token t s' = Some a \<and> heap s' a = Some c \<and>
    cl_token c = t \<and> cl_id c = cid \<and> cl_connection c = Some k \<and> a \<in> set (pending_clients s')"
proof -
  note inv = sd_reachable_inv [OF assms(1)]
  from register_ok [OF inv assms(2), of now k rdstls] assms(3) obtain c where
    i: "sd_inv s'" and c: "heap s' (next_addr s) = Some c"
    and e: "c = (new_client k rdstls (v, cid, t))\<lparr>cl_last_activity_us := cl_last_activity_us c\<rparr>"
    and q: "pending_clients s' = filter (\<lambda>a. \<not> stale_at now s a) (pending_clients s) @ [next_addr s]"
    by auto
  have f: "cl_id c = cid" "cl_token c = t" "cl_connection c = Some k"
    by (subst e, simp add: new_client_def)+
  have r: "remote_clients s' cid = Some (next_addr s)" using i c f(1) by (auto simp: sd_inv_def registered_def)
  have "\<exists>w. ascii_string_to_unsigned t 1 G_MAXUINT32 = Some w \<and> get_id_from_routing_token w = Some cid"
  proof (cases "drd_system_daemon_generate_remote_identity rs s = Some (cid, t)")
    case True
    then obtain w where w: "w \<in> set rs" "get_id_from_routing_token w = Some cid" "t = decimal w"
      using generate_fresh by blast
    then have "0 < w" "w \<le> G_MAXUINT32"
      using assms(4) by (auto simp: get_id_from_routing_token_def list_all_iff split: if_splits)
    with parse_decimal [of w] w show ?thesis by auto
  next
    case False
    then show ?thesis using assms(2)
      by (auto simp: choose_identity_def Let_def split: option.splits if_splits)
  qed
  then have "drd_system_daemon_find_client_by_token t s' = Some (next_addr s)"
    using r by (auto simp: drd_system_daemon_find_client_by_token_def)
  with c f q show ?thesis by auto
qed

theorem registered_token_found_witness:
  "\<exists>s' a c. drd_system_daemon_find_client_by_token ''5'' s' = Some a \<and> heap s' a = Some c \<and>
     cl_connection c = Some 0"
proof -
  obtain i where i: "choose_identity [5] None drd_system_daemon_init = Some (0, i, ''5'')"
  proof -
    have "map_option (\<lambda>(v, cid, t). (v, t)) (choose_identity [5] None drd_system_daemon_init) = Some (0, ''5'')"
      by code_simp
    then show thesis by (auto intro: that)
  qed
  have "map_option snd (drd_system_daemon_register_client 1 [5] 0 False None drd_system_daemon_init) = Some True"
    by code_simp
  then obtain s' where
    r: "drd_system_daemon_register_client 1 [5] 0 False None drd_system_daemon_init = Some (s', True)"
    by auto
  have "list_all (\<lambda>r. r \<le> G_MAXUINT32) [5]" by (simp add: G_MAXUINT32_def)
  from registered_token_found [OF sd_reachable.start i r this] show ?thesis by blast
qed

end
