(* ===== verification/System_Daemon_Service.thy ===== *)
theory System_Daemon_Service
  imports System_Daemon_Safety Rdp_Accept Rdp_Peer_Settings
begin

text \<open>
  The system daemon as a service (\<^verbatim>\<open>src/system/drd_system_daemon.c\<close>): its listener, its place on
  the system bus, its main loop, and the hand-over registry between them. A start brings up the
  listener and then the bus, and takes everything down again when the bus refuses.

  The daemon's listener lives in the world of \<open>Rdp_Listener\<close>; \<open>dv_listener\<close> says whether the
  pointer is set. GDBus's answers are parameters. The daemon holds a reference on itself as
  long as it owns its bus name; that name's destroy notifier, which GDBus runs from the main
  loop, gives it back.
\<close>

subsection \<open>State\<close>

record daemon_service =
  dv_registry :: system_daemon
  dv_world :: listener_world
  dv_listener :: bool
  dv_config :: config
  dv_tls :: bool
  dv_dispatcher :: bool
  dv_owner_id :: nat
  dv_connection :: bool
  dv_main_loop :: "bool option"  \<comment> \<open>the main loop, and whether it runs\<close>
  dv_refs :: nat

datatype bus_event =
    Bus_own_name | Bus_unown_name
  | Dispatcher_export | Dispatcher_unexport
  | Manager_connected | Manager_disconnected
  | Main_loop_quit

record bus_answers =
  bu_connect :: "unit res"
  bu_owner_id :: nat
  bu_export :: "unit res"

text \<open>The constructor; the registry is the one of \<open>drd_system_daemon_init\<close>. The world holds the
  runtime that is passed in, and is where the listener will live.\<close>

definition drd_system_daemon_new :: "config \<Rightarrow> listener_world \<Rightarrow> bool \<Rightarrow> daemon_service" where
  "drd_system_daemon_new config world tls_credentials =
     \<lparr>dv_registry = drd_system_daemon_init, dv_world = world, dv_listener = False,
      dv_config = config, dv_tls = tls_credentials, dv_dispatcher = False, dv_owner_id = 0,
      dv_connection = False, dv_main_loop = None, dv_refs = 1\<rparr>"

definition drd_system_daemon_set_main_loop :: "bool option \<Rightarrow> daemon_service \<Rightarrow> daemon_service" where
  "drd_system_daemon_set_main_loop loop self = self\<lparr>dv_main_loop := loop\<rparr>"

definition drd_system_daemon_load_tls_material ::
    "daemon_service \<Rightarrow> (string option \<times> string option) res" where
  "drd_system_daemon_load_tls_material self =
     (if \<not> dv_tls self then fail_io IoFailed
      else drd_tls_credentials_read_material True True (lw_tls (dv_world self)))"

subsection \<open>Taking down\<close>

definition drd_system_daemon_request_shutdown :: "daemon_service \<Rightarrow> daemon_service \<times> bus_event list" where
  "drd_system_daemon_request_shutdown self =
     (if dv_main_loop self = Some True
      then (self\<lparr>dv_main_loop := Some False\<rparr>, [Main_loop_quit]) else (self, []))"

definition drd_system_daemon_on_bus_name_lost :: "daemon_service \<Rightarrow> daemon_service \<times> bus_event list" where
  "drd_system_daemon_on_bus_name_lost self = drd_system_daemon_request_shutdown self"

definition drd_system_daemon_reset_bus_context :: "daemon_service \<Rightarrow> daemon_service \<times> bus_event list" where
  "drd_system_daemon_reset_bus_context self =
     (let reg = dv_registry self;
          e1 = (if bus_ready reg then [Manager_disconnected] else []);
          s1 = (if bus_ready reg
            then self\<lparr>dv_registry := reg\<lparr>bus_ready := False, exported := {}\<rparr>\<rparr> else self);
          e2 = (if dv_dispatcher s1 then [Dispatcher_unexport] else []);
          s2 = s1\<lparr>dv_dispatcher := False\<rparr>;
          e3 = (if dv_owner_id s2 \<noteq> 0 then [Bus_unown_name] else []);
          s3 = (if dv_owner_id s2 \<noteq> 0
            then s2\<lparr>dv_owner_id := 0, dv_refs := dv_refs s2 - 1\<rparr> else s2)
      in (s3\<lparr>dv_connection := False\<rparr>, e1 @ e2 @ e3))"

text \<open>Dropping the last reference of the listener disposes of it.\<close>

definition release_listener :: "listener_world \<Rightarrow> listener_world" where
  "release_listener w = (let w1 = drd_rdp_listener_dispose w
     in w1\<lparr>lw_listener := drd_rdp_listener_finalize (lw_listener w1)\<rparr>)"

definition drd_system_daemon_stop_listener :: "daemon_service \<Rightarrow> daemon_service" where
  "drd_system_daemon_stop_listener self =
     (if dv_listener self
      then self\<lparr>dv_world := release_listener (drd_rdp_listener_stop (dv_world self)),
                dv_listener := False\<rparr>
      else self)"

text \<open>\<open>drd_system_daemon_stop\<close> of \<open>System_Daemon\<close> is its part on the registry.\<close>

definition drd_system_daemon_stop_service ::
    "daemon_service \<Rightarrow> (daemon_service \<times> bus_event list) option" where
  "drd_system_daemon_stop_service self =
     (let (s1, e1) = drd_system_daemon_reset_bus_context self;
          s2 = drd_system_daemon_stop_listener s1
      in map_option (\<lambda>reg.
           let (s3, e3) = drd_system_daemon_request_shutdown (s2\<lparr>dv_registry := reg\<rparr>)
           in (s3, e1 @ e3))
         (drd_system_daemon_stop (dv_registry s2)))"

definition drd_system_daemon_dispose ::
    "daemon_service \<Rightarrow> (daemon_service \<times> bus_event list) option" where
  "drd_system_daemon_dispose self =
     map_option (\<lambda>(s, e). (s\<lparr>dv_tls := False, dv_main_loop := None\<rparr>, e))
       (drd_system_daemon_stop_service self)"

subsection \<open>Bringing up\<close>

definition drd_system_daemon_start_listener ::
    "bind_answers \<Rightarrow> daemon_service \<Rightarrow> daemon_service \<times> unit res" where
  "drd_system_daemon_start_listener ba self =
     (if dv_listener self then (self, ok)
      else let cfg = dv_config self; w = dv_world self in
      case drd_rdp_listener_new (drd_config_get_bind_address cfg) (drd_config_get_port cfg)
             (drd_config_get_encoding_options cfg) (drd_config_is_nla_enabled cfg)
             (drd_config_get_nla_username cfg) (drd_config_get_nla_password cfg)
             (drd_config_get_pam_service cfg) RUNTIME_MODE_SYSTEM of
        None \<Rightarrow> (self, fail_io IoFailed)
      | Some l \<Rightarrow>
        (case drd_rdp_listener_start ba l of
           (l1, Inl e) \<Rightarrow> (self\<lparr>dv_world := release_listener (w\<lparr>lw_listener := l1\<rparr>)\<rparr>, Inl e)
         | (l1, Inr _) \<Rightarrow>
           (self\<lparr>dv_world := w\<lparr>lw_listener := drd_rdp_listener_set_session_callback True
                  (drd_rdp_listener_set_delegate True l1)\<rparr>,
                 dv_listener := True\<rparr>, ok)))"

text \<open>\<open>None\<close> is the failed assertion of a bus that is already connected.\<close>

definition drd_system_daemon_start_bus ::
    "bus_answers \<Rightarrow> daemon_service \<Rightarrow> (daemon_service \<times> bus_event list \<times> unit res) option" where
  "drd_system_daemon_start_bus bus self =
     (if dv_connection self then None
      else case bu_connect bus of
        Inl e \<Rightarrow> Some (self, [], Inl e)
      | Inr _ \<Rightarrow>
        let s1 = self\<lparr>dv_connection := True, dv_refs := dv_refs self + 1,
                      dv_owner_id := bu_owner_id bus\<rparr> in
        if bu_owner_id bus = 0
        then Some (s1\<lparr>dv_refs := dv_refs s1 - 1\<rparr>, [], fail_io IoFailed)
        else let s2 = s1\<lparr>dv_dispatcher := True\<rparr> in
        case bu_export bus of
          Inl e \<Rightarrow> Some (s2, [Bus_own_name], Inl e)
        | Inr _ \<Rightarrow>
          Some (s2\<lparr>dv_registry := (dv_registry s2)\<lparr>bus_ready := True\<rparr>\<rparr>,
                [Bus_own_name, Dispatcher_export, Manager_connected], ok))"

definition drd_system_daemon_start ::
    "bind_answers \<times> bus_answers \<Rightarrow> daemon_service \<Rightarrow>
     (daemon_service \<times> bus_event list \<times> unit res) option" where
  "drd_system_daemon_start ans self =
     (case drd_system_daemon_start_listener (fst ans) self of
        (s1, Inl e) \<Rightarrow> Some (s1, [], Inl e)
      | (s1, Inr _) \<Rightarrow>
        if dv_connection s1 then Some (s1, [], ok)
        else map_option (\<lambda>(s2, ev, r).
          case r of
            Inr _ \<Rightarrow> (s2, ev, ok)
          | Inl e \<Rightarrow>
            let (s3, ev3) = drd_system_daemon_reset_bus_context (drd_system_daemon_stop_listener s2)
            in (s3, ev @ ev3, Inl e))
          (drd_system_daemon_start_bus (snd ans) s1))"

subsection \<open>Up and down\<close>

definition daemon_up :: "daemon_service \<Rightarrow> bool" where
  "daemon_up s \<longleftrightarrow> (let l = lw_listener (dv_world s) in
     dv_listener s \<and> li_is_bound l \<and> li_delegate l \<and> li_session_cb l \<and> li_cancellable l \<and>
     li_runtime_mode l = RUNTIME_MODE_SYSTEM \<and>
     dv_connection s \<and> dv_owner_id s \<noteq> 0 \<and> dv_dispatcher s \<and> bus_ready (dv_registry s) \<and>
     dv_refs s = 2)"

definition daemon_down :: "daemon_service \<Rightarrow> bool" where
  "daemon_down s \<longleftrightarrow> \<not> dv_listener s \<and> \<not> dv_connection s \<and> dv_owner_id s = 0 \<and>
     \<not> dv_dispatcher s \<and> \<not> bus_ready (dv_registry s) \<and> dv_refs s = 1"

datatype daemon_op =
    Daemon_start "bind_answers \<times> bus_answers"
  | Daemon_stop
  | Bus_name_lost
  | Set_main_loop "bool option"
  | Registry sd_op

fun registry_op :: "sd_op \<Rightarrow> bool" where
  "registry_op Bus_started = False"
| "registry_op Stopped = False"
| "registry_op p = True"

fun run_daemon :: "daemon_op \<Rightarrow> daemon_service \<Rightarrow> daemon_service option" where
  "run_daemon (Daemon_start ans) s = map_option fst (drd_system_daemon_start ans s)"
| "run_daemon Daemon_stop s = map_option fst (drd_system_daemon_stop_service s)"
| "run_daemon Bus_name_lost s = Some (fst (drd_system_daemon_on_bus_name_lost s))"
| "run_daemon (Set_main_loop l) s = Some (drd_system_daemon_set_main_loop l s)"
| "run_daemon (Registry p) s =
     map_option (\<lambda>reg. s\<lparr>dv_registry := reg\<rparr>) (run_sd p (dv_registry s))"

fun daemon_op_ok :: "daemon_op \<Rightarrow> daemon_service \<Rightarrow> bool" where
  "daemon_op_ok (Registry p) s = (registry_op p \<and> follows_protocol p (dv_registry s))"
| "daemon_op_ok p s = True"

inductive daemon_reachable :: "daemon_service \<Rightarrow> bool" where
  start: "daemon_reachable (drd_system_daemon_new config world tls)"
| step: "daemon_reachable s \<Longrightarrow> daemon_op_ok p s \<Longrightarrow> run_daemon p s = Some t \<Longrightarrow> daemon_reachable t"

text \<open>The handlers of the registry leave the bus alone.\<close>

named_theorems bus_frame

lemma free_bus: "drd_remote_client_free a s = Some t \<Longrightarrow> bus_ready t = bus_ready s"
  by (cases "client_at s a") (auto simp: drd_remote_client_free_def Let_def)

lemma registry_remove_bus: "registry_remove cid s = Some t \<Longrightarrow> bus_ready t = bus_ready s"
  by (cases "remote_clients s cid") (auto simp: registry_remove_def dest: free_bus)

lemma remove_client_bus [bus_frame]:
  assumes "drd_system_daemon_remove_client a s = Some t" shows "bus_ready t = bus_ready s"
proof -
  note un = assms [unfolded drd_system_daemon_remove_client_def Let_def]
  obtain c where c: "client_at (drd_system_daemon_unqueue_client a s) a = Some c"
    using un by (auto simp: bind_eq_Some_conv)
  show ?thesis
    using un c by (auto simp: drd_system_daemon_unqueue_client_def put_client_def dest!: registry_remove_bus split: if_splits)
qed

lemma prune_loop_bus: "prune_loop now as s = Some t \<Longrightarrow> bus_ready t = bus_ready s"
proof (induction now as s rule: prune_loop.induct)
  case (2 now a as self)
  obtain c u where c: "client_at self a = Some c"
    and u: "(if client_stale now c then drd_system_daemon_remove_client a self else Some self) = Some u"
    and t: "prune_loop now as u = Some t"
    using "2.prems" by (auto simp: bind_eq_Some_conv)
  have "bus_ready u = bus_ready self" using u remove_client_bus by (cases "client_stale now c") auto
  then show ?case using "2.IH" [OF c u t] by simp
qed simp

lemma prune_bus [bus_frame]:
  "drd_system_daemon_prune_stale_pending_clients now s = Some t \<Longrightarrow> bus_ready t = bus_ready s"
  by (simp add: drd_system_daemon_prune_stale_pending_clients_def prune_loop_bus)

lemma touch_bus [bus_frame]:
  "drd_system_daemon_touch_client now a s = Some t \<Longrightarrow> bus_ready t = bus_ready s"
  by (auto simp: drd_system_daemon_touch_client_def client_at_def put_client_def bind_eq_Some_conv)

lemma queue_client_bus [bus_frame]:
  "drd_system_daemon_queue_client now a s = Some (t, b) \<Longrightarrow> bus_ready t = bus_ready s"
  by (auto simp: drd_system_daemon_queue_client_def client_at_def put_client_def Let_def
      bind_eq_Some_conv split: if_splits dest: prune_bus)

lemma registry_replace_bus [bus_frame]:
  "registry_replace cid a s = Some t \<Longrightarrow> bus_ready t = bus_ready s"
  by (auto simp: registry_replace_def bind_eq_Some_conv dest: registry_remove_bus)

lemma register_client_bus [bus_frame]:
  assumes "drd_system_daemon_register_client now rs k rdstls token s = Some (t, b)"
  shows "bus_ready t = bus_ready s"
proof -
  define s3 where "s3 c a = (let s1 = (put_client a c s)\<lparr>next_addr := Suc a\<rparr>;
      s2 = (if bus_ready s1 then s1\<lparr>exported := insert (cl_id c) (exported s1)\<rparr> else s1)
    in s2\<lparr>conn_client := (conn_client s2)(k \<mapsto> a), keep_open := insert k (keep_open s2)\<rparr>)" for c a
  have s3: "bus_ready (s3 c a) = bus_ready s" for c a by (simp add: s3_def Let_def put_client_def)
  note un = assms [unfolded drd_system_daemon_register_client_def]
  obtain ident where ident: "choose_identity rs token s = Some ident"
    using un by (auto simp: bind_eq_Some_conv)
  define c where "c = new_client k rdstls ident"
  define a where "a = next_addr s"
  note un1 = un [unfolded ident bind.bind_lunit, unfolded Let_def, folded c_def a_def,
      folded s3_def [unfolded Let_def]]
  obtain s4 where r: "registry_replace (cl_id c) a (s3 c a) = Some s4"
    using un1 by (auto simp: bind_eq_Some_conv)
  obtain s5 q where q: "drd_system_daemon_queue_client now a s4 = Some (s5, q)"
    using un1 r by (auto simp: bind_eq_Some_conv)
  have e: "if q then t = s5 else drd_system_daemon_remove_client a s5 = Some t"
    using un1 r q by (auto simp: bind_eq_Some_conv split: if_splits)
  show ?thesis
    using registry_replace_bus [OF r] queue_client_bus [OF q] s3 e remove_client_bus [of a s5 t]
    by (simp split: if_splits)
qed

lemma delegate_bus:
  assumes "drd_system_daemon_delegate now rs k peeked s = Some (t, ev, b)"
  shows "bus_ready t = bus_ready s"
proof (cases peeked)
  case (Inr p)
  obtain rdstls token where p: "p = (rdstls, token)" by (cases p)
  note un = assms [unfolded drd_system_daemon_delegate_def Inr p sum.case prod.case]
  obtain e where e: "(case token of None \<Rightarrow> Some None
            | Some t \<Rightarrow> (case drd_system_daemon_find_client_by_token t s of
                None \<Rightarrow> Some None
              | Some a \<Rightarrow> map_option (\<lambda>c. if cl_session c = None then Some (a, c) else None)
                  (client_at s a))) = Some e"
    using un by (auto simp: bind_eq_Some_conv)
  show ?thesis
  proof (cases e)
    case None
    then show ?thesis using un e by (auto simp: bind_eq_Some_conv dest: register_client_bus)
  next
    case (Some q)
    obtain a c where "q = (a, c)" by (cases q)
    then show ?thesis using un e Some
      by (auto simp: bind_eq_Some_conv put_client_def dest!: touch_bus)
  qed
qed (use assms in \<open>simp add: drd_system_daemon_delegate_def\<close>)

lemma session_ready_bus:
  assumes "drd_system_daemon_on_session_ready now sess mstsc options resolution k s = Some (t, ev)"
  shows "bus_ready t = bus_ready s"
proof -
  have final: "bus_ready t = bus_ready s"
    if "Option.bind (drd_system_daemon_touch_client now a (put_client a c2 (put_client a c1 s)))
      (\<lambda>u. Some (u, e)) = Some (t, ev)" for a c1 c2 e
    using that by (auto simp: bind_eq_Some_conv put_client_def dest!: touch_bus)
  note un = assms [unfolded drd_system_daemon_on_session_ready_def client_at_def Let_def]
  show ?thesis
  proof (cases "conn_client s k")
    case (Some a)
    then obtain c where c: "heap s a = Some c" using un by (auto simp: bind_eq_Some_conv)
    show ?thesis
    proof (cases "cl_remote_id c = 0 \<or> options = None")
      case True
      then show ?thesis using un Some c
        by (auto simp: put_client_def split: option.splits if_splits dest!: touch_bus)
    next
      case False
      then obtain w h where "options = Some (w, h)" by auto
      then show ?thesis using un Some c False final
        by (cases resolution) (auto split: if_splits)
    qed
  qed (use un in simp)
qed

lemma run_sd_bus:
  assumes "run_sd p s = Some t" "registry_op p" shows "bus_ready t = bus_ready s"
proof (cases p)
  case (Connected now rs k peeked)
  then obtain ev b where "drd_system_daemon_delegate now rs k peeked s = Some (t, ev, b)"
    using assms(1) by auto
  then show ?thesis by (rule delegate_bus)
next
  case (Session_up now sess mstsc options resolution k)
  then obtain ev where "drd_system_daemon_on_session_ready now sess mstsc options resolution k s = Some (t, ev)"
    using assms(1) by auto
  then show ?thesis by (rule session_ready_bus)
next
  case (Request_handover now)
  then obtain u r where u: "drd_system_daemon_prune_stale_pending_clients now s = Some u"
    and t: "drd_system_daemon_handle_request_handover now s = Some (t, r)"
    using assms(1) by (auto simp: drd_system_daemon_handle_request_handover_def bind_eq_Some_conv)
  then show ?thesis using prune_bus [OF u]
    by (cases "pending_clients u")
       (auto simp: drd_system_daemon_handle_request_handover_def put_client_def client_at_def Let_def
         bind_eq_Some_conv dest!: touch_bus)
next
  case (Start_handover now tls sent a)
  then show ?thesis using assms(1)
    by (cases tls) (auto simp: drd_system_daemon_on_start_handover_def put_client_def client_at_def
        bind_eq_Some_conv split: option.splits if_splits dest!: touch_bus)
next
  case (Take_client now fd_sent a)
  then show ?thesis using assms(1)
    by (auto simp: drd_system_daemon_on_take_client_def put_client_def client_at_def Let_def
        bind_eq_Some_conv split: option.splits if_splits dest!: touch_bus queue_client_bus remove_client_bus)
qed (use assms in auto)

subsection \<open>Each operation\<close>

lemma reset_bus_down:
  assumes "drd_system_daemon_reset_bus_context s = (t, ev)"
  shows "\<not> dv_connection t" "dv_owner_id t = 0" "\<not> dv_dispatcher t" "\<not> bus_ready (dv_registry t)"
    "dv_listener t = dv_listener s" "dv_main_loop t = dv_main_loop s"
    "dv_refs t = (if dv_owner_id s \<noteq> 0 then dv_refs s - 1 else dv_refs s)"
    "sd_inv (dv_registry s) \<Longrightarrow> sd_inv (dv_registry t)"
  using assms by (auto simp: drd_system_daemon_reset_bus_context_def Let_def sd_inv_def registered_def
      queue_ok_def split: if_splits)

lemma stop_listener_fields [simp]:
  "\<not> dv_listener (drd_system_daemon_stop_listener s)"
  "dv_registry (drd_system_daemon_stop_listener s) = dv_registry s"
  "dv_connection (drd_system_daemon_stop_listener s) = dv_connection s"
  "dv_owner_id (drd_system_daemon_stop_listener s) = dv_owner_id s"
  "dv_dispatcher (drd_system_daemon_stop_listener s) = dv_dispatcher s"
  "dv_refs (drd_system_daemon_stop_listener s) = dv_refs s"
  "dv_main_loop (drd_system_daemon_stop_listener s) = dv_main_loop s"
  by (auto simp: drd_system_daemon_stop_listener_def)

lemma request_shutdown_fields:
  assumes "drd_system_daemon_request_shutdown s = (t, ev)"
  shows "dv_main_loop t \<noteq> Some True" "dv_registry t = dv_registry s" "daemon_up t = daemon_up s"
    "daemon_down t = daemon_down s"
  using assms by (auto simp: drd_system_daemon_request_shutdown_def daemon_up_def daemon_down_def
      Let_def split: if_splits)

lemma started_listener:
  assumes "drd_rdp_listener_new b p opts nla u pw pam RUNTIME_MODE_SYSTEM = Some l"
    "drd_rdp_listener_start ba l = (l1, Inr x)"
  shows "li_is_bound l1" "li_cancellable l1" "li_runtime_mode l1 = RUNTIME_MODE_SYSTEM"
proof -
  have l: "li_runtime_mode l = RUNTIME_MODE_SYSTEM" "\<not> li_is_bound l" "\<not> li_cancellable l"
    using assms(1) by (auto simp: drd_rdp_listener_new_def drd_rdp_listener_init_def split: if_splits)
  then show "li_is_bound l1" "li_cancellable l1" "li_runtime_mode l1 = RUNTIME_MODE_SYSTEM"
    using assms(2) by (auto simp: drd_rdp_listener_start_def drd_rdp_listener_bind_def Let_def
        drd_rdp_listener_is_system_mode_def split: sum.splits if_splits)
qed

lemma start_listener_down:
  assumes "daemon_down s" "drd_system_daemon_start_listener ba s = (t, r)"
  shows "dv_registry t = dv_registry s"
    "if is_ok r then daemon_down (t\<lparr>dv_listener := False\<rparr>) \<and> dv_listener t \<and>
        (let l = lw_listener (dv_world t) in li_is_bound l \<and> li_delegate l \<and> li_session_cb l \<and>
         li_cancellable l \<and> li_runtime_mode l = RUNTIME_MODE_SYSTEM)
     else daemon_down t"
proof -
  let ?new = "drd_rdp_listener_new (drd_config_get_bind_address (dv_config s))
    (drd_config_get_port (dv_config s)) (drd_config_get_encoding_options (dv_config s))
    (drd_config_is_nla_enabled (dv_config s)) (drd_config_get_nla_username (dv_config s))
    (drd_config_get_nla_password (dv_config s)) (drd_config_get_pam_service (dv_config s))
    RUNTIME_MODE_SYSTEM"
  have "\<not> dv_listener s" using assms(1) by (simp add: daemon_down_def)
  note un = assms(2) [unfolded drd_system_daemon_start_listener_def Let_def, unfolded if_not_P [OF this]]
  have both: "dv_registry t = dv_registry s \<and> (if is_ok r then daemon_down (t\<lparr>dv_listener := False\<rparr>) \<and>
        dv_listener t \<and> (let l = lw_listener (dv_world t) in li_is_bound l \<and> li_delegate l \<and>
         li_session_cb l \<and> li_cancellable l \<and> li_runtime_mode l = RUNTIME_MODE_SYSTEM)
     else daemon_down t)"
  proof (cases ?new)
    case None
    then show ?thesis using un assms(1) by auto
  next
    case (Some l)
    obtain l1 r1 where st: "drd_rdp_listener_start ba l = (l1, r1)" by (metis surj_pair)
    show ?thesis
    proof (cases r1)
      case (Inl e)
      then show ?thesis using un Some st assms(1) by (auto simp: daemon_down_def)
    next
      case (Inr x)
      note l1 = started_listener [OF Some st [unfolded Inr]]
      show ?thesis using un Some st Inr l1 assms(1)
        by (auto simp: daemon_down_def drd_rdp_listener_set_session_callback_def
            drd_rdp_listener_set_delegate_def Let_def)
    qed
  qed
  then show "dv_registry t = dv_registry s"
    "if is_ok r then daemon_down (t\<lparr>dv_listener := False\<rparr>) \<and> dv_listener t \<and>
        (let l = lw_listener (dv_world t) in li_is_bound l \<and> li_delegate l \<and> li_session_cb l \<and>
         li_cancellable l \<and> li_runtime_mode l = RUNTIME_MODE_SYSTEM)
     else daemon_down t" by blast+
qed

lemma start_bus_answers: "\<not> dv_connection s \<Longrightarrow> \<exists>t ev r. drd_system_daemon_start_bus bus s = Some (t, ev, r)"
  by (auto simp: drd_system_daemon_start_bus_def Let_def split: sum.splits)

lemma start_bus_fields:
  assumes "drd_system_daemon_start_bus bus s = Some (t, ev, r)"
  shows "dv_listener t = dv_listener s" "dv_world t = dv_world s"
    "dv_refs t = (if dv_owner_id t \<noteq> 0 then dv_refs s + 1 else dv_refs s) \<or>
      dv_owner_id t = dv_owner_id s \<and> dv_refs t = dv_refs s"
    "is_ok r \<Longrightarrow> dv_connection t \<and> dv_owner_id t \<noteq> 0 \<and> dv_dispatcher t \<and> bus_ready (dv_registry t)"
    "dv_registry t = dv_registry s \<or> dv_registry t = (dv_registry s)\<lparr>bus_ready := True\<rparr>"
proof -
  have conn: "\<not> dv_connection s" using assms by (auto simp: drd_system_daemon_start_bus_def)
  let ?q = "dv_listener t = dv_listener s \<and> dv_world t = dv_world s \<and>
    (dv_refs t = (if dv_owner_id t \<noteq> 0 then dv_refs s + 1 else dv_refs s) \<or>
      dv_owner_id t = dv_owner_id s \<and> dv_refs t = dv_refs s) \<and>
    (is_ok r \<longrightarrow> dv_connection t \<and> dv_owner_id t \<noteq> 0 \<and> dv_dispatcher t \<and> bus_ready (dv_registry t)) \<and>
    (dv_registry t = dv_registry s \<or> dv_registry t = (dv_registry s)\<lparr>bus_ready := True\<rparr>)"
  have t: "t = fst (the (drd_system_daemon_start_bus bus s))"
    "r = snd (snd (the (drd_system_daemon_start_bus bus s)))" by (simp_all add: assms)
  have ?q unfolding t
    by (cases "bu_connect bus"; cases "bu_export bus"; cases "bu_owner_id bus = 0";
        simp add: drd_system_daemon_start_bus_def Let_def conn)
  then show "dv_listener t = dv_listener s" "dv_world t = dv_world s"
    "dv_refs t = (if dv_owner_id t \<noteq> 0 then dv_refs s + 1 else dv_refs s) \<or>
      dv_owner_id t = dv_owner_id s \<and> dv_refs t = dv_refs s"
    "is_ok r \<Longrightarrow> dv_connection t \<and> dv_owner_id t \<noteq> 0 \<and> dv_dispatcher t \<and> bus_ready (dv_registry t)"
    "dv_registry t = dv_registry s \<or> dv_registry t = (dv_registry s)\<lparr>bus_ready := True\<rparr>"
    by blast+
qed

lemma start_outcome:
  assumes "sd_inv (dv_registry s)" "daemon_up s \<or> daemon_down s"
  shows "\<exists>t ev r. drd_system_daemon_start ans s = Some (t, ev, r) \<and> sd_inv (dv_registry t) \<and>
    (if is_ok r then daemon_up t else daemon_down t)"
proof (cases "daemon_up s")
  case True
  then show ?thesis using assms(1)
    by (auto simp: drd_system_daemon_start_def drd_system_daemon_start_listener_def daemon_up_def Let_def)
next
  case False
  then have down: "daemon_down s" using assms(2) by simp
  obtain s1 r1 where l: "drd_system_daemon_start_listener (fst ans) s = (s1, r1)" by (metis surj_pair)
  note d = start_listener_down [OF down l]
  show ?thesis
  proof (cases r1)
    case (Inl e)
    then show ?thesis using l d assms(1) by (simp add: drd_system_daemon_start_def)
  next
    case (Inr x)
    have conn: "\<not> dv_connection s1" and own: "dv_owner_id s1 = 0" and refs: "dv_refs s1 = 1"
      using d Inr by (simp_all add: daemon_down_def)
    obtain t ev r where b: "drd_system_daemon_start_bus (snd ans) s1 = Some (t, ev, r)"
      using start_bus_answers [OF conn] by blast
    note f = start_bus_fields [OF b]
    have rt: "dv_refs t = (if dv_owner_id t \<noteq> 0 then 2 else 1)" using f(3) own refs by auto
    have inv: "sd_inv (dv_registry t)"
      using f(5) d(1) assms(1) by (auto simp: sd_inv_def registered_def queue_ok_def)
    show ?thesis
    proof (cases r)
      case (Inl e)
      obtain u ev3 where u: "drd_system_daemon_reset_bus_context (drd_system_daemon_stop_listener t) = (u, ev3)"
        by (metis surj_pair)
      have run: "drd_system_daemon_start ans s = Some (u, ev @ ev3, Inl e)"
        using l Inr conn b Inl u by (simp add: drd_system_daemon_start_def)
      show ?thesis
        unfolding run using reset_bus_down [OF u] rt inv by (simp add: daemon_down_def)
    next
      case (Inr y)
      then have run: "drd_system_daemon_start ans s = Some (t, ev, ok)"
        using l \<open>r1 = Inr x\<close> conn b by (simp add: drd_system_daemon_start_def)
      show ?thesis
        unfolding run using Inr f(1,2,4) d(2) \<open>r1 = Inr x\<close> rt inv
        by (simp add: daemon_up_def Let_def)
    qed
  qed
qed

lemma sd_stop_down:
  assumes "sd_inv reg" "\<not> bus_ready reg" "drd_system_daemon_stop reg = Some t"
  shows "\<not> bus_ready t" "remote_clients t = Map.empty" "pending_clients t = []"
proof -
  have frame: "free_registered as u = Some v \<Longrightarrow> bus_ready v = bus_ready u" for as u v
    by (induction as u rule: free_registered.induct)
       (auto simp: bind_eq_Some_conv drd_remote_client_free_def client_at_def clear_connection_data_def
         Let_def split: option.splits if_splits)
  show "\<not> bus_ready t" "remote_clients t = Map.empty" "pending_clients t = []"
    using assms(3) frame by (auto simp: drd_system_daemon_stop_def bind_eq_Some_conv)
qed

lemma stop_outcome:
  assumes "sd_inv (dv_registry s)" "daemon_up s \<or> daemon_down s"
  shows "\<exists>t ev. drd_system_daemon_stop_service s = Some (t, ev) \<and> sd_inv (dv_registry t) \<and>
    daemon_down t \<and> remote_clients (dv_registry t) = Map.empty \<and> pending_clients (dv_registry t) = [] \<and>
    dv_main_loop t \<noteq> Some True"
proof -
  obtain s1 e1 where r: "drd_system_daemon_reset_bus_context s = (s1, e1)" by (metis surj_pair)
  note d = reset_bus_down [OF r]
  obtain reg where reg: "drd_system_daemon_stop (dv_registry s1) = Some reg" "sd_inv reg"
    using stop_ok [OF d(8) [OF assms(1)]] by blast
  note sd = sd_stop_down [OF d(8) [OF assms(1)] d(4) reg(1)]
  obtain t e3 where t: "drd_system_daemon_request_shutdown
      ((drd_system_daemon_stop_listener s1)\<lparr>dv_registry := reg\<rparr>) = (t, e3)" by (metis surj_pair)
  note q = request_shutdown_fields [OF t]
  have "dv_refs s1 = 1" using d(7) assms(2) by (auto simp: daemon_up_def daemon_down_def Let_def)
  then have "daemon_down t" using q(4) d(1-5) sd(1) by (simp add: daemon_down_def)
  moreover have "drd_system_daemon_stop_service s = Some (t, e1 @ e3)"
    using r reg(1) t by (simp add: drd_system_daemon_stop_service_def)
  ultimately show ?thesis using q(1,2) reg(2) sd by simp
qed

lemma daemon_reachable_inv:
  "daemon_reachable s \<Longrightarrow> sd_inv (dv_registry s) \<and> (daemon_up s \<or> daemon_down s)"
proof (induction rule: daemon_reachable.induct)
  case (start config world tls)
  have "sd_inv drd_system_daemon_init" by (rule sd_reachable_inv [OF sd_reachable.start])
  then show ?case
    by (simp add: drd_system_daemon_new_def daemon_down_def) (simp add: drd_system_daemon_init_def)
next
  case (step s p t)
  show ?case
  proof (cases p)
    case (Daemon_start ans)
    then show ?thesis using start_outcome [of s ans] step by (auto split: if_splits)
  next
    case Daemon_stop
    then show ?thesis using stop_outcome [of s] step by auto
  next
    case Bus_name_lost
    obtain u ev where u: "drd_system_daemon_request_shutdown s = (u, ev)" by (metis surj_pair)
    then have "t = u" using step Bus_name_lost by (simp add: drd_system_daemon_on_bus_name_lost_def)
    then show ?thesis using request_shutdown_fields [OF u] step by simp
  next
    case (Set_main_loop l)
    then show ?thesis using step
      by (auto simp: drd_system_daemon_set_main_loop_def daemon_up_def daemon_down_def)
  next
    case (Registry q)
    then obtain reg where reg: "run_sd q (dv_registry s) = Some reg" "t = s\<lparr>dv_registry := reg\<rparr>"
      using step by auto
    have "sd_inv reg" using run_ok [of "dv_registry s" q] step Registry reg by auto
    moreover have "bus_ready reg = bus_ready (dv_registry s)"
      using run_sd_bus [OF reg(1)] step Registry by simp
    ultimately show ?thesis using step reg(2) by (simp add: daemon_up_def daemon_down_def)
  qed
qed

subsection \<open>Properties\<close>

text \<open>
  C15: the system daemon is up or down, never in between: whatever was started, refused, stopped,
  registered or handed over before, a start either has its listener bound with the delegate and
  the session callback set, and its bus name, dispatcher and object manager on the bus, or it
  has none of them and gave every reference back; and a stop always takes everything down,
  forgets all clients without touching a freed one, and leaves the main loop.
\<close>

theorem system_daemon_all_or_nothing:
  assumes "daemon_reachable s"
  shows "(\<exists>t ev r. drd_system_daemon_start ans s = Some (t, ev, r) \<and>
      (if is_ok r then daemon_up t else daemon_down t)) \<and>
    (\<exists>t ev. drd_system_daemon_stop_service s = Some (t, ev) \<and> daemon_down t \<and>
      remote_clients (dv_registry t) = Map.empty \<and> pending_clients (dv_registry t) = [] \<and>
      dv_main_loop t \<noteq> Some True)"
  using daemon_reachable_inv [OF assms] start_outcome [of s ans] stop_outcome [of s] by blast

definition sample_system_config :: config where
  "sample_system_config = \<lparr>cf_bind_address = None, cf_port = 3390, cf_certificate_path = None,
     cf_private_key_path = None, cf_nla_username = None, cf_nla_password = None, cf_base_dir = None,
     cf_nla_enabled = False, cf_runtime_mode = RUNTIME_MODE_SYSTEM, cf_pam_service = Some ''drd'',
     cf_pam_service_overridden = False, cf_encoding = witness_options, cf_capture_target_fps = 60,
     cf_capture_stats_interval_sec = 5\<rparr>"

definition good_bus :: "bind_answers \<times> bus_answers" where
  "good_bus = (\<lparr>ba_any_port = ok, ba_parse = True, ba_address = ok\<rparr>,
     \<lparr>bu_connect = ok, bu_owner_id = 7, bu_export = ok\<rparr>)"

theorem system_daemon_all_or_nothing_witness:
  "\<exists>t ev. drd_system_daemon_start good_bus (drd_system_daemon_new sample_system_config sample_world True) =
     Some (t, ev, ok) \<and> daemon_up t"
proof -
  let ?s = "drd_system_daemon_new sample_system_config sample_world True"
  obtain t ev r where run: "drd_system_daemon_start good_bus ?s = Some (t, ev, r)"
    and up: "if is_ok r then daemon_up t else daemon_down t"
    using system_daemon_all_or_nothing [OF daemon_reachable.start, of good_bus] by blast
  have "\<exists>t ev. drd_system_daemon_start good_bus ?s = Some (t, ev, ok)"
    by (simp add: good_bus_def drd_system_daemon_start_def drd_system_daemon_start_listener_def
        drd_system_daemon_new_def sample_system_config_def drd_rdp_listener_new_def empty_arg_def
        drd_config_get_bind_address_def drd_config_get_port_def drd_config_get_encoding_options_def
        drd_config_is_nla_enabled_def drd_config_get_nla_username_def drd_config_get_nla_password_def
        drd_config_get_pam_service_def drd_rdp_listener_init_def drd_rdp_listener_start_def
        drd_rdp_listener_bind_def drd_rdp_listener_is_system_mode_def drd_system_daemon_start_bus_def)
  with run up show ?thesis by auto
qed

end
