(* ===== verification/X11_Capture_Thread.thy ===== *)
theory X11_Capture_Thread
  imports X11_Capture
begin

text \<open>
  The capture thread of \<^verbatim>\<open>src/capture/drd_x11_capture.c\<close>: what it pushes (exact copies of the
  shared image), how it paces itself, and the protocol by which \<open>drd_x11_capture_stop\<close> asks it
  to leave through the wake-up pipe.
\<close>

subsection \<open>One iteration\<close>

text \<open>The shared segment holds at least the bytes of the image, as \<open>prepare_display\<close> sized it.\<close>

definition image_sized :: "x11_capture \<Rightarrow> loop_inputs \<Rightarrow> bool" where
  "image_sized self inp = (case cx_image self of None \<Rightarrow> True
     | Some img \<Rightarrow> (case in_image inp of None \<Rightarrow> True
         | Some bs \<Rightarrow> bytes_per_line img * im_height img \<le> length bs))"

definition frame_copy :: "x11_capture \<Rightarrow> loop_inputs \<Rightarrow> drd_frame \<Rightarrow> bool" where
  "frame_copy self inp f \<longleftrightarrow> (\<exists>img bs. cx_image self = Some img \<and> in_image inp = Some bs \<and>
     cx_damage_event_base self + XDamageNotify \<in> set (in_events inp) \<and>
     f = \<lparr>pixels = take (bytes_per_line img * im_height img) bs,
          fr_width = word_of_nat (cx_width self), fr_height = word_of_nat (cx_height self),
          fr_stride = word_of_nat (bytes_per_line img),
          fr_timestamp = word_of_int (in_now_frame inp)\<rparr> \<and>
     length (pixels f) = bytes_per_line img * im_height img \<and> pixels f \<noteq> [])"

lemma build_frame_copy:
  assumes "bytes_per_line img * im_height img \<le> length bs"
  shows "build_frame self img inp bs = Some \<lparr>pixels = take (bytes_per_line img * im_height img) bs,
          fr_width = word_of_nat (cx_width self), fr_height = word_of_nat (cx_height self),
          fr_stride = word_of_nat (bytes_per_line img),
          fr_timestamp = word_of_int (in_now_frame inp)\<rparr>"
proof -
  let ?n = "bytes_per_line img * im_height img"
  have n: "length (take ?n bs) = ?n" using assms by simp
  show ?thesis
    using assms write_after_ensure_capacity [of "in_fresh inp" _ "take ?n bs", unfolded n]
    by (simp add: build_frame_def Let_def drd_frame_configure_def drd_frame_new_def)
qed

lemma advance_deadline_ge:
  "next_capture_deadline l + i \<le> next_capture_deadline (advance_deadline i now l) \<or> i < 0"
  "0 \<le> i \<Longrightarrow> now \<le> next_capture_deadline (advance_deadline i now l)"
  by (auto simp: advance_deadline_def Let_def)

lemma update_stats_deadline [simp]:
  "next_capture_deadline (update_stats i now l) = next_capture_deadline l"
  by (simp add: update_stats_def)

text \<open>What an iteration does to the deadline: a captured frame was due, and the next one is due
  an interval after this deadline and not before the frame was taken.\<close>

lemma capture_frame_spec:
  assumes "image_sized self inp" "cx_image self = Some img" "0 \<le> cached_target_interval_us m"
  obtains l' f where "capture_frame m self img inp l = Some (l', f)"
    "f = None \<Longrightarrow> next_capture_deadline l \<le> next_capture_deadline l'"
    "\<And>g. f = Some g \<Longrightarrow> next_capture_deadline l \<le> in_now inp \<and>
       next_capture_deadline l + cached_target_interval_us m \<le> next_capture_deadline l' \<and>
       in_now_frame inp \<le> next_capture_deadline l' \<and> frame_copy self inp g"
proof -
  let ?I = "cached_target_interval_us m"
  consider (quiet) "cx_damage_event_base self + XDamageNotify \<notin> set (in_events inp)
      \<or> in_now inp < next_capture_deadline l"
    | (failed) "cx_damage_event_base self + XDamageNotify \<in> set (in_events inp)"
        "next_capture_deadline l \<le> in_now inp" "in_image inp = None"
    | (taken) bs where "cx_damage_event_base self + XDamageNotify \<in> set (in_events inp)"
        "next_capture_deadline l \<le> in_now inp" "in_image inp = Some bs"
    by fastforce
  then show thesis
  proof cases
    case quiet
    then have "capture_frame m self img inp l = Some (l, None)"
      by (auto simp: capture_frame_def Let_def)
    then show thesis by (rule that) auto
  next
    case failed
    then have "capture_frame m self img inp l
        = Some (l\<lparr>next_capture_deadline := in_now inp + ?I\<rparr>, None)"
      by (simp add: capture_frame_def Let_def drd_capture_metrics_get_target_interval_us_def)
    then show thesis by (rule that) (use failed assms(3) in auto)
  next
    case taken
    let ?n = "bytes_per_line img * im_height img"
    have n: "?n \<le> length bs" using assms taken by (simp add: image_sized_def)
    obtain l2 where l2: "l2 = advance_deadline ?I (in_now_frame inp)
        (update_stats (drd_capture_metrics_get_stats_interval_us m) (in_now_frame inp)
           (l\<lparr>stats_frames := stats_frames l + 1\<rparr>))" by simp
    have d: "next_capture_deadline l + ?I \<le> next_capture_deadline l2"
      "in_now_frame inp \<le> next_capture_deadline l2"
      using advance_deadline_ge(1) [of _ ?I "in_now_frame inp"] advance_deadline_ge(2) [OF assms(3)]
        assms(3) unfolding l2 by (auto simp: advance_deadline_def Let_def)
    let ?f = "\<lparr>pixels = take ?n bs,
          fr_width = word_of_nat (cx_width self), fr_height = word_of_nat (cx_height self),
          fr_stride = word_of_nat (bytes_per_line img),
          fr_timestamp = word_of_int (in_now_frame inp)\<rparr> :: drd_frame"
    have "capture_frame m self img inp l = Some (l2, if ?n = 0 then None else Some ?f)"
      using taken
      by (simp add: capture_frame_def Let_def build_frame_copy [OF n] l2
          drd_capture_metrics_get_target_interval_us_def)
    then show thesis
    proof (rule that)
      assume "(if ?n = 0 then None else Some ?f) = None"
      then show "next_capture_deadline l \<le> next_capture_deadline l2" using d assms(3) by simp
    next
      fix g assume g: "(if ?n = 0 then None else Some ?f) = Some g"
      then have "?n \<noteq> 0" "g = ?f" by (auto split: if_splits)
      moreover have "frame_copy self inp ?f"
        using taken(1,3) assms(2) n \<open>?n \<noteq> 0\<close> by (auto simp: frame_copy_def)
      ultimately show "next_capture_deadline l \<le> in_now inp \<and>
          next_capture_deadline l + ?I \<le> next_capture_deadline l2 \<and>
          in_now_frame inp \<le> next_capture_deadline l2 \<and> frame_copy self inp g"
        using d taken by simp
    qed
  qed
qed

lemma iteration_spec:
  assumes "image_sized self inp" "0 \<le> cached_target_interval_us m" "0 < in_now_start inp"
    "0 \<le> next_capture_deadline l"
  obtains r l' f where "drd_x11_capture_thread_iteration m self inp l = Some (r, l', f)"
    "next_capture_deadline l \<le> next_capture_deadline l'"
    "\<And>g. f = Some g \<Longrightarrow> r = Again \<and> next_capture_deadline l \<le> in_now inp \<and>
       next_capture_deadline l + cached_target_interval_us m \<le> next_capture_deadline l' \<and>
       in_now_frame inp \<le> next_capture_deadline l' \<and> frame_copy self inp g"
proof -
  let ?l1 = "if next_capture_deadline l = 0
    then l\<lparr>next_capture_deadline := in_now_start inp\<rparr> else l"
  have l1: "next_capture_deadline l \<le> next_capture_deadline ?l1" using assms(3,4) by simp
  show thesis
  proof (cases "cx_image self")
    case None
    then show thesis
      by (intro that [of Leave l None]) (simp_all add: drd_x11_capture_thread_iteration_def)
  next
    case (Some img)
    obtain l' f where c: "capture_frame m self img inp ?l1 = Some (l', f)"
      "f = None \<Longrightarrow> next_capture_deadline ?l1 \<le> next_capture_deadline l'"
      "\<And>g. f = Some g \<Longrightarrow> next_capture_deadline ?l1 \<le> in_now inp \<and>
         next_capture_deadline ?l1 + cached_target_interval_us m \<le> next_capture_deadline l' \<and>
         in_now_frame inp \<le> next_capture_deadline l' \<and> frame_copy self inp g"
      using capture_frame_spec [OF assms(1) Some assms(2)] by metis
    consider "\<not> cx_running self \<or> \<not> cx_display self"
      | "cx_running self" "cx_display self" "in_poll inp = Poll_error"
      | "cx_running self" "cx_display self" "in_poll inp \<noteq> Poll_error"
        "wake_drained self (in_poll inp) \<and> drd_x11_capture_drain_wakeup_pipe (cx_pipe_read self)
           (0 \<le> cx_pipe_write self) (in_pipe_bytes inp) = None"
      | "cx_running self" "cx_display self" "in_poll inp \<noteq> Poll_error"
        "\<not> (wake_drained self (in_poll inp) \<and> drd_x11_capture_drain_wakeup_pipe
           (cx_pipe_read self) (0 \<le> cx_pipe_write self) (in_pipe_bytes inp) = None)"
      by blast
    then show thesis
    proof cases
      case 1
      with Some show thesis
        by (intro that [of Leave l None]) (auto simp: drd_x11_capture_thread_iteration_def)
    next
      case 2
      with Some show thesis
        by (intro that [of Again ?l1 None] l1)
           (simp_all only: drd_x11_capture_thread_iteration_def Let_def option.case simp_thms
             if_False if_True, simp_all)
    next
      case 3
      with Some show thesis
        by (intro that [of Blocked_in_read ?l1 None] l1)
           (simp_all only: drd_x11_capture_thread_iteration_def Let_def option.case simp_thms
             if_False if_True, simp_all)
    next
      case 4
      have "drd_x11_capture_thread_iteration m self inp l = Some (Again, l', f)"
        using 4 Some c(1)
        by (simp only: drd_x11_capture_thread_iteration_def Let_def option.case simp_thms
            if_False if_True option.map prod.case)
      then show thesis
        by (rule that) (use c(2,3) l1 assms(2) in \<open>cases f; fastforce\<close>)+
    qed
  qed
qed

subsection \<open>The whole run\<close>

definition paced :: "int \<Rightarrow> int \<Rightarrow> (int \<times> int \<times> drd_frame) list \<Rightarrow> bool" where
  "paced i d log \<longleftrightarrow> (\<forall>k<length log. d + int k * i \<le> fst (log ! k)) \<and>
     (\<forall>j k. j < k \<longrightarrow> k < length log \<longrightarrow>
        fst (snd (log ! j)) + int (k - j - 1) * i \<le> fst (log ! k))"

lemma paced_Nil: "paced i d []"
  by (simp add: paced_def)

lemma paced_weaken: "paced i d log \<Longrightarrow> d' \<le> d \<Longrightarrow> paced i d' log"
  by (fastforce simp: paced_def)

lemma paced_Cons:
  assumes "paced i d' log" "d \<le> t" "d + i \<le> d'" "n \<le> d'"
  shows "paced i d ((t, n, f) # log)"
  unfolding paced_def
proof (intro conjI allI impI)
  fix k assume "k < length ((t, n, f) # log)"
  then show "d + int k * i \<le> fst (((t, n, f) # log) ! k)"
    using assms by (cases k) (force simp: paced_def algebra_simps)+
next
  fix j k assume "j < k" "k < length ((t, n, f) # log)"
  then show "fst (snd (((t, n, f) # log) ! j)) + int (k - j - 1) * i
      \<le> fst (((t, n, f) # log) ! k)"
    using assms by (cases j; cases k) (force simp: paced_def)+
qed

definition logged_ok :: "(x11_capture \<times> loop_inputs) list \<Rightarrow> (int \<times> int \<times> drd_frame) list \<Rightarrow> bool" where
  "logged_ok steps log \<longleftrightarrow> (\<forall>(t, n, f)\<in>set log. \<exists>(s, inp)\<in>set steps.
     t = in_now inp \<and> n = in_now_frame inp \<and> frame_copy s inp f)"

lemma thread_run:
  assumes "\<forall>(s, inp)\<in>set steps. image_sized s inp \<and> 0 < in_now_start inp"
    "0 \<le> cached_target_interval_us m" "0 \<le> next_capture_deadline l"
  shows "\<exists>r l' log. drd_x11_capture_thread m steps l q =
      Some (r, l', fold (\<lambda>(_, _, f) q. drd_frame_queue_push q f) log q, log) \<and>
    paced (cached_target_interval_us m) (next_capture_deadline l) log \<and> logged_ok steps log"
  using assms(1,3)
proof (induction steps arbitrary: l q)
  case Nil
  then show ?case by (simp add: paced_Nil logged_ok_def)
next
  case (Cons x steps)
  obtain self inp where x: "x = (self, inp)" by (cases x)
  have pre: "image_sized self inp" "0 < in_now_start inp" using Cons.prems x by auto
  obtain r l1 f where it: "drd_x11_capture_thread_iteration m self inp l = Some (r, l1, f)"
    "next_capture_deadline l \<le> next_capture_deadline l1"
    "\<And>g. f = Some g \<Longrightarrow> r = Again \<and> next_capture_deadline l \<le> in_now inp \<and>
       next_capture_deadline l + cached_target_interval_us m \<le> next_capture_deadline l1 \<and>
       in_now_frame inp \<le> next_capture_deadline l1 \<and> frame_copy self inp g"
    using iteration_spec [OF pre(1) assms(2) pre(2) Cons.prems(2)] by metis
  have IH: "\<exists>r l' log. drd_x11_capture_thread m steps l1 q =
      Some (r, l', fold (\<lambda>(_, _, f) q. drd_frame_queue_push q f) log q, log) \<and>
    paced (cached_target_interval_us m) (next_capture_deadline l1) log \<and> logged_ok steps log" for q
    using Cons.IH [of l1 q] Cons.prems it(2) by auto
  show ?case
  proof (cases f)
    case None
    show ?thesis
    proof (cases "r = Again")
      case True
      with IH [of q] x it None show ?thesis
        by (auto simp: logged_ok_def intro: paced_weaken)
    next
      case False
      with x it None show ?thesis by (simp add: paced_Nil logged_ok_def)
    qed
  next
    case (Some g)
    from IH [of "drd_frame_queue_push q g"] obtain r' l' log where log:
      "drd_x11_capture_thread m steps l1 (drd_frame_queue_push q g) = Some (r', l',
         fold (\<lambda>(_, _, f) q. drd_frame_queue_push q f) log (drd_frame_queue_push q g), log)"
      "paced (cached_target_interval_us m) (next_capture_deadline l1) log" "logged_ok steps log"
      by blast
    have "paced (cached_target_interval_us m) (next_capture_deadline l)
        ((in_now inp, in_now_frame inp, g) # log)"
      using it(3) [OF Some] by (intro paced_Cons [OF log(2)]) auto
    moreover have "logged_ok (x # steps) ((in_now inp, in_now_frame inp, g) # log)"
      using it(3) [OF Some] log(3) x by (fastforce simp: logged_ok_def)
    ultimately show ?thesis
      using x it(1) Some log(1) by auto
  qed
qed

text \<open>The iteration captures: the thread goes on, damage was reported, the frame is due (at the
  first iteration: from its start on), and the image could be read.\<close>

definition frame_due :: "x11_capture \<Rightarrow> loop_inputs \<Rightarrow> capture_loop \<Rightarrow> bool" where
  "frame_due self inp l \<longleftrightarrow> cx_running self \<and> cx_display self \<and> in_poll inp \<noteq> Poll_error \<and>
     \<not> (wake_drained self (in_poll inp) \<and> drd_x11_capture_drain_wakeup_pipe (cx_pipe_read self)
          (0 \<le> cx_pipe_write self) (in_pipe_bytes inp) = None) \<and>
     cx_damage_event_base self + XDamageNotify \<in> set (in_events inp) \<and> in_image inp \<noteq> None \<and>
     (if next_capture_deadline l = 0 then in_now_start inp else next_capture_deadline l) \<le> in_now inp \<and>
     (\<exists>img. cx_image self = Some img \<and> 0 < bytes_per_line img * im_height img)"

lemma iteration_captures:
  assumes "image_sized self inp"
  shows "\<exists>r l' f. drd_x11_capture_thread_iteration m self inp l = Some (r, l', f) \<and>
    (if frame_due self inp l then \<exists>g. f = Some g \<and> frame_copy self inp g else f = None)"
proof (cases "cx_image self")
  case None
  then show ?thesis by (simp add: drd_x11_capture_thread_iteration_def frame_due_def)
next
  case (Some img)
  let ?l = "if next_capture_deadline l = 0
    then l\<lparr>next_capture_deadline := in_now_start inp\<rparr> else l"
  have d: "next_capture_deadline ?l = (if next_capture_deadline l = 0 then in_now_start inp
      else next_capture_deadline l)" by simp
  let ?goes = "cx_running self \<and> cx_display self \<and> in_poll inp \<noteq> Poll_error \<and>
     \<not> (wake_drained self (in_poll inp) \<and> drd_x11_capture_drain_wakeup_pipe (cx_pipe_read self)
          (0 \<le> cx_pipe_write self) (in_pipe_bytes inp) = None)"
  show ?thesis
  proof (cases ?goes)
    case False
    with Some show ?thesis
      by (auto simp: drd_x11_capture_thread_iteration_def frame_due_def Let_def)
  next
    case True
    have it: "drd_x11_capture_thread_iteration m self inp l =
        map_option (\<lambda>(l2, f). (Again, l2, f)) (capture_frame m self img inp ?l)"
      using True Some by (auto simp: drd_x11_capture_thread_iteration_def Let_def)
    have due: "frame_due self inp l \<longleftrightarrow> cx_damage_event_base self + XDamageNotify \<in> set (in_events inp) \<and>
        in_image inp \<noteq> None \<and> next_capture_deadline ?l \<le> in_now inp \<and>
        0 < bytes_per_line img * im_height img"
      unfolding frame_due_def d using True Some by auto
    show ?thesis
    proof (cases "cx_damage_event_base self + XDamageNotify \<in> set (in_events inp) \<and>
        next_capture_deadline ?l \<le> in_now inp")
      case False
      then have "capture_frame m self img inp ?l = Some (?l, None)"
        by (auto simp: capture_frame_def Let_def)
      with it due False show ?thesis by auto
    next
      case taken: True
      show ?thesis
      proof (cases "in_image inp")
        case None
        with taken have "\<exists>l2. capture_frame m self img inp ?l = Some (l2, None)"
          by (auto simp: capture_frame_def Let_def)
        with it due None show ?thesis by auto
      next
        case (Some bs)
        have n: "bytes_per_line img * im_height img \<le> length bs"
          using assms Some \<open>cx_image self = Some img\<close> by (simp add: image_sized_def)
        with taken Some have "\<exists>l2. capture_frame m self img inp ?l = Some (l2,
            if bytes_per_line img * im_height img = 0 then None
            else build_frame self img inp bs)"
          by (auto simp: capture_frame_def Let_def build_frame_copy)
        with it due taken Some n \<open>cx_image self = Some img\<close> show ?thesis
          by (auto simp: frame_copy_def build_frame_copy)
      qed
    qed
  qed
qed

lemma thread_append:
  "drd_x11_capture_thread m (xs @ ys) l q = (case drd_x11_capture_thread m xs l q of None \<Rightarrow> None
     | Some (r, l1, q1, log) \<Rightarrow> if r \<noteq> Again then Some (r, l1, q1, log)
         else map_option (\<lambda>(r2, l2, q2, log2). (r2, l2, q2, log @ log2))
                (drd_x11_capture_thread m ys l1 q1))"
proof (induction xs arbitrary: l q)
  case Nil
  then show ?case by (cases "drd_x11_capture_thread m ys l q") (auto split: prod.splits)
next
  case (Cons x xs)
  obtain self inp where x: "x = (self, inp)" by (cases x)
  show ?case
  proof (cases "drd_x11_capture_thread_iteration m self inp l")
    case None
    then show ?thesis by (simp add: x)
  next
    case (Some res)
    obtain r l1 f where res: "res = (r, l1, f)" by (cases res)
    show ?thesis
    proof (cases f)
      case None
      with Cons Some res show ?thesis by (simp add: x)
    next
      case (Some g)
      with Cons \<open>drd_x11_capture_thread_iteration m self inp l = Some res\<close> res show ?thesis
        by (auto simp: x option.map_comp comp_def intro!: option.map_cong split: option.splits prod.splits)
    qed
  qed
qed

text \<open>
  C30: The capture thread never leaves the image or the frame buffer, the queue receives
  exactly the frames of its log in order, and each of these is a byte-exact copy of the shared
  image with the geometry, the stride and the time stamp of its iteration. An iteration adds a
  frame exactly when the thread still runs, damage was reported in it, the deadline has passed and
  the image could be read: without a damage event no frame is captured, however long it is due.
\<close>

theorem captured_frames_exact:
  assumes "metrics_ok m"
    "\<forall>(s, i)\<in>set (steps @ [(self, inp)]). image_sized s i \<and> 0 < in_now_start i"
  shows "\<exists>r l' log. drd_x11_capture_thread m steps capture_loop_init q =
      Some (r, l', fold (\<lambda>(_, _, f) q. drd_frame_queue_push q f) log q, log) \<and>
    (\<forall>(t, n, f)\<in>set log. \<exists>(s, i)\<in>set steps.
       t = in_now i \<and> n = in_now_frame i \<and> frame_copy s i f) \<and>
    (r = Again \<longrightarrow> (\<exists>r2 l2 new. drd_x11_capture_thread m (steps @ [(self, inp)]) capture_loop_init q =
        Some (r2, l2, fold (\<lambda>(_, _, f) q. drd_frame_queue_push q f) (log @ new) q, log @ new) \<and>
      (if frame_due self inp l'
       then \<exists>g. new = [(in_now inp, in_now_frame inp, g)] \<and> frame_copy self inp g
       else new = [])))"
proof -
  have steps: "\<forall>(s, i)\<in>set steps. image_sized s i \<and> 0 < in_now_start i" using assms(2) by simp
  have sized: "image_sized self inp" using assms(2) by simp
  obtain r l' log where run: "drd_x11_capture_thread m steps capture_loop_init q =
      Some (r, l', fold (\<lambda>(_, _, f) q. drd_frame_queue_push q f) log q, log)"
    and log: "logged_ok steps log"
    using thread_run [OF steps, of m capture_loop_init q] metrics_interval_bounds [OF assms(1)]
    by (auto simp: capture_loop_init_def)
  obtain r2 l2 f where it: "drd_x11_capture_thread_iteration m self inp l' = Some (r2, l2, f)"
    and f: "if frame_due self inp l' then \<exists>g. f = Some g \<and> frame_copy self inp g else f = None"
    using iteration_captures [OF sized] by blast
  have "\<exists>r2 l2 new. drd_x11_capture_thread m (steps @ [(self, inp)]) capture_loop_init q =
        Some (r2, l2, fold (\<lambda>(_, _, f) q. drd_frame_queue_push q f) (log @ new) q, log @ new) \<and>
      (if frame_due self inp l'
       then \<exists>g. new = [(in_now inp, in_now_frame inp, g)] \<and> frame_copy self inp g
       else new = [])" if "r = Again"
    using f it run that by (cases "frame_due self inp l'") (auto simp: thread_append)
  with run log show ?thesis unfolding logged_ok_def by blast
qed

text \<open>
  C29: the thread keeps the configured rate: between two frames of a run lie at least as many
  whole intervals as there are frames strictly between them, measured from the time stamp of
  the first to the clock reading that admitted the second. So no window of length \<open>W\<close> holds
  more than \<open>W / interval + 2\<close> frames, however irregular the damage events and the clock are.
\<close>

theorem capture_paced:
  assumes "metrics_ok m" "\<forall>(s, inp)\<in>set steps. image_sized s inp \<and> 0 < in_now_start inp"
    "drd_x11_capture_thread m steps capture_loop_init q = Some (r, l', q', log)"
    "j < k" "k < length log"
  shows "fst (snd (log ! j)) + int (k - j - 1) * drd_capture_metrics_get_target_interval_us m
    \<le> fst (log ! k)"
proof -
  have "paced (cached_target_interval_us m) 0 log"
    using thread_run [OF assms(2), of m capture_loop_init q] metrics_interval_bounds [OF assms(1)]
      assms(3) by (auto simp: capture_loop_init_def)
  with assms(4,5) show ?thesis
    by (simp add: paced_def drd_capture_metrics_get_target_interval_us_def)
qed

definition witness_capture :: x11_capture where
  "witness_capture = drd_x11_capture_init\<lparr>cx_running := True, cx_display := True,
     cx_image := Some \<lparr>bytes_per_line = 8, im_height = 1, im_data = True\<rparr>, cx_damage := 5,
     cx_damage_event_base := 91, cx_width := 2, cx_height := 1, cx_pipe_read := 3,
     cx_pipe_write := 4\<rparr>"

definition witness_inputs :: "int \<Rightarrow> loop_inputs" where
  "witness_inputs t = \<lparr>in_now_start = t, in_poll = Poll_ready True False, in_pipe_bytes = 0,
     in_events = [91], in_now = t + 10, in_image = Some [1, 2, 3, 4, 5, 6, 7, 8],
     in_now_frame = t + 20, in_fresh = (\<lambda>_. 0)\<rparr>"

definition witness_steps :: "(x11_capture \<times> loop_inputs) list" where
  "witness_steps = map (\<lambda>t. (witness_capture, witness_inputs t)) [1000, 2000, 40000]"

lemma witness_steps_ok:
  "\<forall>(s, inp)\<in>set witness_steps. image_sized s inp \<and> 0 < in_now_start inp"
  by (simp add: witness_steps_def image_sized_def witness_capture_def witness_inputs_def)

lemmas witness_run = witness_capture_def witness_inputs_def drd_x11_capture_thread_iteration_def
  capture_loop_init_def wake_drained_def capture_frame_def build_frame_copy update_stats_def
  advance_deadline_def metrics_defaults_def drd_capture_metrics_get_target_interval_us_def
  drd_capture_metrics_get_stats_interval_us_def XDamageNotify_def G_USEC_PER_SEC_def Let_def

theorem captured_frames_exact_witness:
  "\<exists>r l' log. drd_x11_capture_thread metrics_defaults (witness_steps @ [(witness_capture, witness_inputs 80000)])
      capture_loop_init drd_frame_queue_init =
      Some (r, l', fold (\<lambda>(_, _, f) q. drd_frame_queue_push q f) log drd_frame_queue_init, log) \<and>
     length log = 3 \<and> (\<forall>(t, n, f)\<in>set (butlast log). pixels f = [1, 2, 3, 4, 5, 6, 7, 8])"
proof -
  let ?run = "\<lambda>steps. drd_x11_capture_thread metrics_defaults steps capture_loop_init drd_frame_queue_init"
  let ?more = "witness_steps @ [(witness_capture, witness_inputs 80000)]"
  have ok: "\<forall>(s, i)\<in>set ?more. image_sized s i \<and> 0 < in_now_start i"
    using witness_steps_ok by (simp add: image_sized_def witness_capture_def witness_inputs_def)
  have len: "case ?run witness_steps of None \<Rightarrow> False | Some (r, l', q', log) \<Rightarrow> length log = 2 \<and> r = Again \<and>
      frame_due witness_capture (witness_inputs 80000) l'"
    by (simp add: witness_steps_def witness_run frame_due_def)
  have eight: "pixels f = [1, 2, 3, 4, 5, 6, 7, 8]" if "(s, i) \<in> set witness_steps" "frame_copy s i f" for s i f
    using that by (auto simp: witness_steps_def frame_copy_def witness_capture_def witness_inputs_def)
  from captured_frames_exact [OF metrics_defaults_ok ok, of drd_frame_queue_init] len show ?thesis
    using eight by (fastforce split: option.splits simp: butlast_append)
qed

theorem capture_paced_witness:
  "\<exists>r l' q' log. drd_x11_capture_thread metrics_defaults witness_steps capture_loop_init
      drd_frame_queue_init = Some (r, l', q', log) \<and> length log = 2 \<and>
     fst (snd (log ! 0)) \<le> fst (log ! 1)"
proof -
  have "case drd_x11_capture_thread metrics_defaults witness_steps capture_loop_init
      drd_frame_queue_init of None \<Rightarrow> False | Some (r, l', q', log) \<Rightarrow> length log = 2"
    by (simp add: witness_steps_def witness_run)
  then obtain r l' q' log where run: "drd_x11_capture_thread metrics_defaults witness_steps
      capture_loop_init drd_frame_queue_init = Some (r, l', q', log)" and len: "length log = 2"
    by (auto split: option.splits)
  have "fst (snd (log ! 0)) \<le> fst (log ! 1)"
    using capture_paced [OF metrics_defaults_ok witness_steps_ok run, of 0 1] len by simp
  with run len show ?thesis by blast
qed

text \<open>
  The event that reports damage is consumed before the deadline is looked at: damage that
  arrives early is forgotten, and without further damage no later iteration captures it,
  however long it runs.
\<close>

lemma early_damage_is_lost:
  assumes "cx_image self = Some img" "cx_running self" "cx_display self"
    "in_poll early = Poll_ready True False" "cx_damage_event_base self + XDamageNotify \<in> set (in_events early)"
    "0 < next_capture_deadline l" "in_now early < next_capture_deadline l"
    "\<forall>inp\<in>set later. in_events inp = [] \<and> (\<forall>b. in_poll inp \<noteq> Poll_ready b True)"
  shows "drd_x11_capture_thread m (map (Pair self) (early # later)) l q = Some (Again, l, q, [])"
proof -
  have quiet: "drd_x11_capture_thread_iteration m self inp l = Some (Again, l, None)"
    if "\<forall>b. in_poll inp \<noteq> Poll_ready b True"
      "cx_damage_event_base self + XDamageNotify \<notin> set (in_events inp)
         \<or> in_now inp < next_capture_deadline l" for inp
  proof -
    have "\<not> wake_drained self (in_poll inp)"
      using that(1) by (auto simp: wake_drained_def split: poll_answer.splits)
    moreover have "capture_frame m self img inp l = Some (l, None)"
      using that(2) by (auto simp: capture_frame_def Let_def)
    ultimately show ?thesis
      using assms(1-3,6) by (simp add: drd_x11_capture_thread_iteration_def)
  qed
  have "drd_x11_capture_thread m (map (Pair self) inps) l q = Some (Again, l, q, [])"
    if "\<forall>inp\<in>set inps. drd_x11_capture_thread_iteration m self inp l = Some (Again, l, None)"
    for inps
    using that by (induction inps) simp_all
  moreover have "\<forall>inp\<in>set (early # later).
      drd_x11_capture_thread_iteration m self inp l = Some (Again, l, None)"
    using assms(4,7,8) by (auto intro!: quiet)
  ultimately show ?thesis by blast
qed

subsection \<open>Stopping the thread\<close>

text \<open>
  The stop protocol as interleaved steps. The thread reads the state under the mutex at the
  top of its loop and then polls with that snapshot; \<open>stop\<close> clears the flag, writes one byte
  to the pipe and joins. \<open>g_poll\<close> reports the pipe readable exactly when it holds bytes, may
  be interrupted, and may time out when nothing is readable.
\<close>

datatype thread_pc = At_top | Polling x11_capture | In_read | Ended

datatype stop_pc = Not_called | Flag_cleared | Joining | Stop_returned

record stop_sys =
  ss_capture :: x11_capture
  ss_bytes :: nat
  ss_loop :: capture_loop
  ss_thread :: thread_pc
  ss_stop :: stop_pc

definition poll_consistent :: "nat \<Rightarrow> loop_inputs \<Rightarrow> bool" where
  "poll_consistent n inp \<longleftrightarrow> in_pipe_bytes inp = n \<and>
     (case in_poll inp of Poll_error \<Rightarrow> True | Poll_timeout \<Rightarrow> n = 0
      | Poll_ready x wake \<Rightarrow> wake = (0 < n))"

text \<open>The thread's step from the poll to the top of the loop.\<close>

definition poll_step :: "capture_metrics \<Rightarrow> loop_inputs \<Rightarrow> x11_capture \<Rightarrow> stop_sys \<Rightarrow> stop_sys option" where
  "poll_step m inp snap s =
     map_option (\<lambda>(r, l, _).
       (if wake_drained snap (in_poll inp) then s\<lparr>ss_bytes := 0\<rparr> else s)\<lparr>ss_loop := l,
         ss_thread := (case r of Leave \<Rightarrow> Ended | Again \<Rightarrow> At_top | Blocked_in_read \<Rightarrow> In_read)\<rparr>)
       (drd_x11_capture_thread_iteration m snap inp (ss_loop s))"

definition at_top_step :: "stop_sys \<Rightarrow> stop_sys" where
  "at_top_step s = s\<lparr>ss_thread :=
     (if cx_running (ss_capture s) \<and> cx_display (ss_capture s) \<and> cx_image (ss_capture s) \<noteq> None
      then Polling (ss_capture s) else Ended)\<rparr>"

inductive stop_trans :: "capture_metrics \<Rightarrow> stop_sys \<Rightarrow> stop_sys \<Rightarrow> bool" for m where
  top: "ss_thread s = At_top \<Longrightarrow> stop_trans m s (at_top_step s)"
| poll: "ss_thread s = Polling snap \<Longrightarrow> poll_consistent (ss_bytes s) inp \<Longrightarrow>
     image_sized snap inp \<Longrightarrow> poll_step m inp snap s = Some s' \<Longrightarrow> stop_trans m s s'"
| clear: "ss_stop s = Not_called \<Longrightarrow> cx_running (ss_capture s) \<Longrightarrow>
     stop_trans m s (s\<lparr>ss_capture := fst (stop_request (ss_capture s)), ss_stop := Flag_cleared\<rparr>)"
| wake_up: "ss_stop s = Flag_cleared \<Longrightarrow>
     stop_trans m s (s\<lparr>ss_bytes := ss_bytes s + 1, ss_stop := Joining\<rparr>)"
| join: "ss_stop s = Joining \<Longrightarrow> ss_thread s = Ended \<Longrightarrow>
     stop_trans m s (s\<lparr>ss_capture := fst (stop_finish (ss_capture s)), ss_stop := Stop_returned\<rparr>)"

text \<open>A started capture: the thread is new and the pipe empty.\<close>

definition stop_start :: "x11_capture \<Rightarrow> stop_sys" where
  "stop_start c = \<lparr>ss_capture = c, ss_bytes = 0, ss_loop = capture_loop_init, ss_thread = At_top,
     ss_stop = Not_called\<rparr>"

inductive stop_reachable :: "capture_metrics \<Rightarrow> x11_capture \<Rightarrow> stop_sys \<Rightarrow> bool" for m c where
  start: "stop_reachable m c (stop_start c)"
| step: "stop_reachable m c s \<Longrightarrow> stop_trans m s s' \<Longrightarrow> stop_reachable m c s'"

definition started :: "x11_capture \<Rightarrow> bool" where
  "started c \<longleftrightarrow> cx_running c \<and> cx_display c \<and> cx_image c \<noteq> None \<and>
     0 \<le> cx_pipe_read c \<and> 0 \<le> cx_pipe_write c"

text \<open>The invariant of the protocol: only \<open>stop\<close> writes to the pipe; the byte is unread while
  the thread has not blocked; a snapshot is that of the started capture.\<close>

definition stop_inv :: "x11_capture \<Rightarrow> stop_sys \<Rightarrow> bool" where
  "stop_inv c s \<longleftrightarrow>
     (case ss_thread s of Polling snap \<Rightarrow> snap = c
      | In_read \<Rightarrow> ss_bytes s = 0 \<and> ss_stop s = Joining | _ \<Rightarrow> True) \<and>
     (case ss_stop s of
        Not_called \<Rightarrow> ss_capture s = c \<and> ss_bytes s = 0 \<and> ss_thread s \<noteq> Ended
      | Flag_cleared \<Rightarrow> ss_capture s = c\<lparr>cx_running := False\<rparr> \<and> ss_bytes s = 0
      | Joining \<Rightarrow> ss_capture s = c\<lparr>cx_running := False\<rparr> \<and>
          ss_bytes s = (if ss_thread s = In_read then 0 else 1)
      | Stop_returned \<Rightarrow> ss_thread s = Ended)"

lemma poll_step_cases:
  assumes "started c" "poll_consistent (ss_bytes s) inp" "poll_step m inp c s = Some s'"
  shows "(in_poll inp \<noteq> Poll_error \<and> 0 < ss_bytes s \<and>
           (\<exists>l. s' = s\<lparr>ss_bytes := 0, ss_loop := l, ss_thread := In_read\<rparr>)) \<or>
         ((in_poll inp = Poll_error \<or> ss_bytes s = 0) \<and>
           (\<exists>l. s' = s\<lparr>ss_loop := l, ss_thread := At_top\<rparr>))"
proof -
  obtain img where c: "cx_image c = Some img" "cx_running c" "cx_display c" "0 \<le> cx_pipe_read c"
    "0 \<le> cx_pipe_write c"
    using assms(1) by (auto simp: started_def)
  have drain: "drd_x11_capture_drain_wakeup_pipe (cx_pipe_read c) True n = None" for n
    using c by (simp add: drd_x11_capture_drain_wakeup_pipe_def drain_loop_blocks)
  show ?thesis
  proof (cases "in_poll inp")
    case Poll_error
    with assms(3) c have "\<exists>l. s' = s\<lparr>ss_loop := l, ss_thread := At_top\<rparr>"
      by (auto simp: poll_step_def drd_x11_capture_thread_iteration_def Let_def wake_drained_def)
    with Poll_error show ?thesis by blast
  next
    case Poll_timeout
    then have "\<not> wake_drained c (in_poll inp)" "ss_bytes s = 0"
      using assms(2) by (simp_all add: wake_drained_def poll_consistent_def)
    moreover from this Poll_timeout assms(3) c have "\<exists>l. s' = s\<lparr>ss_loop := l, ss_thread := At_top\<rparr>"
      by (auto simp: poll_step_def drd_x11_capture_thread_iteration_def Let_def)
    ultimately show ?thesis by blast
  next
    case (Poll_ready x wake)
    then have w: "wake_drained c (in_poll inp) = wake" "wake = (0 < ss_bytes s)"
      using assms(2) c by (simp_all add: wake_drained_def poll_consistent_def)
    show ?thesis
    proof (cases wake)
      case True
      with assms(3) c w Poll_ready have
        "\<exists>l. s' = s\<lparr>ss_bytes := 0, ss_loop := l, ss_thread := In_read\<rparr>"
        by (auto simp: poll_step_def drd_x11_capture_thread_iteration_def Let_def drain)
      with True w Poll_ready show ?thesis by simp
    next
      case False
      with assms(3) c w Poll_ready have "\<exists>l. s' = s\<lparr>ss_loop := l, ss_thread := At_top\<rparr>"
        by (auto simp: poll_step_def drd_x11_capture_thread_iteration_def Let_def)
      with False w show ?thesis by blast
    qed
  qed
qed

lemma stop_trans_inv:
  assumes "started c" "stop_inv c s" "stop_trans m s s'"
  shows "stop_inv c s'"
  using assms(3,2)
proof (cases rule: stop_trans.cases)
  case (poll snap inp)
  then have "snap = c" using assms(2) by (simp add: stop_inv_def)
  from poll_step_cases [OF assms(1) poll(2) poll(4) [unfolded this]] show ?thesis
    using assms(2) poll(1) by (auto simp: stop_inv_def split: stop_pc.splits)
qed (use assms(1) in \<open>auto simp: stop_inv_def at_top_step_def stop_request_def started_def
       split: stop_pc.splits thread_pc.splits if_splits\<close>)

lemma stop_reachable_inv:
  assumes "stop_reachable m c s" "started c"
  shows "stop_inv c s"
  using assms(1)
proof induction
  case start
  then show ?case by (simp add: stop_inv_def stop_start_def)
next
  case (step s s')
  with assms(2) show ?case by (blast intro: stop_trans_inv)
qed

text \<open>
  C25: how \<open>drd_x11_capture_stop\<close> can end. While it waits for the thread: a thread at the top
  of its loop leaves it, and once the thread has ended the stop can return; but a thread that
  was already polling reads the wake-up byte and, unless the poll was interrupted by a signal,
  then reads the emptied blocking pipe a second time, and from there neither it nor the stop
  has any further step: the join never returns.
\<close>

theorem capture_stop_outcome:
  assumes "started c" "stop_reachable m c s" "ss_stop s = Joining"
  shows "case ss_thread s of
      Ended \<Rightarrow> \<exists>s'. stop_trans m s s' \<and> ss_stop s' = Stop_returned
    | At_top \<Rightarrow> (\<forall>s'. stop_trans m s s' \<longrightarrow> ss_thread s' = Ended)
    | Polling snap \<Rightarrow> (\<forall>inp s'. poll_consistent (ss_bytes s) inp \<and>
        poll_step m inp snap s = Some s' \<longrightarrow>
          ss_thread s' = (if in_poll inp = Poll_error then At_top else In_read))
    | In_read \<Rightarrow> (\<nexists>s'. stop_trans m s s')"
proof -
  have inv: "stop_inv c s" by (rule stop_reachable_inv [OF assms(2,1)])
  then have cap: "\<not> cx_running (ss_capture s)" using assms(3) by (simp add: stop_inv_def)
  show ?thesis
  proof (cases "ss_thread s")
    case At_top
    then show ?thesis
      using assms(3) cap by (auto elim!: stop_trans.cases simp: at_top_step_def)
  next
    case (Polling snap)
    then have snap: "snap = c" "0 < ss_bytes s"
      using inv assms(3) by (simp_all add: stop_inv_def)
    have "ss_thread s' = (if in_poll inp = Poll_error then At_top else In_read)"
      if "poll_consistent (ss_bytes s) inp" "poll_step m inp c s = Some s'" for inp s'
      using poll_step_cases [OF assms(1) that] snap(2) by auto
    with Polling snap show ?thesis by simp
  next
    case In_read
    then show ?thesis using assms(3) by (auto elim!: stop_trans.cases)
  next
    case Ended
    then show ?thesis
      using stop_trans.join [OF assms(3) Ended, of m] by (auto intro!: exI)
  qed
qed

text \<open>The hang is reached: the thread polls, \<open>stop\<close> runs up to the join, the poll returns.\<close>

theorem capture_stop_outcome_witness:
  "\<exists>s. stop_reachable metrics_defaults witness_capture s \<and> ss_stop s = Joining \<and>
     ss_thread s = In_read \<and> (\<nexists>s'. stop_trans metrics_defaults s s')"
proof -
  let ?m = metrics_defaults and ?c = witness_capture
  let ?inp = "(witness_inputs 1000)\<lparr>in_poll := Poll_ready False True, in_pipe_bytes := 1\<rparr>"
  define s0 where "s0 = stop_start ?c"
  define s1 where "s1 = at_top_step s0"
  define s2 where "s2 = s1\<lparr>ss_capture := fst (stop_request (ss_capture s1)), ss_stop := Flag_cleared\<rparr>"
  define s3 where "s3 = s2\<lparr>ss_bytes := ss_bytes s2 + 1, ss_stop := Joining\<rparr>"
  have st: "started ?c" by (simp add: started_def witness_capture_def)
  have f1: "ss_thread s1 = Polling ?c" "ss_stop s1 = Not_called" "ss_capture s1 = ?c"
    using st by (simp_all add: s1_def s0_def at_top_step_def stop_start_def started_def)
  have f3: "ss_thread s3 = Polling ?c" "ss_stop s3 = Joining" "ss_bytes s3 = 1"
    using f1 by (simp_all add: s3_def s2_def s1_def s0_def at_top_step_def stop_start_def)
  have "wake_drained ?c (in_poll ?inp)"
    by (simp add: wake_drained_def witness_capture_def)
  moreover have "drd_x11_capture_drain_wakeup_pipe (cx_pipe_read ?c) (0 \<le> cx_pipe_write ?c) n = None"
    for n by (simp add: drd_x11_capture_drain_wakeup_pipe_def witness_capture_def drain_loop_blocks)
  ultimately obtain s4 where s4: "poll_step ?m ?inp ?c s3 = Some s4"
    using st by (auto simp: poll_step_def drd_x11_capture_thread_iteration_def started_def Let_def)
  have pc: "poll_consistent (ss_bytes s3) ?inp" by (simp add: poll_consistent_def f3)
  have "stop_reachable ?m ?c s1"
    unfolding s1_def s0_def
    by (rule stop_reachable.step [OF stop_reachable.start stop_trans.top]) (simp add: stop_start_def)
  then have "stop_reachable ?m ?c s2"
    unfolding s2_def using f1 st
    by (intro stop_reachable.step [OF _ stop_trans.clear]) (simp_all add: started_def)
  then have r3: "stop_reachable ?m ?c s3"
    unfolding s3_def by (intro stop_reachable.step [OF _ stop_trans.wake_up]) (simp_all add: s2_def)
  have "image_sized ?c ?inp"
    by (simp add: image_sized_def witness_capture_def witness_inputs_def)
  then have r4: "stop_reachable ?m ?c s4"
    by (intro stop_reachable.step [OF r3 stop_trans.poll [OF f3(1) pc _ s4]])
  have t4: "ss_thread s4 = In_read" "ss_stop s4 = Joining"
    using poll_step_cases [OF st pc s4] f3 by auto
  with r4 capture_stop_outcome [OF st r4 t4(2)] show ?thesis by auto
qed

end
