(* ===== verification/Spec2Isabelle.thy ===== *)
theory Spec2Isabelle
  imports Config_File Drd_Log Graphics_Caps Program
    Qt_Placeholders Qt_Routing_Token Rdp_Direct_Input System_Daemon_Service
    X11_Capture_Thread
begin

text \<open>
  A verification development for deepin-remote-desktop, the RDP server daemon of the deepin
  desktop (C, under \<^verbatim>\<open>src/\<close>), and for its port to Qt (C++, under \<^verbatim>\<open>qt/\<close>).

  \<^bold>\<open>The program.\<close> A capture thread grabs the X11 screen into frames and pushes them into a
  bounded queue (\<^verbatim>\<open>capture/\<close>, \<^verbatim>\<open>utils/drd_frame_queue.c\<close>). The render thread of a session
  (\<^verbatim>\<open>session/drd_rdp_session.c\<close>) waits for capacity in the RDPGFX pipeline
  (\<^verbatim>\<open>session/drd_rdp_graphics_pipeline.c\<close>), takes the next frame through the server runtime
  (\<^verbatim>\<open>core/drd_server_runtime.c\<close>) and lets the encoding manager
  (\<^verbatim>\<open>encoding/drd_encoding_manager.c\<close>) compare it with the last frame sent, choose a codec,
  compress it and hand it to the channel. Channel callbacks negotiate capabilities and
  acknowledge frames. In system mode the daemon (\<^verbatim>\<open>system/drd_system_daemon.c\<close>) probes every
  new connection for a routing token (\<^verbatim>\<open>transport/drd_rdp_routing_token.c\<close>) and keeps a
  registry of clients that are handed from the greeter to the user's session over D-Bus.

  \<^bold>\<open>Conventions.\<close> A struct is a record, an enum a datatype, a C function a definition of its
  own name, with the whole state passed and returned. A \<open>gboolean\<close> with a \<open>GError\<close> is a
  value of \<open>'a res\<close>. An outer \<open>option\<close> is \<open>None\<close> for an access outside a buffer, a failed
  assertion or a freed object, so memory safety is a theorem. Libraries (FreeRDP, FFmpeg, X11,
  GLib's clock and random numbers) are parameters that answer each call; nothing is assumed of
  them except where a named predicate says so (\<open>flags_ok\<close>: FreeRDP's codec flags are distinct
  bits; \<open>settings_work\<close>: setting a known FreeRDP boolean succeeds; \<open>stream_grows\<close>: a stream that
  grows has the room it was asked for; \<open>peer_has_settings\<close>: a peer's context has settings). Code under a mutex is one
  step of an interleaving; blocking waits are split at the wait. The encoder has no lock:
  an encode during which another thread takes its contexts away is a crash (\<open>ec_interrupted\<close>).
  Joining a thread that cannot end is \<open>None\<close> where the session joins its own threads; the models
  of the runtime and the capture describe the state in which their stop returns, and
  \<open>capture_stop_outcome\<close> decides when the capture thread ends. Log output is dropped.

  \<^bold>\<open>The theories.\<close>
  \<^item> \<open>Drd_Prelude\<close>: C integers, error results, crash-freedom (\<open>returns\<close>), lemmas on ring
    indices and on writing distinct cells.
  \<^item> \<open>Frame\<close>, \<open>Frame_Queue\<close>, \<open>Frame_Queue_Wait\<close> (\<^verbatim>\<open>utils/drd_frame.c\<close>,
    \<^verbatim>\<open>utils/drd_frame_queue.c\<close>): the frame buffer, the ring buffer as a refinement of a bounded
    lossy queue (locale \<open>lossy_queue\<close>, interpreted on the ring buffer), and its blocking wait
    with producers and other waiters: no lost wake-up, no lost or duplicated frame.
  \<^item> \<open>Doubles\<close>, \<open>Encoding_Options\<close> (\<^verbatim>\<open>core/drd_encoding_options.h\<close>): doubles as rounded
    rationals, with infinities and NaN where a file can set one; the encoding options.
  \<^item> \<open>Encoding_Manager\<close>, \<open>Encoding_Tiles\<close>, \<open>Encoding_Diff\<close>, \<open>Encoding_Codecs\<close>,
    \<open>Encode_Surface\<close>, \<open>Encode_Surface_Safety\<close> (\<^verbatim>\<open>encoding/drd_encoding_manager.c\<close>): the
    encoder's state and refresh book-keeping; the tile hash and the comparison, bit for bit;
    what the comparison guarantees; the codec contexts; the encoding of one frame in its four
    codec arms; and its safety, its reference-frame invariant and the exact set of tiles sent.
  \<^item> \<open>Graphics_Pipeline\<close>, \<open>Graphics_Caps\<close>, \<open>Graphics_Flow\<close>
    (\<^verbatim>\<open>session/drd_rdp_graphics_pipeline.c\<close>): the pipeline's operations, the capability
    negotiation, and the back-pressure with its blocking wait.
  \<^item> \<open>Routing_Token\<close> (\<^verbatim>\<open>transport/drd_rdp_routing_token.c\<close>): the probe of the first packet,
    inside its bounds and inverse to the client's encoding of a token.
  \<^item> \<open>System_Daemon\<close>, \<open>System_Daemon_Safety\<close>, \<open>System_Daemon_Service\<close>
    (\<^verbatim>\<open>system/drd_system_daemon.c\<close>): the hand-over registry over an explicit store of clients: no
    use after free, first come first served, tokens lead back to their clients; the listener and
    the bus around it, brought up and taken down all together.
  \<^item> \<open>Capture_Metrics\<close>, \<open>X11_Capture\<close>, \<open>X11_Capture_Safety\<close>, \<open>X11_Capture_Thread\<close>
    (\<^verbatim>\<open>utils/drd_capture_metrics.c\<close>, \<^verbatim>\<open>capture/drd_x11_capture.c\<close>): the X11 capture, the
    ledger of its resources, and its thread: exact copies, pacing, and how a stop can end.
  \<^item> \<open>X11_Input\<close>, \<open>X11_Input_Safety\<close> (\<^verbatim>\<open>input/drd_x11_input.c\<close>,
    \<^verbatim>\<open>input/drd_input_dispatcher.c\<close>): key translation with its cache, which changes nothing the
    X server sees, and the scaling of the pointer, accurate to a pixel.
  \<^item> \<open>Service\<close>, \<open>Capture_Manager\<close>, \<open>Server_Runtime\<close>, \<open>Server_Runtime_Safety\<close>,
    \<open>Server_Runtime_Pull\<close> (\<^verbatim>\<open>capture/drd_capture_manager.c\<close>, \<^verbatim>\<open>core/drd_server_runtime.c\<close>): the
    contracts \<open>starter\<close> and \<open>service\<close> of what can be started and stopped and their chain with
    roll-back (\<open>service_chain\<close>), interpreted on encoder, input, capture and the runtime itself;
    a stream is all or nothing; pulling a frame composes queue and encoder and crashes exactly
    when another thread takes the contexts of the encoder away, which has no lock.
  \<^item> \<open>Config\<close>, \<open>Config_Safety\<close>, \<open>Config_File\<close> (\<^verbatim>\<open>core/drd_config.c\<close>): defaults, key file and
    command line; every configuration is well formed (but for a threshold of NaN) and
    accepted by the encoder, the merge is its specification, key files and configurations are
    inverse.
  \<^item> \<open>Tls_Credentials\<close>, \<open>Application\<close> (\<^verbatim>\<open>security/drd_tls_credentials.c\<close>,
    \<^verbatim>\<open>core/drd_application.c\<close>): the credentials over a store of FreeRDP objects, without double
    free or leak; the application from its command line to the main loop, which a start
    reaches only with a configuration that may run and what its mode needs.
  \<^item> \<open>Program\<close>, \<open>Drd_Log\<close> (\<^verbatim>\<open>main.cpp\<close>, \<^verbatim>\<open>utils/drd_log.c\<close>): the credentials from the
    program's start to its exit (of the main loop only what it does with them); the line written for a message and the one-time installation of
    the writer.
  \<^item> \<open>Rdp_Session\<close>, \<open>Rdp_Session_Loops\<close>, \<open>Rdp_Session_Safety\<close>, \<open>Rdp_Session_Render\<close>,
    \<open>Rdp_Session_Life\<close>, \<open>Rdp_Redirection\<close> (\<^verbatim>\<open>session/drd_rdp_session.c\<close>): one session, its
    operations as run by its threads (joining oneself, or a render thread that is asleep for good,
    never ends), one iteration of the channel and of the render thread; a render iteration is safe
    in every reachable state unless its encodes are disturbed, the closed callback comes once for
    every time it is set anew, an activation is all or nothing, a redirection is complete or not
    sent.
  \<^item> \<open>Nla_Sam\<close>, \<open>Local_Session\<close>, \<open>System_Info\<close> (\<^verbatim>\<open>security/drd_nla_sam.c\<close>,
    \<^verbatim>\<open>security/drd_local_session.c\<close>, \<^verbatim>\<open>utils/drd_system_info.c\<close>): the account database of NLA,
    whose entry reads back; the PAM session over an automaton of PAM's protocol; the detection of
    a virtual machine.
  \<^item> \<open>Rdp_Listener\<close>, \<open>Rdp_Peer_Settings\<close>, \<open>Rdp_Accept\<close>, \<open>Rdp_Accept_Safety\<close>,
    \<open>Rdp_Listener_Safety\<close>, \<open>Rdp_Direct_Input\<close> (\<^verbatim>\<open>transport/drd_rdp_listener.c\<close>): the settings of a
    connection and what they always say; accepting, FreeRDP's callbacks and the service; one
    session at a time over every interleaving of the main loop and the peers' threads, and what a
    refused connection leaks; the login
    of TLS-only connections; the input handlers that the code does not install.
  \<^item> \<open>Handover_Daemon\<close>, \<open>Handover_Safety\<close> (\<^verbatim>\<open>system/drd_handover_daemon.c\<close>): the hand-over daemon
    on top of listener, session and redirection: what a start agrees on, and when a
    redirection is sent, returns, and what it leaves.

  The Qt port (C++, under \<^verbatim>\<open>src/qt/\<close>), which the top-level build file installs, repeats parts of
  the daemon over Qt types. Its models use the daemon's records and answers where the code keeps
  the same data, so that the two can be compared.
  \<^item> \<open>Qt_Routing_Token\<close>, \<open>Qt_Tls\<close>, \<open>Qt_Graphics\<close> (\<^verbatim>\<open>qt/transport/drd_transport.cpp\<close>,
    \<^verbatim>\<open>qt/security/drd_tls_credentials.cpp\<close>, \<^verbatim>\<open>qt/session/drd_rdp_graphics_pipeline.cpp\<close>): the
    probe, the credentials and the pipeline of the port, equal to the daemon's on stated inputs
    (probe, credentials) or a refinement of it (pipeline), with the inputs where they differ.
  \<^item> \<open>Qt_Session\<close>, \<open>Qt_Session_Safety\<close> (\<^verbatim>\<open>qt/session/drd_rdp_session.cpp\<close>): one session; an
    operation is done, aborts the process or overflows the stack, and which one is decided.
  \<^item> \<open>Qt_Config\<close>, \<open>Qt_Listener\<close>, \<open>Qt_Daemons\<close>, \<open>Qt_Application\<close> (\<^verbatim>\<open>qt/core/drd_config.cpp\<close>,
    \<^verbatim>\<open>qt/transport/drd_transport.cpp\<close>, \<^verbatim>\<open>qt/system/\<close>, \<^verbatim>\<open>qt/core/drd_application.cpp\<close>,
    \<^verbatim>\<open>qt/main.cpp\<close>): the configuration and its checks; what an adopted connection gets; what the
    daemons agree on; and what the started program serves, from the command line to a connection.
  \<^item> \<open>Qt_Placeholders\<close> (\<^verbatim>\<open>qt/core/drd_runtime.cpp\<close>, \<^verbatim>\<open>qt/security/drd_security.cpp\<close>,
    \<^verbatim>\<open>qt/capture/\<close>, \<^verbatim>\<open>qt/encoding/\<close>, \<^verbatim>\<open>qt/input/\<close>): what the placeholders of the port answer.

  \<^bold>\<open>Bounds and termination.\<close> Loops over buffers are structural recursion on the list of
  visited rows, tiles or clients, so every definition terminates. Loops that depend on the
  outside are recursion over its answers (polling rounds, random numbers); running out of
  answers is the value \<open>None\<close> and means that the code is still looping. The recursion of the Qt
  port's \<open>disconnect\<close> is bounded by a depth of the stack, and a theorem decides when any depth
  is enough and when none is. Frames are bounded by
  65535 pixels on each side, by 2^32 bytes and by 65535 tiles (\<open>frame_ok\<close>, \<open>frame_valid\<close>),
  which the 16-bit fields of the protocol and the assertions of the code require.

  \<^bold>\<open>Not modelled.\<close> The X11, PAM, FreeRDP, GLib and Qt calls themselves, whose answers are parameters,
  the main loops, the tables of command line options, and the single log calls.
\<close>

end
